(* ===== verification/Prelude.thy ===== *)
theory Prelude
  imports Main "HOL-Library.Char_ord" "HOL-Library.List_Lexorder" "HOL-Library.Sublist"
    "HOL-Library.AList" "HOL-Library.Word"
begin

text \<open>
  The parts of the Go language and its standard library that every component of the
  control plane uses, and the generic lemmas the component theories share.

  A Go \<^verbatim>\<open>string\<close> or \<^verbatim>\<open>[]byte\<close> is a list of bytes (\<^typ>\<open>char\<close> has exactly 256 values) and
  compares bytewise, which is the order the library gives to \<^typ>\<open>string\<close> in
  \<^verbatim>\<open>Char_ord\<close> and \<^verbatim>\<open>List_Lexorder\<close>; \<^verbatim>\<open>sort.Strings\<close> is therefore \<^const>\<open>sort\<close>.
  A Go \<^verbatim>\<open>map[string]string\<close> is an association list read with \<open>mget\<close>, which gives the zero
  value for an absent key.  A \<^verbatim>\<open>time.Time\<close> is its distance from the Unix epoch in
  nanoseconds; the zero time of Go is the first instant of year 1.  An \<^verbatim>\<open>int64\<close> is an
  \<^typ>\<open>int\<close>, with \<open>int64\<close> applied wherever the code's arithmetic could leave the range.
\<close>

section \<open>Collections of rules\<close>

named_theorems go_simps "rewrite rules for the modelled parts of the Go standard library"
named_theorems frame "what an operation leaves unchanged"

section \<open>Types\<close>

type_synonym bytes = string
type_synonym smap = "(string \<times> string) list"
type_synonym instant = int
type_synonym duration = int

section \<open>Machine integers\<close>

definition int64 :: "int \<Rightarrow> int" where
  "int64 x = (x + 2 ^ 63) mod 2 ^ 64 - 2 ^ 63"

definition uint64 :: "int \<Rightarrow> nat" where
  "uint64 x = nat (x mod 2 ^ 64)"

lemma int64_id: "- (2 ^ 63) \<le> x \<Longrightarrow> x < 2 ^ 63 \<Longrightarrow> int64 x = x"
  by (simp add: int64_def)

lemma int64_range: "- (2 ^ 63) \<le> int64 x \<and> int64 x < 2 ^ 63"
proof -
  have "0 \<le> (x + 2 ^ 63) mod 2 ^ 64 \<and> (x + 2 ^ 63) mod 2 ^ 64 < (2 ^ 64 :: int)"
    by simp
  then show ?thesis
    by (simp add: int64_def)
qed

lemma uint64_less: "uint64 x < 2 ^ 64"
  by (simp add: uint64_def nat_less_iff)

lemma uint64_inj:
  assumes "- (2 ^ 63) \<le> x" "x < 2 ^ 63" "- (2 ^ 63) \<le> y" "y < 2 ^ 63"
  shows "uint64 x = uint64 y \<longleftrightarrow> x = y"
proof
  assume "uint64 x = uint64 y"
  then have "x mod 2 ^ 64 = y mod 2 ^ 64"
    by (simp add: uint64_def nat_eq_iff2)
  then have "int64 x = int64 y"
    unfolding int64_def by (metis mod_add_left_eq)
  then show "x = y"
    using assms by (simp add: int64_id)
qed simp

lemma uint64_int64 [simp]: "uint64 (int64 x) = uint64 x"
proof -
  have "(x + 2 ^ 63) mod 2 ^ 64 - 2 ^ 63 = x - 2 ^ 64 * ((x + 2 ^ 63) div 2 ^ 64)"
    by (simp add: minus_mult_div_eq_mod [symmetric])
  moreover have "(x - 2 ^ 64 * k) mod 2 ^ 64 = x mod 2 ^ 64" for k :: int
    using mod_mult_self2 [of x "2 ^ 64" "- k"] by (simp only: mult_minus_right diff_conv_add_uminus)
  ultimately show ?thesis
    by (simp add: uint64_def int64_def)
qed

section \<open>Big-endian byte encodings\<close>

text \<open>\<open>be_bytes n v\<close> is the low \<open>n\<close> bytes of \<open>v\<close>, most significant first: what
  \<^verbatim>\<open>binary.BigEndian.PutUint32\<close> (\<open>n = 4\<close>) and \<^verbatim>\<open>PutUint64\<close> (\<open>n = 8\<close>) write.\<close>

fun be_bytes :: "nat \<Rightarrow> nat \<Rightarrow> bytes" where
  "be_bytes 0 v = []"
| "be_bytes (Suc n) v = be_bytes n (v div 256) @ [char_of (v mod 256)]"

lemma length_be_bytes [simp]: "length (be_bytes n v) = n"
  by (induction n arbitrary: v) auto

lemma char_of_mod_eq: "char_of (a mod 256 :: nat) = char_of (b mod 256 :: nat) \<longleftrightarrow> a mod 256 = b mod 256"
proof
  assume "char_of (a mod 256 :: nat) = char_of (b mod 256 :: nat)"
  then have "of_char (char_of (a mod 256 :: nat)) = (of_char (char_of (b mod 256 :: nat)) :: nat)"
    by (rule arg_cong)
  then show "a mod 256 = b mod 256"
    by (simp only: of_char_of mod_mod_trivial)
qed simp

lemma be_bytes_eq_iff: "be_bytes n a = be_bytes n b \<longleftrightarrow> a mod 256 ^ n = b mod 256 ^ n"
proof (induction n arbitrary: a b)
  case 0
  then show ?case by simp
next
  case (Suc n)
  have split: "x mod 256 ^ Suc n = 256 * ((x div 256) mod 256 ^ n) + x mod 256" for x :: nat
    by (simp add: mod_mult2_eq)
  have "be_bytes (Suc n) a = be_bytes (Suc n) b \<longleftrightarrow>
      (a div 256) mod 256 ^ n = (b div 256) mod 256 ^ n \<and> a mod 256 = b mod 256"
    by (simp only: be_bytes.simps append1_eq_conv Suc.IH char_of_mod_eq)
  also have "\<dots> \<longleftrightarrow> a mod 256 ^ Suc n = b mod 256 ^ Suc n"
  proof
    assume "(a div 256) mod 256 ^ n = (b div 256) mod 256 ^ n \<and> a mod 256 = b mod 256"
    then show "a mod 256 ^ Suc n = b mod 256 ^ Suc n"
      by (simp only: split)
  next
    assume eq: "a mod 256 ^ Suc n = b mod 256 ^ Suc n"
    then have "(256 * ((a div 256) mod 256 ^ n) + a mod 256) mod 256 =
        (256 * ((b div 256) mod 256 ^ n) + b mod 256) mod 256"
      by (simp only: split)
    then have "a mod 256 = b mod 256"
      by simp
    moreover have "256 * ((a div 256) mod 256 ^ n) + a mod 256 = 256 * ((b div 256) mod 256 ^ n) + b mod 256"
      using eq by (simp only: split)
    ultimately show "(a div 256) mod 256 ^ n = (b div 256) mod 256 ^ n \<and> a mod 256 = b mod 256"
      by linarith
  qed
  finally show ?case .
qed

lemma be_bytes_inj: "a < 256 ^ n \<Longrightarrow> b < 256 ^ n \<Longrightarrow> be_bytes n a = be_bytes n b \<longleftrightarrow> a = b"
  by (simp add: be_bytes_eq_iff)

section \<open>Time\<close>

text \<open>The first instant of year 1 is 62135596800 seconds before the Unix epoch.\<close>

definition zero_time :: instant where
  "zero_time = - 62135596800 * 1000000000"

definition IsZero :: "instant \<Rightarrow> bool" where
  "IsZero t \<longleftrightarrow> t = zero_time"

text \<open>\<^verbatim>\<open>Time.UnixNano\<close> wraps to an int64; \<^verbatim>\<open>Time.Unix\<close> rounds down to seconds;
  \<^verbatim>\<open>Time.Truncate(time.Microsecond)\<close> rounds down from the zero time, which is itself a
  whole number of microseconds.\<close>

definition UnixNano :: "instant \<Rightarrow> int" where
  "UnixNano t = int64 t"

definition Unix :: "instant \<Rightarrow> int" where
  "Unix t = t div 1000000000"

definition TruncateMicrosecond :: "instant \<Rightarrow> instant" where
  "TruncateMicrosecond t = t - (t - zero_time) mod 1000"

abbreviation Second :: duration where "Second \<equiv> 1000000000"
abbreviation Minute :: duration where "Minute \<equiv> 60 * Second"
abbreviation Hour :: duration where "Hour \<equiv> 60 * Minute"

lemma TruncateMicrosecond_eq: "TruncateMicrosecond t = t div 1000 * 1000"
proof -
  have "(t - zero_time) mod 1000 = t mod 1000"
    by (simp add: zero_time_def mod_add_right_eq [symmetric, where b = "62135596800000000000"])
  then show ?thesis
    by (simp add: TruncateMicrosecond_def minus_mod_eq_div_mult)
qed

lemma TruncateMicrosecond_idem [simp]:
  "TruncateMicrosecond (TruncateMicrosecond t) = TruncateMicrosecond t"
  by (simp add: TruncateMicrosecond_eq)

section \<open>Strings\<close>

text \<open>The UTF-8 encodings of the runes \<^verbatim>\<open>unicode.IsSpace\<close> accepts: the six ASCII ones, U+0085,
  U+00A0, U+1680, U+2000 to U+200A, U+2028, U+2029, U+202F, U+205F and U+3000.\<close>

definition go_spaces :: "string list" where
  "go_spaces = [CHR ''\<newline>''] # [CHR 0x09] # [CHR 0x0B] # [CHR 0x0C] # [CHR 0x0D] # [CHR 0x20] #
     [CHR 0xC2, CHR 0x85] # [CHR 0xC2, CHR 0xA0] # [CHR 0xE1, CHR 0x9A, CHR 0x80] #
     [[CHR 0xE2, CHR 0x80, CHR 0x80], [CHR 0xE2, CHR 0x80, CHR 0x81], [CHR 0xE2, CHR 0x80, CHR 0x82],
      [CHR 0xE2, CHR 0x80, CHR 0x83], [CHR 0xE2, CHR 0x80, CHR 0x84], [CHR 0xE2, CHR 0x80, CHR 0x85],
      [CHR 0xE2, CHR 0x80, CHR 0x86], [CHR 0xE2, CHR 0x80, CHR 0x87], [CHR 0xE2, CHR 0x80, CHR 0x88],
      [CHR 0xE2, CHR 0x80, CHR 0x89], [CHR 0xE2, CHR 0x80, CHR 0x8A],
      [CHR 0xE2, CHR 0x80, CHR 0xA8], [CHR 0xE2, CHR 0x80, CHR 0xA9],
      [CHR 0xE2, CHR 0x80, CHR 0xAF], [CHR 0xE2, CHR 0x81, CHR 0x9F],
      [CHR 0xE3, CHR 0x80, CHR 0x80]]"

lemma go_spaces_nonempty: "p \<in> set go_spaces \<Longrightarrow> p \<noteq> []"
  by (auto simp: go_spaces_def)

function TrimLeft :: "string \<Rightarrow> string" where
  "TrimLeft s = (case find (\<lambda>p. prefix p s) go_spaces of None \<Rightarrow> s | Some p \<Rightarrow> TrimLeft (drop (length p) s))"
  by pat_completeness auto
termination
proof (relation "measure length")
  fix s p
  assume "find (\<lambda>p. prefix p s) go_spaces = Some p"
  then have "p \<in> set go_spaces" and "prefix p s"
    by (auto simp: find_Some_iff)
  then show "(drop (length p) s, s) \<in> measure length"
    using go_spaces_nonempty [of p] prefix_length_le [of p s] by (cases p; cases s) auto
qed simp

function TrimRight :: "string \<Rightarrow> string" where
  "TrimRight s = (case find (\<lambda>p. suffix p s) go_spaces of None \<Rightarrow> s
     | Some p \<Rightarrow> TrimRight (take (length s - length p) s))"
  by pat_completeness auto
termination
proof (relation "measure length")
  fix s p
  assume "find (\<lambda>p. suffix p s) go_spaces = Some p"
  then have "p \<in> set go_spaces" and "suffix p s"
    by (auto simp: find_Some_iff)
  then show "(take (length s - length p) s, s) \<in> measure length"
    using go_spaces_nonempty [of p] suffix_length_le [of p s] by (cases p; cases s) auto
qed simp

declare TrimLeft.simps [simp del] TrimRight.simps [simp del]

definition TrimSpace :: "string \<Rightarrow> string" where
  "TrimSpace s = TrimRight (TrimLeft s)"

lemma find_eq_NoneI: "(\<And>x. x \<in> set xs \<Longrightarrow> \<not> P x) \<Longrightarrow> find P xs = None"
  by (simp add: find_None_iff)

lemma TrimSpace_Nil [simp]: "TrimSpace [] = []"
proof -
  have "find (\<lambda>p. prefix p []) go_spaces = None" "find (\<lambda>p. suffix p []) go_spaces = None"
    using go_spaces_nonempty by (auto intro!: find_eq_NoneI)
  then show ?thesis
    by (simp add: TrimSpace_def TrimLeft.simps TrimRight.simps)
qed

text \<open>\<^verbatim>\<open>strings.Split\<close> at a one-byte separator, and \<^verbatim>\<open>strings.Join\<close>.\<close>

fun Split :: "char \<Rightarrow> string \<Rightarrow> string list" where
  "Split c [] = [[]]"
| "Split c (x # xs) = (if x = c then [] # Split c xs else
     (case Split c xs of [] \<Rightarrow> [[x]] | y # ys \<Rightarrow> (x # y) # ys))"

fun Join :: "string \<Rightarrow> string list \<Rightarrow> string" where
  "Join sep [] = []"
| "Join sep [x] = x"
| "Join sep (x # y # ys) = x @ sep @ Join sep (y # ys)"

lemma Split_nonempty [simp]: "Split c s \<noteq> []"
  by (induction s) (auto split: list.splits)

lemma Join_Split: "Join [c] (Split c s) = s"
proof (induction s)
  case (Cons x xs)
  then show ?case
    by (cases "Split c xs" rule: list.exhaust; cases "tl (Split c xs)") auto
qed simp

text \<open>\<open>mget m k\<close> is the Go expression \<^verbatim>\<open>m[k]\<close> on a \<^verbatim>\<open>map[string]string\<close>.\<close>

definition mget :: "smap \<Rightarrow> string \<Rightarrow> string" where
  "mget m k = (case map_of m k of None \<Rightarrow> [] | Some v \<Rightarrow> v)"

section \<open>Decimal numbers\<close>

fun nat_decimal :: "nat \<Rightarrow> string" where
  "nat_decimal n = (if n < 10 then [char_of (48 + n)]
     else nat_decimal (n div 10) @ [char_of (48 + n mod 10)])"

declare nat_decimal.simps [simp del]

definition FormatInt :: "int \<Rightarrow> string" where
  "FormatInt i = (if i < 0 then CHR ''-'' # nat_decimal (nat (- i)) else nat_decimal (nat i))"

definition is_digit :: "char \<Rightarrow> bool" where
  "is_digit c \<longleftrightarrow> 48 \<le> (of_char c :: nat) \<and> (of_char c :: nat) \<le> 57"

definition decimal_nat :: "string \<Rightarrow> nat" where
  "decimal_nat s = foldl (\<lambda>n c. 10 * n + (of_char c - 48)) 0 s"

text \<open>\<^verbatim>\<open>strconv.ParseInt(s, 10, 64)\<close>: an optional sign, then at least one digit, and the value
  in range; \<open>None\<close> is the returned error.\<close>

definition ParseInt :: "string \<Rightarrow> int option" where
  "ParseInt s =
     (let neg = (s \<noteq> [] \<and> hd s = CHR ''-'');
          ds = (if s \<noteq> [] \<and> (hd s = CHR ''-'' \<or> hd s = CHR ''+'') then tl s else s);
          v = (if neg then - int (decimal_nat ds) else int (decimal_nat ds))
      in if ds = [] \<or> \<not> list_all is_digit ds \<or> v < - (2 ^ 63) \<or> 2 ^ 63 \<le> v then None else Some v)"

lemma of_char_digit [simp]: "d < 10 \<Longrightarrow> (of_char (char_of (48 + d :: nat)) :: nat) = 48 + d"
  by simp

lemma is_digit_char_of [simp]: "d < 10 \<Longrightarrow> is_digit (char_of (48 + d :: nat))"
  by (simp add: is_digit_def)

lemma nat_decimal_digits: "list_all is_digit (nat_decimal n)"
proof (induction n rule: nat_decimal.induct)
  case (1 n)
  show ?case
  proof (cases "n < 10")
    case True
    then show ?thesis
      by (simp add: nat_decimal.simps [of n])
  next
    case False
    with 1 have "list_all is_digit (nat_decimal (n div 10))" by simp
    moreover have "n mod 10 < 10" by simp
    ultimately show ?thesis
      using False by (simp add: nat_decimal.simps [of n])
  qed
qed

lemma decimal_nat_snoc: "decimal_nat (s @ [c]) = 10 * decimal_nat s + (of_char c - 48)"
  by (simp add: decimal_nat_def)

lemma decimal_nat_decimal [simp]: "decimal_nat (nat_decimal n) = n"
proof (induction n rule: nat_decimal.induct)
  case (1 n)
  show ?case
  proof (cases "n < 10")
    case True
    then show ?thesis
      by (simp add: nat_decimal.simps [of n] decimal_nat_def)
  next
    case False
    with 1 have "decimal_nat (nat_decimal (n div 10)) = n div 10" by simp
    moreover have "n mod 10 < 10" by simp
    ultimately show ?thesis
      using False by (simp add: nat_decimal.simps [of n] decimal_nat_snoc)
  qed
qed

lemma nat_decimal_nonempty [simp]: "nat_decimal n \<noteq> []"
  by (simp add: nat_decimal.simps [of n])

lemma nat_decimal_inj: "inj nat_decimal"
  by (metis decimal_nat_decimal injI)

lemma FormatInt_no_dot: "CHR ''.'' \<notin> set (FormatInt n)"
proof
  assume "CHR ''.'' \<in> set (FormatInt n)"
  then have "\<exists>m. CHR ''.'' \<in> set (nat_decimal m)"
    by (auto simp: FormatInt_def split: if_splits)
  then have "is_digit (CHR ''.'')"
    using nat_decimal_digits by (metis list_all_iff)
  then show False
    by (simp add: is_digit_def)
qed

lemma append_dot_inj:
  assumes "x @ c # r = y @ c # s" "c \<notin> set x" "c \<notin> set y"
  shows "x = y \<and> r = s"
  using assms
proof (induction x arbitrary: y)
  case Nil
  then show ?case
    by (cases y) auto
next
  case (Cons a x)
  then show ?case
    by (cases y) auto
qed

lemma FormatInt_inj: "FormatInt m = FormatInt n \<Longrightarrow> m = n"
proof -
  have digit: "is_digit (hd (nat_decimal k))" for k
    using nat_decimal_digits [of k] by (metis list.set_sel(1) list_all_iff nat_decimal_nonempty)
  have sign: "nat_decimal k \<noteq> CHR ''-'' # s" for k s
    using digit [of k] by (auto simp: is_digit_def)
  assume "FormatInt m = FormatInt n"
  then show "m = n"
    using sign sign [symmetric] by (auto simp: FormatInt_def split: if_splits dest!: injD [OF nat_decimal_inj])
qed

lemma is_digit_hd_nat_decimal: "is_digit (hd (nat_decimal n))"
  using nat_decimal_digits [of n] by (cases "nat_decimal n") auto

lemma ParseInt_FormatInt: "- (2 ^ 63) \<le> i \<Longrightarrow> i < 2 ^ 63 \<Longrightarrow> ParseInt (FormatInt i) = Some i"
proof (cases "i < 0")
  case True
  assume "- (2 ^ 63) \<le> i" "i < 2 ^ 63"
  with True show ?thesis
    using nat_decimal_digits [of "nat (- i)"] by (simp add: ParseInt_def FormatInt_def Let_def)
next
  case False
  assume "- (2 ^ 63) \<le> i" "i < 2 ^ 63"
  moreover have "hd (nat_decimal (nat i)) \<noteq> CHR ''-''" "hd (nat_decimal (nat i)) \<noteq> CHR ''+''"
    using is_digit_hd_nat_decimal [of "nat i"] by (auto simp: is_digit_def)
  ultimately show ?thesis
    using False nat_decimal_digits [of "nat i"] by (simp add: ParseInt_def FormatInt_def Let_def)
qed

section \<open>Lists\<close>

text \<open>Adding an element to a list only when it is new, as a Go loop with a \<open>seen\<close> map does.\<close>

definition add_new :: "'a \<Rightarrow> 'a list \<Rightarrow> 'a list" where
  "add_new x xs = (if x \<in> set xs then xs else xs @ [x])"

lemma set_add_new [simp]: "set (add_new x xs) = insert x (set xs)"
  by (auto simp: add_new_def)

lemma distinct_add_new [simp]: "distinct (add_new x xs) = distinct xs"
  by (simp add: add_new_def)

section \<open>Results\<close>

text \<open>
  A call that returns a value and an error: \<open>result_bind\<close> is the early return on the error,
  \<open>result_map\<close> a loop that stops at the first one.
\<close>

definition result_bind :: "'e + 'a \<Rightarrow> ('a \<Rightarrow> 'e + 'b) \<Rightarrow> 'e + 'b" where
  "result_bind m f = (case m of Inl er \<Rightarrow> Inl er | Inr x \<Rightarrow> f x)"

fun result_map :: "('a \<Rightarrow> 'e + 'b) \<Rightarrow> 'a list \<Rightarrow> 'e + 'b list" where
  "result_map f [] = Inr []"
| "result_map f (x # xs) = result_bind (f x) (\<lambda>y. result_bind (result_map f xs) (\<lambda>ys. Inr (y # ys)))"

lemma result_bind_simps [simp]: "result_bind (Inl er) f = Inl er" "result_bind (Inr x) f = f x"
  by (simp_all add: result_bind_def)

lemma result_bind_Inr: "result_bind m f = Inr y \<longleftrightarrow> (\<exists>x. m = Inr x \<and> f x = Inr y)"
  by (cases m) auto

lemma result_bind_Inl: "result_bind m f = Inl er \<longleftrightarrow> m = Inl er \<or> (\<exists>x. m = Inr x \<and> f x = Inl er)"
  by (cases m) auto

lemma result_bind_split: "P (result_bind m f) \<longleftrightarrow> (\<forall>er. m = Inl er \<longrightarrow> P (Inl er)) \<and> (\<forall>x. m = Inr x \<longrightarrow> P (f x))"
  by (cases m) auto

lemma result_map_Inr: "result_map f xs = Inr ys \<longleftrightarrow> list_all2 (\<lambda>x y. f x = Inr y) xs ys"
  by (induction xs arbitrary: ys) (auto simp: result_bind_Inr list_all2_Cons1)

lemma result_map_success: "(\<And>x. x \<in> set xs \<Longrightarrow> f x = Inr (g x)) \<Longrightarrow> result_map f xs = Inr (map g xs)"
  by (induction xs) auto

end
