(* ===== verification/Json.thy ===== *)
theory Json
  imports Prelude
begin

text \<open>
  The part of \<^verbatim>\<open>encoding/json\<close> and \<^verbatim>\<open>unicode/utf8\<close> that the audit payloads go through:
  \<^verbatim>\<open>json.Valid\<close>, decoding one value into an \<^verbatim>\<open>any\<close> with \<^verbatim>\<open>UseNumber\<close>, and encoding a value
  with and without HTML escaping.

  The scanner rules are those of the Go scanner: four white-space bytes, strings without raw
  control bytes, the JSON number grammar, at most 10000 open objects and arrays.  The parser
  takes fuel; \<open>parse_fuel s\<close> is two calls for every byte and enough for every accepted input,
  because a call either consumes a byte or hands over to a function that does.
\<close>

section \<open>UTF-8\<close>

abbreviation byte :: "char \<Rightarrow> nat" where "byte c \<equiv> of_char c"

definition cont :: "char \<Rightarrow> bool" where
  "cont c \<longleftrightarrow> 0x80 \<le> byte c \<and> byte c \<le> 0xBF"

text \<open>\<open>DecodeRune s\<close>, for non-empty \<open>s\<close>, is the first rune and its size, as
  \<^verbatim>\<open>utf8.DecodeRune\<close>; an invalid encoding is U+FFFD of size 1.\<close>

abbreviation RuneError :: nat where "RuneError \<equiv> 0xFFFD"

definition second_ok :: "nat \<Rightarrow> char \<Rightarrow> bool" where
  "second_ok b0 c \<longleftrightarrow> cont c \<and> (b0 = 0xE0 \<longrightarrow> 0xA0 \<le> byte c) \<and> (b0 = 0xED \<longrightarrow> byte c \<le> 0x9F) \<and>
     (b0 = 0xF0 \<longrightarrow> 0x90 \<le> byte c) \<and> (b0 = 0xF4 \<longrightarrow> byte c \<le> 0x8F)"

definition DecodeRune :: "bytes \<Rightarrow> nat \<times> nat" where
  "DecodeRune s =
     (let b0 = byte (s ! 0) in
      if b0 < 0x80 then (b0, 1)
      else if 0xC2 \<le> b0 \<and> b0 \<le> 0xDF then
        if 2 \<le> length s \<and> second_ok b0 (s ! 1) then ((b0 - 0xC0) * 64 + (byte (s ! 1) - 0x80), 2)
        else (RuneError, 1)
      else if 0xE0 \<le> b0 \<and> b0 \<le> 0xEF then
        if 3 \<le> length s \<and> second_ok b0 (s ! 1) \<and> cont (s ! 2)
        then ((b0 - 0xE0) * 4096 + (byte (s ! 1) - 0x80) * 64 + (byte (s ! 2) - 0x80), 3)
        else (RuneError, 1)
      else if 0xF0 \<le> b0 \<and> b0 \<le> 0xF4 then
        if 4 \<le> length s \<and> second_ok b0 (s ! 1) \<and> cont (s ! 2) \<and> cont (s ! 3)
        then ((b0 - 0xF0) * 262144 + (byte (s ! 1) - 0x80) * 4096 + (byte (s ! 2) - 0x80) * 64
               + (byte (s ! 3) - 0x80), 4)
        else (RuneError, 1)
      else (RuneError, 1))"

definition EncodeRune :: "nat \<Rightarrow> bytes" where
  "EncodeRune r =
     (if r < 0x80 then [char_of r]
      else if r < 0x800 then [char_of (0xC0 + r div 64), char_of (0x80 + r mod 64)]
      else if (0xD800 \<le> r \<and> r \<le> 0xDFFF) \<or> 0x10FFFF < r then [CHR 0xEF, CHR 0xBF, CHR 0xBD]
      else if r < 0x10000 then
        [char_of (0xE0 + r div 4096), char_of (0x80 + r div 64 mod 64), char_of (0x80 + r mod 64)]
      else [char_of (0xF0 + r div 262144), char_of (0x80 + r div 4096 mod 64),
            char_of (0x80 + r div 64 mod 64), char_of (0x80 + r mod 64)])"

section \<open>Values\<close>

datatype json =
    JNull
  | JBool bool
  | JNum string
  | JStr string
  | JArr "json list"
  | JObj "(string \<times> json) list"

text \<open>Assignment to a Go map, the entry kept in place when the key is present.\<close>

definition map_put :: "string \<Rightarrow> 'v \<Rightarrow> (string \<times> 'v) list \<Rightarrow> (string \<times> 'v) list" where
  "map_put k v m = AList.update k v m"

section \<open>Scanning\<close>

definition is_ws :: "char \<Rightarrow> bool" where
  "is_ws c \<longleftrightarrow> c = CHR 0x20 \<or> c = CHR 0x09 \<or> c = CHR 0x0A \<or> c = CHR 0x0D"

definition skip_ws :: "bytes \<Rightarrow> bytes" where
  "skip_ws s = dropWhile is_ws s"

abbreviation quote_ch :: char where "quote_ch \<equiv> CHR 0x22"
abbreviation backslash :: char where "backslash \<equiv> CHR 0x5C"

definition hex_val :: "char \<Rightarrow> nat option" where
  "hex_val c = (let n = byte c in
     if 48 \<le> n \<and> n \<le> 57 then Some (n - 48)
     else if 97 \<le> n \<and> n \<le> 102 then Some (n - 87)
     else if 65 \<le> n \<and> n \<le> 70 then Some (n - 55) else None)"

definition is_hex :: "char \<Rightarrow> bool" where
  "is_hex c \<longleftrightarrow> hex_val c \<noteq> None"

definition escape_chars :: string where
  "escape_chars = [CHR ''b'', CHR ''f'', CHR ''n'', CHR ''r'', CHR ''t'', backslash, CHR ''/'', quote_ch]"

text \<open>The raw contents of a string literal after its opening quote, and what follows it.\<close>

fun scan_string :: "bytes \<Rightarrow> (bytes \<times> bytes) option" where
  "scan_string [] = None"
| "scan_string (c # s) =
     (if c = quote_ch then Some ([], s)
      else if c = backslash then
        (case s of [] \<Rightarrow> None
         | e # t \<Rightarrow>
             if e = CHR ''u'' then
               (case t of h1 # h2 # h3 # h4 # u \<Rightarrow>
                  if list_all is_hex [h1, h2, h3, h4]
                  then map_option (\<lambda>(raw, r). (c # e # h1 # h2 # h3 # h4 # raw, r)) (scan_string u)
                  else None
                | _ \<Rightarrow> None)
             else if e \<in> set escape_chars then map_option (\<lambda>(raw, r). (c # e # raw, r)) (scan_string t)
             else None)
      else if byte c < 0x20 then None
      else map_option (\<lambda>(raw, r). (c # raw, r)) (scan_string s))"

definition unescape :: "char \<Rightarrow> char" where
  "unescape e = (if e = CHR ''b'' then CHR 0x08 else if e = CHR ''f'' then CHR 0x0C
     else if e = CHR ''n'' then CHR 0x0A else if e = CHR ''r'' then CHR 0x0D
     else if e = CHR ''t'' then CHR 0x09 else e)"

definition hexd :: "char \<Rightarrow> nat" where
  "hexd c = (case hex_val c of None \<Rightarrow> 0 | Some n \<Rightarrow> n)"

definition hex4 :: "char \<Rightarrow> char \<Rightarrow> char \<Rightarrow> char \<Rightarrow> nat" where
  "hex4 a b c d = hexd a * 4096 + hexd b * 256 +
     hexd c * 16 + hexd d"

text \<open>\<^verbatim>\<open>getu4\<close>: a leading six-byte unicode escape.\<close>

definition getu4 :: "bytes \<Rightarrow> nat option" where
  "getu4 s = (case s of a # b # h1 # h2 # h3 # h4 # _ \<Rightarrow>
       if a = backslash \<and> b = CHR ''u'' \<and> list_all is_hex [h1, h2, h3, h4] then Some (hex4 h1 h2 h3 h4) else None
     | _ \<Rightarrow> None)"

definition is_surrogate :: "nat \<Rightarrow> bool" where
  "is_surrogate r \<longleftrightarrow> 0xD800 \<le> r \<and> r \<le> 0xDFFF"

text \<open>The runes of a surrogate pair.\<close>

definition surrogate_pair :: "nat \<Rightarrow> nat option \<Rightarrow> nat option" where
  "surrogate_pair r r1 = (case r1 of None \<Rightarrow> None
     | Some l \<Rightarrow> if 0xD800 \<le> r \<and> r < 0xDC00 \<and> 0xDC00 \<le> l \<and> l < 0xE000
                then Some ((r - 0xD800) * 1024 + (l - 0xDC00) + 0x10000) else None)"

function (sequential) unquote :: "bytes \<Rightarrow> bytes" where
  "unquote [] = []"
| "unquote (c # s) =
     (if c = backslash then
        (case getu4 (c # s) of
           Some r \<Rightarrow>
             if is_surrogate r then
               (case surrogate_pair r (getu4 (drop 5 s)) of
                  Some p \<Rightarrow> EncodeRune p @ unquote (drop 11 s)
                | None \<Rightarrow> EncodeRune RuneError @ unquote (drop 5 s))
             else EncodeRune r @ unquote (drop 5 s)
         | None \<Rightarrow> (case s of [] \<Rightarrow> [] | e # t \<Rightarrow> unescape e # unquote t))
      else if byte c < 0x80 then c # unquote s
      else let (r, n) = DecodeRune (c # s) in EncodeRune r @ unquote (drop (n - 1) s))"
  by pat_completeness auto
termination
  by (relation "measure length") auto

section \<open>Parsing\<close>

text \<open>The longest number literal: an optional minus, an integer part without leading zeros,
  an optional fraction, an optional exponent.\<close>

definition scan_digits :: "bytes \<Rightarrow> (bytes \<times> bytes) option" where
  "scan_digits s = (let ds = takeWhile is_digit s in if ds = [] then None else Some (ds, dropWhile is_digit s))"

definition scan_int :: "bytes \<Rightarrow> (bytes \<times> bytes) option" where
  "scan_int s = (case s of [] \<Rightarrow> None
     | c # t \<Rightarrow> if c = CHR ''0'' then Some ([c], t) else scan_digits s)"

definition scan_frac :: "bytes \<Rightarrow> (bytes \<times> bytes) option" where
  "scan_frac s = (case s of [] \<Rightarrow> Some ([], [])
     | c # t \<Rightarrow> if c = CHR ''.'' then map_option (\<lambda>(ds, r). (c # ds, r)) (scan_digits t) else Some ([], s))"

definition scan_exp :: "bytes \<Rightarrow> (bytes \<times> bytes) option" where
  "scan_exp s = (case s of [] \<Rightarrow> Some ([], [])
     | c # t \<Rightarrow> if c = CHR ''e'' \<or> c = CHR ''E'' then
         (case t of [] \<Rightarrow> None
          | d # u \<Rightarrow> if d = CHR ''+'' \<or> d = CHR ''-'' then map_option (\<lambda>(ds, r). (c # d # ds, r)) (scan_digits u)
                    else map_option (\<lambda>(ds, r). (c # ds, r)) (scan_digits t))
         else Some ([], s))"

definition scan_number :: "bytes \<Rightarrow> (bytes \<times> bytes) option" where
  "scan_number s =
     (let neg = (s \<noteq> [] \<and> hd s = CHR ''-''); s0 = (if neg then tl s else s) in
      case scan_int s0 of None \<Rightarrow> None
      | Some (i, s1) \<Rightarrow> (case scan_frac s1 of None \<Rightarrow> None
      | Some (f, s2) \<Rightarrow> (case scan_exp s2 of None \<Rightarrow> None
      | Some (e, s3) \<Rightarrow> Some ((if neg then [CHR ''-''] else []) @ i @ f @ e, s3))))"

definition strip_prefix :: "bytes \<Rightarrow> bytes \<Rightarrow> bytes option" where
  "strip_prefix p s = (if take (length p) s = p then Some (drop (length p) s) else None)"

abbreviation maxNestingDepth :: nat where "maxNestingDepth \<equiv> 10000"

fun parse_value :: "nat \<Rightarrow> nat \<Rightarrow> bytes \<Rightarrow> (json \<times> bytes) option"
and parse_elems :: "nat \<Rightarrow> nat \<Rightarrow> bytes \<Rightarrow> (json list \<times> bytes) option"
and parse_members :: "nat \<Rightarrow> nat \<Rightarrow> bytes \<Rightarrow> ((string \<times> json) list \<times> bytes) option" where
  "parse_value 0 d s = None"
| "parse_value (Suc n) d s =
     (case skip_ws s of [] \<Rightarrow> None
      | c # t \<Rightarrow>
         if c = CHR ''{'' then
           (if maxNestingDepth \<le> d then None
            else case strip_prefix ''}'' (skip_ws t) of
                Some u \<Rightarrow> Some (JObj [], u)
              | None \<Rightarrow> map_option (\<lambda>(ms, u). (JObj ms, u)) (parse_members n (Suc d) t))
         else if c = CHR ''['' then
           (if maxNestingDepth \<le> d then None
            else case strip_prefix '']'' (skip_ws t) of
                Some u \<Rightarrow> Some (JArr [], u)
              | None \<Rightarrow> map_option (\<lambda>(vs, u). (JArr vs, u)) (parse_elems n (Suc d) t))
         else if c = quote_ch then map_option (\<lambda>(raw, u). (JStr (unquote raw), u)) (scan_string t)
         else if c = CHR ''t'' then map_option (\<lambda>u. (JBool True, u)) (strip_prefix ''true'' (c # t))
         else if c = CHR ''f'' then map_option (\<lambda>u. (JBool False, u)) (strip_prefix ''false'' (c # t))
         else if c = CHR ''n'' then map_option (\<lambda>u. (JNull, u)) (strip_prefix ''null'' (c # t))
         else if c = CHR ''-'' \<or> is_digit c then map_option (\<lambda>(l, u). (JNum l, u)) (scan_number (c # t))
         else None)"
| "parse_elems 0 d s = None"
| "parse_elems (Suc n) d s =
     (case parse_value n d s of None \<Rightarrow> None
      | Some (v, t) \<Rightarrow>
          (case skip_ws t of [] \<Rightarrow> None
           | c # u \<Rightarrow> if c = CHR '']'' then Some ([v], u)
                     else if c = CHR '','' then map_option (\<lambda>(vs, r). (v # vs, r)) (parse_elems n d u)
                     else None))"
| "parse_members 0 d s = None"
| "parse_members (Suc n) d s =
     (case skip_ws s of [] \<Rightarrow> None
      | q # s0 \<Rightarrow> if q \<noteq> quote_ch then None else
        (case scan_string s0 of None \<Rightarrow> None
         | Some (raw, s1) \<Rightarrow>
            (case skip_ws s1 of [] \<Rightarrow> None
             | c # s2 \<Rightarrow> if c \<noteq> CHR '':'' then None else
               (case parse_value n d s2 of None \<Rightarrow> None
                | Some (v, t) \<Rightarrow>
                    (case skip_ws t of [] \<Rightarrow> None
                     | c # u \<Rightarrow> if c = CHR ''}'' then Some ([(unquote raw, v)], u)
                               else if c = CHR '','' then
                                 map_option (\<lambda>(ms, r). ((unquote raw, v) # ms, r)) (parse_members n d u)
                               else None)))))"

definition parse_fuel :: "bytes \<Rightarrow> nat" where
  "parse_fuel s = 2 * length s + 2"

definition json_Valid :: "bytes \<Rightarrow> bool" where
  "json_Valid s = (case parse_value (parse_fuel s) 0 s of None \<Rightarrow> False | Some (v, t) \<Rightarrow> skip_ws t = [])"

text \<open>The parser keeps the members of an object in the order written, repeated keys included; in a
  Go map the last of them stays.

  \<^verbatim>\<open>Decoder.Decode\<close> into an \<^verbatim>\<open>any\<close>, then \<^verbatim>\<open>Decoder.More\<close>: another byte follows which is
  neither of the two closing brackets.\<close>

fun to_any :: "json \<Rightarrow> json" where
  "to_any (JArr vs) = JArr (map to_any vs)"
| "to_any (JObj ms) = JObj (foldl (\<lambda>m (k, v). map_put k v m) [] (map (\<lambda>(k, v). (k, to_any v)) ms))"
| "to_any v = v"

definition Decode :: "bytes \<Rightarrow> (json \<times> bytes) option" where
  "Decode s = map_option (\<lambda>(v, rest). (to_any v, rest)) (parse_value (parse_fuel s) 0 s)"

definition More :: "bytes \<Rightarrow> bool" where
  "More rest = (case skip_ws rest of [] \<Rightarrow> False | c # _ \<Rightarrow> c \<noteq> CHR '']'' \<and> c \<noteq> CHR ''}'')"

section \<open>Decoding into structs\<close>

text \<open>
  A struct is decoded by a table of its fields: each member of the object is matched to the field
  of exactly that name, or else of that name without regard to case, and assigned in turn; a member
  of no field is ignored.  An assignment that meets a value of another kind (\<open>None\<close>) leaves the field
  and makes the whole call fail, but only after the remaining members.  A \<^verbatim>\<open>null\<close> leaves a struct,
  a string, a number or a flag as it is and clears a pointer, a slice or a map.

  \<open>fold_name\<close> has the ASCII letters and the two other runes that fold to one, U+017F and U+212A;
  no other rune matters in a comparison with an ASCII name.
\<close>

fun fold_name :: "string \<Rightarrow> string" where
  "fold_name (a # b # c # s) =
     (if a = CHR 0xE2 \<and> b = CHR 0x84 \<and> c = CHR 0xAA then CHR ''K'' # fold_name s
      else if a = CHR 0xC5 \<and> b = CHR 0xBF then CHR ''S'' # fold_name (c # s)
      else (if 97 \<le> byte a \<and> byte a \<le> 122 then char_of (byte a - 32) else a) # fold_name (b # c # s))"
| "fold_name [a, b] =
     (if a = CHR 0xC5 \<and> b = CHR 0xBF then ''S''
      else (if 97 \<le> byte a \<and> byte a \<le> 122 then char_of (byte a - 32) else a) # fold_name [b])"
| "fold_name [a] = [if 97 \<le> byte a \<and> byte a \<le> 122 then char_of (byte a - 32) else a]"
| "fold_name [] = []"

type_synonym 's fields = "(string \<times> (json \<Rightarrow> 's \<Rightarrow> 's option)) list"

definition find_field :: "'s fields \<Rightarrow> string \<Rightarrow> (json \<Rightarrow> 's \<Rightarrow> 's option) option" where
  "find_field fs k = (case map_of fs k of
       Some f \<Rightarrow> Some f
     | None \<Rightarrow> map_option snd (find (\<lambda>(n, f). fold_name n = fold_name k) fs))"

definition assign_member :: "'s fields \<Rightarrow> 's \<times> bool \<Rightarrow> string \<times> json \<Rightarrow> 's \<times> bool" where
  "assign_member fs st m = (case find_field fs (fst m) of
       None \<Rightarrow> st
     | Some f \<Rightarrow> (case f (snd m) (fst st) of None \<Rightarrow> (fst st, False) | Some s' \<Rightarrow> (s', snd st)))"

definition decode_struct :: "'s fields \<Rightarrow> json \<Rightarrow> 's \<Rightarrow> 's \<times> bool" where
  "decode_struct fs v s = (case v of
       JNull \<Rightarrow> (s, True)
     | JObj ms \<Rightarrow> foldl (assign_member fs) (s, True) ms
     | _ \<Rightarrow> (s, False))"

definition struct_field :: "'t fields \<Rightarrow> ('s \<Rightarrow> 't) \<Rightarrow> ('t \<Rightarrow> 's \<Rightarrow> 's) \<Rightarrow> json \<Rightarrow> 's \<Rightarrow> 's option" where
  "struct_field fs get put v s = (case decode_struct fs v (get s) of (t, ok) \<Rightarrow> if ok then Some (put t s) else None)"

definition string_field :: "(string \<Rightarrow> 's \<Rightarrow> 's) \<Rightarrow> json \<Rightarrow> 's \<Rightarrow> 's option" where
  "string_field put v s = (case v of JNull \<Rightarrow> Some s | JStr x \<Rightarrow> Some (put x s) | _ \<Rightarrow> None)"

definition flag_field :: "(bool \<Rightarrow> 's \<Rightarrow> 's) \<Rightarrow> json \<Rightarrow> 's \<Rightarrow> 's option" where
  "flag_field put v s = (case v of JNull \<Rightarrow> Some s | JBool x \<Rightarrow> Some (put x s) | _ \<Rightarrow> None)"

definition int_field :: "(int \<Rightarrow> 's \<Rightarrow> 's) \<Rightarrow> json \<Rightarrow> 's \<Rightarrow> 's option" where
  "int_field put v s = (case v of
       JNull \<Rightarrow> Some s
     | JNum l \<Rightarrow> map_option (\<lambda>i. put i s) (ParseInt l)
     | _ \<Rightarrow> None)"

text \<open>A field of pointer type: cleared by \<^verbatim>\<open>null\<close>, otherwise a fresh value decoded as \<open>field\<close> does.\<close>

definition pointer_field ::
    "(('v \<Rightarrow> 's \<Rightarrow> 's) \<Rightarrow> json \<Rightarrow> 's \<Rightarrow> 's option) \<Rightarrow> ('v option \<Rightarrow> 's \<Rightarrow> 's) \<Rightarrow> json \<Rightarrow> 's \<Rightarrow> 's option" where
  "pointer_field field put v s = (if v = JNull then Some (put None s) else field (\<lambda>x. put (Some x)) v s)"

definition string_elem :: "json \<Rightarrow> string option" where
  "string_elem v = (case v of JNull \<Rightarrow> Some [] | JStr x \<Rightarrow> Some x | _ \<Rightarrow> None)"

definition strings_field :: "(string list option \<Rightarrow> 's \<Rightarrow> 's) \<Rightarrow> json \<Rightarrow> 's \<Rightarrow> 's option" where
  "strings_field put v s = (case v of
       JNull \<Rightarrow> Some (put None s)
     | JArr vs \<Rightarrow> map_option (\<lambda>xs. put (Some xs) s) (those (map string_elem vs))
     | _ \<Rightarrow> None)"

text \<open>A slice of structs; an element starts from the zero struct.\<close>

definition structs_field :: "'t fields \<Rightarrow> 't \<Rightarrow> ('t list \<Rightarrow> 's \<Rightarrow> 's) \<Rightarrow> json \<Rightarrow> 's \<Rightarrow> 's option" where
  "structs_field fs zero put v s = (case v of
       JNull \<Rightarrow> Some (put [] s)
     | JArr vs \<Rightarrow> map_option (\<lambda>xs. put xs s)
         (those (map (\<lambda>e. case decode_struct fs e zero of (t, ok) \<Rightarrow> if ok then Some t else None) vs))
     | _ \<Rightarrow> None)"

definition smap_field ::
    "('s \<Rightarrow> (string \<times> string) list option) \<Rightarrow> ((string \<times> string) list option \<Rightarrow> 's \<Rightarrow> 's) \<Rightarrow> json \<Rightarrow> 's \<Rightarrow> 's option" where
  "smap_field get put v s = (case v of
       JNull \<Rightarrow> Some (put None s)
     | JObj ms \<Rightarrow> map_option (\<lambda>kvs. put (Some (foldl (\<lambda>m (k, x). map_put k x m) (case get s of None \<Rightarrow> [] | Some m \<Rightarrow> m) kvs)) s)
         (those (map (\<lambda>(k, v). map_option (Pair k) (string_elem v)) ms))
     | _ \<Rightarrow> None)"

text \<open>\<^verbatim>\<open>Decoder.Decode\<close> reads the first value of the body and ignores what follows; a body of white
  space alone is \<^verbatim>\<open>io.EOF\<close>.  \<^verbatim>\<open>Unmarshal\<close> allows only white space after the value.\<close>

datatype decode_error = EOF | BadJSON

definition decode_body :: "'s fields \<Rightarrow> 's \<Rightarrow> bytes \<Rightarrow> 's \<times> decode_error option" where
  "decode_body fs s0 body =
     (if skip_ws body = [] then (s0, Some EOF)
      else case parse_value (parse_fuel body) 0 body of
          None \<Rightarrow> (s0, Some BadJSON)
        | Some (v, rest) \<Rightarrow> (case decode_struct fs v s0 of (s, ok) \<Rightarrow> (s, if ok then None else Some BadJSON)))"

definition unmarshal_struct :: "'s fields \<Rightarrow> 's \<Rightarrow> bytes \<Rightarrow> 's option" where
  "unmarshal_struct fs s0 doc =
     (case parse_value (parse_fuel doc) 0 doc of
        None \<Rightarrow> None
      | Some (v, rest) \<Rightarrow>
          if skip_ws rest \<noteq> [] then None
          else (case decode_struct fs v s0 of (s, ok) \<Rightarrow> if ok then Some s else None))"

section \<open>Printing\<close>

definition hex_lower :: "nat \<Rightarrow> char" where
  "hex_lower n = ''0123456789abcdef'' ! n"

definition u_escape :: "nat \<Rightarrow> bytes" where
  "u_escape n = [backslash, CHR ''u'', hex_lower (n div 4096 mod 16), hex_lower (n div 256 mod 16),
     hex_lower (n div 16 mod 16), hex_lower (n mod 16)]"

text \<open>One ASCII byte of a string: the two-byte escapes, the other control bytes and, with HTML
  escaping, the three HTML bytes as unicode escapes, everything else as it is.\<close>

definition quote_ascii :: "bool \<Rightarrow> char \<Rightarrow> bytes" where
  "quote_ascii html c =
     (if c = quote_ch \<or> c = backslash then [backslash, c]
      else if c = CHR 0x08 then [backslash, CHR ''b'']
      else if c = CHR 0x0C then [backslash, CHR ''f'']
      else if c = CHR 0x0A then [backslash, CHR ''n'']
      else if c = CHR 0x0D then [backslash, CHR ''r'']
      else if c = CHR 0x09 then [backslash, CHR ''t'']
      else if byte c < 0x20 \<or> (html \<and> (c = CHR ''<'' \<or> c = CHR ''>'' \<or> c = CHR ''&'')) then u_escape (byte c)
      else [c])"

function (sequential) quote_body :: "bool \<Rightarrow> bytes \<Rightarrow> bytes" where
  "quote_body html [] = []"
| "quote_body html (c # s) =
     (if byte c < 0x80 then quote_ascii html c @ quote_body html s
      else let (r, n) = DecodeRune (c # s) in
        (if r = RuneError \<and> n = 1 then u_escape RuneError
         else if r = 0x2028 \<or> r = 0x2029 then u_escape r
         else take n (c # s)) @ quote_body html (drop (n - 1) s))"
  by pat_completeness auto
termination
  by (relation "measure (length o snd)") auto

definition json_quote :: "bool \<Rightarrow> bytes \<Rightarrow> bytes" where
  "json_quote html s = quote_ch # quote_body html s @ [quote_ch]"

fun json_print :: "bool \<Rightarrow> json \<Rightarrow> bytes" where
  "json_print html JNull = ''null''"
| "json_print html (JBool b) = (if b then ''true'' else ''false'')"
| "json_print html (JNum l) = l"
| "json_print html (JStr s) = json_quote html s"
| "json_print html (JArr vs) = ''['' @ Join '','' (map (json_print html) vs) @ '']''"
| "json_print html (JObj ms) =
     ''{'' @ Join '','' (map (\<lambda>(k, v). json_quote html k @ '':'' @ v)
        (sort_key fst (map (\<lambda>(k, v). (k, json_print html v)) ms))) @ ''}''"

text \<open>A struct is encoded in field order, without the fields an \<^verbatim>\<open>omitempty\<close> tag drops.\<close>

definition print_struct :: "bool \<Rightarrow> (string \<times> bytes) list \<Rightarrow> bytes" where
  "print_struct html fs = ''{'' @ Join '','' (map (\<lambda>(k, v). json_quote html k @ '':'' @ v) fs) @ ''}''"

definition bool_field :: "bool \<Rightarrow> bytes" where
  "bool_field b = (if b then ''true'' else ''false'')"

declare unquote.simps [simp del] quote_body.simps [simp del]

section \<open>The scanner accepts what the printer writes\<close>

text \<open>The pieces a quoted string is made of: a run of plain bytes, a two-byte escape or a unicode
  escape.\<close>

definition plain :: "char \<Rightarrow> bool" where
  "plain c \<longleftrightarrow> c \<noteq> quote_ch \<and> c \<noteq> backslash \<and> 0x20 \<le> byte c"

definition string_piece :: "bytes \<Rightarrow> bool" where
  "string_piece p \<longleftrightarrow> list_all plain p \<or> (\<exists>e \<in> set escape_chars. p = [backslash, e]) \<or>
     (\<exists>h1 h2 h3 h4. p = [backslash, CHR ''u'', h1, h2, h3, h4] \<and> list_all is_hex [h1, h2, h3, h4])"

lemma scan_string_piece:
  assumes "string_piece p"
  shows "scan_string (p @ t) = map_option (\<lambda>(raw, r). (p @ raw, r)) (scan_string t)"
proof -
  have plain: "list_all plain p \<Longrightarrow> ?thesis"
  proof (induction p)
    case Nil
    then show ?case by (simp add: option.map_ident)
  next
    case (Cons c p)
    then show ?case
      by (auto simp: plain_def option.map_comp o_def case_prod_beta)
  qed
  have "CHR ''u'' \<notin> set escape_chars" "backslash \<noteq> quote_ch"
    by (simp_all add: escape_chars_def)
  with plain assms show ?thesis
    unfolding string_piece_def by (elim disjE bexE exE conjE) auto
qed

lemma is_hex_hex_lower: "n < 16 \<Longrightarrow> is_hex (hex_lower n)"
proof -
  have "list_all is_hex ''0123456789abcdef''"
    by (simp add: is_hex_def hex_val_def)
  moreover assume "n < 16"
  ultimately show ?thesis
    unfolding hex_lower_def list_all_length by simp
qed

lemma u_escape_piece: "string_piece (u_escape n)"
  by (simp add: string_piece_def u_escape_def is_hex_hex_lower)

lemma quote_ascii_piece: "string_piece (quote_ascii html c)"
  by (simp add: quote_ascii_def string_piece_def u_escape_def is_hex_hex_lower escape_chars_def plain_def)

lemma DecodeRune_size: "s \<noteq> [] \<Longrightarrow> 1 \<le> snd (DecodeRune s) \<and> snd (DecodeRune s) \<le> length s"
  by (auto simp: DecodeRune_def Let_def Suc_le_eq)

lemma DecodeRune_high:
  assumes "0x80 \<le> byte c" "i < snd (DecodeRune (c # s))"
  shows "0x80 \<le> byte ((c # s) ! i)"
proof -
  have "i = 0 \<or> i = 1 \<or> i = 2 \<or> i = 3"
    using assms(2) by (auto simp: DecodeRune_def Let_def split: if_splits)
  then show ?thesis
    using assms by (auto simp: DecodeRune_def Let_def second_ok_def cont_def split: if_splits)
qed

lemma high_plain: "0x80 \<le> byte c \<Longrightarrow> plain c"
  by (auto simp: plain_def)

lemma rune_piece:
  assumes "0x80 \<le> byte c"
  shows "string_piece (take (snd (DecodeRune (c # s))) (c # s))"
proof -
  have "list_all plain (take (snd (DecodeRune (c # s))) (c # s))"
    using DecodeRune_high [OF assms] DecodeRune_size [of "c # s"] by (auto simp: list_all_length intro!: high_plain)
  then show ?thesis
    by (simp add: string_piece_def)
qed

lemma scan_string_quote: "scan_string (quote_body html s @ quote_ch # rest) = Some (quote_body html s, rest)"
proof (induction html s rule: quote_body.induct)
  case (2 html c s)
  show ?case
  proof (cases "byte c < 0x80")
    case True
    with 2(1) show ?thesis
      by (simp add: quote_body.simps scan_string_piece [OF quote_ascii_piece])
  next
    case False
    obtain r n where rn: "DecodeRune (c # s) = (r, n)" by fastforce
    let ?p = "if r = RuneError \<and> n = 1 then u_escape RuneError
         else if r = 0x2028 \<or> r = 0x2029 then u_escape r else take n (c # s)"
    have "string_piece ?p"
      using rune_piece [of c s] False u_escape_piece rn by simp
    moreover have "scan_string (quote_body html (drop (n - 1) s) @ quote_ch # rest) = Some (quote_body html (drop (n - 1) s), rest)"
      using 2(2) [OF False rn [symmetric] refl] .
    moreover have "quote_body html (c # s) = ?p @ quote_body html (drop (n - 1) s)"
      using False by (simp add: quote_body.simps rn)
    ultimately show ?thesis
      by (simp only: append_assoc scan_string_piece) simp
  qed
qed (simp add: quote_body.simps)

section \<open>Structs are valid documents\<close>

text \<open>A scalar text, followed by a comma or a closing brace, is parsed as one value.\<close>

definition delimited :: "bytes \<Rightarrow> bool" where
  "delimited rest \<longleftrightarrow> rest \<noteq> [] \<and> (hd rest = CHR '','' \<or> hd rest = CHR ''}'')"

definition scalar :: "bytes \<Rightarrow> json \<Rightarrow> bool" where
  "scalar v j \<longleftrightarrow> (\<forall>n d rest. delimited rest \<longrightarrow> parse_value (Suc n) d (v @ rest) = Some (j, rest))"

lemma scalar_quote: "scalar (json_quote html s) (JStr (unquote (quote_body html s)))"
  by (simp add: scalar_def json_quote_def skip_ws_def is_ws_def scan_string_quote)

lemma scalar_bool: "scalar (bool_field b) (JBool b)"
  by (simp add: scalar_def bool_field_def skip_ws_def is_ws_def strip_prefix_def)

lemma takeWhile_digits: "list_all is_digit ds \<Longrightarrow> rest = [] \<or> \<not> is_digit (hd rest) \<Longrightarrow>
    takeWhile is_digit (ds @ rest) = ds \<and> dropWhile is_digit (ds @ rest) = rest"
  by (induction ds) (auto simp: takeWhile_eq_Nil_iff dropWhile_eq_self_iff)

lemma hd_nat_decimal_zero: "hd (nat_decimal n) = CHR ''0'' \<Longrightarrow> n = 0"
proof (induction n rule: nat_decimal.induct)
  case (1 n)
  show ?case
  proof (cases "n < 10")
    case True
    have "char_of (48 + n :: nat) = CHR ''0''"
      using 1(2) True by (simp add: nat_decimal.simps [of n])
    then have "(of_char (char_of (48 + n :: nat)) :: nat) = 48" by simp
    with True show ?thesis by simp
  next
    case False
    with 1 have "n div 10 = 0" by (simp add: nat_decimal.simps [of n])
    with False show ?thesis by simp
  qed
qed

lemma scan_int_decimal:
  assumes "rest \<noteq> []" "\<not> is_digit (hd rest)"
  shows "scan_int (nat_decimal n @ rest) = Some (nat_decimal n, rest)"
proof (cases "n = 0")
  case True
  moreover have "char_of (48 :: nat) = CHR ''0''"
    by code_simp
  ultimately show ?thesis
    by (simp add: scan_int_def nat_decimal.simps [of 0])
next
  case False
  then have "hd (nat_decimal n) \<noteq> CHR ''0''"
    using hd_nat_decimal_zero by blast
  then show ?thesis
    using takeWhile_digits [OF nat_decimal_digits, of rest n] assms nat_decimal_nonempty [of n]
    by (cases "nat_decimal n") (simp_all add: scan_int_def scan_digits_def Let_def)
qed

lemma scan_number_FormatInt:
  assumes "delimited rest"
  shows "scan_number (FormatInt i @ rest) = Some (FormatInt i, rest)"
proof -
  have rest: "rest \<noteq> []" "\<not> is_digit (hd rest)"
    using assms by (auto simp: delimited_def is_digit_def)
  have tail: "scan_frac rest = Some ([], rest)" "scan_exp rest = Some ([], rest)"
    using assms by (cases rest; auto simp: delimited_def scan_frac_def scan_exp_def)+
  have "hd (nat_decimal n) \<noteq> CHR ''-''" for n
    using is_digit_hd_nat_decimal [of n] by (auto simp: is_digit_def)
  then show ?thesis
    by (simp add: scan_number_def FormatInt_def Let_def scan_int_decimal [OF rest] tail)
qed

lemma scalar_int: "scalar (FormatInt i) (JNum (FormatInt i))"
proof -
  have "parse_value (Suc n) d (FormatInt i @ rest) = Some (JNum (FormatInt i), rest)"
    if "delimited rest" for n d rest
  proof -
    obtain c t where ct: "FormatInt i = c # t" "c = CHR ''-'' \<or> is_digit c"
    proof (cases "i < 0")
      case False
      then show thesis
        using that is_digit_hd_nat_decimal [of "nat i"] nat_decimal_nonempty [of "nat i"]
        by (cases "nat_decimal (nat i)") (simp_all add: FormatInt_def)
    qed (use that in \<open>simp add: FormatInt_def\<close>)
    then have "\<not> is_ws c" "c \<noteq> CHR ''{''" "c \<noteq> CHR ''[''" "c \<noteq> quote_ch" "c \<noteq> CHR ''t''" "c \<noteq> CHR ''f''" "c \<noteq> CHR ''n''"
      by (auto simp: is_ws_def is_digit_def)
    moreover have "scan_number (c # t @ rest) = Some (FormatInt i, rest)"
      using scan_number_FormatInt [OF that, of i] ct by simp
    ultimately show ?thesis
      using ct by (simp add: skip_ws_def)
  qed
  then show ?thesis
    by (simp add: scalar_def)
qed

lemma parse_members_fields:
  assumes "list_all2 (\<lambda>(k, v) j. scalar v j) fs js" "fs \<noteq> []" "length fs < n"
  shows "parse_members n d (Join '','' (map (\<lambda>(k, v). json_quote html k @ '':'' @ v) fs) @ ''}'' @ rest) =
    Some (zip (map (\<lambda>(k, v). unquote (quote_body html k)) fs) js, rest)"
  using assms
proof (induction fs arbitrary: js n)
  case Nil
  then show ?case by simp
next
  case (Cons f fs)
  obtain k v where f: "f = (k, v)" by (cases f)
  obtain j js' where js: "js = j # js'" "scalar v j" "list_all2 (\<lambda>(k, v) j. scalar v j) fs js'"
    using Cons.prems(1) by (auto simp: f list_all2_Cons1)
  obtain m where n: "n = Suc (Suc m)" "length fs < Suc m"
    using Cons.prems(3) by (cases n rule: nat.exhaust; cases "n - 1") auto
  show ?case
  proof (cases fs)
    case Nil
    have "parse_value (Suc m) d (v @ ''}'' @ rest) = Some (j, ''}'' @ rest)"
      using js(2) by (simp add: scalar_def delimited_def)
    then show ?thesis
      using js(1,3) by (simp add: Nil f n(1) json_quote_def skip_ws_def is_ws_def scan_string_quote)
  next
    case (Cons g gs)
    let ?tail = "Join '','' (map (\<lambda>(k, v). json_quote html k @ '':'' @ v) fs) @ ''}'' @ rest"
    have tail: "parse_members (Suc m) d ?tail =
        Some (zip (map (\<lambda>(k, v). unquote (quote_body html k)) fs) js', rest)"
      by (rule Cons.IH [OF js(3)]) (use n(2) Cons in auto)
    have "parse_value (Suc m) d (v @ '','' @ ?tail) = Some (j, '','' @ ?tail)"
      using js(2) by (simp add: scalar_def delimited_def)
    moreover have "Join '','' (map (\<lambda>(k, v). json_quote html k @ '':'' @ v) (f # fs)) @ ''}'' @ rest =
        json_quote html k @ '':'' @ v @ '','' @ ?tail"
      by (simp add: f Cons)
    ultimately show ?thesis
      using tail by (simp add: f js(1) n(1) json_quote_def skip_ws_def is_ws_def scan_string_quote)
  qed
qed


lemma parse_value_struct:
  assumes "list_all2 (\<lambda>(k, v) j. scalar v j) fs js" "fs \<noteq> []" "length fs < n"
  shows "parse_value (Suc n) 0 (print_struct html fs @ rest) =
    Some (JObj (zip (map (\<lambda>(k, v). unquote (quote_body html k)) fs) js), rest)"
proof -
  let ?body = "Join '','' (map (\<lambda>(k, v). json_quote html k @ '':'' @ v) fs) @ ''}'' @ rest"
  have "\<exists>t. ?body = quote_ch # t"
    using assms(2) by (cases fs; cases "tl fs") (auto simp: json_quote_def)
  then have "strip_prefix ''}'' (skip_ws ?body) = None"
    by (auto simp: strip_prefix_def skip_ws_def is_ws_def)
  moreover have "print_struct html fs @ rest = CHR ''{'' # ?body"
    by (simp add: print_struct_def)
  ultimately show ?thesis
    using parse_members_fields [OF assms, of "Suc 0" html rest] by (simp add: skip_ws_def is_ws_def)
qed

lemma length_Join: "length xs \<le> Suc (length (Join '','' xs))"
  by (induction "'',''" xs rule: Join.induct) auto

lemma parse_fuel_struct: "length fs < 2 * length (print_struct html fs) + 1"
  using length_Join [of "map (\<lambda>(k, v). json_quote html k @ '':'' @ v) fs"] by (simp add: print_struct_def)

lemma Decode_struct:
  assumes "list_all2 (\<lambda>(k, v) j. scalar v j) fs js" "fs \<noteq> []"
  shows "\<exists>ms. Decode (print_struct html fs) = Some (JObj ms, [])"
  using parse_value_struct [OF assms parse_fuel_struct, of html html "[]"]
  by (simp add: Decode_def parse_fuel_def del: parse_value.simps)

lemma json_Valid_struct:
  assumes "list_all2 (\<lambda>(k, v) j. scalar v j) fs js" "fs \<noteq> []"
  shows "json_Valid (print_struct html fs)"
  using parse_value_struct [OF assms parse_fuel_struct, of html html "[]"]
  by (simp add: json_Valid_def parse_fuel_def skip_ws_def del: parse_value.simps)

lemma TrimSpace_struct: "TrimSpace (print_struct html fs) = print_struct html fs"
proof -
  obtain b where s: "print_struct html fs = ''{'' @ b @ ''}''"
    by (simp add: print_struct_def)
  have no_left: "\<not> prefix p (''{'' @ b @ ''}'')" if "p \<in> set go_spaces" for p
    using that by (auto simp: go_spaces_def)
  have no_right: "\<not> suffix p ((''{'' @ b) @ ''}'')" if "p \<in> set go_spaces" for p
    using that by (auto simp: go_spaces_def suffix_def append_eq_Cons_conv)
  have "find (\<lambda>p. prefix p (print_struct html fs)) go_spaces = None"
    using no_left by (intro find_eq_NoneI) (simp add: s)
  moreover have "find (\<lambda>p. suffix p (print_struct html fs)) go_spaces = None"
    using no_right by (intro find_eq_NoneI) (simp add: s)
  ultimately show ?thesis
    by (simp add: TrimSpace_def TrimLeft.simps TrimRight.simps)
qed

end
