(* ===== verification/Domain.thy ===== *)
theory Domain
  imports Json
begin

text \<open>
  The domain model of \<^verbatim>\<open>internal/domain\<close>: the four dimensions of a configuration object, the
  objects themselves, the dependency edges, the audit event and the results the components
  exchange, with their validation rules.

  A Go enumeration is a named string type, so a value outside the declared constants can reach
  every function; the model keeps it a \<^typ>\<open>string\<close> with the constants as abbreviations and
  \<^verbatim>\<open>Valid\<close> as a predicate.  A Go \<^verbatim>\<open>error\<close> is a value of \<open>err\<close>, which has a constructor for
  every sentinel and every structured error of the packages, and \<open>ErrOther\<close> for the errors
  made on the spot with \<^verbatim>\<open>errors.New\<close> or \<^verbatim>\<open>fmt.Errorf\<close>; \<^verbatim>\<open>fmt.Errorf("...: %w", e)\<close> is
  \<open>e\<close>, since callers only look at the wrapped error.  A function returning \<^verbatim>\<open>(T, error)\<close> has
  the result type \<open>err + T\<close>; one returning only an \<^verbatim>\<open>error\<close> has the result type \<open>err option\<close>.
\<close>

section \<open>Errors\<close>

datatype err =
    ErrNotFound
  | ErrConflict
  | ErrVersionMismatch
  | ValidationError string string
  | ErrEmptyChainID | ErrEmptyEventID | ErrEmptyOperation | ErrEmptyActor | ErrEmptyPayload
  | ErrInvalidSeq | ErrPrevHashLen
  | ErrEmptyOperationID
  | ErrInvalidHeadSeq | ErrHeadHashLen | ErrChainNotVerified
  | ErrEmptyCanonicalInput | ErrTrailingCanonicalInput
  | ErrMissingOccurredAt
  | TransitionError string string string
  | ErrUnsupportedOperation string
  | ErrHasDependents
  | AuthorityValidationError string string string
  | ErrForbidden
  | ErrOther string

section \<open>Dimensions\<close>

abbreviation RoleConstitution :: string where "RoleConstitution \<equiv> ''constitution''"
abbreviation RoleGovernance :: string where "RoleGovernance \<equiv> ''governance''"
abbreviation RoleEngSpec :: string where "RoleEngSpec \<equiv> ''eng_spec''"
abbreviation RoleValidation :: string where "RoleValidation \<equiv> ''validation''"
abbreviation RoleEvidence :: string where "RoleEvidence \<equiv> ''evidence''"
abbreviation RoleAudit :: string where "RoleAudit \<equiv> ''audit''"
abbreviation RolePlanning :: string where "RolePlanning \<equiv> ''planning''"
abbreviation RoleReference :: string where "RoleReference \<equiv> ''reference''"
abbreviation RoleWorking :: string where "RoleWorking \<equiv> ''working''"

definition Role_Valid :: "string \<Rightarrow> bool" where
  "Role_Valid r \<longleftrightarrow> r \<in> {RoleConstitution, RoleGovernance, RoleEngSpec, RoleValidation,
     RoleEvidence, RoleAudit, RolePlanning, RoleReference, RoleWorking}"

abbreviation LifecycleDraft :: string where "LifecycleDraft \<equiv> ''draft''"
abbreviation LifecycleInReview :: string where "LifecycleInReview \<equiv> ''in_review''"
abbreviation LifecycleRatified :: string where "LifecycleRatified \<equiv> ''ratified''"
abbreviation LifecycleApproved :: string where "LifecycleApproved \<equiv> ''approved''"
abbreviation LifecycleInProgress :: string where "LifecycleInProgress \<equiv> ''in_progress''"
abbreviation LifecycleComplete :: string where "LifecycleComplete \<equiv> ''complete''"
abbreviation LifecycleSuspended :: string where "LifecycleSuspended \<equiv> ''suspended''"
abbreviation LifecycleDeprecated :: string where "LifecycleDeprecated \<equiv> ''deprecated''"
abbreviation LifecycleWithdrawn :: string where "LifecycleWithdrawn \<equiv> ''withdrawn''"

definition Lifecycle_Valid :: "string \<Rightarrow> bool" where
  "Lifecycle_Valid l \<longleftrightarrow> l \<in> {LifecycleDraft, LifecycleInReview, LifecycleRatified, LifecycleApproved,
     LifecycleInProgress, LifecycleComplete, LifecycleSuspended, LifecycleDeprecated, LifecycleWithdrawn}"

abbreviation AuthorityActive :: string where "AuthorityActive \<equiv> ''active''"
abbreviation AuthorityHistorical :: string where "AuthorityHistorical \<equiv> ''historical''"
abbreviation AuthorityNonNormative :: string where "AuthorityNonNormative \<equiv> ''non_normative''"

definition Authority_Valid :: "string \<Rightarrow> bool" where
  "Authority_Valid a \<longleftrightarrow> a \<in> {AuthorityActive, AuthorityHistorical, AuthorityNonNormative}"

abbreviation RetentionCurrentBaseline :: string where "RetentionCurrentBaseline \<equiv> ''current_baseline''"
abbreviation RetentionCurrentPlanning :: string where "RetentionCurrentPlanning \<equiv> ''current_planning''"
abbreviation RetentionHistoricalRecord :: string where "RetentionHistoricalRecord \<equiv> ''historical_record''"
abbreviation RetentionSupersededPlan :: string where "RetentionSupersededPlan \<equiv> ''superseded_planning''"
abbreviation RetentionHistoricalEvidence :: string where "RetentionHistoricalEvidence \<equiv> ''historical_evidence''"
abbreviation RetentionAuditRecord :: string where "RetentionAuditRecord \<equiv> ''audit_record''"
abbreviation RetentionWorkingMaterial :: string where "RetentionWorkingMaterial \<equiv> ''working_material''"

definition RetentionClass_Valid :: "string \<Rightarrow> bool" where
  "RetentionClass_Valid rc \<longleftrightarrow> rc \<in> {RetentionCurrentBaseline, RetentionCurrentPlanning,
     RetentionHistoricalRecord, RetentionSupersededPlan, RetentionHistoricalEvidence,
     RetentionAuditRecord, RetentionWorkingMaterial}"

definition Format_Valid :: "string \<Rightarrow> bool" where
  "Format_Valid f \<longleftrightarrow> f \<in> {''md'', ''mdx'', ''json''}"

section \<open>Configuration objects\<close>

record ConfigObject =
  co_CfgID :: string
  co_Artifact :: string
  co_Version :: string
  co_Role :: string
  co_Lifecycle :: string
  co_RetentionClass :: string
  co_Authority :: string
  co_RatifiedBy :: string
  co_ReviewCycle :: string
  co_RetentionPolicy :: string
  co_Metadata :: smap
  co_RowVersion :: int
  co_CreatedAt :: instant
  co_UpdatedAt :: instant

text \<open>The version pattern.  The two optional groups share the alphabet \<^verbatim>\<open>[0-9A-Za-z.-]\<close>, which
  does not contain the plus sign, and no group can begin with a digit or a dot, so the match is
  found by taking the longest run of each class in turn.\<close>

definition is_alnum :: "char \<Rightarrow> bool" where
  "is_alnum c \<longleftrightarrow> is_digit c \<or> (let n = (of_char c :: nat) in (65 \<le> n \<and> n \<le> 90) \<or> (97 \<le> n \<and> n \<le> 122))"

definition semver_char :: "char \<Rightarrow> bool" where
  "semver_char c \<longleftrightarrow> is_alnum c \<or> c = CHR ''.'' \<or> c = CHR ''-''"

definition semver_build :: "string \<Rightarrow> bool" where
  "semver_build s = (case s of [] \<Rightarrow> True | c # t \<Rightarrow> c = CHR ''+'' \<and> t \<noteq> [] \<and> list_all semver_char t)"

definition semver_suffix :: "string \<Rightarrow> bool" where
  "semver_suffix s = (case s of [] \<Rightarrow> True
     | c # t \<Rightarrow> if c = CHR ''-'' then takeWhile semver_char t \<noteq> [] \<and> semver_build (dropWhile semver_char t)
               else semver_build s)"

definition semver_number :: "string \<Rightarrow> (string \<Rightarrow> bool) \<Rightarrow> bool" where
  "semver_number s k \<longleftrightarrow> takeWhile is_digit s \<noteq> [] \<and> k (dropWhile is_digit s)"

definition semver_dot :: "(string \<Rightarrow> bool) \<Rightarrow> string \<Rightarrow> bool" where
  "semver_dot k s = (case s of [] \<Rightarrow> False | c # t \<Rightarrow> c = CHR ''.'' \<and> k t)"

definition semverRe_MatchString :: "string \<Rightarrow> bool" where
  "semverRe_MatchString s =
     semver_number s (semver_dot (\<lambda>t. semver_number t (semver_dot (\<lambda>u. semver_number u semver_suffix))))"

definition ConfigObject_Validate :: "ConfigObject \<Rightarrow> err option" where
  "ConfigObject_Validate c =
     (if TrimSpace (co_Artifact c) = [] then Some (ValidationError ''artifact'' ''must not be empty'')
      else if 512 < length (co_Artifact c) then Some (ValidationError ''artifact'' ''must be at most 512 characters'')
      else if \<not> semverRe_MatchString (co_Version c) then
        Some (ValidationError ''version'' ''must be semantic version MAJOR.MINOR.PATCH'')
      else if \<not> Role_Valid (co_Role c) then Some (ValidationError ''role'' (''unknown role: '' @ co_Role c))
      else if \<not> Lifecycle_Valid (co_Lifecycle c) then
        Some (ValidationError ''lifecycle'' (''unknown lifecycle: '' @ co_Lifecycle c))
      else if \<not> RetentionClass_Valid (co_RetentionClass c) then
        Some (ValidationError ''retention_class'' (''unknown retention class: '' @ co_RetentionClass c))
      else if co_Authority c \<noteq> [] \<and> \<not> Authority_Valid (co_Authority c) then
        Some (ValidationError ''authority'' (''unknown authority: '' @ co_Authority c))
      else if co_RetentionPolicy c = [] then Some (ValidationError ''retention_policy'' ''must not be empty'')
      else if co_RetentionClass c = RetentionCurrentBaseline \<and> co_Authority c = AuthorityHistorical then
        Some (ValidationError ''retention_class'' ''current_baseline is incompatible with historical authority'')
      else None)"

lemma ConfigObject_Validate_frame [simp]:
  "ConfigObject_Validate (c\<lparr> co_RowVersion := v, co_UpdatedAt := t \<rparr>) = ConfigObject_Validate c"
  "ConfigObject_Validate (c\<lparr> co_Metadata := m \<rparr>) = ConfigObject_Validate c"
  by (simp_all add: ConfigObject_Validate_def cong: if_cong)

record ArtifactVersion =
  av_CfgID :: string
  av_Version :: string
  av_BodyURI :: string
  av_ContentHash :: string
  av_Format :: string
  av_CreatedAt :: instant

definition ArtifactVersion_Validate :: "ArtifactVersion \<Rightarrow> err option" where
  "ArtifactVersion_Validate a =
     (if TrimSpace (av_CfgID a) = [] then Some (ValidationError ''cfg_id'' ''must not be empty'')
      else if TrimSpace (av_BodyURI a) = [] then Some (ValidationError ''body_uri'' ''must not be empty'')
      else if length (av_ContentHash a) \<noteq> 64 then
        Some (ValidationError ''content_hash'' ''must be a hex sha256 (64 chars)'')
      else if \<not> Format_Valid (av_Format a) then Some (ValidationError ''format'' (''unknown format: '' @ av_Format a))
      else None)"

section \<open>The repository contract\<close>

record Filter =
  fl_Role :: string
  fl_Lifecycle :: string
  fl_Authority :: string
  fl_Query :: string

record Page =
  pg_Items :: "ConfigObject list"
  pg_NextCursor :: string

record ListParams =
  lp_Filter :: Filter
  lp_Limit :: int
  lp_Cursor :: string

record Patch =
  pa_Lifecycle :: "string option"
  pa_RetentionClass :: "string option"
  pa_Authority :: "string option"
  pa_RatifiedBy :: "string option"
  pa_ReviewCycle :: "string option"
  pa_RetentionPolicy :: "string option"
  pa_Metadata :: "smap option"

section \<open>Dependency edges\<close>

abbreviation EdgeKindDepends :: string where "EdgeKindDepends \<equiv> ''depends''"
abbreviation EdgeKindExtends :: string where "EdgeKindExtends \<equiv> ''extends''"
abbreviation EdgeKindSupersedes :: string where "EdgeKindSupersedes \<equiv> ''supersedes''"

definition EdgeKind_Valid :: "string \<Rightarrow> bool" where
  "EdgeKind_Valid k \<longleftrightarrow> k \<in> {EdgeKindDepends, EdgeKindExtends, EdgeKindSupersedes}"

record DependencyEdge =
  de_ID :: string
  de_FromCfg :: string
  de_ToCfg :: string
  de_EdgeKind :: string
  de_CreatedAt :: instant
  de_UpdatedAt :: instant

definition DependencyEdge_Validate :: "DependencyEdge \<Rightarrow> err option" where
  "DependencyEdge_Validate e =
     (if TrimSpace (de_FromCfg e) = [] then Some (ValidationError ''from_cfg'' ''must not be empty'')
      else if TrimSpace (de_ToCfg e) = [] then Some (ValidationError ''to_cfg'' ''must not be empty'')
      else if \<not> EdgeKind_Valid (de_EdgeKind e) then
        Some (ValidationError ''edge_kind'' (''unknown edge kind: '' @ de_EdgeKind e))
      else None)"

section \<open>Graph traversal values\<close>

abbreviation DirectionDependencies :: string where "DirectionDependencies \<equiv> ''dependencies''"
abbreviation DirectionDependents :: string where "DirectionDependents \<equiv> ''dependents''"

definition Direction_Valid :: "string \<Rightarrow> bool" where
  "Direction_Valid d \<longleftrightarrow> d \<in> {DirectionDependencies, DirectionDependents}"

record TraversalNode =
  tn_CfgID :: string
  tn_Depth :: nat

record TraversalResult =
  tr_Root :: string
  tr_Direction :: string
  tr_Nodes :: "TraversalNode list"

definition TraversalResult_Count :: "TraversalResult \<Rightarrow> nat" where
  "TraversalResult_Count r = length (tr_Nodes r)"

definition TraversalResult_MaxDepth :: "TraversalResult \<Rightarrow> nat" where
  "TraversalResult_MaxDepth r = foldl (\<lambda>deepest n. if deepest < tn_Depth n then tn_Depth n else deepest) 0 (tr_Nodes r)"

definition TraversalResult_IDs :: "TraversalResult \<Rightarrow> string list" where
  "TraversalResult_IDs r = map tn_CfgID (tr_Nodes r)"

type_synonym GraphPath = "string list"

definition GraphPath_String :: "GraphPath \<Rightarrow> string" where
  "GraphPath_String p = Join '' -> '' p"

section \<open>Audit events\<close>

abbreviation OpRatification :: string where "OpRatification \<equiv> ''ratification''"
abbreviation OpApproval :: string where "OpApproval \<equiv> ''approval''"
abbreviation OpExtension :: string where "OpExtension \<equiv> ''extension''"
abbreviation OpReplacement :: string where "OpReplacement \<equiv> ''replacement''"
abbreviation OpSuspension :: string where "OpSuspension \<equiv> ''suspension''"
abbreviation OpDeprecation :: string where "OpDeprecation \<equiv> ''deprecation''"
abbreviation OpWithdrawal :: string where "OpWithdrawal \<equiv> ''withdrawal''"
abbreviation OpArchiving :: string where "OpArchiving \<equiv> ''archiving''"
abbreviation OpHistoricalPreservation :: string where "OpHistoricalPreservation \<equiv> ''historical_preservation''"
abbreviation OpDeletion :: string where "OpDeletion \<equiv> ''deletion''"
abbreviation OpBaselineFreeze :: string where "OpBaselineFreeze \<equiv> ''baseline_freeze''"
abbreviation OpAmendment :: string where "OpAmendment \<equiv> ''amendment''"

definition Operation_Valid :: "string \<Rightarrow> bool" where
  "Operation_Valid op \<longleftrightarrow> op \<in> {OpRatification, OpApproval, OpExtension, OpReplacement, OpSuspension,
     OpDeprecation, OpWithdrawal, OpArchiving, OpHistoricalPreservation, OpDeletion, OpBaselineFreeze,
     OpAmendment}"

record EventInput =
  ei_ChainID :: string
  ei_OperationID :: string
  ei_Operation :: string
  ei_Payload :: bytes

definition EventInput_Validate :: "EventInput \<Rightarrow> err option" where
  "EventInput_Validate e =
     (if ei_ChainID e = [] then Some (ValidationError ''chain_id'' ''must not be empty'')
      else if ei_OperationID e = [] then Some (ValidationError ''operation_id'' ''must not be empty'')
      else if \<not> Operation_Valid (ei_Operation e) then
        Some (ValidationError ''operation'' (''unknown configuration operation: '' @ ei_Operation e))
      else if length (ei_Payload e) = 0 \<or> \<not> json_Valid (ei_Payload e) then
        Some (ValidationError ''payload'' ''must be well-formed JSON'')
      else None)"

record AuditEvent =
  ae_ChainID :: string
  ae_Seq :: int
  ae_EventID :: string
  ae_OperationID :: string
  ae_Operation :: string
  ae_Actor :: string
  ae_PayloadCanonical :: bytes
  ae_PrevHash :: bytes
  ae_ThisHash :: bytes
  ae_OccurredAt :: instant

record VerifyResult =
  vr_ChainID :: string
  vr_OK :: bool
  vr_Checked :: int
  vr_HeadSeq :: int
  vr_HeadHash :: bytes
  vr_FirstBreakSeq :: "int option"
  vr_BreakReason :: string
  vr_AnchorsMatched :: int

definition AuditChainID :: "string \<Rightarrow> string" where
  "AuditChainID cfgID = cfgID"

section \<open>Authority results\<close>

abbreviation AuthorityStateActive :: string where "AuthorityStateActive \<equiv> ''ACTIVE''"
abbreviation AuthorityStateHistorical :: string where "AuthorityStateHistorical \<equiv> ''HISTORICAL''"
abbreviation AuthorityStateNonNormative :: string where "AuthorityStateNonNormative \<equiv> ''NON_NORMATIVE''"
abbreviation AuthorityStateUnknown :: string where "AuthorityStateUnknown \<equiv> ''UNKNOWN''"

definition AuthorityState_Valid :: "string \<Rightarrow> bool" where
  "AuthorityState_Valid s \<longleftrightarrow> s \<in> {AuthorityStateActive, AuthorityStateHistorical,
     AuthorityStateNonNormative, AuthorityStateUnknown}"

abbreviation ReasonBaselineMember :: string where "ReasonBaselineMember \<equiv> ''baseline_member''"
abbreviation ReasonReachableFromBaseline :: string where "ReasonReachableFromBaseline \<equiv> ''reachable_from_baseline''"
abbreviation ReasonSuperseded :: string where "ReasonSuperseded \<equiv> ''superseded''"
abbreviation ReasonNotReachable :: string where "ReasonNotReachable \<equiv> ''not_reachable_from_baseline''"
abbreviation ReasonObjectNotFound :: string where "ReasonObjectNotFound \<equiv> ''object_not_found''"
abbreviation ReasonInconsistentBaselineSuperseded :: string where
  "ReasonInconsistentBaselineSuperseded \<equiv> ''inconsistent_baseline_superseded''"
abbreviation ReasonSupersededActiveDependency :: string where
  "ReasonSupersededActiveDependency \<equiv> ''superseded_active_dependency''"
abbreviation ReasonReplacementIncomplete :: string where "ReasonReplacementIncomplete \<equiv> ''replacement_incomplete''"
abbreviation ReasonActiveArtifactCitation :: string where "ReasonActiveArtifactCitation \<equiv> ''active_artifact_citation''"
abbreviation ReasonOperationalGap :: string where "ReasonOperationalGap \<equiv> ''operational_gap''"

record AuthorityEvidence =
  ev_BaselineMember :: bool
  ev_ReachableVia :: string
  ev_SupersededBy :: "string list"
  ev_ActiveDependents :: "string list"
  ev_MissingResponsibilities :: "string list"
  ev_ActiveArtifactCitations :: "string list"
  ev_UncoveredCapabilities :: "string list"
  ev_Notes :: string

record AuthorityResult =
  ar_CfgID :: string
  ar_State :: string
  ar_Reason :: string
  ar_Evidence :: AuthorityEvidence

record ActiveDependencyResult =
  ad_CfgID :: string
  ad_HasActiveDependency :: bool
  ad_ActiveDependents :: "string list"

record ResponsibilityResult =
  rr_CfgID :: string
  rr_Responsibilities :: "string list"

record ReplacementResult =
  rp_OldCfgID :: string
  rp_NewCfgID :: string
  rp_Complete :: bool
  rp_Transferred :: "string list"
  rp_Missing :: "string list"

record ActiveCitationResult =
  ac_CfgID :: string
  ac_HasActiveCitation :: bool
  ac_CitingArtifacts :: "string list"

record CitationReplacementResult =
  cr_OldCfgID :: string
  cr_NewCfgID :: string
  cr_Cleared :: bool
  cr_Remaining :: "string list"

record GapResult =
  gr_CfgID :: string
  gr_HasGap :: bool
  gr_UncoveredCapabilities :: "string list"

record GapReplacementResult =
  gp_OldCfgID :: string
  gp_NewCfgID :: string
  gp_Complete :: bool
  gp_Covered :: "string list"
  gp_Missing :: "string list"

end
