(* ===== verification/Sha256.thy ===== *)
theory Sha256
  imports Prelude
begin

unbundle bit_operations_syntax

text \<open>
  The functions of \<^verbatim>\<open>crypto/sha256\<close>, \<^verbatim>\<open>crypto/hmac\<close> and \<^verbatim>\<open>encoding/hex\<close> that the audit chain, the
  anchors, the event ids and the webhook signatures use, as FIPS 180-4 and FIPS 198-1 define
  them, on \<^typ>\<open>32 word\<close>.  The proofs of the other theories use only that a digest has 32 bytes
  and that the hexadecimal rendering is injective: a statement about tamper evidence is of the
  form ``the same bytes, or two different byte strings with the same digest''.
\<close>

section \<open>SHA-256\<close>

type_synonym w32 = "32 word"

text \<open>The standard defines its constants as the first 32 bits of the fractional parts of the cube
  roots of the first 64 primes (the round constants) and of the square roots of the first eight (the
  initial state).  \<open>iroot k b n a\<close> is the largest integer \<open>k\<close>-th root of \<open>n\<close> that
  extends \<open>a\<close> by bits up to \<open>b\<close>; a root of \<open>p * 2 ^ (32 k)\<close> is the root of \<open>p\<close> shifted by 32
  bits, and the conversion to a word keeps the fractional part.\<close>

fun iroot :: "nat \<Rightarrow> nat \<Rightarrow> int \<Rightarrow> int \<Rightarrow> int" where
  "iroot k 0 n a = (if (a + 1) ^ k \<le> n then a + 1 else a)"
| "iroot k (Suc b) n a = iroot k b n (if (a + 2 ^ Suc b) ^ k \<le> n then a + 2 ^ Suc b else a)"

definition sha_primes :: "int list" where
  "sha_primes = [
     2, 3, 5, 7, 11, 13, 17, 19, 23, 29, 31, 37, 41, 43, 47, 53,
     59, 61, 67, 71, 73, 79, 83, 89, 97, 101, 103, 107, 109, 113, 127, 131,
     137, 139, 149, 151, 157, 163, 167, 173, 179, 181, 191, 193, 197, 199, 211, 223,
     227, 229, 233, 239, 241, 251, 257, 263, 269, 271, 277, 281, 283, 293, 307, 311]"

definition sha_K :: "w32 list" where
  "sha_K = map (\<lambda>p. word_of_int (iroot 3 36 (p * 2 ^ 96) 0)) sha_primes"

definition sha_H :: "nat \<Rightarrow> w32" where
  "sha_H i = word_of_int (iroot 2 36 (sha_primes ! i * 2 ^ 64) 0)"

text \<open>The eight working variables of the compression function.\<close>

datatype sha_state = Sha w32 w32 w32 w32 w32 w32 w32 w32

definition sha_H0 :: sha_state where
  "sha_H0 = Sha (sha_H 0) (sha_H 1) (sha_H 2) (sha_H 3) (sha_H 4) (sha_H 5) (sha_H 6) (sha_H 7)"

definition rotr :: "nat \<Rightarrow> w32 \<Rightarrow> w32" where
  "rotr n x = drop_bit n x OR push_bit (32 - n) x"

definition Ch :: "w32 \<Rightarrow> w32 \<Rightarrow> w32 \<Rightarrow> w32" where
  "Ch x y z = (x AND y) XOR (NOT x AND z)"

definition Maj :: "w32 \<Rightarrow> w32 \<Rightarrow> w32 \<Rightarrow> w32" where
  "Maj x y z = (x AND y) XOR (x AND z) XOR (y AND z)"

definition Sigma0 :: "w32 \<Rightarrow> w32" where
  "Sigma0 x = rotr 2 x XOR rotr 13 x XOR rotr 22 x"

definition Sigma1 :: "w32 \<Rightarrow> w32" where
  "Sigma1 x = rotr 6 x XOR rotr 11 x XOR rotr 25 x"

definition sigma0 :: "w32 \<Rightarrow> w32" where
  "sigma0 x = rotr 7 x XOR rotr 18 x XOR drop_bit 3 x"

definition sigma1 :: "w32 \<Rightarrow> w32" where
  "sigma1 x = rotr 17 x XOR rotr 19 x XOR drop_bit 10 x"

text \<open>The message schedule keeps the last sixteen words, the newest first.\<close>

fun schedule :: "nat \<Rightarrow> w32 list \<Rightarrow> w32 list" where
  "schedule 0 ws = []"
| "schedule (Suc n) ws =
     (let w = sigma1 (ws ! 1) + ws ! 6 + sigma0 (ws ! 14) + ws ! 15 in w # schedule n (w # butlast ws))"

fun sha_round :: "w32 \<times> w32 \<Rightarrow> sha_state \<Rightarrow> sha_state" where
  "sha_round (k, w) (Sha a b c d e f g h) =
     (let t1 = h + Sigma1 e + Ch e f g + k + w; t2 = Sigma0 a + Maj a b c
      in Sha (t1 + t2) a b c (d + t1) e f g)"

fun sha_add :: "sha_state \<Rightarrow> sha_state \<Rightarrow> sha_state" where
  "sha_add (Sha a b c d e f g h) (Sha a' b' c' d' e' f' g' h') =
     Sha (a + a') (b + b') (c + c') (d + d') (e + e') (f + f') (g + g') (h + h')"

text \<open>Big-endian words of a byte string whose length is a multiple of four.\<close>

fun be_words :: "bytes \<Rightarrow> w32 list" where
  "be_words (a # b # c # d # s) =
     (word_of_int (of_char a * 2 ^ 24 + of_char b * 2 ^ 16 + of_char c * 2 ^ 8 + of_char d)) # be_words s"
| "be_words _ = []"

definition sha_block :: "bytes \<Rightarrow> sha_state \<Rightarrow> sha_state" where
  "sha_block blk st =
     (let ws = be_words blk; w = ws @ schedule 48 (rev ws)
      in sha_add st (fold sha_round (zip sha_K w) st))"

fun blocks :: "nat \<Rightarrow> bytes \<Rightarrow> bytes list" where
  "blocks 0 s = []"
| "blocks (Suc n) s = take 64 s # blocks n (drop 64 s)"

definition sha_pad :: "bytes \<Rightarrow> bytes" where
  "sha_pad m = m @ CHR 0x80 # replicate ((119 - length m mod 64) mod 64) (CHR 0x00) @ be_bytes 8 (8 * length m)"

fun sha_digest :: "sha_state \<Rightarrow> bytes" where
  "sha_digest (Sha a b c d e f g h) = concat (map (\<lambda>x. be_bytes 4 (unat x)) [a, b, c, d, e, f, g, h])"

definition SHA256 :: "bytes \<Rightarrow> bytes" where
  "SHA256 m = (let p = sha_pad m in sha_digest (fold sha_block (blocks (length p div 64) p) sha_H0))"

lemma length_SHA256 [simp]: "length (SHA256 m) = 32"
proof -
  have "length (sha_digest st) = 32" for st
    by (cases st) simp
  then show ?thesis
    by (simp add: SHA256_def Let_def)
qed

lemma SHA256_nonempty [simp]: "SHA256 m \<noteq> []"
  using length_SHA256 [of m] by (metis length_0_conv zero_neq_numeral)

text \<open>The padding fills whole blocks, so no byte of the message is dropped.\<close>

lemma sha_pad_blocks: "length (sha_pad m) mod 64 = 0"
proof -
  have "(119 - r) mod 64 = (if r \<le> 55 then 55 - r else 119 - r)" if "r < 64" for r :: nat
  proof (cases "r \<le> 55")
    case True
    then have "119 - r = (55 - r) + 64" by simp
    then have "(119 - r) mod 64 = (55 - r) mod 64" by (simp only: mod_add_self2)
    with True show ?thesis by simp
  next
    case False
    with that show ?thesis by simp
  qed
  moreover have "length m mod 64 < 64" by simp
  ultimately have "(length m mod 64 + (119 - length m mod 64) mod 64 + 9) mod 64 = 0"
    by (auto simp: mod_eq_0_iff_dvd)
  then have "(length m + ((119 - length m mod 64) mod 64 + 9)) mod 64 = 0"
    by (metis add.assoc mod_add_left_eq)
  moreover have "length (sha_pad m) = length m + ((119 - length m mod 64) mod 64 + 9)"
    by (simp add: sha_pad_def)
  ultimately show ?thesis
    by simp
qed

section \<open>HMAC-SHA256\<close>

definition xor_bytes :: "nat \<Rightarrow> bytes \<Rightarrow> bytes" where
  "xor_bytes k s = map (\<lambda>c. char_of (of_char c XOR k :: nat)) s"

definition HMAC :: "bytes \<Rightarrow> bytes \<Rightarrow> bytes" where
  "HMAC key m =
     (let k = (if 64 < length key then SHA256 key else key);
          k64 = k @ replicate (64 - length k) (CHR 0x00)
      in SHA256 (xor_bytes 0x5C k64 @ SHA256 (xor_bytes 0x36 k64 @ m)))"

lemma length_HMAC [simp]: "length (HMAC key m) = 32"
  by (simp add: HMAC_def Let_def)

section \<open>Hexadecimal\<close>

definition hex_digit :: "nat \<Rightarrow> char" where
  "hex_digit n = ''0123456789abcdef'' ! n"

definition hex_char :: "char \<Rightarrow> string" where
  "hex_char c = [hex_digit (of_char c div 16), hex_digit (of_char c mod 16)]"

definition EncodeToString :: "bytes \<Rightarrow> string" where
  "EncodeToString s = concat (map hex_char s)"

lemma length_EncodeToString [simp]: "length (EncodeToString s) = 2 * length s"
  by (induction s) (auto simp: EncodeToString_def hex_char_def)

lemma hex_digit_inj: "m < 16 \<Longrightarrow> n < 16 \<Longrightarrow> hex_digit m = hex_digit n \<longleftrightarrow> m = n"
  unfolding hex_digit_def by (rule nth_eq_iff_index_eq) auto

lemma of_char_less: "(of_char c :: nat) < 256"
  by (cases c) (simp add: of_char_Char horner_sum_simps)

lemma hex_char_inj: "hex_char c = hex_char d \<longleftrightarrow> c = d"
proof
  assume "hex_char c = hex_char d"
  moreover have "(of_char c :: nat) div 16 < 16" "(of_char d :: nat) div 16 < 16"
    by (rule less_mult_imp_div_less, simp add: of_char_less)+
  ultimately have "(of_char c :: nat) div 16 = of_char d div 16" "(of_char c :: nat) mod 16 = of_char d mod 16"
    by (simp_all add: hex_char_def hex_digit_inj)
  then have "(of_char c :: nat) = of_char d"
    by (metis div_mult_mod_eq)
  then show "c = d"
    by simp
qed simp

lemma EncodeToString_inj [simp]: "EncodeToString s = EncodeToString t \<longleftrightarrow> s = t"
proof (induction s arbitrary: t)
  case Nil
  then show ?case
    by (cases t) (auto simp: EncodeToString_def hex_char_def)
next
  case (Cons x xs)
  show ?case
  proof (cases t)
    case Nil
    then show ?thesis by (simp add: EncodeToString_def hex_char_def)
  next
    case (Cons y ys)
    have len: "length (hex_char x) = length (hex_char y)"
      by (simp add: hex_char_def)
    have "EncodeToString (x # xs) = EncodeToString t \<longleftrightarrow>
        hex_char x = hex_char y \<and> EncodeToString xs = EncodeToString ys"
      using len by (simp add: EncodeToString_def Cons)
    then show ?thesis
      using Cons.IH [of ys] by (simp add: hex_char_inj Cons)
  qed
qed

end
