(* ===== verification/AuditChain.thy ===== *)
theory AuditChain
  imports Domain Sha256
begin

text \<open>
  The audit integrity capability of \<^verbatim>\<open>internal/audit\<close>: canonical payloads, event ids, the chain
  hash, the resolution of an operation into an append request, the chain verifier, the anchors
  and the service that verifies a chain and anchors its head.

  The verifier is a function of the rows a \<^verbatim>\<open>RangeReader\<close> streams to its callback and of the
  error the reader ends with.
\<close>

section \<open>Canonical payloads\<close>

definition Canonicalize :: "bytes \<Rightarrow> err + bytes" where
  "Canonicalize raw =
     (if length (TrimSpace raw) = 0 then Inl ErrEmptyCanonicalInput
      else case Decode raw of
          None \<Rightarrow> Inl (ErrOther ''audit: canonicalize'')
        | Some (v, rest) \<Rightarrow>
            if More rest then Inl ErrTrailingCanonicalInput
            else Inr (rev (dropWhile (\<lambda>c. c = CHR 0x0A) (rev (json_print False v @ [CHR 0x0A])))))"

section \<open>The chain hash\<close>

abbreviation HashSize :: nat where "HashSize \<equiv> 32"

definition GenesisPrevHash :: bytes where
  "GenesisPrevHash = replicate HashSize (CHR 0x00)"

record EventHashInput =
  hi_ChainID :: string
  hi_Seq :: int
  hi_EventID :: string
  hi_Operation :: string
  hi_Actor :: string
  hi_OccurredAtUnixNanos :: int
  hi_PayloadCanonical :: bytes

definition writeLenPrefixed :: "bytes \<Rightarrow> bytes" where
  "writeLenPrefixed b = be_bytes 4 (length b mod 2 ^ 32) @ b"

definition writeUint64 :: "int \<Rightarrow> bytes" where
  "writeUint64 v = be_bytes 8 (uint64 v)"

text \<open>The bytes hashed into \<^verbatim>\<open>H_fields\<close>.\<close>

definition hash_fields :: "EventHashInput \<Rightarrow> bytes" where
  "hash_fields i = writeLenPrefixed (hi_ChainID i) @ writeUint64 (hi_Seq i) @ writeLenPrefixed (hi_EventID i) @
     writeLenPrefixed (hi_Operation i) @ writeLenPrefixed (hi_Actor i) @
     writeUint64 (hi_OccurredAtUnixNanos i) @ writeLenPrefixed (hi_PayloadCanonical i)"

definition ChainHash :: "EventHashInput \<Rightarrow> bytes \<Rightarrow> err + bytes" where
  "ChainHash i prevHash =
     (if hi_ChainID i = [] then Inl ErrEmptyChainID
      else if hi_EventID i = [] then Inl ErrEmptyEventID
      else if hi_Operation i = [] then Inl ErrEmptyOperation
      else if hi_Actor i = [] then Inl ErrEmptyActor
      else if length (hi_PayloadCanonical i) = 0 then Inl ErrEmptyPayload
      else if hi_Seq i < 1 then Inl ErrInvalidSeq
      else if length prevHash \<noteq> HashSize then Inl ErrPrevHashLen
      else Inr (SHA256 (prevHash @ SHA256 (hash_fields i))))"

section \<open>Event ids\<close>

definition eventIDDomainTag :: string where "eventIDDomainTag = ''oneops.audit.event.v1''"

definition DeriveEventID :: "string \<Rightarrow> err + string" where
  "DeriveEventID operationID =
     (if operationID = [] then Inl ErrEmptyOperationID
      else Inr (''evt_'' @ EncodeToString (SHA256 (writeLenPrefixed eventIDDomainTag @ writeLenPrefixed operationID))))"

section \<open>Resolution of an operation\<close>

record AppendInput =
  ai_ChainID :: string
  ai_OperationID :: string
  ai_EventID :: string
  ai_Operation :: string
  ai_Actor :: string
  ai_OccurredAt :: instant
  ai_PayloadCanonical :: bytes

definition Resolve :: "EventInput \<Rightarrow> string \<Rightarrow> instant \<Rightarrow> err + AppendInput" where
  "Resolve e actor occurredAt =
     (case EventInput_Validate e of Some er \<Rightarrow> Inl er
      | None \<Rightarrow>
        if actor = [] then Inl ErrEmptyActor
        else if IsZero occurredAt then Inl ErrMissingOccurredAt
        else case Canonicalize (ei_Payload e) of Inl er \<Rightarrow> Inl er
        | Inr canonical \<Rightarrow>
          (case DeriveEventID (ei_OperationID e) of Inl er \<Rightarrow> Inl er
           | Inr eventID \<Rightarrow>
               Inr \<lparr> ai_ChainID = ei_ChainID e, ai_OperationID = ei_OperationID e, ai_EventID = eventID,
                     ai_Operation = ei_Operation e, ai_Actor = actor, ai_OccurredAt = occurredAt,
                     ai_PayloadCanonical = canonical \<rparr>))"

section \<open>The verifier\<close>

abbreviation ReasonSequenceGap :: string where "ReasonSequenceGap \<equiv> ''sequence_gap''"
abbreviation ReasonSequenceDuplicate :: string where "ReasonSequenceDuplicate \<equiv> ''sequence_duplicate''"
abbreviation ReasonPrevHashMismatch :: string where "ReasonPrevHashMismatch \<equiv> ''prev_hash_mismatch''"
abbreviation ReasonThisHashMismatch :: string where "ReasonThisHashMismatch \<equiv> ''this_hash_mismatch''"
abbreviation ReasonHashInputInvalid :: string where "ReasonHashInputInvalid \<equiv> ''hash_input_invalid''"

abbreviation MaxInt64 :: int where "MaxInt64 \<equiv> 2 ^ 63 - 1"

definition zero_VerifyResult :: VerifyResult where
  "zero_VerifyResult = \<lparr> vr_ChainID = [], vr_OK = False, vr_Checked = 0, vr_HeadSeq = 0, vr_HeadHash = [],
     vr_FirstBreakSeq = None, vr_BreakReason = [], vr_AnchorsMatched = 0 \<rparr>"

definition setBreak :: "VerifyResult \<Rightarrow> int \<Rightarrow> string \<Rightarrow> VerifyResult" where
  "setBreak res seq reason =
     (if vr_FirstBreakSeq res \<noteq> None then res
      else res\<lparr> vr_FirstBreakSeq := Some seq, vr_BreakReason := reason \<rparr>)"

text \<open>The variables the callback closes over: \<open>vs_expPrev\<close> is \<^verbatim>\<open>expPrev\<close>, absent until
  \<^verbatim>\<open>haveExpPrev\<close>.\<close>

record verify_state =
  vs_res :: VerifyResult
  vs_expPrev :: "bytes option"
  vs_expSeq :: int

definition event_hash_input :: "AuditEvent \<Rightarrow> EventHashInput" where
  "event_hash_input e = \<lparr> hi_ChainID = ae_ChainID e, hi_Seq = ae_Seq e, hi_EventID = ae_EventID e,
     hi_Operation = ae_Operation e, hi_Actor = ae_Actor e,
     hi_OccurredAtUnixNanos = UnixNano (ae_OccurredAt e), hi_PayloadCanonical = ae_PayloadCanonical e \<rparr>"

text \<open>One call of the callback; the flag says that it returned \<^verbatim>\<open>errStop\<close>.\<close>

definition verify_event :: "AuditEvent \<Rightarrow> verify_state \<Rightarrow> verify_state \<times> bool" where
  "verify_event e st =
     (if ae_Seq e \<noteq> vs_expSeq st then
        (st\<lparr> vs_res := setBreak (vs_res st) (ae_Seq e)
            (if ae_Seq e < vs_expSeq st then ReasonSequenceDuplicate else ReasonSequenceGap) \<rparr>, True)
      else
        let expPrev = (case vs_expPrev st of None \<Rightarrow> ae_PrevHash e | Some p \<Rightarrow> p);
            st' = st\<lparr> vs_expPrev := Some expPrev \<rparr>
        in if ae_PrevHash e \<noteq> expPrev then
             (st'\<lparr> vs_res := setBreak (vs_res st) (ae_Seq e) ReasonPrevHashMismatch \<rparr>, True)
           else case ChainHash (event_hash_input e) (ae_PrevHash e) of
             Inl _ \<Rightarrow> (st'\<lparr> vs_res := setBreak (vs_res st) (ae_Seq e) ReasonHashInputInvalid \<rparr>, True)
           | Inr got \<Rightarrow>
               if got \<noteq> ae_ThisHash e then
                 (st'\<lparr> vs_res := setBreak (vs_res st) (ae_Seq e) ReasonThisHashMismatch \<rparr>, True)
               else
                 (\<lparr> vs_res = (vs_res st)\<lparr> vr_Checked := int64 (vr_Checked (vs_res st) + 1),
                       vr_HeadSeq := ae_Seq e, vr_HeadHash := ae_ThisHash e \<rparr>,
                    vs_expPrev = Some (ae_ThisHash e), vs_expSeq = int64 (ae_Seq e + 1) \<rparr>, False))"

text \<open>The reader calls back on each row until the callback stops it, and otherwise ends with its
  own error, if any.\<close>

fun verify_stream :: "AuditEvent list \<Rightarrow> err option \<Rightarrow> verify_state \<Rightarrow> verify_state \<times> err option" where
  "verify_stream [] readErr st = (st, readErr)"
| "verify_stream (e # es) readErr st =
     (case verify_event e st of (st', stop) \<Rightarrow> if stop then (st', None) else verify_stream es readErr st')"

type_synonym range_reader = "string \<Rightarrow> int \<Rightarrow> int \<Rightarrow> AuditEvent list \<times> err option"

definition verify_init :: "string \<Rightarrow> int \<Rightarrow> verify_state" where
  "verify_init chainID fromSeq =
     \<lparr> vs_res = zero_VerifyResult\<lparr> vr_ChainID := chainID \<rparr>,
       vs_expPrev = (if fromSeq = 1 then Some GenesisPrevHash else None), vs_expSeq = fromSeq \<rparr>"

definition VerifyRange :: "range_reader \<Rightarrow> string \<Rightarrow> int \<Rightarrow> int \<Rightarrow> err + VerifyResult" where
  "VerifyRange reader chainID fromSeq toSeq =
     (case reader chainID fromSeq toSeq of (es, readErr) \<Rightarrow>
      case verify_stream es readErr (verify_init chainID fromSeq) of
        (st, Some er) \<Rightarrow> Inl er
      | (st, None) \<Rightarrow> Inr ((vs_res st)\<lparr> vr_OK := (vr_FirstBreakSeq (vs_res st) = None) \<rparr>))"

definition VerifyChain :: "range_reader \<Rightarrow> string \<Rightarrow> err + VerifyResult" where
  "VerifyChain reader chainID = VerifyRange reader chainID 1 MaxInt64"

section \<open>Anchors\<close>

definition anchorDomainTag :: string where "anchorDomainTag = ''oneops.audit.anchor.v1''"

record AnchorRequest =
  aq_ChainID :: string
  aq_HeadSeq :: int
  aq_HeadHash :: bytes
  aq_Verified :: bool

record AnchorResult =
  an_AnchorID :: string
  an_ChainID :: string
  an_HeadSeq :: int
  an_HeadHash :: bytes
  an_Payload :: bytes
  an_AlreadyPublished :: bool

definition zero_AnchorResult :: AnchorResult where
  "zero_AnchorResult = \<lparr> an_AnchorID = [], an_ChainID = [], an_HeadSeq = 0, an_HeadHash = [],
     an_Payload = [], an_AlreadyPublished = False \<rparr>"

definition validateAnchorRequest :: "AnchorRequest \<Rightarrow> err option" where
  "validateAnchorRequest req =
     (if aq_ChainID req = [] then Some ErrEmptyChainID
      else if aq_HeadSeq req < 1 then Some ErrInvalidHeadSeq
      else if length (aq_HeadHash req) \<noteq> HashSize then Some ErrHeadHashLen
      else if \<not> aq_Verified req then Some ErrChainNotVerified
      else None)"

definition anchorPayload :: "string \<Rightarrow> int \<Rightarrow> bytes \<Rightarrow> bytes" where
  "anchorPayload chainID headSeq headHash =
     writeLenPrefixed anchorDomainTag @ writeLenPrefixed chainID @ writeUint64 headSeq @ writeLenPrefixed headHash"

definition NewAnchor :: "AnchorRequest \<Rightarrow> err + AnchorResult" where
  "NewAnchor req =
     (case validateAnchorRequest req of Some er \<Rightarrow> Inl er
      | None \<Rightarrow>
        let payload = anchorPayload (aq_ChainID req) (aq_HeadSeq req) (aq_HeadHash req) in
        Inr \<lparr> an_AnchorID = EncodeToString (SHA256 payload), an_ChainID = aq_ChainID req,
              an_HeadSeq = aq_HeadSeq req, an_HeadHash = aq_HeadHash req, an_Payload = payload,
              an_AlreadyPublished = False \<rparr>)"

text \<open>The in-memory publisher keeps a map from anchor id to record; \<open>ctxErr\<close> is \<^verbatim>\<open>ctx.Err()\<close>.\<close>

type_synonym memory_publisher = "(string \<times> AnchorResult) list"

definition NewMemoryAnchorPublisher :: memory_publisher where
  "NewMemoryAnchorPublisher = []"

definition PublishAnchor :: "err option \<Rightarrow> memory_publisher \<Rightarrow> AnchorRequest \<Rightarrow> (err + AnchorResult) \<times> memory_publisher" where
  "PublishAnchor ctxErr p req =
     (case ctxErr of Some er \<Rightarrow> (Inl er, p)
      | None \<Rightarrow>
        (case NewAnchor req of Inl er \<Rightarrow> (Inl er, p)
         | Inr res \<Rightarrow>
           (case map_of p (an_AnchorID res) of
              Some prev \<Rightarrow> (Inr (prev\<lparr> an_AlreadyPublished := True \<rparr>), p)
            | None \<Rightarrow> (Inr res, p @ [(an_AnchorID res, res)]))))"

definition Count :: "memory_publisher \<Rightarrow> nat" where
  "Count p = length p"

section \<open>The service\<close>

text \<open>The service composes three ports: \<open>sv_appender\<close> and \<open>sv_publisher\<close> act on a state of
  their own, the verifier only reads.\<close>

record ('a, 'p) Service =
  sv_appender :: "AppendInput \<Rightarrow> 'a \<Rightarrow> (err + AuditEvent) \<times> 'a"
  sv_VerifyChain :: "string \<Rightarrow> err + VerifyResult"
  sv_VerifyRange :: "string \<Rightarrow> int \<Rightarrow> int \<Rightarrow> err + VerifyResult"
  sv_publisher :: "AnchorRequest \<Rightarrow> 'p \<Rightarrow> (err + AnchorResult) \<times> 'p"

definition NewService :: "(AppendInput \<Rightarrow> 'a \<Rightarrow> (err + AuditEvent) \<times> 'a) option \<Rightarrow>
    ((string \<Rightarrow> err + VerifyResult) \<times> (string \<Rightarrow> int \<Rightarrow> int \<Rightarrow> err + VerifyResult)) option \<Rightarrow>
    (AnchorRequest \<Rightarrow> 'p \<Rightarrow> (err + AnchorResult) \<times> 'p) option \<Rightarrow> err + ('a, 'p) Service" where
  "NewService appender verifier publisher =
     (case appender of None \<Rightarrow> Inl (ErrOther ''audit: service requires a non-nil Appender'')
      | Some a \<Rightarrow>
        (case verifier of None \<Rightarrow> Inl (ErrOther ''audit: service requires a non-nil Verifier'')
         | Some v \<Rightarrow>
           (case publisher of None \<Rightarrow> Inl (ErrOther ''audit: service requires a non-nil AnchorPublisher'')
            | Some p \<Rightarrow> Inr \<lparr> sv_appender = a, sv_VerifyChain = fst v, sv_VerifyRange = snd v, sv_publisher = p \<rparr>)))"

definition VerifyAndPublish ::
  "('a, 'p) Service \<Rightarrow> string \<Rightarrow> 'p \<Rightarrow> (VerifyResult \<times> AnchorResult \<times> err option) \<times> 'p" where
  "VerifyAndPublish s chainID p =
     (case sv_VerifyChain s chainID of
        Inl er \<Rightarrow> ((zero_VerifyResult, zero_AnchorResult, Some er), p)
      | Inr res \<Rightarrow>
          if \<not> vr_OK res then ((res, zero_AnchorResult, None), p)
          else case sv_publisher s \<lparr> aq_ChainID = vr_ChainID res, aq_HeadSeq = vr_HeadSeq res,
                   aq_HeadHash = vr_HeadHash res, aq_Verified = True \<rparr> p of
            (Inl er, p') \<Rightarrow> ((res, zero_AnchorResult, Some er), p')
          | (Inr a, p') \<Rightarrow> ((res, a, None), p'))"

section \<open>Framing\<close>

lemma writeLenPrefixed_append:
  assumes "length a < 2 ^ 32" "length b < 2 ^ 32"
  shows "writeLenPrefixed a @ x = writeLenPrefixed b @ y \<longleftrightarrow> a = b \<and> x = y"
proof
  assume eq: "writeLenPrefixed a @ x = writeLenPrefixed b @ y"
  then have "be_bytes 4 (length a) = be_bytes 4 (length b)" "a @ x = b @ y"
    using assms by (simp_all add: writeLenPrefixed_def append_eq_append_conv)
  then have "length a = length b"
    using assms be_bytes_inj [of "length a" 4 "length b"] by simp
  then show "a = b \<and> x = y"
    using \<open>a @ x = b @ y\<close> by simp
qed simp

lemma writeUint64_append:
  assumes "- (2 ^ 63) \<le> a" "a < 2 ^ 63" "- (2 ^ 63) \<le> b" "b < 2 ^ 63"
  shows "writeUint64 a @ x = writeUint64 b @ y \<longleftrightarrow> a = b \<and> x = y"
proof
  assume "writeUint64 a @ x = writeUint64 b @ y"
  then have "be_bytes 8 (uint64 a) = be_bytes 8 (uint64 b)" "x = y"
    by (simp_all add: writeUint64_def append_eq_append_conv)
  then have "uint64 a = uint64 b"
    using uint64_less [of a] uint64_less [of b] be_bytes_inj [of "uint64 a" 8 "uint64 b"] by simp
  then show "a = b \<and> x = y"
    using assms \<open>x = y\<close> by (simp add: uint64_inj)
qed simp

text \<open>The inputs for which the framing is exact: no field of 4 GiB or more, and both integers in
  the range of the type that holds them.\<close>

definition frameable :: "EventHashInput \<Rightarrow> bool" where
  "frameable i \<longleftrightarrow> length (hi_ChainID i) < 2 ^ 32 \<and> length (hi_EventID i) < 2 ^ 32 \<and>
     length (hi_Operation i) < 2 ^ 32 \<and> length (hi_Actor i) < 2 ^ 32 \<and>
     length (hi_PayloadCanonical i) < 2 ^ 32 \<and>
     - (2 ^ 63) \<le> hi_Seq i \<and> hi_Seq i < 2 ^ 63 \<and>
     - (2 ^ 63) \<le> hi_OccurredAtUnixNanos i \<and> hi_OccurredAtUnixNanos i < 2 ^ 63"

lemma hash_fields_inj:
  assumes "frameable i" "frameable j"
  shows "hash_fields i = hash_fields j \<longleftrightarrow> i = j"
proof
  assume eq: "hash_fields i = hash_fields j"
  have "writeLenPrefixed (hi_PayloadCanonical i) = writeLenPrefixed (hi_PayloadCanonical j) \<longleftrightarrow>
      hi_PayloadCanonical i = hi_PayloadCanonical j"
    using assms writeLenPrefixed_append [of _ _ "[]" "[]"] by (simp add: frameable_def)
  with eq assms show "i = j"
    by (simp add: hash_fields_def frameable_def writeLenPrefixed_append writeUint64_append)
qed simp

section \<open>What the verifier accepts\<close>

definition sealed :: "AuditEvent \<Rightarrow> bool" where
  "sealed e \<longleftrightarrow> ChainHash (event_hash_input e) (ae_PrevHash e) = Inr (ae_ThisHash e)"

definition chain_valid :: "bytes \<Rightarrow> int \<Rightarrow> AuditEvent list \<Rightarrow> bool" where
  "chain_valid prev from es \<longleftrightarrow>
     (\<forall>i < length es. ae_Seq (es ! i) = from + int i \<and>
        ae_PrevHash (es ! i) = (if i = 0 then prev else ae_ThisHash (es ! (i - 1))) \<and> sealed (es ! i))"

lemma chain_valid_Nil [simp]: "chain_valid prev from []"
  by (simp add: chain_valid_def)

lemma chain_valid_Cons [simp]:
  "chain_valid prev from (e # es) \<longleftrightarrow>
     ae_Seq e = from \<and> ae_PrevHash e = prev \<and> sealed e \<and> chain_valid (ae_ThisHash e) (from + 1) es"
  (is "?l \<longleftrightarrow> ?r")
proof
  assume l: ?l
  have "ae_Seq (es ! i) = from + 1 + int i \<and>
      ae_PrevHash (es ! i) = (if i = 0 then ae_ThisHash e else ae_ThisHash (es ! (i - 1))) \<and> sealed (es ! i)"
    if "i < length es" for i
    using l [unfolded chain_valid_def, rule_format, of "Suc i"] that by (auto simp: nth_Cons')
  moreover have "ae_Seq e = from \<and> ae_PrevHash e = prev \<and> sealed e"
    using l [unfolded chain_valid_def, rule_format, of 0] by simp
  ultimately show ?r
    by (simp add: chain_valid_def)
next
  assume r: ?r
  show ?l
    unfolding chain_valid_def
  proof (intro allI impI)
    fix i
    assume "i < length (e # es)"
    with r show "ae_Seq ((e # es) ! i) = from + int i \<and>
        ae_PrevHash ((e # es) ! i) = (if i = 0 then prev else ae_ThisHash ((e # es) ! (i - 1))) \<and>
        sealed ((e # es) ! i)"
      by (cases i) (auto simp: chain_valid_def nth_Cons')
  qed
qed

lemma chain_valid_snoc:
  "chain_valid prev from (es @ [e]) \<longleftrightarrow>
     chain_valid prev from es \<and> ae_Seq e = from + int (length es) \<and>
     ae_PrevHash e = (if es = [] then prev else ae_ThisHash (last es)) \<and> sealed e"
  by (induction es arbitrary: prev "from") auto

lemma chain_valid_append:
  "chain_valid prev from (es @ fs) \<Longrightarrow> chain_valid prev from es"
  by (induction es arbitrary: prev "from") auto

text \<open>The callback on one row, in the two cases that matter: the row extends the chain, or it does
  not and the first break is recorded.\<close>

definition head_of :: "verify_state \<Rightarrow> AuditEvent list \<Rightarrow> verify_state" where
  "head_of st es = (if es = [] then st else
     \<lparr> vs_res = (vs_res st)\<lparr> vr_Checked := vr_Checked (vs_res st) + int (length es),
           vr_HeadSeq := ae_Seq (last es), vr_HeadHash := ae_ThisHash (last es) \<rparr>,
       vs_expPrev = Some (ae_ThisHash (last es)), vs_expSeq = vs_expSeq st + int (length es) \<rparr>)"

lemma verify_event_ok:
  assumes "ae_Seq e = vs_expSeq st" "vs_expPrev st = Some (ae_PrevHash e)" "sealed e"
    and "0 \<le> vs_expSeq st" "vs_expSeq st + 1 < 2 ^ 63"
    and "0 \<le> vr_Checked (vs_res st)" "vr_Checked (vs_res st) + 1 < 2 ^ 63"
  shows "verify_event e st = (head_of st [e], False)"
  using assms by (simp add: verify_event_def sealed_def head_of_def int64_id)

lemma verify_event_break:
  assumes "vs_expPrev st = Some p" "vr_FirstBreakSeq (vs_res st) = None"
    and "\<not> (ae_Seq e = vs_expSeq st \<and> ae_PrevHash e = p \<and> sealed e)"
  shows "\<exists>st' reason. verify_event e st = (st', True) \<and> reason \<noteq> [] \<and>
           vs_res st' = (vs_res st)\<lparr> vr_FirstBreakSeq := Some (ae_Seq e), vr_BreakReason := reason \<rparr>"
  using assms by (auto simp: verify_event_def setBreak_def sealed_def Let_def split: sum.splits)

lemma verify_stream_ok:
  assumes "chain_valid p (vs_expSeq st) es" "vs_expPrev st = Some p"
    and "0 \<le> vs_expSeq st" "vs_expSeq st + int (length es) < 2 ^ 63"
    and "0 \<le> vr_Checked (vs_res st)" "vr_Checked (vs_res st) + int (length es) < 2 ^ 63"
  shows "verify_stream es readErr st = (head_of st es, readErr)"
  using assms
proof (induction es arbitrary: st p)
  case Nil
  then show ?case by (simp add: head_of_def)
next
  case (Cons e es)
  have "verify_event e st = (head_of st [e], False)"
    using Cons.prems by (intro verify_event_ok) auto
  moreover have "verify_stream es readErr (head_of st [e]) = (head_of (head_of st [e]) es, readErr)"
    using Cons.prems by (intro Cons.IH [of "ae_ThisHash e"]) (auto simp: head_of_def)
  moreover have "head_of (head_of st [e]) es = head_of st (e # es)"
    by (simp add: head_of_def)
  ultimately show ?case
    by simp
qed

lemma verify_stream_break:
  assumes "\<not> chain_valid p (vs_expSeq st) es" "vs_expPrev st = Some p"
    and "0 \<le> vs_expSeq st" "vs_expSeq st + int (length es) < 2 ^ 63"
    and "0 \<le> vr_Checked (vs_res st)" "vr_Checked (vs_res st) + int (length es) < 2 ^ 63"
    and "vr_FirstBreakSeq (vs_res st) = None"
  shows "\<exists>pre e post st' reason. es = pre @ e # post \<and> chain_valid p (vs_expSeq st) pre \<and>
           \<not> chain_valid p (vs_expSeq st) (pre @ [e]) \<and> verify_stream es readErr st = (st', None) \<and> reason \<noteq> [] \<and>
           vs_res st' = (vs_res (head_of st pre))\<lparr> vr_FirstBreakSeq := Some (ae_Seq e), vr_BreakReason := reason \<rparr>"
  using assms
proof (induction es arbitrary: st p)
  case Nil
  then show ?case by simp
next
  case (Cons e es)
  show ?case
  proof (cases "ae_Seq e = vs_expSeq st \<and> ae_PrevHash e = p \<and> sealed e")
    case False
    then obtain st' reason where "verify_event e st = (st', True)" "reason \<noteq> []"
      "vs_res st' = (vs_res st)\<lparr> vr_FirstBreakSeq := Some (ae_Seq e), vr_BreakReason := reason \<rparr>"
      using verify_event_break [of st p e] Cons.prems by blast
    with False show ?thesis
      by (intro exI [of _ "[]"] exI [of _ e] exI [of _ es] exI [of _ st'] exI [of _ reason])
        (auto simp: head_of_def)
  next
    case True
    have step: "verify_event e st = (head_of st [e], False)"
      using Cons.prems True by (intro verify_event_ok) auto
    have seq: "vs_expSeq (head_of st [e]) = vs_expSeq st + 1"
      by (simp add: head_of_def)
    obtain pre e' post st' reason where *: "es = pre @ e' # post"
      "chain_valid (ae_ThisHash e) (vs_expSeq st + 1) pre"
      "\<not> chain_valid (ae_ThisHash e) (vs_expSeq st + 1) (pre @ [e'])"
      "verify_stream es readErr (head_of st [e]) = (st', None)" "reason \<noteq> []"
      "vs_res st' = (vs_res (head_of (head_of st [e]) pre))\<lparr> vr_FirstBreakSeq := Some (ae_Seq e'), vr_BreakReason := reason \<rparr>"
      using Cons.IH [of "ae_ThisHash e" "head_of st [e]"] Cons.prems True seq
      by (auto simp: head_of_def)
    have "head_of (head_of st [e]) pre = head_of st (e # pre)"
      by (simp add: head_of_def)
    with * True step show ?thesis
      by (intro exI [of _ "e # pre"] exI [of _ e'] exI [of _ post] exI [of _ st'] exI [of _ reason]) auto
  qed
qed

text \<open>A partial range adopts the previous hash of its first row, so the accepted rows are those
  that continue from it.\<close>

definition range_anchor :: "int \<Rightarrow> AuditEvent list \<Rightarrow> bytes" where
  "range_anchor fromSeq es = (if fromSeq = 1 then GenesisPrevHash
     else case es of [] \<Rightarrow> [] | e # _ \<Rightarrow> ae_PrevHash e)"

lemma verify_event_adopt:
  assumes "vs_expPrev st = None"
  shows "verify_event e st = (st1, stop) \<Longrightarrow>
    \<exists>st2. verify_event e (st\<lparr> vs_expPrev := Some (ae_PrevHash e) \<rparr>) = (st2, stop) \<and>
       vs_res st1 = vs_res st2 \<and> (\<not> stop \<longrightarrow> st1 = st2)"
  using assms by (auto simp: verify_event_def Let_def split: sum.splits if_splits)

lemma verify_stream_adopt:
  assumes "vs_expPrev st = None" "es \<noteq> []"
  shows "vs_res (fst (verify_stream es readErr st)) =
           vs_res (fst (verify_stream es readErr (st\<lparr> vs_expPrev := Some (ae_PrevHash (hd es)) \<rparr>))) \<and>
         snd (verify_stream es readErr st) = snd (verify_stream es readErr (st\<lparr> vs_expPrev := Some (ae_PrevHash (hd es)) \<rparr>))"
proof (cases es)
  case (Cons e fs)
  obtain st1 stop where 1: "verify_event e st = (st1, stop)"
    by (cases "verify_event e st")
  then obtain st2 where 2: "verify_event e (st\<lparr> vs_expPrev := Some (ae_PrevHash e) \<rparr>) = (st2, stop)"
    "vs_res st1 = vs_res st2" "\<not> stop \<longrightarrow> st1 = st2"
    using verify_event_adopt [OF assms(1)] by blast
  with 1 show ?thesis
    by (auto simp: Cons)
qed (use assms in simp)

lemma VerifyRange_stream:
  assumes "reader chainID fromSeq toSeq = (es, readErr)"
  defines "st0 \<equiv> (verify_init chainID fromSeq)\<lparr> vs_expPrev := Some (range_anchor fromSeq es) \<rparr>"
  shows "VerifyRange reader chainID fromSeq toSeq =
    (case verify_stream es readErr st0 of
        (st, Some er) \<Rightarrow> Inl er
      | (st, None) \<Rightarrow> Inr ((vs_res st)\<lparr> vr_OK := (vr_FirstBreakSeq (vs_res st) = None) \<rparr>))"
proof -
  have *: "vs_res (fst (verify_stream es readErr (verify_init chainID fromSeq))) = vs_res (fst (verify_stream es readErr st0)) \<and>
        snd (verify_stream es readErr (verify_init chainID fromSeq)) = snd (verify_stream es readErr st0)"
  proof (cases "fromSeq = 1 \<or> es = []")
    case True
    then show ?thesis
      by (auto simp: st0_def verify_init_def range_anchor_def)
  next
    case False
    then show ?thesis
      using verify_stream_adopt [of "verify_init chainID fromSeq" es readErr]
      by (simp add: st0_def verify_init_def range_anchor_def list.case_eq_if)
  qed
  then show ?thesis
    using assms(1)
    by (cases "verify_stream es readErr (verify_init chainID fromSeq)"; cases "verify_stream es readErr st0")
      (simp add: VerifyRange_def split: option.splits)
qed

lemma VerifyRange_accepts:
  assumes "reader chainID fromSeq toSeq = (es, None)" "0 \<le> fromSeq" "fromSeq + int (length es) < 2 ^ 63"
    and "chain_valid (range_anchor fromSeq es) fromSeq es"
  shows "VerifyRange reader chainID fromSeq toSeq = Inr
    \<lparr> vr_ChainID = chainID, vr_OK = True, vr_Checked = int (length es),
      vr_HeadSeq = (if es = [] then 0 else fromSeq + int (length es) - 1),
      vr_HeadHash = (if es = [] then [] else ae_ThisHash (last es)),
      vr_FirstBreakSeq = None, vr_BreakReason = [], vr_AnchorsMatched = 0 \<rparr>"
proof -
  define st0 where "st0 = (verify_init chainID fromSeq)\<lparr> vs_expPrev := Some (range_anchor fromSeq es) \<rparr>"
  have "ae_Seq (last es) = fromSeq + int (length es) - 1" if "es \<noteq> []"
    using assms(4) that by (cases es rule: rev_cases) (auto simp: chain_valid_snoc)
  moreover have "verify_stream es None st0 = (head_of st0 es, None)"
    using assms by (intro verify_stream_ok) (auto simp: st0_def verify_init_def zero_VerifyResult_def)
  ultimately show ?thesis
    using VerifyRange_stream [of reader chainID fromSeq toSeq es None, OF assms(1)]
    by (auto simp: st0_def head_of_def verify_init_def zero_VerifyResult_def)
qed

lemma VerifyRange_rejects:
  assumes "reader chainID fromSeq toSeq = (es, None)" "0 \<le> fromSeq" "fromSeq + int (length es) < 2 ^ 63"
    and "\<not> chain_valid (range_anchor fromSeq es) fromSeq es"
  shows "\<exists>pre e post reason. es = pre @ e # post \<and> chain_valid (range_anchor fromSeq es) fromSeq pre \<and>
    \<not> chain_valid (range_anchor fromSeq es) fromSeq (pre @ [e]) \<and> reason \<noteq> [] \<and>
    VerifyRange reader chainID fromSeq toSeq = Inr
      \<lparr> vr_ChainID = chainID, vr_OK = False, vr_Checked = int (length pre),
        vr_HeadSeq = (if pre = [] then 0 else fromSeq + int (length pre) - 1),
        vr_HeadHash = (if pre = [] then [] else ae_ThisHash (last pre)),
        vr_FirstBreakSeq = Some (ae_Seq e), vr_BreakReason = reason, vr_AnchorsMatched = 0 \<rparr>"
proof -
  define st0 where "st0 = (verify_init chainID fromSeq)\<lparr> vs_expPrev := Some (range_anchor fromSeq es) \<rparr>"
  have seq0: "vs_expSeq st0 = fromSeq"
    by (simp add: st0_def verify_init_def)
  obtain pre e post st' reason where *: "es = pre @ e # post"
    "chain_valid (range_anchor fromSeq es) fromSeq pre"
    "\<not> chain_valid (range_anchor fromSeq es) fromSeq (pre @ [e])"
    "verify_stream es None st0 = (st', None)" "reason \<noteq> []"
    "vs_res st' = (vs_res (head_of st0 pre))\<lparr> vr_FirstBreakSeq := Some (ae_Seq e), vr_BreakReason := reason \<rparr>"
    using verify_stream_break [of "range_anchor fromSeq es" st0 es None] assms
    by (auto simp: st0_def verify_init_def zero_VerifyResult_def)
  have "ae_Seq (last pre) = fromSeq + int (length pre) - 1" if "pre \<noteq> []"
    using *(2) that by (cases pre rule: rev_cases) (auto simp: chain_valid_snoc)
  with * show ?thesis
    using VerifyRange_stream [of reader chainID fromSeq toSeq es None, OF assms(1)]
    by (intro exI [of _ pre] exI [of _ e] exI [of _ post] exI [of _ reason])
      (auto simp: st0_def head_of_def verify_init_def zero_VerifyResult_def)
qed

section \<open>Tamper evidence\<close>

text \<open>The byte strings that sealing an event feeds to the hash function.\<close>

definition preimages :: "AuditEvent \<Rightarrow> bytes set" where
  "preimages e = {hash_fields (event_hash_input e), ae_PrevHash e @ SHA256 (hash_fields (event_hash_input e))}"

definition collision :: "bytes set \<Rightarrow> bool" where
  "collision S \<longleftrightarrow> (\<exists>a \<in> S. \<exists>b \<in> S. a \<noteq> b \<and> SHA256 a = SHA256 b)"

lemma collision_mono: "collision S \<Longrightarrow> S \<subseteq> T \<Longrightarrow> collision T"
  by (auto simp: collision_def)

lemma sealedD:
  assumes "sealed e"
  shows "ae_ThisHash e = SHA256 (ae_PrevHash e @ SHA256 (hash_fields (event_hash_input e)))"
    and "length (ae_PrevHash e) = HashSize" and "1 \<le> ae_Seq e"
  using assms by (auto simp: sealed_def ChainHash_def event_hash_input_def split: if_splits)

lemma not_collisionD: "\<not> collision S \<Longrightarrow> a \<in> S \<Longrightarrow> b \<in> S \<Longrightarrow> SHA256 a = SHA256 b \<Longrightarrow> a = b"
  by (auto simp: collision_def)

lemma sealed_same_hash:
  assumes "sealed e" "sealed f" "ae_ThisHash e = ae_ThisHash f" "\<not> collision (preimages e \<union> preimages f)"
    and "frameable (event_hash_input e)" "frameable (event_hash_input f)"
  shows "ae_PrevHash e = ae_PrevHash f \<and> event_hash_input e = event_hash_input f"
proof -
  let ?h = "\<lambda>e. hash_fields (event_hash_input e)"
  have "SHA256 (ae_PrevHash e @ SHA256 (?h e)) = SHA256 (ae_PrevHash f @ SHA256 (?h f))"
    using assms(3) by (simp only: sealedD(1) [OF assms(1)] sealedD(1) [OF assms(2)])
  then have "ae_PrevHash e @ SHA256 (?h e) = ae_PrevHash f @ SHA256 (?h f)"
    by (rule not_collisionD [OF assms(4), rotated 2]) (simp_all add: preimages_def)
  then have prev: "ae_PrevHash e = ae_PrevHash f" and fields: "SHA256 (?h e) = SHA256 (?h f)"
    by (simp_all add: append_eq_append_conv sealedD(2) [OF assms(1)] sealedD(2) [OF assms(2)])
  have "?h e = ?h f"
    by (rule not_collisionD [OF assms(4) _ _ fields]) (simp_all add: preimages_def)
  with prev show ?thesis
    using assms(5,6) by (simp add: hash_fields_inj)
qed

lemma chain_valid_sealed: "chain_valid prev from es \<Longrightarrow> e \<in> set es \<Longrightarrow> sealed e"
  by (auto simp: chain_valid_def in_set_conv_nth)

lemma chains_same_head:
  assumes "chain_valid GenesisPrevHash 1 es" "chain_valid GenesisPrevHash 1 fs"
    and "es \<noteq> []" "fs \<noteq> []" "ae_ThisHash (last es) = ae_ThisHash (last fs)"
    and "\<And>e. e \<in> set es \<union> set fs \<Longrightarrow> frameable (event_hash_input e)"
    and "\<not> collision (\<Union> (preimages ` (set es \<union> set fs)))"
  shows "map event_hash_input es = map event_hash_input fs \<and> map ae_PrevHash es = map ae_PrevHash fs \<and>
         map ae_ThisHash es = map ae_ThisHash fs"
  using assms
proof (induction es arbitrary: fs rule: rev_induct)
  case Nil
  then show ?case by simp
next
  case (snoc e es)
  obtain gs f where fs: "fs = gs @ [f]"
    using snoc.prems(4) by (cases fs rule: rev_cases) auto
  have e: "sealed e" "ae_Seq e = 1 + int (length es)"
    and f: "sealed f" "ae_Seq f = 1 + int (length gs)"
    using snoc.prems(1,2) by (auto simp: fs chain_valid_snoc)
  have "\<not> collision (preimages e \<union> preimages f)"
    using snoc.prems(7) by (rule contrapos_nn) (erule collision_mono, auto simp: fs)
  then have same: "ae_PrevHash e = ae_PrevHash f" "event_hash_input e = event_hash_input f"
    using sealed_same_hash [of e f] e f snoc.prems(5,6) by (simp_all add: fs)
  then have len: "length es = length gs"
    using e f by (simp add: event_hash_input_def)
  show ?case
  proof (cases "es = []")
    case True
    with same len snoc.prems(5) show ?thesis
      by (simp add: fs)
  next
    case False
    with len have "gs \<noteq> []" by auto
    have "map event_hash_input es = map event_hash_input gs \<and> map ae_PrevHash es = map ae_PrevHash gs \<and>
        map ae_ThisHash es = map ae_ThisHash gs"
    proof (rule snoc.IH)
      show "ae_ThisHash (last es) = ae_ThisHash (last gs)"
        using snoc.prems(1,2) same False \<open>gs \<noteq> []\<close> by (simp add: fs chain_valid_snoc)
      show "\<not> collision (\<Union> (preimages ` (set es \<union> set gs)))"
        using snoc.prems(7) by (rule contrapos_nn) (erule collision_mono, auto simp: fs)
    qed (use snoc.prems False \<open>gs \<noteq> []\<close> in \<open>auto simp: fs chain_valid_snoc\<close>)
    with same snoc.prems(5) show ?thesis
      by (simp add: fs)
  qed
qed

section \<open>The publisher contract\<close>

text \<open>What the service relies on: a publisher keeps a set of anchor records; a successful call
  returns a record under the content address of the request and adds at most that record, a
  failed call adds nothing, and a repeated call finds the record already published.\<close>

locale anchor_publisher =
  fixes publish :: "AnchorRequest \<Rightarrow> 'p \<Rightarrow> (err + AnchorResult) \<times> 'p"
    and records :: "'p \<Rightarrow> AnchorResult set"
    and pub_inv :: "'p \<Rightarrow> bool"
  assumes publish_inv: "pub_inv p \<Longrightarrow> publish req p = (r, p') \<Longrightarrow> pub_inv p'"
    and publish_error: "publish req p = (Inl er, p') \<Longrightarrow> p' = p"
    and publish_ok: "pub_inv p \<Longrightarrow> publish req p = (Inr a, p') \<Longrightarrow>
      \<exists>r0. NewAnchor req = Inr r0 \<and> an_AnchorID a = an_AnchorID r0 \<and> a\<lparr> an_AlreadyPublished := False \<rparr> \<in> records p' \<and>
        records p \<subseteq> records p' \<and> records p' \<subseteq> insert r0 (records p)"
    and publish_again: "pub_inv p \<Longrightarrow> publish req p = (Inr a, p') \<Longrightarrow>
      publish req p' = (Inr (a\<lparr> an_AlreadyPublished := True \<rparr>), p')"
begin

lemma verify_and_publish_cases:
  assumes "sv_publisher s = publish" "VerifyAndPublish s chainID p = (out, p')"
  shows "p' = p \<or> (\<exists>res a. sv_VerifyChain s chainID = Inr res \<and> vr_OK res \<and> out = (res, a, None) \<and>
     publish \<lparr> aq_ChainID = vr_ChainID res, aq_HeadSeq = vr_HeadSeq res,
               aq_HeadHash = vr_HeadHash res, aq_Verified = True \<rparr> p = (Inr a, p'))"
  using assms publish_error
  by (auto simp: VerifyAndPublish_def split: sum.splits if_splits prod.splits)

lemma published_is_verified:
  assumes "sv_publisher s = publish" "pub_inv p" "VerifyAndPublish s chainID p = (out, p')"
    and "r \<in> records p'" "r \<notin> records p"
  shows "\<exists>res. sv_VerifyChain s chainID = Inr res \<and> vr_OK res \<and> an_ChainID r = vr_ChainID res \<and>
    an_HeadSeq r = vr_HeadSeq res \<and> an_HeadHash r = vr_HeadHash res \<and> 1 \<le> vr_HeadSeq res"
  using verify_and_publish_cases [OF assms(1,3)]
proof
  assume "p' = p"
  with assms(4,5) show ?thesis by simp
next
  assume "\<exists>res a. sv_VerifyChain s chainID = Inr res \<and> vr_OK res \<and> out = (res, a, None) \<and>
     publish \<lparr> aq_ChainID = vr_ChainID res, aq_HeadSeq = vr_HeadSeq res,
               aq_HeadHash = vr_HeadHash res, aq_Verified = True \<rparr> p = (Inr a, p')"
  then obtain res a where *: "sv_VerifyChain s chainID = Inr res" "vr_OK res"
    "publish \<lparr> aq_ChainID = vr_ChainID res, aq_HeadSeq = vr_HeadSeq res,
               aq_HeadHash = vr_HeadHash res, aq_Verified = True \<rparr> p = (Inr a, p')"
    by blast
  from publish_ok [OF assms(2) *(3)] assms(4,5) obtain r0 where
    "NewAnchor \<lparr> aq_ChainID = vr_ChainID res, aq_HeadSeq = vr_HeadSeq res,
               aq_HeadHash = vr_HeadHash res, aq_Verified = True \<rparr> = Inr r0" "r = r0"
    by blast
  then show ?thesis
    using * by (auto simp: NewAnchor_def validateAnchorRequest_def Let_def split: if_splits option.splits)
qed

lemma verify_and_publish_twice:
  assumes "sv_publisher s = publish" "pub_inv p"
    and "VerifyAndPublish s chainID p = ((res, a, None), p')" "vr_OK res"
  shows "VerifyAndPublish s chainID p' = ((res, a\<lparr> an_AlreadyPublished := True \<rparr>, None), p')"
  using assms publish_again [of p]
  by (auto simp: VerifyAndPublish_def split: sum.splits if_splits prod.splits)

end

text \<open>The in-memory publisher satisfies the contract; every entry is stored under its own anchor id.\<close>

definition publisher_wf :: "memory_publisher \<Rightarrow> bool" where
  "publisher_wf p \<longleftrightarrow> distinct (map fst p) \<and>
     (\<forall>x \<in> set p. fst x = an_AnchorID (snd x) \<and> \<not> an_AlreadyPublished (snd x))"

lemma NewAnchor_fresh: "NewAnchor req = Inr r \<Longrightarrow> \<not> an_AlreadyPublished r"
  by (auto simp: NewAnchor_def Let_def split: option.splits)

lemma unpublished_id: "\<not> an_AlreadyPublished r \<Longrightarrow> r\<lparr> an_AlreadyPublished := False \<rparr> = r"
  by (cases r) simp

lemma publisher_wf_lookup:
  "publisher_wf p \<Longrightarrow> map_of p i = Some r \<Longrightarrow> an_AnchorID r = i \<and> \<not> an_AlreadyPublished r \<and> (i, r) \<in> set p"
  using map_of_SomeD [of p i r] by (fastforce simp: publisher_wf_def)

lemma PublishAnchor_cases:
  "PublishAnchor ctxErr p req = (r, p') \<Longrightarrow> p' = p \<or>
     (\<exists>x. NewAnchor req = Inr x \<and> an_AnchorID x \<notin> fst ` set p \<and> p' = p @ [(an_AnchorID x, x)])"
  unfolding PublishAnchor_def map_of_eq_None_iff [symmetric] by (simp split: option.splits sum.splits)

interpretation mp: anchor_publisher "\<lambda>req p. PublishAnchor ctxErr p req" "\<lambda>p. snd ` set p" publisher_wf for ctxErr
proof unfold_locales
  fix p :: memory_publisher and req r p'
  assume "publisher_wf p" "PublishAnchor ctxErr p req = (r, p')"
  then show "publisher_wf p'"
    by (auto simp: publisher_wf_def NewAnchor_fresh dest!: PublishAnchor_cases)
next
  fix p :: memory_publisher and req er p'
  assume "PublishAnchor ctxErr p req = (Inl er, p')"
  then show "p' = p"
    by (auto simp: PublishAnchor_def split: option.splits sum.splits)
next
  fix p :: memory_publisher and req a p'
  assume "publisher_wf p" "PublishAnchor ctxErr p req = (Inr a, p')"
  then show "\<exists>r0. NewAnchor req = Inr r0 \<and> an_AnchorID a = an_AnchorID r0 \<and>
      a\<lparr> an_AlreadyPublished := False \<rparr> \<in> snd ` set p' \<and> snd ` set p \<subseteq> snd ` set p' \<and> snd ` set p' \<subseteq> insert r0 (snd ` set p)"
    by (auto simp: PublishAnchor_def unpublished_id NewAnchor_fresh dest!: publisher_wf_lookup intro: rev_image_eqI
        split: option.splits sum.splits)
next
  fix p :: memory_publisher and req a p'
  assume "publisher_wf p" "PublishAnchor ctxErr p req = (Inr a, p')"
  then show "PublishAnchor ctxErr p' req = (Inr (a\<lparr> an_AlreadyPublished := True \<rparr>), p')"
    by (auto simp: PublishAnchor_def map_add_def split: option.splits sum.splits)
qed


lemma VerifyChain_accepts:
  assumes "reader chainID 1 MaxInt64 = (es, None)" "int (length es) < MaxInt64" "chain_valid GenesisPrevHash 1 es"
  shows "VerifyChain reader chainID = Inr
    \<lparr> vr_ChainID = chainID, vr_OK = True, vr_Checked = int (length es), vr_HeadSeq = int (length es),
      vr_HeadHash = (if es = [] then [] else ae_ThisHash (last es)),
      vr_FirstBreakSeq = None, vr_BreakReason = [], vr_AnchorsMatched = 0 \<rparr>"
  using VerifyRange_accepts [of reader chainID 1 MaxInt64 es, OF assms(1)] assms(2,3)
  by (simp add: VerifyChain_def range_anchor_def)

lemma VerifyChain_rejects:
  assumes "reader chainID 1 MaxInt64 = (es, None)" "int (length es) < MaxInt64" "\<not> chain_valid GenesisPrevHash 1 es"
  obtains pre e post reason where "es = pre @ e # post" "chain_valid GenesisPrevHash 1 pre"
    "\<not> chain_valid GenesisPrevHash 1 (pre @ [e])" "reason \<noteq> []"
    "VerifyChain reader chainID = Inr
      \<lparr> vr_ChainID = chainID, vr_OK = False, vr_Checked = int (length pre), vr_HeadSeq = int (length pre),
        vr_HeadHash = (if pre = [] then [] else ae_ThisHash (last pre)),
        vr_FirstBreakSeq = Some (ae_Seq e), vr_BreakReason = reason, vr_AnchorsMatched = 0 \<rparr>"
  using VerifyRange_rejects [of reader chainID 1 MaxInt64 es, OF assms(1)] assms(2,3)
  by (auto simp: VerifyChain_def range_anchor_def)

section \<open>Properties\<close>

text \<open>C4: A whole-chain verification is OK exactly when the rows read are a gap-free chain from the
  genesis hash: the n-th row has sequence n, its previous hash is the hash of the row before it,
  and its own hash is the chain hash of its fields.  An OK result counts every row and reports the
  last row as the head; otherwise the first break is the first row that does not extend the valid
  prefix before it, and the count and the head describe that prefix.\<close>

theorem VerifyChain_iff_valid:
  assumes "reader chainID 1 MaxInt64 = (es, None)" "int (length es) < MaxInt64"
  shows "\<exists>r. VerifyChain reader chainID = Inr r \<and> vr_ChainID r = chainID \<and>
    (vr_OK r \<longleftrightarrow> chain_valid GenesisPrevHash 1 es) \<and>
    (\<exists>pre post. es = pre @ post \<and> chain_valid GenesisPrevHash 1 pre \<and>
       vr_Checked r = int (length pre) \<and> vr_HeadSeq r = int (length pre) \<and>
       vr_HeadHash r = (if pre = [] then [] else ae_ThisHash (last pre)) \<and>
       (case post of [] \<Rightarrow> vr_FirstBreakSeq r = None \<and> vr_BreakReason r = []
        | e # _ \<Rightarrow> vr_FirstBreakSeq r = Some (ae_Seq e) \<and> vr_BreakReason r \<noteq> [] \<and>
                  \<not> chain_valid GenesisPrevHash 1 (pre @ [e])))"
proof (cases "chain_valid GenesisPrevHash 1 es")
  case True
  obtain r where "VerifyChain reader chainID = Inr r" "vr_OK r" "vr_ChainID r = chainID"
    "vr_Checked r = int (length es)" "vr_HeadSeq r = int (length es)"
    "vr_HeadHash r = (if es = [] then [] else ae_ThisHash (last es))"
    "vr_FirstBreakSeq r = None" "vr_BreakReason r = []"
    using VerifyChain_accepts [of reader chainID es, OF assms True] by simp
  with True show ?thesis
    by (intro exI [of _ r] conjI exI [of _ es] exI [of _ "[]"]) auto
next
  case False
  from VerifyChain_rejects [of reader chainID es, OF assms False] obtain pre e post reason where
    split: "es = pre @ e # post" "chain_valid GenesisPrevHash 1 pre"
      "\<not> chain_valid GenesisPrevHash 1 (pre @ [e])" "reason \<noteq> []"
    and res: "VerifyChain reader chainID = Inr
      \<lparr> vr_ChainID = chainID, vr_OK = False, vr_Checked = int (length pre), vr_HeadSeq = int (length pre),
        vr_HeadHash = (if pre = [] then [] else ae_ThisHash (last pre)),
        vr_FirstBreakSeq = Some (ae_Seq e), vr_BreakReason = reason, vr_AnchorsMatched = 0 \<rparr>"
    by blast
  obtain r where "VerifyChain reader chainID = Inr r" "\<not> vr_OK r"
    "vr_ChainID r = chainID" "vr_Checked r = int (length pre)" "vr_HeadSeq r = int (length pre)"
    "vr_HeadHash r = (if pre = [] then [] else ae_ThisHash (last pre))"
    "vr_FirstBreakSeq r = Some (ae_Seq e)" "vr_BreakReason r \<noteq> []"
    using split(4) by (simp add: res)
  with split False show ?thesis
    by (intro exI [of _ r] conjI exI [of _ pre] exI [of _ "e # post"]) auto
qed

definition sample_event :: AuditEvent where
  "sample_event =
     (let e = \<lparr> ae_ChainID = ''cfg-1'', ae_Seq = 1, ae_EventID = ''evt_1'', ae_OperationID = ''op-1'',
        ae_Operation = OpRatification, ae_Actor = ''alice'', ae_PayloadCanonical = ''{}'',
        ae_PrevHash = GenesisPrevHash, ae_ThisHash = [], ae_OccurredAt = 1000 \<rparr>
      in e\<lparr> ae_ThisHash := SHA256 (GenesisPrevHash @ SHA256 (hash_fields (event_hash_input e))) \<rparr>)"

lemma sample_event_valid: "chain_valid GenesisPrevHash 1 [sample_event]"
  by (simp add: sample_event_def sealed_def ChainHash_def event_hash_input_def GenesisPrevHash_def Let_def)

lemma sample_event_frameable: "frameable (event_hash_input sample_event)"
  by (simp add: sample_event_def frameable_def event_hash_input_def Let_def UnixNano_def int64_id)

theorem VerifyChain_iff_valid_witness:
  "\<exists>r. VerifyChain (\<lambda>_ _ _. ([sample_event], None)) ''cfg-1'' = Inr r \<and> vr_OK r"
  using VerifyChain_iff_valid [of "\<lambda>_ _ _. ([sample_event], None)" "''cfg-1''" "[sample_event]"]
    sample_event_valid by auto

text \<open>C5: Tamper evidence.  Two valid chains from the genesis hash with the same head hash have the
  same length and agree, event by event, on every hashed field, on the previous and on the own
  hash; otherwise two of the byte strings that were actually hashed for their events are an explicit
  SHA-256 collision.\<close>

theorem chain_tamper_evidence:
  assumes "chain_valid GenesisPrevHash 1 es" "chain_valid GenesisPrevHash 1 fs"
    and "es \<noteq> []" "fs \<noteq> []" "ae_ThisHash (last es) = ae_ThisHash (last fs)"
    and "\<And>e. e \<in> set es \<union> set fs \<Longrightarrow> frameable (event_hash_input e)"
  shows "(map event_hash_input es = map event_hash_input fs \<and> map ae_PrevHash es = map ae_PrevHash fs \<and>
          map ae_ThisHash es = map ae_ThisHash fs) \<or>
         collision (\<Union> (preimages ` (set es \<union> set fs)))"
  using chains_same_head [OF assms] by blast

theorem chain_tamper_evidence_witness:
  "map event_hash_input [sample_event] = map event_hash_input [sample_event\<lparr> ae_OperationID := ''op-2'' \<rparr>] \<or>
   collision (\<Union> (preimages ` (set [sample_event] \<union> set [sample_event\<lparr> ae_OperationID := ''op-2'' \<rparr>])))"
proof -
  let ?f = "sample_event\<lparr> ae_OperationID := ''op-2'' \<rparr>"
  have "event_hash_input ?f = event_hash_input sample_event"
    by (simp add: event_hash_input_def)
  then show ?thesis
    using chain_tamper_evidence [of "[sample_event]" "[?f]"] sample_event_valid sample_event_frameable
    by (auto simp: sealed_def)
qed

text \<open>Verifying and publishing records at most the verified head: a record that appears in the
  in-memory publisher anchors the last event of a chain that is valid from the genesis hash, under
  the id, sequence and hash of that event.\<close>

definition memory_service :: "err option \<Rightarrow> range_reader \<Rightarrow> (AppendInput \<Rightarrow> 'a \<Rightarrow> (err + AuditEvent) \<times> 'a) \<Rightarrow>
    ('a, memory_publisher) Service" where
  "memory_service ctxErr reader app =
     \<lparr> sv_appender = app, sv_VerifyChain = VerifyChain reader, sv_VerifyRange = VerifyRange reader,
       sv_publisher = (\<lambda>req p. PublishAnchor ctxErr p req) \<rparr>"

lemma VerifyAndPublish_anchors_verified_head:
  assumes "reader chainID 1 MaxInt64 = (es, None)" "int (length es) < MaxInt64" "publisher_wf p"
    and "VerifyAndPublish (memory_service ctxErr reader app) chainID p = (out, p')"
    and "r \<in> snd ` set p'" "r \<notin> snd ` set p"
  shows "chain_valid GenesisPrevHash 1 es \<and> es \<noteq> [] \<and> an_ChainID r = chainID \<and>
         an_HeadSeq r = int (length es) \<and> an_HeadHash r = ae_ThisHash (last es)"
proof -
  have pub: "sv_publisher (memory_service ctxErr reader app) = (\<lambda>req p. PublishAnchor ctxErr p req)"
    by (simp add: memory_service_def)
  obtain res where res: "VerifyChain reader chainID = Inr res" "vr_OK res" "an_ChainID r = vr_ChainID res"
    "an_HeadSeq r = vr_HeadSeq res" "an_HeadHash r = vr_HeadHash res" "1 \<le> vr_HeadSeq res"
    using mp.published_is_verified [OF pub assms(3,4,5,6)] by (auto simp: memory_service_def)
  have valid: "chain_valid GenesisPrevHash 1 es"
    using VerifyChain_rejects [of reader chainID es, OF assms(1,2)] res(1,2) by fastforce
  then show ?thesis
    using VerifyChain_accepts [of reader chainID es, OF assms(1,2)] res by (auto split: if_splits)
qed

text \<open>Truncation is not detected.  The verifier compares rows only with each other: any prefix
  of a chain that verifies also verifies, with the prefix's last event as its head.\<close>

lemma VerifyChain_accepts_prefix:
  assumes "chain_valid GenesisPrevHash 1 (es @ lost)" "int (length es) < MaxInt64"
    and "reader chainID 1 MaxInt64 = (es, None)"
  shows "\<exists>r. VerifyChain reader chainID = Inr r \<and> vr_OK r \<and> vr_HeadSeq r = int (length es)"
  using VerifyChain_accepts [of reader chainID es, OF assms(3,2) chain_valid_append [OF assms(1)]] by simp

text \<open>Two operation ids that derive the same event id are equal, or their framings are an
  explicit SHA-256 collision.\<close>

lemma DeriveEventID_distinct:
  assumes "DeriveEventID a = Inr x" "DeriveEventID b = Inr x" "length a < 2 ^ 32" "length b < 2 ^ 32"
  shows "a = b \<or> collision {writeLenPrefixed eventIDDomainTag @ writeLenPrefixed a,
                              writeLenPrefixed eventIDDomainTag @ writeLenPrefixed b}"
proof -
  have "SHA256 (writeLenPrefixed eventIDDomainTag @ writeLenPrefixed a) =
      SHA256 (writeLenPrefixed eventIDDomainTag @ writeLenPrefixed b)"
    using assms(1,2) by (auto simp: DeriveEventID_def split: if_splits)
  moreover have "writeLenPrefixed a = writeLenPrefixed b \<longleftrightarrow> a = b"
    using assms(3,4) writeLenPrefixed_append [of a b "[]" "[]"] by simp
  ultimately show ?thesis
    by (auto simp: collision_def)
qed

end
