(* ===== verification/Governance.thy ===== *)
theory Governance
  imports AuditChain
begin

text \<open>
  The configuration operations engine of \<^verbatim>\<open>internal/governance\<close>: the transition table
  (\<^verbatim>\<open>transition.go\<close>) and the transactional engine (\<^verbatim>\<open>engine.go\<close>).

  The engine talks to its ports only, so the model takes them as a record of functions on a
  transaction state \<open>'tx\<close>.  A port call returns an error, or its value and the state with its
  effect staged.  \<^verbatim>\<open>Begin\<close> gives the transaction the committed state; the deferred
  \<^verbatim>\<open>Rollback\<close> means that every error return leaves the committed state, and only \<^verbatim>\<open>Commit\<close>
  replaces it.
\<close>

section \<open>Transitions\<close>

record edgeSpec =
  es_From :: string
  es_To :: string
  es_Kind :: string

record plan =
  pl_Lifecycle :: string
  pl_Retention :: string
  pl_Authority :: string
  pl_Remove :: bool
  pl_Edge :: "edgeSpec option"

record Command =
  cm_Operation :: string
  cm_CfgID :: string
  cm_Actor :: string
  cm_OperationID :: string
  cm_ExpectedRowVersion :: int
  cm_TargetRetention :: string
  cm_SuccessorID :: string

definition invalid :: "string \<Rightarrow> ConfigObject \<Rightarrow> string \<Rightarrow> err" where
  "invalid op obj reason = TransitionError op (co_Lifecycle obj) reason"

definition isArchivalRetention :: "string \<Rightarrow> bool" where
  "isArchivalRetention rc \<longleftrightarrow> rc \<in> {RetentionHistoricalRecord, RetentionHistoricalEvidence,
     RetentionAuditRecord, RetentionSupersededPlan}"

text \<open>The dimensions a plan sets, with neither removal nor edge.\<close>

definition dims :: "string \<Rightarrow> string \<Rightarrow> string \<Rightarrow> plan" where
  "dims l r a = \<lparr> pl_Lifecycle = l, pl_Retention = r, pl_Authority = a, pl_Remove = False, pl_Edge = None \<rparr>"

definition planTransition :: "string \<Rightarrow> ConfigObject \<Rightarrow> Command \<Rightarrow> err + plan" where
  "planTransition op obj cmd =
     (if op = OpRatification then
        if co_Lifecycle obj \<noteq> LifecycleDraft \<and> co_Lifecycle obj \<noteq> LifecycleInReview
        then Inl (invalid op obj ''requires draft or in_review'')
        else Inr (dims LifecycleRatified RetentionCurrentBaseline AuthorityActive)
      else if op = OpApproval then
        if co_Lifecycle obj \<noteq> LifecycleDraft \<and> co_Lifecycle obj \<noteq> LifecycleInReview
        then Inl (invalid op obj ''requires draft or in_review'')
        else Inr (dims LifecycleApproved (co_RetentionClass obj) AuthorityActive)
      else if op = OpExtension then
        if cm_SuccessorID cmd = [] then Inl (invalid op obj ''successor_id is required'')
        else if cm_SuccessorID cmd = cm_CfgID cmd then Inl (invalid op obj ''an object cannot extend itself'')
        else Inr ((dims (co_Lifecycle obj) (co_RetentionClass obj) (co_Authority obj))
               \<lparr> pl_Edge := Some \<lparr> es_From = cm_SuccessorID cmd, es_To = cm_CfgID cmd, es_Kind = EdgeKindExtends \<rparr> \<rparr>)
      else if op = OpSuspension then
        if co_Lifecycle obj = LifecycleWithdrawn \<or> co_Lifecycle obj = LifecycleSuspended
        then Inl (invalid op obj ''already terminal or suspended'')
        else Inr (dims LifecycleSuspended (co_RetentionClass obj) (co_Authority obj))
      else if op = OpDeprecation then
        if co_Authority obj \<noteq> AuthorityActive then Inl (invalid op obj ''only active artifacts may be deprecated'')
        else Inr (dims LifecycleDeprecated (co_RetentionClass obj) AuthorityActive)
      else if op = OpWithdrawal then
        if co_Lifecycle obj = LifecycleWithdrawn then Inl (invalid op obj ''already withdrawn'')
        else Inr (dims LifecycleWithdrawn (co_RetentionClass obj)
               (if co_Authority obj = AuthorityActive then AuthorityHistorical else AuthorityNonNormative))
      else if op = OpArchiving then
        if \<not> isArchivalRetention (cm_TargetRetention cmd)
        then Inl (invalid op obj ''target_retention must be an archival class'')
        else Inr (dims (co_Lifecycle obj) (cm_TargetRetention cmd) (co_Authority obj))
      else if op = OpDeletion then
        if co_RetentionClass obj \<noteq> RetentionWorkingMaterial
        then Inl (invalid op obj ''only working_material may be deleted'')
        else Inr ((dims [] [] []) \<lparr> pl_Remove := True \<rparr>)
      else Inl (ErrUnsupportedOperation op))"

section \<open>Commands and results\<close>

definition Command_validate :: "Command \<Rightarrow> err option" where
  "Command_validate c =
     (if cm_CfgID c = [] then Some (ErrOther ''governance: cfg_id is required'')
      else if cm_Actor c = [] then Some (ErrOther ''governance: actor is required'')
      else if \<not> Operation_Valid (cm_Operation c) then Some (ErrOther ''governance: unknown operation'')
      else None)"

record Result =
  rs_Operation :: string
  rs_CfgID :: string
  rs_Actor :: string
  rs_OccurredAt :: instant
  rs_NewLifecycle :: string
  rs_NewRetention :: string
  rs_NewAuthority :: string
  rs_Removed :: bool
  rs_RowVersion :: int
  rs_SuccessorID :: string

definition omitempty :: "string \<Rightarrow> string \<Rightarrow> (string \<times> bytes) list" where
  "omitempty k v = (if v = [] then [] else [(k, json_quote True v)])"

definition auditPayload :: "Result \<Rightarrow> bytes" where
  "auditPayload r = print_struct True
     ([(''operation'', json_quote True (rs_Operation r)), (''cfg_id'', json_quote True (rs_CfgID r)),
       (''removed'', bool_field (rs_Removed r))] @
      omitempty ''new_lifecycle'' (rs_NewLifecycle r) @ omitempty ''new_retention'' (rs_NewRetention r) @
      omitempty ''new_authority'' (rs_NewAuthority r) @
      [(''row_version'', FormatInt (rs_RowVersion r))] @ omitempty ''successor_id'' (rs_SuccessorID r))"

section \<open>Ports\<close>

record 'tx GovStore =
  gs_Begin :: "'tx \<Rightarrow> err + 'tx"
  gs_GetForUpdate :: "string \<Rightarrow> 'tx \<Rightarrow> err + ConfigObject"
  gs_ApplyDimensions :: "string \<Rightarrow> int \<Rightarrow> string \<Rightarrow> string \<Rightarrow> string \<Rightarrow> 'tx \<Rightarrow> err + (int \<times> 'tx)"
  gs_CountDependents :: "string \<Rightarrow> 'tx \<Rightarrow> err + int"
  gs_RemoveObject :: "string \<Rightarrow> int \<Rightarrow> 'tx \<Rightarrow> err + 'tx"
  gs_RecordEdge :: "string \<Rightarrow> string \<Rightarrow> string \<Rightarrow> 'tx \<Rightarrow> err + 'tx"
  gs_Commit :: "'tx \<Rightarrow> err + 'tx"

type_synonym authorizer = "string \<Rightarrow> string \<Rightarrow> ConfigObject \<Rightarrow> err option"

definition AllowAllAuthorizer :: authorizer where
  "AllowAllAuthorizer op actor obj = None"

type_synonym 'tx auditor = "AppendInput \<Rightarrow> 'tx \<Rightarrow> err + (AuditEvent \<times> 'tx)"

record 'tx Engine =
  en_store :: "'tx GovStore"
  en_authorizer :: authorizer
  en_audit :: "'tx auditor"

definition NewEngine :: "'tx GovStore option \<Rightarrow> authorizer option \<Rightarrow> 'tx auditor option \<Rightarrow> err + 'tx Engine" where
  "NewEngine store authz aud =
     (case store of None \<Rightarrow> Inl (ErrOther ''governance: engine requires a non-nil Store'')
      | Some s \<Rightarrow> (case authz of None \<Rightarrow> Inl (ErrOther ''governance: engine requires a non-nil Authorizer'')
      | Some a \<Rightarrow> (case aud of None \<Rightarrow> Inl (ErrOther ''governance: engine requires a non-nil Auditor'')
      | Some u \<Rightarrow> Inr \<lparr> en_store = s, en_authorizer = a, en_audit = u \<rparr>)))"

section \<open>Execution\<close>

text \<open>The dimensional part of an operation, with the removal branch.\<close>

definition apply_plan :: "'tx GovStore \<Rightarrow> ConfigObject \<Rightarrow> plan \<Rightarrow> Result \<Rightarrow> 'tx \<Rightarrow> err + (Result \<times> 'tx)" where
  "apply_plan store obj p res tx =
     (if pl_Remove p then
        (case gs_CountDependents store (rs_CfgID res) tx of Inl er \<Rightarrow> Inl er
         | Inr n \<Rightarrow>
             if 0 < n then Inl ErrHasDependents
             else case gs_RemoveObject store (rs_CfgID res) (co_RowVersion obj) tx of Inl er \<Rightarrow> Inl er
                  | Inr tx' \<Rightarrow> Inr (res\<lparr> rs_Removed := True \<rparr>, tx'))
      else
        let next_obj = obj\<lparr> co_Lifecycle := pl_Lifecycle p, co_RetentionClass := pl_Retention p,
                        co_Authority := pl_Authority p \<rparr>
        in case ConfigObject_Validate next_obj of Some er \<Rightarrow> Inl er
           | None \<Rightarrow>
             (case gs_ApplyDimensions store (rs_CfgID res) (co_RowVersion obj)
                     (pl_Lifecycle p) (pl_Retention p) (pl_Authority p) tx of Inl er \<Rightarrow> Inl er
              | Inr (rv, tx') \<Rightarrow>
                  Inr (res\<lparr> rs_NewLifecycle := pl_Lifecycle p, rs_NewRetention := pl_Retention p,
                           rs_NewAuthority := pl_Authority p, rs_RowVersion := rv \<rparr>, tx')))"

text \<open>The relational part.\<close>

definition apply_edge :: "'tx GovStore \<Rightarrow> plan \<Rightarrow> Result \<times> 'tx \<Rightarrow> err + (Result \<times> 'tx)" where
  "apply_edge store p = (\<lambda>(res, tx).
     (case pl_Edge p of None \<Rightarrow> Inr (res, tx)
      | Some e \<Rightarrow> (case gs_RecordEdge store (es_From e) (es_To e) (es_Kind e) tx of Inl er \<Rightarrow> Inl er
                  | Inr tx' \<Rightarrow> Inr (res\<lparr> rs_SuccessorID := es_From e \<rparr>, tx'))))"

text \<open>The audit event of the operation, appended in the same transaction.\<close>

definition emit_audit :: "'tx auditor \<Rightarrow> Command \<Rightarrow> Result \<times> 'tx \<Rightarrow> err + (Result \<times> 'tx)" where
  "emit_audit audit cmd = (\<lambda>(res, tx).
     (case Resolve \<lparr> ei_ChainID = AuditChainID (rs_CfgID res), ei_OperationID = cm_OperationID cmd,
                     ei_Operation = rs_Operation res, ei_Payload = auditPayload res \<rparr>
                   (rs_Actor res) (rs_OccurredAt res) of Inl er \<Rightarrow> Inl er
      | Inr inp \<Rightarrow> (case audit inp tx of Inl er \<Rightarrow> Inl er
                   | Inr (ev, tx') \<Rightarrow> Inr (res, tx'))))"

definition new_result :: "Command \<Rightarrow> instant \<Rightarrow> Result" where
  "new_result cmd now = \<lparr> rs_Operation = cm_Operation cmd, rs_CfgID = cm_CfgID cmd, rs_Actor = cm_Actor cmd,
     rs_OccurredAt = now, rs_NewLifecycle = [], rs_NewRetention = [], rs_NewAuthority = [],
     rs_Removed = False, rs_RowVersion = 0, rs_SuccessorID = [] \<rparr>"

definition Execute :: "'tx Engine \<Rightarrow> instant \<Rightarrow> Command \<Rightarrow> 'tx \<Rightarrow> (err + Result) \<times> 'tx" where
  "Execute e now cmd db =
     (case Command_validate cmd of Some er \<Rightarrow> (Inl er, db)
      | None \<Rightarrow>
     (case gs_Begin (en_store e) db of Inl er \<Rightarrow> (Inl er, db)
      | Inr tx \<Rightarrow>
     (case gs_GetForUpdate (en_store e) (cm_CfgID cmd) tx of Inl er \<Rightarrow> (Inl er, db)
      | Inr obj \<Rightarrow>
        if cm_ExpectedRowVersion cmd \<noteq> 0 \<and> co_RowVersion obj \<noteq> cm_ExpectedRowVersion cmd
        then (Inl ErrVersionMismatch, db)
        else
     (case en_authorizer e (cm_Operation cmd) (cm_Actor cmd) obj of Some er \<Rightarrow> (Inl er, db)
      | None \<Rightarrow>
     (case planTransition (cm_Operation cmd) obj cmd of Inl er \<Rightarrow> (Inl er, db)
      | Inr p \<Rightarrow>
     (case apply_plan (en_store e) obj p (new_result cmd now) tx of Inl er \<Rightarrow> (Inl er, db)
      | Inr staged \<Rightarrow>
     (case apply_edge (en_store e) p staged of Inl er \<Rightarrow> (Inl er, db)
      | Inr staged' \<Rightarrow>
     (case emit_audit (en_audit e) cmd staged' of Inl er \<Rightarrow> (Inl er, db)
      | Inr (res, tx') \<Rightarrow>
     (case gs_Commit (en_store e) tx' of Inl er \<Rightarrow> (Inl er, db)
      | Inr db' \<Rightarrow> (Inr res, db'))))))))))"

section \<open>The contract of the ports\<close>

text \<open>What the engine relies on, over three views of the transaction state: the objects, the
  dependency edges and the audit chains.  Every call keeps \<open>inv\<close> and touches only its own view.\<close>

locale governed_engine =
  fixes E :: "'tx Engine"
    and objects :: "'tx \<Rightarrow> string \<Rightarrow> ConfigObject option"
    and edges :: "'tx \<Rightarrow> (string \<times> string \<times> string) set"
    and chain :: "'tx \<Rightarrow> string \<Rightarrow> AuditEvent list"
    and inv :: "'tx \<Rightarrow> bool"
  assumes begin_ok: "gs_Begin (en_store E) db = Inr tx \<Longrightarrow> tx = db"
    and commit_ok: "gs_Commit (en_store E) tx = Inr db \<Longrightarrow> db = tx"
    and get_ok: "inv tx \<Longrightarrow> gs_GetForUpdate (en_store E) c tx = Inr obj \<Longrightarrow> objects tx c = Some obj"
    and apply_ok: "inv tx \<Longrightarrow> objects tx c = Some obj \<Longrightarrow>
      gs_ApplyDimensions (en_store E) c (co_RowVersion obj) l r a tx = Inr (rv, tx') \<Longrightarrow>
      inv tx' \<and> rv = co_RowVersion obj + 1 \<and> edges tx' = edges tx \<and> chain tx' = chain tx \<and>
      (\<exists>t. objects tx' = (objects tx)(c \<mapsto> obj\<lparr> co_Lifecycle := l, co_RetentionClass := r, co_Authority := a,
              co_RowVersion := rv, co_UpdatedAt := t \<rparr>))"
    and count_ok: "inv tx \<Longrightarrow> gs_CountDependents (en_store E) c tx = Inr n \<Longrightarrow> \<not> 0 < n \<Longrightarrow> (f, c, k) \<notin> edges tx"
    and remove_ok: "inv tx \<Longrightarrow> objects tx c = Some obj \<Longrightarrow>
      gs_RemoveObject (en_store E) c (co_RowVersion obj) tx = Inr tx' \<Longrightarrow>
      inv tx' \<and> chain tx' = chain tx \<and> objects tx' = (objects tx)(c := None) \<and>
      edges tx' = {(f, t, k) \<in> edges tx. f \<noteq> c \<and> t \<noteq> c}"
    and edge_ok: "inv tx \<Longrightarrow> gs_RecordEdge (en_store E) f t k tx = Inr tx' \<Longrightarrow>
      inv tx' \<and> chain tx' = chain tx \<and> objects tx' = objects tx \<and> edges tx' = insert (f, t, k) (edges tx) \<and>
      objects tx f \<noteq> None \<and> (f, t, k) \<notin> edges tx"
    and append_ok: "inv tx \<Longrightarrow> en_audit E inp tx = Inr (e, tx') \<Longrightarrow>
      inv tx' \<and> objects tx' = objects tx \<and> edges tx' = edges tx \<and>
      (\<exists>row. chain tx' = (chain tx)(ai_ChainID inp := chain tx (ai_ChainID inp) @ [row]) \<and>
         ae_OperationID row = ai_OperationID inp \<and> ae_EventID row = ai_EventID inp \<and>
         ae_Operation row = ai_Operation inp \<and> ae_Actor row = ai_Actor inp \<and>
         ae_PayloadCanonical row = ai_PayloadCanonical inp)"
begin

text \<open>The object an operation leaves behind.\<close>

definition object_effect :: "ConfigObject \<Rightarrow> plan \<Rightarrow> string \<Rightarrow> 'tx \<Rightarrow> 'tx \<Rightarrow> bool" where
  "object_effect obj p c db db' \<longleftrightarrow>
     (if pl_Remove p
      then objects db' = (objects db)(c := None) \<and> (\<forall>f k. (f, c, k) \<notin> edges db)
      else \<exists>t. objects db' = (objects db)(c \<mapsto> obj\<lparr> co_Lifecycle := pl_Lifecycle p, co_RetentionClass := pl_Retention p,
              co_Authority := pl_Authority p, co_RowVersion := co_RowVersion obj + 1, co_UpdatedAt := t \<rparr>))"

definition edge_effect :: "plan \<Rightarrow> string \<Rightarrow> 'tx \<Rightarrow> 'tx \<Rightarrow> bool" where
  "edge_effect p c db db' \<longleftrightarrow>
     edges db' = (if pl_Remove p then {(f, t, k) \<in> edges db. f \<noteq> c \<and> t \<noteq> c} else edges db) \<union>
       (case pl_Edge p of None \<Rightarrow> {} | Some e \<Rightarrow> {(es_From e, es_To e, es_Kind e)})"

lemma apply_plan_ok:
  assumes "inv tx" "objects tx (rs_CfgID res) = Some obj"
    and "apply_plan (en_store E) obj p res tx = Inr (res', tx')"
  shows "inv tx' \<and> chain tx' = chain tx \<and> object_effect obj p (rs_CfgID res) tx tx' \<and>
    edges tx' = (if pl_Remove p then {(f, t, k) \<in> edges tx. f \<noteq> rs_CfgID res \<and> t \<noteq> rs_CfgID res} else edges tx) \<and>
    rs_Operation res' = rs_Operation res \<and> rs_CfgID res' = rs_CfgID res \<and> rs_Actor res' = rs_Actor res \<and>
    rs_OccurredAt res' = rs_OccurredAt res \<and> rs_SuccessorID res' = rs_SuccessorID res \<and>
    (\<not> pl_Remove p \<longrightarrow> ConfigObject_Validate (obj\<lparr> co_Lifecycle := pl_Lifecycle p, co_RetentionClass := pl_Retention p,
                        co_Authority := pl_Authority p \<rparr>) = None)"
proof (cases "pl_Remove p")
  case True
  then obtain n where n: "gs_CountDependents (en_store E) (rs_CfgID res) tx = Inr n" "\<not> 0 < n"
    and rm: "gs_RemoveObject (en_store E) (rs_CfgID res) (co_RowVersion obj) tx = Inr tx'"
    and res': "res' = res\<lparr> rs_Removed := True \<rparr>"
    using assms(3) by (auto simp: apply_plan_def split: sum.splits if_splits)
  show ?thesis
    using remove_ok [OF assms(1,2) rm] count_ok [OF assms(1) n] True res' by (simp add: object_effect_def)
next
  case False
  then obtain rv where ap: "gs_ApplyDimensions (en_store E) (rs_CfgID res) (co_RowVersion obj)
        (pl_Lifecycle p) (pl_Retention p) (pl_Authority p) tx = Inr (rv, tx')"
    and res': "res' = res\<lparr> rs_NewLifecycle := pl_Lifecycle p, rs_NewRetention := pl_Retention p,
        rs_NewAuthority := pl_Authority p, rs_RowVersion := rv \<rparr>"
    and val: "ConfigObject_Validate (obj\<lparr> co_Lifecycle := pl_Lifecycle p, co_RetentionClass := pl_Retention p,
        co_Authority := pl_Authority p \<rparr>) = None"
    using assms(3) by (auto simp: apply_plan_def Let_def split: sum.splits option.splits)
  show ?thesis
    using apply_ok [OF assms(1,2) ap] False res' val by (auto simp: object_effect_def)
qed

lemma apply_edge_ok:
  assumes "inv tx" "apply_edge (en_store E) p (res, tx) = Inr (res', tx')"
  shows "inv tx' \<and> chain tx' = chain tx \<and> objects tx' = objects tx \<and>
    edges tx' = edges tx \<union> (case pl_Edge p of None \<Rightarrow> {} | Some e \<Rightarrow> {(es_From e, es_To e, es_Kind e)}) \<and>
    rs_Operation res' = rs_Operation res \<and> rs_CfgID res' = rs_CfgID res \<and> rs_Actor res' = rs_Actor res \<and>
    rs_OccurredAt res' = rs_OccurredAt res"
  using assms edge_ok [OF assms(1)]
  by (auto simp: apply_edge_def split: option.splits sum.splits)

lemma emit_audit_ok:
  assumes "inv tx" "emit_audit (en_audit E) cmd (res, tx) = Inr (res', tx')"
  shows "res' = res \<and> inv tx' \<and> objects tx' = objects tx \<and> edges tx' = edges tx \<and>
    (\<exists>row. chain tx' = (chain tx)(AuditChainID (rs_CfgID res) := chain tx (AuditChainID (rs_CfgID res)) @ [row]) \<and>
       ae_Operation row = rs_Operation res \<and> ae_Actor row = rs_Actor res \<and> ae_OperationID row = cm_OperationID cmd \<and>
       DeriveEventID (cm_OperationID cmd) = Inr (ae_EventID row) \<and>
       Canonicalize (auditPayload res) = Inr (ae_PayloadCanonical row))"
proof -
  obtain inp ev where inp: "Resolve \<lparr> ei_ChainID = AuditChainID (rs_CfgID res), ei_OperationID = cm_OperationID cmd,
        ei_Operation = rs_Operation res, ei_Payload = auditPayload res \<rparr> (rs_Actor res) (rs_OccurredAt res) = Inr inp"
    and ap: "en_audit E inp tx = Inr (ev, tx')" and res': "res' = res"
    using assms(2) by (auto simp: emit_audit_def split: sum.splits)
  show ?thesis
    using append_ok [OF assms(1) ap] inp res'
    by (auto simp: Resolve_def split: option.splits if_splits sum.splits)
qed

lemma execute_success:
  assumes "inv db" "Execute E now cmd db = (Inr res, db')"
  shows "\<exists>obj p row. inv db' \<and> objects db (cm_CfgID cmd) = Some obj \<and>
    (cm_ExpectedRowVersion cmd = 0 \<or> cm_ExpectedRowVersion cmd = co_RowVersion obj) \<and>
    en_authorizer E (cm_Operation cmd) (cm_Actor cmd) obj = None \<and>
    planTransition (cm_Operation cmd) obj cmd = Inr p \<and>
    object_effect obj p (cm_CfgID cmd) db db' \<and> edge_effect p (cm_CfgID cmd) db db' \<and>
    (\<not> pl_Remove p \<longrightarrow> ConfigObject_Validate (obj\<lparr> co_Lifecycle := pl_Lifecycle p, co_RetentionClass := pl_Retention p,
                        co_Authority := pl_Authority p \<rparr>) = None) \<and>
    chain db' = (chain db)(AuditChainID (cm_CfgID cmd) := chain db (AuditChainID (cm_CfgID cmd)) @ [row]) \<and>
    ae_Operation row = cm_Operation cmd \<and> ae_Actor row = cm_Actor cmd \<and> ae_OperationID row = cm_OperationID cmd \<and>
    DeriveEventID (cm_OperationID cmd) = Inr (ae_EventID row) \<and>
    Canonicalize (auditPayload res) = Inr (ae_PayloadCanonical row)"
proof -
  obtain tx obj p res1 tx1 res2 tx2 tx3 where
    bg: "gs_Begin (en_store E) db = Inr tx" and get: "gs_GetForUpdate (en_store E) (cm_CfgID cmd) tx = Inr obj"
    and ver: "cm_ExpectedRowVersion cmd = 0 \<or> cm_ExpectedRowVersion cmd = co_RowVersion obj"
    and auth: "en_authorizer E (cm_Operation cmd) (cm_Actor cmd) obj = None"
    and pl: "planTransition (cm_Operation cmd) obj cmd = Inr p"
    and ap: "apply_plan (en_store E) obj p (new_result cmd now) tx = Inr (res1, tx1)"
    and ed: "apply_edge (en_store E) p (res1, tx1) = Inr (res2, tx2)"
    and em: "emit_audit (en_audit E) cmd (res2, tx2) = Inr (res, tx3)"
    and cm: "gs_Commit (en_store E) tx3 = Inr db'"
    using assms(2) by (auto simp: Execute_def split: option.splits sum.splits if_splits prod.splits)
  have tx: "tx = db" and db': "db' = tx3"
    using begin_ok [OF bg] commit_ok [OF cm] .
  have cid: "rs_CfgID (new_result cmd now) = cm_CfgID cmd" "rs_Operation (new_result cmd now) = cm_Operation cmd"
    "rs_Actor (new_result cmd now) = cm_Actor cmd"
    by (simp_all add: new_result_def)
  have obj: "objects db (cm_CfgID cmd) = Some obj"
    using get_ok [of tx] get assms(1) by (simp add: tx)
  note 1 = apply_plan_ok [of db "new_result cmd now" obj p res1 tx1, unfolded cid, OF assms(1) obj ap [unfolded tx]]
  then have inv1: "inv tx1" by simp
  note 2 = apply_edge_ok [OF inv1 ed]
  then have inv2: "inv tx2" by simp
  note 3 = emit_audit_ok [OF inv2 em]
  obtain row where row: "chain tx3 = (chain tx2)(AuditChainID (rs_CfgID res2) := chain tx2 (AuditChainID (rs_CfgID res2)) @ [row])"
    "ae_Operation row = rs_Operation res2" "ae_Actor row = rs_Actor res2" "ae_OperationID row = cm_OperationID cmd"
    "DeriveEventID (cm_OperationID cmd) = Inr (ae_EventID row)"
    "Canonicalize (auditPayload res2) = Inr (ae_PayloadCanonical row)"
    using 3 by blast
  have "object_effect obj p (cm_CfgID cmd) db db'"
    using 1 2 3 by (simp add: object_effect_def db')
  moreover have "edge_effect p (cm_CfgID cmd) db db'"
    using 1 2 3 by (simp add: edge_effect_def db')
  ultimately show ?thesis
    using 1 2 3 row obj ver auth pl by (intro exI [of _ obj] exI [of _ p] exI [of _ row]) (simp add: db')
qed

text \<open>Operations keep every stored object valid.\<close>

definition objects_valid :: "'tx \<Rightarrow> bool" where
  "objects_valid db \<longleftrightarrow> (\<forall>c obj. objects db c = Some obj \<longrightarrow> ConfigObject_Validate obj = None)"

lemma execute_keeps_valid:
  assumes "inv db" "objects_valid db" "Execute E now cmd db = (r, db')"
  shows "r = Inl er \<Longrightarrow> db' = db" "objects_valid db'"
proof -
  show err: "r = Inl er \<Longrightarrow> db' = db" for er
    using assms(3) by (auto simp: Execute_def split: option.splits sum.splits if_splits prod.splits)
  show "objects_valid db'"
  proof (cases r)
    case (Inl er)
    with err assms(2) show ?thesis by simp
  next
    case (Inr res)
    obtain obj p where eff: "object_effect obj p (cm_CfgID cmd) db db'"
      and val: "\<not> pl_Remove p \<Longrightarrow> ConfigObject_Validate (obj\<lparr> co_Lifecycle := pl_Lifecycle p,
          co_RetentionClass := pl_Retention p, co_Authority := pl_Authority p \<rparr>) = None"
      using execute_success [of db now cmd res db'] assms(1,3) Inr by blast
    have "ConfigObject_Validate (obj\<lparr> co_Lifecycle := pl_Lifecycle p, co_RetentionClass := pl_Retention p,
        co_Authority := pl_Authority p, co_RowVersion := v, co_UpdatedAt := t \<rparr>) = None" if "\<not> pl_Remove p" for v t
      using val [OF that] by simp
    then show ?thesis
      using assms(2) eff by (auto simp: objects_valid_def object_effect_def split: if_splits)
  qed
qed

end

lemma Execute_error_unchanged: "Execute E now cmd db = (Inl er, db') \<Longrightarrow> db' = db"
  by (auto simp: Execute_def split: option.splits sum.splits if_splits prod.splits)

section \<open>The audit payload is always appendable\<close>

lemma Canonicalize_struct:
  assumes "list_all2 (\<lambda>(k, v) j. scalar v j) fs js" "fs \<noteq> []"
  shows "\<exists>ms. Canonicalize (print_struct html fs) = Inr (json_print False (JObj ms))"
proof -
  have "length (TrimSpace (print_struct html fs)) \<noteq> 0"
    by (simp add: TrimSpace_struct) (simp add: print_struct_def)
  moreover have "rev (dropWhile (\<lambda>c. c = CHR 0x0A) (rev (json_print False (JObj ms) @ [CHR 0x0A]))) = json_print False (JObj ms)" for ms
    by simp
  ultimately show ?thesis
    using Decode_struct [OF assms, of html]
    by (auto simp: Canonicalize_def More_def skip_ws_def simp del: json_print.simps)
qed

lemma scalar_omitempty: "\<exists>js. list_all2 (\<lambda>(k, v) j. scalar v j) (omitempty k v) js"
  using scalar_quote [of True v] by (auto simp: omitempty_def list_all2_Cons1)

lemma scalar_append:
  assumes "\<exists>js. list_all2 (\<lambda>(k, v) j. scalar v j) fs js" "\<exists>js. list_all2 (\<lambda>(k, v) j. scalar v j) gs js"
  shows "\<exists>js. list_all2 (\<lambda>(k, v) j. scalar v j) (fs @ gs) js"
  using assms list_all2_appendI by blast

lemma scalar_single: "scalar v j \<Longrightarrow> \<exists>js. list_all2 (\<lambda>(k, v) j. scalar v j) [(k, v)] js"
  by (auto simp: list_all2_Cons1)

lemma auditPayload_struct:
  "\<exists>fs js. auditPayload r = print_struct True fs \<and> fs \<noteq> [] \<and> list_all2 (\<lambda>(k, v) j. scalar v j) fs js"
proof -
  let ?fs = "[(''operation'', json_quote True (rs_Operation r))] @ [(''cfg_id'', json_quote True (rs_CfgID r))] @
       [(''removed'', bool_field (rs_Removed r))] @
      omitempty ''new_lifecycle'' (rs_NewLifecycle r) @ omitempty ''new_retention'' (rs_NewRetention r) @
      omitempty ''new_authority'' (rs_NewAuthority r) @
      [(''row_version'', FormatInt (rs_RowVersion r))] @ omitempty ''successor_id'' (rs_SuccessorID r)"
  have "\<exists>js. list_all2 (\<lambda>(k, v) j. scalar v j) ?fs js"
    by (intro scalar_append scalar_omitempty scalar_single [OF scalar_quote] scalar_single [OF scalar_bool]
        scalar_single [OF scalar_int])
  moreover have "auditPayload r = print_struct True ?fs"
    by (simp add: auditPayload_def)
  ultimately show ?thesis
    by blast
qed

lemma Resolve_auditPayload:
  assumes "chainID \<noteq> []" "opID \<noteq> []" "Operation_Valid op" "actor \<noteq> []" "\<not> IsZero at"
  shows "\<exists>inp. Resolve \<lparr> ei_ChainID = chainID, ei_OperationID = opID, ei_Operation = op, ei_Payload = auditPayload r \<rparr> actor at = Inr inp \<and>
    ai_ChainID inp = chainID \<and> ai_OperationID inp = opID \<and> DeriveEventID opID = Inr (ai_EventID inp) \<and>
    ai_Operation inp = op \<and> ai_Actor inp = actor \<and> ai_OccurredAt inp = at \<and>
    Canonicalize (auditPayload r) = Inr (ai_PayloadCanonical inp) \<and> ai_PayloadCanonical inp \<noteq> [] \<and> ai_EventID inp \<noteq> []"
proof -
  obtain fs js where fs: "auditPayload r = print_struct True fs" "fs \<noteq> []" "list_all2 (\<lambda>(k, v) j. scalar v j) fs js"
    using auditPayload_struct by blast
  have "json_Valid (auditPayload r)" "length (auditPayload r) \<noteq> 0"
    using json_Valid_struct [OF fs(3,2)] fs(1) by (simp_all add: print_struct_def)
  moreover obtain ms where "Canonicalize (auditPayload r) = Inr (json_print False (JObj ms))"
    using Canonicalize_struct [OF fs(3,2), of True] fs(1) by auto
  ultimately show ?thesis
    using assms by (simp add: Resolve_def EventInput_Validate_def DeriveEventID_def)
qed

end
