(* ===== verification/Store.thy ===== *)
theory Store
  imports Governance "HOL-Library.Product_Lexorder"
begin

text \<open>
  The PostgreSQL adapters of \<^verbatim>\<open>internal/store/postgres\<close> for configuration objects, dependency
  edges, the audit chain and idempotency keys, over the schema of \<^verbatim>\<open>store/migrate/sql\<close>.

  A table is the list of its rows in insertion order; a statement is a function on the database
  that checks the constraints of the schema in the order the server checks them (CHECK, then
  unique indexes, then foreign keys), and a \<^verbatim>\<open>SELECT ... ORDER BY\<close> is a sort.  Text columns
  order bytewise.  A transaction works on a copy and is discarded on error.  What the server and
  the driver do beyond that is a parameter \<open>pg\<close>: how a time is stored in a \<^verbatim>\<open>timestamptz\<close>
  column, which byte strings \<^verbatim>\<open>convert_from(_, 'UTF8')::jsonb\<close> accepts, and the case-insensitive
  text search.  \<open>now\<close> is the server's transaction time and \<open>newID\<close> the identifier
  \<^verbatim>\<open>domain.NewID\<close> draws.
\<close>

record pg =
  pg_timestamptz :: "instant \<Rightarrow> instant"
  pg_jsonb :: "bytes \<Rightarrow> bool"
  pg_search :: "string \<Rightarrow> string \<Rightarrow> bool"

text \<open>A whole number of microseconds is stored exactly.\<close>

definition pg_exact :: "pg \<Rightarrow> bool" where
  "pg_exact pg \<longleftrightarrow> (\<forall>t. pg_timestamptz pg (TruncateMicrosecond t) = TruncateMicrosecond t)"

section \<open>Tables\<close>

record chain_head =
  ch_chain_id :: string
  ch_last_seq :: int
  ch_last_hash :: bytes
  ch_updated_at :: instant

record idempotency_row =
  ik_id :: string
  ik_method :: string
  ik_path :: string
  ik_status :: int
  ik_body :: bytes

record db =
  t_configuration_object :: "ConfigObject list"
  t_configuration_metadata :: "(string \<times> string \<times> string) list"
  t_dependency_edge :: "DependencyEdge list"
  t_audit_chain_head :: "chain_head list"
  t_audit_event :: "AuditEvent list"
  t_idempotency_key :: "idempotency_row list"

definition empty_db :: db where
  "empty_db = \<lparr> t_configuration_object = [], t_configuration_metadata = [], t_dependency_edge = [],
     t_audit_chain_head = [], t_audit_event = [], t_idempotency_key = [] \<rparr>"

section \<open>The audit store\<close>

definition EnsureChainHead :: "instant \<Rightarrow> string \<Rightarrow> bytes \<Rightarrow> db \<Rightarrow> err + db" where
  "EnsureChainHead now chainID genesisHash d =
     (if length genesisHash \<noteq> 32 then Inl (ErrOther ''ensure chain head'')
      else if chainID \<in> ch_chain_id ` set (t_audit_chain_head d) then Inr d
      else Inr (d\<lparr> t_audit_chain_head := t_audit_chain_head d @
             [\<lparr> ch_chain_id = chainID, ch_last_seq = 0, ch_last_hash = genesisHash, ch_updated_at = now \<rparr>] \<rparr>))"

definition ReadChainHead :: "string \<Rightarrow> db \<Rightarrow> (int \<times> bytes) option" where
  "ReadChainHead chainID d =
     map_option (\<lambda>h. (ch_last_seq h, ch_last_hash h)) (find (\<lambda>h. ch_chain_id h = chainID) (t_audit_chain_head d))"

definition AppendAuditEvent :: "pg \<Rightarrow> AuditEvent \<Rightarrow> db \<Rightarrow> err + db" where
  "AppendAuditEvent pg e d =
     (if \<not> pg_jsonb pg (ae_PayloadCanonical e) \<or> length (ae_PrevHash e) \<noteq> 32 \<or> length (ae_ThisHash e) \<noteq> 32 \<or>
         \<not> Operation_Valid (ae_Operation e)
      then Inl (ErrOther ''append audit event'')
      else if (\<exists>r \<in> set (t_audit_event d). ae_ChainID r = ae_ChainID e \<and>
                (ae_Seq r = ae_Seq e \<or> ae_EventID r = ae_EventID e \<or> ae_ThisHash r = ae_ThisHash e))
      then Inl ErrConflict
      else Inr (d\<lparr> t_audit_event := t_audit_event d @ [e\<lparr> ae_OccurredAt := pg_timestamptz pg (ae_OccurredAt e) \<rparr>] \<rparr>))"

definition UpsertChainHead :: "instant \<Rightarrow> string \<Rightarrow> int \<Rightarrow> bytes \<Rightarrow> db \<Rightarrow> err + db" where
  "UpsertChainHead now chainID lastSeq lastHash d =
     (let row = \<lparr> ch_chain_id = chainID, ch_last_seq = lastSeq, ch_last_hash = lastHash, ch_updated_at = now \<rparr> in
      if length lastHash \<noteq> 32 then Inl (ErrOther ''upsert chain head'')
      else if chainID \<in> ch_chain_id ` set (t_audit_chain_head d)
      then Inr (d\<lparr> t_audit_chain_head := map (\<lambda>h. if ch_chain_id h = chainID then row else h) (t_audit_chain_head d) \<rparr>)
      else Inr (d\<lparr> t_audit_chain_head := t_audit_chain_head d @ [row] \<rparr>))"

definition ListChainIDs :: "db \<Rightarrow> string list" where
  "ListChainIDs d = sort (map ch_chain_id (t_audit_chain_head d))"

definition HeadOf :: "string \<Rightarrow> db \<Rightarrow> (int \<times> bytes) option" where
  "HeadOf chainID d =
     map_option (\<lambda>h. (ch_last_seq h, ch_last_hash h)) (find (\<lambda>h. ch_chain_id h = chainID) (t_audit_chain_head d))"

text \<open>The rows of one chain in sequence order.\<close>

definition chain_events :: "db \<Rightarrow> string \<Rightarrow> AuditEvent list" where
  "chain_events d chainID = sort_key ae_Seq (filter (\<lambda>e. ae_ChainID e = chainID) (t_audit_event d))"

definition ListEvents :: "db \<Rightarrow> string \<Rightarrow> int \<Rightarrow> bool \<Rightarrow> int \<Rightarrow> string \<Rightarrow> err + AuditEvent list" where
  "ListEvents d chainID cursor desc limit operation =
     (if limit < 0 then Inl (ErrOther ''list audit events'')
      else
        let rows = filter (\<lambda>e. (if desc then ae_Seq e < cursor else cursor < ae_Seq e) \<and>
                      (operation = [] \<or> ae_Operation e = operation)) (chain_events d chainID)
        in Inr (take (nat limit) (if desc then rev rows else rows)))"

definition ReadEvent :: "db \<Rightarrow> string \<Rightarrow> int \<Rightarrow> err + AuditEvent" where
  "ReadEvent d chainID seq =
     (case find (\<lambda>e. ae_ChainID e = chainID \<and> ae_Seq e = seq) (t_audit_event d) of
        None \<Rightarrow> Inl ErrNotFound | Some e \<Rightarrow> Inr e)"

definition VerifyRangeReader :: "db \<Rightarrow> range_reader" where
  "VerifyRangeReader d chainID fromSeq toSeq =
     (filter (\<lambda>e. fromSeq \<le> ae_Seq e \<and> ae_Seq e \<le> toSeq) (chain_events d chainID), None)"

section \<open>The appender\<close>

definition AppendTx :: "pg \<Rightarrow> instant \<Rightarrow> AppendInput \<Rightarrow> db \<Rightarrow> err + (AuditEvent \<times> db)" where
  "AppendTx pg now inp tx =
     (case EnsureChainHead now (ai_ChainID inp) GenesisPrevHash tx of Inl er \<Rightarrow> Inl er
      | Inr tx1 \<Rightarrow>
     (case ReadChainHead (ai_ChainID inp) tx1 of
        None \<Rightarrow> Inl (ErrOther ''append: chain head missing after ensure'')
      | Some (lastSeq, lastHash) \<Rightarrow>
        let seq = int64 (lastSeq + 1);
            prevHash = lastHash;
            occurredAt = TruncateMicrosecond (ai_OccurredAt inp)
        in case ChainHash \<lparr> hi_ChainID = ai_ChainID inp, hi_Seq = seq, hi_EventID = ai_EventID inp,
                   hi_Operation = ai_Operation inp, hi_Actor = ai_Actor inp,
                   hi_OccurredAtUnixNanos = UnixNano occurredAt,
                   hi_PayloadCanonical = ai_PayloadCanonical inp \<rparr> prevHash of Inl er \<Rightarrow> Inl er
           | Inr thisHash \<Rightarrow>
             let event = \<lparr> ae_ChainID = ai_ChainID inp, ae_Seq = seq, ae_EventID = ai_EventID inp,
                           ae_OperationID = ai_OperationID inp, ae_Operation = ai_Operation inp,
                           ae_Actor = ai_Actor inp, ae_PayloadCanonical = ai_PayloadCanonical inp,
                           ae_PrevHash = prevHash, ae_ThisHash = thisHash, ae_OccurredAt = occurredAt \<rparr>
             in case AppendAuditEvent pg event tx1 of Inl er \<Rightarrow> Inl er
                | Inr tx2 \<Rightarrow>
                  (case UpsertChainHead now (ai_ChainID inp) seq thisHash tx2 of Inl er \<Rightarrow> Inl er
                   | Inr tx3 \<Rightarrow> Inr (event, tx3))))"

definition Append :: "pg \<Rightarrow> instant \<Rightarrow> AppendInput \<Rightarrow> db \<Rightarrow> (err + AuditEvent) \<times> db" where
  "Append pg now inp d = (case AppendTx pg now inp d of Inl er \<Rightarrow> (Inl er, d) | Inr (e, d') \<Rightarrow> (Inr e, d'))"

section \<open>The governance store\<close>

definition scanCO :: "ConfigObject \<Rightarrow> ConfigObject" where
  "scanCO c = c\<lparr> co_Metadata := [] \<rparr>"

definition GetForUpdate :: "string \<Rightarrow> db \<Rightarrow> err + ConfigObject" where
  "GetForUpdate cfgID d =
     (case find (\<lambda>c. co_CfgID c = cfgID) (t_configuration_object d) of
        None \<Rightarrow> Inl ErrNotFound | Some c \<Rightarrow> Inr (scanCO c))"

text \<open>The CHECK constraints of \<^verbatim>\<open>configuration_object\<close>.\<close>

definition co_check :: "ConfigObject \<Rightarrow> bool" where
  "co_check c \<longleftrightarrow> Role_Valid (co_Role c) \<and> Lifecycle_Valid (co_Lifecycle c) \<and> Authority_Valid (co_Authority c) \<and>
     RetentionClass_Valid (co_RetentionClass c)"

text \<open>An update of the row of one object under optimistic locking; \<open>None\<close> when no row matches.\<close>

definition update_co :: "instant \<Rightarrow> string \<Rightarrow> int \<Rightarrow> (ConfigObject \<Rightarrow> ConfigObject) \<Rightarrow> db \<Rightarrow>
    (err + (ConfigObject \<times> db)) option" where
  "update_co now cfgID expected f d =
     (case find (\<lambda>c. co_CfgID c = cfgID \<and> co_RowVersion c = expected) (t_configuration_object d) of
        None \<Rightarrow> None
      | Some c \<Rightarrow>
          let c' = (f c)\<lparr> co_RowVersion := co_RowVersion c + 1, co_UpdatedAt := now \<rparr> in
          Some (if co_RowVersion c = MaxInt64 \<or> \<not> co_check c' then Inl (ErrOther ''update configuration_object'')
                else Inr (c', d\<lparr> t_configuration_object :=
                       map (\<lambda>x. if co_CfgID x = cfgID \<and> co_RowVersion x = expected then c' else x)
                         (t_configuration_object d) \<rparr>)))"

definition ApplyDimensions :: "instant \<Rightarrow> string \<Rightarrow> int \<Rightarrow> string \<Rightarrow> string \<Rightarrow> string \<Rightarrow> db \<Rightarrow> err + (int \<times> db)" where
  "ApplyDimensions now cfgID expected lifecycle retention authority d =
     (case update_co now cfgID expected (\<lambda>c. c\<lparr> co_Lifecycle := lifecycle, co_RetentionClass := retention,
                 co_Authority := authority \<rparr>) d of
        None \<Rightarrow> Inl ErrVersionMismatch
      | Some (Inl er) \<Rightarrow> Inl er
      | Some (Inr (c, d')) \<Rightarrow> Inr (co_RowVersion c, d'))"

definition CountDependents :: "string \<Rightarrow> db \<Rightarrow> err + int" where
  "CountDependents cfgID d = Inr (int (length (filter (\<lambda>e. de_ToCfg e = cfgID) (t_dependency_edge d))))"

text \<open>An insertion into \<^verbatim>\<open>dependency_edge\<close>.\<close>

definition object_ids :: "db \<Rightarrow> string set" where
  "object_ids d = co_CfgID ` set (t_configuration_object d)"

definition insert_edge :: "DependencyEdge \<Rightarrow> db \<Rightarrow> err + db" where
  "insert_edge e d =
     (if \<not> EdgeKind_Valid (de_EdgeKind e) then Inl (ErrOther ''insert edge'')
      else if (\<exists>r \<in> set (t_dependency_edge d). de_ID r = de_ID e \<or>
                (de_FromCfg r = de_FromCfg e \<and> de_ToCfg r = de_ToCfg e \<and> de_EdgeKind r = de_EdgeKind e))
      then Inl ErrConflict
      else if de_FromCfg e \<notin> object_ids d \<or> de_ToCfg e \<notin> object_ids d then Inl ErrNotFound
      else Inr (d\<lparr> t_dependency_edge := t_dependency_edge d @ [e] \<rparr>))"

definition RecordEdge :: "instant \<Rightarrow> string \<Rightarrow> string \<Rightarrow> string \<Rightarrow> string \<Rightarrow> db \<Rightarrow> err + db" where
  "RecordEdge now newID from to kind d =
     insert_edge \<lparr> de_ID = newID, de_FromCfg = from, de_ToCfg = to, de_EdgeKind = kind,
       de_CreatedAt = now, de_UpdatedAt = now \<rparr> d"

text \<open>The removal of objects, with the rows that reference them (\<^verbatim>\<open>ON DELETE CASCADE\<close>).\<close>

definition delete_cos :: "(ConfigObject \<Rightarrow> bool) \<Rightarrow> db \<Rightarrow> db" where
  "delete_cos P d =
     (let gone = co_CfgID ` set (filter P (t_configuration_object d)) in
      d\<lparr> t_configuration_object := filter (\<lambda>c. \<not> P c) (t_configuration_object d),
         t_configuration_metadata := filter (\<lambda>(i, k, v). i \<notin> gone) (t_configuration_metadata d),
         t_dependency_edge := filter (\<lambda>e. de_FromCfg e \<notin> gone \<and> de_ToCfg e \<notin> gone) (t_dependency_edge d) \<rparr>)"

definition RemoveObject :: "string \<Rightarrow> int \<Rightarrow> db \<Rightarrow> err + db" where
  "RemoveObject cfgID expected d =
     (let P = (\<lambda>c. co_CfgID c = cfgID \<and> co_RowVersion c = expected) in
      if filter P (t_configuration_object d) = [] then Inl ErrVersionMismatch else Inr (delete_cos P d))"

definition GovernanceStore :: "instant \<Rightarrow> string \<Rightarrow> db GovStore" where
  "GovernanceStore now newID =
     \<lparr> gs_Begin = (\<lambda>d. Inr d), gs_GetForUpdate = GetForUpdate, gs_ApplyDimensions = ApplyDimensions now,
       gs_CountDependents = CountDependents, gs_RemoveObject = RemoveObject,
       gs_RecordEdge = RecordEdge now newID, gs_Commit = (\<lambda>d. Inr d) \<rparr>"

text \<open>The engine as the control plane wires it: the PostgreSQL store and appender.\<close>

definition pg_engine :: "pg \<Rightarrow> instant \<Rightarrow> string \<Rightarrow> authorizer \<Rightarrow> db Engine" where
  "pg_engine pg dbnow newID authz =
     \<lparr> en_store = GovernanceStore dbnow newID, en_authorizer = authz, en_audit = AppendTx pg dbnow \<rparr>"

section \<open>The object repository\<close>

text \<open>The insertion of one object and its metadata; the object is returned with the defaults and
  the columns the server filled in.\<close>

definition with_defaults :: "string \<Rightarrow> ConfigObject \<Rightarrow> ConfigObject" where
  "with_defaults newID obj =
     obj\<lparr> co_CfgID := (if co_CfgID obj = [] then newID else co_CfgID obj),
          co_Authority := (if co_Authority obj = [] then AuthorityNonNormative else co_Authority obj),
          co_RetentionPolicy := (if co_RetentionPolicy obj = [] then ''permanent'' else co_RetentionPolicy obj) \<rparr>"

definition insertTx :: "instant \<Rightarrow> string \<Rightarrow> ConfigObject \<Rightarrow> db \<Rightarrow> err + (ConfigObject \<times> db)" where
  "insertTx now newID obj d =
     (let row = (with_defaults newID obj)\<lparr> co_RowVersion := 1, co_CreatedAt := now, co_UpdatedAt := now \<rparr>
      in if \<not> co_check row then Inl (ErrOther ''insert'')
         else if (\<exists>r \<in> set (t_configuration_object d). co_CfgID r = co_CfgID row \<or>
                   (co_Artifact r = co_Artifact row \<and> co_Version r = co_Version row))
         then Inl ErrConflict
         else Inr (row, d\<lparr> t_configuration_object := t_configuration_object d @ [scanCO row],
                        t_configuration_metadata := t_configuration_metadata d @
                          map (\<lambda>(k, v). (co_CfgID row, k, v)) (co_Metadata row) \<rparr>))"

definition Create :: "instant \<Rightarrow> string \<Rightarrow> ConfigObject \<Rightarrow> db \<Rightarrow> (err + ConfigObject) \<times> db" where
  "Create now newID obj d =
     (case insertTx now newID obj d of Inl er \<Rightarrow> (Inl er, d) | Inr (row, d') \<Rightarrow> (Inr row, d'))"

fun insert_all :: "instant \<Rightarrow> (string \<times> ConfigObject) list \<Rightarrow> db \<Rightarrow> err + (ConfigObject list \<times> db)" where
  "insert_all now [] d = Inr ([], d)"
| "insert_all now ((newID, obj) # rest) d =
     (case insertTx now newID obj d of Inl er \<Rightarrow> Inl er
      | Inr (row, d') \<Rightarrow> (case insert_all now rest d' of Inl er \<Rightarrow> Inl er
                         | Inr (rows, d'') \<Rightarrow> Inr (row # rows, d'')))"

definition BulkCreate :: "instant \<Rightarrow> (string \<times> ConfigObject) list \<Rightarrow> db \<Rightarrow> (err + ConfigObject list) \<times> db" where
  "BulkCreate now objs d =
     (case insert_all now objs d of Inl er \<Rightarrow> (Inl er, d) | Inr (rows, d') \<Rightarrow> (Inr rows, d'))"

definition attachMetadata :: "db \<Rightarrow> ConfigObject \<Rightarrow> ConfigObject" where
  "attachMetadata d c = c\<lparr> co_Metadata :=
     foldl (\<lambda>m (i, k, v). map_put k v m) (co_Metadata c)
       (filter (\<lambda>(i, k, v). i = co_CfgID c) (t_configuration_metadata d)) \<rparr>"

definition Get :: "string \<Rightarrow> db \<Rightarrow> err + ConfigObject" where
  "Get cfgID d =
     (case find (\<lambda>c. co_CfgID c = cfgID) (t_configuration_object d) of
        None \<Rightarrow> Inl ErrNotFound | Some c \<Rightarrow> Inr (attachMetadata d (scanCO c)))"

definition set_opt :: "'v option \<Rightarrow> ('v \<Rightarrow> 'c \<Rightarrow> 'c) \<Rightarrow> 'c \<Rightarrow> 'c" where
  "set_opt o_v f c = (case o_v of None \<Rightarrow> c | Some v \<Rightarrow> f v c)"

definition patch_row :: "Patch \<Rightarrow> ConfigObject \<Rightarrow> ConfigObject" where
  "patch_row p c =
     set_opt (pa_RetentionPolicy p) (\<lambda>v c. c\<lparr> co_RetentionPolicy := v \<rparr>)
     (set_opt (pa_ReviewCycle p) (\<lambda>v c. c\<lparr> co_ReviewCycle := v \<rparr>)
     (set_opt (pa_RatifiedBy p) (\<lambda>v c. c\<lparr> co_RatifiedBy := v \<rparr>)
     (set_opt (pa_Authority p) (\<lambda>v c. c\<lparr> co_Authority := v \<rparr>)
     (set_opt (pa_RetentionClass p) (\<lambda>v c. c\<lparr> co_RetentionClass := v \<rparr>)
     (set_opt (pa_Lifecycle p) (\<lambda>v c. c\<lparr> co_Lifecycle := v \<rparr>) c)))))"

definition Update :: "instant \<Rightarrow> string \<Rightarrow> int \<Rightarrow> Patch \<Rightarrow> db \<Rightarrow> (err + ConfigObject) \<times> db" where
  "Update now cfgID expected p d =
     (case update_co now cfgID expected (patch_row p) d of
        None \<Rightarrow> (Inl (if cfgID \<notin> object_ids d then ErrNotFound else ErrVersionMismatch), d)
      | Some (Inl er) \<Rightarrow> (Inl er, d)
      | Some (Inr (c, d1)) \<Rightarrow>
          let d2 = (case pa_Metadata p of None \<Rightarrow> d1
                    | Some m \<Rightarrow> d1\<lparr> t_configuration_metadata :=
                        filter (\<lambda>(i, k, v). i \<noteq> cfgID) (t_configuration_metadata d1) @ map (\<lambda>(k, v). (cfgID, k, v)) m \<rparr>)
          in (Inr (attachMetadata d2 (scanCO c)), d2))"

definition Delete :: "string \<Rightarrow> db \<Rightarrow> err option \<times> db" where
  "Delete cfgID d =
     (if cfgID \<notin> object_ids d then (Some ErrNotFound, d) else (None, delete_cos (\<lambda>c. co_CfgID c = cfgID) d))"

section \<open>The edge repository\<close>

definition CreateEdge :: "instant \<Rightarrow> string \<Rightarrow> DependencyEdge \<Rightarrow> db \<Rightarrow> (err + DependencyEdge) \<times> db" where
  "CreateEdge now newID edge d =
     (case DependencyEdge_Validate edge of Some er \<Rightarrow> (Inl er, d)
      | None \<Rightarrow>
        let e = edge\<lparr> de_ID := (if de_ID edge = [] then newID else de_ID edge), de_CreatedAt := now, de_UpdatedAt := now \<rparr> in
        case insert_edge e d of Inl er \<Rightarrow> (Inl er, d) | Inr d' \<Rightarrow> (Inr e, d'))"

definition DeleteEdge :: "string \<Rightarrow> db \<Rightarrow> err option \<times> db" where
  "DeleteEdge i d =
     (if i \<notin> de_ID ` set (t_dependency_edge d) then (Some ErrNotFound, d)
      else (None, d\<lparr> t_dependency_edge := filter (\<lambda>e. de_ID e \<noteq> i) (t_dependency_edge d) \<rparr>))"

definition Edge :: "string \<Rightarrow> db \<Rightarrow> err + DependencyEdge" where
  "Edge i d = (case find (\<lambda>e. de_ID e = i) (t_dependency_edge d) of None \<Rightarrow> Inl ErrNotFound | Some e \<Rightarrow> Inr e)"

abbreviation edge_order :: "DependencyEdge \<Rightarrow> instant \<times> string" where
  "edge_order e \<equiv> (de_CreatedAt e, de_ID e)"

definition EdgesFrom :: "db \<Rightarrow> string \<Rightarrow> DependencyEdge list" where
  "EdgesFrom d c = sort_key edge_order (filter (\<lambda>e. de_FromCfg e = c) (t_dependency_edge d))"

definition EdgesTo :: "db \<Rightarrow> string \<Rightarrow> DependencyEdge list" where
  "EdgesTo d c = sort_key edge_order (filter (\<lambda>e. de_ToCfg e = c) (t_dependency_edge d))"

definition Exists :: "db \<Rightarrow> string \<Rightarrow> string \<Rightarrow> string \<Rightarrow> bool" where
  "Exists d from to kind \<longleftrightarrow>
     (\<exists>e \<in> set (t_dependency_edge d). de_FromCfg e = from \<and> de_ToCfg e = to \<and> de_EdgeKind e = kind)"

definition ListEdges :: "db \<Rightarrow> int \<Rightarrow> DependencyEdge list" where
  "ListEdges d limit = take (nat (if limit \<le> 0 then 100 else limit)) (sort_key edge_order (t_dependency_edge d))"

section \<open>Idempotency keys\<close>

definition Idempotency_Lookup :: "string \<Rightarrow> db \<Rightarrow> (int \<times> bytes) option" where
  "Idempotency_Lookup key d =
     map_option (\<lambda>r. (ik_status r, ik_body r)) (find (\<lambda>r. ik_id r = key) (t_idempotency_key d))"

definition Idempotency_Save :: "string \<Rightarrow> string \<Rightarrow> string \<Rightarrow> int \<Rightarrow> bytes \<Rightarrow> db \<Rightarrow> db" where
  "Idempotency_Save key meth path status body d =
     (if key \<in> ik_id ` set (t_idempotency_key d) then d
      else d\<lparr> t_idempotency_key := t_idempotency_key d @
             [\<lparr> ik_id = key, ik_method = meth, ik_path = path, ik_status = status, ik_body = body \<rparr>] \<rparr>)"

section \<open>The authority store\<close>

definition BaselineRoots :: "db \<Rightarrow> string list" where
  "BaselineRoots d = sort (map co_CfgID (filter (\<lambda>c. co_RetentionClass c = RetentionCurrentBaseline) (t_configuration_object d)))"

definition ObjectExists :: "db \<Rightarrow> string \<Rightarrow> bool" where
  "ObjectExists d cfgID \<longleftrightarrow> cfgID \<in> object_ids d"

definition metadata_value :: "db \<Rightarrow> string \<Rightarrow> string \<Rightarrow> string option" where
  "metadata_value d cfgID key =
     map_option (\<lambda>(i, k, v). v) (find (\<lambda>(i, k, v). i = cfgID \<and> k = key) (t_configuration_metadata d))"

definition Citations :: "db \<Rightarrow> string \<Rightarrow> string list" where
  "Citations d cfgID = (case metadata_value d cfgID ''citations'' of None \<Rightarrow> [] | Some v \<Rightarrow> Split (CHR '','') v)"

definition Coverage :: "db \<Rightarrow> string \<Rightarrow> string list" where
  "Coverage d cfgID = (case metadata_value d cfgID ''coverage'' of None \<Rightarrow> [] | Some v \<Rightarrow> Split (CHR '','') v)"

definition Responsibilities :: "db \<Rightarrow> string \<Rightarrow> string list" where
  "Responsibilities d cfgID = (case metadata_value d cfgID ''responsibilities'' of None \<Rightarrow> []
     | Some v \<Rightarrow> filter (\<lambda>p. p \<noteq> []) (map TrimSpace (Split (CHR '','') v)))"

section \<open>Appending to a chain\<close>

lemma insort_key_last: "f x \<le> f e \<Longrightarrow> insort_key f x (xs @ [e]) = insort_key f x xs @ [e]"
  by (induction xs) auto

lemma sort_key_snoc: "(\<And>x. x \<in> set xs \<Longrightarrow> f x \<le> f e) \<Longrightarrow> sort_key f (xs @ [e]) = sort_key f xs @ [e]"
  by (induction xs) (auto simp: insort_key_last)

lemma find_map_update:
  "find (\<lambda>h. key h = c) (map (\<lambda>h. if key h = k then row else h) hs) =
     (if c = k then (if k \<in> key ` set hs then Some row else None) else find (\<lambda>h. key h = c) hs)"
  if "key row = k"
  using that by (induction hs) auto

lemma find_append: "find P (xs @ ys) = (case find P xs of None \<Rightarrow> find P ys | Some x \<Rightarrow> Some x)"
  by (induction xs) auto

text \<open>The tip a chain is extended from: its head row, or the genesis head the appender creates.\<close>

definition tip :: "db \<Rightarrow> string \<Rightarrow> int \<times> bytes" where
  "tip d c = (case ReadChainHead c d of None \<Rightarrow> (0, GenesisPrevHash) | Some h \<Rightarrow> h)"

lemma find_Some_set: "find P xs = Some x \<Longrightarrow> x \<in> set xs \<and> P x"
  by (induction xs) (auto split: if_splits)

lemma find_key_None: "find (\<lambda>h. key h = c) hs = None \<longleftrightarrow> c \<notin> key ` set hs"
  by (auto simp: find_None_iff)

lemma EnsureChainHead_Inr:
  assumes "EnsureChainHead now c GenesisPrevHash d = Inr d1"
  shows "ReadChainHead c d1 = Some (tip d c)" "c' \<noteq> c \<Longrightarrow> ReadChainHead c' d1 = ReadChainHead c' d"
    "\<exists>hs. d1 = d\<lparr> t_audit_chain_head := hs \<rparr>" "c \<in> ch_chain_id ` set (t_audit_chain_head d1)"
    "t_audit_event d1 = t_audit_event d"
proof -
  have d1: "d1 = (if c \<in> ch_chain_id ` set (t_audit_chain_head d) then d
      else d\<lparr> t_audit_chain_head := t_audit_chain_head d @
        [\<lparr> ch_chain_id = c, ch_last_seq = 0, ch_last_hash = GenesisPrevHash, ch_updated_at = now \<rparr>] \<rparr>)"
    using assms by (auto simp: EnsureChainHead_def split: if_splits)
  show "ReadChainHead c d1 = Some (tip d c)"
    using find_key_None [of ch_chain_id c "t_audit_chain_head d"]
    by (auto simp: d1 tip_def ReadChainHead_def find_append split: option.splits)
  show "c' \<noteq> c \<Longrightarrow> ReadChainHead c' d1 = ReadChainHead c' d"
    by (auto simp: d1 ReadChainHead_def find_append split: option.splits)
  show "\<exists>hs. d1 = d\<lparr> t_audit_chain_head := hs \<rparr>"
    by (cases d) (auto simp: d1)
  show "c \<in> ch_chain_id ` set (t_audit_chain_head d1)" "t_audit_event d1 = t_audit_event d"
    by (auto simp: d1)
qed

lemma UpsertChainHead_Inr:
  assumes "UpsertChainHead now c l h d = Inr d1" "c \<in> ch_chain_id ` set (t_audit_chain_head d)"
  shows "ReadChainHead c' d1 = (if c' = c then Some (l, h) else ReadChainHead c' d)"
    "\<exists>hs. d1 = d\<lparr> t_audit_chain_head := hs \<rparr>"
  using assms by (auto simp: UpsertChainHead_def ReadChainHead_def find_map_update Let_def split: if_splits)

text \<open>What a successful append did.\<close>

definition appended :: "AppendInput \<Rightarrow> db \<Rightarrow> AuditEvent \<Rightarrow> bool" where
  "appended inp d e \<longleftrightarrow>
     ae_ChainID e = ai_ChainID inp \<and> ae_EventID e = ai_EventID inp \<and> ae_OperationID e = ai_OperationID inp \<and>
     ae_Operation e = ai_Operation inp \<and> ae_Actor e = ai_Actor inp \<and> ae_PayloadCanonical e = ai_PayloadCanonical inp \<and>
     ae_OccurredAt e = TruncateMicrosecond (ai_OccurredAt inp) \<and>
     ae_Seq e = int64 (fst (tip d (ai_ChainID inp)) + 1) \<and> ae_PrevHash e = snd (tip d (ai_ChainID inp)) \<and>
     sealed e \<and>
     (\<forall>r \<in> set (t_audit_event d). ae_ChainID r = ae_ChainID e \<longrightarrow>
        ae_Seq r \<noteq> ae_Seq e \<and> ae_EventID r \<noteq> ae_EventID e \<and> ae_ThisHash r \<noteq> ae_ThisHash e)"

lemma AppendTx_Inr:
  assumes "AppendTx pg now inp d = Inr (e, d')"
  shows "appended inp d e"
    and "\<exists>hs. d' = d\<lparr> t_audit_event := t_audit_event d @ [e\<lparr> ae_OccurredAt := pg_timestamptz pg (ae_OccurredAt e) \<rparr>],
           t_audit_chain_head := hs \<rparr>"
    and "ReadChainHead c d' = (if c = ai_ChainID inp then Some (ae_Seq e, ae_ThisHash e) else ReadChainHead c d)"
proof -
  obtain d1 where d1: "EnsureChainHead now (ai_ChainID inp) GenesisPrevHash d = Inr d1"
    using assms by (auto simp: AppendTx_def split: sum.splits)
  obtain lastSeq lastHash where head: "ReadChainHead (ai_ChainID inp) d1 = Some (lastSeq, lastHash)"
    and tip: "tip d (ai_ChainID inp) = (lastSeq, lastHash)"
    using EnsureChainHead_Inr(1) [OF d1] by (metis surj_pair)
  define hi where "hi = \<lparr> hi_ChainID = ai_ChainID inp, hi_Seq = int64 (lastSeq + 1), hi_EventID = ai_EventID inp,
      hi_Operation = ai_Operation inp, hi_Actor = ai_Actor inp,
      hi_OccurredAtUnixNanos = UnixNano (TruncateMicrosecond (ai_OccurredAt inp)),
      hi_PayloadCanonical = ai_PayloadCanonical inp \<rparr>"
  obtain thisHash where hash: "ChainHash hi lastHash = Inr thisHash"
    using assms by (auto simp: AppendTx_def d1 head hi_def Let_def split: sum.splits)
  have e: "e = \<lparr> ae_ChainID = ai_ChainID inp, ae_Seq = int64 (lastSeq + 1), ae_EventID = ai_EventID inp,
      ae_OperationID = ai_OperationID inp, ae_Operation = ai_Operation inp,
      ae_Actor = ai_Actor inp, ae_PayloadCanonical = ai_PayloadCanonical inp,
      ae_PrevHash = lastHash, ae_ThisHash = thisHash, ae_OccurredAt = TruncateMicrosecond (ai_OccurredAt inp) \<rparr>"
    using assms hash by (auto simp: AppendTx_def d1 head hi_def Let_def split: sum.splits)
  obtain d2 where d2: "AppendAuditEvent pg e d1 = Inr d2"
    and d3: "UpsertChainHead now (ai_ChainID inp) (int64 (lastSeq + 1)) thisHash d2 = Inr d'"
    using assms hash by (auto simp: AppendTx_def d1 head hi_def e Let_def split: sum.splits)
  have d2': "d2 = d1\<lparr> t_audit_event := t_audit_event d1 @ [e\<lparr> ae_OccurredAt := pg_timestamptz pg (ae_OccurredAt e) \<rparr>] \<rparr>"
    and uniq: "\<forall>r \<in> set (t_audit_event d1). ae_ChainID r = ae_ChainID e \<longrightarrow>
        ae_Seq r \<noteq> ae_Seq e \<and> ae_EventID r \<noteq> ae_EventID e \<and> ae_ThisHash r \<noteq> ae_ThisHash e"
    using d2 by (auto simp: AppendAuditEvent_def split: if_splits)
  have "event_hash_input e = hi"
    by (simp add: event_hash_input_def e hi_def)
  then have "sealed e"
    using hash by (simp add: sealed_def e)
  then show "appended inp d e"
    using uniq EnsureChainHead_Inr(5) [OF d1] by (simp add: appended_def tip) (simp add: e)
  have in2: "ai_ChainID inp \<in> ch_chain_id ` set (t_audit_chain_head d2)"
    using EnsureChainHead_Inr(4) [OF d1] by (simp add: d2')
  show "\<exists>hs. d' = d\<lparr> t_audit_event := t_audit_event d @ [e\<lparr> ae_OccurredAt := pg_timestamptz pg (ae_OccurredAt e) \<rparr>],
           t_audit_chain_head := hs \<rparr>"
    using UpsertChainHead_Inr(2) [OF d3 in2] EnsureChainHead_Inr(3) [OF d1]
    by (auto simp: d2')
  show "ReadChainHead c d' = (if c = ai_ChainID inp then Some (ae_Seq e, ae_ThisHash e) else ReadChainHead c d)"
    using UpsertChainHead_Inr(1) [OF d3 in2, of c] EnsureChainHead_Inr(2) [OF d1, of c]
    by (auto simp: e d2' ReadChainHead_def)
qed


section \<open>Invariants of the database\<close>

text \<open>Primary keys, and the head of a chain is at or after every event of it.\<close>

definition db_inv :: "db \<Rightarrow> bool" where
  "db_inv d \<longleftrightarrow> distinct (map co_CfgID (t_configuration_object d)) \<and>
     (\<forall>c l h. ReadChainHead c d = Some (l, h) \<longrightarrow> 0 \<le> l \<and> l \<le> MaxInt64) \<and>
     (\<forall>e \<in> set (t_audit_event d). \<exists>l h. ReadChainHead (ae_ChainID e) d = Some (l, h) \<and> ae_Seq e \<le> l)"

text \<open>Every chain verifies, and its head row is its last event.\<close>

definition chains_ok :: "db \<Rightarrow> bool" where
  "chains_ok d \<longleftrightarrow> (\<forall>c. chain_valid GenesisPrevHash 1 (chain_events d c) \<and>
     tip d c = (int (length (chain_events d c)),
                if chain_events d c = [] then GenesisPrevHash else ae_ThisHash (last (chain_events d c))) \<and>
     (ReadChainHead c d = None \<longrightarrow> chain_events d c = []))"

lemma db_inv_event:
  "db_inv d \<Longrightarrow> x \<in> set (t_audit_event d) \<Longrightarrow> \<exists>l h. ReadChainHead (ae_ChainID x) d = Some (l, h) \<and> ae_Seq x \<le> l"
  by (simp add: db_inv_def)

lemma tip_range: "db_inv d \<Longrightarrow> 0 \<le> fst (tip d c) \<and> fst (tip d c) \<le> MaxInt64"
  by (auto simp: db_inv_def tip_def split: option.splits)

lemma int64_next:
  assumes "0 \<le> l" "l \<le> MaxInt64" "1 \<le> int64 (l + 1)"
  shows "int64 (l + 1) = l + 1" "l < MaxInt64"
proof -
  have "l \<noteq> MaxInt64"
    using assms(3) by (auto simp: int64_def)
  with assms(1,2) show "l < MaxInt64" "int64 (l + 1) = l + 1"
    by (simp_all add: int64_id)
qed

lemma appended_seq:
  assumes "db_inv d" "appended inp d e"
  shows "ae_Seq e = fst (tip d (ai_ChainID inp)) + 1" "fst (tip d (ai_ChainID inp)) < MaxInt64"
  using int64_next [of "fst (tip d (ai_ChainID inp))"] tip_range [OF assms(1), of "ai_ChainID inp"] assms(2)
    sealedD(3) [of e] by (auto simp: appended_def)

lemma AppendTx_chain_events:
  assumes "db_inv d" "AppendTx pg now inp d = Inr (e, d')"
  shows "chain_events d' = (chain_events d)(ai_ChainID inp :=
     chain_events d (ai_ChainID inp) @ [e\<lparr> ae_OccurredAt := pg_timestamptz pg (ae_OccurredAt e) \<rparr>])"
proof
  fix c
  let ?row = "e\<lparr> ae_OccurredAt := pg_timestamptz pg (ae_OccurredAt e) \<rparr>"
  have ap: "appended inp d e"
    using AppendTx_Inr(1) [OF assms(2)] .
  have ev: "t_audit_event d' = t_audit_event d @ [?row]"
    using AppendTx_Inr(2) [OF assms(2)] by auto
  have le: "ae_Seq x \<le> ae_Seq ?row" if "x \<in> set (t_audit_event d)" "ae_ChainID x = ai_ChainID inp" for x
  proof -
    from db_inv_event [OF assms(1) that(1)] that(2)
    obtain l h where "ReadChainHead (ai_ChainID inp) d = Some (l, h)" "ae_Seq x \<le> l"
      by auto
    then show ?thesis
      using appended_seq(1) [OF assms(1) ap] by (simp add: tip_def)
  qed
  show "chain_events d' c = ((chain_events d)(ai_ChainID inp := chain_events d (ai_ChainID inp) @ [?row])) c"
    using ap le by (auto simp: chain_events_def ev appended_def intro!: sort_key_snoc)
qed

lemma AppendTx_db_inv:
  assumes "db_inv d" "AppendTx pg now inp d = Inr (e, d')"
  shows "db_inv d'"
proof -
  have ap: "appended inp d e"
    using AppendTx_Inr(1) [OF assms(2)] .
  have seq: "ae_Seq e = fst (tip d (ai_ChainID inp)) + 1" "fst (tip d (ai_ChainID inp)) < MaxInt64"
    using appended_seq [OF assms(1) ap] .
  obtain hs where d': "d' = d\<lparr> t_audit_event := t_audit_event d @ [e\<lparr> ae_OccurredAt := pg_timestamptz pg (ae_OccurredAt e) \<rparr>],
      t_audit_chain_head := hs \<rparr>"
    using AppendTx_Inr(2) [OF assms(2)] by blast
  have head: "ReadChainHead c d' = (if c = ai_ChainID inp then Some (ae_Seq e, ae_ThisHash e) else ReadChainHead c d)" for c
    using AppendTx_Inr(3) [OF assms(2)] .
  have "\<exists>l h. ReadChainHead (ae_ChainID x) d' = Some (l, h) \<and> ae_Seq x \<le> l"
    if "x \<in> set (t_audit_event d)" for x
  proof -
    from db_inv_event [OF assms(1) that]
    obtain l h where "ReadChainHead (ae_ChainID x) d = Some (l, h)" "ae_Seq x \<le> l"
      by auto
    then show ?thesis
      using seq(1) by (auto simp: head tip_def)
  qed
  moreover have "\<exists>l h. ReadChainHead (ae_ChainID e) d' = Some (l, h) \<and> ae_Seq e \<le> l"
    using ap by (simp add: head appended_def)
  moreover have "0 \<le> l \<and> l \<le> MaxInt64" if "ReadChainHead c d' = Some (l, h)" for c l h
    using that seq tip_range [OF assms(1), of "ai_ChainID inp"] assms(1)
    by (auto simp: head db_inv_def split: if_splits)
  ultimately show ?thesis
    using assms(1) unfolding db_inv_def by (auto simp: d')
qed

lemma AppendTx_chains_ok:
  assumes "db_inv d" "chains_ok d" "pg_exact pg" "AppendTx pg now inp d = Inr (e, d')"
  shows "chains_ok d'"
proof -
  have ap: "appended inp d e"
    using AppendTx_Inr(1) [OF assms(4)] .
  have "e\<lparr> ae_OccurredAt := pg_timestamptz pg (ae_OccurredAt e) \<rparr> = e"
    using ap assms(3) by (cases e) (simp add: appended_def pg_exact_def)
  then have ev: "chain_events d' = (chain_events d)(ai_ChainID inp := chain_events d (ai_ChainID inp) @ [e])"
    using AppendTx_chain_events [OF assms(1,4)] by simp
  have seq: "ae_Seq e = fst (tip d (ai_ChainID inp)) + 1"
    using appended_seq [OF assms(1) ap] by simp
  have head: "ReadChainHead c d' = (if c = ai_ChainID inp then Some (ae_Seq e, ae_ThisHash e) else ReadChainHead c d)" for c
    using AppendTx_Inr(3) [OF assms(4)] .
  have old: "chain_valid GenesisPrevHash 1 (chain_events d c) \<and>
     tip d c = (int (length (chain_events d c)),
                if chain_events d c = [] then GenesisPrevHash else ae_ThisHash (last (chain_events d c)))" for c
    using assms(2) by (simp add: chains_ok_def)
  show ?thesis
    unfolding chains_ok_def
  proof (intro allI)
    fix c
    show "chain_valid GenesisPrevHash 1 (chain_events d' c) \<and>
      tip d' c = (int (length (chain_events d' c)),
                if chain_events d' c = [] then GenesisPrevHash else ae_ThisHash (last (chain_events d' c))) \<and>
      (ReadChainHead c d' = None \<longrightarrow> chain_events d' c = [])"
    proof (cases "c = ai_ChainID inp")
      case True
      then show ?thesis
        using ap old [of c] seq by (simp add: ev head tip_def [of d'] chain_valid_snoc appended_def)
    next
      case False
      then show ?thesis
        using assms(2) by (simp add: ev head tip_def chains_ok_def)
    qed
  qed
qed

section \<open>The store satisfies the contract of the engine\<close>

definition pg_objects :: "db \<Rightarrow> string \<Rightarrow> ConfigObject option" where
  "pg_objects d c = map_option scanCO (find (\<lambda>x. co_CfgID x = c) (t_configuration_object d))"

definition pg_edges :: "db \<Rightarrow> (string \<times> string \<times> string) set" where
  "pg_edges d = (\<lambda>e. (de_FromCfg e, de_ToCfg e, de_EdgeKind e)) ` set (t_dependency_edge d)"

text \<open>The views depend only on their own tables.\<close>

lemma views_cong [frame]:
  "t_configuration_object d' = t_configuration_object d \<Longrightarrow> pg_objects d' = pg_objects d"
  "t_dependency_edge d' = t_dependency_edge d \<Longrightarrow> pg_edges d' = pg_edges d"
  "t_audit_event d' = t_audit_event d \<Longrightarrow> chain_events d' = chain_events d"
  "t_audit_chain_head d' = t_audit_chain_head d \<Longrightarrow> ReadChainHead c d' = ReadChainHead c d"
  by (simp_all add: fun_eq_iff pg_objects_def pg_edges_def chain_events_def ReadChainHead_def)

lemma db_inv_cong:
  assumes "db_inv d" "t_audit_event d' = t_audit_event d" "t_audit_chain_head d' = t_audit_chain_head d"
    and "distinct (map co_CfgID (t_configuration_object d'))"
  shows "db_inv d'"
  using assms views_cong(4) [of d' d] by (simp add: db_inv_def)

lemma chains_ok_cong:
  assumes "t_audit_event d' = t_audit_event d" "t_audit_chain_head d' = t_audit_chain_head d"
  shows "chains_ok d' = chains_ok d"
  using views_cong(3,4) [of d' d] assms by (simp add: chains_ok_def tip_def)

lemma find_unique:
  assumes "distinct (map key xs)" "x \<in> set xs" "key x = k"
  shows "find (\<lambda>y. key y = k) xs = Some x"
  using assms by (induction xs) (auto simp: image_iff)

lemma update_co_Inr:
  assumes "db_inv d" "update_co now c v f d = Some (Inr (row, d'))" "\<And>x. co_CfgID (f x) = co_CfgID x"
  obtains x where "x \<in> set (t_configuration_object d)" "co_CfgID x = c" "co_RowVersion x = v"
    "row = (f x)\<lparr> co_RowVersion := v + 1, co_UpdatedAt := now \<rparr>"
    "find (\<lambda>y. co_CfgID y = c) (t_configuration_object d) = Some x"
    "d' = d\<lparr> t_configuration_object := map (\<lambda>y. if co_CfgID y = c then row else y) (t_configuration_object d) \<rparr>"
    "map co_CfgID (t_configuration_object d') = map co_CfgID (t_configuration_object d)"
proof -
  obtain x where x: "find (\<lambda>y. co_CfgID y = c \<and> co_RowVersion y = v) (t_configuration_object d) = Some x"
    and row: "row = (f x)\<lparr> co_RowVersion := co_RowVersion x + 1, co_UpdatedAt := now \<rparr>"
    and d': "d' = d\<lparr> t_configuration_object := map (\<lambda>y. if co_CfgID y = c \<and> co_RowVersion y = v then row else y)
        (t_configuration_object d) \<rparr>"
    using assms(2) by (auto simp: update_co_def Let_def split: option.splits if_splits)
  have x': "x \<in> set (t_configuration_object d)" "co_CfgID x = c" "co_RowVersion x = v"
    using find_Some_set [OF x] by auto
  have dist: "distinct (map co_CfgID (t_configuration_object d))"
    using assms(1) by (simp add: db_inv_def)
  have only: "y = x" if "y \<in> set (t_configuration_object d)" "co_CfgID y = c" for y
    using dist that x'(1,2) by (metis distinct_map inj_onD)
  have d'': "d' = d\<lparr> t_configuration_object := map (\<lambda>y. if co_CfgID y = c then row else y) (t_configuration_object d) \<rparr>"
    using only x'(3) by (auto simp: d' intro!: arg_cong [where f = "\<lambda>xs. d\<lparr> t_configuration_object := xs \<rparr>"])
  have "map co_CfgID (t_configuration_object d') = map co_CfgID (t_configuration_object d)"
    using x'(2) assms(3) [of x] by (simp add: d'' row)
  moreover have "find (\<lambda>y. co_CfgID y = c) (t_configuration_object d) = Some x"
    using dist x'(1,2) by (rule find_unique)
  ultimately show thesis
    using that x' row d'' by simp
qed

lemma ApplyDimensions_Inr:
  assumes "db_inv d" "pg_objects d c = Some obj"
    and "ApplyDimensions now c (co_RowVersion obj) l r a d = Inr (rv, d')"
  shows "db_inv d' \<and> rv = co_RowVersion obj + 1 \<and> pg_edges d' = pg_edges d \<and> chain_events d' = chain_events d \<and>
    (\<exists>t. pg_objects d' = (pg_objects d)(c \<mapsto> obj\<lparr> co_Lifecycle := l, co_RetentionClass := r, co_Authority := a,
              co_RowVersion := rv, co_UpdatedAt := t \<rparr>))"
proof -
  let ?f = "\<lambda>c. c\<lparr> co_Lifecycle := l, co_RetentionClass := r, co_Authority := a \<rparr>"
  obtain row where up: "update_co now c (co_RowVersion obj) ?f d = Some (Inr (row, d'))" and rv: "rv = co_RowVersion row"
    using assms(3) by (auto simp: ApplyDimensions_def split: option.splits sum.splits)
  from update_co_Inr [OF assms(1) up] obtain x where x: "co_CfgID x = c" "co_RowVersion x = co_RowVersion obj"
    "row = (?f x)\<lparr> co_RowVersion := co_RowVersion obj + 1, co_UpdatedAt := now \<rparr>"
    "find (\<lambda>y. co_CfgID y = c) (t_configuration_object d) = Some x"
    "d' = d\<lparr> t_configuration_object := map (\<lambda>y. if co_CfgID y = c then row else y) (t_configuration_object d) \<rparr>"
    "map co_CfgID (t_configuration_object d') = map co_CfgID (t_configuration_object d)"
    by auto
  have obj: "obj = scanCO x"
    using assms(2) x(4) by (simp add: pg_objects_def)
  have "x \<in> set (t_configuration_object d)"
    using find_Some_set [OF x(4)] by simp
  then have "pg_objects d' = (pg_objects d)(c \<mapsto> scanCO row)"
    using x(1,3) by (auto simp: fun_eq_iff x(5) pg_objects_def find_map_update)
  moreover have "scanCO row = obj\<lparr> co_Lifecycle := l, co_RetentionClass := r, co_Authority := a,
      co_RowVersion := rv, co_UpdatedAt := now \<rparr>"
    by (simp add: obj rv x(3) scanCO_def)
  moreover have "distinct (map co_CfgID (t_configuration_object d'))"
    unfolding x(6) using assms(1) by (simp add: db_inv_def)
  then have "db_inv d'"
    by (rule db_inv_cong [OF assms(1), rotated 2]) (simp_all add: x(5))
  ultimately show ?thesis
    using x(5) by (auto simp: rv x(3) intro!: frame)
qed

lemma find_filter_not: "find (\<lambda>y. key y = k) (filter (\<lambda>y. key y \<noteq> c) xs) = (if k = c then None else find (\<lambda>y. key y = k) xs)"
  by (induction xs) auto

lemma delete_cos_views:
  defines "del d c \<equiv> delete_cos (\<lambda>x. co_CfgID x = c) d"
  assumes "c \<in> object_ids d"
  shows "pg_objects (del d c) = (pg_objects d)(c := None)" "chain_events (del d c) = chain_events d"
    "pg_edges (del d c) = {(f, t, k) \<in> pg_edges d. f \<noteq> c \<and> t \<noteq> c}"
    "t_audit_event (del d c) = t_audit_event d" "t_audit_chain_head (del d c) = t_audit_chain_head d"
    "distinct (map co_CfgID (t_configuration_object d)) \<Longrightarrow> distinct (map co_CfgID (t_configuration_object (del d c)))"
proof -
  have gone: "co_CfgID ` {x \<in> set (t_configuration_object d). co_CfgID x = c} = {c}"
    using assms(2) by (auto simp: object_ids_def)
  show "pg_objects (del d c) = (pg_objects d)(c := None)"
    by (auto simp: fun_eq_iff del_def delete_cos_def Let_def pg_objects_def find_filter_not)
  show "pg_edges (del d c) = {(f, t, k) \<in> pg_edges d. f \<noteq> c \<and> t \<noteq> c}"
    using gone by (auto simp: del_def delete_cos_def Let_def pg_edges_def)
qed (auto simp: del_def delete_cos_def Let_def distinct_map inj_on_def intro!: frame)

lemma RemoveObject_Inr:
  assumes "db_inv d" "pg_objects d c = Some obj" "RemoveObject c (co_RowVersion obj) d = Inr d'"
  shows "c \<in> object_ids d \<and> d' = delete_cos (\<lambda>x. co_CfgID x = c) d"
proof -
  obtain x where x: "find (\<lambda>y. co_CfgID y = c) (t_configuration_object d) = Some x" "obj = scanCO x"
    using assms(2) by (auto simp: pg_objects_def)
  have x': "x \<in> set (t_configuration_object d)" "co_CfgID x = c"
    using find_Some_set [OF x(1)] by auto
  have "y = x" if "y \<in> set (t_configuration_object d)" "co_CfgID y = c" for y
    using assms(1) that x' unfolding db_inv_def by (metis distinct_map inj_onD)
  then have "filter (\<lambda>y. \<not> (co_CfgID y = c \<and> co_RowVersion y = co_RowVersion obj)) (t_configuration_object d) =
      filter (\<lambda>y. co_CfgID y \<noteq> c) (t_configuration_object d)"
    "filter (\<lambda>y. co_CfgID y = c \<and> co_RowVersion y = co_RowVersion obj) (t_configuration_object d) =
      filter (\<lambda>y. co_CfgID y = c) (t_configuration_object d)"
    by (auto intro!: filter_cong simp: x(2) scanCO_def)
  then have "delete_cos (\<lambda>y. co_CfgID y = c \<and> co_RowVersion y = co_RowVersion obj) d = delete_cos (\<lambda>x. co_CfgID x = c) d"
    unfolding delete_cos_def by simp
  then show ?thesis
    using assms(3) x' by (auto simp: RemoveObject_def Let_def object_ids_def split: if_splits)
qed

lemma insert_edge_Inr:
  assumes "insert_edge e d = Inr d'"
  shows "d' = d\<lparr> t_dependency_edge := t_dependency_edge d @ [e] \<rparr>" "de_FromCfg e \<in> object_ids d" "de_ToCfg e \<in> object_ids d"
    "(de_FromCfg e, de_ToCfg e, de_EdgeKind e) \<notin> pg_edges d"
  using assms by (auto simp: insert_edge_def pg_edges_def split: if_splits)

lemma pg_objects_None: "pg_objects d c = None \<longleftrightarrow> c \<notin> object_ids d"
  by (auto simp: pg_objects_def object_ids_def find_None_iff)

interpretation pgx: governed_engine "pg_engine pg dbnow newID authz" pg_objects pg_edges chain_events db_inv
  for pg dbnow newID authz
proof unfold_locales
  fix tx tx' :: db and c obj l r a rv
  assume "db_inv tx" "pg_objects tx c = Some obj"
    "gs_ApplyDimensions (en_store (pg_engine pg dbnow newID authz)) c (co_RowVersion obj) l r a tx = Inr (rv, tx')"
  then show "db_inv tx' \<and> rv = co_RowVersion obj + 1 \<and> pg_edges tx' = pg_edges tx \<and> chain_events tx' = chain_events tx \<and>
      (\<exists>t. pg_objects tx' = (pg_objects tx)(c \<mapsto> obj\<lparr> co_Lifecycle := l, co_RetentionClass := r, co_Authority := a,
              co_RowVersion := rv, co_UpdatedAt := t \<rparr>))"
    by (intro ApplyDimensions_Inr) (simp_all add: pg_engine_def GovernanceStore_def)
next
  fix tx tx' :: db and c obj
  assume *: "db_inv tx" "pg_objects tx c = Some obj"
    "gs_RemoveObject (en_store (pg_engine pg dbnow newID authz)) c (co_RowVersion obj) tx = Inr tx'"
  then have **: "c \<in> object_ids tx" "tx' = delete_cos (\<lambda>x. co_CfgID x = c) tx"
    using RemoveObject_Inr by (auto simp: pg_engine_def GovernanceStore_def)
  have "db_inv tx'"
    using *(1) delete_cos_views(4,5,6) [OF **(1)] by (intro db_inv_cong [OF *(1)]) (simp_all add: **(2) db_inv_def)
  then show "db_inv tx' \<and> chain_events tx' = chain_events tx \<and> pg_objects tx' = (pg_objects tx)(c := None) \<and>
      pg_edges tx' = {(f, t, k) \<in> pg_edges tx. f \<noteq> c \<and> t \<noteq> c}"
    using delete_cos_views(1,2,3) [OF **(1)] **(2) by simp
next
  fix tx tx' :: db and f t k
  assume *: "db_inv tx" "gs_RecordEdge (en_store (pg_engine pg dbnow newID authz)) f t k tx = Inr tx'"
  then have "insert_edge \<lparr> de_ID = newID, de_FromCfg = f, de_ToCfg = t, de_EdgeKind = k,
       de_CreatedAt = dbnow, de_UpdatedAt = dbnow \<rparr> tx = Inr tx'"
    by (simp add: pg_engine_def GovernanceStore_def RecordEdge_def)
  note 1 = insert_edge_Inr [OF this]
  have "db_inv tx'"
    using *(1) by (intro db_inv_cong [OF *(1)]) (simp_all add: 1(1) db_inv_def)
  then show "db_inv tx' \<and> chain_events tx' = chain_events tx \<and> pg_objects tx' = pg_objects tx \<and>
      pg_edges tx' = insert (f, t, k) (pg_edges tx) \<and> pg_objects tx f \<noteq> None \<and> (f, t, k) \<notin> pg_edges tx"
    using 1 pg_objects_None [of tx f] by (auto simp: pg_edges_def intro!: frame)
next
  fix tx tx' :: db and inp e
  assume *: "db_inv tx" "en_audit (pg_engine pg dbnow newID authz) inp tx = Inr (e, tx')"
  then have ap: "AppendTx pg dbnow inp tx = Inr (e, tx')"
    by (simp add: pg_engine_def)
  have "pg_objects tx' = pg_objects tx \<and> pg_edges tx' = pg_edges tx"
    using AppendTx_Inr(2) [OF ap] by (auto intro!: frame)
  moreover have "\<exists>row. chain_events tx' = (chain_events tx)(ai_ChainID inp := chain_events tx (ai_ChainID inp) @ [row]) \<and>
         ae_OperationID row = ai_OperationID inp \<and> ae_EventID row = ai_EventID inp \<and>
         ae_Operation row = ai_Operation inp \<and> ae_Actor row = ai_Actor inp \<and>
         ae_PayloadCanonical row = ai_PayloadCanonical inp"
    using AppendTx_chain_events [OF *(1) ap] AppendTx_Inr(1) [OF ap] by (auto simp: appended_def)
  ultimately show "db_inv tx' \<and> pg_objects tx' = pg_objects tx \<and> pg_edges tx' = pg_edges tx \<and>
      (\<exists>row. chain_events tx' = (chain_events tx)(ai_ChainID inp := chain_events tx (ai_ChainID inp) @ [row]) \<and>
         ae_OperationID row = ai_OperationID inp \<and> ae_EventID row = ai_EventID inp \<and>
         ae_Operation row = ai_Operation inp \<and> ae_Actor row = ai_Actor inp \<and>
         ae_PayloadCanonical row = ai_PayloadCanonical inp)"
    using AppendTx_db_inv [OF *(1) ap] by simp
qed (auto simp: pg_engine_def GovernanceStore_def GetForUpdate_def pg_objects_def CountDependents_def pg_edges_def
      filter_empty_conv split: option.splits)

end
