(* ===== verification/Graph.thy ===== *)
theory Graph
  imports Store
begin

text \<open>
  Dependency-graph traversal: the recursive queries of \<^verbatim>\<open>store/postgres/graph_traversal_repo.go\<close>
  and the service of \<^verbatim>\<open>internal/graph\<close> over them.

  A recursive common table expression is evaluated level by level: the next working table joins the
  edges with the rows of the last one that have not closed a cycle.  The evaluation ends when a
  level is empty; a row that has not closed a cycle carries a path without repetition, so no level
  after as many as there are edges has one, and \<open>walk_fuel\<close> levels are all there are.
\<close>

section \<open>Recursive queries\<close>

record walk_row =
  wr_cfg :: string
  wr_depth :: nat
  wr_path :: "string list"
  wr_cyc :: bool

type_synonym column = "DependencyEdge \<Rightarrow> string"

definition directionColumns :: "string \<Rightarrow> column \<times> column" where
  "directionColumns dir = (if dir = DirectionDependents then (de_ToCfg, de_FromCfg) else (de_FromCfg, de_ToCfg))"

definition walk_base :: "column \<Rightarrow> column \<Rightarrow> DependencyEdge list \<Rightarrow> string \<Rightarrow> walk_row list" where
  "walk_base near far es root =
     map (\<lambda>e. \<lparr> wr_cfg = far e, wr_depth = 1, wr_path = [near e, far e], wr_cyc = (far e = near e) \<rparr>)
       (filter (\<lambda>e. near e = root) es)"

definition walk_next :: "column \<Rightarrow> column \<Rightarrow> DependencyEdge list \<Rightarrow> walk_row list \<Rightarrow> walk_row list" where
  "walk_next near far es rows =
     concat (map (\<lambda>w. if wr_cyc w then [] else
        map (\<lambda>e. \<lparr> wr_cfg = far e, wr_depth = wr_depth w + 1, wr_path = wr_path w @ [far e],
                   wr_cyc = (far e \<in> set (wr_path w)) \<rparr>) (filter (\<lambda>e. near e = wr_cfg w) es)) rows)"

fun walk_levels :: "column \<Rightarrow> column \<Rightarrow> DependencyEdge list \<Rightarrow> nat \<Rightarrow> walk_row list \<Rightarrow> walk_row list" where
  "walk_levels near far es 0 rows = []"
| "walk_levels near far es (Suc n) rows = rows @ walk_levels near far es n (walk_next near far es rows)"

definition walk_fuel :: "DependencyEdge list \<Rightarrow> nat" where
  "walk_fuel es = length es + 1"

definition walk_rows :: "column \<Rightarrow> column \<Rightarrow> DependencyEdge list \<Rightarrow> string \<Rightarrow> walk_row list" where
  "walk_rows near far es root = walk_levels near far es (walk_fuel es) (walk_base near far es root)"

text \<open>Each reachable node once, at its least depth, ordered by depth and id.\<close>

definition walkQuery :: "column \<Rightarrow> column \<Rightarrow> DependencyEdge list \<Rightarrow> string \<Rightarrow> TraversalNode list" where
  "walkQuery near far es root =
     (let rows = filter (\<lambda>w. \<not> wr_cyc w) (walk_rows near far es root) in
      sort_key (\<lambda>n. (tn_Depth n, tn_CfgID n))
        (map (\<lambda>c. \<lparr> tn_CfgID = c, tn_Depth = Min (set (map wr_depth (filter (\<lambda>w. wr_cfg w = c) rows))) \<rparr>)
          (remdups (map wr_cfg rows))))"

definition cycleQuery :: "column \<Rightarrow> column \<Rightarrow> DependencyEdge list \<Rightarrow> string \<Rightarrow> GraphPath list" where
  "cycleQuery near far es root = sort (map wr_path (filter wr_cyc (walk_rows near far es root)))"

definition Dependencies :: "db \<Rightarrow> string \<Rightarrow> string list" where
  "Dependencies d c = sort (remdups (map de_ToCfg (filter (\<lambda>e. de_FromCfg e = c) (t_dependency_edge d))))"

definition Dependents :: "db \<Rightarrow> string \<Rightarrow> string list" where
  "Dependents d c = sort (remdups (map de_FromCfg (filter (\<lambda>e. de_ToCfg e = c) (t_dependency_edge d))))"

definition RecursiveDependencies :: "db \<Rightarrow> string \<Rightarrow> TraversalNode list" where
  "RecursiveDependencies d c = walkQuery de_FromCfg de_ToCfg (t_dependency_edge d) c"

definition RecursiveDependents :: "db \<Rightarrow> string \<Rightarrow> TraversalNode list" where
  "RecursiveDependents d c = walkQuery de_ToCfg de_FromCfg (t_dependency_edge d) c"

definition CyclePaths :: "db \<Rightarrow> string \<Rightarrow> string \<Rightarrow> GraphPath list" where
  "CyclePaths d c dir = (case directionColumns dir of (near, far) \<Rightarrow> cycleQuery near far (t_dependency_edge d) c)"

section \<open>The graph service\<close>

text \<open>The service over a traversal port.\<close>

record GraphTraversal =
  gt_RecursiveDependencies :: "string \<Rightarrow> err + TraversalNode list"
  gt_RecursiveDependents :: "string \<Rightarrow> err + TraversalNode list"
  gt_CyclePaths :: "string \<Rightarrow> string \<Rightarrow> err + GraphPath list"

definition walk :: "GraphTraversal \<Rightarrow> string \<Rightarrow> string \<Rightarrow> err + TraversalResult" where
  "walk repo root dir =
     (case (if dir = DirectionDependents then gt_RecursiveDependents repo root else gt_RecursiveDependencies repo root) of
        Inl er \<Rightarrow> Inl er
      | Inr nodes \<Rightarrow> Inr \<lparr> tr_Root = root, tr_Direction = dir, tr_Nodes = nodes \<rparr>)"

definition WalkDependencies :: "GraphTraversal \<Rightarrow> string \<Rightarrow> err + TraversalResult" where
  "WalkDependencies repo root = walk repo root DirectionDependencies"

definition WalkDependents :: "GraphTraversal \<Rightarrow> string \<Rightarrow> err + TraversalResult" where
  "WalkDependents repo root = walk repo root DirectionDependents"

text \<open>The index of the first occurrence, and of the first least element of a non-empty list.\<close>

fun index_of :: "'a \<Rightarrow> 'a list \<Rightarrow> nat option" where
  "index_of x [] = None"
| "index_of x (y # ys) = (if y = x then Some 0 else map_option Suc (index_of x ys))"

definition min_index :: "string list \<Rightarrow> nat" where
  "min_index loop = foldl (\<lambda>m i. if loop ! i < loop ! m then i else m) 0 [0 ..< length loop]"

definition canonicalLoop :: "string list \<Rightarrow> string list" where
  "canonicalLoop path =
     (if length path < 2 then []
      else case index_of (path ! (length path - 1)) path of
          None \<Rightarrow> []
        | Some first \<Rightarrow>
            if first = length path - 1 then []
            else let loop = drop first (take (length path - 1) path); minIdx = min_index loop
                 in drop minIdx loop @ take minIdx loop)"

text \<open>The loop of a path is recorded under its key, the joined ids; a second loop with the key is dropped.\<close>

definition add_cycle :: "(string \<times> GraphPath) list \<Rightarrow> GraphPath \<Rightarrow> (string \<times> GraphPath) list" where
  "add_cycle seen p =
     (let loop = canonicalLoop p; key = Join '','' loop in
      if length loop = 0 then seen
      else if key \<in> fst ` set seen then seen
      else seen @ [(key, loop @ [loop ! 0])])"

definition canonicalCycles :: "GraphPath list \<Rightarrow> GraphPath list" where
  "canonicalCycles paths = sort_key GraphPath_String (map snd (foldl add_cycle [] paths))"

definition DetectCycles :: "GraphTraversal \<Rightarrow> string \<Rightarrow> err + GraphPath list" where
  "DetectCycles repo root =
     (case gt_CyclePaths repo root DirectionDependencies of Inl er \<Rightarrow> Inl er | Inr paths \<Rightarrow> Inr (canonicalCycles paths))"

definition pg_traversal :: "db \<Rightarrow> GraphTraversal" where
  "pg_traversal d = \<lparr> gt_RecursiveDependencies = (\<lambda>c. Inr (RecursiveDependencies d c)),
     gt_RecursiveDependents = (\<lambda>c. Inr (RecursiveDependents d c)), gt_CyclePaths = (\<lambda>c dir. Inr (CyclePaths d c dir)) \<rparr>"

section \<open>The rows are the simple paths\<close>

definition arcs :: "column \<Rightarrow> column \<Rightarrow> DependencyEdge list \<Rightarrow> (string \<times> string) set" where
  "arcs near far es = (\<lambda>e. (near e, far e)) ` set es"

fun is_path :: "('a \<times> 'a) set \<Rightarrow> 'a list \<Rightarrow> bool" where
  "is_path R [] = False"
| "is_path R [x] = True"
| "is_path R (x # y # p) = ((x, y) \<in> R \<and> is_path R (y # p))"

lemma is_path_snoc: "p \<noteq> [] \<Longrightarrow> is_path R (p @ [x]) \<longleftrightarrow> is_path R p \<and> (last p, x) \<in> R"
  by (induction R p rule: is_path.induct) auto

text \<open>A row records the path to its node; it is closed when the last node repeats an earlier one.\<close>

definition row_for :: "string list \<Rightarrow> walk_row" where
  "row_for p = \<lparr> wr_cfg = last p, wr_depth = length p - 1, wr_path = p, wr_cyc = (last p \<in> set (butlast p)) \<rparr>"

lemma row_for_simps [simp]:
  "wr_cfg (row_for p) = last p" "wr_path (row_for p) = p" "wr_depth (row_for p) = length p - 1"
  "wr_cyc (row_for p) \<longleftrightarrow> last p \<in> set (butlast p)"
  by (simp_all add: row_for_def)

definition walk_paths :: "(string \<times> string) set \<Rightarrow> string \<Rightarrow> nat \<Rightarrow> string list set" where
  "walk_paths R root k = {p. is_path R p \<and> hd p = root \<and> length p = Suc k \<and> distinct (butlast p)}"

lemma walk_base_paths: "set (walk_base near far es root) = row_for ` walk_paths (arcs near far es) root 1"
proof -
  have "walk_paths (arcs near far es) root 1 = (\<lambda>e. [near e, far e]) ` {e \<in> set es. near e = root}"
  proof (intro set_eqI iffI)
    fix p
    assume "p \<in> walk_paths (arcs near far es) root 1"
    then obtain x y where "p = [x, y]" "(x, y) \<in> arcs near far es" "x = root"
      by (auto simp: walk_paths_def length_Suc_conv)
    then show "p \<in> (\<lambda>e. [near e, far e]) ` {e \<in> set es. near e = root}"
      by (auto simp: arcs_def)
  qed (auto simp: walk_paths_def arcs_def)
  then show ?thesis
    by (auto simp: walk_base_def row_for_def image_image)
qed

lemma walk_next_paths:
  assumes "set rows = row_for ` walk_paths (arcs near far es) root k" "0 < k"
  shows "set (walk_next near far es rows) = row_for ` walk_paths (arcs near far es) root (Suc k)"
proof -
  let ?R = "arcs near far es"
  have nonempty: "p \<noteq> []" if "p \<in> walk_paths ?R root k" for p
    using that by (auto simp: walk_paths_def)
  have step: "row_for (p @ [far e]) = \<lparr> wr_cfg = far e, wr_depth = wr_depth (row_for p) + 1,
      wr_path = wr_path (row_for p) @ [far e], wr_cyc = (far e \<in> set (wr_path (row_for p))) \<rparr>"
    if "p \<in> walk_paths ?R root k" for p e
    using that by (auto simp: row_for_def walk_paths_def)
  have next_paths: "walk_paths ?R root (Suc k) =
      {p @ [far e] |p e. p \<in> walk_paths ?R root k \<and> \<not> wr_cyc (row_for p) \<and> e \<in> set es \<and> near e = last p}"
  proof (intro set_eqI iffI)
    fix q
    assume q: "q \<in> walk_paths ?R root (Suc k)"
    then have "length q = Suc (Suc k)"
      by (simp add: walk_paths_def)
    then obtain p x where p: "q = p @ [x]" "length p = Suc k"
      by (cases q rule: rev_cases) simp_all
    then have "p \<noteq> []"
      by auto
    have "is_path ?R p" "(last p, x) \<in> ?R" "hd p = root" "length p = Suc k" "distinct p"
      using q p \<open>p \<noteq> []\<close> by (auto simp: walk_paths_def is_path_snoc)
    then show "q \<in> {p @ [far e] |p e. p \<in> walk_paths ?R root k \<and> \<not> wr_cyc (row_for p) \<and> e \<in> set es \<and> near e = last p}"
      using p by (cases p rule: rev_cases) (auto simp: walk_paths_def row_for_def arcs_def)
  next
    fix q
    assume "q \<in> {p @ [far e] |p e. p \<in> walk_paths ?R root k \<and> \<not> wr_cyc (row_for p) \<and> e \<in> set es \<and> near e = last p}"
    then obtain p e where *: "q = p @ [far e]" "p \<in> walk_paths ?R root k" "last p \<notin> set (butlast p)"
      "e \<in> set es" "near e = last p"
      by (auto simp: row_for_def)
    have "distinct p"
      using *(2,3) nonempty by (cases p rule: rev_cases) (auto simp: walk_paths_def)
    moreover have "(last p, far e) \<in> ?R"
      unfolding arcs_def using *(4,5) by (intro image_eqI [of _ _ e]) auto
    ultimately show "q \<in> walk_paths ?R root (Suc k)"
      using * nonempty [OF *(2)] by (auto simp: walk_paths_def is_path_snoc)
  qed
  have "set (walk_next near far es rows) = {row_for (p @ [far e]) |p e. p \<in> walk_paths ?R root k \<and> \<not> wr_cyc (row_for p) \<and>
      e \<in> set es \<and> near e = wr_cfg (row_for p)}"
    using step by (auto simp: walk_next_def assms(1) split: if_splits) metis
  also have "\<dots> = row_for ` walk_paths ?R root (Suc k)"
    unfolding next_paths by auto
  finally show ?thesis .
qed


lemma walk_paths_bound:
  assumes "p \<in> walk_paths (arcs near far es) root k"
  shows "k \<le> length es"
proof -
  have from_near: "set (butlast p) \<subseteq> near ` set es" if "is_path (arcs near far es) p" for p
    using that by (induction "arcs near far es" p rule: is_path.induct) (auto simp: arcs_def)
  have "k = card (set (butlast p))"
    using assms by (simp add: walk_paths_def distinct_card)
  also have "\<dots> \<le> card (near ` set es)"
    using assms from_near by (intro card_mono) (auto simp: walk_paths_def)
  also have "\<dots> \<le> length es"
    using card_image_le card_length le_trans by blast
  finally show ?thesis .
qed

lemma walk_levels_paths:
  "set rows = row_for ` walk_paths (arcs near far es) root k \<Longrightarrow> 0 < k \<Longrightarrow>
     set (walk_levels near far es n rows) = row_for ` (\<Union>j \<in> {k ..< k + n}. walk_paths (arcs near far es) root j)"
proof (induction n arbitrary: k rows)
  case (Suc n)
  have "{k ..< k + Suc n} = insert k {Suc k ..< Suc k + n}"
    by auto
  then show ?case
    using Suc.IH [OF walk_next_paths [OF Suc.prems]] Suc.prems(1) by (simp add: image_Un)
qed simp

lemma walk_rows_paths:
  "set (walk_rows near far es root) = row_for ` (\<Union>j \<in> {1 ..}. walk_paths (arcs near far es) root j)"
proof -
  have "(\<Union>j \<in> {1 ..< 1 + (length es + 1)}. walk_paths (arcs near far es) root j) = (\<Union>j \<in> {1 ..}. walk_paths (arcs near far es) root j)"
    using walk_paths_bound by (fastforce simp: Suc_le_eq)
  then show ?thesis
    using walk_levels_paths [OF walk_base_paths, where n = "walk_fuel es"] by (simp add: walk_rows_def walk_fuel_def)
qed

text \<open>Every later level is empty: the evaluation of the query has ended.\<close>

lemma walk_levels_end:
  assumes "walk_fuel es \<le> n"
  shows "set (walk_levels near far es n (walk_base near far es root)) = set (walk_rows near far es root)"
proof -
  have "(\<Union>j \<in> {1 ..< 1 + n}. walk_paths (arcs near far es) root j) = (\<Union>j \<in> {1 ..}. walk_paths (arcs near far es) root j)"
    using walk_paths_bound assms by (fastforce simp: Suc_le_eq walk_fuel_def)
  then show ?thesis
    using walk_levels_paths [OF walk_base_paths, where n = n] by (simp add: walk_rows_paths)
qed

section \<open>Paths and reachability\<close>

lemma is_path_append: "p \<noteq> [] \<Longrightarrow> q \<noteq> [] \<Longrightarrow> is_path R (p @ q) \<longleftrightarrow> is_path R p \<and> (last p, hd q) \<in> R \<and> is_path R q"
proof (induction R p rule: is_path.induct)
  case (2 R x)
  then show ?case
    by (cases q) auto
qed auto

lemma path_relpow: "(a, b) \<in> R ^^ n \<longleftrightarrow> (\<exists>p. is_path R p \<and> hd p = a \<and> last p = b \<and> length p = Suc n)"
proof (induction n arbitrary: b)
  case 0
  show ?case
    by (intro iffI exI [of _ "[a]"]) (auto simp: length_Suc_conv)
next
  case (Suc n)
  show ?case
  proof
    assume "(a, b) \<in> R ^^ Suc n"
    then obtain c where "(a, c) \<in> R ^^ n" "(c, b) \<in> R"
      by auto
    then obtain p where p: "is_path R p" "hd p = a" "last p = c" "length p = Suc n"
      using Suc by auto
    then have "p \<noteq> []"
      by auto
    then have "is_path R (p @ [b]) \<and> hd (p @ [b]) = a \<and> last (p @ [b]) = b \<and> length (p @ [b]) = Suc (Suc n)"
      using p \<open>(c, b) \<in> R\<close> by (simp add: is_path_snoc)
    then show "\<exists>p. is_path R p \<and> hd p = a \<and> last p = b \<and> length p = Suc (Suc n)"
      by blast
  next
    assume "\<exists>p. is_path R p \<and> hd p = a \<and> last p = b \<and> length p = Suc (Suc n)"
    then obtain p x where p: "is_path R (p @ [x])" "hd (p @ [x]) = a" "x = b" "length p = Suc n"
      by (metis append_butlast_last_id is_path.simps(1) last_snoc length_append_singleton nat.inject)
    then have "p \<noteq> []"
      by auto
    then have "(a, last p) \<in> R ^^ n" "(last p, b) \<in> R"
      using p Suc [of "last p"] by (auto simp: is_path_snoc)
    then show "(a, b) \<in> R ^^ Suc n"
      by auto
  qed
qed

lemma path_shorten:
  assumes "is_path R p" "\<not> distinct p"
  shows "\<exists>q. is_path R q \<and> hd q = hd p \<and> last q = last p \<and> length q < length p"
proof -
  obtain xs y ys zs where p: "p = xs @ [y] @ ys @ [y] @ zs"
    using not_distinct_decomp assms(2) by blast
  have tail: "is_path R (y # zs)"
    using assms(1) p is_path_append [of "xs @ [y] @ ys" "y # zs" R] by simp
  have "is_path R (xs @ (y # zs))"
  proof (cases "xs = []")
    case False
    then have "(last xs, y) \<in> R" "is_path R xs"
      using assms(1) p is_path_append [of xs "[y] @ ys @ [y] @ zs" R] by auto
    then show ?thesis
      using False tail is_path_append [of xs "y # zs" R] by simp
  qed (use tail in simp)
  then show ?thesis
    using p by (intro exI [of _ "xs @ (y # zs)"]) (auto simp: hd_append)
qed

text \<open>A node at distance \<open>k\<close> is reached by a path without repetition, and by no shorter one.\<close>

lemma shortest_path_distinct:
  assumes "(a, b) \<in> R ^^ k" "\<And>j. j < k \<Longrightarrow> (a, b) \<notin> R ^^ j"
  shows "\<exists>p. is_path R p \<and> hd p = a \<and> last p = b \<and> length p = Suc k \<and> distinct p"
proof -
  obtain p where p: "is_path R p" "hd p = a" "last p = b" "length p = Suc k"
    using assms(1) unfolding path_relpow by blast
  have "distinct p"
  proof (rule ccontr)
    assume "\<not> distinct p"
    then obtain q where q: "is_path R q" "hd q = a" "last q = b" "length q < Suc k"
      using path_shorten [OF p(1)] p by auto
    then obtain j where "length q = Suc j"
      by (cases q) auto
    then have "(a, b) \<in> R ^^ j"
      unfolding path_relpow using q by blast
    then show False
      using assms(2) q(4) \<open>length q = Suc j\<close> by simp
  qed
  then show ?thesis
    using p by blast
qed


lemma open_rows_distance:
  assumes "R = arcs near far es"
  shows "{w \<in> set (walk_rows near far es root). \<not> wr_cyc w} =
     row_for ` {p. is_path R p \<and> hd p = root \<and> distinct p \<and> 2 \<le> length p}"
proof -
  have split: "distinct p \<longleftrightarrow> distinct (butlast p) \<and> last p \<notin> set (butlast p)" if "p \<noteq> []" for p :: "string list"
    using that by (cases p rule: rev_cases) auto
  have "{p \<in> (\<Union>j \<in> {1 ..}. walk_paths R root j). last p \<notin> set (butlast p)} =
     {p. is_path R p \<and> hd p = root \<and> distinct p \<and> 2 \<le> length p}"
  proof (intro set_eqI iffI)
    fix p
    assume "p \<in> {p \<in> (\<Union>j \<in> {1 ..}. walk_paths R root j). last p \<notin> set (butlast p)}"
    then show "p \<in> {p. is_path R p \<and> hd p = root \<and> distinct p \<and> 2 \<le> length p}"
      using split [of p] by (cases "p = []") (auto simp: walk_paths_def)
  next
    fix p
    assume p: "p \<in> {p. is_path R p \<and> hd p = root \<and> distinct p \<and> 2 \<le> length p}"
    then have "p \<in> walk_paths R root (length p - 1)" "1 \<le> length p - 1" "last p \<notin> set (butlast p)"
      using split [of p] by (cases "p = []"; auto simp: walk_paths_def)+
    then show "p \<in> {p \<in> (\<Union>j \<in> {1 ..}. walk_paths R root j). last p \<notin> set (butlast p)}"
      by blast
  qed
  moreover have "{w \<in> set (walk_rows near far es root). \<not> wr_cyc w} =
      row_for ` {p \<in> (\<Union>j \<in> {1 ..}. walk_paths R root j). last p \<notin> set (butlast p)}"
    unfolding walk_rows_paths assms by auto
  ultimately show ?thesis
    by simp
qed

text \<open>The depths the open rows give a node are lengths of walks, the least distance among them.\<close>

lemma open_depths:
  assumes "R = arcs near far es" "D = wr_depth ` {w \<in> set (walk_rows near far es root). \<not> wr_cyc w \<and> wr_cfg w = x}"
  shows "D \<noteq> {} \<longleftrightarrow> x \<noteq> root \<and> (root, x) \<in> R\<^sup>+"
    and "D \<noteq> {} \<Longrightarrow> Min D = (LEAST k. (root, x) \<in> R ^^ k)"
proof -
  have D: "D = (\<lambda>p. length p - 1) ` {p. is_path R p \<and> hd p = root \<and> distinct p \<and> 2 \<le> length p \<and> last p = x}"
    (is "_ = _ ` ?P")
  proof -
    have "D = wr_depth ` {w \<in> row_for ` {p. is_path R p \<and> hd p = root \<and> distinct p \<and> 2 \<le> length p}. wr_cfg w = x}"
      unfolding assms(2) open_rows_distance [OF assms(1), symmetric] by auto
    also have "\<dots> = (\<lambda>p. length p - 1) ` ?P"
      by (auto simp: image_iff intro!: exI)
    finally show ?thesis .
  qed
  have walks: "(root, x) \<in> R ^^ k \<and> x \<noteq> root" if "k \<in> D" for k
  proof -
    obtain p where p: "p \<in> ?P" "k = length p - 1"
      using \<open>k \<in> D\<close> D by auto
    then have "length p = Suc k"
      by auto
    then have "(root, x) \<in> R ^^ k"
      unfolding path_relpow using p by blast
    moreover have "x \<noteq> root"
      using p by (cases p) (auto split: if_splits)
    ultimately show ?thesis
      by simp
  qed
  have least: "(LEAST k. (root, x) \<in> R ^^ k) \<in> D" if "(root, x) \<in> R\<^sup>*" "x \<noteq> root"
  proof -
    let ?k = "LEAST k. (root, x) \<in> R ^^ k"
    have k: "(root, x) \<in> R ^^ ?k"
      using that(1) by (meson LeastI rtrancl_imp_relpow)
    moreover have "(root, x) \<notin> R ^^ j" if "j < ?k" for j
      using not_less_Least [OF that] .
    ultimately obtain p where p: "is_path R p" "hd p = root" "last p = x" "length p = Suc ?k" "distinct p"
      using shortest_path_distinct by metis
    have "?k \<noteq> 0"
      using k that(2) by (metis Id_O_R R_O_Id pair_in_Id_conv relpow.simps(1))
    then have "p \<in> ?P" "?k = length p - 1"
      using p by auto
    then show ?thesis
      unfolding D by (intro image_eqI)
  qed
  show *: "D \<noteq> {} \<longleftrightarrow> x \<noteq> root \<and> (root, x) \<in> R\<^sup>+"
    using walks least by (metis all_not_in_conv relpow_imp_rtrancl rtranclD trancl_into_rtrancl)
  show "Min D = (LEAST k. (root, x) \<in> R ^^ k)" if "D \<noteq> {}"
  proof (rule Min_eqI)
    show "finite D"
      by (simp add: assms(2))
    show "(LEAST k. (root, x) \<in> R ^^ k) \<le> k" if "k \<in> D" for k
      using walks [OF that] by (simp add: Least_le)
    show "(LEAST k. (root, x) \<in> R ^^ k) \<in> D"
      using \<open>D \<noteq> {}\<close> * least by (simp add: trancl_into_rtrancl)
  qed
qed

lemma walkQuery_closure:
  assumes "R = arcs near far es"
  shows "set (walkQuery near far es root) =
      {\<lparr> tn_CfgID = x, tn_Depth = (LEAST k. (root, x) \<in> R ^^ k) \<rparr> |x. x \<noteq> root \<and> (root, x) \<in> R\<^sup>+}"
    and "distinct (map tn_CfgID (walkQuery near far es root))"
proof -
  define rows where "rows = filter (\<lambda>w. \<not> wr_cyc w) (walk_rows near far es root)"
  define depths where "depths c = set (map wr_depth (filter (\<lambda>w. wr_cfg w = c) rows))" for c
  have depths: "depths c = wr_depth ` {w \<in> set (walk_rows near far es root). \<not> wr_cyc w \<and> wr_cfg w = c}" for c
    by (auto simp: depths_def rows_def)
  have query: "walkQuery near far es root = sort_key (\<lambda>n. (tn_Depth n, tn_CfgID n))
      (map (\<lambda>c. \<lparr> tn_CfgID = c, tn_Depth = Min (depths c) \<rparr>) (remdups (map wr_cfg rows)))"
    by (simp add: walkQuery_def rows_def depths_def Let_def)
  have ids: "set (map wr_cfg rows) = {c. depths c \<noteq> {}}"
    by (auto simp: depths_def)
  have "set (walkQuery near far es root) = (\<lambda>c. \<lparr> tn_CfgID = c, tn_Depth = Min (depths c) \<rparr>) ` {c. depths c \<noteq> {}}"
    unfolding query ids [symmetric] by simp
  also have "\<dots> = {\<lparr> tn_CfgID = x, tn_Depth = (LEAST k. (root, x) \<in> R ^^ k) \<rparr> |x. x \<noteq> root \<and> (root, x) \<in> R\<^sup>+}"
    using open_depths [OF assms depths] by (auto simp: image_iff)
  finally show "set (walkQuery near far es root) =
      {\<lparr> tn_CfgID = x, tn_Depth = (LEAST k. (root, x) \<in> R ^^ k) \<rparr> |x. x \<noteq> root \<and> (root, x) \<in> R\<^sup>+}" .
  show "distinct (map tn_CfgID (walkQuery near far es root))"
    unfolding query by (auto simp: distinct_map inj_on_def)
qed


section \<open>Canonical cycles\<close>

lemma index_of_first: "x \<notin> set pre \<Longrightarrow> index_of x (pre @ x # post) = Some (length pre)"
  by (induction pre) auto

lemma min_index_least:
  assumes "loop \<noteq> []"
  shows "min_index loop < length loop \<and> (\<forall>x \<in> set loop. loop ! min_index loop \<le> x)"
proof -
  have "foldl (\<lambda>m i. if loop ! i < loop ! m then i else m) 0 [0 ..< n] < length loop \<and>
      (\<forall>i < n. loop ! foldl (\<lambda>m i. if loop ! i < loop ! m then i else m) 0 [0 ..< n] \<le> loop ! i)" if "n \<le> length loop" for n
    using that
  proof (induction n)
    case (Suc n)
    then show ?case
      by (auto simp: less_Suc_eq)
  qed (use assms in simp)
  from this [of "length loop"] show ?thesis
    by (auto simp: min_index_def in_set_conv_nth)
qed

lemma hd_rotate_nth: "i < length l \<Longrightarrow> hd (rotate i l) = l ! i"
  by (cases "l = []") (simp_all add: hd_rotate_conv_nth)

lemma canonicalLoop_rotation:
  assumes "l \<noteq> []" "hd l \<notin> set pre"
  shows "canonicalLoop (pre @ l @ [hd l]) = rotate (min_index l) l" "hd (canonicalLoop (pre @ l @ [hd l])) = Min (set l)"
proof -
  let ?path = "pre @ l @ [hd l]"
  have path: "?path = pre @ hd l # (tl l @ [hd l])"
    using assms(1) by simp
  have first: "index_of (hd l) ?path = Some (length pre)"
    unfolding path by (rule index_of_first) (rule assms(2))
  have last: "?path ! (length ?path - 1) = hd l"
    by (simp add: nth_append)
  have loop: "drop (length pre) (take (length ?path - 1) ?path) = l" "length pre \<noteq> length ?path - 1" "\<not> length ?path < 2"
    using assms(1) by (cases l; simp)+
  have min: "min_index l < length l" "\<forall>x \<in> set l. l ! min_index l \<le> x"
    using min_index_least [OF assms(1)] by auto
  show *: "canonicalLoop ?path = rotate (min_index l) l"
    unfolding canonicalLoop_def last first option.case Let_def loop(1) using loop(2,3) min(1)
    by (simp add: rotate_drop_take)
  show "hd (canonicalLoop ?path) = Min (set l)"
    unfolding * using min by (simp add: hd_rotate_nth) (metis List.finite_set Min_eqI nth_mem)
qed

text \<open>A rotation of a list without repetition is determined by its first element.\<close>

lemma rotate_hd_unique:
  assumes "distinct l" "hd (rotate i l) = hd (rotate j l)"
  shows "rotate i l = rotate j l"
proof (cases "l = []")
  case False
  then have "l ! (i mod length l) = l ! (j mod length l)"
    using assms(2) by (simp add: hd_rotate_conv_nth)
  then have "i mod length l = j mod length l"
    using assms(1) False by (simp add: nth_eq_iff_index_eq)
  then show ?thesis
    by (metis rotate_conv_mod)
qed simp

lemma Split_Join: "xs \<noteq> [] \<Longrightarrow> (\<And>x. x \<in> set xs \<Longrightarrow> c \<notin> set x) \<Longrightarrow> Split c (Join [c] xs) = xs"
proof (induction "[c]" xs rule: Join.induct)
  case (3 x y ys)
  have "Split c (x @ c # s) = x # Split c s" if "c \<notin> set x" for x s
    using that by (induction x) auto
  then show ?case
    using 3 by simp
next
  case (2 x)
  have "Split c x = [x]" if "c \<notin> set x" for x
    using that by (induction x) auto
  then show ?case
    using 2 by simp
qed simp

lemma canonicalCycles_set:
  assumes "\<And>p. p \<in> set paths \<Longrightarrow> \<forall>x \<in> set p. CHR '','' \<notin> set x"
  shows "set (canonicalCycles paths) = (\<lambda>l. l @ [hd l]) ` (canonicalLoop ` set paths - {[]})"
proof -
  have sub: "set (canonicalLoop p) \<subseteq> set p" for p
    by (auto simp: canonicalLoop_def Let_def split: option.splits if_splits dest!: in_set_takeD in_set_dropD)
  have inj: "a = b" if "Join '','' a = Join '','' b" "a \<in> canonicalLoop ` set paths - {[]}" "b \<in> canonicalLoop ` set paths - {[]}" for a b
    using that assms sub Split_Join [of a "CHR '',''"] Split_Join [of b "CHR '',''"] by fastforce
  have "set ps \<subseteq> set paths \<Longrightarrow>
     set (foldl add_cycle [] ps) = (\<lambda>l. (Join '','' l, l @ [hd l])) ` (canonicalLoop ` set ps - {[]})" for ps
  proof (induction ps rule: rev_induct)
    case (snoc p ps)
    let ?old = "canonicalLoop ` set ps - {[]}"
    have old: "set (foldl add_cycle [] ps) = (\<lambda>l. (Join '','' l, l @ [hd l])) ` ?old"
      using snoc by simp
    show ?case
    proof (cases "canonicalLoop p = [] \<or> Join '','' (canonicalLoop p) \<in> Join '','' ` ?old")
      case True
      then have "canonicalLoop ` set (ps @ [p]) - {[]} = ?old"
        using inj [of "canonicalLoop p"] snoc.prems by auto
      moreover have "foldl add_cycle [] (ps @ [p]) = foldl add_cycle [] ps"
        using True by (auto simp: add_cycle_def Let_def old image_image)
      ultimately show ?thesis
        using old by simp
    next
      case False
      have "foldl add_cycle [] (ps @ [p]) = foldl add_cycle [] ps @ [(Join '','' (canonicalLoop p), canonicalLoop p @ [canonicalLoop p ! 0])]"
        using False by (auto simp: add_cycle_def Let_def old image_image)
      moreover have "canonicalLoop ` set (ps @ [p]) - {[]} = insert (canonicalLoop p) ?old"
        using False by auto
      ultimately show ?thesis
        using old False by (simp add: hd_conv_nth)
    qed
  qed simp
  from this [of paths] show ?thesis
    by (simp add: canonicalCycles_def image_image)
qed


lemma canonicalCycles_distinct: "distinct (canonicalCycles paths)"
proof -
  have "(\<forall>(k, c) \<in> set (foldl add_cycle [] paths). k = Join '','' (butlast c)) \<and> distinct (map snd (foldl add_cycle [] paths))"
  proof (induction paths rule: rev_induct)
    case (snoc p ps)
    then show ?case
      by (force simp: add_cycle_def Let_def)
  qed simp
  then show ?thesis
    by (simp add: canonicalCycles_def)
qed

section \<open>Cycles reachable from a root\<close>

lemma is_path_prefix: "is_path R (p @ q) \<Longrightarrow> p \<noteq> [] \<Longrightarrow> is_path R p"
  by (cases "q = []") (auto simp: is_path_append)

lemma is_path_suffix: "is_path R (p @ q) \<Longrightarrow> q \<noteq> [] \<Longrightarrow> is_path R q"
  by (cases "p = []") (auto simp: is_path_append)

lemma is_path_rtrancl: "is_path R p \<Longrightarrow> x \<in> set p \<Longrightarrow> (hd p, x) \<in> R\<^sup>*"
proof (induction R p rule: is_path.induct)
  case (3 R a b p)
  then show ?case
    by (auto intro: converse_rtrancl_into_rtrancl)
qed auto

text \<open>A closed walk stays one under rotation.\<close>

lemma is_path_rotate: "is_path R (l @ [hd l]) \<Longrightarrow> l \<noteq> [] \<Longrightarrow> is_path R (rotate n l @ [hd (rotate n l)])"
proof (induction n)
  case (Suc n)
  let ?r = "rotate n l"
  obtain x xs where r: "?r = x # xs"
    using Suc.prems by (cases ?r) auto
  have path: "is_path R ((x # xs) @ [x])"
    using Suc r by simp
  show ?case
  proof (cases xs)
    case Nil
    then show ?thesis
      using path r by simp
  next
    case (Cons y ys)
    have "is_path R (xs @ [x])" "(x, y) \<in> R"
      using path Cons by auto
    then have "is_path R ((xs @ [x]) @ [y])"
      by (subst is_path_snoc) auto
    then show ?thesis
      using r Cons by (simp add: rotate1_def)
  qed
qed simp

definition canonical_cycle :: "(string \<times> string) set \<Rightarrow> string \<Rightarrow> string list \<Rightarrow> bool" where
  "canonical_cycle R root l \<longleftrightarrow>
     l \<noteq> [] \<and> distinct l \<and> is_path R (l @ [hd l]) \<and> hd l = Min (set l) \<and> (root, hd l) \<in> R\<^sup>*"

lemma closing_path_cycle:
  assumes "p \<in> walk_paths R root k" "last p \<in> set (butlast p)"
  shows "canonical_cycle R root (canonicalLoop p)"
proof -
  have "p \<noteq> []"
    using assms(1) by (auto simp: walk_paths_def)
  then obtain q y where p: "p = q @ [y]" "y \<in> set q" "distinct q" "is_path R p" "hd p = root"
    using assms by (cases p rule: rev_cases) (auto simp: walk_paths_def)
  then obtain pre post where q: "q = pre @ y # post"
    by (meson split_list)
  define l where "l = y # post"
  have path: "p = pre @ l @ [hd l]" and l: "l \<noteq> []" "distinct l" "hd l \<notin> set pre"
    using p q by (auto simp: l_def)
  have "is_path R (l @ [hd l])"
    using p(4) path is_path_suffix by fastforce
  then have "is_path R (rotate n l @ [hd (rotate n l)])" for n
    using is_path_rotate l(1) by blast
  moreover have "(root, x) \<in> R\<^sup>*" if "x \<in> set l" for x
    using is_path_rtrancl [OF p(4), of x] p(5) path that by auto
  moreover have "canonicalLoop p = rotate (min_index l) l" "hd (canonicalLoop p) = Min (set l)"
    unfolding path by (rule canonicalLoop_rotation [OF l(1,3)])+
  ultimately show ?thesis
    using l(1,2) by (auto simp: canonical_cycle_def) (metis List.finite_set Min_in set_empty)
qed

text \<open>
  Conversely a cycle reachable from the root is the loop of a closing path: a walk without repetition to
  its first node on the cycle, and from there once around.
\<close>

lemma cycle_closing_path:
  assumes "canonical_cycle R root l"
  shows "\<exists>k \<ge> 1. \<exists>p \<in> walk_paths R root k. last p \<in> set (butlast p) \<and> canonicalLoop p = l"
proof -
  have l: "l \<noteq> []" "distinct l" "is_path R (l @ [hd l])" "hd l = Min (set l)" "(root, hd l) \<in> R\<^sup>*"
    using assms by (auto simp: canonical_cycle_def)
  let ?k = "LEAST k. \<exists>x \<in> set l. (root, x) \<in> R ^^ k"
  have ex: "\<exists>k. \<exists>x \<in> set l. (root, x) \<in> R ^^ k"
    using l(1,5) by (meson hd_in_set rtrancl_imp_relpow)
  then obtain x where x: "x \<in> set l" "(root, x) \<in> R ^^ ?k"
    using LeastI_ex [OF ex] by blast
  have least: "(root, y) \<notin> R ^^ j" if "j < ?k" "y \<in> set l" for j y
    using not_less_Least [OF that(1)] that(2) by blast
  then obtain q where q: "is_path R q" "hd q = root" "last q = x" "length q = Suc ?k" "distinct q"
    using shortest_path_distinct [OF x(2)] x(1) by blast
  define pre where "pre = butlast q"
  have q': "q = pre @ [x]"
    using q by (metis append_butlast_last_id is_path.simps(1) pre_def)
  have disjoint: "y \<notin> set l" if y: "y \<in> set pre" for y
  proof
    assume "y \<in> set l"
    obtain a b where ab: "pre = a @ y # b"
      using split_list [OF y] by blast
    have "is_path R (a @ [y])"
      using q(1) is_path_prefix [of R "a @ [y]" "b @ [x]"] by (simp add: q' ab)
    moreover have "hd (a @ [y]) = root"
      using q(2) by (cases a) (auto simp: q' ab)
    moreover have "last (a @ [y]) = y" "length (a @ [y]) = Suc (length a)"
      by simp_all
    ultimately have "(root, y) \<in> R ^^ length a"
      unfolding path_relpow by blast
    then show False
      using least [of "length a" y] \<open>y \<in> set l\<close> q(4) by (simp add: q' ab)
  qed
  obtain i where i: "i < length l" "l ! i = x"
    using x(1) by (meson in_set_conv_nth)
  define m where "m = rotate i l"
  have m: "m \<noteq> []" "hd m = x" "distinct m" "set m = set l" "is_path R (m @ [x])"
    using l i is_path_rotate [OF l(3,1), of i] by (auto simp: m_def hd_rotate_nth)
  define p where "p = pre @ m @ [hd m]"
  have "is_path R p"
  proof (cases "pre = []")
    case False
    then have "is_path R pre" "(last pre, x) \<in> R"
      using q(1) by (auto simp: q' is_path_snoc)
    then show ?thesis
      using False m by (simp add: p_def is_path_append)
  qed (use m in \<open>simp add: p_def\<close>)
  moreover have "hd p = root"
    using q(2) m by (cases pre) (auto simp: p_def q')
  moreover have "distinct (butlast p)"
    using q(5) m disjoint by (auto simp: p_def q' butlast_append)
  moreover have "length p = Suc (length pre + length m)" "1 \<le> length pre + length m"
    using m(1) by (cases m; simp add: p_def)+
  ultimately have walk: "p \<in> walk_paths R root (length pre + length m)" "1 \<le> length pre + length m"
    by (simp_all add: walk_paths_def)
  have closed: "last p \<in> set (butlast p)"
    using m(1) by (simp add: p_def butlast_append)
  have "hd m \<notin> set pre"
    using disjoint x(1) m(2) by auto
  from canonicalLoop_rotation [OF m(1) this] have "canonicalLoop p = rotate (min_index m + i) l" "hd (canonicalLoop p) = hd (rotate 0 l)"
    using m(4) l(4) by (simp_all add: p_def m_def rotate_rotate)
  then have "canonicalLoop p = l"
    using rotate_hd_unique [OF l(2), of "min_index m + i" 0] by simp
  then show ?thesis
    using walk closed by blast
qed


section \<open>The traversal port\<close>

text \<open>
  What the graph service relies on: the recursive reads return the two closures of one edge relation and
  \<open>gt_CyclePaths\<close> the paths that close a cycle.
\<close>

definition closure_nodes :: "(string \<times> string) set \<Rightarrow> string \<Rightarrow> TraversalNode set" where
  "closure_nodes R root = {\<lparr> tn_CfgID = x, tn_Depth = (LEAST k. (root, x) \<in> R ^^ k) \<rparr> |x. x \<noteq> root \<and> (root, x) \<in> R\<^sup>+}"

locale graph_traversal =
  fixes repo :: GraphTraversal and R :: "(string \<times> string) set"
  assumes forward: "\<exists>ns. gt_RecursiveDependencies repo root = Inr ns \<and> set ns = closure_nodes R root \<and> distinct (map tn_CfgID ns)"
    and backward: "\<exists>ns. gt_RecursiveDependents repo root = Inr ns \<and> set ns = closure_nodes (R\<inverse>) root \<and> distinct (map tn_CfgID ns)"
    and closing: "\<exists>ps. gt_CyclePaths repo root DirectionDependencies = Inr ps \<and>
      set ps = {p. \<exists>k \<ge> 1. p \<in> walk_paths R root k \<and> last p \<in> set (butlast p)}"
begin

lemma walk_closure:
  "\<exists>ns. walk repo root dir = Inr \<lparr> tr_Root = root, tr_Direction = dir, tr_Nodes = ns \<rparr> \<and> distinct (map tn_CfgID ns) \<and>
     set ns = closure_nodes (if dir = DirectionDependents then R\<inverse> else R) root"
  using forward [of root] backward [of root] by (auto simp: walk_def)

lemma detect_cycles:
  assumes "\<And>x y. (x, y) \<in> R \<Longrightarrow> CHR '','' \<notin> set x \<and> CHR '','' \<notin> set y" "CHR '','' \<notin> set root"
  shows "\<exists>cs. DetectCycles repo root = Inr cs \<and> distinct cs \<and> set cs = (\<lambda>l. l @ [hd l]) ` {l. canonical_cycle R root l}"
proof -
  obtain ps where ps: "gt_CyclePaths repo root DirectionDependencies = Inr ps"
      "set ps = {p. \<exists>k \<ge> 1. p \<in> walk_paths R root k \<and> last p \<in> set (butlast p)}"
    using closing by blast
  have nodes: "CHR '','' \<notin> set x" if "is_path R p" "hd p = root" "x \<in> set p" for p x
    using that(3) is_path_rtrancl [OF that(1,3)] that(2) assms by (metis rtranclE)
  have "set (canonicalCycles ps) = (\<lambda>l. l @ [hd l]) ` (canonicalLoop ` set ps - {[]})"
    using nodes ps(2) by (intro canonicalCycles_set) (auto simp: walk_paths_def)
  also have "canonicalLoop ` set ps - {[]} = {l. canonical_cycle R root l}"
  proof (intro set_eqI iffI)
    fix l
    assume "l \<in> canonicalLoop ` set ps - {[]}"
    then show "l \<in> {l. canonical_cycle R root l}"
      using closing_path_cycle ps(2) by auto
  next
    fix l
    assume "l \<in> {l. canonical_cycle R root l}"
    then obtain k p where "1 \<le> k" "p \<in> walk_paths R root k" "last p \<in> set (butlast p)" "canonicalLoop p = l" "l \<noteq> []"
      using cycle_closing_path [of R root l] by (auto simp: canonical_cycle_def)
    then show "l \<in> canonicalLoop ` set ps - {[]}"
      unfolding ps(2) by blast
  qed
  finally show ?thesis
    using ps(1) by (simp add: DetectCycles_def canonicalCycles_distinct)
qed

end

abbreviation depends :: "db \<Rightarrow> (string \<times> string) set" where
  "depends d \<equiv> (\<lambda>e. (de_FromCfg e, de_ToCfg e)) ` set (t_dependency_edge d)"

interpretation pgt: graph_traversal "pg_traversal d" "depends d" for d
proof
  fix root
  have forward: "arcs de_FromCfg de_ToCfg (t_dependency_edge d) = depends d"
    and backward: "arcs de_ToCfg de_FromCfg (t_dependency_edge d) = (depends d)\<inverse>"
    by (auto simp: arcs_def)
  show "\<exists>ns. gt_RecursiveDependencies (pg_traversal d) root = Inr ns \<and> set ns = closure_nodes (depends d) root \<and> distinct (map tn_CfgID ns)"
    using walkQuery_closure [OF refl, of de_FromCfg de_ToCfg "t_dependency_edge d" root]
    by (simp add: pg_traversal_def RecursiveDependencies_def closure_nodes_def forward)
  show "\<exists>ns. gt_RecursiveDependents (pg_traversal d) root = Inr ns \<and> set ns = closure_nodes ((depends d)\<inverse>) root \<and> distinct (map tn_CfgID ns)"
    using walkQuery_closure [OF refl, of de_ToCfg de_FromCfg "t_dependency_edge d" root]
    by (simp add: pg_traversal_def RecursiveDependents_def closure_nodes_def backward)
  have "set (CyclePaths d root DirectionDependencies) = wr_path ` {w \<in> set (walk_rows de_FromCfg de_ToCfg (t_dependency_edge d) root). wr_cyc w}"
    by (simp add: CyclePaths_def directionColumns_def cycleQuery_def)
  also have "\<dots> = {p. \<exists>k \<ge> 1. p \<in> walk_paths (depends d) root k \<and> last p \<in> set (butlast p)}"
    unfolding walk_rows_paths forward by (force simp: image_iff)
  finally show "\<exists>ps. gt_CyclePaths (pg_traversal d) root DirectionDependencies = Inr ps \<and>
      set ps = {p. \<exists>k \<ge> 1. p \<in> walk_paths (depends d) root k \<and> last p \<in> set (butlast p)}"
    by (simp add: pg_traversal_def)
qed

text \<open>C17: walking the dependencies (or the dependents) of an object over the database returns every object reachable from it
  by one or more edges in that direction, the object itself apart, exactly once and with its distance in edges as its depth.\<close>

theorem Walk_returns_closure:
  "let E = (if dir = DirectionDependents then (depends d)\<inverse> else depends d) in
   \<exists>ns. walk (pg_traversal d) root dir = Inr \<lparr> tr_Root = root, tr_Direction = dir, tr_Nodes = ns \<rparr> \<and>
     distinct (map tn_CfgID ns) \<and>
     set ns = {\<lparr> tn_CfgID = x, tn_Depth = (LEAST k. (root, x) \<in> E ^^ k) \<rparr> |x. x \<noteq> root \<and> (root, x) \<in> E\<^sup>+}"
  using pgt.walk_closure [of d root dir] unfolding closure_nodes_def Let_def .

text \<open>C18: cycle detection from an object returns exactly the elementary dependency cycles reachable from it, each once,
  as the closed path that begins at its least id (when no id holds the comma that separates ids in the deduplication key).\<close>

theorem DetectCycles_exact:
  assumes "\<And>e. e \<in> set (t_dependency_edge d) \<Longrightarrow> CHR '','' \<notin> set (de_FromCfg e) \<and> CHR '','' \<notin> set (de_ToCfg e)"
    and "CHR '','' \<notin> set root"
  shows "\<exists>cs. DetectCycles (pg_traversal d) root = Inr cs \<and> distinct cs \<and>
     set cs = {l @ [hd l] |l. l \<noteq> [] \<and> distinct l \<and> is_path (depends d) (l @ [hd l]) \<and> hd l = Min (set l) \<and> (root, hd l) \<in> (depends d)\<^sup>*}"
proof -
  have "\<exists>cs. DetectCycles (pg_traversal d) root = Inr cs \<and> distinct cs \<and> set cs = (\<lambda>l. l @ [hd l]) ` {l. canonical_cycle (depends d) root l}"
    by (rule pgt.detect_cycles) (use assms in auto)
  then show ?thesis
    by (simp only: canonical_cycle_def image_Collect)
qed

definition edge_between :: "string \<Rightarrow> string \<Rightarrow> DependencyEdge" where
  "edge_between a b = \<lparr> de_ID = a @ b, de_FromCfg = a, de_ToCfg = b, de_EdgeKind = EdgeKindDepends, de_CreatedAt = 0, de_UpdatedAt = 0 \<rparr>"

definition cyclic_db :: db where
  "cyclic_db = empty_db\<lparr> t_dependency_edge := [edge_between ''r'' ''c'', edge_between ''c'' ''b'', edge_between ''b'' ''c''] \<rparr>"

theorem DetectCycles_exact_witness:
  "DetectCycles (pg_traversal cyclic_db) ''r'' = Inr [[''b'', ''c'', ''b'']] \<and>
   [''b'', ''c'', ''b''] \<in> {l @ [hd l] |l. l \<noteq> [] \<and> distinct l \<and> is_path (depends cyclic_db) (l @ [hd l]) \<and> hd l = Min (set l) \<and>
     (''r'', hd l) \<in> (depends cyclic_db)\<^sup>*}"
proof -
  have run: "DetectCycles (pg_traversal cyclic_db) ''r'' = Inr [[''b'', ''c'', ''b'']]"
    by code_simp
  have "\<exists>cs. DetectCycles (pg_traversal cyclic_db) ''r'' = Inr cs \<and> distinct cs \<and>
     set cs = {l @ [hd l] |l. l \<noteq> [] \<and> distinct l \<and> is_path (depends cyclic_db) (l @ [hd l]) \<and> hd l = Min (set l) \<and> (''r'', hd l) \<in> (depends cyclic_db)\<^sup>*}"
    by (rule DetectCycles_exact) (auto simp: cyclic_db_def edge_between_def)
  then show ?thesis
    using run by (metis list.set_intros(1) sum.inject(2))
qed

end
