(* ===== verification/Authority.thy ===== *)
theory Authority
  imports Graph
begin

text \<open>
  Authority resolution (\<^verbatim>\<open>internal/authority\<close>): the active set of the in-force baseline, the
  Replacement Test and its four evaluators, and the check of the supersession chains.

  The data source is a record of its methods, each of which may fail; \<open>ag_Responsibilities\<close>,
  \<open>ag_Citations\<close> and \<open>ag_Coverage\<close> are absent when the source does not implement the optional
  interface.  The search from the baseline ends only when the graph is finite, so
  \<open>computeActiveSet\<close> and what calls it return an option, \<open>None\<close> for a search that never ends.
\<close>

section \<open>The data source\<close>

record AuthorityGraph =
  ag_BaselineRoots :: "err + string list"
  ag_ObjectExists :: "string \<Rightarrow> err + bool"
  ag_EdgesFrom :: "string \<Rightarrow> err + DependencyEdge list"
  ag_EdgesTo :: "string \<Rightarrow> err + DependencyEdge list"
  ag_RecursiveDependencies :: "string \<Rightarrow> err + TraversalNode list"
  ag_Responsibilities :: "(string \<Rightarrow> err + string list) option"
  ag_Citations :: "(string \<Rightarrow> err + string list) option"
  ag_Coverage :: "(string \<Rightarrow> err + string list) option"

definition pg_authority :: "db \<Rightarrow> AuthorityGraph" where
  "pg_authority d = \<lparr> ag_BaselineRoots = Inr (BaselineRoots d),
     ag_ObjectExists = (\<lambda>c. Inr (ObjectExists d c)),
     ag_EdgesFrom = (\<lambda>c. Inr (EdgesFrom d c)), ag_EdgesTo = (\<lambda>c. Inr (EdgesTo d c)),
     ag_RecursiveDependencies = (\<lambda>c. Inr (RecursiveDependencies d c)),
     ag_Responsibilities = Some (\<lambda>c. Inr (Responsibilities d c)),
     ag_Citations = Some (\<lambda>c. Inr (Citations d c)),
     ag_Coverage = Some (\<lambda>c. Inr (Coverage d c)) \<rparr>"

definition missing_object :: "string \<Rightarrow> string \<Rightarrow> err" where
  "missing_object c detail = AuthorityValidationError ''missing_object'' c detail"

definition require_object :: "(string \<Rightarrow> err + bool) \<Rightarrow> err \<Rightarrow> string \<Rightarrow> (unit \<Rightarrow> err + 'a) \<Rightarrow> err + 'a" where
  "require_object exists er c k = result_bind (exists c) (\<lambda>ok. if ok then k () else Inl er)"

section \<open>The active set\<close>

record reachInfo =
  ri_baseline :: bool
  ri_via :: string

type_synonym active_set = "(string \<times> reachInfo) list"

definition mark :: "string \<Rightarrow> reachInfo \<Rightarrow> active_set \<times> string list \<Rightarrow> active_set \<times> string list" where
  "mark n i st = (case st of (active, queue) \<Rightarrow>
     if map_of active n \<noteq> None then st else (active @ [(n, i)], queue @ [n]))"

definition mark_roots :: "string list \<Rightarrow> active_set \<times> string list" where
  "mark_roots roots = foldl (\<lambda>st r. mark r \<lparr> ri_baseline = True, ri_via = [] \<rparr> st) ([], []) roots"

definition carries :: "DependencyEdge \<Rightarrow> bool" where
  "carries e \<longleftrightarrow> \<not> (de_EdgeKind e \<noteq> EdgeKindDepends \<and> de_EdgeKind e \<noteq> EdgeKindExtends)"

definition mark_edges :: "string \<Rightarrow> DependencyEdge list \<Rightarrow> active_set \<times> string list \<Rightarrow> active_set \<times> string list" where
  "mark_edges n edges st = foldl (\<lambda>st e. if \<not> carries e then st
     else mark (de_ToCfg e) \<lparr> ri_baseline = False, ri_via = n \<rparr> st) st edges"

partial_function (option) search :: "AuthorityGraph \<Rightarrow> active_set \<Rightarrow> string list \<Rightarrow> (err + active_set) option" where
  [code]: "search data active queue =
     (case queue of
        [] \<Rightarrow> Some (Inr active)
      | n # queue' \<Rightarrow>
          (case ag_EdgesFrom data n of
             Inl er \<Rightarrow> Some (Inl er)
           | Inr edges \<Rightarrow> (case mark_edges n edges (active, queue') of (active', queue'') \<Rightarrow> search data active' queue'')))"

definition computeActiveSet :: "AuthorityGraph \<Rightarrow> (err + active_set) option" where
  "computeActiveSet data =
     (case ag_BaselineRoots data of
        Inl er \<Rightarrow> Some (Inl er)
      | Inr roots \<Rightarrow> (case mark_roots roots of (active, queue) \<Rightarrow> search data active queue))"

definition with_active :: "AuthorityGraph \<Rightarrow> (active_set \<Rightarrow> err + 'a) \<Rightarrow> (err + 'a) option" where
  "with_active data f = map_option (\<lambda>r. result_bind r f) (computeActiveSet data)"

section \<open>Supersession and active dependents\<close>

definition supersededBy :: "AuthorityGraph \<Rightarrow> string \<Rightarrow> err + string list" where
  "supersededBy data c = result_bind (ag_EdgesTo data c) (\<lambda>es.
     Inr (sort (map de_FromCfg (filter (\<lambda>e. de_EdgeKind e = EdgeKindSupersedes) es))))"

definition activeDependentsOf :: "AuthorityGraph \<Rightarrow> string \<Rightarrow> active_set \<Rightarrow> err + string list" where
  "activeDependentsOf data c active = result_bind (ag_EdgesTo data c) (\<lambda>es.
     Inr (sort (foldl (\<lambda>deps e. if \<not> carries e then deps
        else if map_of active (de_FromCfg e) \<noteq> None \<and> de_FromCfg e \<notin> set deps then deps @ [de_FromCfg e] else deps) [] es)))"

definition evaluate :: "AuthorityGraph \<Rightarrow> string \<Rightarrow> active_set \<Rightarrow> err + ActiveDependencyResult" where
  "evaluate data c active = result_bind (activeDependentsOf data c active) (\<lambda>deps.
     Inr \<lparr> ad_CfgID = c, ad_HasActiveDependency = (0 < length deps), ad_ActiveDependents = deps \<rparr>)"

text \<open>The existence checks come before the search, as in the code; their error ends the call.\<close>

definition after_check :: "err + bool \<Rightarrow> err \<Rightarrow> (err + 'a) option \<Rightarrow> (err + 'a) option" where
  "after_check exists er k = (case exists of Inl e \<Rightarrow> Some (Inl e) | Inr ok \<Rightarrow> if ok then k else Some (Inl er))"

definition EvaluateActiveDependencies :: "AuthorityGraph \<Rightarrow> string \<Rightarrow> (err + ActiveDependencyResult) option" where
  "EvaluateActiveDependencies data c =
     after_check (ag_ObjectExists data c) (missing_object c ''object does not exist'')
       (with_active data (evaluate data c))"

definition EvaluateBatch_dependencies :: "AuthorityGraph \<Rightarrow> string list \<Rightarrow> (err + ActiveDependencyResult list) option" where
  "EvaluateBatch_dependencies data cs = with_active data (\<lambda>active. result_map (\<lambda>c.
     require_object (ag_ObjectExists data) (missing_object c ''object does not exist'') c (\<lambda>_. evaluate data c active)) cs)"

section \<open>Responsibilities\<close>

fun collect_responsibilities :: "string \<Rightarrow> string list \<Rightarrow> string list \<Rightarrow> err + string list" where
  "collect_responsibilities c out [] = Inr out"
| "collect_responsibilities c out (raw # rest) =
     (let r = TrimSpace raw in
      if r = [] then collect_responsibilities c out rest
      else if r \<in> set out then Inl (AuthorityValidationError ''duplicate_responsibility'' c (''responsibility '' @ r @ '' declared more than once''))
      else collect_responsibilities c (out @ [r]) rest)"

definition responsibilitiesOf :: "(string \<Rightarrow> err + string list) \<Rightarrow> string \<Rightarrow> err + string list" where
  "responsibilitiesOf source c = result_bind (source c) (\<lambda>raw.
     result_bind (collect_responsibilities c [] raw) (\<lambda>out. Inr (sort out)))"

definition EvaluateResponsibilities :: "(string \<Rightarrow> err + bool) \<Rightarrow> (string \<Rightarrow> err + string list) \<Rightarrow> string \<Rightarrow> err + ResponsibilityResult" where
  "EvaluateResponsibilities exists source c =
     require_object exists (missing_object c ''object does not exist'') c (\<lambda>_.
       result_bind (responsibilitiesOf source c) (\<lambda>resp. Inr \<lparr> rr_CfgID = c, rr_Responsibilities = resp \<rparr>))"

definition broken_replacement :: "string \<Rightarrow> err" where
  "broken_replacement c = AuthorityValidationError ''broken_replacement'' c ''object does not exist''"

definition empty_target :: "string \<Rightarrow> err" where
  "empty_target old = AuthorityValidationError ''empty_replacement_target'' old ''replacement target is empty''"

definition EvaluateReplacement_responsibilities ::
  "(string \<Rightarrow> err + bool) \<Rightarrow> (string \<Rightarrow> err + string list) \<Rightarrow> string \<Rightarrow> string \<Rightarrow> err + ReplacementResult" where
  "EvaluateReplacement_responsibilities exists source old new =
     (if TrimSpace new = [] then Inl (empty_target old)
      else require_object exists (broken_replacement old) old (\<lambda>_.
        require_object exists (broken_replacement new) new (\<lambda>_.
          result_bind (responsibilitiesOf source old) (\<lambda>oldResp.
          result_bind (responsibilitiesOf source new) (\<lambda>newResp.
            let transferred = sort (filter (\<lambda>r. r \<in> set newResp) oldResp);
                missing = sort (filter (\<lambda>r. r \<notin> set newResp) oldResp)
            in Inr \<lparr> rp_OldCfgID = old, rp_NewCfgID = new, rp_Complete = (length missing = 0),
                 rp_Transferred = transferred, rp_Missing = missing \<rparr>)))))"

definition EvaluateBatch_responsibilities ::
  "(string \<Rightarrow> err + bool) \<Rightarrow> (string \<Rightarrow> err + string list) \<Rightarrow> string list \<Rightarrow> err + ResponsibilityResult list" where
  "EvaluateBatch_responsibilities exists source cs = result_map (EvaluateResponsibilities exists source) cs"

definition replacementComplete :: "(string \<Rightarrow> err + string list) \<Rightarrow> string \<Rightarrow> string list \<Rightarrow> err + (bool \<times> string list)" where
  "replacementComplete source old superseders =
     result_bind (responsibilitiesOf source old) (\<lambda>oldResp.
       if length oldResp = 0 then Inr (True, [])
       else result_bind (result_map (responsibilitiesOf source) superseders) (\<lambda>owned.
         let missing = sort (filter (\<lambda>r. r \<notin> set (concat owned)) oldResp) in Inr (length missing = 0, missing)))"

section \<open>Citations\<close>

fun collect_ids :: "err \<Rightarrow> (string \<Rightarrow> err) \<Rightarrow> string list \<Rightarrow> string list \<Rightarrow> err + string list" where
  "collect_ids malformed duplicate out [] = Inr out"
| "collect_ids malformed duplicate out (raw # rest) =
     (let i = TrimSpace raw in
      if i = [] then Inl malformed
      else if i \<in> set out then Inl (duplicate i)
      else collect_ids malformed duplicate (out @ [i]) rest)"

definition citationsOf :: "(string \<Rightarrow> err + bool) \<Rightarrow> (string \<Rightarrow> err + string list) \<Rightarrow> string \<Rightarrow> err + string list" where
  "citationsOf exists source c = result_bind (source c) (\<lambda>raw.
     result_bind (collect_ids
       (AuthorityValidationError ''malformed_citation_metadata'' c ''citation metadata contains an empty id'')
       (\<lambda>i. AuthorityValidationError ''duplicate_citation'' c (''citation '' @ i @ '' declared more than once'')) [] raw) (\<lambda>ids.
     let out = sort ids in
     result_bind (result_map (\<lambda>i. require_object exists
       (AuthorityValidationError ''unknown_artifact_reference'' c (''cited object '' @ i @ '' does not exist'')) i (\<lambda>_. Inr ())) out) (\<lambda>_.
     Inr out)))"

fun citers :: "(string \<Rightarrow> err + string list) \<Rightarrow> string \<Rightarrow> string list \<Rightarrow> err + string list" where
  "citers cites target [] = Inr []"
| "citers cites target (a # ids) =
     (if a = target then citers cites target ids
      else result_bind (cites a) (\<lambda>cs. result_bind (citers cites target ids) (\<lambda>rest.
        Inr (if target \<in> set cs then a # rest else rest))))"

definition activeArtifactCitersOf ::
  "(string \<Rightarrow> err + bool) \<Rightarrow> (string \<Rightarrow> err + string list) \<Rightarrow> string \<Rightarrow> active_set \<Rightarrow> err + string list" where
  "activeArtifactCitersOf exists source target active = citers (citationsOf exists source) target (sort (map fst active))"

definition citation_result :: "string \<Rightarrow> string list \<Rightarrow> ActiveCitationResult" where
  "citation_result c cs = \<lparr> ac_CfgID = c, ac_HasActiveCitation = (0 < length cs), ac_CitingArtifacts = cs \<rparr>"

definition EvaluateCitations :: "AuthorityGraph \<Rightarrow> (string \<Rightarrow> err + string list) \<Rightarrow> string \<Rightarrow> (err + ActiveCitationResult) option" where
  "EvaluateCitations data source c =
     after_check (ag_ObjectExists data c) (missing_object c ''object does not exist'')
       (with_active data (\<lambda>active. result_bind (activeArtifactCitersOf (ag_ObjectExists data) source c active)
          (\<lambda>cs. Inr (citation_result c cs))))"

definition EvaluateReplacement_citations ::
  "AuthorityGraph \<Rightarrow> (string \<Rightarrow> err + string list) \<Rightarrow> string \<Rightarrow> string \<Rightarrow> (err + CitationReplacementResult) option" where
  "EvaluateReplacement_citations data source old new =
     (if TrimSpace new = [] then Some (Inl (empty_target old))
      else after_check (ag_ObjectExists data old) (broken_replacement old)
        (after_check (ag_ObjectExists data new) (broken_replacement new)
          (with_active data (\<lambda>active. result_bind (activeArtifactCitersOf (ag_ObjectExists data) source old active)
            (\<lambda>remaining. Inr \<lparr> cr_OldCfgID = old, cr_NewCfgID = new, cr_Cleared = (length remaining = 0), cr_Remaining = remaining \<rparr>)))))"

definition EvaluateBatch_citations ::
  "AuthorityGraph \<Rightarrow> (string \<Rightarrow> err + string list) \<Rightarrow> string list \<Rightarrow> (err + ActiveCitationResult list) option" where
  "EvaluateBatch_citations data source cs = with_active data (\<lambda>active. result_map (\<lambda>c.
     require_object (ag_ObjectExists data) (missing_object c ''object does not exist'') c (\<lambda>_.
       result_bind (activeArtifactCitersOf (ag_ObjectExists data) source c active) (\<lambda>ids. Inr (citation_result c ids)))) cs)"

section \<open>Operational coverage\<close>

definition coverageOf :: "(string \<Rightarrow> err + string list) \<Rightarrow> string \<Rightarrow> err + string list" where
  "coverageOf source c = result_bind (source c) (\<lambda>raw.
     result_bind (collect_ids
       (AuthorityValidationError ''malformed_coverage_metadata'' c ''coverage metadata contains an empty id'')
       (\<lambda>i. AuthorityValidationError ''duplicate_coverage'' c (''coverage '' @ i @ '' declared more than once'')) [] raw) (\<lambda>out.
     Inr (sort out)))"

definition gapAfterRemoval :: "(string \<Rightarrow> err + string list) \<Rightarrow> string \<Rightarrow> active_set \<Rightarrow> err + string list" where
  "gapAfterRemoval source c active =
     result_bind (coverageOf source c) (\<lambda>own.
       if length own = 0 then Inr []
       else result_bind (result_map (coverageOf source) (filter (\<lambda>a. a \<noteq> c) (sort (map fst active)))) (\<lambda>cov.
         Inr (filter (\<lambda>x. x \<notin> set (concat cov)) own)))"

definition gap_result :: "string \<Rightarrow> string list \<Rightarrow> GapResult" where
  "gap_result c uncovered = \<lparr> gr_CfgID = c, gr_HasGap = (0 < length uncovered), gr_UncoveredCapabilities = uncovered \<rparr>"

definition EvaluateGap :: "AuthorityGraph \<Rightarrow> (string \<Rightarrow> err + string list) \<Rightarrow> string \<Rightarrow> (err + GapResult) option" where
  "EvaluateGap data source c =
     after_check (ag_ObjectExists data c) (missing_object c ''object does not exist'')
       (with_active data (\<lambda>active. result_bind (gapAfterRemoval source c active) (\<lambda>u. Inr (gap_result c u))))"

definition EvaluateReplacement_coverage ::
  "(string \<Rightarrow> err + bool) \<Rightarrow> (string \<Rightarrow> err + string list) \<Rightarrow> string \<Rightarrow> string \<Rightarrow> err + GapReplacementResult" where
  "EvaluateReplacement_coverage exists source old new =
     (if TrimSpace new = [] then Inl (empty_target old)
      else require_object exists (broken_replacement old) old (\<lambda>_.
        require_object exists (broken_replacement new) new (\<lambda>_.
          result_bind (coverageOf source old) (\<lambda>oldCov.
          result_bind (coverageOf source new) (\<lambda>newCov.
            let covered = sort (filter (\<lambda>c. c \<in> set newCov) oldCov);
                missing = sort (filter (\<lambda>c. c \<notin> set newCov) oldCov)
            in Inr \<lparr> gp_OldCfgID = old, gp_NewCfgID = new, gp_Complete = (length missing = 0),
                 gp_Covered = covered, gp_Missing = missing \<rparr>)))))"

definition EvaluateBatch_gap :: "AuthorityGraph \<Rightarrow> (string \<Rightarrow> err + string list) \<Rightarrow> string list \<Rightarrow> (err + GapResult list) option" where
  "EvaluateBatch_gap data source cs = with_active data (\<lambda>active. result_map (\<lambda>c.
     require_object (ag_ObjectExists data) (missing_object c ''object does not exist'') c (\<lambda>_.
       result_bind (gapAfterRemoval source c active) (\<lambda>u. Inr (gap_result c u)))) cs)"

section \<open>Resolution\<close>

definition no_evidence :: AuthorityEvidence where
  "no_evidence = \<lparr> ev_BaselineMember = False, ev_ReachableVia = [], ev_SupersededBy = [], ev_ActiveDependents = [],
     ev_MissingResponsibilities = [], ev_ActiveArtifactCitations = [], ev_UncoveredCapabilities = [], ev_Notes = [] \<rparr>"

definition outcome :: "string \<Rightarrow> string \<Rightarrow> string \<Rightarrow> AuthorityEvidence \<Rightarrow> AuthorityResult" where
  "outcome c state reason ev = \<lparr> ar_CfgID = c, ar_State = state, ar_Reason = reason, ar_Evidence = ev \<rparr>"

definition gap_clause :: "AuthorityGraph \<Rightarrow> string \<Rightarrow> string list \<Rightarrow> active_set \<Rightarrow> err + AuthorityResult" where
  "gap_clause data c superseders active =
     result_bind (case ag_Coverage data of None \<Rightarrow> Inr [] | Some source \<Rightarrow> gapAfterRemoval source c active) (\<lambda>uncovered.
       if 0 < length uncovered then
         Inr (outcome c AuthorityStateActive ReasonOperationalGap (no_evidence\<lparr> ev_SupersededBy := superseders,
           ev_UncoveredCapabilities := uncovered, ev_Notes := ''removal would leave operational coverage unowned by any active configuration'' \<rparr>))
       else Inr (outcome c AuthorityStateHistorical ReasonSuperseded (no_evidence\<lparr> ev_SupersededBy := superseders,
           ev_Notes := ''superseded with complete replacement, no active dependency, no active citation, and no operational gap'' \<rparr>)))"

definition citation_clause :: "AuthorityGraph \<Rightarrow> string \<Rightarrow> string list \<Rightarrow> active_set \<Rightarrow> err + AuthorityResult" where
  "citation_clause data c superseders active =
     result_bind (case ag_Citations data of None \<Rightarrow> Inr [] | Some source \<Rightarrow> activeArtifactCitersOf (ag_ObjectExists data) source c active) (\<lambda>cs.
       if 0 < length cs then
         Inr (outcome c AuthorityStateActive ReasonActiveArtifactCitation (no_evidence\<lparr> ev_SupersededBy := superseders,
           ev_ActiveArtifactCitations := cs, ev_Notes := ''superseded but still cited by an active artifact'' \<rparr>))
       else gap_clause data c superseders active)"

definition responsibility_clause :: "AuthorityGraph \<Rightarrow> string \<Rightarrow> string list \<Rightarrow> active_set \<Rightarrow> err + AuthorityResult" where
  "responsibility_clause data c superseders active =
     result_bind (case ag_Responsibilities data of None \<Rightarrow> Inr (True, []) | Some source \<Rightarrow> replacementComplete source c superseders)
       (\<lambda>(complete, missing).
       if \<not> complete then
         Inr (outcome c AuthorityStateActive ReasonReplacementIncomplete (no_evidence\<lparr> ev_SupersededBy := superseders,
           ev_MissingResponsibilities := missing, ev_Notes := ''replacement does not own all responsibilities'' \<rparr>))
       else citation_clause data c superseders active)"

definition replacement_rule :: "AuthorityGraph \<Rightarrow> string \<Rightarrow> string list \<Rightarrow> active_set \<Rightarrow> err + AuthorityResult" where
  "replacement_rule data c superseders active =
     (if (case map_of active c of None \<Rightarrow> False | Some info \<Rightarrow> ri_baseline info) then
        Inr (outcome c AuthorityStateUnknown ReasonInconsistentBaselineSuperseded
          (no_evidence\<lparr> ev_BaselineMember := True, ev_SupersededBy := superseders, ev_Notes := ''baseline member is also superseded'' \<rparr>))
      else result_bind (activeDependentsOf data c active) (\<lambda>deps.
        if 0 < length deps then
          Inr (outcome c AuthorityStateActive ReasonSupersededActiveDependency (no_evidence\<lparr> ev_SupersededBy := superseders,
            ev_ActiveDependents := deps, ev_Notes := ''superseded but still required by an active configuration'' \<rparr>))
        else responsibility_clause data c superseders active))"

definition resolveOne :: "AuthorityGraph \<Rightarrow> string \<Rightarrow> active_set \<Rightarrow> err + AuthorityResult" where
  "resolveOne data c active =
     result_bind (ag_ObjectExists data c) (\<lambda>exists.
       if \<not> exists then
         Inr (outcome c AuthorityStateUnknown ReasonObjectNotFound (no_evidence\<lparr> ev_Notes := ''no configuration object with this id'' \<rparr>))
       else result_bind (supersededBy data c) (\<lambda>superseders.
         if 0 < length superseders then replacement_rule data c superseders active
         else case map_of active c of
             Some info \<Rightarrow> Inr (outcome c AuthorityStateActive (if ri_baseline info then ReasonBaselineMember else ReasonReachableFromBaseline)
               (no_evidence\<lparr> ev_BaselineMember := ri_baseline info, ev_ReachableVia := ri_via info, ev_Notes := ''in or required by the in-force baseline'' \<rparr>))
           | None \<Rightarrow> Inr (outcome c AuthorityStateNonNormative ReasonNotReachable
               (no_evidence\<lparr> ev_Notes := ''exists but not reachable from any baseline'' \<rparr>))))"

definition ResolveAuthority :: "AuthorityGraph \<Rightarrow> string \<Rightarrow> (err + AuthorityResult) option" where
  "ResolveAuthority data c = with_active data (resolveOne data c)"

definition ResolveBatch :: "AuthorityGraph \<Rightarrow> string list \<Rightarrow> (err + AuthorityResult list) option" where
  "ResolveBatch data cs = with_active data (\<lambda>active. result_map (\<lambda>c. resolveOne data c active) cs)"

section \<open>Supersession chains\<close>

text \<open>
  The depth-first search over the supersedes edges inside the scope; \<open>color\<close> is 0 for an unvisited
  node, 1 for one in progress and 2 for a finished one.  The fuel bounds the depth of the recursion and
  \<open>None\<close> is a recursion deeper than it.
\<close>

definition supersession_cycle :: "string \<Rightarrow> err" where
  "supersession_cycle c = AuthorityValidationError ''supersession_cycle'' c ''supersedes relation contains a cycle''"

function (sequential) visit :: "AuthorityGraph \<Rightarrow> string list \<Rightarrow> nat \<Rightarrow> string \<Rightarrow> (string \<Rightarrow> nat) \<Rightarrow> (err + (string \<Rightarrow> nat)) option"
  and visit_edges :: "AuthorityGraph \<Rightarrow> string list \<Rightarrow> nat \<Rightarrow> DependencyEdge list \<Rightarrow> (string \<Rightarrow> nat) \<Rightarrow> (err + (string \<Rightarrow> nat)) option" where
  "visit data scope 0 n color = None"
| "visit data scope (Suc k) n color =
     (case ag_EdgesFrom data n of
        Inl er \<Rightarrow> Some (Inl er)
      | Inr edges \<Rightarrow> (case visit_edges data scope k edges (color(n := 1)) of
            Some (Inr color') \<Rightarrow> Some (Inr (color'(n := 2)))
          | failed \<Rightarrow> failed))"
| "visit_edges data scope k [] color = Some (Inr color)"
| "visit_edges data scope k (e # es) color =
     (if de_EdgeKind e \<noteq> EdgeKindSupersedes \<or> de_ToCfg e \<notin> set scope then visit_edges data scope k es color
      else if color (de_ToCfg e) = 1 then Some (Inl (supersession_cycle (de_ToCfg e)))
      else if color (de_ToCfg e) = 0 then
        (case visit data scope k (de_ToCfg e) color of
           Some (Inr color') \<Rightarrow> visit_edges data scope k es color'
         | failed \<Rightarrow> failed)
      else visit_edges data scope k es color)"
  by pat_completeness auto
termination
  by (relation "inv_image (less_than <*lex*> less_than) (\<lambda>x. case x of
      Inl (_, _, k, _, _) \<Rightarrow> (k, 0) | Inr (_, _, k, es, _) \<Rightarrow> (k, Suc (length es)))") auto

fun visit_all :: "AuthorityGraph \<Rightarrow> string list \<Rightarrow> nat \<Rightarrow> string list \<Rightarrow> (string \<Rightarrow> nat) \<Rightarrow> (err + (string \<Rightarrow> nat)) option" where
  "visit_all data scope k [] color = Some (Inr color)"
| "visit_all data scope k (c # cs) color =
     (if color c = 0 then
        (case visit data scope k c color of
           Some (Inr color') \<Rightarrow> visit_all data scope k cs color'
         | failed \<Rightarrow> failed)
      else visit_all data scope k cs color)"

definition validateSupersession :: "AuthorityGraph \<Rightarrow> string list \<Rightarrow> (err + unit) option" where
  "validateSupersession data scope =
     map_option (\<lambda>r. result_bind r (\<lambda>_. Inr ())) (visit_all data scope (length scope) scope (\<lambda>_. 0))"

definition ResolveGraph :: "AuthorityGraph \<Rightarrow> string \<Rightarrow> (err + AuthorityResult list) option" where
  "ResolveGraph data root =
     after_check (ag_ObjectExists data root) (missing_object root ''root does not exist'')
       (case ag_RecursiveDependencies data root of
          Inl er \<Rightarrow> Some (Inl er)
        | Inr deps \<Rightarrow>
            (let scope = sort (root # map tn_CfgID deps) in
             case validateSupersession data scope of
               Some (Inr _) \<Rightarrow> with_active data (\<lambda>active. result_map (\<lambda>c. resolveOne data c active) scope)
             | Some (Inl er) \<Rightarrow> Some (Inl er)
             | None \<Rightarrow> None))"

end
