(* ===== verification/AuthorityState.thy ===== *)
theory AuthorityState
  imports Authority
begin

text \<open>
  Authority resolution implements the State Model rules.  The search from the baseline is shown to end and to
  compute a reflexive transitive closure, the depth-first supersession check to fail exactly on a cycle
  (its fuel, the length of the scope, is enough), and the resolver to return the state of the declarative
  \<open>authority_state\<close>.  The contract of the data source is the locale \<open>authority_source\<close>, which the
  store satisfies.
\<close>

section \<open>The search from the baseline\<close>

lemma mark_all:
  "\<exists>new. foldl (\<lambda>st m. mark m i st) (active, queue) ms = (active @ map (\<lambda>m. (m, i)) new, queue @ new) \<and>
     distinct new \<and> set new = set ms - fst ` set active"
proof (induction ms arbitrary: active queue)
  case (Cons m ms)
  show ?case
  proof (cases "m \<in> fst ` set active")
    case True
    then have "mark m i (active, queue) = (active, queue)"
      by (auto simp: mark_def map_of_eq_None_iff)
    then show ?thesis
      using Cons [of active queue] True by auto
  next
    case False
    then have m: "mark m i (active, queue) = (active @ [(m, i)], queue @ [m])"
      by (auto simp: mark_def map_of_eq_None_iff)
    obtain new where "foldl (\<lambda>st m. mark m i st) (active @ [(m, i)], queue @ [m]) ms =
        ((active @ [(m, i)]) @ map (\<lambda>m. (m, i)) new, (queue @ [m]) @ new)"
      "distinct new" "set new = set ms - fst ` set (active @ [(m, i)])"
      using Cons [of "active @ [(m, i)]" "queue @ [m]"] by blast
    then show ?thesis
      using m False by (intro exI [of _ "m # new"]) auto
  qed
qed auto

lemma mark_edges_new:
  "\<exists>new. mark_edges n es (active, queue) = (active @ map (\<lambda>m. (m, \<lparr> ri_baseline = False, ri_via = n \<rparr>)) new, queue @ new) \<and>
     distinct new \<and> set new = de_ToCfg ` {e \<in> set es. carries e} - fst ` set active"
proof -
  let ?i = "\<lparr> ri_baseline = False, ri_via = n \<rparr>"
  have "mark_edges n es st = foldl (\<lambda>st m. mark m ?i st) st (map de_ToCfg (filter carries es))" for st
    unfolding mark_edges_def by (induction es arbitrary: st) auto
  then show ?thesis
    using mark_all [of ?i active queue "map de_ToCfg (filter carries es)"] by simp
qed

definition carry_rel :: "DependencyEdge set \<Rightarrow> (string \<times> string) set" where
  "carry_rel E = (\<lambda>e. (de_FromCfg e, de_ToCfg e)) ` {e \<in> E. carries e}"

definition supersede_rel :: "DependencyEdge set \<Rightarrow> (string \<times> string) set" where
  "supersede_rel E = (\<lambda>e. (de_FromCfg e, de_ToCfg e)) ` {e \<in> E. de_EdgeKind e = EdgeKindSupersedes}"

definition active_ids :: "DependencyEdge set \<Rightarrow> string list \<Rightarrow> string set" where
  "active_ids E roots = (carry_rel E)\<^sup>* `` set roots"

text \<open>What the entries of an active set say: a node of the search with how it was reached.\<close>

definition entries_ok :: "DependencyEdge set \<Rightarrow> string list \<Rightarrow> active_set \<Rightarrow> bool" where
  "entries_ok E roots active \<longleftrightarrow> distinct (map fst active) \<and>
     (\<forall>(x, i) \<in> set active. x \<in> active_ids E roots \<and> (ri_baseline i \<longleftrightarrow> x \<in> set roots) \<and>
        (if ri_baseline i then ri_via i = [] else ri_via i \<in> fst ` set active \<and> (ri_via i, x) \<in> carry_rel E))"

definition search_inv :: "DependencyEdge set \<Rightarrow> string list \<Rightarrow> active_set \<Rightarrow> string list \<Rightarrow> bool" where
  "search_inv E roots active queue \<longleftrightarrow> entries_ok E roots active \<and> set roots \<subseteq> fst ` set active \<and>
     set queue \<subseteq> fst ` set active \<and> carry_rel E `` (fst ` set active - set queue) \<subseteq> fst ` set active"

lemma mark_roots_inv:
  assumes "mark_roots roots = (active, queue)"
  shows "search_inv E roots active queue"
proof -
  let ?i = "\<lparr> ri_baseline = True, ri_via = [] \<rparr>"
  obtain new where "active = map (\<lambda>m. (m, ?i)) new" "queue = new" "distinct new" "set new = set roots"
    using assms mark_all [of ?i "[]" "[]" roots] by (auto simp: mark_roots_def)
  then show ?thesis
    by (auto simp: search_inv_def entries_ok_def active_ids_def comp_def image_image)
qed

lemma mark_edges_inv:
  assumes "search_inv E roots active (n # queue)" "set es = {e \<in> E. de_FromCfg e = n}"
    "mark_edges n es (active, queue) = (active', queue')"
  shows "search_inv E roots active' queue'"
    "\<exists>k. card (fst ` set active') = card (fst ` set active) + k \<and> length queue' = length queue + k"
    "fst ` set active' \<subseteq> fst ` set active \<union> de_ToCfg ` E"
proof -
  let ?i = "\<lparr> ri_baseline = False, ri_via = n \<rparr>"
  obtain new where new: "active' = active @ map (\<lambda>m. (m, ?i)) new" "queue' = queue @ new" "distinct new"
      "set new = de_ToCfg ` {e \<in> set es. carries e} - fst ` set active"
    using assms(3) mark_edges_new [of n es active queue] by auto
  have succ: "de_ToCfg ` {e \<in> set es. carries e} = carry_rel E `` {n}"
    using assms(2) by (auto simp: carry_rel_def image_iff)
  have keys: "fst ` set active' = fst ` set active \<union> set new"
    using new(1) by (simp add: image_Un image_image)
  have inv: "entries_ok E roots active" "set roots \<subseteq> fst ` set active" "n \<in> fst ` set active" "set queue \<subseteq> fst ` set active"
      "carry_rel E `` (fst ` set active - insert n (set queue)) \<subseteq> fst ` set active"
    using assms(1) by (auto simp: search_inv_def)
  have n: "n \<in> active_ids E roots"
    using inv(1,3) by (auto simp: entries_ok_def)
  have fresh: "x \<in> active_ids E roots \<and> x \<notin> set roots \<and> (n, x) \<in> carry_rel E" if "x \<in> set new" for x
  proof -
    have edge: "(n, x) \<in> carry_rel E" and "x \<notin> fst ` set active"
      using that new(4) succ by auto
    then show ?thesis
      using n inv(2) by (auto simp: active_ids_def intro: rtrancl_into_rtrancl)
  qed
  have "entries_ok E roots active'"
    unfolding entries_ok_def
  proof (intro conjI ballI; clarify?)
    show "distinct (map fst active')"
      using inv(1) new(1,3,4) by (auto simp: entries_ok_def comp_def)
    fix x i
    assume entry: "(x, i) \<in> set active'"
    consider "(x, i) \<in> set active" | "x \<in> set new" "i = ?i"
      using entry new(1) by auto
    then show "x \<in> active_ids E roots \<and> (ri_baseline i \<longleftrightarrow> x \<in> set roots) \<and>
        (if ri_baseline i then ri_via i = [] else ri_via i \<in> fst ` set active' \<and> (ri_via i, x) \<in> carry_rel E)"
    proof cases
      case 1
      then show ?thesis
        using inv(1) unfolding entries_ok_def keys by (auto split: if_splits)
    next
      case 2
      then show ?thesis
        using fresh [OF 2(1)] inv(3) keys by simp
    qed
  qed
  moreover have "carry_rel E `` (fst ` set active' - set queue') \<subseteq> fst ` set active'"
  proof
    fix y
    assume "y \<in> carry_rel E `` (fst ` set active' - set queue')"
    then obtain x where x: "(x, y) \<in> carry_rel E" "x \<in> fst ` set active" "x \<notin> set queue"
      using keys new(2) by auto
    show "y \<in> fst ` set active'"
      using x inv(5) new(4) succ keys by (cases "x = n") auto
  qed
  ultimately show "search_inv E roots active' queue'"
    using inv keys new(2) by (auto simp: search_inv_def)
  have "card (fst ` set active') = card (fst ` set active) + card (set new)"
    unfolding keys by (rule card_Un_disjoint) (use new(4) in auto)
  then show "\<exists>k. card (fst ` set active') = card (fst ` set active) + k \<and> length queue' = length queue + k"
    using new(2,3) by (simp add: distinct_card)
  show "fst ` set active' \<subseteq> fst ` set active \<union> de_ToCfg ` E"
    using keys new(4) assms(2) by auto
qed

lemma search_inv_end:
  assumes "search_inv E roots active []"
  shows "fst ` set active = active_ids E roots"
proof
  show "fst ` set active \<subseteq> active_ids E roots"
    using assms by (auto simp: search_inv_def entries_ok_def)
  have "set roots \<subseteq> fst ` set active" "carry_rel E `` fst ` set active \<subseteq> fst ` set active"
    using assms by (simp_all add: search_inv_def)
  note closed = this
  have "y \<in> fst ` set active" if "(x, y) \<in> (carry_rel E)\<^sup>*" "x \<in> set roots" for x y
    using that
  proof (induction rule: rtrancl_induct)
    case (step y z)
    then show ?case
      using closed(2) by blast
  qed (use closed(1) in blast)
  then show "active_ids E roots \<subseteq> fst ` set active"
    by (auto simp: active_ids_def)
qed


section \<open>The supersession check\<close>

text \<open>Supersession inside a scope, and what the colours of the search record.\<close>

definition scope_rel :: "DependencyEdge set \<Rightarrow> string set \<Rightarrow> (string \<times> string) set" where
  "scope_rel E S = supersede_rel E \<inter> UNIV \<times> S"

definition finished :: "(string \<times> string) set \<Rightarrow> (string \<Rightarrow> nat) \<Rightarrow> bool" where
  "finished R color \<longleftrightarrow> R `` {x. color x = 2} \<subseteq> {x. color x = 2} \<and> acyclic (R \<inter> {x. color x = 2} \<times> UNIV)"

definition advances :: "(string \<Rightarrow> nat) \<Rightarrow> (string \<Rightarrow> nat) \<Rightarrow> bool" where
  "advances color color' \<longleftrightarrow> (\<forall>x. color x \<le> 2 \<and> (color' x = color x \<or> color x = 0 \<and> color' x = 2))"

definition whites :: "string set \<Rightarrow> (string \<Rightarrow> nat) \<Rightarrow> nat" where
  "whites S color = card {x \<in> S. color x = 0}"

lemma advances_refl: "(\<forall>x. color x \<le> 2) \<Longrightarrow> advances color color"
  by (simp add: advances_def)

lemma advances_trans: "advances a b \<Longrightarrow> advances b c \<Longrightarrow> advances a c"
  unfolding advances_def by (metis zero_neq_numeral)

lemma advances_simps:
  assumes "advances a b"
  shows "b x = 1 \<longleftrightarrow> a x = 1" "b x = 0 \<Longrightarrow> a x = 0" "a x = 2 \<Longrightarrow> b x = 2" "b x \<le> 2"
  using spec [OF assms [unfolded advances_def], of x] by auto

lemma advances_whites: "advances a b \<Longrightarrow> finite S \<Longrightarrow> whites S b \<le> whites S a"
  unfolding whites_def by (intro card_mono) (auto dest: advances_simps(2))

text \<open>A node whose successors are all finished can be finished: no finished node leads back to it.\<close>

lemma finished_insert:
  assumes "finished R color" "color n \<noteq> 2" "R `` {n} \<subseteq> {x. color x = 2}"
  shows "finished R (color(n := 2))"
proof -
  let ?B = "{x. color x = 2}"
  have B: "R `` ?B \<subseteq> ?B" "acyclic (R \<inter> ?B \<times> UNIV)"
    using assms(1) by (auto simp: finished_def)
  have stays: "y \<in> ?B \<and> (x, y) \<in> (R \<inter> ?B \<times> UNIV)\<^sup>+" if "(x, y) \<in> (R \<inter> insert n ?B \<times> UNIV)\<^sup>+" "x \<in> ?B" for x y
    using that
  proof (induction rule: trancl_induct)
    case (base y)
    then show ?case
      using B(1) by auto
  next
    case (step y z)
    then have "(y, z) \<in> R \<inter> ?B \<times> UNIV" "z \<in> ?B"
      using B(1) by auto
    then show ?case
      using step by (auto intro: trancl_into_trancl)
  qed
  have "(x, x) \<notin> (R \<inter> insert n ?B \<times> UNIV)\<^sup>+" for x
  proof
    assume cycle: "(x, x) \<in> (R \<inter> insert n ?B \<times> UNIV)\<^sup>+"
    then obtain y where y: "(x, y) \<in> R \<inter> insert n ?B \<times> UNIV" "(y, x) \<in> (R \<inter> insert n ?B \<times> UNIV)\<^sup>*"
      by (meson tranclD)
    then have "y \<in> ?B"
      using assms(3) B(1) by auto
    then have "x \<in> ?B"
      using y(2) stays by (metis rtranclD)
    then show False
      using stays [OF cycle] B(2) by (simp add: acyclic_def)
  qed
  moreover have "{x. (color(n := 2)) x = 2} = insert n ?B"
    by auto
  ultimately show ?thesis
    using assms(3) B(1) by (auto simp: finished_def acyclic_def)
qed

definition visit_ok :: "(string \<times> string) set \<Rightarrow> (string \<Rightarrow> nat) \<Rightarrow> ((string \<Rightarrow> nat) \<Rightarrow> bool) \<Rightarrow> (err + (string \<Rightarrow> nat)) option \<Rightarrow> bool" where
  "visit_ok R color P r \<longleftrightarrow>
     (\<exists>c. r = Some (Inl (supersession_cycle c)) \<and> (c, c) \<in> R\<^sup>+) \<or>
     (\<exists>color'. r = Some (Inr color') \<and> advances color color' \<and> finished R color' \<and> P color')"

lemma visit_edges_spec:
  assumes visits: "\<And>n color. color n = 0 \<Longrightarrow> n \<in> set scope \<Longrightarrow> \<forall>x. color x \<le> 2 \<Longrightarrow> finished R color \<Longrightarrow>
      whites (set scope) color \<le> k \<Longrightarrow> \<forall>g. color g = 1 \<longrightarrow> (g, n) \<in> R\<^sup>* \<Longrightarrow>
      visit_ok R color (\<lambda>color'. color' n = 2) (visit data scope k n color)"
    and R: "R = scope_rel E (set scope)"
  shows "set es \<subseteq> {e \<in> E. de_FromCfg e = m} \<Longrightarrow> \<forall>x. color x \<le> 2 \<Longrightarrow> finished R color \<Longrightarrow>
      whites (set scope) color \<le> k \<Longrightarrow> \<forall>g. color g = 1 \<longrightarrow> (g, m) \<in> R\<^sup>* \<Longrightarrow>
      visit_ok R color (\<lambda>color'. \<forall>e \<in> set es. de_EdgeKind e = EdgeKindSupersedes \<longrightarrow> de_ToCfg e \<in> set scope \<longrightarrow> color' (de_ToCfg e) = 2)
        (visit_edges data scope k es color)"
proof (induction es arbitrary: color)
  case Nil
  then show ?case
    by (simp add: visit_ok_def advances_refl)
next
  case (Cons e es)
  let ?t = "de_ToCfg e"
  let ?P = "\<lambda>color'. \<forall>e \<in> set es. de_EdgeKind e = EdgeKindSupersedes \<longrightarrow> de_ToCfg e \<in> set scope \<longrightarrow> color' (de_ToCfg e) = 2"
  consider (skip) "de_EdgeKind e \<noteq> EdgeKindSupersedes \<or> ?t \<notin> set scope" | (edge) "de_EdgeKind e = EdgeKindSupersedes" "?t \<in> set scope"
    by blast
  then show ?case
  proof cases
    case skip
    then show ?thesis
      using Cons by (auto simp: visit_ok_def)
  next
    case edge
    have arc: "(m, ?t) \<in> R"
      using edge Cons.prems(1) unfolding R scope_rel_def supersede_rel_def by force
    consider "color ?t = 1" | "color ?t = 0" | "color ?t = 2"
      using spec [OF Cons.prems(2), of ?t] by linarith
    then show ?thesis
    proof cases
      case 1
      then have "(?t, ?t) \<in> R\<^sup>+"
        using arc Cons.prems(5) by (meson rtrancl_into_trancl1)
      then show ?thesis
        using edge 1 by (auto simp: visit_ok_def)
    next
      case 2
      have "\<forall>g. color g = 1 \<longrightarrow> (g, ?t) \<in> R\<^sup>*"
        using Cons.prems(5) arc by (meson rtrancl.rtrancl_into_rtrancl)
      then have sub: "visit_ok R color (\<lambda>color'. color' ?t = 2) (visit data scope k ?t color)"
        using visits 2 edge Cons.prems by blast
      show ?thesis
      proof (cases "\<exists>c. visit data scope k ?t color = Some (Inl (supersession_cycle c)) \<and> (c, c) \<in> R\<^sup>+")
        case True
        then show ?thesis
          using edge 2 by (auto simp: visit_ok_def)
      next
        case False
        then obtain color' where v: "visit data scope k ?t color = Some (Inr color')" "advances color color'" "finished R color'" "color' ?t = 2"
          using sub by (auto simp: visit_ok_def)
        have rest: "visit_ok R color' ?P (visit_edges data scope k es color')"
          using Cons.prems v advances_whites [OF v(2), of "set scope"] by (intro Cons.IH) (auto simp: advances_simps(4) [OF v(2)] advances_simps(1) [OF v(2), simplified])
        have "visit_edges data scope k (e # es) color = visit_edges data scope k es color'"
          using edge 2 v(1) by simp
        moreover have "color'' ?t = 2" if "advances color' color''" for color''
          using advances_simps(3) [OF that v(4)] .
        ultimately show ?thesis
          using rest advances_trans [OF v(2)] by (auto simp: visit_ok_def)
      qed
    next
      case 3
      have "visit_ok R color ?P (visit_edges data scope k es color)"
        using Cons by auto
      moreover have "visit_edges data scope k (e # es) color = visit_edges data scope k es color"
        using edge 3 by simp
      moreover have "color'' ?t = 2" if "advances color color''" for color''
        using advances_simps(3) [OF that 3] .
      ultimately show ?thesis
        by (auto simp: visit_ok_def)
    qed
  qed
qed

lemma visit_spec:
  assumes reads: "\<And>c. \<exists>es. ag_EdgesFrom data c = Inr es \<and> set es = {e \<in> E. de_FromCfg e = c}"
    and R: "R = scope_rel E (set scope)"
  shows "color n = 0 \<Longrightarrow> n \<in> set scope \<Longrightarrow> \<forall>x. color x \<le> 2 \<Longrightarrow> finished R color \<Longrightarrow>
      whites (set scope) color \<le> k \<Longrightarrow> \<forall>g. color g = 1 \<longrightarrow> (g, n) \<in> R\<^sup>* \<Longrightarrow>
      visit_ok R color (\<lambda>color'. color' n = 2) (visit data scope k n color)"
proof (induction k arbitrary: n color)
  case 0
  then show ?case
    by (auto simp: whites_def)
next
  case (Suc k)
  obtain es where es: "ag_EdgesFrom data n = Inr es" "set es = {e \<in> E. de_FromCfg e = n}"
    using reads by blast
  let ?c = "color(n := 1)"
  have fin: "finished R ?c"
  proof -
    have "{x. ?c x = 2} = {x. color x = 2}"
      using Suc.prems(1) by auto
    then show ?thesis
      using Suc.prems(4) by (simp add: finished_def)
  qed
  have whites: "whites (set scope) ?c \<le> k"
  proof -
    have "{x \<in> set scope. color x = 0} = insert n {x \<in> set scope. ?c x = 0}"
      using Suc.prems(1,2) by auto
    then show ?thesis
      using Suc.prems(5) by (simp add: whites_def)
  qed
  have "visit_ok R ?c (\<lambda>color'. \<forall>e \<in> set es. de_EdgeKind e = EdgeKindSupersedes \<longrightarrow> de_ToCfg e \<in> set scope \<longrightarrow> color' (de_ToCfg e) = 2)
      (visit_edges data scope k es ?c)"
    by (rule visit_edges_spec [OF Suc.IH R, where m = n]) (use es(2) Suc.prems fin whites in auto)
  then show ?case
  proof (cases "\<exists>c. visit_edges data scope k es ?c = Some (Inl (supersession_cycle c)) \<and> (c, c) \<in> R\<^sup>+")
    case True
    then show ?thesis
      using es(1) by (auto simp: visit_ok_def)
  next
    case False
    then obtain color' where v: "visit_edges data scope k es ?c = Some (Inr color')" "advances ?c color'" "finished R color'"
        "\<forall>e \<in> set es. de_EdgeKind e = EdgeKindSupersedes \<longrightarrow> de_ToCfg e \<in> set scope \<longrightarrow> color' (de_ToCfg e) = 2"
      using \<open>visit_ok R ?c _ _\<close> by (auto simp: visit_ok_def)
    have "color' n = 1"
      using advances_simps(1) [OF v(2), of n] by simp
    moreover have "R `` {n} \<subseteq> {x. color' x = 2}"
      using v(4) es(2) by (auto simp: R scope_rel_def supersede_rel_def)
    ultimately have "finished R (color'(n := 2))"
      using v(3) by (intro finished_insert) auto
    moreover have "advances color (color'(n := 2))"
      using v(2) Suc.prems(1,3) unfolding advances_def by (metis fun_upd_apply)
    ultimately show ?thesis
      using es(1) v(1) by (auto simp: visit_ok_def)
  qed
qed


lemma visit_all_spec:
  assumes reads: "\<And>c. \<exists>es. ag_EdgesFrom data c = Inr es \<and> set es = {e \<in> E. de_FromCfg e = c}"
    and R: "R = scope_rel E (set scope)"
  shows "set cs \<subseteq> set scope \<Longrightarrow> \<forall>x. color x \<le> 2 \<and> color x \<noteq> 1 \<Longrightarrow> finished R color \<Longrightarrow>
      visit_ok R color (\<lambda>color'. \<forall>c \<in> set cs. color' c = 2) (visit_all data scope (length scope) cs color)"
proof (induction cs arbitrary: color)
  case Nil
  then show ?case
    by (simp add: visit_ok_def advances_refl)
next
  case (Cons c cs)
  have IH: "visit_ok R color' (\<lambda>color''. \<forall>c \<in> set cs. color'' c = 2) (visit_all data scope (length scope) cs color')"
    if "advances color color'" "finished R color'" for color'
  proof (rule Cons.IH)
    show "\<forall>x. color' x \<le> 2 \<and> color' x \<noteq> 1"
    proof
      fix x
      show "color' x \<le> 2 \<and> color' x \<noteq> 1"
        using spec [OF that(1) [unfolded advances_def], of x] spec [OF Cons.prems(2), of x] by auto
    qed
  qed (use Cons.prems that in auto)
  show ?case
  proof (cases "color c = 0")
    case True
    have "whites (set scope) color \<le> length scope"
      unfolding whites_def using card_mono [of "set scope" "{x \<in> set scope. color x = 0}"] card_length [of scope] by simp
    then have "visit_ok R color (\<lambda>color'. color' c = 2) (visit data scope (length scope) c color)"
      using Cons.prems True by (intro visit_spec [OF reads R]) auto
    then consider d where "visit data scope (length scope) c color = Some (Inl (supersession_cycle d))" "(d, d) \<in> R\<^sup>+"
      | color' where "visit data scope (length scope) c color = Some (Inr color')" "advances color color'" "finished R color'" "color' c = 2"
      by (auto simp: visit_ok_def)
    then show ?thesis
    proof cases
      case 1
      then show ?thesis
        using True by (auto simp: visit_ok_def)
    next
      case 2
      then have "visit_all data scope (length scope) (c # cs) color = visit_all data scope (length scope) cs color'"
        using True by simp
      then show ?thesis
        using IH [OF 2(2,3)] advances_trans [OF 2(2)] advances_simps(3) [where a = color' and x = c] 2(4)
        by (auto simp: visit_ok_def)
    qed
  next
    case False
    then have "color c = 2"
      using spec [OF Cons.prems(2), of c] by linarith
    then have "color' c = 2" if "advances color color'" for color'
      using advances_simps(3) that by blast
    moreover have "visit_ok R color (\<lambda>color''. \<forall>c \<in> set cs. color'' c = 2) (visit_all data scope (length scope) cs color)"
      using IH [of color] Cons.prems(2,3) advances_refl [of color] by blast
    moreover have "visit_all data scope (length scope) (c # cs) color = visit_all data scope (length scope) cs color"
      using False by simp
    ultimately show ?thesis
      unfolding visit_ok_def by auto
  qed
qed

text \<open>The check fails exactly when the supersession relation of the scope has a cycle.\<close>

lemma validateSupersession_spec:
  assumes reads: "\<And>c. \<exists>es. ag_EdgesFrom data c = Inr es \<and> set es = {e \<in> E. de_FromCfg e = c}"
    and R: "R = scope_rel E (set scope) \<inter> set scope \<times> UNIV"
  shows "if acyclic R then validateSupersession data scope = Some (Inr ())
    else \<exists>c. validateSupersession data scope = Some (Inl (supersession_cycle c)) \<and> (c, c) \<in> (scope_rel E (set scope))\<^sup>+"
proof -
  let ?R = "scope_rel E (set scope)"
  have "finished ?R (\<lambda>_. 0)"
    by (simp add: finished_def acyclic_def)
  then have "visit_ok ?R (\<lambda>_. 0) (\<lambda>color'. \<forall>c \<in> set scope. color' c = 2) (visit_all data scope (length scope) scope (\<lambda>_. 0))"
    by (intro visit_all_spec [OF reads refl]) auto
  then consider c where "validateSupersession data scope = Some (Inl (supersession_cycle c))" "(c, c) \<in> ?R\<^sup>+"
    | color' where "validateSupersession data scope = Some (Inr ())" "finished ?R color'" "\<forall>c \<in> set scope. color' c = 2"
    by (auto simp: visit_ok_def validateSupersession_def)
  then show ?thesis
  proof cases
    case 1
    have inside: "(x, y) \<in> R\<^sup>+" if "(x, y) \<in> ?R\<^sup>+" "x \<in> set scope" for x y
      using that
    proof (induction rule: trancl_induct)
      case (step y z)
      moreover have "y \<in> set scope"
        using step(1) by (auto elim: tranclE simp: scope_rel_def)
      ultimately show ?case
        by (auto simp: R intro: trancl_into_trancl)
    qed (auto simp: R)
    moreover have "c \<in> set scope"
      using 1(2) by (auto elim: tranclE simp: scope_rel_def)
    ultimately have "\<not> acyclic R"
      using 1(2) by (auto simp: acyclic_def)
    then show ?thesis
      using 1 by auto
  next
    case 2
    have "R \<subseteq> ?R \<inter> {x. color' x = 2} \<times> UNIV"
      using 2(3) by (auto simp: R)
    then have "acyclic R"
      using 2(2) acyclic_subset by (auto simp: finished_def)
    then show ?thesis
      using 2(1) by simp
  qed
qed


section \<open>Declared ids\<close>

text \<open>The ids a metadata value declares, and when its list is accepted.\<close>

definition ids :: "string list \<Rightarrow> string set" where
  "ids raw = TrimSpace ` set raw - {[]}"

definition list_ok :: "string list \<Rightarrow> bool" where
  "list_ok raw \<longleftrightarrow> distinct (map TrimSpace raw) \<and> [] \<notin> set (map TrimSpace raw)"

lemma collect_responsibilities_Inr:
  "collect_responsibilities c out raw = Inr r \<Longrightarrow> set r = set out \<union> ids raw"
  by (induction c out raw rule: collect_responsibilities.induct) (auto simp: Let_def ids_def split: if_splits)

lemma collect_responsibilities_ok:
  "distinct (filter (\<lambda>r. r \<noteq> []) (map TrimSpace raw)) \<Longrightarrow> (\<And>x. x \<in> ids raw \<Longrightarrow> x \<notin> set out) \<Longrightarrow>
     \<exists>r. collect_responsibilities c out raw = Inr r"
proof (induction raw arbitrary: out)
  case (Cons a raw)
  have "a' \<notin> set (if TrimSpace a = [] then out else out @ [TrimSpace a])" if "a' \<in> ids raw" for a'
    using that Cons.prems(1) Cons.prems(2) [of a'] by (auto simp: ids_def image_iff split: if_splits)
  then have "\<exists>r. collect_responsibilities c (if TrimSpace a = [] then out else out @ [TrimSpace a]) raw = Inr r"
    using Cons.prems(1) by (intro Cons.IH) (auto split: if_splits)
  moreover have "TrimSpace a \<noteq> [] \<Longrightarrow> TrimSpace a \<notin> set out"
    using Cons.prems(2) [of "TrimSpace a"] by (simp add: ids_def)
  ultimately show ?case
    by (auto simp: Let_def split: if_splits)
qed simp

lemma collect_ids_Inr: "collect_ids m dup out raw = Inr r \<Longrightarrow> set r = set out \<union> ids raw"
  by (induction m dup out raw rule: collect_ids.induct) (auto simp: Let_def ids_def split: if_splits)

lemma collect_ids_ok: "list_ok raw \<Longrightarrow> (\<And>x. x \<in> ids raw \<Longrightarrow> x \<notin> set out) \<Longrightarrow> \<exists>r. collect_ids m dup out raw = Inr r"
  by (induction m dup out raw rule: collect_ids.induct) (auto simp: Let_def ids_def list_ok_def)

lemma responsibilitiesOf_Inr: "responsibilitiesOf (\<lambda>c. Inr (f c)) c = Inr r \<Longrightarrow> set r = ids (f c)"
  by (auto simp: responsibilitiesOf_def result_bind_Inr dest: collect_responsibilities_Inr)

lemma responsibilitiesOf_ok:
  "distinct (filter (\<lambda>r. r \<noteq> []) (map TrimSpace (f c))) \<Longrightarrow> \<exists>r. responsibilitiesOf (\<lambda>c. Inr (f c)) c = Inr r"
  using collect_responsibilities_ok [of "f c" "[]" c] by (auto simp: responsibilitiesOf_def)

lemma coverageOf_Inr: "coverageOf (\<lambda>c. Inr (f c)) c = Inr r \<Longrightarrow> set r = ids (f c)"
  by (auto simp: coverageOf_def result_bind_Inr dest: collect_ids_Inr)

lemma coverageOf_ok:
  assumes "list_ok (f c)"
  shows "\<exists>r. coverageOf (\<lambda>c. Inr (f c)) c = Inr r"
proof -
  have "\<exists>r. collect_ids m dup [] (f c) = Inr r" for m dup
    by (rule collect_ids_ok [OF assms]) simp
  then show ?thesis
    unfolding coverageOf_def result_bind_simps by (metis result_bind_simps(2))
qed

lemma citationsOf_Inr: "citationsOf exists (\<lambda>c. Inr (f c)) c = Inr r \<Longrightarrow> set r = ids (f c)"
  by (auto simp: citationsOf_def result_bind_Inr Let_def dest: collect_ids_Inr)

lemma citationsOf_ok:
  assumes "list_ok (f c)" "\<And>i. i \<in> ids (f c) \<Longrightarrow> exists i = Inr True"
  shows "\<exists>r. citationsOf exists (\<lambda>c. Inr (f c)) c = Inr r"
proof -
  let ?m = "AuthorityValidationError ''malformed_citation_metadata'' c ''citation metadata contains an empty id''"
  let ?dup = "\<lambda>i. AuthorityValidationError ''duplicate_citation'' c (''citation '' @ i @ '' declared more than once'')"
  obtain r where r: "collect_ids ?m ?dup [] (f c) = Inr r"
    using collect_ids_ok [OF assms(1), of "[]" ?m ?dup] by auto
  have "result_map (\<lambda>i. require_object exists
      (AuthorityValidationError ''unknown_artifact_reference'' c (''cited object '' @ i @ '' does not exist'')) i (\<lambda>_. Inr ())) (sort r) =
      Inr (map (\<lambda>_. ()) (sort r))"
    using assms(2) collect_ids_Inr [OF r] by (intro result_map_success) (simp add: require_object_def)
  then show ?thesis
    using r by (simp add: citationsOf_def)
qed

lemma citers_Inr:
  "citers cites target ids' = Inr r \<Longrightarrow> (\<And>a xs. cites a = Inr xs \<Longrightarrow> set xs = decl a) \<Longrightarrow>
     set r = {a \<in> set ids'. a \<noteq> target \<and> target \<in> decl a}"
  by (induction cites target ids' arbitrary: r rule: citers.induct) (auto simp: result_bind_Inr split: if_splits)

lemma citers_ok: "(\<And>a. a \<in> set ids' \<Longrightarrow> a \<noteq> target \<Longrightarrow> \<exists>xs. cites a = Inr xs) \<Longrightarrow> \<exists>r. citers cites target ids' = Inr r"
proof (induction ids')
  case (Cons a ids')
  then obtain r where "citers cites target ids' = Inr r"
    by auto
  then show ?case
    using Cons.prems [of a] by (cases "a = target") auto
qed simp

lemma result_map_ok: "(\<And>x. x \<in> set xs \<Longrightarrow> \<exists>y. f x = Inr y) \<Longrightarrow> \<exists>ys. result_map f xs = Inr ys"
proof (induction xs)
  case (Cons x xs)
  then obtain ys where "result_map f xs = Inr ys"
    by auto
  then show ?case
    using Cons.prems [of x] by auto
qed simp

lemma result_map_union:
  "result_map f xs = Inr ys \<Longrightarrow> (\<And>x y. f x = Inr y \<Longrightarrow> set y = decl x) \<Longrightarrow> set (concat ys) = (\<Union>x \<in> set xs. decl x)"
proof (induction xs arbitrary: ys)
  case (Cons x xs)
  then obtain y zs where "ys = y # zs" "f x = Inr y" "set (concat zs) = (\<Union>x \<in> set xs. decl x)"
    by (auto simp: result_bind_Inr simp del: set_concat)
  then show ?case
    using Cons.prems(2) by simp
qed simp

section \<open>What the clauses decide\<close>

lemma replacementComplete_Inr:
  assumes "replacementComplete (\<lambda>c. Inr (f c)) c ss = Inr (complete, missing)"
  shows "complete \<longleftrightarrow> ids (f c) \<subseteq> (\<Union>s \<in> set ss. ids (f s))"
proof -
  obtain own where own: "responsibilitiesOf (\<lambda>c. Inr (f c)) c = Inr own" "set own = ids (f c)"
    using assms by (auto simp: replacementComplete_def result_bind_Inr dest: responsibilitiesOf_Inr)
  show ?thesis
  proof (cases "own = []")
    case False
    then obtain ys where "result_map (responsibilitiesOf (\<lambda>c. Inr (f c))) ss = Inr ys"
        "missing = sort (filter (\<lambda>r. r \<notin> set (concat ys)) own)" "complete \<longleftrightarrow> missing = []"
      using assms own(1) by (auto simp: replacementComplete_def result_bind_Inr Let_def)
    moreover have "set (concat ys) = (\<Union>s \<in> set ss. ids (f s))"
      by (rule result_map_union [OF calculation(1)]) (rule responsibilitiesOf_Inr)
    moreover have "sort xs = [] \<longleftrightarrow> xs = []" for xs :: "string list"
      by (metis set_empty set_sort)
    ultimately show ?thesis
      using own(2) by (auto simp: filter_empty_conv)
  qed (use assms own in \<open>auto simp: replacementComplete_def\<close>)
qed

lemma replacementComplete_ok:
  assumes "\<And>c. distinct (filter (\<lambda>r. r \<noteq> []) (map TrimSpace (f c)))"
  shows "\<exists>r. replacementComplete (\<lambda>c. Inr (f c)) c ss = Inr r"
proof -
  have owned: "\<exists>r. responsibilitiesOf (\<lambda>c. Inr (f c)) x = Inr r" for x
    using responsibilitiesOf_ok assms by blast
  have "\<exists>ys. result_map (responsibilitiesOf (\<lambda>c. Inr (f c))) ss = Inr ys"
    by (rule result_map_ok) (rule owned)
  then show ?thesis
    using owned [of c] by (auto simp: replacementComplete_def Let_def)
qed

lemma gapAfterRemoval_Inr:
  assumes "gapAfterRemoval (\<lambda>c. Inr (f c)) c active = Inr u"
  shows "u = [] \<longleftrightarrow> ids (f c) \<subseteq> (\<Union>a \<in> fst ` set active - {c}. ids (f a))"
proof -
  obtain own where own: "coverageOf (\<lambda>c. Inr (f c)) c = Inr own" "set own = ids (f c)"
    using assms by (auto simp: gapAfterRemoval_def result_bind_Inr dest: coverageOf_Inr)
  show ?thesis
  proof (cases "own = []")
    case False
    then obtain ys where ys: "result_map (coverageOf (\<lambda>c. Inr (f c))) (filter (\<lambda>a. a \<noteq> c) (sort (map fst active))) = Inr ys"
        "u = filter (\<lambda>r. r \<notin> set (concat ys)) own"
      using assms own(1) by (auto simp: gapAfterRemoval_def result_bind_Inr)
    have "set (concat ys) = (\<Union>a \<in> set (filter (\<lambda>a. a \<noteq> c) (sort (map fst active))). ids (f a))"
      by (rule result_map_union [OF ys(1)]) (rule coverageOf_Inr)
    also have "set (filter (\<lambda>a. a \<noteq> c) (sort (map fst active))) = fst ` set active - {c}"
      by auto
    finally have cover: "set (concat ys) = (\<Union>a \<in> fst ` set active - {c}. ids (f a))" .
    have "u = [] \<longleftrightarrow> set own \<subseteq> set (concat ys)"
      unfolding ys(2) filter_empty_conv by blast
    then show ?thesis
      unfolding cover own(2) .
  qed (use assms own in \<open>auto simp: gapAfterRemoval_def\<close>)
qed

lemma gapAfterRemoval_ok:
  assumes "\<And>c. list_ok (f c)"
  shows "\<exists>r. gapAfterRemoval (\<lambda>c. Inr (f c)) c active = Inr r"
proof -
  have covered: "\<exists>r. coverageOf (\<lambda>c. Inr (f c)) x = Inr r" for x
    using coverageOf_ok assms by blast
  have "\<exists>ys. result_map (coverageOf (\<lambda>c. Inr (f c))) (filter (\<lambda>a. a \<noteq> c) (sort (map fst active))) = Inr ys"
    by (rule result_map_ok) (rule covered)
  then show ?thesis
    using covered [of c] by (auto simp: gapAfterRemoval_def)
qed


lemma outcome_simps [simp]: "ar_CfgID (outcome c st rs ev) = c" "ar_State (outcome c st rs ev) = st"
  "ar_Reason (outcome c st rs ev) = rs" "ar_Evidence (outcome c st rs ev) = ev"
  by (simp_all add: outcome_def)

lemma gap_clause_id: "gap_clause data c ss active = Inr res \<Longrightarrow> ar_CfgID res = c"
  by (auto simp: gap_clause_def result_bind_Inr split: if_splits)

lemma citation_clause_id: "citation_clause data c ss active = Inr res \<Longrightarrow> ar_CfgID res = c"
  by (auto simp: citation_clause_def result_bind_Inr gap_clause_id split: if_splits)

lemma responsibility_clause_id: "responsibility_clause data c ss active = Inr res \<Longrightarrow> ar_CfgID res = c"
  by (auto simp: responsibility_clause_def result_bind_Inr citation_clause_id split: if_splits)

lemma replacement_rule_id: "replacement_rule data c ss active = Inr res \<Longrightarrow> ar_CfgID res = c"
  unfolding replacement_rule_def result_bind_Inr
  by (cases "activeDependentsOf data c active") (auto simp: responsibility_clause_id split: if_splits)

section \<open>The declarative authority state\<close>

text \<open>
  The Replacement Test and the State Model rules, stated over the edge set, the baseline roots and the
  declared ids instead of over the search.
\<close>

record declarations =
  dc_responsibilities :: "string \<Rightarrow> string list"
  dc_citations :: "string \<Rightarrow> string list"
  dc_coverage :: "string \<Rightarrow> string list"

definition replacement_test :: "DependencyEdge set \<Rightarrow> string set \<Rightarrow> declarations \<Rightarrow> string \<Rightarrow> bool" where
  "replacement_test E active dc c \<longleftrightarrow>
     (\<forall>a \<in> active. (a, c) \<notin> carry_rel E) \<and>
     ids (dc_responsibilities dc c) \<subseteq> (\<Union>s \<in> (supersede_rel E)\<inverse> `` {c}. ids (dc_responsibilities dc s)) \<and>
     (\<forall>a \<in> active - {c}. c \<notin> ids (dc_citations dc a)) \<and>
     ids (dc_coverage dc c) \<subseteq> (\<Union>a \<in> active - {c}. ids (dc_coverage dc a))"

definition authority_state :: "DependencyEdge set \<Rightarrow> string list \<Rightarrow> string set \<Rightarrow> declarations \<Rightarrow> string \<Rightarrow> string" where
  "authority_state E roots objects dc c =
     (if c \<notin> objects then AuthorityStateUnknown
      else if (supersede_rel E)\<inverse> `` {c} \<noteq> {} then
        (if c \<in> set roots then AuthorityStateUnknown
         else if replacement_test E (active_ids E roots) dc c then AuthorityStateHistorical else AuthorityStateActive)
      else if c \<in> active_ids E roots then AuthorityStateActive else AuthorityStateNonNormative)"

definition declarations_ok :: "string set \<Rightarrow> declarations \<Rightarrow> bool" where
  "declarations_ok objects dc \<longleftrightarrow>
     (\<forall>c. distinct (filter (\<lambda>r. r \<noteq> []) (map TrimSpace (dc_responsibilities dc c))) \<and>
          list_ok (dc_citations dc c) \<and> ids (dc_citations dc c) \<subseteq> objects \<and> list_ok (dc_coverage dc c))"

section \<open>The data source's contract\<close>

locale authority_source =
  fixes data :: AuthorityGraph and roots :: "string list" and E :: "DependencyEdge set" and objects :: "string set"
    and dc :: declarations
  assumes roots: "ag_BaselineRoots data = Inr roots"
    and finite_edges: "finite E"
    and objects: "ag_ObjectExists data c = Inr (c \<in> objects)"
    and out_edges: "\<exists>es. ag_EdgesFrom data c = Inr es \<and> set es = {e \<in> E. de_FromCfg e = c}"
    and in_edges: "\<exists>es. ag_EdgesTo data c = Inr es \<and> set es = {e \<in> E. de_ToCfg e = c}"
    and dependencies: "\<exists>ns. ag_RecursiveDependencies data c = Inr ns \<and>
      set (map tn_CfgID ns) = {x. x \<noteq> c \<and> (c, x) \<in> ((\<lambda>e. (de_FromCfg e, de_ToCfg e)) ` E)\<^sup>+}"
    and responsibilities: "ag_Responsibilities data = Some (\<lambda>c. Inr (dc_responsibilities dc c))"
    and citations: "ag_Citations data = Some (\<lambda>c. Inr (dc_citations dc c))"
    and coverage: "ag_Coverage data = Some (\<lambda>c. Inr (dc_coverage dc c))"
begin

lemma search_returns:
  assumes "search_inv E roots active queue" "fst ` set active \<subseteq> set roots \<union> de_ToCfg ` E"
  shows "\<exists>active'. search data active queue = Some (Inr active') \<and> search_inv E roots active' []"
  using assms
proof (induction "card (set roots \<union> de_ToCfg ` E) - card (fst ` set active) + length queue" arbitrary: active queue rule: less_induct)
  case less
  show ?case
  proof (cases queue)
    case Nil
    then show ?thesis
      using less.prems(1) by (subst search.simps) simp
  next
    case (Cons n queue')
    obtain es where es: "ag_EdgesFrom data n = Inr es" "set es = {e \<in> E. de_FromCfg e = n}"
      using out_edges by blast
    obtain active' queue'' where next_step: "mark_edges n es (active, queue') = (active', queue'')"
      by fastforce
    note step = mark_edges_inv [OF less.prems(1) [unfolded Cons] es(2) next_step]
    have sub: "fst ` set active' \<subseteq> set roots \<union> de_ToCfg ` E"
      using step(3) less.prems(2) by blast
    obtain k where "card (fst ` set active') = card (fst ` set active) + k" "length queue'' = length queue' + k"
      using step(2) by blast
    moreover have "card (fst ` set active') \<le> card (set roots \<union> de_ToCfg ` E)"
      using sub finite_edges by (simp add: card_mono)
    ultimately have "card (set roots \<union> de_ToCfg ` E) - card (fst ` set active') + length queue'' <
        card (set roots \<union> de_ToCfg ` E) - card (fst ` set active) + length queue"
      using Cons by simp
    then have "\<exists>a. search data active' queue'' = Some (Inr a) \<and> search_inv E roots a []"
      using less.hyps step(1) sub by blast
    then show ?thesis
      by (subst search.simps) (simp add: Cons es(1) next_step)
  qed
qed

lemma active_set:
  "\<exists>active. computeActiveSet data = Some (Inr active) \<and> entries_ok E roots active \<and> fst ` set active = active_ids E roots"
proof -
  obtain active queue where start: "mark_roots roots = (active, queue)"
    by fastforce
  note inv = mark_roots_inv [OF start, of E]
  have "fst ` set active \<subseteq> set roots"
    using mark_all [of "\<lparr> ri_baseline = True, ri_via = [] \<rparr>" "[]" "[]" roots] start by (auto simp: mark_roots_def image_image)
  then have "fst ` set active \<subseteq> set roots \<union> de_ToCfg ` E"
    by blast
  from search_returns [OF inv this] obtain active' where found: "search data active queue = Some (Inr active')" "search_inv E roots active' []"
    by blast
  have "computeActiveSet data = Some (Inr active')"
    by (simp add: computeActiveSet_def roots start found(1))
  moreover have "entries_ok E roots active'"
    using found(2) by (simp add: search_inv_def)
  ultimately show ?thesis
    using search_inv_end [OF found(2)] by blast
qed

lemma superseders: "\<exists>ss. supersededBy data c = Inr ss \<and> sorted ss \<and> set ss = (supersede_rel E)\<inverse> `` {c}"
proof -
  obtain es where "ag_EdgesTo data c = Inr es" "set es = {e \<in> E. de_ToCfg e = c}"
    using in_edges by blast
  then show ?thesis
    by (auto simp: supersededBy_def supersede_rel_def image_iff)
qed

lemma active_dependents:
  assumes "fst ` set active = A"
  shows "\<exists>ds. activeDependentsOf data c active = Inr ds \<and> sorted ds \<and> distinct ds \<and> set ds = {a \<in> A. (a, c) \<in> carry_rel E}"
proof -
  let ?f = "\<lambda>deps e. if \<not> carries e then deps
    else if map_of active (de_FromCfg e) \<noteq> None \<and> de_FromCfg e \<notin> set deps then deps @ [de_FromCfg e] else deps"
  obtain es where es: "ag_EdgesTo data c = Inr es" "set es = {e \<in> E. de_ToCfg e = c}"
    using in_edges by blast
  have is_active: "map_of active x \<noteq> None \<longleftrightarrow> x \<in> A" for x
    unfolding assms [symmetric] map_of_eq_None_iff by simp
  have "set (foldl ?f acc es) = set acc \<union> de_FromCfg ` {e \<in> set es. carries e \<and> de_FromCfg e \<in> A} \<and>
      (distinct acc \<longrightarrow> distinct (foldl ?f acc es))" for acc es
  proof (induction es arbitrary: acc)
    case (Cons e es)
    show ?case
      using Cons [of "?f acc e"] unfolding is_active by auto
  qed simp
  moreover have "de_FromCfg ` {e \<in> set es. carries e \<and> de_FromCfg e \<in> A} = {a \<in> A. (a, c) \<in> carry_rel E}"
    by (auto simp: es(2) carry_rel_def)
  ultimately show ?thesis
    using es(1) by (simp add: activeDependentsOf_def)
qed

text \<open>Each clause decides its part of the Replacement Test, and fails only on ill-formed declarations.\<close>

lemma gap_clause_state:
  assumes "gap_clause data c ss active = Inr res" "fst ` set active = A"
  shows "ar_State res = (if ids (dc_coverage dc c) \<subseteq> (\<Union>a \<in> A - {c}. ids (dc_coverage dc a))
    then AuthorityStateHistorical else AuthorityStateActive)"
proof -
  obtain u where u: "gapAfterRemoval (\<lambda>c. Inr (dc_coverage dc c)) c active = Inr u"
    using assms(1) by (auto simp: gap_clause_def coverage result_bind_Inr)
  have state: "ar_State res = (if u = [] then AuthorityStateHistorical else AuthorityStateActive)"
    using assms(1) u by (cases u) (auto simp: gap_clause_def coverage)
  show ?thesis
    unfolding state gapAfterRemoval_Inr [OF u] assms(2) ..
qed

lemma citation_clause_state:
  assumes "citation_clause data c ss active = Inr res" "fst ` set active = A"
  shows "ar_State res = (if (\<forall>a \<in> A - {c}. c \<notin> ids (dc_citations dc a)) \<and>
      ids (dc_coverage dc c) \<subseteq> (\<Union>a \<in> A - {c}. ids (dc_coverage dc a))
    then AuthorityStateHistorical else AuthorityStateActive)"
proof -
  let ?cites = "citationsOf (ag_ObjectExists data) (\<lambda>c. Inr (dc_citations dc c))"
  obtain cs where cs: "citers ?cites c (sort (map fst active)) = Inr cs"
      "if cs = [] then gap_clause data c ss active = Inr res else ar_State res = AuthorityStateActive"
    using assms(1) by (auto simp: citation_clause_def activeArtifactCitersOf_def citations result_bind_Inr split: if_splits)
  have "set cs = {a \<in> set (sort (map fst active)). a \<noteq> c \<and> c \<in> ids (dc_citations dc a)}"
    by (rule citers_Inr [OF cs(1)]) (rule citationsOf_Inr)
  then have "cs = [] \<longleftrightarrow> (\<forall>a \<in> A - {c}. c \<notin> ids (dc_citations dc a))"
    using assms(2) by (auto simp flip: set_empty)
  then show ?thesis
    using cs(2) gap_clause_state [OF _ assms(2)] by (auto split: if_splits)
qed

lemma responsibility_clause_state:
  assumes "responsibility_clause data c ss active = Inr res" "fst ` set active = A"
  shows "ar_State res = (if ids (dc_responsibilities dc c) \<subseteq> (\<Union>s \<in> set ss. ids (dc_responsibilities dc s)) \<and>
      (\<forall>a \<in> A - {c}. c \<notin> ids (dc_citations dc a)) \<and>
      ids (dc_coverage dc c) \<subseteq> (\<Union>a \<in> A - {c}. ids (dc_coverage dc a))
    then AuthorityStateHistorical else AuthorityStateActive)"
proof -
  obtain complete missing where r: "replacementComplete (\<lambda>c. Inr (dc_responsibilities dc c)) c ss = Inr (complete, missing)"
      "if complete then citation_clause data c ss active = Inr res else ar_State res = AuthorityStateActive"
    using assms(1) by (auto simp: responsibility_clause_def responsibilities result_bind_Inr split: if_splits)
  show ?thesis
    using r(2) citation_clause_state [OF _ assms(2)] unfolding replacementComplete_Inr [OF r(1)] by (auto split: if_splits)
qed

lemma clauses_ok:
  assumes "declarations_ok objects dc"
  shows "\<exists>res. responsibility_clause data c ss active = Inr res"
proof -
  have ok: "distinct (filter (\<lambda>r. r \<noteq> []) (map TrimSpace (dc_responsibilities dc c)))"
      "list_ok (dc_citations dc c)" "ids (dc_citations dc c) \<subseteq> objects" "list_ok (dc_coverage dc c)" for c
    using assms by (auto simp: declarations_ok_def)
  obtain r where r: "replacementComplete (\<lambda>c. Inr (dc_responsibilities dc c)) c ss = Inr r"
    using replacementComplete_ok [of "dc_responsibilities dc", OF ok(1)] by blast
  obtain u where u: "gapAfterRemoval (\<lambda>c. Inr (dc_coverage dc c)) c active = Inr u"
    using gapAfterRemoval_ok [of "dc_coverage dc", OF ok(4)] by blast
  have "\<exists>cs. citers (citationsOf (ag_ObjectExists data) (\<lambda>c. Inr (dc_citations dc c))) c (sort (map fst active)) = Inr cs"
    by (rule citers_ok, rule citationsOf_ok) (use ok(2,3) objects in auto)
  then show ?thesis
    using r u by (cases r) (auto simp: responsibility_clause_def citation_clause_def gap_clause_def activeArtifactCitersOf_def
        responsibilities citations coverage)
qed

lemma active_lookup:
  assumes "entries_ok E roots active" "fst ` set active = active_ids E roots"
  shows "map_of active c = None \<longleftrightarrow> c \<notin> active_ids E roots" "map_of active c = Some info \<Longrightarrow> ri_baseline info \<longleftrightarrow> c \<in> set roots"
  using assms by (auto simp: map_of_eq_None_iff entries_ok_def dest!: map_of_SomeD)

lemma roots_active: "set roots \<subseteq> active_ids E roots"
  by (auto simp: active_ids_def)

lemma resolveOne_state:
  assumes "entries_ok E roots active" "fst ` set active = active_ids E roots"
  shows "resolveOne data c active = Inr res \<Longrightarrow> ar_CfgID res = c \<and> ar_State res = authority_state E roots objects dc c"
    and "declarations_ok objects dc \<Longrightarrow> \<exists>res. resolveOne data c active = Inr res"
proof -
  obtain ss where ss: "supersededBy data c = Inr ss" "set ss = (supersede_rel E)\<inverse> `` {c}"
    using superseders by blast
  obtain ds where ds: "activeDependentsOf data c active = Inr ds" "set ds = {a \<in> active_ids E roots. (a, c) \<in> carry_rel E}"
    using active_dependents [OF assms(2)] by blast
  note lookup = active_lookup [OF assms]
  have is_root: "(case map_of active c of None \<Rightarrow> False | Some info \<Rightarrow> ri_baseline info) \<longleftrightarrow> c \<in> set roots"
    using lookup roots_active by (auto split: option.splits)
  have rule: "ar_State res = authority_state E roots objects dc c"
    if "replacement_rule data c ss active = Inr res" "c \<in> objects" "ss \<noteq> []" for res
  proof -
    have superseded: "(supersede_rel E)\<inverse> `` {c} \<noteq> {}"
      using that(3) ss(2) by (metis set_empty)
    consider (baseline) "c \<in> set roots" | (needed) "c \<notin> set roots" "ds \<noteq> []" | (test) "c \<notin> set roots" "ds = []"
      by blast
    then show ?thesis
    proof cases
      case baseline
      then have "ar_State res = AuthorityStateUnknown"
        using that(1) unfolding replacement_rule_def is_root by auto
      then show ?thesis
        using baseline superseded that(2) by (simp add: authority_state_def)
    next
      case needed
      then have "ar_State res = AuthorityStateActive"
        using that(1) ds(1) unfolding replacement_rule_def is_root by auto
      moreover have "\<not> replacement_test E (active_ids E roots) dc c"
        using needed(2) ds(2) unfolding replacement_test_def by (metis (mono_tags, lifting) empty_Collect_eq set_empty)
      ultimately show ?thesis
        using needed superseded that(2) by (simp add: authority_state_def)
    next
      case test
      have "responsibility_clause data c ss active = Inr res"
        using test that(1) ds(1) unfolding replacement_rule_def is_root by simp
      from responsibility_clause_state [OF this assms(2)]
      have "ar_State res = (if replacement_test E (active_ids E roots) dc c then AuthorityStateHistorical else AuthorityStateActive)"
        using test(2) ds(2) unfolding replacement_test_def ss(2) by auto
      then show ?thesis
        using test superseded that(2) by (simp add: authority_state_def)
    qed
  qed
  show "ar_CfgID res = c \<and> ar_State res = authority_state E roots objects dc c" if "resolveOne data c active = Inr res"
  proof -
    have "ar_CfgID res = c"
      using that ss(1) by (auto simp: resolveOne_def objects replacement_rule_id split: if_splits option.splits)
    moreover have "ar_State res = authority_state E roots objects dc c"
    proof (cases "c \<in> objects \<and> ss \<noteq> []")
      case True
      then show ?thesis
        using that rule ss(1) by (simp add: resolveOne_def objects)
    next
      case False
      then show ?thesis
        using that ss lookup(1) [of c] by (cases "map_of active c") (auto simp: resolveOne_def objects authority_state_def split: if_splits)
    qed
    ultimately show ?thesis ..
  qed
  show "\<exists>res. resolveOne data c active = Inr res" if "declarations_ok objects dc"
    using clauses_ok [OF that, of c ss active] ss(1) ds(1)
    by (auto simp: resolveOne_def objects replacement_rule_def split: option.splits)
qed

lemma resolve_authority:
  "\<exists>r. ResolveAuthority data c = Some r \<and>
     (\<forall>res. r = Inr res \<longrightarrow> ar_CfgID res = c \<and> ar_State res = authority_state E roots objects dc c) \<and>
     (declarations_ok objects dc \<longrightarrow> (\<exists>res. r = Inr res))"
proof -
  obtain active where a: "computeActiveSet data = Some (Inr active)" "entries_ok E roots active" "fst ` set active = active_ids E roots"
    using active_set by blast
  then have "ResolveAuthority data c = Some (resolveOne data c active)"
    by (simp add: ResolveAuthority_def with_active_def)
  then show ?thesis
    using resolveOne_state [OF a(2,3)] by blast
qed

lemma resolve_all:
  assumes "declarations_ok objects dc"
  shows "\<exists>rs. with_active data (\<lambda>active. result_map (\<lambda>c. resolveOne data c active) cs) = Some (Inr rs) \<and>
     map ar_CfgID rs = cs \<and> (\<forall>r \<in> set rs. ar_State r = authority_state E roots objects dc (ar_CfgID r))"
proof -
  obtain active where a: "computeActiveSet data = Some (Inr active)" "entries_ok E roots active" "fst ` set active = active_ids E roots"
    using active_set by blast
  have "\<exists>rs. result_map (\<lambda>c. resolveOne data c active) cs = Inr rs"
    by (rule result_map_ok) (rule resolveOne_state(2) [OF a(2,3) assms])
  then obtain rs where rs: "result_map (\<lambda>c. resolveOne data c active) cs = Inr rs"
    by blast
  then have each: "list_all2 (\<lambda>c r. ar_CfgID r = c \<and> ar_State r = authority_state E roots objects dc c) cs rs"
    unfolding result_map_Inr using resolveOne_state(1) [OF a(2,3)] by (rule list_all2_mono) blast
  then have "map ar_CfgID rs = cs" "\<forall>r \<in> set rs. ar_State r = authority_state E roots objects dc (ar_CfgID r)"
    by (induction rule: list_all2_induct) auto
  then show ?thesis
    using a(1) rs by (auto simp: with_active_def)
qed

text \<open>The scope of a graph resolution is closed under the edges, so a supersession cycle through it lies inside it.\<close>

lemma scope_cycle:
  assumes "S = ((\<lambda>e. (de_FromCfg e, de_ToCfg e)) ` E)\<^sup>* `` {root}"
  shows "acyclic (scope_rel E S \<inter> S \<times> UNIV) \<longleftrightarrow> \<not> (\<exists>x \<in> S. (x, x) \<in> (supersede_rel E)\<^sup>+)"
proof -
  have closed: "y \<in> S" if "x \<in> S" "(x, y) \<in> supersede_rel E" for x y
    using that unfolding assms supersede_rel_def by (auto intro: rtrancl_into_rtrancl)
  have "(x, y) \<in> (scope_rel E S \<inter> S \<times> UNIV)\<^sup>+ \<and> y \<in> S" if "(x, y) \<in> (supersede_rel E)\<^sup>+" "x \<in> S" for x y
    using that
  proof (induction rule: trancl_induct)
    case (base y)
    then show ?case
      using closed by (auto simp: scope_rel_def)
  next
    case (step y z)
    then have "(y, z) \<in> scope_rel E S \<inter> S \<times> UNIV" "z \<in> S"
      using closed by (auto simp: scope_rel_def)
    then show ?case
      using step by (auto intro: trancl_into_trancl)
  qed
  moreover have "(x, y) \<in> (supersede_rel E)\<^sup>+ \<and> x \<in> S" if "(x, y) \<in> (scope_rel E S \<inter> S \<times> UNIV)\<^sup>+" for x y
    using that
  proof (induction rule: trancl_induct)
    case (step y z)
    then show ?case
      by (auto simp: scope_rel_def intro: trancl_into_trancl)
  qed (auto simp: scope_rel_def)
  ultimately show ?thesis
    unfolding acyclic_def by blast
qed

lemma resolve_graph:
  assumes "root \<in> objects" "declarations_ok objects dc" "S = ((\<lambda>e. (de_FromCfg e, de_ToCfg e)) ` E)\<^sup>* `` {root}"
  shows "if \<exists>x \<in> S. (x, x) \<in> (supersede_rel E)\<^sup>+ then \<exists>c. ResolveGraph data root = Some (Inl (supersession_cycle c))
    else \<exists>rs. ResolveGraph data root = Some (Inr rs) \<and> sorted (map ar_CfgID rs) \<and> set (map ar_CfgID rs) = S \<and>
      (\<forall>r \<in> set rs. ar_State r = authority_state E roots objects dc (ar_CfgID r))"
proof -
  obtain ns where ns: "ag_RecursiveDependencies data root = Inr ns"
      "set (map tn_CfgID ns) = {x. x \<noteq> root \<and> (root, x) \<in> ((\<lambda>e. (de_FromCfg e, de_ToCfg e)) ` E)\<^sup>+}"
    using dependencies by blast
  let ?scope = "sort (root # map tn_CfgID ns)"
  have "set ?scope = insert root (set (map tn_CfgID ns))"
    by (simp only: set_sort list.set)
  also have "\<dots> = S"
    unfolding ns(2) assms(3) by (auto dest: rtranclD)
  finally have scope: "set ?scope = S" .
  have graph: "ResolveGraph data root = (case validateSupersession data ?scope of
      Some (Inr _) \<Rightarrow> with_active data (\<lambda>active. result_map (\<lambda>c. resolveOne data c active) ?scope)
    | Some (Inl er) \<Rightarrow> Some (Inl er) | None \<Rightarrow> None)"
    using assms(1) ns(1) unfolding ResolveGraph_def after_check_def objects Let_def by (simp del: sort_key_simps)
  note check = validateSupersession_spec [OF out_edges refl, of ?scope, unfolded scope scope_cycle [OF assms(3)]]
  show ?thesis
  proof (cases "\<exists>x \<in> S. (x, x) \<in> (supersede_rel E)\<^sup>+")
    case True
    then show ?thesis
      using check graph by auto
  next
    case False
    obtain rs where rs: "with_active data (\<lambda>active. result_map (\<lambda>c. resolveOne data c active) ?scope) = Some (Inr rs)"
        "map ar_CfgID rs = ?scope" "\<forall>r \<in> set rs. ar_State r = authority_state E roots objects dc (ar_CfgID r)"
      using resolve_all [OF assms(2)] by blast
    have "ResolveGraph data root = Some (Inr rs)"
      using check False graph rs(1) by simp
    moreover have "sorted (map ar_CfgID rs)"
      unfolding rs(2) by (rule sorted_sort)
    moreover have "set (map ar_CfgID rs) = S"
      unfolding rs(2) by (rule scope)
    ultimately show ?thesis
      using False rs(3) by auto
  qed
qed

end

definition pg_declarations :: "db \<Rightarrow> declarations" where
  "pg_declarations d = \<lparr> dc_responsibilities = Responsibilities d, dc_citations = Citations d, dc_coverage = Coverage d \<rparr>"

interpretation pga: authority_source "pg_authority d" "BaselineRoots d" "set (t_dependency_edge d)" "object_ids d" "pg_declarations d" for d
proof
  fix c
  show "\<exists>ns. ag_RecursiveDependencies (pg_authority d) c = Inr ns \<and> set (map tn_CfgID ns) = {x. x \<noteq> c \<and> (c, x) \<in> (depends d)\<^sup>+}"
  proof -
    have "tn_CfgID ` set (RecursiveDependencies d c) = {x. x \<noteq> c \<and> (c, x) \<in> (depends d)\<^sup>+}"
      unfolding RecursiveDependencies_def walkQuery_closure(1) [OF refl] arcs_def by (force simp: image_iff)
    then show ?thesis
      by (simp add: pg_authority_def)
  qed
qed (simp_all add: pg_authority_def pg_declarations_def ObjectExists_def EdgesFrom_def EdgesTo_def)

section \<open>Properties\<close>

text \<open>C16: the search for the active set always ends; it finds exactly the objects reachable from the
  current-baseline members along depends and extends edges, each once, and flags exactly the members themselves.\<close>

theorem computeActiveSet_exact:
  "\<exists>active. computeActiveSet (pg_authority d) = Some (Inr active) \<and> distinct (map fst active) \<and>
     fst ` set active = ((\<lambda>e. (de_FromCfg e, de_ToCfg e)) ` {e \<in> set (t_dependency_edge d). de_EdgeKind e \<in> {EdgeKindDepends, EdgeKindExtends}})\<^sup>* ``
        {co_CfgID ob |ob. ob \<in> set (t_configuration_object d) \<and> co_RetentionClass ob = RetentionCurrentBaseline} \<and>
     {x. \<exists>i. (x, i) \<in> set active \<and> ri_baseline i} =
        {co_CfgID ob |ob. ob \<in> set (t_configuration_object d) \<and> co_RetentionClass ob = RetentionCurrentBaseline}"
proof -
  let ?E = "set (t_dependency_edge d)"
  obtain active where a: "computeActiveSet (pg_authority d) = Some (Inr active)" "entries_ok ?E (BaselineRoots d) active"
      "fst ` set active = active_ids ?E (BaselineRoots d)"
    using pga.active_set [of d] by blast
  have roots: "set (BaselineRoots d) = {co_CfgID ob |ob. ob \<in> set (t_configuration_object d) \<and> co_RetentionClass ob = RetentionCurrentBaseline}"
    by (auto simp: BaselineRoots_def)
  have rel: "carry_rel ?E = (\<lambda>e. (de_FromCfg e, de_ToCfg e)) ` {e \<in> ?E. de_EdgeKind e \<in> {EdgeKindDepends, EdgeKindExtends}}"
    unfolding carry_rel_def carries_def by (rule arg_cong [where f = "image _"]) auto
  have "x \<in> fst ` set active" if "x \<in> set (BaselineRoots d)" for x
    using that a(3) pga.roots_active [of d] by blast
  then have "{x. \<exists>i. (x, i) \<in> set active \<and> ri_baseline i} = set (BaselineRoots d)"
    using a(2) by (fastforce simp: entries_ok_def)
  moreover have "distinct (map fst active)"
    using a(2) by (simp add: entries_ok_def)
  ultimately show ?thesis
    using a(1,3) unfolding active_ids_def rel roots by blast
qed

text \<open>C14: resolving an object over the database always returns, and a result it returns carries the state that the State
  Model rules give: Unknown for a missing object or a superseded baseline member, Historical exactly when the object is
  superseded and passes the Replacement Test, Active when it fails the test or is reachable from the baseline, and Non-Normative
  otherwise.  It fails only when the metadata of some object is ill-formed.\<close>

theorem ResolveAuthority_refines_state_model:
  "\<exists>r. ResolveAuthority (pg_authority d) c = Some r \<and>
     (\<forall>res. r = Inr res \<longrightarrow> ar_CfgID res = c \<and>
        ar_State res = authority_state (set (t_dependency_edge d)) (BaselineRoots d) (object_ids d) (pg_declarations d) c) \<and>
     (declarations_ok (object_ids d) (pg_declarations d) \<longrightarrow> (\<exists>res. r = Inr res))"
  by (rule pga.resolve_authority)

definition resolved_object :: "string \<Rightarrow> string \<Rightarrow> ConfigObject" where
  "resolved_object c retention = \<lparr> co_CfgID = c, co_Artifact = ''doc'', co_Version = ''1.0.0'', co_Role = RoleConstitution,
     co_Lifecycle = LifecycleRatified, co_RetentionClass = retention, co_Authority = AuthorityActive, co_RatifiedBy = [],
     co_ReviewCycle = [], co_RetentionPolicy = ''permanent'', co_Metadata = [], co_RowVersion = 1, co_CreatedAt = 0, co_UpdatedAt = 0 \<rparr>"

definition superseding_db :: db where
  "superseding_db = empty_db\<lparr>
     t_configuration_object := [resolved_object ''new'' RetentionCurrentBaseline, resolved_object ''old'' RetentionHistoricalRecord],
     t_configuration_metadata := [(''new'', ''responsibilities'', ''a, b''), (''old'', ''responsibilities'', ''b'')],
     t_dependency_edge := [\<lparr> de_ID = ''e'', de_FromCfg = ''new'', de_ToCfg = ''old'', de_EdgeKind = EdgeKindSupersedes,
       de_CreatedAt = 0, de_UpdatedAt = 0 \<rparr>] \<rparr>"

lemma superseding_run:
  "map_option (map_sum id ar_State) (ResolveAuthority (pg_authority superseding_db) ''old'') = Some (Inr AuthorityStateHistorical)"
  by code_simp

theorem ResolveAuthority_refines_state_model_witness:
  "authority_state (set (t_dependency_edge superseding_db)) (BaselineRoots superseding_db) (object_ids superseding_db)
     (pg_declarations superseding_db) ''old'' = AuthorityStateHistorical"
proof -
  obtain r where r: "ResolveAuthority (pg_authority superseding_db) ''old'' = Some r"
      "\<And>res. r = Inr res \<Longrightarrow> ar_State res = authority_state (set (t_dependency_edge superseding_db)) (BaselineRoots superseding_db)
         (object_ids superseding_db) (pg_declarations superseding_db) ''old''"
    using ResolveAuthority_refines_state_model [of superseding_db "''old''"] by blast
  obtain res where "r = Inr res" "ar_State res = AuthorityStateHistorical"
    using superseding_run r(1) by (cases r) auto
  then show ?thesis
    using r(2) by simp
qed


text \<open>Two objects that supersede each other.\<close>

definition mutual_db :: db where
  "mutual_db = empty_db\<lparr>
     t_configuration_object := [resolved_object ''a'' RetentionCurrentBaseline, resolved_object ''b'' RetentionHistoricalRecord],
     t_dependency_edge := [\<lparr> de_ID = ''e'', de_FromCfg = ''a'', de_ToCfg = ''b'', de_EdgeKind = EdgeKindSupersedes, de_CreatedAt = 0, de_UpdatedAt = 0 \<rparr>,
       \<lparr> de_ID = ''f'', de_FromCfg = ''b'', de_ToCfg = ''a'', de_EdgeKind = EdgeKindSupersedes, de_CreatedAt = 0, de_UpdatedAt = 0 \<rparr>] \<rparr>"

lemma no_metadata_ok: "t_configuration_metadata d = [] \<Longrightarrow> declarations_ok objects (pg_declarations d)"
  by (simp add: declarations_ok_def pg_declarations_def Responsibilities_def Citations_def Coverage_def metadata_value_def list_ok_def ids_def)


end
