(* ===== verification/Http.thy ===== *)
theory Http
  imports Governance
begin

text \<open>
  Requests, responses and the generic middleware of the HTTP transport (\<^verbatim>\<open>internal/httpapi\<close>: errors.go,
  context.go, the first half of middleware.go).

  A request carries what the handlers read of it: the header values under their canonical names, the query, the
  parameters the router bound, the body, and the two context values, the request id and the claims.  A response
  is its status, its headers and its body.  A handler is a function of the request and of the state it works on;
  a panic leaves the headers set so far, and the recoverer turns it into a response.  Logging and the counters of
  \<^verbatim>\<open>metrics.Middleware\<close> change neither response nor state; they are in the theories \<open>Startup\<close> and \<open>Metrics\<close>.
\<close>

section \<open>Requests and responses\<close>

record Claims =
  cl_Subject :: string
  cl_Roles :: "string list"
  cl_Tenant :: string

record Request =
  rq_Method :: string
  rq_Path :: string
  rq_Headers :: smap
  rq_Query :: smap
  rq_Params :: smap
  rq_Body :: bytes
  rq_Claims :: "Claims option"
  rq_RequestID :: string

abbreviation Header_Get :: "Request \<Rightarrow> string \<Rightarrow> string" where
  "Header_Get r k \<equiv> mget (rq_Headers r) k"

abbreviation Query_Get :: "Request \<Rightarrow> string \<Rightarrow> string" where
  "Query_Get r k \<equiv> mget (rq_Query r) k"

abbreviation URLParam :: "Request \<Rightarrow> string \<Rightarrow> string" where
  "URLParam r k \<equiv> mget (rq_Params r) k"

definition withClaims :: "Claims \<Rightarrow> Request \<Rightarrow> Request" where
  "withClaims c r = r\<lparr> rq_Claims := Some c \<rparr>"

definition ClaimsFrom :: "Request \<Rightarrow> Claims option" where
  "ClaimsFrom r = rq_Claims r"

definition withRequestID :: "string \<Rightarrow> Request \<Rightarrow> Request" where
  "withRequestID i r = r\<lparr> rq_RequestID := i \<rparr>"

definition RequestIDFrom :: "Request \<Rightarrow> string" where
  "RequestIDFrom r = rq_RequestID r"

record Response =
  hs_Status :: int
  hs_Headers :: smap
  hs_Body :: bytes

datatype reply = Replied Response | HandlerPanic smap

type_synonym 's handler = "Request \<Rightarrow> 's \<Rightarrow> reply \<times> 's"

section \<open>Writing\<close>

text \<open>\<^verbatim>\<open>Encoder.Encode\<close> ends its text with a newline and writes nothing when the value cannot be encoded.\<close>

definition encode_line :: "err + bytes \<Rightarrow> bytes" where
  "encode_line m = (case m of Inl er \<Rightarrow> [] | Inr b \<Rightarrow> b @ [CHR 0x0A])"

definition Problem_json :: "string \<Rightarrow> int \<Rightarrow> string \<Rightarrow> string \<Rightarrow> bytes" where
  "Problem_json title status detail inst = print_struct True
     ([(''type'', json_quote True ''about:blank''), (''title'', json_quote True title), (''status'', FormatInt status)] @
      omitempty ''detail'' detail @ omitempty ''instance'' inst)"

definition writeProblem :: "Request \<Rightarrow> int \<Rightarrow> string \<Rightarrow> string \<Rightarrow> Response" where
  "writeProblem r status title detail =
     \<lparr> hs_Status = status, hs_Headers = [(''Content-Type'', ''application/problem+json'')],
       hs_Body = encode_line (Inr (Problem_json title status detail (RequestIDFrom r))) \<rparr>"

text \<open>\<open>writeJSON hdrs status v\<close>, where \<open>hdrs\<close> are the headers the handler has set and \<open>v\<close> is the encoded value.\<close>

definition writeJSON :: "smap \<Rightarrow> int \<Rightarrow> err + bytes \<Rightarrow> Response" where
  "writeJSON hdrs status v =
     \<lparr> hs_Status = status, hs_Headers = hdrs @ [(''Content-Type'', ''application/json'')], hs_Body = encode_line v \<rparr>"

definition noContent :: Response where
  "noContent = \<lparr> hs_Status = 204, hs_Headers = [], hs_Body = [] \<rparr>"

text \<open>The text of the errors the transport shows.\<close>

definition err_Error :: "err \<Rightarrow> string" where
  "err_Error er = (case er of
       ErrNotFound \<Rightarrow> ''configuration object not found''
     | ErrConflict \<Rightarrow> ''configuration object conflict''
     | ErrVersionMismatch \<Rightarrow> ''row version mismatch''
     | ValidationError f m \<Rightarrow> ''validation failed on \"'' @ f @ ''\": '' @ m
     | TransitionError op from reason \<Rightarrow> ''governance: '' @ op @ '' not permitted from lifecycle \"'' @ from @ ''\": '' @ reason
     | ErrUnsupportedOperation op \<Rightarrow> ''governance: operation not supported: '' @ op
     | ErrHasDependents \<Rightarrow> ''governance: object has dependents''
     | ErrOther t \<Rightarrow> t
     | _ \<Rightarrow> [])"

definition mapError :: "Request \<Rightarrow> err \<Rightarrow> Response" where
  "mapError r er = (case er of
       ErrNotFound \<Rightarrow> writeProblem r 404 ''not found'' (err_Error er)
     | ErrConflict \<Rightarrow> writeProblem r 409 ''conflict'' ''artifact/version already exists''
     | ErrVersionMismatch \<Rightarrow> writeProblem r 412 ''precondition failed'' ''row version mismatch''
     | ValidationError f m \<Rightarrow> writeProblem r 422 ''validation failed'' (err_Error er)
     | _ \<Rightarrow> writeProblem r 500 ''internal error'' ''unexpected error'')"

section \<open>Middleware\<close>

definition set_header :: "string \<Rightarrow> string \<Rightarrow> reply \<Rightarrow> reply" where
  "set_header k v p = (case p of
       Replied s \<Rightarrow> Replied (s\<lparr> hs_Headers := (k, v) # hs_Headers s \<rparr>)
     | HandlerPanic h \<Rightarrow> HandlerPanic ((k, v) # h))"

text \<open>\<open>random\<close> is what \<^verbatim>\<open>genRequestID\<close> draws.\<close>

definition requestID :: "string \<Rightarrow> 's handler \<Rightarrow> 's handler" where
  "requestID random next r s =
     (let i = (if Header_Get r ''X-Request-ID'' = [] then random else Header_Get r ''X-Request-ID'')
      in case next (withRequestID i r) s of (p, s') \<Rightarrow> (set_header ''X-Request-ID'' i p, s'))"

definition recoverer :: "'s handler \<Rightarrow> 's handler" where
  "recoverer next r s = (case next r s of
       (Replied p, s') \<Rightarrow> (Replied p, s')
     | (HandlerPanic h, s') \<Rightarrow>
         (let p = writeProblem r 500 ''internal error'' ''unexpected error''
          in (Replied (p\<lparr> hs_Headers := h @ hs_Headers p \<rparr>), s')))"

section \<open>Entity tags\<close>

definition etag :: "int \<Rightarrow> string" where
  "etag v = quote_ch # FormatInt v @ [quote_ch]"

definition Trim :: "char \<Rightarrow> string \<Rightarrow> string" where
  "Trim c s = rev (dropWhile (\<lambda>x. x = c) (rev (dropWhile (\<lambda>x. x = c) s)))"

definition parseETag :: "string \<Rightarrow> int option" where
  "parseETag s = ParseInt (Trim quote_ch (TrimSpace s))"

lemma FormatInt_no_quote: "quote_ch \<notin> set (FormatInt n)"
proof
  assume "quote_ch \<in> set (FormatInt n)"
  then have "\<exists>m. quote_ch \<in> set (nat_decimal m)"
    by (auto simp: FormatInt_def split: if_splits)
  then have "is_digit quote_ch"
    using nat_decimal_digits by (metis list_all_iff)
  then show False
    by (simp add: is_digit_def)
qed

lemma TrimSpace_quoted: "TrimSpace (quote_ch # s @ [quote_ch]) = quote_ch # s @ [quote_ch]"
proof -
  have left: "\<not> prefix p (quote_ch # s @ [quote_ch])" if "p \<in> set go_spaces" for p
    using that by (auto simp: go_spaces_def)
  have ends: "list_all (\<lambda>p. p \<noteq> [] \<and> last p \<noteq> quote_ch) go_spaces"
    by (simp add: go_spaces_def)
  have right: "\<not> suffix p (quote_ch # s @ [quote_ch])" if "p \<in> set go_spaces" for p
  proof
    assume "suffix p (quote_ch # s @ [quote_ch])"
    then obtain zs where "quote_ch # s @ [quote_ch] = zs @ p"
      by (auto simp: suffix_def)
    then have "last (zs @ p) = quote_ch"
      by (metis append_Cons last_snoc)
    then show False
      using that ends by (auto simp: list_all_iff)
  qed
  have "find (\<lambda>p. prefix p (quote_ch # s @ [quote_ch])) go_spaces = None"
    using left by (intro find_eq_NoneI) simp
  moreover have "find (\<lambda>p. suffix p (quote_ch # s @ [quote_ch])) go_spaces = None"
    using right by (intro find_eq_NoneI) simp
  ultimately show ?thesis
    by (simp add: TrimSpace_def TrimLeft.simps TrimRight.simps)
qed

lemma Trim_quoted:
  assumes "c \<notin> set s"
  shows "Trim c (c # s @ [c]) = s"
proof (cases s)
  case (Cons a t)
  have "hd (rev s) \<in> set s"
    using Cons by (metis list.distinct(1) list.set_sel(1) rev_is_Nil_conv set_rev)
  then have "dropWhile (\<lambda>x. x = c) (rev s) = rev s"
    using assms by (metis dropWhile_eq_self_iff)
  moreover have "dropWhile (\<lambda>x. x = c) (s @ [c]) = s @ [c]"
    using assms Cons by auto
  ultimately show ?thesis
    by (simp add: Trim_def)
qed (simp add: Trim_def)

lemma parseETag_etag:
  assumes "- (2 ^ 63) \<le> v" "v < 2 ^ 63"
  shows "parseETag (etag v) = Some v"
  using ParseInt_FormatInt [OF assms] Trim_quoted [OF FormatInt_no_quote]
  by (simp add: parseETag_def etag_def TrimSpace_quoted)

end
