(* ===== verification/ControlPlane.thy ===== *)
theory ControlPlane
  imports Store
begin

text \<open>
  The control plane as a transition system: a state is the database, a step is one call of any
  operation that writes to it, by any caller and with any input.  Calls that run concurrently
  lock the row of their object and the head of its chain, so an execution is a sequence of such
  steps.  The theory shows what every reachable database satisfies.
\<close>

section \<open>Steps\<close>

inductive step :: "pg \<Rightarrow> db \<Rightarrow> db \<Rightarrow> bool" for pg where
  execute: "Execute (pg_engine pg dbnow newID authz) now cmd d = (r, d') \<Longrightarrow> step pg d d'"
| append_event: "Append pg dbnow inp d = (r1, d') \<Longrightarrow> step pg d d'"
| create: "Create dbnow newID obj d = (r2, d') \<Longrightarrow> step pg d d'"
| bulk_create: "BulkCreate dbnow objs d = (r3, d') \<Longrightarrow> step pg d d'"
| update: "Update dbnow cfgID expected p d = (r4, d') \<Longrightarrow> step pg d d'"
| delete: "Delete cfgID d = (r5, d') \<Longrightarrow> step pg d d'"
| create_edge: "CreateEdge dbnow newID edge d = (r6, d') \<Longrightarrow> step pg d d'"
| delete_edge: "DeleteEdge i d = (r7, d') \<Longrightarrow> step pg d d'"
| save_key: "Idempotency_Save key meth path status body d = d' \<Longrightarrow> step pg d d'"

inductive_cases stepE: "step pg d d'"

text \<open>A write that leaves the audit tables alone and keeps the primary key.\<close>

definition quiet :: "db \<Rightarrow> db \<Rightarrow> bool" where
  "quiet d d' \<longleftrightarrow> t_audit_event d' = t_audit_event d \<and> t_audit_chain_head d' = t_audit_chain_head d \<and>
     (distinct (map co_CfgID (t_configuration_object d)) \<longrightarrow> distinct (map co_CfgID (t_configuration_object d')))"

lemma quiet_refl [simp]: "quiet d d"
  by (simp add: quiet_def)

lemma quiet_trans: "quiet d d' \<Longrightarrow> quiet d' d'' \<Longrightarrow> quiet d d''"
  by (simp add: quiet_def)

lemma insertTx_quiet: "insertTx now newID obj d = Inr (row, d') \<Longrightarrow> quiet d d'"
  by (auto simp: insertTx_def Let_def quiet_def scanCO_def image_iff split: if_splits) blast

lemma insert_all_quiet: "insert_all now objs d = Inr (rows, d') \<Longrightarrow> quiet d d'"
proof (induction objs arbitrary: d rows)
  case (Cons x objs)
  obtain newID obj where x: "x = (newID, obj)" by (cases x)
  from Cons.prems obtain row d1 rows' where "insertTx now newID obj d = Inr (row, d1)"
    "insert_all now objs d1 = Inr (rows', d')"
    by (auto simp: x split: sum.splits)
  then show ?case
    using Cons.IH insertTx_quiet quiet_trans by blast
qed simp

lemma patch_row_id: "co_CfgID (patch_row p x) = co_CfgID x"
  by (simp add: patch_row_def set_opt_def split: option.splits)

lemma Update_quiet:
  assumes "Update now c v p d = (r, d')"
  shows "quiet d d'"
proof (cases "update_co now c v (patch_row p) d")
  case (Some s)
  show ?thesis
  proof (cases s)
    case (Inr rd)
    obtain row d1 where rd: "rd = (row, d1)" by (cases rd)
    with Some Inr have "update_co now c v (patch_row p) d = Some (Inr (row, d1))" by simp
    then obtain x where x: "co_CfgID x = c" "row = (patch_row p x)\<lparr> co_RowVersion := co_RowVersion x + 1, co_UpdatedAt := now \<rparr>"
      "d1 = d\<lparr> t_configuration_object := map (\<lambda>y. if co_CfgID y = c \<and> co_RowVersion y = v then row else y)
        (t_configuration_object d) \<rparr>"
      by (auto simp: update_co_def Let_def dest: find_Some_set split: option.splits if_splits)
    have "map co_CfgID (t_configuration_object d1) = map co_CfgID (t_configuration_object d)"
      using x(1) patch_row_id [of p x] by (simp add: x(2,3))
    then have "quiet d d1"
      unfolding quiet_def by (simp only: refl simp_thms) (simp add: x(3))
    then show ?thesis
      using assms Some Inr rd by (auto simp: Update_def Let_def quiet_def split: option.splits)
  qed (use assms Some in \<open>auto simp: Update_def\<close>)
qed (use assms in \<open>auto simp: Update_def\<close>)

lemma delete_cos_quiet: "quiet d (delete_cos P d)"
  by (auto simp: quiet_def delete_cos_def Let_def distinct_map inj_on_def)

text \<open>A step is quiet or appends one event: every event is written by the appender.\<close>

lemma Execute_quiet_or_append:
  assumes "db_inv d" "Execute (pg_engine pg dbnow newID authz) now cmd d = (r, d')"
  shows "d' = d \<or> (\<exists>d1 inp e. quiet d d1 \<and> AppendTx pg dbnow inp d1 = Inr (e, d'))"
proof (cases r)
  case (Inl er)
  then show ?thesis
    using Execute_error_unchanged [of "pg_engine pg dbnow newID authz"] assms(2) by simp
next
  case (Inr res)
  let ?E = "pg_engine pg dbnow newID authz"
  from assms(2) obtain obj p res1 tx1 res2 tx2 where
    obj: "GetForUpdate (cm_CfgID cmd) d = Inr obj"
    and ap: "apply_plan (en_store ?E) obj p (new_result cmd now) d = Inr (res1, tx1)"
    and ed: "apply_edge (en_store ?E) p (res1, tx1) = Inr (res2, tx2)"
    and em: "emit_audit (AppendTx pg dbnow) cmd (res2, tx2) = Inr (res, d')"
    unfolding Inr
    by (auto simp: Execute_def pg_engine_def GovernanceStore_def split: option.splits sum.splits if_splits prod.splits)
  have "pg_objects d (cm_CfgID cmd) = Some obj"
    using obj by (auto simp: GetForUpdate_def pg_objects_def split: option.splits)
  then have inv1: "db_inv tx1"
    using pgx.apply_plan_ok [of d "new_result cmd now" obj pg dbnow newID authz p res1 tx1] assms(1) ap
    by (simp add: new_result_def)
  then have inv2: "db_inv tx2"
    using pgx.apply_edge_ok ed by blast
  have "t_audit_event tx1 = t_audit_event d \<and> t_audit_chain_head tx1 = t_audit_chain_head d"
    using ap by (auto simp: apply_plan_def pg_engine_def GovernanceStore_def RemoveObject_def ApplyDimensions_def
        update_co_def delete_cos_def Let_def split: if_splits sum.splits option.splits)
  moreover have "t_audit_event tx2 = t_audit_event tx1 \<and> t_audit_chain_head tx2 = t_audit_chain_head tx1"
    using ed by (auto simp: apply_edge_def pg_engine_def GovernanceStore_def RecordEdge_def insert_edge_def
        split: if_splits sum.splits option.splits)
  ultimately have "quiet d tx2"
    using inv2 by (simp add: quiet_def db_inv_def)
  moreover obtain inp e where "AppendTx pg dbnow inp tx2 = Inr (e, d')"
    using em by (auto simp: emit_audit_def split: sum.splits)
  ultimately show ?thesis
    by blast
qed

lemma step_cases:
  assumes "db_inv d" "step pg d d'"
  shows "quiet d d' \<or> (\<exists>d1 dbnow inp e. quiet d d1 \<and> AppendTx pg dbnow inp d1 = Inr (e, d'))"
  using assms(2)
proof cases
  case (execute dbnow newID authz now cmd r)
  then show ?thesis
    using Execute_quiet_or_append [OF assms(1)] by (metis quiet_refl)
next
  case (append_event dbnow inp r1)
  then show ?thesis
    by (auto simp: Append_def split: sum.splits intro: quiet_refl)
next
  case (create dbnow newID obj r2)
  then show ?thesis
    using insertTx_quiet by (auto simp: Create_def split: sum.splits)
next
  case (bulk_create dbnow objs r3)
  then show ?thesis
    using insert_all_quiet by (auto simp: BulkCreate_def split: sum.splits)
next
  case (update dbnow cfgID expected p r4)
  then show ?thesis
    using Update_quiet by blast
next
  case (delete cfgID r5)
  then show ?thesis
    using delete_cos_quiet by (auto simp: Delete_def split: if_splits)
next
  case (create_edge dbnow newID edge r6)
  then show ?thesis
    by (auto simp: CreateEdge_def insert_edge_def quiet_def Let_def split: option.splits sum.splits if_splits)
next
  case (delete_edge i r7)
  then show ?thesis
    by (auto simp: DeleteEdge_def quiet_def split: if_splits)
next
  case (save_key key meth path status body)
  then show ?thesis
    by (auto simp: Idempotency_Save_def quiet_def split: if_splits)
qed

lemma quiet_db_inv: "db_inv d \<Longrightarrow> quiet d d' \<Longrightarrow> db_inv d'"
  by (rule db_inv_cong [of d]) (auto simp: quiet_def db_inv_def)

lemma quiet_chain: "quiet d d' \<Longrightarrow> chain_events d' = chain_events d" "quiet d d' \<Longrightarrow> chains_ok d' = chains_ok d"
  using views_cong(3) [of d' d] chains_ok_cong [of d' d] by (simp_all add: quiet_def)

lemma step_db_inv: "db_inv d \<Longrightarrow> step pg d d' \<Longrightarrow> db_inv d'"
  using step_cases quiet_db_inv AppendTx_db_inv by metis

lemma step_chains_ok: "db_inv d \<Longrightarrow> chains_ok d \<Longrightarrow> pg_exact pg \<Longrightarrow> step pg d d' \<Longrightarrow> chains_ok d'"
  using step_cases quiet_db_inv quiet_chain(2) AppendTx_chains_ok by metis

section \<open>Reachable databases\<close>

inductive reachable :: "pg \<Rightarrow> db \<Rightarrow> bool" for pg where
  init: "reachable pg empty_db"
| more: "reachable pg d \<Longrightarrow> step pg d d' \<Longrightarrow> reachable pg d'"

lemma reachable_db_inv: "reachable pg d \<Longrightarrow> db_inv d"
proof (induction rule: reachable.induct)
  case init
  then show ?case by (simp add: db_inv_def empty_db_def ReadChainHead_def)
qed (rule step_db_inv)

lemma reachable_chains_ok: "reachable pg d \<Longrightarrow> pg_exact pg \<Longrightarrow> chains_ok d"
proof (induction rule: reachable.induct)
  case init
  then show ?case by (simp add: chains_ok_def chain_events_def tip_def empty_db_def ReadChainHead_def)
qed (use step_chains_ok reachable_db_inv in blast)

section \<open>When an append and an operation succeed\<close>

definition can_append :: "pg \<Rightarrow> AppendInput \<Rightarrow> db \<Rightarrow> bool" where
  "can_append pg inp d \<longleftrightarrow>
     (\<forall>r \<in> set (t_audit_event d). ae_ChainID r = ai_ChainID inp \<longrightarrow> ae_EventID r \<noteq> ai_EventID inp \<and>
        ae_ThisHash r \<noteq> SHA256 (snd (tip d (ai_ChainID inp)) @
          SHA256 (hash_fields \<lparr> hi_ChainID = ai_ChainID inp, hi_Seq = fst (tip d (ai_ChainID inp)) + 1,
            hi_EventID = ai_EventID inp, hi_Operation = ai_Operation inp, hi_Actor = ai_Actor inp,
            hi_OccurredAtUnixNanos = UnixNano (TruncateMicrosecond (ai_OccurredAt inp)),
            hi_PayloadCanonical = ai_PayloadCanonical inp \<rparr>))) \<and>
     fst (tip d (ai_ChainID inp)) < MaxInt64 \<and> pg_jsonb pg (ai_PayloadCanonical inp)"

lemma tip_hash_length: "chains_ok d \<Longrightarrow> length (snd (tip d c)) = 32"
proof -
  assume ok: "chains_ok d"
  have "length (ae_ThisHash (last es)) = 32" if "chain_valid GenesisPrevHash 1 es" "es \<noteq> []" for es
    using that by (cases es rule: rev_cases) (auto simp: chain_valid_snoc sealedD(1))
  with ok show ?thesis
    by (auto simp: chains_ok_def GenesisPrevHash_def)
qed

lemma EnsureChainHead_genesis: "\<exists>d1. EnsureChainHead now c GenesisPrevHash d = Inr d1"
  by (simp add: EnsureChainHead_def GenesisPrevHash_def)

lemma AppendTx_succeeds:
  assumes "db_inv d" "chains_ok d" "can_append pg inp d"
    and "ai_ChainID inp \<noteq> []" "ai_EventID inp \<noteq> []" "Operation_Valid (ai_Operation inp)" "ai_Actor inp \<noteq> []"
    and "ai_PayloadCanonical inp \<noteq> []"
  shows "\<exists>e d'. AppendTx pg now inp d = Inr (e, d')"
proof -
  obtain d1 where d1: "EnsureChainHead now (ai_ChainID inp) GenesisPrevHash d = Inr d1"
    using EnsureChainHead_genesis by blast
  obtain l h where lh: "tip d (ai_ChainID inp) = (l, h)" by fastforce
  have l: "0 \<le> l" "l < MaxInt64"
    using tip_range [OF assms(1), of "ai_ChainID inp"] assms(3) by (auto simp: lh can_append_def)
  then have seq: "int64 (l + 1) = l + 1"
    by (simp add: int64_id)
  have h: "length h = 32"
    using tip_hash_length [OF assms(2), of "ai_ChainID inp"] by (simp add: lh)
  have op: "ai_Operation inp \<noteq> []"
    using assms(6) by (auto simp: Operation_Valid_def)
  have fresh: "ae_Seq r \<noteq> l + 1" if "r \<in> set (t_audit_event d)" "ae_ChainID r = ai_ChainID inp" for r
    using db_inv_event [OF assms(1) that(1)] that(2) lh by (auto simp: tip_def)
  have ev: "t_audit_event d1 = t_audit_event d" and head: "ReadChainHead (ai_ChainID inp) d1 = Some (l, h)"
    and row: "ai_ChainID inp \<in> ch_chain_id ` set (t_audit_chain_head d1)"
    using EnsureChainHead_Inr [OF d1] lh by auto
  show ?thesis
    using assms(3-8) l h op fresh row
    by (auto simp: AppendTx_def d1 head Let_def seq ChainHash_def AppendAuditEvent_def ev can_append_def lh
        UpsertChainHead_def split: sum.splits)
qed

text \<open>The event an operation is about to record.\<close>

definition pending_input :: "Command \<Rightarrow> instant \<Rightarrow> Result \<Rightarrow> err + AppendInput" where
  "pending_input cmd now res = Resolve \<lparr> ei_ChainID = AuditChainID (cm_CfgID cmd), ei_OperationID = cm_OperationID cmd,
     ei_Operation = cm_Operation cmd, ei_Payload = auditPayload res \<rparr> (cm_Actor cmd) now"


lemma Validate_None:
  assumes "ConfigObject_Validate c = None"
  shows "Role_Valid (co_Role c)" "Lifecycle_Valid (co_Lifecycle c)" "RetentionClass_Valid (co_RetentionClass c)"
    "co_Authority c = [] \<or> Authority_Valid (co_Authority c)"
    "\<not> (co_RetentionClass c = RetentionCurrentBaseline \<and> co_Authority c = AuthorityHistorical)"
  using assms by (auto simp: ConfigObject_Validate_def split: if_splits)

lemma pg_objects_row:
  assumes "pg_objects d c = Some obj"
  obtains x where "find (\<lambda>y. co_CfgID y = c) (t_configuration_object d) = Some x" "obj = scanCO x" "co_CfgID x = c"
    "x \<in> set (t_configuration_object d)"
  using assms find_Some_set by (fastforce simp: pg_objects_def)

lemma find_conj:
  assumes "find P xs = Some x" "Q x"
  shows "find (\<lambda>y. P y \<and> Q y) xs = Some x \<or> (\<exists>y \<in> set xs. P y \<and> y \<noteq> x)"
  using assms by (induction xs) (auto split: if_splits)

lemma ApplyDimensions_succeeds:
  assumes "db_inv d" "pg_objects d c = Some obj" "co_RowVersion obj < MaxInt64"
    and "ConfigObject_Validate (obj\<lparr> co_Lifecycle := l, co_RetentionClass := r, co_Authority := a \<rparr>) = None" "a \<noteq> []"
  shows "\<exists>d'. ApplyDimensions now c (co_RowVersion obj) l r a d = Inr (co_RowVersion obj + 1, d') \<and>
     t_audit_event d' = t_audit_event d \<and> t_audit_chain_head d' = t_audit_chain_head d"
proof -
  from assms(2) obtain x where x: "find (\<lambda>y. co_CfgID y = c) (t_configuration_object d) = Some x" "obj = scanCO x"
    "co_CfgID x = c" "x \<in> set (t_configuration_object d)"
    by (rule pg_objects_row)
  have rv: "co_RowVersion obj = co_RowVersion x"
    by (simp add: x(2) scanCO_def)
  have "y = x" if "y \<in> set (t_configuration_object d)" "co_CfgID y = c" for y
    using assms(1) that x(3,4) unfolding db_inv_def by (metis distinct_map inj_onD)
  then have find: "find (\<lambda>y. co_CfgID y = c \<and> co_RowVersion y = co_RowVersion x) (t_configuration_object d) = Some x"
    using find_conj [OF x(1), of "\<lambda>y. co_RowVersion y = co_RowVersion x"] by auto
  have "co_check (x\<lparr> co_Lifecycle := l, co_RetentionClass := r, co_Authority := a, co_RowVersion := v, co_UpdatedAt := t \<rparr>)" for v t
    using Validate_None [OF assms(4)] assms(5) by (simp add: co_check_def x(2) scanCO_def)
  then show ?thesis
    using assms(3) by (simp add: ApplyDimensions_def update_co_def rv find Let_def)
qed

text \<open>The result of an operation that only sets dimensions.\<close>

definition dims_result :: "Command \<Rightarrow> instant \<Rightarrow> ConfigObject \<Rightarrow> plan \<Rightarrow> Result" where
  "dims_result cmd now obj p = (new_result cmd now)\<lparr> rs_NewLifecycle := pl_Lifecycle p, rs_NewRetention := pl_Retention p,
     rs_NewAuthority := pl_Authority p, rs_RowVersion := co_RowVersion obj + 1 \<rparr>"

lemma can_append_cong:
  assumes "t_audit_event d' = t_audit_event d" "t_audit_chain_head d' = t_audit_chain_head d"
  shows "can_append pg inp d' = can_append pg inp d"
  using assms by (simp add: can_append_def tip_def ReadChainHead_def)

lemma Execute_dims_succeeds:
  assumes "db_inv d" "chains_ok d"
    and obj: "pg_objects d (cm_CfgID cmd) = Some obj" and cmd: "Command_validate cmd = None" "cm_OperationID cmd \<noteq> []"
    and now: "\<not> IsZero now"
    and ver: "cm_ExpectedRowVersion cmd = 0 \<or> cm_ExpectedRowVersion cmd = co_RowVersion obj" "co_RowVersion obj < MaxInt64"
    and auth: "authz (cm_Operation cmd) (cm_Actor cmd) obj = None"
    and plan: "planTransition (cm_Operation cmd) obj cmd = Inr p" "\<not> pl_Remove p" "pl_Edge p = None" "pl_Authority p \<noteq> []"
      "ConfigObject_Validate (obj\<lparr> co_Lifecycle := pl_Lifecycle p, co_RetentionClass := pl_Retention p,
         co_Authority := pl_Authority p \<rparr>) = None"
    and app: "\<And>inp. pending_input cmd now (dims_result cmd now obj p) = Inr inp \<Longrightarrow> can_append pg inp d"
  shows "\<exists>d'. Execute (pg_engine pg dbnow newID authz) now cmd d = (Inr (dims_result cmd now obj p), d')"
proof -
  let ?E = "pg_engine pg dbnow newID authz" and ?res = "dims_result cmd now obj p"
  obtain d1 where d1: "ApplyDimensions dbnow (cm_CfgID cmd) (co_RowVersion obj) (pl_Lifecycle p) (pl_Retention p)
      (pl_Authority p) d = Inr (co_RowVersion obj + 1, d1)"
    and same: "t_audit_event d1 = t_audit_event d" "t_audit_chain_head d1 = t_audit_chain_head d"
    using ApplyDimensions_succeeds [OF assms(1) obj ver(2) plan(5,4)] by blast
  have get: "gs_GetForUpdate (en_store ?E) (cm_CfgID cmd) d = Inr obj"
    using obj by (auto simp: pg_engine_def GovernanceStore_def GetForUpdate_def pg_objects_def split: option.splits)
  have ap: "apply_plan (en_store ?E) obj p (new_result cmd now) d = Inr (?res, d1)"
    using plan(2,5) d1
    by (simp add: apply_plan_def pg_engine_def GovernanceStore_def Let_def dims_result_def new_result_def)
  have ids: "rs_CfgID ?res = cm_CfgID cmd" "rs_Operation ?res = cm_Operation cmd" "rs_Actor ?res = cm_Actor cmd"
    "rs_OccurredAt ?res = now"
    by (simp_all add: dims_result_def new_result_def)
  have "cm_CfgID cmd \<noteq> []" "cm_Actor cmd \<noteq> []" "Operation_Valid (cm_Operation cmd)"
    using cmd(1) by (auto simp: Command_validate_def split: if_splits)
  then obtain inp where inp: "pending_input cmd now ?res = Inr inp" "ai_ChainID inp \<noteq> []" "ai_EventID inp \<noteq> []"
    "Operation_Valid (ai_Operation inp)" "ai_Actor inp \<noteq> []" "ai_PayloadCanonical inp \<noteq> []"
    using Resolve_auditPayload [of "AuditChainID (cm_CfgID cmd)" "cm_OperationID cmd" "cm_Operation cmd" "cm_Actor cmd" now ?res]
      cmd(2) now by (auto simp: pending_input_def AuditChainID_def)
  have "db_inv d1"
    using pgx.apply_plan_ok [of d "new_result cmd now" obj pg dbnow newID authz p ?res d1] assms(1) obj ap
    by (simp add: new_result_def)
  moreover have "chains_ok d1" "can_append pg inp d1"
    using assms(2) app [OF inp(1)] same by (simp_all add: chains_ok_cong [of d1 d] can_append_cong [of d1 d])
  ultimately obtain e d2 where "AppendTx pg dbnow inp d1 = Inr (e, d2)"
    using AppendTx_succeeds inp(2-6) by blast
  then have "emit_audit (en_audit ?E) cmd (?res, d1) = Inr (?res, d2)"
    using inp(1) by (simp add: emit_audit_def pending_input_def ids pg_engine_def)
  moreover have "gs_Begin (en_store ?E) d = Inr d" "gs_Commit (en_store ?E) d2 = Inr d2"
    "en_authorizer ?E (cm_Operation cmd) (cm_Actor cmd) obj = None"
    using auth by (simp_all add: pg_engine_def GovernanceStore_def)
  moreover have "apply_edge (en_store ?E) p (?res, d1) = Inr (?res, d1)"
    by (simp add: apply_edge_def plan(3))
  ultimately have "Execute ?E now cmd d = (Inr ?res, d2)"
    using cmd(1) get ver(1) plan(1) ap by (auto simp: Execute_def)
  then show ?thesis
    by blast
qed

section \<open>History\<close>

lemma step_appends:
  assumes "db_inv d" "step pg d d'"
  shows "chain_events d' = chain_events d \<or>
    (\<exists>c row. chain_events d' = (chain_events d)(c := chain_events d c @ [row]))"
proof -
  have "\<exists>c row. chain_events d' = (chain_events d)(c := chain_events d c @ [row])"
    if "quiet d d1" "AppendTx pg now inp d1 = Inr (e, d')" for d1 now inp e
    using AppendTx_chain_events [OF quiet_db_inv [OF assms(1) that(1)] that(2)] quiet_chain(1) [OF that(1)] by auto
  then show ?thesis
    using step_cases [OF assms] quiet_chain(1) by metis
qed

text \<open>Any number of steps.\<close>

inductive steps :: "pg \<Rightarrow> db \<Rightarrow> db \<Rightarrow> bool" for pg where
  none: "steps pg d d"
| one: "steps pg d d' \<Longrightarrow> step pg d' d'' \<Longrightarrow> steps pg d d''"

lemma steps_reachable: "steps pg d d' \<Longrightarrow> reachable pg d \<Longrightarrow> reachable pg d'"
  by (induction rule: steps.induct) (auto intro: reachable.more)

lemma steps_prefix: "steps pg d d' \<Longrightarrow> reachable pg d \<Longrightarrow> prefix (chain_events d c) (chain_events d' c)"
proof (induction rule: steps.induct)
  case (one d d' d'')
  have "prefix (chain_events d' c) (chain_events d'' c)"
    using step_appends [OF reachable_db_inv [OF steps_reachable [OF one(1) one.prems]] one(2)]
    by (auto split: if_splits)
  then show ?case
    using one.IH [OF one.prems] by (rule prefix_order.trans [rotated])
qed simp

lemma Execute_event_fresh:
  assumes "db_inv d" "Execute (pg_engine pg dbnow newID authz) now cmd d = (Inr res, d')"
    and "DeriveEventID (cm_OperationID cmd) = Inr i"
  shows "i \<notin> ae_EventID ` set (chain_events d (cm_CfgID cmd))"
proof
  assume "i \<in> ae_EventID ` set (chain_events d (cm_CfgID cmd))"
  then obtain x where x: "x \<in> set (t_audit_event d)" "ae_ChainID x = cm_CfgID cmd" "ae_EventID x = i"
    by (auto simp: chain_events_def)
  obtain row where c2: "chain_events d' = (chain_events d)(cm_CfgID cmd := chain_events d (cm_CfgID cmd) @ [row])"
    "DeriveEventID (cm_OperationID cmd) = Inr (ae_EventID row)"
    using pgx.execute_success [OF assms(1,2)] by (auto simp: AuditChainID_def)
  have len: "chain_events d' (cm_CfgID cmd) = chain_events d (cm_CfgID cmd) @ [row]"
    by (simp add: c2)
  then have "d' \<noteq> d" by auto
  then obtain d1 inp e where ap: "quiet d d1" "AppendTx pg dbnow inp d1 = Inr (e, d')"
    using Execute_quiet_or_append [OF assms(1,2)] by blast
  have inv1: "db_inv d1"
    using quiet_db_inv [OF assms(1) ap(1)] .
  let ?row = "e\<lparr> ae_OccurredAt := pg_timestamptz pg (ae_OccurredAt e) \<rparr>"
  have c1: "chain_events d' = (chain_events d)(ai_ChainID inp := chain_events d (ai_ChainID inp) @ [?row])"
    using AppendTx_chain_events [OF inv1 ap(2)] quiet_chain(1) [OF ap(1)] by simp
  have same: "ai_ChainID inp = cm_CfgID cmd" "row = ?row"
    using c1 len by (auto split: if_splits)
  have "x \<in> set (t_audit_event d1)"
    using x(1) ap(1) by (simp add: quiet_def)
  then have "ae_EventID x \<noteq> ae_EventID e"
    using AppendTx_Inr(1) [OF ap(2)] x(2) same(1) by (auto simp: appended_def)
  then show False
    using x(3) c2(2) assms(3) same(2) by simp
qed

section \<open>A sample database\<close>

definition sample_pg :: pg where
  "sample_pg = \<lparr> pg_timestamptz = (\<lambda>t. t div 1000 * 1000), pg_jsonb = (\<lambda>_. True), pg_search = (\<lambda>_ _. False) \<rparr>"

definition sample_object :: ConfigObject where
  "sample_object = \<lparr> co_CfgID = ''c1'', co_Artifact = ''doc'', co_Version = ''1.0.0'', co_Role = RoleConstitution,
     co_Lifecycle = LifecycleDraft, co_RetentionClass = RetentionCurrentPlanning, co_Authority = AuthorityNonNormative,
     co_RatifiedBy = [], co_ReviewCycle = [], co_RetentionPolicy = ''permanent'', co_Metadata = [],
     co_RowVersion = 1, co_CreatedAt = 0, co_UpdatedAt = 0 \<rparr>"

definition sample_db :: db where
  "sample_db = empty_db\<lparr> t_configuration_object := [sample_object] \<rparr>"

definition ratify :: Command where
  "ratify = \<lparr> cm_Operation = OpRatification, cm_CfgID = ''c1'', cm_Actor = ''alice'', cm_OperationID = ''op-1'',
     cm_ExpectedRowVersion = 0, cm_TargetRetention = [], cm_SuccessorID = [] \<rparr>"

abbreviation sample_engine :: "db Engine" where
  "sample_engine \<equiv> pg_engine sample_pg 0 ''e1'' AllowAllAuthorizer"

lemma sample_pg_exact: "pg_exact sample_pg"
  by (simp add: pg_exact_def sample_pg_def TruncateMicrosecond_eq)

lemma sample_create: "Create 0 ''x'' sample_object empty_db = (Inr sample_object, sample_db)"
  by (simp add: Create_def insertTx_def with_defaults_def Let_def sample_object_def sample_db_def empty_db_def
      co_check_def Role_Valid_def Lifecycle_Valid_def Authority_Valid_def RetentionClass_Valid_def scanCO_def)

lemma sample_reachable: "reachable sample_pg sample_db"
  using reachable.more [OF reachable.init step.create [OF sample_create]] .

lemma sample_pg_objects: "pg_objects sample_db ''c1'' = Some sample_object"
  by (simp add: pg_objects_def sample_db_def sample_object_def scanCO_def)

lemma sample_chain: "chain_events sample_db c = []"
  by (simp add: chain_events_def sample_db_def empty_db_def)

lemma semver_100: "semverRe_MatchString ''1.0.0''"
  by (simp add: semverRe_MatchString_def semver_number_def semver_dot_def semver_suffix_def is_digit_def)

lemma TrimSpace_doc: "TrimSpace ''doc'' \<noteq> []"
  by code_simp

lemma sample_valid: "ConfigObject_Validate (sample_object\<lparr> co_Lifecycle := LifecycleRatified,
    co_RetentionClass := RetentionCurrentBaseline, co_Authority := AuthorityActive \<rparr>) = None"
  "ConfigObject_Validate sample_object = None"
  using semver_100 TrimSpace_doc
  by (simp_all add: ConfigObject_Validate_def sample_object_def Role_Valid_def Lifecycle_Valid_def
      Authority_Valid_def RetentionClass_Valid_def)

definition ratified_plan :: plan where
  "ratified_plan = dims LifecycleRatified RetentionCurrentBaseline AuthorityActive"

lemma sample_plan: "planTransition OpRatification sample_object ratify = Inr ratified_plan"
  by (simp add: planTransition_def sample_object_def ratified_plan_def)

lemma sample_can_append: "can_append sample_pg inp sample_db"
  by (simp add: can_append_def sample_db_def empty_db_def tip_def ReadChainHead_def sample_pg_def)


lemma sample_execute:
  "\<exists>d'. Execute sample_engine 1000 ratify sample_db = (Inr (dims_result ratify 1000 sample_object ratified_plan), d')"
proof (rule Execute_dims_succeeds)
  show "db_inv sample_db" "chains_ok sample_db"
    using reachable_db_inv reachable_chains_ok sample_reachable sample_pg_exact by blast+
  show "ConfigObject_Validate (sample_object\<lparr> co_Lifecycle := pl_Lifecycle ratified_plan,
      co_RetentionClass := pl_Retention ratified_plan, co_Authority := pl_Authority ratified_plan \<rparr>) = None"
    using sample_valid(1) by (simp add: ratified_plan_def dims_def)
qed (simp_all add: sample_pg_objects sample_plan sample_can_append ratify_def ratified_plan_def dims_def AllowAllAuthorizer_def
      Command_validate_def Operation_Valid_def IsZero_def zero_time_def sample_object_def sample_plan [unfolded ratify_def ratified_plan_def dims_def sample_object_def])

section \<open>Properties\<close>





text \<open>C3: On every reachable database every chain verifies, and what the verifier reports is the
  stored head: the number of events, the last sequence and the last hash.\<close>

theorem reachable_chain_verifies:
  assumes "reachable pg d" "pg_exact pg" "int (length (chain_events d c)) < MaxInt64"
  shows "\<exists>r. VerifyChain (VerifyRangeReader d) c = Inr r \<and> vr_OK r \<and> vr_Checked r = int (length (chain_events d c)) \<and>
    (case HeadOf c d of None \<Rightarrow> vr_HeadSeq r = 0 \<and> vr_HeadHash r = []
     | Some (seq, hash) \<Rightarrow> vr_HeadSeq r = seq \<and> (0 < seq \<longrightarrow> vr_HeadHash r = hash))"
proof -
  have ok: "chain_valid GenesisPrevHash 1 (chain_events d c)"
    "tip d c = (int (length (chain_events d c)),
       if chain_events d c = [] then GenesisPrevHash else ae_ThisHash (last (chain_events d c)))"
    "ReadChainHead c d = None \<longrightarrow> chain_events d c = []"
    using reachable_chains_ok [OF assms(1,2)] unfolding chains_ok_def by blast+
  have "1 \<le> ae_Seq e \<and> ae_Seq e \<le> MaxInt64" if "e \<in> set (chain_events d c)" for e
    using ok(1) that assms(3) by (fastforce simp: chain_valid_def in_set_conv_nth)
  then have rd: "VerifyRangeReader d c 1 MaxInt64 = (chain_events d c, None)"
    by (simp add: VerifyRangeReader_def)
  have head: "HeadOf c d = ReadChainHead c d"
    by (simp add: HeadOf_def ReadChainHead_def)
  show ?thesis
    using VerifyChain_accepts [of "VerifyRangeReader d" c "chain_events d c", OF rd assms(3) ok(1)] ok(2,3)
    by (auto simp: head tip_def split: option.splits if_splits)
qed

theorem reachable_chain_verifies_witness:
  "\<exists>r. VerifyChain (VerifyRangeReader sample_db) ''c1'' = Inr r \<and> vr_OK r"
  using reachable_chain_verifies [OF sample_reachable sample_pg_exact, of "''c1''"] by (auto simp: sample_chain)

text \<open>C9: History is append-only: whatever operations run, every chain keeps its events, in order, as
  a prefix of what it becomes.\<close>

theorem audit_history_append_only:
  assumes "reachable pg d" "steps pg d d'"
  shows "prefix (chain_events d c) (chain_events d' c)"
  using steps_prefix [OF assms(2,1)] .

theorem audit_history_append_only_witness:
  "\<exists>d'. steps sample_pg sample_db d' \<and> prefix (chain_events sample_db ''c1'') (chain_events d' ''c1'') \<and>
     chain_events d' ''c1'' \<noteq> []"
proof -
  obtain d' where ex: "Execute sample_engine 1000 ratify sample_db = (Inr (dims_result ratify 1000 sample_object ratified_plan), d')"
    using sample_execute by blast
  then have "steps sample_pg sample_db d'"
    using steps.one [OF steps.none step.execute] by blast
  moreover have "chain_events d' ''c1'' \<noteq> []"
    using pgx.execute_success [OF reachable_db_inv [OF sample_reachable] ex] by (auto simp: AuditChainID_def ratify_def)
  ultimately show ?thesis
    using audit_history_append_only [OF sample_reachable] by blast
qed

text \<open>C6: An operation id is audited at most once per object: after an operation has succeeded, a
  later operation on the same object with the same operation id never succeeds, whatever ran in
  between, and it changes nothing.\<close>

theorem operation_audited_at_most_once:
  assumes "reachable pg d" "Execute (pg_engine pg n1 i1 a1) now1 cmd1 d = (Inr res, d1)" "steps pg d1 d2"
    and "Execute (pg_engine pg n2 i2 a2) now2 cmd2 d2 = (r, d3)"
    and "cm_CfgID cmd2 = cm_CfgID cmd1" "cm_OperationID cmd2 = cm_OperationID cmd1"
  shows "(\<exists>er. r = Inl er) \<and> d3 = d2"
proof -
  have reach1: "reachable pg d1"
    using assms(1,2) by (blast intro: reachable.more step.execute)
  obtain row where row: "chain_events d1 = (chain_events d)(cm_CfgID cmd1 := chain_events d (cm_CfgID cmd1) @ [row])"
    "DeriveEventID (cm_OperationID cmd1) = Inr (ae_EventID row)"
    using pgx.execute_success [OF reachable_db_inv [OF assms(1)] assms(2)] by (auto simp: AuditChainID_def)
  have "row \<in> set (chain_events d2 (cm_CfgID cmd1))"
    using steps_prefix [OF assms(3) reach1, of "cm_CfgID cmd1"] row(1) by (auto simp: prefix_def)
  then have "r \<noteq> Inr x" for x
    using Execute_event_fresh [OF reachable_db_inv [OF steps_reachable [OF assms(3) reach1]],
        of pg n2 i2 a2 now2 cmd2 x d3 "ae_EventID row"] assms(4-6) row(2) by auto
  then obtain er where "r = Inl er"
    by (cases r) auto
  then show ?thesis
    using Execute_error_unchanged [of "pg_engine pg n2 i2 a2"] assms(4) by simp
qed

theorem operation_audited_at_most_once_witness:
  "\<exists>d1 er. Execute sample_engine 1000 ratify sample_db = (Inr (dims_result ratify 1000 sample_object ratified_plan), d1) \<and>
     Execute sample_engine 2000 ratify d1 = (Inl er, d1)"
proof -
  obtain d1 where ex: "Execute sample_engine 1000 ratify sample_db = (Inr (dims_result ratify 1000 sample_object ratified_plan), d1)"
    using sample_execute by blast
  moreover obtain r d3 where "Execute sample_engine 2000 ratify d1 = (r, d3)"
    by fastforce
  ultimately show ?thesis
    using operation_audited_at_most_once [OF sample_reachable ex steps.none] by blast
qed

text \<open>C10: An admissible operation succeeds.  On a reachable database, a valid command for an existing
  object at the expected version, authorized, whose planned dimensions are valid, and whose event the
  audit table can take, commits and returns the planned dimensions and the next row version.\<close>

theorem Execute_admissible_succeeds:
  assumes "reachable pg d" "pg_exact pg" "pg_objects d (cm_CfgID cmd) = Some obj"
    and "Command_validate cmd = None" "cm_OperationID cmd \<noteq> []" "\<not> IsZero now"
    and "cm_ExpectedRowVersion cmd = 0 \<or> cm_ExpectedRowVersion cmd = co_RowVersion obj" "co_RowVersion obj < MaxInt64"
    and "authz (cm_Operation cmd) (cm_Actor cmd) obj = None"
    and "planTransition (cm_Operation cmd) obj cmd = Inr p" "\<not> pl_Remove p" "pl_Edge p = None" "pl_Authority p \<noteq> []"
    and "ConfigObject_Validate (obj\<lparr> co_Lifecycle := pl_Lifecycle p, co_RetentionClass := pl_Retention p,
         co_Authority := pl_Authority p \<rparr>) = None"
    and "\<And>inp. pending_input cmd now (dims_result cmd now obj p) = Inr inp \<Longrightarrow> can_append pg inp d"
  shows "\<exists>d'. Execute (pg_engine pg dbnow newID authz) now cmd d = (Inr (dims_result cmd now obj p), d')"
  using Execute_dims_succeeds [where d = d and cmd = cmd and obj = obj and now = now and authz = authz and p = p and pg = pg,
      OF reachable_db_inv [OF assms(1)] reachable_chains_ok [OF assms(1,2)] assms(3-15)] .

theorem Execute_admissible_succeeds_witness:
  "\<exists>d'. Execute sample_engine 1000 ratify sample_db = (Inr (dims_result ratify 1000 sample_object ratified_plan), d')"
proof (rule Execute_admissible_succeeds [OF sample_reachable sample_pg_exact])
  show "ConfigObject_Validate (sample_object\<lparr> co_Lifecycle := pl_Lifecycle ratified_plan,
      co_RetentionClass := pl_Retention ratified_plan, co_Authority := pl_Authority ratified_plan \<rparr>) = None"
    using sample_valid(1) by (simp add: ratified_plan_def dims_def)
qed (simp_all add: sample_pg_objects sample_plan sample_can_append ratify_def ratified_plan_def dims_def AllowAllAuthorizer_def
      Command_validate_def Operation_Valid_def IsZero_def zero_time_def sample_object_def sample_plan [unfolded ratify_def ratified_plan_def dims_def sample_object_def])

text \<open>C11: Governance keeps the entity invariants: if every stored object satisfies its validation
  rules, including the rule that baseline retention excludes historical authority, then so does
  every object after any operation, successful or not.\<close>

theorem Execute_keeps_objects_valid:
  assumes "reachable pg d" "Execute (pg_engine pg dbnow newID authz) now cmd d = (r, d')"
    and "\<And>c obj. pg_objects d c = Some obj \<Longrightarrow> ConfigObject_Validate obj = None"
    and "pg_objects d' c = Some obj"
  shows "ConfigObject_Validate obj = None"
  using pgx.execute_keeps_valid(2) [OF reachable_db_inv [OF assms(1)] _ assms(2)] assms(3,4)
  by (simp add: pgx.objects_valid_def)

theorem Execute_keeps_objects_valid_witness:
  "\<exists>d' obj. Execute sample_engine 1000 ratify sample_db = (Inr (dims_result ratify 1000 sample_object ratified_plan), d') \<and>
     pg_objects d' ''c1'' = Some obj \<and> ConfigObject_Validate obj = None"
proof -
  obtain d' where ex: "Execute sample_engine 1000 ratify sample_db = (Inr (dims_result ratify 1000 sample_object ratified_plan), d')"
    using sample_execute by blast
  have val: "ConfigObject_Validate obj = None" if "pg_objects sample_db c = Some obj" for c obj
    using sample_valid(2) that by (auto simp: pg_objects_def sample_db_def scanCO_def split: if_splits)
  obtain obj where "pg_objects d' ''c1'' = Some obj"
    using pgx.execute_success [OF reachable_db_inv [OF sample_reachable] ex]
    by (auto simp: pgx.object_effect_def ratify_def sample_pg_objects sample_plan [unfolded ratify_def] ratified_plan_def dims_def)
  then have "ConfigObject_Validate obj = None"
    by (rule Execute_keeps_objects_valid [OF sample_reachable ex, rotated]) (rule val)
  with ex \<open>pg_objects d' ''c1'' = Some obj\<close> show ?thesis
    by blast
qed

text \<open>C12: A baseline artifact in force cannot be withdrawn: the plan moves its authority to
  historical and keeps its baseline retention, which the entity rules reject, so the operation fails
  and changes nothing.\<close>

theorem Withdrawal_of_baseline_fails:
  assumes "reachable pg d" "pg_objects d (cm_CfgID cmd) = Some obj"
    and "co_Authority obj = AuthorityActive" "co_RetentionClass obj = RetentionCurrentBaseline"
    and "cm_Operation cmd = OpWithdrawal"
  shows "\<exists>er. Execute (pg_engine pg dbnow newID authz) now cmd d = (Inl er, d)"
proof -
  obtain r d' where ex: "Execute (pg_engine pg dbnow newID authz) now cmd d = (r, d')"
    by fastforce
  have "r \<noteq> Inr res" for res
  proof
    assume "r = Inr res"
    then obtain p where p: "planTransition OpWithdrawal obj cmd = Inr p"
      "\<not> pl_Remove p \<Longrightarrow> ConfigObject_Validate (obj\<lparr> co_Lifecycle := pl_Lifecycle p, co_RetentionClass := pl_Retention p,
                        co_Authority := pl_Authority p \<rparr>) = None"
      using pgx.execute_success [OF reachable_db_inv [OF assms(1)]] ex assms(2,5) by fastforce
    then show False
      using assms(3,4) Validate_None(5) [OF p(2)] by (auto simp: planTransition_def dims_def split: if_splits)
  qed
  then obtain er where "r = Inl er"
    by (cases r) auto
  then show ?thesis
    using ex Execute_error_unchanged [of "pg_engine pg dbnow newID authz"] by auto
qed


definition baseline_db :: db where
  "baseline_db = empty_db\<lparr> t_configuration_object := [sample_object\<lparr> co_Lifecycle := LifecycleRatified,
     co_RetentionClass := RetentionCurrentBaseline, co_Authority := AuthorityActive \<rparr>] \<rparr>"

lemma baseline_create:
  "Create 0 ''x'' (sample_object\<lparr> co_Lifecycle := LifecycleRatified, co_RetentionClass := RetentionCurrentBaseline,
     co_Authority := AuthorityActive \<rparr>) empty_db = (Inr (sample_object\<lparr> co_Lifecycle := LifecycleRatified,
     co_RetentionClass := RetentionCurrentBaseline, co_Authority := AuthorityActive \<rparr>), baseline_db)"
  by (simp add: Create_def insertTx_def with_defaults_def Let_def sample_object_def baseline_db_def empty_db_def
      co_check_def Role_Valid_def Lifecycle_Valid_def Authority_Valid_def RetentionClass_Valid_def scanCO_def)

lemma baseline_reachable: "reachable sample_pg baseline_db"
  using reachable.more [OF reachable.init step.create [OF baseline_create]] .

theorem Withdrawal_of_baseline_fails_witness:
  "\<exists>er. Execute sample_engine 1000 (ratify\<lparr> cm_Operation := OpWithdrawal \<rparr>) baseline_db = (Inl er, baseline_db)"
proof (rule Withdrawal_of_baseline_fails [OF baseline_reachable])
  show "pg_objects baseline_db (cm_CfgID (ratify\<lparr> cm_Operation := OpWithdrawal \<rparr>)) =
      Some (sample_object\<lparr> co_Lifecycle := LifecycleRatified, co_RetentionClass := RetentionCurrentBaseline,
        co_Authority := AuthorityActive \<rparr>)"
    by (simp add: pg_objects_def baseline_db_def ratify_def sample_object_def scanCO_def)
qed simp_all


end
