(* ===== verification/Listing.thy ===== *)
theory Listing
  imports ControlPlane "HOL-Library.Product_Lexorder"
begin

text \<open>
  The keyset listing of configuration objects (\<^verbatim>\<open>ConfigObjectRepo.List\<close>) and its cursors.  Rows compare by
  creation time and id; the server's collation is taken to be bytewise.  A row's creation time is a whole number of
  microseconds, as a \<^verbatim>\<open>timestamptz\<close> is.
\<close>

section \<open>Base64\<close>

text \<open>\<^verbatim>\<open>base64.RawURLEncoding\<close>: the URL alphabet without padding.  The decoder skips carriage returns and
  newlines and ignores the bits left over after the last byte.\<close>

definition b64_char :: "nat \<Rightarrow> char" where
  "b64_char n = (if n < 26 then char_of (65 + n) else if n < 52 then char_of (71 + n) else if n < 62 then char_of (n - 4)
     else if n = 62 then CHR ''-'' else CHR ''_'')"

definition b64_val :: "char \<Rightarrow> nat option" where
  "b64_val c = (let n = (of_char c :: nat) in
     if 65 \<le> n \<and> n \<le> 90 then Some (n - 65)
     else if 97 \<le> n \<and> n \<le> 122 then Some (n - 71)
     else if 48 \<le> n \<and> n \<le> 57 then Some (n + 4)
     else if n = 45 then Some 62 else if n = 95 then Some 63 else None)"

fun b64_encode :: "bytes \<Rightarrow> string" where
  "b64_encode [] = []"
| "b64_encode [a] = (let x = of_char a in [b64_char (x div 4), b64_char (x mod 4 * 16)])"
| "b64_encode [a, b] = (let x = of_char a; y = of_char b in
     [b64_char (x div 4), b64_char (x mod 4 * 16 + y div 16), b64_char (y mod 16 * 4)])"
| "b64_encode (a # b # c # s) = (let x = of_char a; y = of_char b; z = of_char c in
     b64_char (x div 4) # b64_char (x mod 4 * 16 + y div 16) # b64_char (y mod 16 * 4 + z div 64) #
     b64_char (z mod 64) # b64_encode s)"

fun b64_bytes :: "nat list \<Rightarrow> bytes option" where
  "b64_bytes [] = Some []"
| "b64_bytes [p] = None"
| "b64_bytes [p, q] = Some [char_of (p * 4 + q div 16)]"
| "b64_bytes [p, q, r] = Some [char_of (p * 4 + q div 16), char_of (q mod 16 * 16 + r div 4)]"
| "b64_bytes (p # q # r # t # vs) =
     map_option (\<lambda>s. char_of (p * 4 + q div 16) # char_of (q mod 16 * 16 + r div 4) # char_of (r mod 4 * 64 + t) # s)
       (b64_bytes vs)"

definition b64_decode :: "string \<Rightarrow> bytes option" where
  "b64_decode s =
     (case those (map b64_val (filter (\<lambda>c. c \<noteq> CHR 0x0A \<and> c \<noteq> CHR 0x0D) s)) of None \<Rightarrow> None | Some vs \<Rightarrow> b64_bytes vs)"

lemma b64_val_char: "n < 64 \<Longrightarrow> b64_val (b64_char n) = Some n"
  by (auto simp: b64_val_def b64_char_def Let_def)

lemma b64_char_newline: "n < 64 \<Longrightarrow> b64_char n \<noteq> CHR 0x0A \<and> b64_char n \<noteq> CHR 0x0D"
proof -
  have "b64_val (CHR 0x0A) = None" "b64_val (CHR 0x0D) = None"
    by (simp_all add: b64_val_def)
  then show "n < 64 \<Longrightarrow> ?thesis"
    using b64_val_char [of n] by auto
qed

lemma of_char_byte [simp]: "(of_char c :: nat) div 4 < 64" "(of_char c :: nat) div 16 < 16" "(of_char c :: nat) div 64 < 4"
  by (rule less_mult_imp_div_less, simp add: of_char_less)+

text \<open>The six-bit groups an encoding is made of, and the bytes they give back.\<close>

fun b64_groups :: "bytes \<Rightarrow> nat list" where
  "b64_groups [] = []"
| "b64_groups [a] = (let x = of_char a in [x div 4, x mod 4 * 16])"
| "b64_groups [a, b] = (let x = of_char a; y = of_char b in [x div 4, x mod 4 * 16 + y div 16, y mod 16 * 4])"
| "b64_groups (a # b # c # s) = (let x = of_char a; y = of_char b; z = of_char c in
     x div 4 # (x mod 4 * 16 + y div 16) # (y mod 16 * 4 + z div 64) # z mod 64 # b64_groups s)"

lemma b64_encode_groups: "b64_encode s = map b64_char (b64_groups s)"
  by (induction s rule: b64_encode.induct) (simp_all add: Let_def)

lemma group_join:
  fixes x y :: nat
  shows "y < 16 \<Longrightarrow> x mod 4 * 16 + y < 64" "y < 4 \<Longrightarrow> x mod 16 * 4 + y < 64"
    "y < 16 \<Longrightarrow> (x div 4) * 4 + (x mod 4 * 16 + y) div 16 = x" "y < 4 \<Longrightarrow> (x mod 16 * 4 + y) div 4 = x mod 16"
    "y < 16 \<Longrightarrow> (x mod 4 * 16 + y) mod 16 = y" "y < 4 \<Longrightarrow> (x mod 16 * 4 + y) mod 4 = y"
proof -
  show "y < 16 \<Longrightarrow> x mod 4 * 16 + y < 64" "y < 4 \<Longrightarrow> x mod 16 * 4 + y < 64"
    using mod_less_divisor [of 4 x] mod_less_divisor [of 16 x] by linarith+
qed simp_all

lemma b64_groups_less: "n \<in> set (b64_groups s) \<Longrightarrow> n < 64"
  by (induction s rule: b64_groups.induct)
    (auto simp: Let_def group_join(1,2) group_join(1,2) [where y = 0, simplified])

lemma b64_bytes_groups: "b64_bytes (b64_groups s) = Some s"
proof (induction s rule: b64_groups.induct)
  case (4 a b c s)
  then show ?case
    by (simp add: Let_def group_join)
qed (simp_all add: Let_def group_join group_join [where y = 0, simplified])

lemma those_Some: "those (map Some xs) = Some xs"
  by (induction xs) auto

lemma b64_decode_encode: "b64_decode (b64_encode s) = Some s"
proof -
  have "map b64_val (filter (\<lambda>c. c \<noteq> CHR 0x0A \<and> c \<noteq> CHR 0x0D) (map b64_char vs)) = map Some vs" if "\<forall>n \<in> set vs. n < 64" for vs
    using that by (induction vs) (auto simp: b64_val_char b64_char_newline)
  then show ?thesis
    using b64_groups_less by (simp add: b64_decode_def b64_encode_groups those_Some b64_bytes_groups)
qed

section \<open>Cursors\<close>

definition UnixMicro :: "instant \<Rightarrow> int" where
  "UnixMicro t = int64 (t div 1000)"

definition encodeCursor :: "instant \<Rightarrow> string \<Rightarrow> string" where
  "encodeCursor t i = b64_encode (FormatInt (UnixMicro t) @ ''|'' @ i)"

definition decodeCursor :: "string \<Rightarrow> err + (instant \<times> string)" where
  "decodeCursor s =
     (case b64_decode s of
        None \<Rightarrow> Inl (ErrOther ''illegal base64 data'')
      | Some raw \<Rightarrow>
          if CHR ''|'' \<notin> set raw then Inl (ErrOther ''malformed cursor'')
          else (case ParseInt (takeWhile (\<lambda>c. c \<noteq> CHR ''|'') raw) of
                  None \<Rightarrow> Inl (ErrOther ''strconv.ParseInt'')
                | Some n \<Rightarrow> Inr (1000 * n, tl (dropWhile (\<lambda>c. c \<noteq> CHR ''|'') raw))))"

lemma FormatInt_no_bar: "CHR ''|'' \<notin> set (FormatInt n)"
proof
  assume "CHR ''|'' \<in> set (FormatInt n)"
  then have "\<exists>m. CHR ''|'' \<in> set (nat_decimal m)"
    by (auto simp: FormatInt_def split: if_splits)
  then have "is_digit (CHR ''|'')"
    using nat_decimal_digits by (metis list_all_iff)
  then show False
    by (simp add: is_digit_def)
qed

lemma decode_encode_cursor_at:
  assumes "- (2 ^ 63) * 1000 \<le> t" "t < 2 ^ 63 * 1000"
  shows "decodeCursor (encodeCursor t i) = Inr (t - t mod 1000, i)"
proof -
  have micro: "UnixMicro t = t div 1000"
    using assms unfolding UnixMicro_def by (intro int64_id) linarith+
  have "ParseInt (FormatInt (t div 1000)) = Some (t div 1000)"
    using assms by (intro ParseInt_FormatInt) linarith+
  moreover have "takeWhile (\<lambda>c. c \<noteq> CHR ''|'') (FormatInt (t div 1000) @ ''|'' @ i) = FormatInt (t div 1000)"
    "dropWhile (\<lambda>c. c \<noteq> CHR ''|'') (FormatInt (t div 1000) @ ''|'' @ i) = CHR ''|'' # i"
    using FormatInt_no_bar [of "t div 1000"] by (auto simp: takeWhile_append takeWhile_eq_all_conv dropWhile_append)
  moreover have "1000 * (t div 1000) = t - t mod 1000"
    by (simp add: minus_mod_eq_mult_div)
  ultimately show ?thesis
    by (simp add: decodeCursor_def encodeCursor_def b64_decode_encode micro)
qed

section \<open>The keyset listing\<close>

text \<open>\<open>ToLower\<close> is \<^verbatim>\<open>strings.ToLower\<close> and \<open>lower_like v p\<close> the server's \<^verbatim>\<open>lower(v) LIKE p\<close>.\<close>

record text_search =
  sx_ToLower :: "string \<Rightarrow> string"
  sx_lower_like :: "string \<Rightarrow> string \<Rightarrow> bool"

definition row_selected :: "text_search \<Rightarrow> db \<Rightarrow> Filter \<Rightarrow> ConfigObject \<Rightarrow> bool" where
  "row_selected sx d f c \<longleftrightarrow>
     (fl_Role f = [] \<or> co_Role c = fl_Role f) \<and>
     (fl_Lifecycle f = [] \<or> co_Lifecycle c = fl_Lifecycle f) \<and>
     (fl_Authority f = [] \<or> co_Authority c = fl_Authority f) \<and>
     (let q = TrimSpace (fl_Query f) in q = [] \<or>
        (let pat = ''%'' @ sx_ToLower sx q @ ''%'' in
         sx_lower_like sx (co_Artifact c) pat \<or>
         (\<exists>(i, k, v) \<in> set (t_configuration_metadata d). i = co_CfgID c \<and> sx_lower_like sx v pat)))"

definition row_position :: "ConfigObject \<Rightarrow> instant \<times> string" where
  "row_position c = (co_CreatedAt c, co_CfgID c)"

definition list_rows :: "text_search \<Rightarrow> db \<Rightarrow> Filter \<Rightarrow> ConfigObject list" where
  "list_rows sx d f = sort_key row_position (filter (row_selected sx d f) (t_configuration_object d))"

definition ConfigObject_List :: "text_search \<Rightarrow> ListParams \<Rightarrow> db \<Rightarrow> err + Page" where
  "ConfigObject_List sx params d =
     (let limit = (if lp_Limit params \<le> 0 then 50 else lp_Limit params) in
      result_bind (if lp_Cursor params = [] then Inr None
                   else result_bind (case decodeCursor (lp_Cursor params) of Inl er \<Rightarrow> Inl (ErrOther ''invalid cursor'') | Inr k \<Rightarrow> Inr k)
                     (\<lambda>k. Inr (Some k))) (\<lambda>after.
        if int64 (limit + 1) < 0 then Inl (ErrOther ''list query'')
        else let items = take (nat (int64 (limit + 1)))
                   (map scanCO (filter (\<lambda>c. case after of None \<Rightarrow> True | Some k \<Rightarrow> k < row_position c) (list_rows sx d (lp_Filter params))));
                 more = limit < int (length items);
                 last_item = items ! nat (limit - 1)
             in Inr \<lparr> pg_Items = map (attachMetadata d) (if more then take (nat limit) items else items),
                      pg_NextCursor = (if more then encodeCursor (co_CreatedAt last_item) (co_CfgID last_item) else []) \<rparr>))"

section \<open>Following the cursors\<close>

fun follow_list :: "nat \<Rightarrow> text_search \<Rightarrow> ListParams \<Rightarrow> db \<Rightarrow> (err + ConfigObject list) option" where
  "follow_list 0 sx p d = None"
| "follow_list (Suc n) sx p d =
     (case ConfigObject_List sx p d of
        Inl er \<Rightarrow> Some (Inl er)
      | Inr page \<Rightarrow>
          if pg_NextCursor page = [] then Some (Inr (pg_Items page))
          else map_option (map_sum id ((@) (pg_Items page))) (follow_list n sx (p\<lparr> lp_Cursor := pg_NextCursor page \<rparr>) d))"

lemma b64_encode_empty [simp]: "b64_encode s = [] \<longleftrightarrow> s = []"
  by (induction s rule: b64_encode.induct) (simp_all add: Let_def)

lemma encodeCursor_nonempty [simp]: "encodeCursor t i \<noteq> []"
  by (simp add: encodeCursor_def)

lemma after_position:
  "sorted_wrt (<) (map k xs) \<Longrightarrow> m < length xs \<Longrightarrow> filter (\<lambda>x. k (xs ! m) < (k x :: 'b :: linorder)) xs = drop (Suc m) xs"
proof (induction xs arbitrary: m)
  case (Cons x xs)
  show ?case
  proof (cases m)
    case 0
    then show ?thesis
      using Cons.prems(1) by (simp add: filter_id_conv)
  next
    case (Suc j)
    then have "k x < k (xs ! j)"
      using Cons.prems by simp
    then have "\<not> k (xs ! j) < k x"
      by simp
    then show ?thesis
      using Cons Suc by simp
  qed
qed simp

lemma list_rows_increasing:
  assumes "db_inv d"
  shows "sorted_wrt (<) (map row_position (list_rows sx d f))"
proof -
  have "distinct (map co_CfgID (filter (row_selected sx d f) (t_configuration_object d)))"
    using assms by (simp add: db_inv_def distinct_map_filter)
  then have "distinct (map row_position (filter (row_selected sx d f) (t_configuration_object d)))"
    by (auto simp: distinct_map inj_on_def row_position_def)
  then have "distinct (map row_position (list_rows sx d f))"
    by (simp add: list_rows_def distinct_map)
  then show ?thesis
    by (simp add: list_rows_def strict_sorted_iff)
qed

definition list_limit :: "ListParams \<Rightarrow> nat" where
  "list_limit p = nat (if lp_Limit p \<le> 0 then 50 else lp_Limit p)"

text \<open>A cursor stands after the first \<open>m\<close> rows.\<close>

definition cursor_at :: "ListParams \<Rightarrow> ConfigObject list \<Rightarrow> nat \<Rightarrow> bool" where
  "cursor_at p rows m \<longleftrightarrow> (if m = 0 then lp_Cursor p = []
     else m \<le> length rows \<and> lp_Cursor p = encodeCursor (co_CreatedAt (rows ! (m - 1))) (co_CfgID (rows ! (m - 1))))"

definition microseconds :: "db \<Rightarrow> bool" where
  "microseconds d \<longleftrightarrow> (\<forall>c \<in> set (t_configuration_object d). co_CreatedAt c mod 1000 = 0 \<and>
     - (2 ^ 63) * 1000 \<le> co_CreatedAt c \<and> co_CreatedAt c < 2 ^ 63 * 1000)"

lemma List_page:
  assumes "db_inv d" "microseconds d" "rows = list_rows sx d (lp_Filter p)" "cursor_at p rows m" "int (list_limit p) + 1 < 2 ^ 63"
  shows "ConfigObject_List sx p d = Inr \<lparr> pg_Items = map (\<lambda>c. attachMetadata d (scanCO c)) (take (list_limit p) (drop m rows)),
    pg_NextCursor = (if m + list_limit p < length rows
      then encodeCursor (co_CreatedAt (rows ! (m + list_limit p - 1))) (co_CfgID (rows ! (m + list_limit p - 1))) else []) \<rparr>"
proof -
  define L where "L = list_limit p"
  have limit: "(if lp_Limit p \<le> 0 then 50 else lp_Limit p) = int L" "0 < L" "int64 (int L + 1) = int (Suc L)"
    using assms(5) by (auto simp: L_def list_limit_def int64_id)
  obtain after where dec: "(if lp_Cursor p = [] then Inr None
        else result_bind (case decodeCursor (lp_Cursor p) of Inl er \<Rightarrow> Inl (ErrOther ''invalid cursor'') | Inr k \<Rightarrow> Inr k) (\<lambda>k. Inr (Some k))) =
      (Inr after :: err + (instant \<times> string) option)"
    and filt: "filter (\<lambda>c. case after of None \<Rightarrow> True | Some k \<Rightarrow> k < row_position c) rows = drop m rows"
  proof (cases "m = 0")
    case True
    then show ?thesis
      using assms(4) that [of None] by (simp add: cursor_at_def)
  next
    case False
    let ?r = "rows ! (m - 1)"
    have "?r \<in> set (t_configuration_object d)"
      using False assms(4) nth_mem [of "m - 1" rows] by (auto simp: assms(3) cursor_at_def list_rows_def)
    then have "decodeCursor (lp_Cursor p) = Inr (row_position ?r)"
      using False assms(2,4) decode_encode_cursor_at [of "co_CreatedAt ?r" "co_CfgID ?r"]
      by (auto simp: cursor_at_def microseconds_def row_position_def)
    moreover have "filter (\<lambda>c. row_position ?r < row_position c) rows = drop m rows"
      using after_position [OF list_rows_increasing [OF assms(1)], of "m - 1" sx "lp_Filter p"] False assms(3,4)
      by (fastforce simp: cursor_at_def)
    ultimately show ?thesis
      using False assms(4) that [of "Some (row_position ?r)"] by (simp add: cursor_at_def)
  qed
  have proj: "co_CreatedAt (scanCO c) = co_CreatedAt c" "co_CfgID (scanCO c) = co_CfgID c" for c
    by (simp_all add: scanCO_def)
  have items: "take (nat (int (Suc L))) (map scanCO (drop m rows)) ! (L - 1) = scanCO (rows ! (m + L - 1))" if "m + L < length rows"
    using that limit(2) by (simp add: add.commute)
  show ?thesis
    unfolding ConfigObject_List_def limit(1) Let_def dec result_bind_simps limit(3) assms(3) [symmetric] filt L_def [symmetric]
    using items limit(2) by (auto simp: proj min_def nat_diff_distrib' take_map comp_def simp del: of_nat_Suc)
qed

lemma follow_list_from:
  assumes "db_inv d" "microseconds d" "rows = list_rows sx d (lp_Filter p)" "cursor_at p rows m" "m \<le> length rows"
    and "int (list_limit p) + 1 < 2 ^ 63" "length rows - m < n"
  shows "follow_list n sx p d = Some (Inr (map (\<lambda>c. attachMetadata d (scanCO c)) (drop m rows)))"
  using assms(3-7)
proof (induction n arbitrary: p m)
  case (Suc n)
  define L where "L = list_limit p"
  have "0 < L"
    by (simp add: L_def list_limit_def)
  note page = List_page [OF assms(1,2) Suc.prems(1,2,4), folded L_def]
  show ?case
  proof (cases "m + L < length rows")
    case True
    let ?p = "p\<lparr> lp_Cursor := encodeCursor (co_CreatedAt (rows ! (m + L - 1))) (co_CfgID (rows ! (m + L - 1))) \<rparr>"
    have "follow_list n sx ?p d = Some (Inr (map (\<lambda>c. attachMetadata d (scanCO c)) (drop (m + L) rows)))"
      using Suc.prems True \<open>0 < L\<close> by (intro Suc.IH) (auto simp: cursor_at_def list_limit_def L_def)
    then show ?thesis
      using page True by (simp flip: map_append) (metis add.commute append_take_drop_id drop_drop)
  next
    case False
    then show ?thesis
      using page by simp
  qed
qed simp

text \<open>C29: following the cursors of a listing from the first page ends and yields every object that the filter selects exactly
  once, in the order of creation time and id, whatever the page size.\<close>

theorem list_pages_complete:
  assumes "reachable pg d" "microseconds d" "lp_Cursor p = []" "lp_Limit p < 2 ^ 63 - 1"
  shows "follow_list (Suc (length (t_configuration_object d))) sx p d =
    Some (Inr (map (\<lambda>c. attachMetadata d (scanCO c))
      (sort_key row_position (filter (row_selected sx d (lp_Filter p)) (t_configuration_object d)))))"
proof -
  have "length (list_rows sx d (lp_Filter p)) \<le> length (t_configuration_object d)"
    by (simp add: list_rows_def)
  moreover have "int (list_limit p) + 1 < 2 ^ 63"
    using assms(4) by (auto simp: list_limit_def)
  ultimately show ?thesis
    using follow_list_from [OF reachable_db_inv [OF assms(1)] assms(2) refl, where p = p and m = 0 and sx = sx] assms(3)
    by (simp add: cursor_at_def list_rows_def le_imp_less_Suc del: follow_list.simps)
qed

theorem list_pages_complete_witness:
  "follow_list 2 \<lparr> sx_ToLower = (\<lambda>s. s), sx_lower_like = (\<lambda>v p. True) \<rparr>
     \<lparr> lp_Filter = \<lparr> fl_Role = [], fl_Lifecycle = [], fl_Authority = [], fl_Query = [] \<rparr>, lp_Limit = 1, lp_Cursor = [] \<rparr> sample_db =
   Some (Inr [attachMetadata sample_db (scanCO sample_object)])"
proof -
  have micro: "microseconds sample_db"
    by (simp add: microseconds_def sample_db_def sample_object_def)
  have one: "t_configuration_object sample_db = [sample_object]"
    by (simp add: sample_db_def empty_db_def)
  show ?thesis
    using list_pages_complete [OF sample_reachable micro, of "\<lparr> lp_Filter = \<lparr> fl_Role = [], fl_Lifecycle = [], fl_Authority = [],
        fl_Query = [] \<rparr>, lp_Limit = 1, lp_Cursor = [] \<rparr>" "\<lparr> sx_ToLower = (\<lambda>s. s), sx_lower_like = (\<lambda>v p. True) \<rparr>"]
    by (simp add: one row_selected_def numeral_2_eq_2 del: follow_list.simps)
qed

end
