(* ===== verification/Access.thy ===== *)
theory Access
  imports Http Configuration Listing
begin

text \<open>
  Who may call what: bearer tokens (\<^verbatim>\<open>internal/auth/jwt.go\<close>), roles (\<^verbatim>\<open>internal/auth/rbac.go\<close>), the two access
  middlewares (\<^verbatim>\<open>httpapi/middleware.go\<close>) and the table of the \<^verbatim>\<open>/v1\<close> routes (\<^verbatim>\<open>httpapi/server.go\<close>).

  The JWT package is a parameter: \<open>ax_Parse\<close> is \<^verbatim>\<open>jwt.Parse\<close> with the four options the code passes, threading
  the verifier because the key function may refresh its cache.  \<open>jwt_contract\<close> states what the package documents:
  a token is returned only if its method is allowed, the key function gave a key under which the signature
  holds, the issuer and the audience are the required ones and the token has not expired.  \<open>ax_Get\<close> is the HTTP
  fetch of the key set and \<open>ax_now\<close> the clock.
\<close>

section \<open>Keys and verifiers\<close>

record rsa_key =
  rk_N :: nat
  rk_E :: int

datatype verify_key = HMACKey bytes | RSAKey rsa_key

record jwksCache =
  jc_url :: string
  jc_keys :: "(string \<times> rsa_key) list"
  jc_fetchedAt :: instant
  jc_ttl :: duration

record Verifier =
  vf_issuer :: string
  vf_audience :: string
  vf_hmacKey :: bytes
  vf_jwks :: "jwksCache option"

record jwt_token =
  tk_Alg :: string
  tk_Header :: "(string \<times> json) list"
  tk_Claims :: "(string \<times> json) list"

record auth_env =
  ax_now :: instant
  ax_Get :: "string \<Rightarrow> err + (int \<times> bytes)"
  ax_Parse :: "(jwt_token \<Rightarrow> Verifier \<Rightarrow> (err + verify_key) \<times> Verifier) \<Rightarrow> string list \<Rightarrow> string \<Rightarrow> string \<Rightarrow>
     string \<Rightarrow> Verifier \<Rightarrow> (err + jwt_token) \<times> Verifier"

definition newJWKSCache :: "string \<Rightarrow> jwksCache" where
  "newJWKSCache url = \<lparr> jc_url = url, jc_keys = [], jc_fetchedAt = zero_time, jc_ttl = 15 * Minute \<rparr>"

definition NewVerifier :: "string \<Rightarrow> string \<Rightarrow> string \<Rightarrow> string \<Rightarrow> Verifier" where
  "NewVerifier issuer audience hmacKey jwksURL =
     \<lparr> vf_issuer = issuer, vf_audience = audience, vf_hmacKey = hmacKey,
       vf_jwks = (if jwksURL \<noteq> [] then Some (newJWKSCache jwksURL) else None) \<rparr>"

section \<open>The key set\<close>

record jwk =
  jk_Kid :: string
  jk_Kty :: string
  jk_N :: string
  jk_E :: string

definition jwk_fields :: "jwk fields" where
  "jwk_fields = [(''kid'', string_field (\<lambda>x k. k\<lparr> jk_Kid := x \<rparr>)), (''kty'', string_field (\<lambda>x k. k\<lparr> jk_Kty := x \<rparr>)),
     (''n'', string_field (\<lambda>x k. k\<lparr> jk_N := x \<rparr>)), (''e'', string_field (\<lambda>x k. k\<lparr> jk_E := x \<rparr>))]"

definition zero_jwk :: jwk where
  "zero_jwk = \<lparr> jk_Kid = [], jk_Kty = [], jk_N = [], jk_E = [] \<rparr>"

text \<open>The modulus is unbounded; the exponent is accumulated in a 64-bit \<^verbatim>\<open>int\<close>.\<close>

definition toRSA :: "jwk \<Rightarrow> err + rsa_key" where
  "toRSA k =
     (case b64_decode (jk_N k) of None \<Rightarrow> Inl (ErrOther ''decode modulus'')
      | Some nb \<Rightarrow>
     (case b64_decode (jk_E k) of None \<Rightarrow> Inl (ErrOther ''decode exponent'')
      | Some eb \<Rightarrow> Inr \<lparr> rk_N = foldl (\<lambda>n b. 256 * n + byte b) 0 nb,
                        rk_E = foldl (\<lambda>e b. int64 (256 * e) + int (byte b)) 0 eb \<rparr>))"

fun read_keys :: "jwk list \<Rightarrow> (string \<times> rsa_key) list \<Rightarrow> err + (string \<times> rsa_key) list" where
  "read_keys [] acc = Inr acc"
| "read_keys (k # ks) acc =
     (if jk_Kty k \<noteq> ''RSA'' then read_keys ks acc
      else result_bind (toRSA k) (\<lambda>pub. read_keys ks (map_put (jk_Kid k) pub acc)))"

definition refresh :: "auth_env \<Rightarrow> jwksCache \<Rightarrow> err + jwksCache" where
  "refresh ax c =
     (case ax_Get ax (jc_url c) of
        Inl er \<Rightarrow> Inl (ErrOther ''fetch jwks'')
      | Inr (status, body) \<Rightarrow>
          if status \<noteq> 200 then Inl (ErrOther (''jwks endpoint returned '' @ FormatInt status))
          else (case decode_body [(''keys'', structs_field jwk_fields zero_jwk (\<lambda>ks _. ks))] [] body of
              (ks, Some er) \<Rightarrow> Inl (ErrOther ''decode jwks'')
            | (ks, None) \<Rightarrow>
                result_bind (read_keys ks []) (\<lambda>keys. Inr (c\<lparr> jc_keys := keys, jc_fetchedAt := ax_now ax \<rparr>))))"

definition jwks_key :: "auth_env \<Rightarrow> string \<Rightarrow> jwksCache \<Rightarrow> (err + rsa_key) \<times> jwksCache" where
  "jwks_key ax kid c =
     (case (map_of (jc_keys c) kid, ax_now ax - jc_fetchedAt c < jc_ttl c) of
        (Some k, True) \<Rightarrow> (Inr k, c)
      | _ \<Rightarrow> (case refresh ax c of
            Inl er \<Rightarrow> (Inl er, c)
          | Inr c' \<Rightarrow> (case map_of (jc_keys c') kid of
                Some k \<Rightarrow> (Inr k, c')
              | None \<Rightarrow> (Inl (ErrOther ''unknown key id''), c'))))"

section \<open>Verification\<close>

text \<open>The type assertion \<^verbatim>\<open>v.(string)\<close>, with the zero value when it fails.\<close>

definition as_string :: "json option \<Rightarrow> string" where
  "as_string v = (case v of Some (JStr s) \<Rightarrow> s | _ \<Rightarrow> [])"

definition keyfunc :: "auth_env \<Rightarrow> jwt_token \<Rightarrow> Verifier \<Rightarrow> (err + verify_key) \<times> Verifier" where
  "keyfunc ax t v =
     (if tk_Alg t = ''HS256'' then
        if length (vf_hmacKey v) = 0 then (Inl (ErrOther ''HS256 tokens not accepted''), v)
        else (Inr (HMACKey (vf_hmacKey v)), v)
      else if tk_Alg t = ''RS256'' then
        (case vf_jwks v of
           None \<Rightarrow> (Inl (ErrOther ''RS256 tokens not accepted''), v)
         | Some c \<Rightarrow> (case jwks_key ax (as_string (map_of (tk_Header t) ''kid'')) c of
               (k, c') \<Rightarrow> (map_sum id RSAKey k, v\<lparr> vf_jwks := Some c' \<rparr>)))
      else (Inl (ErrOther (''unexpected signing method '' @ tk_Alg t)), v))"

definition parseRoles :: "json option \<Rightarrow> string list" where
  "parseRoles v = (case v of
       Some (JArr vs) \<Rightarrow> concat (map (\<lambda>r. case r of JStr s \<Rightarrow> [s] | _ \<Rightarrow> []) vs)
     | Some (JStr s) \<Rightarrow> if s = [] then [] else [s]
     | _ \<Rightarrow> [])"

definition token_claims :: "jwt_token \<Rightarrow> err + Claims" where
  "token_claims t =
     (let mc = map_of (tk_Claims t);
          sub = as_string (mc ''sub'');
          tenant = (if as_string (mc ''tenant'') = [] then as_string (mc ''tid'') else as_string (mc ''tenant''))
      in if sub = [] then Inl (ErrOther ''missing subject claim'')
         else Inr \<lparr> cl_Subject = sub, cl_Roles = parseRoles (mc ''roles''), cl_Tenant = tenant \<rparr>)"

definition Verifier_Verify :: "auth_env \<Rightarrow> Verifier \<Rightarrow> string \<Rightarrow> (err + Claims) \<times> Verifier" where
  "Verifier_Verify ax v raw =
     (case ax_Parse ax (keyfunc ax) [''HS256'', ''RS256''] (vf_issuer v) (vf_audience v) raw v of
        (Inl er, v') \<Rightarrow> (Inl (ErrOther ''token verification failed''), v')
      | (Inr t, v') \<Rightarrow> (token_claims t, v'))"

section \<open>Roles and permissions\<close>

abbreviation PermRead :: string where "PermRead \<equiv> ''artifacts:read''"
abbreviation PermWrite :: string where "PermWrite \<equiv> ''artifacts:write''"
abbreviation PermDelete :: string where "PermDelete \<equiv> ''artifacts:delete''"
abbreviation PermAdmin :: string where "PermAdmin \<equiv> ''artifacts:admin''"

definition rolePermissions :: "string \<Rightarrow> string list" where
  "rolePermissions role =
     (if role = ''oneops-reader'' then [PermRead]
      else if role = ''oneops-editor'' then [PermRead, PermWrite]
      else if role = ''oneops-admin'' then [PermRead, PermWrite, PermDelete, PermAdmin]
      else [])"

definition HasPermission :: "string list \<Rightarrow> string \<Rightarrow> bool" where
  "HasPermission roles perm \<longleftrightarrow> list_ex (\<lambda>role. list_ex (\<lambda>p. p = perm \<or> p = PermAdmin) (rolePermissions role)) roles"

section \<open>The access middlewares\<close>

definition authenticate :: "Config \<Rightarrow> auth_env \<Rightarrow> 's handler \<Rightarrow> (Verifier \<times> 's) handler" where
  "authenticate cfg ax next r = (\<lambda>(v, s).
     if \<not> cf_AuthEnabled cfg then
       (case next (withClaims \<lparr> cl_Subject = ''system'', cl_Roles = [''oneops-admin''], cl_Tenant = [] \<rparr> r) s of
          (p, s') \<Rightarrow> (p, v, s'))
     else
       let h = Header_Get r ''Authorization'' in
       if \<not> prefix ''Bearer '' h then (Replied (writeProblem r 401 ''unauthorized'' ''missing bearer token''), v, s)
       else (case Verifier_Verify ax v (drop (length ''Bearer '') h) of
           (Inl er, v') \<Rightarrow> (Replied (writeProblem r 401 ''unauthorized'' ''invalid token''), v', s)
         | (Inr claims, v') \<Rightarrow> (case next (withClaims claims r) s of (p, s') \<Rightarrow> (p, v', s'))))"

definition requirePermission :: "string \<Rightarrow> 's handler \<Rightarrow> 's handler" where
  "requirePermission perm next r s = (case ClaimsFrom r of
       None \<Rightarrow> (Replied (writeProblem r 401 ''unauthorized'' ''no identity''), s)
     | Some claims \<Rightarrow>
         if \<not> HasPermission (cl_Roles claims) perm
         then (Replied (writeProblem r 403 ''forbidden'' (''missing permission: '' @ perm)), s)
         else next r s)"

section \<open>The routes\<close>

text \<open>The routes below \<^verbatim>\<open>/v1\<close> in the order they are registered; an endpoint is named by its handler.\<close>

record route =
  rt_Method :: string
  rt_Pattern :: string
  rt_Perm :: string
  rt_Endpoint :: string

definition v1_routes :: "route list" where
  "v1_routes = [
     \<lparr> rt_Method = ''GET'', rt_Pattern = ''/artifacts'', rt_Perm = PermRead, rt_Endpoint = ''listArtifacts'' \<rparr>,
     \<lparr> rt_Method = ''GET'', rt_Pattern = ''/artifacts/{id}'', rt_Perm = PermRead, rt_Endpoint = ''getArtifact'' \<rparr>,
     \<lparr> rt_Method = ''POST'', rt_Pattern = ''/artifacts'', rt_Perm = PermWrite, rt_Endpoint = ''createArtifact'' \<rparr>,
     \<lparr> rt_Method = ''POST'', rt_Pattern = ''/artifacts/bulk'', rt_Perm = PermWrite, rt_Endpoint = ''bulkCreateArtifacts'' \<rparr>,
     \<lparr> rt_Method = ''PATCH'', rt_Pattern = ''/artifacts/{id}'', rt_Perm = PermWrite, rt_Endpoint = ''patchArtifact'' \<rparr>,
     \<lparr> rt_Method = ''DELETE'', rt_Pattern = ''/artifacts/{id}'', rt_Perm = PermDelete, rt_Endpoint = ''deleteArtifact'' \<rparr>,
     \<lparr> rt_Method = ''GET'', rt_Pattern = ''/configurations/{cfgId}/dependencies'', rt_Perm = PermRead, rt_Endpoint = ''getDependencies'' \<rparr>,
     \<lparr> rt_Method = ''GET'', rt_Pattern = ''/configurations/{cfgId}/dependents'', rt_Perm = PermRead, rt_Endpoint = ''getDependents'' \<rparr>,
     \<lparr> rt_Method = ''GET'', rt_Pattern = ''/configurations/{cfgId}/cycles'', rt_Perm = PermRead, rt_Endpoint = ''getCycles'' \<rparr>,
     \<lparr> rt_Method = ''POST'', rt_Pattern = ''/governance/{id}/ratify'', rt_Perm = PermWrite, rt_Endpoint = ''ratifyGovernance'' \<rparr>,
     \<lparr> rt_Method = ''POST'', rt_Pattern = ''/governance/{id}/approve'', rt_Perm = PermWrite, rt_Endpoint = ''approveGovernance'' \<rparr>,
     \<lparr> rt_Method = ''POST'', rt_Pattern = ''/governance/{id}/extend'', rt_Perm = PermWrite, rt_Endpoint = ''extendGovernance'' \<rparr>,
     \<lparr> rt_Method = ''POST'', rt_Pattern = ''/governance/{id}/suspend'', rt_Perm = PermWrite, rt_Endpoint = ''suspendGovernance'' \<rparr>,
     \<lparr> rt_Method = ''POST'', rt_Pattern = ''/governance/{id}/deprecate'', rt_Perm = PermWrite, rt_Endpoint = ''deprecateGovernance'' \<rparr>,
     \<lparr> rt_Method = ''POST'', rt_Pattern = ''/governance/{id}/withdraw'', rt_Perm = PermWrite, rt_Endpoint = ''withdrawGovernance'' \<rparr>,
     \<lparr> rt_Method = ''POST'', rt_Pattern = ''/governance/{id}/archive'', rt_Perm = PermWrite, rt_Endpoint = ''archiveGovernance'' \<rparr>,
     \<lparr> rt_Method = ''DELETE'', rt_Pattern = ''/governance/{id}'', rt_Perm = PermDelete, rt_Endpoint = ''deleteGovernance'' \<rparr>,
     \<lparr> rt_Method = ''GET'', rt_Pattern = ''/governance/{id}'', rt_Perm = PermRead, rt_Endpoint = ''getGovernanceState'' \<rparr>,
     \<lparr> rt_Method = ''GET'', rt_Pattern = ''/governance/{id}/history'', rt_Perm = PermRead, rt_Endpoint = ''getGovernanceHistory'' \<rparr>,
     \<lparr> rt_Method = ''GET'', rt_Pattern = ''/governance/{id}/audit'', rt_Perm = PermRead, rt_Endpoint = ''getAuditChain'' \<rparr>,
     \<lparr> rt_Method = ''GET'', rt_Pattern = ''/governance/{id}/audit/events'', rt_Perm = PermRead, rt_Endpoint = ''getAuditEvents'' \<rparr>,
     \<lparr> rt_Method = ''GET'', rt_Pattern = ''/governance/{id}/verification'', rt_Perm = PermRead, rt_Endpoint = ''getVerification'' \<rparr>,
     \<lparr> rt_Method = ''GET'', rt_Pattern = ''/admin/status'', rt_Perm = PermAdmin, rt_Endpoint = ''adminStatus'' \<rparr>,
     \<lparr> rt_Method = ''GET'', rt_Pattern = ''/admin/integrity'', rt_Perm = PermAdmin, rt_Endpoint = ''adminIntegrity'' \<rparr>,
     \<lparr> rt_Method = ''POST'', rt_Pattern = ''/admin/integrity/run'', rt_Perm = PermAdmin, rt_Endpoint = ''adminIntegrityRun'' \<rparr>,
     \<lparr> rt_Method = ''GET'', rt_Pattern = ''/admin/metrics'', rt_Perm = PermAdmin, rt_Endpoint = ''adminMetrics'' \<rparr>,
     \<lparr> rt_Method = ''GET'', rt_Pattern = ''/admin/config'', rt_Perm = PermAdmin, rt_Endpoint = ''adminConfig'' \<rparr>,
     \<lparr> rt_Method = ''GET'', rt_Pattern = ''/admin/report'', rt_Perm = PermAdmin, rt_Endpoint = ''adminReport'' \<rparr>,
     \<lparr> rt_Method = ''GET'', rt_Pattern = ''/admin/webhooks'', rt_Perm = PermAdmin, rt_Endpoint = ''listWebhooks'' \<rparr>,
     \<lparr> rt_Method = ''POST'', rt_Pattern = ''/admin/webhooks'', rt_Perm = PermAdmin, rt_Endpoint = ''createWebhook'' \<rparr>,
     \<lparr> rt_Method = ''PATCH'', rt_Pattern = ''/admin/webhooks/{id}'', rt_Perm = PermAdmin, rt_Endpoint = ''patchWebhook'' \<rparr>,
     \<lparr> rt_Method = ''DELETE'', rt_Pattern = ''/admin/webhooks/{id}'', rt_Perm = PermAdmin, rt_Endpoint = ''deleteWebhook'' \<rparr>,
     \<lparr> rt_Method = ''POST'', rt_Pattern = ''/admin/webhooks/{id}/test'', rt_Perm = PermAdmin, rt_Endpoint = ''testWebhook'' \<rparr>,
     \<lparr> rt_Method = ''GET'', rt_Pattern = ''/admin/webhooks/{id}/deliveries'', rt_Perm = PermAdmin, rt_Endpoint = ''listWebhookDeliveries'' \<rparr>,
     \<lparr> rt_Method = ''GET'', rt_Pattern = ''/admin/webhooks/deadletters'', rt_Perm = PermAdmin, rt_Endpoint = ''listDeadLetters'' \<rparr>,
     \<lparr> rt_Method = ''POST'', rt_Pattern = ''/admin/webhooks/deadletters/retry'', rt_Perm = PermAdmin, rt_Endpoint = ''retryDeadLetters'' \<rparr>,
     \<lparr> rt_Method = ''GET'', rt_Pattern = ''/admin/webhooks/replay/jobs'', rt_Perm = PermAdmin, rt_Endpoint = ''listReplayJobs'' \<rparr>,
     \<lparr> rt_Method = ''GET'', rt_Pattern = ''/admin/webhooks/replay/jobs/{jobID}'', rt_Perm = PermAdmin, rt_Endpoint = ''getReplayJob'' \<rparr>,
     \<lparr> rt_Method = ''POST'', rt_Pattern = ''/admin/webhooks/{id}/replay'', rt_Perm = PermAdmin, rt_Endpoint = ''replayWebhook'' \<rparr>,
     \<lparr> rt_Method = ''GET'', rt_Pattern = ''/admin/webhooks/{id}/deliveries/{deliveryID}'', rt_Perm = PermAdmin, rt_Endpoint = ''getDelivery'' \<rparr>,
     \<lparr> rt_Method = ''POST'', rt_Pattern = ''/admin/webhooks/{id}/deliveries/{deliveryID}/retry'', rt_Perm = PermAdmin, rt_Endpoint = ''retryDelivery'' \<rparr>,
     \<lparr> rt_Method = ''GET'', rt_Pattern = ''/admin/policies'', rt_Perm = PermAdmin, rt_Endpoint = ''listPolicies'' \<rparr>,
     \<lparr> rt_Method = ''POST'', rt_Pattern = ''/admin/policies'', rt_Perm = PermAdmin, rt_Endpoint = ''createPolicy'' \<rparr>,
     \<lparr> rt_Method = ''PATCH'', rt_Pattern = ''/admin/policies/{id}'', rt_Perm = PermAdmin, rt_Endpoint = ''patchPolicy'' \<rparr>,
     \<lparr> rt_Method = ''DELETE'', rt_Pattern = ''/admin/policies/{id}'', rt_Perm = PermAdmin, rt_Endpoint = ''deletePolicy'' \<rparr>,
     \<lparr> rt_Method = ''GET'', rt_Pattern = ''/admin/policies/{id}/executions'', rt_Perm = PermAdmin, rt_Endpoint = ''listPolicyExecutions'' \<rparr>,
     \<lparr> rt_Method = ''POST'', rt_Pattern = ''/admin/policies/{id}/test'', rt_Perm = PermAdmin, rt_Endpoint = ''testPolicy'' \<rparr>,
     \<lparr> rt_Method = ''GET'', rt_Pattern = ''/admin/timeline/{eventID}'', rt_Perm = PermAdmin, rt_Endpoint = ''getEventTimeline'' \<rparr>,
     \<lparr> rt_Method = ''GET'', rt_Pattern = ''/admin/governance/{id}/timeline'', rt_Perm = PermAdmin, rt_Endpoint = ''getGovernanceTimeline'' \<rparr>,
     \<lparr> rt_Method = ''GET'', rt_Pattern = ''/admin/replay/{jobID}/timeline'', rt_Perm = PermAdmin, rt_Endpoint = ''getReplayTimeline'' \<rparr>,
     \<lparr> rt_Method = ''GET'', rt_Pattern = ''/admin/policies/{id}/timeline'', rt_Perm = PermAdmin, rt_Endpoint = ''getPolicyTimeline'' \<rparr>,
     \<lparr> rt_Method = ''GET'', rt_Pattern = ''/admin/compliance/reports'', rt_Perm = PermAdmin, rt_Endpoint = ''getComplianceReports'' \<rparr>,
     \<lparr> rt_Method = ''GET'', rt_Pattern = ''/admin/compliance/{governanceID}'', rt_Perm = PermAdmin, rt_Endpoint = ''getComplianceSummary'' \<rparr>,
     \<lparr> rt_Method = ''GET'', rt_Pattern = ''/admin/compliance/{governanceID}/evidence'', rt_Perm = PermAdmin, rt_Endpoint = ''getComplianceEvidence'' \<rparr>,
     \<lparr> rt_Method = ''GET'', rt_Pattern = ''/admin/compliance/{governanceID}/checks'', rt_Perm = PermAdmin, rt_Endpoint = ''getComplianceChecks'' \<rparr>]"

section \<open>What an accepted token proves\<close>

text \<open>The audience claim is a string or a list of strings.\<close>

definition token_audience :: "jwt_token \<Rightarrow> string set" where
  "token_audience t = (case map_of (tk_Claims t) ''aud'' of
       Some (JStr a) \<Rightarrow> {a}
     | Some (JArr vs) \<Rightarrow> {a. JStr a \<in> set vs}
     | _ \<Rightarrow> {})"

definition jwt_contract :: "auth_env \<Rightarrow> (string \<Rightarrow> string \<Rightarrow> verify_key \<Rightarrow> bool) \<Rightarrow> (jwt_token \<Rightarrow> bool) \<Rightarrow> bool" where
  "jwt_contract ax sig_ok unexpired \<longleftrightarrow>
     (\<forall>kf methods iss aud raw v t v'. ax_Parse ax kf methods iss aud raw v = (Inr t, v') \<longrightarrow>
        tk_Alg t \<in> set methods \<and> (\<exists>k. kf t v = (Inr k, v') \<and> sig_ok raw (tk_Alg t) k) \<and>
        (iss \<noteq> [] \<longrightarrow> map_of (tk_Claims t) ''iss'' = Some (JStr iss)) \<and> (aud \<noteq> [] \<longrightarrow> aud \<in> token_audience t) \<and>
        unexpired t) \<and>
     (\<forall>kf methods iss aud raw v er v'. ax_Parse ax kf methods iss aud raw v = (Inl er, v') \<longrightarrow>
        v' = v \<or> (\<exists>t. v' = snd (kf t v)))"

text \<open>The verifier the server is wired with; only the cached keys change.\<close>

definition verifier_for :: "Config \<Rightarrow> Verifier \<Rightarrow> bool" where
  "verifier_for cfg v \<longleftrightarrow> vf_issuer v = cf_JWTIssuer cfg \<and> vf_audience v = cf_JWTAudience cfg \<and>
     vf_hmacKey v = cf_JWTHMACKey cfg \<and> map_option jc_url (vf_jwks v) = (if cf_JWKSURL cfg = [] then None else Some (cf_JWKSURL cfg))"

lemma verifier_for_NewVerifier:
  "verifier_for cfg (NewVerifier (cf_JWTIssuer cfg) (cf_JWTAudience cfg) (cf_JWTHMACKey cfg) (cf_JWKSURL cfg))"
  by (simp add: verifier_for_def NewVerifier_def newJWKSCache_def)

lemma refresh_url: "refresh ax c = Inr c' \<Longrightarrow> jc_url c' = jc_url c"
  by (auto simp: refresh_def result_bind_Inr split: sum.splits prod.splits if_splits option.splits)

lemma jwks_key_url: "jwks_key ax kid c = (k, c') \<Longrightarrow> jc_url c' = jc_url c"
  by (auto simp: jwks_key_def refresh_url split: option.splits bool.splits sum.splits)

lemma jwks_key_found: "jwks_key ax kid c = (Inr k, c') \<Longrightarrow> (kid, k) \<in> set (jc_keys c')"
  by (auto simp: jwks_key_def dest: map_of_SomeD split: option.splits bool.splits sum.splits)

lemma verifier_for_keyfunc: "verifier_for cfg v \<Longrightarrow> verifier_for cfg (snd (keyfunc ax t v))"
  by (auto simp: keyfunc_def verifier_for_def dest: jwks_key_url split: option.splits prod.splits if_splits)

text \<open>The keys the verifier accepts: the configured secret, or a key of the fetched key set.\<close>

definition trusted_key :: "Config \<Rightarrow> Verifier \<Rightarrow> string \<Rightarrow> verify_key \<Rightarrow> bool" where
  "trusted_key cfg v alg k \<longleftrightarrow>
     (alg = ''HS256'' \<and> k = HMACKey (cf_JWTHMACKey cfg) \<and> cf_JWTHMACKey cfg \<noteq> []) \<or>
     (alg = ''RS256'' \<and> (\<exists>c kid key. vf_jwks v = Some c \<and> jc_url c = cf_JWKSURL cfg \<and> (kid, key) \<in> set (jc_keys c) \<and> k = RSAKey key))"

lemma keyfunc_trusted:
  assumes "keyfunc ax t v = (Inr k, v')" "verifier_for cfg v"
  shows "trusted_key cfg v' (tk_Alg t) k"
proof (cases "tk_Alg t = ''HS256''")
  case True
  then show ?thesis
    using assms by (auto simp: keyfunc_def verifier_for_def trusted_key_def split: if_splits)
next
  case False
  then have rs: "tk_Alg t = ''RS256''"
    using assms(1) by (simp add: keyfunc_def split: if_splits)
  obtain c c' key where c: "vf_jwks v = Some c" "jwks_key ax (as_string (map_of (tk_Header t) ''kid'')) c = (Inr key, c')"
    "k = RSAKey key" "v' = v\<lparr> vf_jwks := Some c' \<rparr>"
    using assms(1) rs by (auto simp: keyfunc_def map_sum_def split: option.splits prod.splits sum.splits)
  have "jc_url c = cf_JWKSURL cfg"
    using assms(2) c(1) by (simp add: verifier_for_def split: if_splits)
  then show ?thesis
    using rs c(3,4) jwks_key_url [OF c(2)] jwks_key_found [OF c(2)] by (auto simp: trusted_key_def)
qed

lemma Verifier_Verify_accepts:
  assumes "jwt_contract ax sig_ok unexpired" "verifier_for cfg v" "Verifier_Verify ax v raw = (Inr claims, v')"
  shows "\<exists>t k. token_claims t = Inr claims \<and> sig_ok raw (tk_Alg t) k \<and> trusted_key cfg v' (tk_Alg t) k \<and> unexpired t \<and>
    (cf_JWTIssuer cfg \<noteq> [] \<longrightarrow> map_of (tk_Claims t) ''iss'' = Some (JStr (cf_JWTIssuer cfg))) \<and>
    (cf_JWTAudience cfg \<noteq> [] \<longrightarrow> cf_JWTAudience cfg \<in> token_audience t)"
proof -
  obtain t where t: "ax_Parse ax (keyfunc ax) [''HS256'', ''RS256''] (vf_issuer v) (vf_audience v) raw v = (Inr t, v')"
    "token_claims t = Inr claims"
    using assms(3) by (auto simp: Verifier_Verify_def split: prod.splits sum.splits)
  have parse: "tk_Alg t \<in> set methods \<and> (\<exists>k. kf t v = (Inr k, v') \<and> sig_ok raw (tk_Alg t) k) \<and>
        (iss \<noteq> [] \<longrightarrow> map_of (tk_Claims t) ''iss'' = Some (JStr iss)) \<and> (aud \<noteq> [] \<longrightarrow> aud \<in> token_audience t) \<and> unexpired t"
    if "ax_Parse ax kf methods iss aud raw v = (Inr t, v')" for kf methods iss aud
    using assms(1) that unfolding jwt_contract_def by blast
  then obtain k where k: "keyfunc ax t v = (Inr k, v')" "sig_ok raw (tk_Alg t) k"
    using t(1) by blast
  then show ?thesis
    using parse [OF t(1)] t(2) keyfunc_trusted [OF k(1) assms(2)] assms(2) by (auto simp: verifier_for_def)
qed

lemma verifier_for_Verify:
  assumes "jwt_contract ax sig_ok unexpired" "verifier_for cfg v" "Verifier_Verify ax v raw = (res, v')"
  shows "verifier_for cfg v'"
proof -
  obtain q where q: "ax_Parse ax (keyfunc ax) [''HS256'', ''RS256''] (vf_issuer v) (vf_audience v) raw v = (q, v')"
    using assms(3) by (auto simp: Verifier_Verify_def split: prod.splits sum.splits)
  have "v' = v \<or> (\<exists>t. v' = snd (keyfunc ax t v))"
  proof (cases q)
    case (Inl er)
    then show ?thesis
      using q assms(1) unfolding jwt_contract_def by blast
  next
    case (Inr t)
    then have "\<exists>k. keyfunc ax t v = (Inr k, v')"
      using q assms(1) unfolding jwt_contract_def by blast
    then show ?thesis
      by (metis snd_conv)
  qed
  then show ?thesis
    using assms(2) verifier_for_keyfunc by blast
qed

section \<open>Authorized requests\<close>

lemma requirePermission_cases:
  assumes "requirePermission perm h r s = (p, s')"
  obtains (refused) status title detail where "p = Replied (writeProblem r status title detail)" "status \<in> {401, 403}" "s' = s"
    | (granted) claims where "ClaimsFrom r = Some claims" "HasPermission (cl_Roles claims) perm" "h r s = (p, s')"
  using assms by (auto simp: requirePermission_def split: option.splits if_splits)

lemma claims_withClaims [simp]: "ClaimsFrom (withClaims c r) = Some c"
  by (simp add: withClaims_def ClaimsFrom_def)

lemma writeProblem_withClaims [simp]: "writeProblem (withClaims c r) status title detail = writeProblem r status title detail"
  by (simp add: writeProblem_def withClaims_def RequestIDFrom_def)

lemma drop_Bearer: "prefix ''Bearer '' h \<Longrightarrow> h = ''Bearer '' @ drop (length ''Bearer '') h"
  by (auto simp: prefix_def)

text \<open>C33: in a production configuration no request reaches a protected handler without authority.  Either the server
  answers 401 or 403 and the state behind the handler is unchanged, or the request carries a bearer token that is signed
  under the configured secret, which is not the development default, or under a key of the configured key set; that has
  not expired and names the configured issuer and audience; and whose roles grant the permission of the route; and then
  the handler runs with the claims of that token.\<close>

theorem production_requests_authorized:
  assumes "Load env = Inr cfg" "IsProduction cfg" "jwt_contract ax sig_ok unexpired" "verifier_for cfg v"
    and "authenticate cfg ax (requirePermission perm h) r (v, s) = (p, v', s')"
  shows "verifier_for cfg v' \<and>
    ((\<exists>status title detail. p = Replied (writeProblem r status title detail) \<and> status \<in> {401, 403} \<and> s' = s) \<or>
     (\<exists>raw t k claims. Header_Get r ''Authorization'' = ''Bearer '' @ raw \<and> sig_ok raw (tk_Alg t) k \<and>
        trusted_key cfg v' (tk_Alg t) k \<and> k \<noteq> HMACKey devJWTHMACKey \<and> unexpired t \<and>
        map_of (tk_Claims t) ''iss'' = Some (JStr (cf_JWTIssuer cfg)) \<and> cf_JWTAudience cfg \<in> token_audience t \<and>
        token_claims t = Inr claims \<and> HasPermission (cl_Roles claims) perm \<and> h (withClaims claims r) s = (p, s')))"
proof (cases "prefix ''Bearer '' (Header_Get r ''Authorization'')")
  case False
  then show ?thesis
    using assms(4,5) Load_production(1) [OF assms(1,2)] by (auto simp: authenticate_def Let_def)
next
  case bearer: True
  let ?raw = "drop (length ''Bearer '') (Header_Get r ''Authorization'')"
  obtain res v1 where ver: "Verifier_Verify ax v ?raw = (res, v1)"
    by fastforce
  note for_v1 = verifier_for_Verify [OF assms(3,4) ver]
  show ?thesis
  proof (cases res)
    case (Inl er)
    then show ?thesis
      using assms(5) bearer ver for_v1 Load_production(1) [OF assms(1,2)] by (auto simp: authenticate_def Let_def)
  next
    case (Inr claims)
    have run: "requirePermission perm h (withClaims claims r) s = (p, s')" "v' = v1"
      using assms(5) bearer ver Inr Load_production(1) [OF assms(1,2)]
      by (auto simp: authenticate_def Let_def split: prod.splits)
    obtain t k where t: "token_claims t = Inr claims" "sig_ok ?raw (tk_Alg t) k" "trusted_key cfg v1 (tk_Alg t) k" "unexpired t"
      "map_of (tk_Claims t) ''iss'' = Some (JStr (cf_JWTIssuer cfg))" "cf_JWTAudience cfg \<in> token_audience t"
      using Verifier_Verify_accepts [OF assms(3,4)] ver Inr Load_identity [OF assms(1)] by blast
    have key: "k \<noteq> HMACKey devJWTHMACKey"
      using t(3) Load_production(2) [OF assms(1,2)] by (auto simp: trusted_key_def)
    show ?thesis
      using run(1)
    proof (cases rule: requirePermission_cases)
      case refused
      then show ?thesis
        using for_v1 run(2) by auto
    next
      case (granted c)
      then have "c = claims"
        by simp
      then show ?thesis
        using granted t key for_v1 run(2) drop_Bearer [OF bearer] by blast
    qed
  qed
qed

definition sample_env :: environment where
  "sample_env = map_of [(''ONEOPS_ENV'', '' Production ''), (''ONEOPS_DB_URL'', ''postgres://db/oneops''),
     (''ONEOPS_JWT_HMAC_KEY'', ''k''), (''ONEOPS_PPROF_ENABLED'', ''maybe'')]"

definition sample_token :: jwt_token where
  "sample_token = \<lparr> tk_Alg = ''HS256'', tk_Header = [], tk_Claims = [(''sub'', JStr ''u1''),
     (''iss'', JStr ''https://oneops.local''), (''aud'', JArr [JStr ''oneops'']), (''roles'', JArr [JStr ''oneops-editor'', JNull])] \<rparr>"

text \<open>A token package that knows one token, which is signed under the secret \<^verbatim>\<open>k\<close>.\<close>

definition sample_auth :: auth_env where
  "sample_auth = \<lparr> ax_now = 0, ax_Get = (\<lambda>url. Inl (ErrOther ''offline'')),
     ax_Parse = (\<lambda>kf methods iss aud raw v.
       if raw = ''tok'' \<and> ''HS256'' \<in> set methods \<and> iss \<in> {[], ''https://oneops.local''} \<and> aud \<in> {[], ''oneops''}
       then (case kf sample_token v of (k, v') \<Rightarrow>
         if k = Inr (HMACKey ''k'') then (Inr sample_token, v') else (Inl (ErrOther ''signature is invalid''), v'))
       else (Inl (ErrOther ''token is malformed''), v)) \<rparr>"

definition sample_config :: Config where
  "sample_config = read_config sample_env"

lemma sample_env_trim: "TrimSpace '' Production '' = ''Production''"
  by code_simp

lemma sample_Load: "Load sample_env = Inr sample_config" "IsProduction sample_config"
proof -
  have "\<not> Contains ''postgres://db/oneops'' ''sslmode=disable''"
    by code_simp
  moreover have prod: "lower_ascii ''Production'' = ''production''"
    by code_simp
  ultimately show "Load sample_env = Inr sample_config" "IsProduction sample_config"
    by (simp_all add: Load_def sample_config_def sample_env_def read_config_def getEnv_def getEnvInt_def getEnvBool_def Let_def
        validateProduction_def production_problems_def IsProduction_def sample_env_trim ParseBool_def)
qed

lemma sample_contract:
  "jwt_contract sample_auth (\<lambda>raw alg k. raw = ''tok'' \<and> alg = ''HS256'' \<and> k = HMACKey ''k'') (\<lambda>t. t = sample_token)"
proof -
  have claims: "map_of (tk_Claims sample_token) ''iss'' = Some (JStr ''https://oneops.local'')" "token_audience sample_token = {''oneops''}"
    "tk_Alg sample_token = ''HS256''"
    by (auto simp: sample_token_def token_audience_def)
  have "v' = v \<or> (\<exists>t. v' = snd (kf t v))" if "ax_Parse sample_auth kf methods iss aud raw v = (Inl er, v')" for kf methods iss aud raw v er v'
    using that by (cases "kf sample_token v") (auto simp: sample_auth_def split: if_splits intro!: exI [of _ sample_token])
  then show ?thesis
    using claims by (auto simp: jwt_contract_def sample_auth_def split: if_splits prod.splits)
qed

definition sample_verifier :: Verifier where
  "sample_verifier = NewVerifier (cf_JWTIssuer sample_config) (cf_JWTAudience sample_config) (cf_JWTHMACKey sample_config)
     (cf_JWKSURL sample_config)"

definition sample_request :: Request where
  "sample_request = \<lparr> rq_Method = ''POST'', rq_Path = ''/v1/artifacts'', rq_Headers = [(''Authorization'', ''Bearer tok'')],
     rq_Query = [], rq_Params = [], rq_Body = [], rq_Claims = None, rq_RequestID = ''r1'' \<rparr>"

lemma sample_settings:
  "cf_AuthEnabled sample_config" "cf_JWTIssuer sample_config = ''https://oneops.local''" "cf_JWTAudience sample_config = ''oneops''"
  "cf_JWTHMACKey sample_config = ''k''" "cf_JWKSURL sample_config = []"
  by (simp_all add: sample_config_def sample_env_def read_config_def getEnv_def getEnvBool_def)

definition sample_claims :: Claims where
  "sample_claims = \<lparr> cl_Subject = ''u1'', cl_Roles = [''oneops-editor''], cl_Tenant = [] \<rparr>"

lemma sample_Verify: "Verifier_Verify sample_auth sample_verifier ''tok'' = (Inr sample_claims, sample_verifier)"
proof -
  have "keyfunc sample_auth sample_token sample_verifier = (Inr (HMACKey ''k''), sample_verifier)"
    by (simp add: keyfunc_def sample_token_def sample_verifier_def NewVerifier_def sample_settings)
  moreover have "token_claims sample_token = Inr sample_claims"
    by (simp add: token_claims_def sample_token_def as_string_def parseRoles_def Let_def sample_claims_def)
  moreover have "vf_issuer sample_verifier = ''https://oneops.local''" "vf_audience sample_verifier = ''oneops''"
    by (simp_all add: sample_verifier_def NewVerifier_def sample_settings)
  ultimately show ?thesis
    by (simp add: Verifier_Verify_def) (simp add: sample_auth_def)
qed

lemma sample_authenticate:
  "authenticate sample_config sample_auth next sample_request (sample_verifier, s) =
     (case next (withClaims sample_claims sample_request) s of (p, s') \<Rightarrow> (p, sample_verifier, s'))"
proof -
  have "Header_Get sample_request ''Authorization'' = ''Bearer tok''"
    by (simp add: sample_request_def mget_def)
  then show ?thesis
    using sample_Verify by (simp add: authenticate_def sample_settings Let_def)
qed

theorem production_requests_authorized_witness:
  "\<exists>v'. authenticate sample_config sample_auth (requirePermission PermWrite (\<lambda>r n. (Replied noContent, n + 1))) sample_request
       (sample_verifier, 4) = (Replied noContent, v', 5 :: int) \<and> verifier_for sample_config v'"
proof -
  have run: "authenticate sample_config sample_auth (requirePermission PermWrite (\<lambda>r n. (Replied noContent, n + 1))) sample_request
      (sample_verifier, 4) = (Replied noContent, sample_verifier, 5 :: int)"
    by (simp add: sample_authenticate requirePermission_def HasPermission_def rolePermissions_def sample_claims_def)
  have "verifier_for sample_config sample_verifier"
    unfolding sample_verifier_def by (rule verifier_for_NewVerifier)
  from production_requests_authorized [OF sample_Load sample_contract this run] run show ?thesis
    by blast
qed

section \<open>The role matrix\<close>

lemma list_ex_one_of:
  assumes "\<And>x. f x \<longleftrightarrow> x = a \<or> (x = b \<and> P) \<or> (x = c \<and> Q)"
  shows "list_ex f xs \<longleftrightarrow> a \<in> set xs \<or> (b \<in> set xs \<and> P) \<or> (c \<in> set xs \<and> Q)"
  by (auto simp: list_ex_iff assms)

lemma HasPermission_iff:
  "HasPermission roles perm \<longleftrightarrow>
     ''oneops-admin'' \<in> set roles \<or> (''oneops-editor'' \<in> set roles \<and> (perm = PermRead \<or> perm = PermWrite)) \<or>
     (''oneops-reader'' \<in> set roles \<and> perm = PermRead)"
  unfolding HasPermission_def
  by (rule list_ex_one_of) (simp add: rolePermissions_def eq_commute [of perm])

text \<open>The permission of a route is determined by its method and by whether it is an administration route.\<close>

lemma v1_route_permission:
  assumes "x \<in> set v1_routes"
  shows "rt_Perm x = (if prefix ''/admin/'' (rt_Pattern x) then PermAdmin
     else if rt_Method x = ''GET'' then PermRead else if rt_Method x = ''DELETE'' then PermDelete else PermWrite)"
proof -
  have "list_all (\<lambda>x. rt_Perm x = (if prefix ''/admin/'' (rt_Pattern x) then PermAdmin
     else if rt_Method x = ''GET'' then PermRead else if rt_Method x = ''DELETE'' then PermDelete else PermWrite)) v1_routes"
    by code_simp
  then show ?thesis
    using assms by (simp add: list_all_iff)
qed

text \<open>C34: the whole route table realises one matrix.  For every \<^verbatim>\<open>/v1\<close> route, a request with an identity runs the
  handler exactly when its roles contain the administrator; or the editor, on a route that is neither a deletion nor
  below \<^verbatim>\<open>/admin\<close>; or the reader, on a read outside \<^verbatim>\<open>/admin\<close>.  Otherwise the answer is 403 and nothing changes.\<close>

theorem v1_role_matrix:
  assumes "x \<in> set v1_routes" "ClaimsFrom r = Some claims"
  shows "requirePermission (rt_Perm x) h r s =
    (if ''oneops-admin'' \<in> set (cl_Roles claims) \<or>
        (\<not> prefix ''/admin/'' (rt_Pattern x) \<and>
         (''oneops-editor'' \<in> set (cl_Roles claims) \<and> rt_Method x \<noteq> ''DELETE'' \<or>
          ''oneops-reader'' \<in> set (cl_Roles claims) \<and> rt_Method x = ''GET''))
     then h r s
     else (Replied (writeProblem r 403 ''forbidden'' (''missing permission: '' @ rt_Perm x)), s))"
  using assms(2) v1_route_permission [OF assms(1)]
  by (auto simp: requirePermission_def HasPermission_iff)

theorem v1_role_matrix_witness:
  "requirePermission PermDelete (\<lambda>r n. (Replied noContent, n + 1)) (withClaims \<lparr> cl_Subject = ''u1'', cl_Roles = [''oneops-editor''],
      cl_Tenant = [] \<rparr> sample_request) (4 :: int) =
    (Replied (writeProblem sample_request 403 ''forbidden'' ''missing permission: artifacts:delete''), 4)"
proof -
  let ?x = "\<lparr> rt_Method = ''DELETE'', rt_Pattern = ''/artifacts/{id}'', rt_Perm = PermDelete, rt_Endpoint = ''deleteArtifact'' \<rparr>"
  have "?x \<in> set v1_routes"
    by (simp add: v1_routes_def)
  from v1_role_matrix [OF this, of "withClaims \<lparr> cl_Subject = ''u1'', cl_Roles = [''oneops-editor''], cl_Tenant = [] \<rparr> sample_request"
      "\<lparr> cl_Subject = ''u1'', cl_Roles = [''oneops-editor''], cl_Tenant = [] \<rparr>"]
  show ?thesis
    by simp
qed

section \<open>Well-formed configurations\<close>

text \<open>C35: every loaded configuration is well-formed: positive page sizes, the default no larger than the maximum, and a
  non-empty issuer, audience and HS256 secret.  An empty secret cannot be configured, since an empty variable reads as the
  development default: HS256 tokens are accepted whatever the key set, and in production the secret is never that default.\<close>

theorem loaded_config_well_formed:
  assumes "Load env = Inr cfg"
  shows "0 < cf_DefaultPageSize cfg \<and> cf_DefaultPageSize cfg \<le> cf_MaxPageSize cfg \<and>
    cf_JWTIssuer cfg \<noteq> [] \<and> cf_JWTAudience cfg \<noteq> [] \<and> cf_JWTHMACKey cfg \<noteq> [] \<and>
    (env ''ONEOPS_JWT_HMAC_KEY'' \<in> {None, Some []} \<longrightarrow> cf_JWTHMACKey cfg = devJWTHMACKey \<and> \<not> IsProduction cfg) \<and>
    keyfunc ax (t\<lparr> tk_Alg := ''HS256'' \<rparr>) (NewVerifier (cf_JWTIssuer cfg) (cf_JWTAudience cfg) (cf_JWTHMACKey cfg) (cf_JWKSURL cfg)) =
      (Inr (HMACKey (cf_JWTHMACKey cfg)), NewVerifier (cf_JWTIssuer cfg) (cf_JWTAudience cfg) (cf_JWTHMACKey cfg) (cf_JWKSURL cfg))"
proof -
  have "cf_JWTHMACKey cfg = devJWTHMACKey" if "env ''ONEOPS_JWT_HMAC_KEY'' \<in> {None, Some []}"
    using that Load_Inr(1) [OF assms] by (auto simp: read_config_def getEnv_def)
  then show ?thesis
    using Load_Inr(2,3) [OF assms] Load_identity [OF assms] Load_production(2) [OF assms]
    by (auto simp: keyfunc_def NewVerifier_def)
qed

theorem loaded_config_well_formed_witness:
  "cf_DefaultPageSize sample_config \<le> cf_MaxPageSize sample_config \<and> cf_JWTHMACKey sample_config \<noteq> []"
  using loaded_config_well_formed [OF sample_Load(1), of undefined undefined] by blast

end
