(* ===== verification/Webhooks.thy ===== *)
theory Webhooks
  imports ControlPlane
begin

text \<open>
  The data of event delivery: webhooks, deliveries and replay jobs (\<^verbatim>\<open>internal/events\<close>), the signed
  payload, and their tables in \<^verbatim>\<open>store/postgres/webhook_store.go\<close> and
  \<^verbatim>\<open>webhook_consume_store.go\<close>.  \<open>zone\<close> is the offset from UTC, in seconds, of the location in which
  the process holds a time; it appears only in the printed form of the time.
\<close>

section \<open>Printed times\<close>

text \<open>The proleptic Gregorian date of a day counted from the Unix epoch.\<close>

definition civil :: "int \<Rightarrow> int \<times> int \<times> int" where
  "civil days =
     (let z = days + 719468; era = z div 146097; doe = z mod 146097;
          yoe = (doe - doe div 1460 + doe div 36524 - doe div 146096) div 365;
          doy = doe - (365 * yoe + yoe div 4 - yoe div 100);
          mp = (5 * doy + 2) div 153;
          d = doy - (153 * mp + 2) div 5 + 1;
          m = (if mp < 10 then mp + 3 else mp - 9)
      in (yoe + era * 400 + (if m \<le> 2 then 1 else 0), m, d))"

definition zero_pad :: "nat \<Rightarrow> int \<Rightarrow> string" where
  "zero_pad w n = (let s = nat_decimal (nat n) in replicate (w - length s) (CHR ''0'') @ s)"

definition fraction :: "int \<Rightarrow> string" where
  "fraction nanos = (if nanos = 0 then []
     else CHR ''.'' # rev (dropWhile (\<lambda>c. c = CHR ''0'') (rev (zero_pad 9 nanos))))"

definition zone_suffix :: "int \<Rightarrow> string" where
  "zone_suffix off = (if off = 0 then ''Z'' else
     let m = \<bar>off\<bar> div 60 in (if off < 0 then ''-'' else ''+'') @ zero_pad 2 (m div 60) @ '':'' @ zero_pad 2 (m mod 60))"

definition RFC3339Nano :: "int \<Rightarrow> instant \<Rightarrow> string" where
  "RFC3339Nano off t =
     (let s = t div Second + off; nanos = t mod Second; sod = s mod 86400
      in case civil (s div 86400) of (y, m, d) \<Rightarrow>
        zero_pad 4 y @ ''-'' @ zero_pad 2 m @ ''-'' @ zero_pad 2 d @ ''T'' @
        zero_pad 2 (sod div 3600) @ '':'' @ zero_pad 2 (sod div 60 mod 60) @ '':'' @ zero_pad 2 (sod mod 60) @
        fraction nanos @ zone_suffix off)"

text \<open>\<^verbatim>\<open>Time.MarshalJSON\<close> refuses years and zone hours that RFC 3339 cannot write.\<close>

definition MarshalTime :: "(instant \<Rightarrow> int) \<Rightarrow> instant \<Rightarrow> err + bytes" where
  "MarshalTime zone t =
     (let off = zone t; y = fst (civil ((t div Second + off) div 86400)) in
      if y < 0 \<or> 9999 < y then Inl (ErrOther ''Time.MarshalJSON: year outside of range [0,9999]'')
      else if 24 \<le> \<bar>off\<bar> div 3600 then Inl (ErrOther ''Time.MarshalJSON: timezone hour outside of range [0,23]'')
      else Inr (''\"'' @ RFC3339Nano off t @ ''\"''))"

section \<open>Webhooks and deliveries\<close>

abbreviation StatusPending :: string where "StatusPending \<equiv> ''pending''"
abbreviation StatusDelivered :: string where "StatusDelivered \<equiv> ''delivered''"
abbreviation StatusFailed :: string where "StatusFailed \<equiv> ''failed''"
abbreviation StatusDeadLetter :: string where "StatusDeadLetter \<equiv> ''dead_letter''"

record Webhook =
  wh_ID :: string
  wh_URL :: string
  wh_Secret :: string
  wh_Enabled :: bool
  wh_Operations :: "string list"
  wh_Resources :: "string list"
  wh_MaxRetries :: int
  wh_CreatedAt :: instant
  wh_UpdatedAt :: instant

record Event =
  ge_ChainID :: string
  ge_Seq :: int
  ge_EventID :: string
  ge_OperationID :: string
  ge_Operation :: string
  ge_Actor :: string
  ge_CfgID :: string
  ge_OccurredAt :: instant

fun contains :: "string list \<Rightarrow> string \<Rightarrow> bool" where
  "contains [] x = False"
| "contains (v # vs) x = (if v = x then True else contains vs x)"

lemma contains_iff [simp]: "contains xs x \<longleftrightarrow> x \<in> set xs"
  by (induction xs) auto

definition Webhook_Matches :: "Webhook \<Rightarrow> Event \<Rightarrow> bool" where
  "Webhook_Matches w ev =
     (if \<not> wh_Enabled w then False
      else if 0 < length (wh_Operations w) \<and> \<not> contains (wh_Operations w) (ge_Operation ev) then False
      else if 0 < length (wh_Resources w) \<and> \<not> contains (wh_Resources w) (ge_CfgID ev) then False
      else True)"

definition eventFrom :: "AuditEvent \<Rightarrow> Event" where
  "eventFrom a = \<lparr> ge_ChainID = ae_ChainID a, ge_Seq = ae_Seq a, ge_EventID = ae_EventID a,
     ge_OperationID = ae_OperationID a, ge_Operation = ae_Operation a, ge_Actor = ae_Actor a,
     ge_CfgID = ae_ChainID a, ge_OccurredAt = ae_OccurredAt a \<rparr>"

record Delivery =
  dl_ID :: string
  dl_WebhookID :: string
  dl_Event :: Event
  dl_Status :: string
  dl_RetryCount :: int
  dl_LastStatusCode :: int
  dl_LastAttempt :: instant
  dl_NextAttemptAt :: instant
  dl_CreatedAt :: instant

text \<open>A delivery as the relay and the replay worker build it; the fields they leave out are zero.\<close>

definition new_delivery :: "string \<Rightarrow> string \<Rightarrow> Event \<Rightarrow> instant \<Rightarrow> Delivery" where
  "new_delivery i w ev now = \<lparr> dl_ID = i, dl_WebhookID = w, dl_Event = ev, dl_Status = StatusPending,
     dl_RetryCount = 0, dl_LastStatusCode = 0, dl_LastAttempt = zero_time, dl_NextAttemptAt = now, dl_CreatedAt = now \<rparr>"

section \<open>The signed payload\<close>

abbreviation HeaderSignature :: string where "HeaderSignature \<equiv> ''X-OneOps-Signature''"
abbreviation HeaderTimestamp :: string where "HeaderTimestamp \<equiv> ''X-OneOps-Timestamp''"
abbreviation HeaderDelivery :: string where "HeaderDelivery \<equiv> ''X-OneOps-Delivery''"
abbreviation HeaderEvent :: string where "HeaderEvent \<equiv> ''X-OneOps-Event''"

definition EventType :: "string \<Rightarrow> string" where
  "EventType operation = ''governance.'' @ operation"

definition BuildPayload :: "(instant \<Rightarrow> int) \<Rightarrow> Delivery \<Rightarrow> instant \<Rightarrow> err + (bytes \<times> int)" where
  "BuildPayload zone d at =
     (let ts = Unix at; ev = dl_Event d in
      result_bind (MarshalTime zone (ge_OccurredAt ev)) (\<lambda>occurred.
        Inr (print_struct True
          [(''delivery_id'', json_quote True (dl_ID d)), (''event'', json_quote True (EventType (ge_Operation ev))),
           (''timestamp'', FormatInt ts), (''chain_id'', json_quote True (ge_ChainID ev)), (''seq'', FormatInt (ge_Seq ev)),
           (''event_id'', json_quote True (ge_EventID ev)), (''operation_id'', json_quote True (ge_OperationID ev)),
           (''operation'', json_quote True (ge_Operation ev)), (''actor'', json_quote True (ge_Actor ev)),
           (''cfg_id'', json_quote True (ge_CfgID ev)), (''occurred_at'', occurred)], ts)))"

definition signed_message :: "int \<Rightarrow> string \<Rightarrow> bytes \<Rightarrow> bytes" where
  "signed_message timestamp deliveryID payload = FormatInt timestamp @ ''.'' @ deliveryID @ ''.'' @ payload"

definition Sign :: "string \<Rightarrow> int \<Rightarrow> string \<Rightarrow> bytes \<Rightarrow> string" where
  "Sign secret timestamp deliveryID payload = EncodeToString (HMAC secret (signed_message timestamp deliveryID payload))"

definition Verify :: "string \<Rightarrow> int \<Rightarrow> string \<Rightarrow> bytes \<Rightarrow> string \<Rightarrow> bool" where
  "Verify secret timestamp deliveryID payload signature \<longleftrightarrow> Sign secret timestamp deliveryID payload = signature"

definition DeliveryView :: "(instant \<Rightarrow> int) \<Rightarrow> Delivery \<Rightarrow> string \<Rightarrow> instant \<Rightarrow> err + (bytes \<times> smap)" where
  "DeliveryView zone d secret at =
     result_bind (BuildPayload zone d at) (\<lambda>(payload, ts).
       Inr (payload, [(''Content-Type'', ''application/json''), (HeaderEvent, EventType (ge_Operation (dl_Event d))),
         (HeaderDelivery, dl_ID d), (HeaderTimestamp, FormatInt ts), (HeaderSignature, Sign secret ts (dl_ID d) payload)]))"

section \<open>Replay jobs\<close>

abbreviation JobPending :: string where "JobPending \<equiv> ''pending''"
abbreviation JobRunning :: string where "JobRunning \<equiv> ''running''"
abbreviation JobCompleted :: string where "JobCompleted \<equiv> ''completed''"
abbreviation JobFailed :: string where "JobFailed \<equiv> ''failed''"

record ReplayJob =
  rj_ID :: string
  rj_WebhookID :: string
  rj_From :: instant
  rj_To :: instant
  rj_DeliveryIDs :: "string list"
  rj_Status :: string
  rj_EventsReplayed :: int
  rj_Error :: string
  rj_CreatedAt :: instant
  rj_UpdatedAt :: instant

section \<open>The tables\<close>

text \<open>
  The integer columns hold 32 bits; a larger value is refused by the driver.  A NULL time reads as
  the zero time, so a stored zero time stands for NULL.
\<close>

record hooks =
  t_webhook :: "Webhook list"
  t_webhook_delivery :: "Delivery list"
  t_webhook_cursor :: "(string \<times> int) list"
  t_webhook_replay_job :: "ReplayJob list"

definition empty_hooks :: hooks where
  "empty_hooks = \<lparr> t_webhook = [], t_webhook_delivery = [], t_webhook_cursor = [], t_webhook_replay_job = [] \<rparr>"

definition int4 :: "int \<Rightarrow> bool" where
  "int4 n \<longleftrightarrow> - (2 ^ 31) \<le> n \<and> n < 2 ^ 31"

definition Webhook_Create :: "instant \<Rightarrow> Webhook \<Rightarrow> hooks \<Rightarrow> err + hooks" where
  "Webhook_Create now w h =
     (if \<not> int4 (wh_MaxRetries w) then Inl (ErrOther ''create webhook'')
      else if wh_ID w \<in> wh_ID ` set (t_webhook h) then Inl ErrConflict
      else Inr (h\<lparr> t_webhook := t_webhook h @ [w\<lparr> wh_CreatedAt := now, wh_UpdatedAt := now \<rparr>] \<rparr>))"

definition Webhook_Get :: "string \<Rightarrow> hooks \<Rightarrow> err + Webhook" where
  "Webhook_Get i h = (case find (\<lambda>w. wh_ID w = i) (t_webhook h) of None \<Rightarrow> Inl ErrNotFound | Some w \<Rightarrow> Inr w)"

definition Webhook_List :: "hooks \<Rightarrow> Webhook list" where
  "Webhook_List h = sort_key wh_CreatedAt (t_webhook h)"

definition ListEnabled :: "hooks \<Rightarrow> Webhook list" where
  "ListEnabled h = sort_key wh_CreatedAt (filter wh_Enabled (t_webhook h))"

definition Webhook_Update :: "instant \<Rightarrow> Webhook \<Rightarrow> hooks \<Rightarrow> err + hooks" where
  "Webhook_Update now w h =
     (if \<not> int4 (wh_MaxRetries w) then Inl (ErrOther ''update webhook'')
      else if wh_ID w \<notin> wh_ID ` set (t_webhook h) then Inl ErrNotFound
      else Inr (h\<lparr> t_webhook := map (\<lambda>r. if wh_ID r = wh_ID w then r\<lparr> wh_URL := wh_URL w, wh_Secret := wh_Secret w,
          wh_Enabled := wh_Enabled w, wh_Operations := wh_Operations w, wh_Resources := wh_Resources w,
          wh_MaxRetries := wh_MaxRetries w, wh_UpdatedAt := now \<rparr> else r) (t_webhook h) \<rparr>))"

definition Webhook_Delete :: "string \<Rightarrow> hooks \<Rightarrow> err + hooks" where
  "Webhook_Delete i h =
     (if i \<notin> wh_ID ` set (t_webhook h) then Inl ErrNotFound
      else Inr (h\<lparr> t_webhook := filter (\<lambda>w. wh_ID w \<noteq> i) (t_webhook h) \<rparr>))"

text \<open>\<open>stored\<close> is a delivery as its row reads back.\<close>

definition stored :: "pg \<Rightarrow> instant \<Rightarrow> Delivery \<Rightarrow> Delivery" where
  "stored pg now d = d\<lparr> dl_Event := (dl_Event d)\<lparr> ge_OccurredAt := pg_timestamptz pg (ge_OccurredAt (dl_Event d)) \<rparr>,
     dl_RetryCount := 0, dl_LastStatusCode := 0, dl_LastAttempt := zero_time,
     dl_NextAttemptAt := pg_timestamptz pg (dl_NextAttemptAt d), dl_CreatedAt := now \<rparr>"

definition enqueue_row :: "pg \<Rightarrow> instant \<Rightarrow> Delivery list \<Rightarrow> Delivery \<Rightarrow> Delivery list" where
  "enqueue_row pg now rows d = (if dl_ID d \<in> dl_ID ` set rows then rows else rows @ [stored pg now d])"

definition Enqueue :: "pg \<Rightarrow> instant \<Rightarrow> Delivery list \<Rightarrow> hooks \<Rightarrow> hooks" where
  "Enqueue pg now ds h = h\<lparr> t_webhook_delivery := foldl (enqueue_row pg now) (t_webhook_delivery h) ds \<rparr>"

definition ClaimDue :: "instant \<Rightarrow> int \<Rightarrow> hooks \<Rightarrow> err + Delivery list" where
  "ClaimDue now limit h =
     (if limit < 0 then Inl (ErrOther ''claim deliveries'')
      else Inr (take (nat limit) (sort_key dl_NextAttemptAt
        (filter (\<lambda>d. dl_Status d \<in> {StatusPending, StatusFailed} \<and> dl_NextAttemptAt d \<le> now) (t_webhook_delivery h)))))"

definition MarkResult :: "pg \<Rightarrow> string \<Rightarrow> string \<Rightarrow> int \<Rightarrow> int \<Rightarrow> instant \<Rightarrow> instant \<Rightarrow> hooks \<Rightarrow> err + hooks" where
  "MarkResult pg i status retry code last_at next_at h =
     (if \<not> int4 retry \<or> \<not> int4 code then Inl (ErrOther ''mark delivery'')
      else Inr (h\<lparr> t_webhook_delivery := map (\<lambda>d. if dl_ID d = i then d\<lparr> dl_Status := status, dl_RetryCount := retry,
          dl_LastStatusCode := code, dl_LastAttempt := (if IsZero last_at then zero_time else pg_timestamptz pg last_at),
          dl_NextAttemptAt := (if IsZero next_at then dl_NextAttemptAt d else pg_timestamptz pg next_at) \<rparr> else d)
        (t_webhook_delivery h) \<rparr>))"

text \<open>Rows ordered by a column, the last first; the order among equal keys is the server's choice.\<close>

definition ListByWebhook :: "string \<Rightarrow> int \<Rightarrow> hooks \<Rightarrow> err + Delivery list" where
  "ListByWebhook w limit h =
     (if limit < 0 then Inl (ErrOther ''list deliveries'')
      else Inr (take (nat limit) (rev (sort_key (\<lambda>d. ge_Seq (dl_Event d)) (filter (\<lambda>d. dl_WebhookID d = w) (t_webhook_delivery h))))))"

definition GetCursor :: "string \<Rightarrow> hooks \<Rightarrow> int" where
  "GetCursor chainID h = (case map_of (t_webhook_cursor h) chainID of None \<Rightarrow> 0 | Some seq \<Rightarrow> seq)"

definition SetCursor :: "string \<Rightarrow> int \<Rightarrow> hooks \<Rightarrow> hooks" where
  "SetCursor chainID seq h = h\<lparr> t_webhook_cursor := AList.update chainID seq (t_webhook_cursor h) \<rparr>"

section \<open>Delivery administration\<close>

definition GetDelivery :: "string \<Rightarrow> hooks \<Rightarrow> Delivery option" where
  "GetDelivery i h = find (\<lambda>d. dl_ID d = i) (t_webhook_delivery h)"

definition requeue_row :: "instant \<Rightarrow> Delivery \<Rightarrow> Delivery" where
  "requeue_row now d = d\<lparr> dl_Status := StatusPending, dl_RetryCount := 0, dl_NextAttemptAt := now \<rparr>"

definition Requeue :: "instant \<Rightarrow> string list \<Rightarrow> hooks \<Rightarrow> nat \<times> hooks" where
  "Requeue now ids h =
     (if length ids = 0 then (0, h)
      else (length (filter (\<lambda>d. dl_ID d \<in> set ids) (t_webhook_delivery h)),
            h\<lparr> t_webhook_delivery := map (\<lambda>d. if dl_ID d \<in> set ids then requeue_row now d else d) (t_webhook_delivery h) \<rparr>))"

definition dead_letter_of :: "string \<Rightarrow> Delivery \<Rightarrow> bool" where
  "dead_letter_of w d \<longleftrightarrow> dl_Status d = StatusDeadLetter \<and> (w = [] \<or> dl_WebhookID d = w)"

definition RequeueDeadLetters :: "instant \<Rightarrow> string \<Rightarrow> hooks \<Rightarrow> nat \<times> hooks" where
  "RequeueDeadLetters now w h =
     (length (filter (dead_letter_of w) (t_webhook_delivery h)),
      h\<lparr> t_webhook_delivery := map (\<lambda>d. if dead_letter_of w d then requeue_row now d else d) (t_webhook_delivery h) \<rparr>)"

definition ListDeadLetters :: "string \<Rightarrow> int \<Rightarrow> hooks \<Rightarrow> err + Delivery list" where
  "ListDeadLetters w limit h =
     (if limit < 0 then Inl (ErrOther ''list dead-letters'')
      else Inr (take (nat limit) (rev (sort_key (\<lambda>d. ge_Seq (dl_Event d)) (filter (dead_letter_of w) (t_webhook_delivery h))))))"

definition DeleteOlderThan :: "instant \<Rightarrow> string list \<Rightarrow> hooks \<Rightarrow> nat \<times> hooks" where
  "DeleteOlderThan cutoff statuses h =
     (if length statuses = 0 then (0, h)
      else let old = (\<lambda>d. dl_CreatedAt d < cutoff \<and> dl_Status d \<in> set statuses) in
        (length (filter old (t_webhook_delivery h)),
         h\<lparr> t_webhook_delivery := filter (\<lambda>d. \<not> old d) (t_webhook_delivery h) \<rparr>))"

definition CountByStatus :: "string \<Rightarrow> hooks \<Rightarrow> nat" where
  "CountByStatus status h = length (filter (\<lambda>d. dl_Status d = status) (t_webhook_delivery h))"

section \<open>Replay job rows\<close>

definition CreateJob :: "pg \<Rightarrow> instant \<Rightarrow> ReplayJob \<Rightarrow> hooks \<Rightarrow> err + hooks" where
  "CreateJob pg now j h =
     (if rj_ID j \<in> rj_ID ` set (t_webhook_replay_job h) then Inl (ErrOther ''create replay job'')
      else Inr (h\<lparr> t_webhook_replay_job := t_webhook_replay_job h @
        [j\<lparr> rj_From := (if IsZero (rj_From j) then zero_time else pg_timestamptz pg (rj_From j)),
            rj_To := (if IsZero (rj_To j) then zero_time else pg_timestamptz pg (rj_To j)),
            rj_EventsReplayed := 0, rj_Error := [], rj_CreatedAt := now, rj_UpdatedAt := now \<rparr>] \<rparr>))"

definition GetJob :: "string \<Rightarrow> hooks \<Rightarrow> ReplayJob option" where
  "GetJob i h = find (\<lambda>j. rj_ID j = i) (t_webhook_replay_job h)"

definition ListJobs :: "int \<Rightarrow> hooks \<Rightarrow> err + ReplayJob list" where
  "ListJobs limit h =
     (if limit < 0 then Inl (ErrOther ''list replay jobs'')
      else Inr (take (nat limit) (rev (sort_key rj_CreatedAt (t_webhook_replay_job h)))))"

definition ClaimPendingJobs :: "int \<Rightarrow> hooks \<Rightarrow> err + ReplayJob list" where
  "ClaimPendingJobs limit h =
     (if limit < 0 then Inl (ErrOther ''list replay jobs'')
      else Inr (take (nat limit) (sort_key rj_CreatedAt (filter (\<lambda>j. rj_Status j = JobPending) (t_webhook_replay_job h)))))"

definition UpdateJob :: "instant \<Rightarrow> ReplayJob \<Rightarrow> hooks \<Rightarrow> err + hooks" where
  "UpdateJob now j h =
     (if \<not> int4 (rj_EventsReplayed j) then Inl (ErrOther ''update replay job'')
      else Inr (h\<lparr> t_webhook_replay_job := map (\<lambda>r. if rj_ID r = rj_ID j then r\<lparr> rj_Status := rj_Status j,
          rj_EventsReplayed := rj_EventsReplayed j, rj_Error := rj_Error j, rj_UpdatedAt := now \<rparr> else r)
        (t_webhook_replay_job h) \<rparr>))"

end
