(* ===== verification/Artifacts.thy ===== *)
theory Artifacts
  imports Access Webhooks
begin

text \<open>
  The configuration registry over HTTP (\<^verbatim>\<open>internal/httpapi\<close>: dto.go, pagination.go, handlers_configobject.go).
  The handlers work over the ports of the object repository and of the idempotency store, any of which may fail;
  \<open>pg_object_ports\<close> is the PostgreSQL pair.  \<open>zone\<close> is the offset from UTC in which the process prints a time.
\<close>

section \<open>Ports\<close>

record 's object_ports =
  ob_Create :: "ConfigObject \<Rightarrow> 's \<Rightarrow> (err + ConfigObject) \<times> 's"
  ob_BulkCreate :: "ConfigObject list \<Rightarrow> 's \<Rightarrow> (err + ConfigObject list) \<times> 's"
  ob_Get :: "string \<Rightarrow> 's \<Rightarrow> err + ConfigObject"
  ob_List :: "ListParams \<Rightarrow> 's \<Rightarrow> err + Page"
  ob_Update :: "string \<Rightarrow> int \<Rightarrow> Patch \<Rightarrow> 's \<Rightarrow> (err + ConfigObject) \<times> 's"
  ob_Delete :: "string \<Rightarrow> 's \<Rightarrow> err option \<times> 's"
  ob_Lookup :: "string \<Rightarrow> 's \<Rightarrow> err + (int \<times> bytes) option"
  ob_Save :: "string \<Rightarrow> string \<Rightarrow> string \<Rightarrow> int \<Rightarrow> bytes \<Rightarrow> 's \<Rightarrow> err option \<times> 's"

text \<open>\<open>newIDs\<close> are the identifiers drawn during the request.\<close>

definition pg_object_ports :: "text_search \<Rightarrow> instant \<Rightarrow> (nat \<Rightarrow> string) \<Rightarrow> db object_ports" where
  "pg_object_ports sx dbnow newIDs =
     \<lparr> ob_Create = Create dbnow (newIDs 0),
       ob_BulkCreate = (\<lambda>objs. BulkCreate dbnow (zip (map newIDs [0..<length objs]) objs)),
       ob_Get = Get, ob_List = ConfigObject_List sx, ob_Update = Update dbnow, ob_Delete = Delete,
       ob_Lookup = (\<lambda>key d. Inr (Idempotency_Lookup key d)),
       ob_Save = (\<lambda>key meth path status body d. (None, Idempotency_Save key meth path status body d)) \<rparr>"

section \<open>Request bodies\<close>

record createRequest =
  cr_Artifact :: string
  cr_Version :: string
  cr_Role :: string
  cr_Lifecycle :: string
  cr_RetentionClass :: string
  cr_Authority :: string
  cr_RatifiedBy :: string
  cr_ReviewCycle :: string
  cr_RetentionPolicy :: string
  cr_Metadata :: "smap option"

definition zero_createRequest :: createRequest where
  "zero_createRequest = \<lparr> cr_Artifact = [], cr_Version = [], cr_Role = [], cr_Lifecycle = [], cr_RetentionClass = [],
     cr_Authority = [], cr_RatifiedBy = [], cr_ReviewCycle = [], cr_RetentionPolicy = [], cr_Metadata = None \<rparr>"

definition createRequest_fields :: "createRequest fields" where
  "createRequest_fields = [
     (''artifact'', string_field (\<lambda>x q. q\<lparr> cr_Artifact := x \<rparr>)),
     (''version'', string_field (\<lambda>x q. q\<lparr> cr_Version := x \<rparr>)),
     (''role'', string_field (\<lambda>x q. q\<lparr> cr_Role := x \<rparr>)),
     (''lifecycle'', string_field (\<lambda>x q. q\<lparr> cr_Lifecycle := x \<rparr>)),
     (''retention_class'', string_field (\<lambda>x q. q\<lparr> cr_RetentionClass := x \<rparr>)),
     (''authority'', string_field (\<lambda>x q. q\<lparr> cr_Authority := x \<rparr>)),
     (''ratified_by'', string_field (\<lambda>x q. q\<lparr> cr_RatifiedBy := x \<rparr>)),
     (''review_cycle'', string_field (\<lambda>x q. q\<lparr> cr_ReviewCycle := x \<rparr>)),
     (''retention_policy'', string_field (\<lambda>x q. q\<lparr> cr_RetentionPolicy := x \<rparr>)),
     (''metadata'', smap_field cr_Metadata (\<lambda>x q. q\<lparr> cr_Metadata := x \<rparr>))]"

definition map_or_nil :: "smap option \<Rightarrow> smap" where
  "map_or_nil m = (case m of None \<Rightarrow> [] | Some x \<Rightarrow> x)"

definition toDomain :: "createRequest \<Rightarrow> ConfigObject" where
  "toDomain req = \<lparr> co_CfgID = [], co_Artifact = cr_Artifact req, co_Version = cr_Version req, co_Role = cr_Role req,
     co_Lifecycle = cr_Lifecycle req, co_RetentionClass = cr_RetentionClass req, co_Authority = cr_Authority req,
     co_RatifiedBy = cr_RatifiedBy req, co_ReviewCycle = cr_ReviewCycle req,
     co_RetentionPolicy = (if cr_RetentionPolicy req = [] then ''permanent'' else cr_RetentionPolicy req),
     co_Metadata = map_or_nil (cr_Metadata req), co_RowVersion = 0, co_CreatedAt = zero_time, co_UpdatedAt = zero_time \<rparr>"

record patchRequest =
  pr_Lifecycle :: "string option"
  pr_RetentionClass :: "string option"
  pr_Authority :: "string option"
  pr_RatifiedBy :: "string option"
  pr_ReviewCycle :: "string option"
  pr_RetentionPolicy :: "string option"
  pr_Metadata :: "smap option"

definition zero_patchRequest :: patchRequest where
  "zero_patchRequest = \<lparr> pr_Lifecycle = None, pr_RetentionClass = None, pr_Authority = None, pr_RatifiedBy = None,
     pr_ReviewCycle = None, pr_RetentionPolicy = None, pr_Metadata = None \<rparr>"

definition patchRequest_fields :: "patchRequest fields" where
  "patchRequest_fields = [
     (''lifecycle'', pointer_field string_field (\<lambda>x q. q\<lparr> pr_Lifecycle := x \<rparr>)),
     (''retention_class'', pointer_field string_field (\<lambda>x q. q\<lparr> pr_RetentionClass := x \<rparr>)),
     (''authority'', pointer_field string_field (\<lambda>x q. q\<lparr> pr_Authority := x \<rparr>)),
     (''ratified_by'', pointer_field string_field (\<lambda>x q. q\<lparr> pr_RatifiedBy := x \<rparr>)),
     (''review_cycle'', pointer_field string_field (\<lambda>x q. q\<lparr> pr_ReviewCycle := x \<rparr>)),
     (''retention_policy'', pointer_field string_field (\<lambda>x q. q\<lparr> pr_RetentionPolicy := x \<rparr>)),
     (''metadata'', smap_field pr_Metadata (\<lambda>x q. q\<lparr> pr_Metadata := x \<rparr>))]"

definition rejected :: "(string \<Rightarrow> bool) \<Rightarrow> string option \<Rightarrow> bool" where
  "rejected ok x = (case x of None \<Rightarrow> False | Some v \<Rightarrow> \<not> ok v)"

definition toPatch :: "patchRequest \<Rightarrow> err + Patch" where
  "toPatch p =
     (if rejected Lifecycle_Valid (pr_Lifecycle p) then
        Inl (ValidationError ''lifecycle'' (''unknown lifecycle: '' @ the (pr_Lifecycle p)))
      else if rejected RetentionClass_Valid (pr_RetentionClass p) then
        Inl (ValidationError ''retention_class'' (''unknown retention class: '' @ the (pr_RetentionClass p)))
      else if rejected Authority_Valid (pr_Authority p) then
        Inl (ValidationError ''authority'' (''unknown authority: '' @ the (pr_Authority p)))
      else if rejected (\<lambda>v. v \<noteq> []) (pr_RetentionPolicy p) then
        Inl (ValidationError ''retention_policy'' ''must not be empty'')
      else Inr \<lparr> pa_Lifecycle = pr_Lifecycle p, pa_RetentionClass = pr_RetentionClass p, pa_Authority = pr_Authority p,
             pa_RatifiedBy = pr_RatifiedBy p, pa_ReviewCycle = pr_ReviewCycle p, pa_RetentionPolicy = pr_RetentionPolicy p,
             pa_Metadata = pr_Metadata p \<rparr>)"

section \<open>Response bodies\<close>

definition smap_json :: "smap \<Rightarrow> bytes" where
  "smap_json m = json_print True (JObj (map (\<lambda>(k, v). (k, JStr v)) m))"

definition configObjectResponse_json :: "(instant \<Rightarrow> int) \<Rightarrow> ConfigObject \<Rightarrow> err + bytes" where
  "configObjectResponse_json zone c =
     result_bind (MarshalTime zone (co_CreatedAt c)) (\<lambda>created.
     result_bind (MarshalTime zone (co_UpdatedAt c)) (\<lambda>updated.
       Inr (print_struct True
         ([(''cfg_id'', json_quote True (co_CfgID c)), (''artifact'', json_quote True (co_Artifact c)),
           (''version'', json_quote True (co_Version c)), (''role'', json_quote True (co_Role c)),
           (''lifecycle'', json_quote True (co_Lifecycle c)), (''retention_class'', json_quote True (co_RetentionClass c)),
           (''authority'', json_quote True (co_Authority c))] @
          omitempty ''ratified_by'' (co_RatifiedBy c) @ omitempty ''review_cycle'' (co_ReviewCycle c) @
          [(''retention_policy'', json_quote True (co_RetentionPolicy c))] @
          (if co_Metadata c = [] then [] else [(''metadata'', smap_json (co_Metadata c))]) @
          [(''row_version'', FormatInt (co_RowVersion c)), (''created_at'', created), (''updated_at'', updated)]))))"

definition array_json :: "bytes list \<Rightarrow> bytes" where
  "array_json xs = ''['' @ Join '','' xs @ '']''"

definition listResponse_json :: "(instant \<Rightarrow> int) \<Rightarrow> ConfigObject list \<Rightarrow> string \<Rightarrow> err + bytes" where
  "listResponse_json zone items nextCursor =
     result_bind (result_map (configObjectResponse_json zone) items) (\<lambda>xs.
       Inr (print_struct True ((''items'', array_json xs) # omitempty ''next_cursor'' nextCursor)))"

section \<open>List parameters\<close>

definition parseListParams :: "Config \<Rightarrow> Request \<Rightarrow> string + ListParams" where
  "parseListParams cfg r =
     (let v = Query_Get r ''limit'' in
      result_bind
        (if v = [] then Inr (cf_DefaultPageSize cfg)
         else (case ParseInt v of
             None \<Rightarrow> Inl ''limit must be a positive integer''
           | Some n \<Rightarrow> if n \<le> 0 then Inl ''limit must be a positive integer'' else Inr n)) (\<lambda>n.
      let limit = (if cf_MaxPageSize cfg < n then cf_MaxPageSize cfg else n);
          role = Query_Get r ''role''; lc = Query_Get r ''lifecycle''; authority = Query_Get r ''authority''
      in if role \<noteq> [] \<and> \<not> Role_Valid role then Inl (''invalid role filter: '' @ role)
         else if lc \<noteq> [] \<and> \<not> Lifecycle_Valid lc then Inl (''invalid lifecycle filter: '' @ lc)
         else if authority \<noteq> [] \<and> \<not> Authority_Valid authority then Inl (''invalid authority filter: '' @ authority)
         else Inr \<lparr> lp_Filter = \<lparr> fl_Role = role, fl_Lifecycle = lc, fl_Authority = authority, fl_Query = Query_Get r ''q'' \<rparr>,
                    lp_Limit = limit, lp_Cursor = Query_Get r ''cursor'' \<rparr>))"

section \<open>Handlers\<close>

abbreviation badJSON :: "Request \<Rightarrow> Response" where
  "badJSON r \<equiv> writeProblem r 400 ''bad request'' ''invalid JSON body''"

definition stored_reply :: "'s object_ports \<Rightarrow> string \<Rightarrow> 's \<Rightarrow> Response option" where
  "stored_reply p key s =
     (if key = [] then None
      else case ob_Lookup p key s of
          Inr (Some (status, body)) \<Rightarrow>
            Some \<lparr> hs_Status = status, hs_Headers = [(''Content-Type'', ''application/json'')], hs_Body = body \<rparr>
        | _ \<Rightarrow> None)"

definition created_reply :: "ConfigObject \<Rightarrow> bytes \<Rightarrow> Response" where
  "created_reply c body =
     \<lparr> hs_Status = 201, hs_Headers = [(''ETag'', etag (co_RowVersion c)), (''Location'', ''/v1/artifacts/'' @ co_CfgID c),
         (''Content-Type'', ''application/json'')], hs_Body = body \<rparr>"

definition createArtifact :: "(instant \<Rightarrow> int) \<Rightarrow> 's object_ports \<Rightarrow> 's handler" where
  "createArtifact zone p r s =
     (let key = Header_Get r ''Idempotency-Key'' in
      case stored_reply p key s of
        Some reply \<Rightarrow> (Replied reply, s)
      | None \<Rightarrow>
     (case decode_body createRequest_fields zero_createRequest (rq_Body r) of
        (req, Some er) \<Rightarrow> (Replied (badJSON r), s)
      | (req, None) \<Rightarrow>
     (case ConfigObject_Validate (toDomain req) of
        Some er \<Rightarrow> (Replied (mapError r er), s)
      | None \<Rightarrow>
     (case ob_Create p (toDomain req) s of
        (Inl er, s1) \<Rightarrow> (Replied (mapError r er), s1)
      | (Inr created, s1) \<Rightarrow>
          let body = (case configObjectResponse_json zone created of Inl er \<Rightarrow> [] | Inr b \<Rightarrow> b);
              s2 = (if key = [] then s1 else snd (ob_Save p key (rq_Method r) (rq_Path r) 201 body s1))
          in (Replied (created_reply created body), s2)))))"

definition getArtifact :: "(instant \<Rightarrow> int) \<Rightarrow> 's object_ports \<Rightarrow> 's handler" where
  "getArtifact zone p r s =
     (case ob_Get p (URLParam r ''id'') s of
        Inl er \<Rightarrow> (Replied (mapError r er), s)
      | Inr obj \<Rightarrow>
          let tag = etag (co_RowVersion obj) in
          if Header_Get r ''If-None-Match'' = tag then (Replied \<lparr> hs_Status = 304, hs_Headers = [], hs_Body = [] \<rparr>, s)
          else (Replied (writeJSON [(''ETag'', tag)] 200 (configObjectResponse_json zone obj)), s))"

definition listArtifacts :: "Config \<Rightarrow> (instant \<Rightarrow> int) \<Rightarrow> 's object_ports \<Rightarrow> 's handler" where
  "listArtifacts cfg zone p r s =
     (case parseListParams cfg r of
        Inl msg \<Rightarrow> (Replied (writeProblem r 400 ''bad request'' msg), s)
      | Inr params \<Rightarrow>
     (case ob_List p params s of
        Inl er \<Rightarrow> (Replied (mapError r er), s)
      | Inr page \<Rightarrow> (Replied (writeJSON [] 200 (listResponse_json zone (pg_Items page) (pg_NextCursor page))), s)))"

definition patchArtifact :: "(instant \<Rightarrow> int) \<Rightarrow> 's object_ports \<Rightarrow> 's handler" where
  "patchArtifact zone p r s =
     (let ifMatch = Header_Get r ''If-Match'' in
      if ifMatch = [] then
        (Replied (writeProblem r 428 ''precondition required'' ''If-Match header with the current row version is required''), s)
      else case parseETag ifMatch of
        None \<Rightarrow> (Replied (writeProblem r 400 ''bad request'' ''invalid If-Match value''), s)
      | Some expected \<Rightarrow>
     (case decode_body patchRequest_fields zero_patchRequest (rq_Body r) of
        (req, Some er) \<Rightarrow> (Replied (badJSON r), s)
      | (req, None) \<Rightarrow>
     (case toPatch req of
        Inl er \<Rightarrow> (Replied (mapError r er), s)
      | Inr patch \<Rightarrow>
     (case ob_Update p (URLParam r ''id'') expected patch s of
        (Inl er, s1) \<Rightarrow> (Replied (mapError r er), s1)
      | (Inr updated, s1) \<Rightarrow>
          (Replied (writeJSON [(''ETag'', etag (co_RowVersion updated))] 200 (configObjectResponse_json zone updated)), s1)))))"

definition deleteArtifact :: "'s object_ports \<Rightarrow> 's handler" where
  "deleteArtifact p r s =
     (case ob_Delete p (URLParam r ''id'') s of
        (Some er, s1) \<Rightarrow> (Replied (mapError r er), s1)
      | (None, s1) \<Rightarrow> (Replied noContent, s1))"

text \<open>The objects of a bulk request, validated in turn; the left value is the detail of the first refusal.\<close>

fun bulk_objects :: "nat \<Rightarrow> createRequest list \<Rightarrow> string + ConfigObject list" where
  "bulk_objects i [] = Inr []"
| "bulk_objects i (it # its) =
     (case ConfigObject_Validate (toDomain it) of
        Some er \<Rightarrow> Inl (''items['' @ FormatInt (int i) @ '']: '' @ err_Error er)
      | None \<Rightarrow> result_bind (bulk_objects (Suc i) its) (\<lambda>objs. Inr (toDomain it # objs)))"

definition bulkCreateArtifacts :: "(instant \<Rightarrow> int) \<Rightarrow> 's object_ports \<Rightarrow> 's handler" where
  "bulkCreateArtifacts zone p r s =
     (case decode_body [(''items'', structs_field createRequest_fields zero_createRequest (\<lambda>xs _. xs))] [] (rq_Body r) of
        (items, Some er) \<Rightarrow> (Replied (badJSON r), s)
      | (items, None) \<Rightarrow>
          if length items = 0 then (Replied (writeProblem r 422 ''validation failed'' ''items must not be empty''), s)
          else (case bulk_objects 0 items of
              Inl detail \<Rightarrow> (Replied (writeProblem r 422 ''validation failed'' detail), s)
            | Inr objs \<Rightarrow>
           (case ob_BulkCreate p objs s of
              (Inl er, s1) \<Rightarrow> (Replied (mapError r er), s1)
            | (Inr created, s1) \<Rightarrow> (Replied (writeJSON [] 201 (listResponse_json zone created [])), s1))))"

section \<open>Idempotent creation\<close>

lemma pg_object_ports_simps [simp]:
  "ob_Create (pg_object_ports sx n ids) = Create n (ids 0)" "ob_Get (pg_object_ports sx n ids) = Get"
  "ob_BulkCreate (pg_object_ports sx n ids) objs = BulkCreate n (zip (map ids [0..<length objs]) objs)"
  "ob_Update (pg_object_ports sx n ids) = Update n" "ob_Delete (pg_object_ports sx n ids) = Delete"
  "ob_List (pg_object_ports sx n ids) = ConfigObject_List sx"
  "ob_Lookup (pg_object_ports sx n ids) key d = Inr (Idempotency_Lookup key d)"
  "ob_Save (pg_object_ports sx n ids) key m p st b d = (None, Idempotency_Save key m p st b d)"
  by (simp_all add: pg_object_ports_def)

lemma Idempotency_Save_objects [simp]:
  "t_configuration_object (Idempotency_Save key m p st b d) = t_configuration_object d"
  by (simp add: Idempotency_Save_def)

lemma AppendTx_keys: "AppendTx pg n inp d = Inr (e, d') \<Longrightarrow> t_idempotency_key d' = t_idempotency_key d"
  by (auto simp: AppendTx_def EnsureChainHead_def AppendAuditEvent_def UpsertChainHead_def Let_def
      split: sum.splits option.splits if_splits prod.splits)

lemma insertTx_keys: "insertTx now newID obj d = Inr (row, d') \<Longrightarrow> t_idempotency_key d' = t_idempotency_key d"
  by (auto simp: insertTx_def Let_def split: if_splits)

lemma insert_all_keys: "insert_all now objs d = Inr (rows, d') \<Longrightarrow> t_idempotency_key d' = t_idempotency_key d"
proof (induction objs arbitrary: d rows)
  case (Cons x objs)
  obtain newID obj where x: "x = (newID, obj)" by (cases x)
  from Cons.prems obtain row d1 rows' where "insertTx now newID obj d = Inr (row, d1)" "insert_all now objs d1 = Inr (rows', d')"
    by (auto simp: x split: sum.splits)
  then show ?case
    using Cons.IH insertTx_keys by fastforce
qed simp

lemma update_co_keys: "update_co now c v f d = Some (Inr (row, d')) \<Longrightarrow> t_idempotency_key d' = t_idempotency_key d"
  by (auto simp: update_co_def Let_def split: option.splits if_splits)

lemma apply_plan_keys:
  "apply_plan (GovernanceStore n i) obj p res d = Inr (res', d') \<Longrightarrow> t_idempotency_key d' = t_idempotency_key d"
  by (auto simp: apply_plan_def GovernanceStore_def RemoveObject_def ApplyDimensions_def delete_cos_def Let_def
      split: if_splits sum.splits option.splits dest: update_co_keys)

lemma apply_edge_keys:
  "apply_edge (GovernanceStore n i) p (res, d) = Inr (res', d') \<Longrightarrow> t_idempotency_key d' = t_idempotency_key d"
  by (auto simp: apply_edge_def GovernanceStore_def RecordEdge_def insert_edge_def split: if_splits sum.splits option.splits)

lemma Execute_keys:
  assumes "Execute (pg_engine pg n i authz) now cmd d = (res, d')"
  shows "t_idempotency_key d' = t_idempotency_key d"
proof (cases res)
  case (Inl er)
  then show ?thesis
    using Execute_error_unchanged [of "pg_engine pg n i authz" now cmd d er d'] assms by simp
next
  case (Inr x)
  obtain obj p res1 tx1 res2 tx2 where
    "apply_plan (GovernanceStore n i) obj p (new_result cmd now) d = Inr (res1, tx1)"
    "apply_edge (GovernanceStore n i) p (res1, tx1) = Inr (res2, tx2)"
    "emit_audit (AppendTx pg n) cmd (res2, tx2) = Inr (x, d')"
    using assms unfolding Inr
    by (auto simp: Execute_def pg_engine_def GovernanceStore_def split: option.splits sum.splits if_splits prod.splits)
  moreover from this obtain inp e where "AppendTx pg n inp tx2 = Inr (e, d')"
    by (auto simp: emit_audit_def split: sum.splits)
  ultimately show ?thesis
    using apply_plan_keys apply_edge_keys AppendTx_keys by metis
qed

lemma Update_keys: "Update now c v p d = (res, d') \<Longrightarrow> t_idempotency_key d' = t_idempotency_key d"
  by (auto simp: Update_def Let_def split: option.splits sum.splits prod.splits dest: update_co_keys)

lemma step_keys:
  assumes "step pg d d'"
  shows "\<exists>rest. t_idempotency_key d' = t_idempotency_key d @ rest"
proof -
  have "t_idempotency_key d' = t_idempotency_key d \<or> (\<exists>row. t_idempotency_key d' = t_idempotency_key d @ [row])"
    using assms
  proof (cases rule: step.cases)
    case (create dbnow newID obj r2)
    then show ?thesis
      by (auto simp: Create_def split: sum.splits prod.splits dest: insertTx_keys)
  next
    case (bulk_create dbnow objs r3)
    then show ?thesis
      by (auto simp: BulkCreate_def split: sum.splits prod.splits dest: insert_all_keys)
  next
    case (append_event dbnow inp r1)
    then show ?thesis
      by (auto simp: Append_def split: sum.splits prod.splits dest: AppendTx_keys)
  next
    case (create_edge dbnow newID edge r6)
    then show ?thesis
      by (auto simp: CreateEdge_def insert_edge_def Let_def split: sum.splits option.splits if_splits)
  qed (auto simp: Delete_def delete_cos_def DeleteEdge_def Idempotency_Save_def Let_def dest: Execute_keys Update_keys split: if_splits)
  then show ?thesis
    by (metis append_Nil2)
qed

lemma find_append_Some: "find P xs = Some x \<Longrightarrow> find P (xs @ ys) = Some x"
  by (induction xs) auto

lemma steps_keep_key: "steps pg d d' \<Longrightarrow> Idempotency_Lookup key d = Some x \<Longrightarrow> Idempotency_Lookup key d' = Some x"
proof (induction rule: steps.induct)
  case (one d d' d'')
  then obtain rest row where "t_idempotency_key d'' = t_idempotency_key d' @ rest"
    "find (\<lambda>r. ik_id r = key) (t_idempotency_key d') = Some row" "x = (ik_status row, ik_body row)"
    using step_keys [OF one(2)] by (auto simp: Idempotency_Lookup_def)
  then show ?case
    by (simp add: Idempotency_Lookup_def find_append_Some)
qed

lemma find_append_None: "find P xs = None \<Longrightarrow> find P (xs @ [y]) = (if P y then Some y else None)"
  by (induction xs) (auto split: if_splits)

lemma Save_then_Lookup:
  "Idempotency_Lookup key d = None \<Longrightarrow> Idempotency_Lookup key (Idempotency_Save key m p status body d) = Some (status, body)"
  by (auto simp: Idempotency_Lookup_def Idempotency_Save_def find_None_iff find_append_None)

lemma mapError_not_created: "hs_Status (mapError r er) \<noteq> 201"
  by (simp add: mapError_def writeProblem_def split: err.splits)

lemma Create_effect:
  assumes "Create n i obj d = (res, d')"
  shows "(\<exists>er. res = Inl er \<and> d' = d) \<or>
    (\<exists>row. res = Inr row \<and> t_configuration_object d' = t_configuration_object d @ [scanCO row] \<and> t_idempotency_key d' = t_idempotency_key d)"
  using assms by (auto simp: Create_def insertTx_def Let_def split: sum.splits prod.splits if_splits)

lemma createArtifact_fresh:
  assumes "createArtifact zone (pg_object_ports sx n ids) r d = (q, d1)"
    and "Header_Get r ''Idempotency-Key'' = key" "key \<noteq> []" "Idempotency_Lookup key d = None"
  shows "(\<exists>p. q = Replied p \<and> hs_Status p \<noteq> 201 \<and> d1 = d) \<or>
    (\<exists>row body. q = Replied (created_reply row body) \<and> t_configuration_object d1 = t_configuration_object d @ [scanCO row] \<and>
       Idempotency_Lookup key d1 = Some (201, body))"
proof -
  have none: "stored_reply (pg_object_ports sx n ids) key d = None"
    using assms(4) by (simp add: stored_reply_def)
  obtain req er where dec: "decode_body createRequest_fields zero_createRequest (rq_Body r) = (req, er)"
    by fastforce
  show ?thesis
  proof (cases "er = None \<and> ConfigObject_Validate (toDomain req) = None")
    case False
    then show ?thesis
      using assms(1,2) none dec mapError_not_created
      by (auto simp: createArtifact_def Let_def writeProblem_def split: option.splits)
  next
    case True
    obtain res s1 where cr: "Create n (ids 0) (toDomain req) d = (res, s1)"
      by fastforce
    have fresh: "Idempotency_Lookup key s1 = None" if "t_idempotency_key s1 = t_idempotency_key d"
      using assms(4) that by (simp add: Idempotency_Lookup_def)
    show ?thesis
    proof (cases res)
      case (Inl er')
      then show ?thesis
        using assms(1,2) none dec True cr Create_effect [OF cr] mapError_not_created
        by (auto simp: createArtifact_def Let_def)
    next
      case (Inr row)
      then show ?thesis
        using assms(1,2,3) none dec True cr Create_effect [OF cr] fresh
        by (auto simp: createArtifact_def Let_def Save_then_Lookup)
    qed
  qed
qed


section \<open>Optimistic locking\<close>

definition response_header :: "Response \<Rightarrow> string \<Rightarrow> string" where
  "response_header p k = mget (hs_Headers p) k"

lemma update_co_bumps:
  assumes "distinct (map co_CfgID (t_configuration_object d))" "\<And>x. co_CfgID (f x) = co_CfgID x"
    and "update_co now c v f d = Some (Inr (row, d1))"
  shows "co_CfgID row = c" "co_RowVersion row = v + 1" "v < MaxInt64 \<or> MaxInt64 < v"
    "\<exists>obj. find (\<lambda>x. co_CfgID x = c) (t_configuration_object d) = Some obj \<and> co_RowVersion obj = v"
    "\<And>x. x \<in> set (t_configuration_object d1) \<Longrightarrow> co_CfgID x = c \<Longrightarrow> x = row"
    "row \<in> set (t_configuration_object d1)"
proof -
  obtain x where x: "find (\<lambda>x. co_CfgID x = c \<and> co_RowVersion x = v) (t_configuration_object d) = Some x"
    "row = (f x)\<lparr> co_RowVersion := co_RowVersion x + 1, co_UpdatedAt := now \<rparr>" "co_RowVersion x \<noteq> MaxInt64"
    "d1 = d\<lparr> t_configuration_object := map (\<lambda>y. if co_CfgID y = c \<and> co_RowVersion y = v then row else y)
        (t_configuration_object d) \<rparr>"
    using assms(3) by (auto simp: update_co_def Let_def split: option.splits if_splits)
  have mem: "x \<in> set (t_configuration_object d)" "co_CfgID x = c" "co_RowVersion x = v"
    using x(1) by (auto dest: find_Some_set)
  have uniq: "y = x" if "y \<in> set (t_configuration_object d)" "co_CfgID y = c" for y
    using assms(1) mem(1,2) that by (auto simp: distinct_map inj_on_def)
  show "co_CfgID row = c" "co_RowVersion row = v + 1" "v < MaxInt64 \<or> MaxInt64 < v"
    using x(2,3) mem assms(2) by auto
  show "row \<in> set (t_configuration_object d1)"
    using x(4) mem by force
  show "y = row" if "y \<in> set (t_configuration_object d1)" "co_CfgID y = c" for y
    using that uniq mem(3) by (auto simp: x(4) split: if_splits)
  obtain z where z: "find (\<lambda>x. co_CfgID x = c) (t_configuration_object d) = Some z"
    using mem by (cases "find (\<lambda>x. co_CfgID x = c) (t_configuration_object d)") (auto simp: find_None_iff)
  then have "z = x"
    by (intro uniq) (auto dest: find_Some_set)
  with z mem(3) show "\<exists>obj. find (\<lambda>x. co_CfgID x = c) (t_configuration_object d) = Some obj \<and> co_RowVersion obj = v"
    by blast
qed

lemma Update_twice:
  assumes "distinct (map co_CfgID (t_configuration_object d))" "Update n c v p d = (Inr updated, d1)"
  shows "\<exists>obj. find (\<lambda>x. co_CfgID x = c) (t_configuration_object d) = Some obj \<and> co_RowVersion obj = v"
    "co_RowVersion updated = v + 1" "Update n2 c v p2 d1 = (Inl ErrVersionMismatch, d1)"
proof -
  obtain row d0 where up: "update_co n c v (patch_row p) d = Some (Inr (row, d0))"
    "t_configuration_object d1 = t_configuration_object d0" "co_RowVersion updated = co_RowVersion row"
    using assms(2) by (auto simp: Update_def Let_def attachMetadata_def scanCO_def split: option.splits sum.splits prod.splits)
  note b = update_co_bumps [OF assms(1) patch_row_id up(1)]
  show "\<exists>obj. find (\<lambda>x. co_CfgID x = c) (t_configuration_object d) = Some obj \<and> co_RowVersion obj = v"
    by (rule b(4))
  show "co_RowVersion updated = v + 1"
    using up(3) b(2) by simp
  have "find (\<lambda>x. co_CfgID x = c \<and> co_RowVersion x = v) (t_configuration_object d1) = None"
    using b(2,5) up(2) by (auto simp: find_None_iff)
  moreover have "c \<in> object_ids d1"
    using b(1,6) up(2) by (auto simp: object_ids_def)
  ultimately show "Update n2 c v p2 d1 = (Inl ErrVersionMismatch, d1)"
    by (simp add: Update_def update_co_def)
qed

lemma mapError_not_ok: "hs_Status (mapError r er) \<noteq> 200"
  by (simp add: mapError_def writeProblem_def split: err.splits)

lemma response_header_writeJSON: "response_header (writeJSON ((k, x) # h) status v) k = x"
  by (simp add: response_header_def writeJSON_def mget_def)

lemma patchArtifact_ok:
  assumes "patchArtifact zone (pg_object_ports sx n ids) r d = (Replied p, d1)" "hs_Status p = 200"
  shows "\<exists>v patch updated. parseETag (Header_Get r ''If-Match'') = Some v \<and>
    Update n (URLParam r ''id'') v patch d = (Inr updated, d1) \<and> response_header p ''ETag'' = etag (co_RowVersion updated)"
proof -
  obtain v req patch res where q: "parseETag (Header_Get r ''If-Match'') = Some v" "toPatch req = Inr patch"
    "Update n (URLParam r ''id'') v patch d = (res, d1)"
    "p = (case res of Inl er \<Rightarrow> mapError r er
      | Inr u \<Rightarrow> writeJSON [(''ETag'', etag (co_RowVersion u))] 200 (configObjectResponse_json zone u))"
    using assms mapError_not_ok unfolding patchArtifact_def Let_def writeProblem_def
    by (auto split: if_splits option.splits prod.splits sum.splits)
  then show ?thesis
    using assms(2) mapError_not_ok by (cases res) (auto simp: response_header_writeJSON)
qed

text \<open>C37: no update is lost.  When two clients send a \<^verbatim>\<open>PATCH\<close> for the same object with the same entity tag and the
  first is answered 200, the tag was that of the stored object, the answer carries the tag of the next version, and the
  second request changes nothing: it is refused with 412 unless its body is itself refused.\<close>

theorem stale_patch_rejected:
  assumes "reachable pg d" "Header_Get r1 ''If-Match'' = tag" "URLParam r1 ''id'' = c"
    and "patchArtifact zone (pg_object_ports sx n ids) r1 d = (Replied p, d1)" "hs_Status p = 200"
    and "Header_Get r2 ''If-Match'' = tag" "URLParam r2 ''id'' = c"
  shows "\<exists>v obj. parseETag tag = Some v \<and> pg_objects d c = Some obj \<and> co_RowVersion obj = v \<and>
    response_header p ''ETag'' = etag (v + 1) \<and>
    (\<exists>p2. patchArtifact zone2 (pg_object_ports sx2 n2 ids2) r2 d1 = (Replied p2, d1) \<and>
       (p2 = mapError r2 ErrVersionMismatch \<or> p2 = badJSON r2 \<or> (\<exists>f m. p2 = mapError r2 (ValidationError f m))))"
proof -
  have dist: "distinct (map co_CfgID (t_configuration_object d))"
    using reachable_db_inv [OF assms(1)] by (simp add: db_inv_def)
  obtain v patch updated where up: "parseETag tag = Some v" "Update n c v patch d = (Inr updated, d1)"
    "response_header p ''ETag'' = etag (co_RowVersion updated)"
    using patchArtifact_ok [OF assms(4,5)] assms(2,3) by blast
  note tw = Update_twice [OF dist up(2)]
  obtain obj where obj: "find (\<lambda>x. co_CfgID x = c) (t_configuration_object d) = Some obj" "co_RowVersion obj = v"
    using tw(1) by blast
  have tag: "tag \<noteq> []"
    using assms(2,4,5) by (auto simp: patchArtifact_def Let_def writeProblem_def)
  have err: "\<exists>f m. er = ValidationError f m" if "toPatch q = Inl er" for q er
    using that by (auto simp: toPatch_def split: if_splits)
  have "\<exists>p2. patchArtifact zone2 (pg_object_ports sx2 n2 ids2) r2 d1 = (Replied p2, d1) \<and>
       (p2 = mapError r2 ErrVersionMismatch \<or> p2 = badJSON r2 \<or> (\<exists>f m. p2 = mapError r2 (ValidationError f m)))"
  proof (cases "decode_body patchRequest_fields zero_patchRequest (rq_Body r2)")
    case (Pair q e)
    show ?thesis
    proof (cases e)
      case None
      show ?thesis
      proof (cases "toPatch q")
        case (Inl er)
        then show ?thesis
          using Pair None tag up(1) assms(6) err [OF Inl] by (auto simp: patchArtifact_def)
      next
        case (Inr patch2)
        then show ?thesis
          using Pair None tag up(1) assms(6,7) tw(3) by (simp add: patchArtifact_def)
      qed
    next
      case (Some er)
      then show ?thesis
        using Pair tag up(1) assms(6) by (simp add: patchArtifact_def)
    qed
  qed
  moreover have "pg_objects d c = Some (scanCO obj)" "co_RowVersion (scanCO obj) = v"
    using obj by (simp_all add: pg_objects_def scanCO_def)
  ultimately show ?thesis
    using up(1,3) tw(2) by metis
qed

definition sample_post :: Request where
  "sample_post = sample_request\<lparr> rq_Headers := [(''Idempotency-Key'', ''k1'')],
     rq_Body := ''{\"artifact\":\"doc\",\"version\":\"1.0.0\",\"role\":\"constitution\",\"lifecycle\":\"draft\",\"retention_class\":\"current_planning\"}'' \<rparr>"

lemma sample_post_body: "decode_body createRequest_fields zero_createRequest (rq_Body sample_post) =
    (zero_createRequest\<lparr> cr_Artifact := ''doc'', cr_Version := ''1.0.0'', cr_Role := RoleConstitution, cr_Lifecycle := LifecycleDraft,
       cr_RetentionClass := RetentionCurrentPlanning \<rparr>, None)"
  by code_simp

definition sample_patch :: Request where
  "sample_patch = sample_request\<lparr> rq_Headers := [(''If-Match'', etag 1)], rq_Params := [(''id'', ''c1'')],
     rq_Body := ''{\"ratified_by\":\"bob\"}'' \<rparr>"

lemma sample_patch_body: "decode_body patchRequest_fields zero_patchRequest (rq_Body sample_patch) =
    (zero_patchRequest\<lparr> pr_RatifiedBy := Some ''bob'' \<rparr>, None)"
  by code_simp

abbreviation sample_ports :: "db object_ports" where
  "sample_ports \<equiv> pg_object_ports \<lparr> sx_ToLower = (\<lambda>s. s), sx_lower_like = (\<lambda>v p. True) \<rparr> 0 (\<lambda>i. ''c1'')"

lemma sample_created: "\<exists>p d1. createArtifact (\<lambda>_. 0) sample_ports sample_post empty_db = (Replied p, d1) \<and> hs_Status p = 201"
proof -
  let ?o = "toDomain (zero_createRequest\<lparr> cr_Artifact := ''doc'', cr_Version := ''1.0.0'', cr_Role := RoleConstitution,
      cr_Lifecycle := LifecycleDraft, cr_RetentionClass := RetentionCurrentPlanning \<rparr>)"
  have "ConfigObject_Validate ?o = None"
    using semver_100 TrimSpace_doc
    by (simp add: ConfigObject_Validate_def toDomain_def zero_createRequest_def Role_Valid_def Lifecycle_Valid_def
        Authority_Valid_def RetentionClass_Valid_def)
  moreover have "\<exists>row d1. Create 0 ''c1'' ?o empty_db = (Inr row, d1)"
    by (simp add: Create_def insertTx_def with_defaults_def Let_def toDomain_def zero_createRequest_def empty_db_def
      co_check_def Role_Valid_def Lifecycle_Valid_def Authority_Valid_def RetentionClass_Valid_def)
  moreover have "stored_reply sample_ports (Header_Get sample_post ''Idempotency-Key'') empty_db = None"
    by (simp add: stored_reply_def Idempotency_Lookup_def empty_db_def)
  ultimately show ?thesis
    by (auto simp: createArtifact_def sample_post_body created_reply_def Let_def)
qed


lemma sample_patched: "\<exists>p d1. patchArtifact (\<lambda>_. 0) sample_ports sample_patch sample_db = (Replied p, d1) \<and> hs_Status p = 200"
proof -
  have tag: "parseETag (Header_Get sample_patch ''If-Match'') = Some 1" "Header_Get sample_patch ''If-Match'' \<noteq> []"
    "URLParam sample_patch ''id'' = ''c1''"
    using parseETag_etag [of 1] by (simp_all add: sample_patch_def mget_def) (simp add: etag_def)
  have "toPatch (zero_patchRequest\<lparr> pr_RatifiedBy := Some ''bob'' \<rparr>) = Inr \<lparr> pa_Lifecycle = None, pa_RetentionClass = None,
      pa_Authority = None, pa_RatifiedBy = Some ''bob'', pa_ReviewCycle = None, pa_RetentionPolicy = None, pa_Metadata = None \<rparr>"
    by (simp add: toPatch_def zero_patchRequest_def rejected_def)
  moreover have "\<exists>u d1. Update 0 ''c1'' 1 \<lparr> pa_Lifecycle = None, pa_RetentionClass = None,
      pa_Authority = None, pa_RatifiedBy = Some ''bob'', pa_ReviewCycle = None, pa_RetentionPolicy = None, pa_Metadata = None \<rparr> sample_db = (Inr u, d1)"
    by (simp add: Update_def update_co_def patch_row_def set_opt_def sample_db_def sample_object_def Let_def co_check_def
        Role_Valid_def Lifecycle_Valid_def Authority_Valid_def RetentionClass_Valid_def)
  ultimately show ?thesis
    using tag by (auto simp: patchArtifact_def sample_patch_body writeJSON_def)
qed

theorem stale_patch_rejected_witness:
  "\<exists>p p2 d1. patchArtifact (\<lambda>_. 0) sample_ports sample_patch sample_db = (Replied p, d1) \<and> response_header p ''ETag'' = etag 2 \<and>
     patchArtifact (\<lambda>_. 0) sample_ports sample_patch d1 = (Replied p2, d1)"
proof -
  obtain p d1 where run: "patchArtifact (\<lambda>_. 0) sample_ports sample_patch sample_db = (Replied p, d1)" "hs_Status p = 200"
    using sample_patched by blast
  obtain v obj where "pg_objects sample_db (URLParam sample_patch ''id'') = Some obj" "co_RowVersion obj = v"
    "response_header p ''ETag'' = etag (v + 1)"
    "\<exists>p2. patchArtifact (\<lambda>_. 0) sample_ports sample_patch d1 = (Replied p2, d1)"
    using stale_patch_rejected [OF sample_reachable refl refl run refl refl] by blast
  moreover have "URLParam sample_patch ''id'' = ''c1''"
    by (simp add: sample_patch_def mget_def)
  ultimately show ?thesis
    using run(1) by (auto simp: sample_pg_objects sample_object_def)
qed

end
