(* ===== verification/GraphApi.thy ===== *)
theory GraphApi
  imports Artifacts Graph
begin

text \<open>
  The dependency graph over HTTP (\<^verbatim>\<open>internal/httpapi\<close>: handlers_graph.go, graph_dto.go): direct and transitive
  neighbours of an object, with an optional bound on the depth, and the cycles through it.
\<close>

section \<open>Ports\<close>

record direct_lookup =
  gd_Dependencies :: "string \<Rightarrow> err + string list"
  gd_Dependents :: "string \<Rightarrow> err + string list"

type_synonym 's graph_wiring = "('s \<Rightarrow> GraphTraversal \<times> direct_lookup) option"

definition pg_graph :: "db graph_wiring" where
  "pg_graph = Some (\<lambda>d. (pg_traversal d,
     \<lparr> gd_Dependencies = (\<lambda>c. Inr (Dependencies d c)), gd_Dependents = (\<lambda>c. Inr (Dependents d c)) \<rparr>))"

section \<open>Parameters and bodies\<close>

definition parseBoolParam :: "string \<Rightarrow> bool option" where
  "parseBoolParam v = (if v = [] then Some False else ParseBool v)"

definition parseDepthParam :: "string \<Rightarrow> int option" where
  "parseDepthParam v =
     (if v = [] then Some 0
      else case ParseInt v of None \<Rightarrow> None | Some n \<Rightarrow> if n \<le> 0 then None else Some n)"

definition filterByDepth :: "TraversalNode list \<Rightarrow> int \<Rightarrow> TraversalNode list" where
  "filterByDepth nodes maxDepth = filter (\<lambda>n. int (tn_Depth n) \<le> maxDepth) nodes"

definition traversalResponse_json :: "string \<Rightarrow> string \<Rightarrow> bool \<Rightarrow> TraversalNode list \<Rightarrow> bytes" where
  "traversalResponse_json root dir recursive nodes = print_struct True
     [(''root'', json_quote True root), (''direction'', json_quote True dir), (''recursive'', bool_field recursive),
      (''count'', FormatInt (int (length nodes))),
      (''nodes'', array_json (map (\<lambda>n. print_struct True [(''cfg_id'', json_quote True (tn_CfgID n)),
                                     (''depth'', FormatInt (int (tn_Depth n)))]) nodes))]"

definition cyclesResponse_json :: "string \<Rightarrow> GraphPath list \<Rightarrow> bytes" where
  "cyclesResponse_json root cycles = print_struct True
     [(''root'', json_quote True root), (''count'', FormatInt (int (length cycles))),
      (''cycles'', array_json (map (\<lambda>c. print_struct True [(''path'', array_json (map (json_quote True) c))]) cycles))]"

section \<open>Handlers\<close>

definition traverse :: "GraphTraversal \<Rightarrow> direct_lookup \<Rightarrow> string \<Rightarrow> string \<Rightarrow> bool \<Rightarrow> int \<Rightarrow> err + TraversalNode list" where
  "traverse graph direct dir cfgID recursive maxDepth =
     (if recursive then
        (case (if dir = DirectionDependents then WalkDependents graph cfgID else WalkDependencies graph cfgID) of
           Inl er \<Rightarrow> Inl er
         | Inr res \<Rightarrow> Inr (if 0 < maxDepth then filterByDepth (tr_Nodes res) maxDepth else tr_Nodes res))
      else
        (case (if dir = DirectionDependents then gd_Dependents direct cfgID else gd_Dependencies direct cfgID) of
           Inl er \<Rightarrow> Inl er
         | Inr ids \<Rightarrow> Inr (map (\<lambda>i. \<lparr> tn_CfgID = i, tn_Depth = 1 \<rparr>) ids)))"

definition graphUnavailable :: "Request \<Rightarrow> Response" where
  "graphUnavailable r = writeProblem r 500 ''internal error'' ''graph service unavailable''"

definition serveTraversal :: "'s object_ports \<Rightarrow> 's graph_wiring \<Rightarrow> string \<Rightarrow> 's handler" where
  "serveTraversal p wiring dir r s =
     (case wiring of
        None \<Rightarrow> (Replied (graphUnavailable r), s)
      | Some g \<Rightarrow>
          let cfgID = URLParam r ''cfgId'' in
         (case ob_Get p cfgID s of
            Inl er \<Rightarrow> (Replied (mapError r er), s)
          | Inr obj \<Rightarrow>
         (case parseBoolParam (Query_Get r ''recursive'') of
            None \<Rightarrow> (Replied (writeProblem r 400 ''bad request'' ''invalid recursive: must be true or false''), s)
          | Some recursive \<Rightarrow>
         (case parseDepthParam (Query_Get r ''max_depth'') of
            None \<Rightarrow> (Replied (writeProblem r 400 ''bad request'' ''invalid max_depth: must be a positive integer''), s)
          | Some maxDepth \<Rightarrow>
         (case traverse (fst (g s)) (snd (g s)) dir cfgID recursive maxDepth of
            Inl er \<Rightarrow> (Replied (mapError r er), s)
          | Inr nodes \<Rightarrow> (Replied (writeJSON [] 200 (Inr (traversalResponse_json cfgID dir recursive nodes))), s))))))"

definition getDependencies :: "'s object_ports \<Rightarrow> 's graph_wiring \<Rightarrow> 's handler" where
  "getDependencies p wiring = serveTraversal p wiring DirectionDependencies"

definition getDependents :: "'s object_ports \<Rightarrow> 's graph_wiring \<Rightarrow> 's handler" where
  "getDependents p wiring = serveTraversal p wiring DirectionDependents"

definition getCycles :: "'s object_ports \<Rightarrow> 's graph_wiring \<Rightarrow> 's handler" where
  "getCycles p wiring r s =
     (case wiring of
        None \<Rightarrow> (Replied (graphUnavailable r), s)
      | Some g \<Rightarrow>
          let cfgID = URLParam r ''cfgId'' in
         (case ob_Get p cfgID s of
            Inl er \<Rightarrow> (Replied (mapError r er), s)
          | Inr obj \<Rightarrow>
         (case DetectCycles (fst (g s)) cfgID of
            Inl er \<Rightarrow> (Replied (mapError r er), s)
          | Inr cycles \<Rightarrow> (Replied (writeJSON [] 200 (Inr (cyclesResponse_json cfgID cycles))), s))))"

end
