(* ===== verification/Integrity.thy ===== *)
theory Integrity
  imports ControlPlane
begin

text \<open>
  The scheduled verification of every audit chain (\<^verbatim>\<open>internal/ops\<close>): the sweep with its retries, the report it
  leaves behind and the status.  What a sweep takes from outside is an argument: the outcomes of the verifier, the
  cancellation of the context, the clock and the list of chains.  The
  recorder of metrics is in the theory \<open>Metrics\<close>, the loop in \<open>Workers\<close>; the log is left out.
\<close>

section \<open>Configuration and reports\<close>

record SchedulerConfig =
  ic_Interval :: duration
  ic_RunTimeout :: duration
  ic_RetryAttempts :: int
  ic_RetryBackoff :: duration

definition scheduler_withDefaults :: "SchedulerConfig \<Rightarrow> SchedulerConfig" where
  "scheduler_withDefaults c = \<lparr> ic_Interval = (if ic_Interval c \<le> 0 then 5 * Minute else ic_Interval c),
     ic_RunTimeout = (if ic_RunTimeout c \<le> 0 then 30 * Second else ic_RunTimeout c),
     ic_RetryAttempts = (if ic_RetryAttempts c < 0 then 0 else ic_RetryAttempts c),
     ic_RetryBackoff = (if ic_RetryBackoff c < 0 then 0 else ic_RetryBackoff c) \<rparr>"

record ChainFailure =
  cf_ChainID :: string
  cf_HeadSeq :: int
  cf_FirstBreakSeq :: "int option"
  cf_BreakReason :: string
  cf_Checked :: int

record ChainError =
  ce_ChainID :: string
  ce_Err :: string

record IntegrityReport =
  ir_StartedAt :: instant
  ir_Duration :: duration
  ir_ChainsTotal :: int
  ir_ChainsOK :: int
  ir_Failures :: "ChainFailure list"
  ir_Errors :: "ChainError list"

definition Healthy :: "IntegrityReport \<Rightarrow> bool" where
  "Healthy r \<longleftrightarrow> length (ir_Failures r) = 0 \<and> length (ir_Errors r) = 0"

record Scheduler =
  sd_cfg :: SchedulerConfig
  sd_running :: bool
  sd_hasRun :: bool
  sd_lastRunAt :: instant
  sd_lastRep :: IntegrityReport

definition empty_report :: IntegrityReport where
  "empty_report = \<lparr> ir_StartedAt = zero_time, ir_Duration = 0, ir_ChainsTotal = 0, ir_ChainsOK = 0, ir_Failures = [], ir_Errors = [] \<rparr>"

text \<open>\<open>verifier\<close> and \<open>lister\<close> are the two arguments whose absence is refused.\<close>

definition NewScheduler :: "'v option \<Rightarrow> 'l option \<Rightarrow> SchedulerConfig \<Rightarrow> err + ('v \<times> 'l \<times> Scheduler)" where
  "NewScheduler verifier lister cfg =
     (case verifier of None \<Rightarrow> Inl (ErrOther ''ops: scheduler requires a non-nil ChainVerifier'')
      | Some v \<Rightarrow> (case lister of None \<Rightarrow> Inl (ErrOther ''ops: scheduler requires a non-nil ChainLister'')
      | Some l \<Rightarrow> Inr (v, l, \<lparr> sd_cfg = scheduler_withDefaults cfg, sd_running = False, sd_hasRun = False,
          sd_lastRunAt = zero_time, sd_lastRep = empty_report \<rparr>)))"

section \<open>A sweep\<close>

text \<open>\<open>verify k\<close> is the outcome of the attempt numbered \<open>k\<close> and \<open>stopped k\<close> the context's error when it ends the
  wait after that attempt.\<close>

fun verify_attempts ::
  "(nat \<Rightarrow> string \<Rightarrow> err + VerifyResult) \<Rightarrow> (nat \<Rightarrow> err option) \<Rightarrow> string \<Rightarrow> nat \<Rightarrow> nat \<Rightarrow> err + VerifyResult" where
  "verify_attempts verify stopped chainID 0 k = verify k chainID"
| "verify_attempts verify stopped chainID (Suc n) k =
     (case verify k chainID of
        Inr res \<Rightarrow> Inr res
      | Inl er \<Rightarrow> (case stopped k of Some e \<Rightarrow> Inl e | None \<Rightarrow> verify_attempts verify stopped chainID n (Suc k)))"

definition verifyWithRetry ::
  "SchedulerConfig \<Rightarrow> (nat \<Rightarrow> string \<Rightarrow> err + VerifyResult) \<Rightarrow> (nat \<Rightarrow> err option) \<Rightarrow> string \<Rightarrow> err + VerifyResult" where
  "verifyWithRetry cfg verify stopped chainID = verify_attempts verify stopped chainID (nat (ic_RetryAttempts cfg)) 0"

definition chain_failure :: "string \<Rightarrow> VerifyResult \<Rightarrow> ChainFailure" where
  "chain_failure chainID res = \<lparr> cf_ChainID = chainID, cf_HeadSeq = vr_HeadSeq res, cf_FirstBreakSeq = vr_FirstBreakSeq res,
     cf_BreakReason = vr_BreakReason res, cf_Checked = vr_Checked res \<rparr>"

text \<open>The outside of a sweep: the verifier's outcomes, the cancellation during waits and before a chain, the text of errors.\<close>

record sweep_env =
  se_verify :: "string \<Rightarrow> nat \<Rightarrow> string \<Rightarrow> err + VerifyResult"
  se_stopped :: "string \<Rightarrow> nat \<Rightarrow> err option"
  se_ctxErr :: "string \<Rightarrow> err option"
  se_text :: "err \<Rightarrow> string"

fun sweep_chains :: "SchedulerConfig \<Rightarrow> sweep_env \<Rightarrow> string list \<Rightarrow> IntegrityReport \<Rightarrow> IntegrityReport" where
  "sweep_chains cfg E [] r = r"
| "sweep_chains cfg E (c # cs) r =
     (case se_ctxErr E c of
        Some er \<Rightarrow> r\<lparr> ir_Errors := ir_Errors r @ [\<lparr> ce_ChainID = c, ce_Err = se_text E er \<rparr>] \<rparr>
      | None \<Rightarrow>
     (case verifyWithRetry cfg (se_verify E c) (se_stopped E c) c of
        Inl er \<Rightarrow> sweep_chains cfg E cs (r\<lparr> ir_Errors := ir_Errors r @ [\<lparr> ce_ChainID = c, ce_Err = se_text E er \<rparr>] \<rparr>)
      | Inr res \<Rightarrow>
          sweep_chains cfg E cs
            (if vr_OK res then r\<lparr> ir_ChainsOK := ir_ChainsOK r + 1 \<rparr>
             else r\<lparr> ir_Failures := ir_Failures r @ [chain_failure c res] \<rparr>)))"

definition storeReport :: "instant \<Rightarrow> IntegrityReport \<Rightarrow> Scheduler \<Rightarrow> Scheduler" where
  "storeReport now r s = s\<lparr> sd_hasRun := True, sd_lastRunAt := now, sd_lastRep := r \<rparr>"

definition setRunning :: "bool \<Rightarrow> Scheduler \<Rightarrow> Scheduler" where
  "setRunning v s = s\<lparr> sd_running := v \<rparr>"

definition Scheduler_RunOnce ::
  "sweep_env \<Rightarrow> err + string list \<Rightarrow> instant \<Rightarrow> instant \<Rightarrow> Scheduler \<Rightarrow> IntegrityReport \<times> Scheduler" where
  "Scheduler_RunOnce E listed start finish s =
     (let report = empty_report\<lparr> ir_StartedAt := start \<rparr> in
      case listed of
        Inl er \<Rightarrow> (let r = report\<lparr> ir_Errors := [\<lparr> ce_ChainID = [], ce_Err = se_text E er \<rparr>], ir_Duration := finish - start \<rparr>
                  in (r, storeReport finish r s))
      | Inr chainIDs \<Rightarrow>
          (let r = (sweep_chains (sd_cfg s) E chainIDs (report\<lparr> ir_ChainsTotal := int (length chainIDs) \<rparr>))\<lparr> ir_Duration := finish - start \<rparr>
           in (r, storeReport finish r s)))"

section \<open>Status\<close>

text \<open>Durations are kept in nanoseconds; the code reports them as floating-point seconds.\<close>

record SchedulerStatus =
  st_Running :: bool
  st_HasRun :: bool
  st_Interval :: duration
  st_LastRunAt :: instant
  st_SinceLastRun :: duration
  st_Stalled :: bool
  st_LastHealthy :: bool
  st_ChainsTotal :: int
  st_ChainsOK :: int
  st_Failures :: int
  st_Errors :: int

definition Scheduler_Status :: "instant \<Rightarrow> Scheduler \<Rightarrow> SchedulerStatus" where
  "Scheduler_Status now s =
     (let rep = sd_lastRep s; since = now - sd_lastRunAt s in
      \<lparr> st_Running = sd_running s, st_HasRun = sd_hasRun s, st_Interval = ic_Interval (sd_cfg s), st_LastRunAt = sd_lastRunAt s,
        st_SinceLastRun = (if sd_hasRun s then since else 0),
        st_Stalled = (sd_hasRun s \<and> int64 (2 * ic_Interval (sd_cfg s)) < since),
        st_LastHealthy = (sd_hasRun s \<and> Healthy rep), st_ChainsTotal = ir_ChainsTotal rep, st_ChainsOK = ir_ChainsOK rep,
        st_Failures = int (length (ir_Failures rep)), st_Errors = int (length (ir_Errors rep)) \<rparr>)"

section \<open>A sweep finds exactly the broken chains\<close>

text \<open>A sweep over the stored rows, with a verifier that is not disturbed.\<close>

definition stored_env :: "db \<Rightarrow> sweep_env" where
  "stored_env d = \<lparr> se_verify = (\<lambda>_ _ c. VerifyChain (VerifyRangeReader d) c), se_stopped = (\<lambda>_ _. None),
     se_ctxErr = (\<lambda>_. None), se_text = (\<lambda>_. []) \<rparr>"

abbreviation stored_rows :: "db \<Rightarrow> string \<Rightarrow> AuditEvent list" where
  "stored_rows d c \<equiv> fst (VerifyRangeReader d c 1 MaxInt64)"

lemma VerifyChain_stored:
  assumes "int (length (stored_rows d c)) < MaxInt64"
  shows "\<exists>r. VerifyChain (VerifyRangeReader d) c = Inr r \<and> (vr_OK r \<longleftrightarrow> chain_valid GenesisPrevHash 1 (stored_rows d c))"
proof -
  have rd: "VerifyRangeReader d c 1 MaxInt64 = (stored_rows d c, None)"
    by (simp add: VerifyRangeReader_def)
  show ?thesis
  proof (cases "chain_valid GenesisPrevHash 1 (stored_rows d c)")
    case True
    then show ?thesis
      using VerifyChain_accepts [of "VerifyRangeReader d", OF rd assms] by simp
  next
    case False
    from VerifyChain_rejects [of "VerifyRangeReader d", OF rd assms False] show ?thesis
      using False by (metis VerifyResult.select_convs(2))
  qed
qed

lemma verifyWithRetry_stored:
  assumes "VerifyChain (VerifyRangeReader d) c = Inr r"
  shows "verifyWithRetry cfg (se_verify (stored_env d) c) (se_stopped (stored_env d) c) c = Inr r"
  unfolding verifyWithRetry_def using assms by (cases "nat (ic_RetryAttempts cfg)") (simp_all add: stored_env_def)

lemma sweep_stored:
  assumes "\<And>c. c \<in> set cs \<Longrightarrow> int (length (stored_rows d c)) < MaxInt64"
  shows "\<exists>r'. sweep_chains cfg (stored_env d) cs r = r' \<and> ir_Errors r' = ir_Errors r \<and> ir_ChainsTotal r' = ir_ChainsTotal r \<and>
    ir_ChainsOK r' = ir_ChainsOK r + int (length (filter (\<lambda>c. chain_valid GenesisPrevHash 1 (stored_rows d c)) cs)) \<and>
    map cf_ChainID (ir_Failures r') = map cf_ChainID (ir_Failures r) @ filter (\<lambda>c. \<not> chain_valid GenesisPrevHash 1 (stored_rows d c)) cs"
  using assms
proof (induction cs arbitrary: r)
  case (Cons c cs)
  from VerifyChain_stored [OF Cons.prems [OF list.set_intros(1)]]
  obtain v where v: "VerifyChain (VerifyRangeReader d) c = Inr v" "vr_OK v \<longleftrightarrow> chain_valid GenesisPrevHash 1 (stored_rows d c)"
    by blast
  have go: "se_ctxErr (stored_env d) c = None"
    by (simp add: stored_env_def)
  let ?r = "if vr_OK v then r\<lparr> ir_ChainsOK := ir_ChainsOK r + 1 \<rparr> else r\<lparr> ir_Failures := ir_Failures r @ [chain_failure c v] \<rparr>"
  show ?case
    using Cons.IH [of ?r] Cons.prems v(2) by (simp add: go verifyWithRetry_stored [OF v(1)] chain_failure_def)
qed simp

text \<open>An undisturbed sweep over the stored rows reports exactly the chains that are broken, counts the sound ones, and is
  healthy exactly when every listed chain is sound; the status shows it afterwards.\<close>

lemma sweep_reports_broken_chains:
  assumes "\<And>c. c \<in> set (ListChainIDs d) \<Longrightarrow> int (length (stored_rows d c)) < MaxInt64"
    and "Scheduler_RunOnce (stored_env d) (Inr (ListChainIDs d)) start finish s = (r, s')"
  shows "map cf_ChainID (ir_Failures r) = filter (\<lambda>c. \<not> chain_valid GenesisPrevHash 1 (stored_rows d c)) (ListChainIDs d) \<and>
    ir_ChainsTotal r = int (length (ListChainIDs d)) \<and> ir_ChainsOK r + int (length (ir_Failures r)) = ir_ChainsTotal r \<and>
    ir_Errors r = [] \<and>
    (st_LastHealthy (Scheduler_Status now s') \<longleftrightarrow> (\<forall>c \<in> set (ListChainIDs d). chain_valid GenesisPrevHash 1 (stored_rows d c)))"
proof -
  let ?ok = "\<lambda>c. chain_valid GenesisPrevHash 1 (stored_rows d c)"
  let ?r0 = "empty_report\<lparr> ir_StartedAt := start, ir_ChainsTotal := int (length (ListChainIDs d)) \<rparr>"
  let ?r1 = "sweep_chains (sd_cfg s) (stored_env d) (ListChainIDs d) ?r0"
  have swept: "ir_Errors ?r1 = []" "ir_ChainsTotal ?r1 = int (length (ListChainIDs d))"
      "ir_ChainsOK ?r1 = int (length (filter ?ok (ListChainIDs d)))"
      "map cf_ChainID (ir_Failures ?r1) = filter (\<lambda>c. \<not> ?ok c) (ListChainIDs d)"
    using sweep_stored [of "ListChainIDs d" d "sd_cfg s" ?r0, OF assms(1)] by (simp_all add: empty_report_def)
  have failures: "length (ir_Failures ?r1) = length (filter (\<lambda>c. \<not> ?ok c) (ListChainIDs d))"
    by (metis swept(4) length_map)
  have "ir_Failures ?r1 = [] \<longleftrightarrow> (\<forall>c \<in> set (ListChainIDs d). ?ok c)"
    using swept(4) by (metis (no_types, lifting) map_is_Nil_conv filter_empty_conv)
  note healthy = this
  have r: "r = ?r1\<lparr> ir_Duration := finish - start \<rparr>" "s' = storeReport finish r s"
    using assms(2) by (auto simp: Scheduler_RunOnce_def Let_def)
  have "st_LastHealthy (Scheduler_Status now s') \<longleftrightarrow> (\<forall>c \<in> set (ListChainIDs d). ?ok c)"
    using healthy swept(1) unfolding r(2) by (simp add: Scheduler_Status_def storeReport_def Healthy_def r(1) Let_def)
  then show ?thesis
    using swept failures sum_length_filter_compl [of ?ok "ListChainIDs d"] by (simp add: r(1))
qed

end
