(* ===== verification/GovernanceApi.thy ===== *)
theory GovernanceApi
  imports Artifacts Integrity
begin

text \<open>
  Constitutional operations and the governance queries over HTTP (\<^verbatim>\<open>internal/httpapi\<close>: handlers_governance.go,
  handlers_governance_read.go).  The transport adds identity, idempotency key, entity tag and body to the command and
  renders the result; the decision is the engine's.  \<open>Execute\<close> and the reading ports are arguments, so that the
  handlers are defined for any engine and any store; a port that is not wired is \<open>None\<close>.
\<close>

section \<open>Bodies\<close>

record governanceRequest =
  gr_TargetRetention :: string
  gr_SuccessorID :: string

definition governanceRequest_fields :: "governanceRequest fields" where
  "governanceRequest_fields = [
     (''target_retention'', string_field (\<lambda>x q. q\<lparr> gr_TargetRetention := x \<rparr>)),
     (''successor_id'', string_field (\<lambda>x q. q\<lparr> gr_SuccessorID := x \<rparr>))]"

definition zero_governanceRequest :: governanceRequest where
  "zero_governanceRequest = \<lparr> gr_TargetRetention = [], gr_SuccessorID = [] \<rparr>"

record governanceState =
  gv_Lifecycle :: string
  gv_RetentionClass :: string
  gv_Authority :: string

definition governanceState_json :: "governanceState \<Rightarrow> bytes" where
  "governanceState_json g = print_struct True
     [(''lifecycle'', json_quote True (gv_Lifecycle g)), (''retention_class'', json_quote True (gv_RetentionClass g)),
      (''authority'', json_quote True (gv_Authority g))]"

record governanceAudit =
  ga_OperationID :: string
  ga_ChainID :: string
  ga_Recorded :: bool

record governanceResponse =
  gp_Operation :: string
  gp_CfgID :: string
  gp_Actor :: string
  gp_OccurredAt :: instant
  gp_Removed :: bool
  gp_RowVersion :: int
  gp_State :: "governanceState option"
  gp_Audit :: governanceAudit
  gp_SuccessorID :: string

definition toGovernanceResponse :: "Result \<Rightarrow> string \<Rightarrow> governanceResponse" where
  "toGovernanceResponse res operationID =
     \<lparr> gp_Operation = rs_Operation res, gp_CfgID = rs_CfgID res, gp_Actor = rs_Actor res, gp_OccurredAt = rs_OccurredAt res,
       gp_Removed = rs_Removed res, gp_RowVersion = rs_RowVersion res,
       gp_State = (if rs_Removed res then None
         else Some \<lparr> gv_Lifecycle = rs_NewLifecycle res, gv_RetentionClass = rs_NewRetention res, gv_Authority = rs_NewAuthority res \<rparr>),
       gp_Audit = \<lparr> ga_OperationID = operationID, ga_ChainID = AuditChainID (rs_CfgID res), ga_Recorded = True \<rparr>,
       gp_SuccessorID = rs_SuccessorID res \<rparr>"

definition governanceResponse_json :: "(instant \<Rightarrow> int) \<Rightarrow> governanceResponse \<Rightarrow> err + bytes" where
  "governanceResponse_json zone g =
     result_bind (MarshalTime zone (gp_OccurredAt g)) (\<lambda>occurred.
       Inr (print_struct True
         ([(''operation'', json_quote True (gp_Operation g)), (''cfg_id'', json_quote True (gp_CfgID g)),
           (''actor'', json_quote True (gp_Actor g)), (''occurred_at'', occurred), (''removed'', bool_field (gp_Removed g)),
           (''row_version'', FormatInt (gp_RowVersion g))] @
          (case gp_State g of None \<Rightarrow> [] | Some st \<Rightarrow> [(''state'', governanceState_json st)]) @
          [(''audit'', print_struct True
             [(''operation_id'', json_quote True (ga_OperationID (gp_Audit g))),
              (''chain_id'', json_quote True (ga_ChainID (gp_Audit g))), (''recorded'', bool_field (ga_Recorded (gp_Audit g)))])] @
          omitempty ''successor_id'' (gp_SuccessorID g))))"

section \<open>Constitutional operations\<close>

definition mapGovernanceError :: "Request \<Rightarrow> err \<Rightarrow> Response" where
  "mapGovernanceError r er = (case er of
       TransitionError op from reason \<Rightarrow> writeProblem r 409 ''conflict'' (err_Error er)
     | ErrHasDependents \<Rightarrow> writeProblem r 409 ''conflict'' ''object has dependents''
     | ErrUnsupportedOperation op \<Rightarrow> writeProblem r 422 ''unsupported operation'' (err_Error er)
     | _ \<Rightarrow> mapError r er)"

text \<open>The command of a request, or the refusal of the request.\<close>

definition governance_command :: "Request \<Rightarrow> string \<Rightarrow> Response + Command" where
  "governance_command r op =
     (case ClaimsFrom r of
        None \<Rightarrow> Inl (writeProblem r 401 ''unauthorized'' ''no identity'')
      | Some claims \<Rightarrow>
          let operationID = Header_Get r ''Idempotency-Key''; ifMatch = Header_Get r ''If-Match'' in
          if operationID = [] then Inl (writeProblem r 400 ''bad request'' ''Idempotency-Key header is required'')
          else result_bind
             (if ifMatch = [] then Inr 0
              else (case parseETag ifMatch of
                  None \<Rightarrow> Inl (writeProblem r 400 ''bad request'' ''invalid If-Match value'')
                | Some expected \<Rightarrow> Inr expected)) (\<lambda>expected.
           case decode_body governanceRequest_fields zero_governanceRequest (rq_Body r) of
             (req, Some BadJSON) \<Rightarrow> Inl (badJSON r)
           | (req, _) \<Rightarrow>
               if op = OpArchiving \<and> gr_TargetRetention req = [] then
                 Inl (writeProblem r 400 ''bad request'' ''target_retention is required for archive'')
               else if op = OpExtension \<and> gr_SuccessorID req = [] then
                 Inl (writeProblem r 400 ''bad request'' ''successor_id is required for extend'')
               else Inr \<lparr> cm_Operation = op, cm_CfgID = URLParam r ''id'', cm_Actor = cl_Subject claims, cm_OperationID = operationID,
                          cm_ExpectedRowVersion = expected, cm_TargetRetention = gr_TargetRetention req,
                          cm_SuccessorID = gr_SuccessorID req \<rparr>))"

definition execGovernance :: "(instant \<Rightarrow> int) \<Rightarrow> (Command \<Rightarrow> 's \<Rightarrow> (err + Result) \<times> 's) option \<Rightarrow> string \<Rightarrow> 's handler" where
  "execGovernance zone engine op r s =
     (case engine of
        None \<Rightarrow> (Replied (writeProblem r 500 ''internal error'' ''governance engine unavailable''), s)
      | Some execute \<Rightarrow>
     (case governance_command r op of
        Inl refusal \<Rightarrow> (Replied refusal, s)
      | Inr cmd \<Rightarrow>
     (case execute cmd s of
        (Inl er, s1) \<Rightarrow> (Replied (mapGovernanceError r er), s1)
      | (Inr res, s1) \<Rightarrow>
          (Replied (writeJSON (if rs_Removed res then [] else [(''ETag'', etag (rs_RowVersion res))]) 200
             (governanceResponse_json zone (toGovernanceResponse res (cm_OperationID cmd)))), s1))))"

text \<open>The eight endpoints.\<close>

definition governance_operation :: "string \<Rightarrow> string option" where
  "governance_operation endpoint = map_of
     [(''ratifyGovernance'', OpRatification), (''approveGovernance'', OpApproval), (''extendGovernance'', OpExtension),
      (''suspendGovernance'', OpSuspension), (''deprecateGovernance'', OpDeprecation), (''withdrawGovernance'', OpWithdrawal),
      (''archiveGovernance'', OpArchiving), (''deleteGovernance'', OpDeletion)] endpoint"

section \<open>Queries\<close>

record 's audit_query =
  aq_HeadOf :: "string \<Rightarrow> 's \<Rightarrow> err + (int \<times> bytes) option"
  aq_ListEvents :: "'s \<Rightarrow> string \<Rightarrow> int \<Rightarrow> bool \<Rightarrow> int \<Rightarrow> string \<Rightarrow> err + AuditEvent list"

type_synonym 's chain_verifier = "string \<Rightarrow> 's \<Rightarrow> err + VerifyResult"

record SchedulerView =
  sw_Enabled :: bool
  sw_HasRun :: bool
  sw_Running :: bool
  sw_LastRunAt :: instant
  sw_LastHealthy :: bool
  sw_Stalled :: bool
  sw_ChainsTotal :: int
  sw_ChainsOK :: int
  sw_Failures :: int
  sw_Errors :: int

text \<open>The view the process wires, from its scheduler when it has one.\<close>

definition scheduler_view :: "instant \<Rightarrow> Scheduler option \<Rightarrow> SchedulerView" where
  "scheduler_view now scheduler = (case scheduler of
       None \<Rightarrow> \<lparr> sw_Enabled = False, sw_HasRun = False, sw_Running = False, sw_LastRunAt = zero_time, sw_LastHealthy = False,
                 sw_Stalled = False, sw_ChainsTotal = 0, sw_ChainsOK = 0, sw_Failures = 0, sw_Errors = 0 \<rparr>
     | Some sd \<Rightarrow> (let st = Scheduler_Status now sd in
                 \<lparr> sw_Enabled = True, sw_HasRun = st_HasRun st, sw_Running = st_Running st, sw_LastRunAt = st_LastRunAt st,
                   sw_LastHealthy = st_LastHealthy st, sw_Stalled = st_Stalled st, sw_ChainsTotal = st_ChainsTotal st,
                   sw_ChainsOK = st_ChainsOK st, sw_Failures = st_Failures st, sw_Errors = st_Errors st \<rparr>))"

definition pageLimit :: "Config \<Rightarrow> Request \<Rightarrow> int" where
  "pageLimit cfg r =
     (let v = Query_Get r ''limit'';
          limit = (case ParseInt v of Some n \<Rightarrow> if v \<noteq> [] \<and> 0 < n then n else cf_DefaultPageSize cfg | None \<Rightarrow> cf_DefaultPageSize cfg)
      in if cf_MaxPageSize cfg < limit then cf_MaxPageSize cfg else limit)"

definition parseCursor :: "Request \<Rightarrow> int \<Rightarrow> int" where
  "parseCursor r def =
     (let v = Query_Get r ''cursor'' in
      if v = [] then def else (case ParseInt v of Some n \<Rightarrow> n | None \<Rightarrow> def))"

text \<open>\<open>requireObject\<close> gives the response that ends the request when the object cannot be read.\<close>

definition requireObject :: "'s object_ports \<Rightarrow> Request \<Rightarrow> string \<Rightarrow> 's \<Rightarrow> Response option" where
  "requireObject p r i s = (case ob_Get p i s of Inl er \<Rightarrow> Some (mapError r er) | Inr obj \<Rightarrow> None)"

definition filterOperation :: "Request \<Rightarrow> Response + string" where
  "filterOperation r =
     (let op = Query_Get r ''operation'' in
      if op \<noteq> [] \<and> \<not> Operation_Valid op then Inl (writeProblem r 400 ''bad request'' (''unknown operation filter: '' @ op))
      else Inr op)"

record auditPayloadView =
  av_Removed :: bool
  av_NewLifecycle :: string
  av_NewRetention :: string
  av_NewAuthority :: string
  av_RowVersion :: int

definition auditPayloadView_fields :: "auditPayloadView fields" where
  "auditPayloadView_fields = [
     (''removed'', flag_field (\<lambda>x v. v\<lparr> av_Removed := x \<rparr>)),
     (''new_lifecycle'', string_field (\<lambda>x v. v\<lparr> av_NewLifecycle := x \<rparr>)),
     (''new_retention'', string_field (\<lambda>x v. v\<lparr> av_NewRetention := x \<rparr>)),
     (''new_authority'', string_field (\<lambda>x v. v\<lparr> av_NewAuthority := x \<rparr>)),
     (''row_version'', int_field (\<lambda>x v. v\<lparr> av_RowVersion := x \<rparr>))]"

definition decodePayload :: "bytes \<Rightarrow> auditPayloadView option" where
  "decodePayload b =
     (if length b = 0 then None
      else unmarshal_struct auditPayloadView_fields
        \<lparr> av_Removed = False, av_NewLifecycle = [], av_NewRetention = [], av_NewAuthority = [], av_RowVersion = 0 \<rparr> b)"

record historyItem =
  hy_Seq :: int
  hy_Operation :: string
  hy_Actor :: string
  hy_OccurredAt :: instant
  hy_OperationID :: string
  hy_Removed :: bool
  hy_ResultingState :: "governanceState option"

definition history_item :: "AuditEvent \<Rightarrow> historyItem" where
  "history_item e =
     (let item = \<lparr> hy_Seq = ae_Seq e, hy_Operation = ae_Operation e, hy_Actor = ae_Actor e, hy_OccurredAt = ae_OccurredAt e,
                   hy_OperationID = ae_OperationID e, hy_Removed = False, hy_ResultingState = None \<rparr>
      in case decodePayload (ae_PayloadCanonical e) of
           None \<Rightarrow> item
         | Some pv \<Rightarrow> item\<lparr> hy_Removed := av_Removed pv,
             hy_ResultingState := (if av_Removed pv then None
               else Some \<lparr> gv_Lifecycle = av_NewLifecycle pv, gv_RetentionClass = av_NewRetention pv, gv_Authority = av_NewAuthority pv \<rparr>) \<rparr>)"

definition historyItem_json :: "(instant \<Rightarrow> int) \<Rightarrow> historyItem \<Rightarrow> err + bytes" where
  "historyItem_json zone h =
     result_bind (MarshalTime zone (hy_OccurredAt h)) (\<lambda>occurred.
       Inr (print_struct True
         ([(''seq'', FormatInt (hy_Seq h)), (''operation'', json_quote True (hy_Operation h)),
           (''actor'', json_quote True (hy_Actor h)), (''occurred_at'', occurred),
           (''operation_id'', json_quote True (hy_OperationID h)), (''removed'', bool_field (hy_Removed h))] @
          (case hy_ResultingState h of None \<Rightarrow> [] | Some st \<Rightarrow> [(''resulting_state'', governanceState_json st)]))))"

text \<open>The cursor of the next page: the last sequence number of a full page.\<close>

definition next_seq :: "int \<Rightarrow> AuditEvent list \<Rightarrow> string" where
  "next_seq limit evs = (if int (length evs) = limit \<and> 0 < length evs then FormatInt (ae_Seq (last evs)) else [])"

definition queryUnavailable :: "Request \<Rightarrow> Response" where
  "queryUnavailable r = writeProblem r 500 ''internal error'' ''governance query unavailable''"

definition getGovernanceState :: "(instant \<Rightarrow> int) \<Rightarrow> 's object_ports \<Rightarrow> 's handler" where
  "getGovernanceState zone p r s =
     (case ob_Get p (URLParam r ''id'') s of
        Inl er \<Rightarrow> (Replied (mapError r er), s)
      | Inr c \<Rightarrow> (Replied (writeJSON [(''ETag'', etag (co_RowVersion c))] 200
          (result_bind (MarshalTime zone (co_CreatedAt c)) (\<lambda>created.
           result_bind (MarshalTime zone (co_UpdatedAt c)) (\<lambda>updated.
             Inr (print_struct True
               ([(''cfg_id'', json_quote True (co_CfgID c)), (''lifecycle'', json_quote True (co_Lifecycle c)),
                 (''retention_class'', json_quote True (co_RetentionClass c))] @
                omitempty ''retention_policy'' (co_RetentionPolicy c) @
                [(''authority'', json_quote True (co_Authority c)), (''row_version'', FormatInt (co_RowVersion c))] @
                omitempty ''ratified_by'' (co_RatifiedBy c) @ omitempty ''review_cycle'' (co_ReviewCycle c) @
                [(''created_at'', created), (''updated_at'', updated)])))))), s))"

definition getGovernanceHistory :: "Config \<Rightarrow> (instant \<Rightarrow> int) \<Rightarrow> 's object_ports \<Rightarrow> 's audit_query option \<Rightarrow> 's handler" where
  "getGovernanceHistory cfg zone p auditRead r s =
     (case auditRead of
        None \<Rightarrow> (Replied (queryUnavailable r), s)
      | Some q \<Rightarrow>
     (case requireObject p r (URLParam r ''id'') s of
        Some refusal \<Rightarrow> (Replied refusal, s)
      | None \<Rightarrow>
     (case filterOperation r of
        Inl refusal \<Rightarrow> (Replied refusal, s)
      | Inr operation \<Rightarrow>
          let limit = pageLimit cfg r; cursor = parseCursor r 0 in
          case aq_ListEvents q s (AuditChainID (URLParam r ''id'')) cursor False limit operation of
            Inl er \<Rightarrow> (Replied (mapError r er), s)
          | Inr evs \<Rightarrow> (Replied (writeJSON [] 200
              (result_bind (result_map (\<lambda>e. historyItem_json zone (history_item e)) evs) (\<lambda>items.
                 Inr (print_struct True ((''items'', array_json items) # omitempty ''next_cursor'' (next_seq limit evs)))))), s))))"

definition auditEventItem_json :: "(instant \<Rightarrow> int) \<Rightarrow> AuditEvent \<Rightarrow> err + bytes" where
  "auditEventItem_json zone e =
     result_bind (MarshalTime zone (ae_OccurredAt e)) (\<lambda>occurred.
       Inr (print_struct True
         ([(''seq'', FormatInt (ae_Seq e)), (''event_id'', json_quote True (ae_EventID e)),
           (''operation_id'', json_quote True (ae_OperationID e)), (''operation'', json_quote True (ae_Operation e)),
           (''actor'', json_quote True (ae_Actor e)), (''occurred_at'', occurred)] @
          omitempty ''prev_hash'' (EncodeToString (ae_PrevHash e)) @
          [(''this_hash'', json_quote True (EncodeToString (ae_ThisHash e)))])))"

definition getAuditEvents :: "Config \<Rightarrow> (instant \<Rightarrow> int) \<Rightarrow> 's object_ports \<Rightarrow> 's audit_query option \<Rightarrow> 's handler" where
  "getAuditEvents cfg zone p auditRead r s =
     (case auditRead of
        None \<Rightarrow> (Replied (queryUnavailable r), s)
      | Some q \<Rightarrow>
     (case requireObject p r (URLParam r ''id'') s of
        Some refusal \<Rightarrow> (Replied refusal, s)
      | None \<Rightarrow>
     (case filterOperation r of
        Inl refusal \<Rightarrow> (Replied refusal, s)
      | Inr operation \<Rightarrow>
          let desc = (Query_Get r ''order'' = ''desc''); limit = pageLimit cfg r;
              cursor = (if desc \<and> Query_Get r ''cursor'' = [] then MaxInt64 else parseCursor r 0) in
          case aq_ListEvents q s (AuditChainID (URLParam r ''id'')) cursor desc limit operation of
            Inl er \<Rightarrow> (Replied (mapError r er), s)
          | Inr evs \<Rightarrow> (Replied (writeJSON [] 200
              (result_bind (result_map (auditEventItem_json zone) evs) (\<lambda>items.
                 Inr (print_struct True ([(''items'', array_json items), (''order'', json_quote True (if desc then ''desc'' else ''asc''))] @
                   omitempty ''next_cursor'' (next_seq limit evs)))))), s))))"

definition break_fields :: "VerifyResult \<Rightarrow> (string \<times> bytes) list" where
  "break_fields res = (case vr_FirstBreakSeq res of None \<Rightarrow> [] | Some n \<Rightarrow> [(''first_break_seq'', FormatInt n)]) @
     omitempty ''break_reason'' (vr_BreakReason res)"

definition getAuditChain :: "'s object_ports \<Rightarrow> 's audit_query option \<Rightarrow> 's chain_verifier option \<Rightarrow> 's handler" where
  "getAuditChain p auditRead verifier r s =
     (case (auditRead, verifier) of
        (Some q, Some verify) \<Rightarrow>
         (case requireObject p r (URLParam r ''id'') s of
            Some refusal \<Rightarrow> (Replied refusal, s)
          | None \<Rightarrow>
              let chainID = AuditChainID (URLParam r ''id'') in
             (case aq_HeadOf q chainID s of
                Inl er \<Rightarrow> (Replied (mapError r er), s)
              | Inr head \<Rightarrow>
             (case verify chainID s of
                Inl er \<Rightarrow> (Replied (mapError r er), s)
              | Inr res \<Rightarrow>
                  (let (seq, hash) = (case head of None \<Rightarrow> (0, []) | Some h \<Rightarrow> h) in
                   (Replied (writeJSON [] 200 (Inr (print_struct True
                     ([(''chain_id'', json_quote True chainID), (''verified'', bool_field (vr_OK res)),
                       (''checked'', FormatInt (vr_Checked res)), (''head_seq'', FormatInt seq)] @
                      (if 0 < length hash then [(''head_hash'', json_quote True (EncodeToString hash))] else []) @
                      break_fields res)))), s)))))
      | _ \<Rightarrow> (Replied (queryUnavailable r), s))"

definition verificationScheduler_json :: "(instant \<Rightarrow> int) \<Rightarrow> SchedulerView \<Rightarrow> err + bytes" where
  "verificationScheduler_json zone v =
     result_bind (MarshalTime zone (sw_LastRunAt v)) (\<lambda>lastRun.
       Inr (print_struct True
         [(''enabled'', bool_field (sw_Enabled v)), (''has_run'', bool_field (sw_HasRun v)), (''running'', bool_field (sw_Running v)),
          (''last_run_at'', lastRun), (''last_healthy'', bool_field (sw_LastHealthy v)), (''stalled'', bool_field (sw_Stalled v)),
          (''failures'', FormatInt (sw_Failures v)), (''errors'', FormatInt (sw_Errors v))]))"

definition getVerification ::
    "(instant \<Rightarrow> int) \<Rightarrow> 's object_ports \<Rightarrow> 's chain_verifier option \<Rightarrow> SchedulerView option \<Rightarrow> 's handler" where
  "getVerification zone p verifier sched r s =
     (case verifier of
        None \<Rightarrow> (Replied (queryUnavailable r), s)
      | Some verify \<Rightarrow>
     (case requireObject p r (URLParam r ''id'') s of
        Some refusal \<Rightarrow> (Replied refusal, s)
      | None \<Rightarrow>
          let chainID = AuditChainID (URLParam r ''id'') in
         (case verify chainID s of
            Inl er \<Rightarrow> (Replied (mapError r er), s)
          | Inr res \<Rightarrow> (Replied (writeJSON [] 200
              (result_bind (case sched of None \<Rightarrow> Inr [] | Some v \<Rightarrow>
                   result_bind (verificationScheduler_json zone v) (\<lambda>b. Inr [(''scheduler'', b)])) (\<lambda>schedField.
                 Inr (print_struct True
                   ([(''chain_id'', json_quote True chainID), (''integrity_ok'', bool_field (vr_OK res)),
                     (''checked'', FormatInt (vr_Checked res))] @ break_fields res @ schedField))))), s))))"

section \<open>The PostgreSQL instances\<close>

definition pg_audit_query :: "db audit_query" where
  "pg_audit_query = \<lparr> aq_HeadOf = (\<lambda>c d. Inr (HeadOf c d)), aq_ListEvents = ListEvents \<rparr>"

definition pg_verifier :: "db chain_verifier" where
  "pg_verifier chainID d = VerifyChain (VerifyRangeReader d) chainID"

section \<open>What a governance request does\<close>

lemma ApplyDimensions_version: "ApplyDimensions n c v l rt a d = Inr (rv, d') \<Longrightarrow> rv = v + 1"
  by (auto simp: ApplyDimensions_def update_co_def Let_def split: option.splits if_splits dest: find_Some_set)

lemma pg_Execute_result:
  assumes "Execute (pg_engine pg n i authz) now cmd d = (Inr res, d')"
    and "pg_objects d (cm_CfgID cmd) = Some obj" "planTransition (cm_Operation cmd) obj cmd = Inr p"
  shows "rs_CfgID res = cm_CfgID cmd" "rs_Removed res = pl_Remove p"
    "\<not> pl_Remove p \<Longrightarrow> rs_NewLifecycle res = pl_Lifecycle p \<and> rs_NewRetention res = pl_Retention p \<and>
       rs_NewAuthority res = pl_Authority p \<and> rs_RowVersion res = co_RowVersion obj + 1"
proof -
  have get: "GetForUpdate (cm_CfgID cmd) d = Inr obj"
    using assms(2) by (auto simp: GetForUpdate_def pg_objects_def split: option.splits)
  obtain res1 tx1 tx2 where
    ap: "apply_plan (GovernanceStore n i) obj p (new_result cmd now) d = Inr (res1, tx1)"
    and ed: "apply_edge (GovernanceStore n i) p (res1, tx1) = Inr (res, tx2)"
    using assms(1,3) get
    by (auto simp: Execute_def pg_engine_def GovernanceStore_def emit_audit_def split: option.splits sum.splits if_splits prod.splits)
  have res1: "rs_CfgID res1 = cm_CfgID cmd \<and> rs_Removed res1 = pl_Remove p \<and>
      (\<not> pl_Remove p \<longrightarrow> rs_NewLifecycle res1 = pl_Lifecycle p \<and> rs_NewRetention res1 = pl_Retention p \<and>
         rs_NewAuthority res1 = pl_Authority p \<and> rs_RowVersion res1 = co_RowVersion obj + 1)"
    using ap by (auto simp: apply_plan_def GovernanceStore_def new_result_def Let_def
        split: if_splits sum.splits option.splits dest: ApplyDimensions_version)
  have "\<exists>x. res = res1 \<or> res = res1\<lparr> rs_SuccessorID := x \<rparr>"
    using ed by (auto simp: apply_edge_def split: option.splits sum.splits)
  with res1 show "rs_CfgID res = cm_CfgID cmd" "rs_Removed res = pl_Remove p"
    "\<not> pl_Remove p \<Longrightarrow> rs_NewLifecycle res = pl_Lifecycle p \<and> rs_NewRetention res = pl_Retention p \<and>
       rs_NewAuthority res = pl_Authority p \<and> rs_RowVersion res = co_RowVersion obj + 1"
    by auto
qed

lemma mapGovernanceError_not_ok: "hs_Status (mapGovernanceError r er) \<noteq> 200"
  by (simp add: mapGovernanceError_def mapError_def writeProblem_def split: err.splits)

lemma governance_command_Inl: "governance_command r op = Inl p \<Longrightarrow> hs_Status p \<noteq> 200"
  by (auto simp: governance_command_def Let_def writeProblem_def result_bind_Inl
      split: option.splits if_splits prod.splits decode_error.splits)

lemma governance_command_Inr:
  assumes "governance_command r op = Inr cmd"
  shows "\<exists>claims. ClaimsFrom r = Some claims \<and> cm_Actor cmd = cl_Subject claims" "cm_Operation cmd = op"
    "cm_CfgID cmd = URLParam r ''id''" "cm_OperationID cmd = Header_Get r ''Idempotency-Key''" "cm_OperationID cmd \<noteq> []"
    "cm_ExpectedRowVersion cmd = 0 \<or> parseETag (Header_Get r ''If-Match'') = Some (cm_ExpectedRowVersion cmd)"
  using assms by (auto simp: governance_command_def Let_def result_bind_Inr
      split: option.splits if_splits prod.splits decode_error.splits)

text \<open>How an answer describes a stored object.\<close>

definition describes :: "governanceResponse \<Rightarrow> ConfigObject option \<Rightarrow> bool" where
  "describes g x = (case (gp_State g, x) of
       (None, None) \<Rightarrow> gp_Removed g
     | (Some st, Some obj) \<Rightarrow> \<not> gp_Removed g \<and> gp_RowVersion g = co_RowVersion obj \<and> gv_Lifecycle st = co_Lifecycle obj \<and>
         gv_RetentionClass st = co_RetentionClass obj \<and> gv_Authority st = co_Authority obj
     | _ \<Rightarrow> False)"

lemma execGovernance_ok:
  assumes "execGovernance zone (Some ex) op r d = (Replied p, d')" "hs_Status p = 200"
  shows "\<exists>cmd res. governance_command r op = Inr cmd \<and> ex cmd d = (Inr res, d') \<and>
    p = writeJSON (if rs_Removed res then [] else [(''ETag'', etag (rs_RowVersion res))]) 200
          (governanceResponse_json zone (toGovernanceResponse res (cm_OperationID cmd)))"
proof (cases "governance_command r op")
  case (Inl q)
  then show ?thesis
    using assms governance_command_Inl [OF Inl] by (simp add: execGovernance_def)
next
  case (Inr cmd)
  then show ?thesis
    using assms mapGovernanceError_not_ok by (auto simp: execGovernance_def split: prod.splits sum.splits)
qed

lemma execGovernance_refused:
  assumes "execGovernance zone (Some (Execute E now)) op r d = (Replied p, d')" "hs_Status p \<noteq> 200"
  shows "d' = d"
proof (cases "governance_command r op")
  case (Inr cmd)
  obtain res d1 where ex: "Execute E now cmd d = (res, d1)"
    by fastforce
  show ?thesis
  proof (cases res)
    case (Inl er)
    then show ?thesis
      using assms Inr ex Execute_error_unchanged [of E now cmd d er d1] by (simp add: execGovernance_def)
  next
    case r: (Inr x)
    then show ?thesis
      using assms Inr ex by (auto simp: execGovernance_def writeJSON_def)
  qed
qed (use assms in \<open>simp add: execGovernance_def\<close>)

text \<open>C38: a governance request is answered 200 exactly when it is recorded.  An answer 200 carries an entity tag and a body that describe
  the stored object, and its claim of a recorded audit event is true: the chain of the object grew by one event, with the
  requested operation, the subject of the verified token as the actor and the idempotency key as the operation id.  Any
  other answer leaves the database as it was.\<close>

theorem governance_request_recorded:
  assumes "reachable pg d"
    and "execGovernance zone (Some (Execute (pg_engine pg dbnow newID authz) now)) op r d = (Replied p, d')"
  shows "if hs_Status p = 200
    then \<exists>claims g row. ClaimsFrom r = Some claims \<and> hs_Body p = encode_line (governanceResponse_json zone g) \<and>
      gp_Audit g = \<lparr> ga_OperationID = Header_Get r ''Idempotency-Key'', ga_ChainID = URLParam r ''id'', ga_Recorded = True \<rparr> \<and>
      describes g (pg_objects d' (URLParam r ''id'')) \<and>
      (\<not> gp_Removed g \<longrightarrow> response_header p ''ETag'' = etag (gp_RowVersion g)) \<and>
      chain_events d' = (chain_events d)(URLParam r ''id'' := chain_events d (URLParam r ''id'') @ [row]) \<and>
      ae_Operation row = op \<and> ae_Actor row = cl_Subject claims \<and> ae_OperationID row = Header_Get r ''Idempotency-Key''
    else d' = d"
proof (cases "hs_Status p = 200")
  case True
  obtain cmd res where ok: "governance_command r op = Inr cmd" "Execute (pg_engine pg dbnow newID authz) now cmd d = (Inr res, d')"
    "p = writeJSON (if rs_Removed res then [] else [(''ETag'', etag (rs_RowVersion res))]) 200
          (governanceResponse_json zone (toGovernanceResponse res (cm_OperationID cmd)))"
    using execGovernance_ok [OF assms(2) True] by blast
  note c = governance_command_Inr [OF ok(1)]
  obtain obj pl row where ex: "pg_objects d (cm_CfgID cmd) = Some obj" "planTransition (cm_Operation cmd) obj cmd = Inr pl"
    "pgx.object_effect obj pl (cm_CfgID cmd) d d'"
    "chain_events d' = (chain_events d)(cm_CfgID cmd := chain_events d (cm_CfgID cmd) @ [row])"
    "ae_Operation row = cm_Operation cmd" "ae_Actor row = cm_Actor cmd" "ae_OperationID row = cm_OperationID cmd"
    using pgx.execute_success [OF reachable_db_inv [OF assms(1)] ok(2)] unfolding AuditChainID_def by blast
  note r = pg_Execute_result [OF ok(2) ex(1,2)]
  let ?g = "toGovernanceResponse res (cm_OperationID cmd)"
  obtain claims where cl: "ClaimsFrom r = Some claims" "cm_Actor cmd = cl_Subject claims"
    using c(1) by blast
  have "describes ?g (pg_objects d' (cm_CfgID cmd))"
    using ex(3) r(2,3) by (auto simp: describes_def toGovernanceResponse_def pgx.object_effect_def split: if_splits)
  moreover have "hs_Body p = encode_line (governanceResponse_json zone ?g)"
    by (simp add: ok(3) writeJSON_def)
  moreover have "gp_Audit ?g = \<lparr> ga_OperationID = Header_Get r ''Idempotency-Key'', ga_ChainID = URLParam r ''id'', ga_Recorded = True \<rparr>"
    using r(1) c(3,4) by (simp add: toGovernanceResponse_def AuditChainID_def)
  moreover have "\<not> gp_Removed ?g \<longrightarrow> response_header p ''ETag'' = etag (gp_RowVersion ?g)"
    by (simp add: ok(3) toGovernanceResponse_def response_header_writeJSON)
  ultimately show ?thesis
    unfolding if_P [OF True] using ex(4-7) c(2-4) cl
    by (intro exI [of _ claims] exI [of _ ?g] exI [of _ row]) simp
qed (use execGovernance_refused [OF assms(2)] in simp)

definition sample_ratify :: Request where
  "sample_ratify = sample_request\<lparr> rq_Headers := [(''Idempotency-Key'', ''op-1'')], rq_Params := [(''id'', ''c1'')],
     rq_Claims := Some \<lparr> cl_Subject = ''alice'', cl_Roles = [''oneops-editor''], cl_Tenant = [] \<rparr> \<rparr>"

theorem governance_request_recorded_witness:
  "\<exists>p d' row. execGovernance (\<lambda>_. 0) (Some (Execute sample_engine 1000)) OpRatification sample_ratify sample_db = (Replied p, d') \<and>
     hs_Status p = 200 \<and> chain_events d' ''c1'' = [row] \<and> ae_Actor row = ''alice''"
proof -
  obtain d' where ex: "Execute sample_engine 1000 ratify sample_db = (Inr (dims_result ratify 1000 sample_object ratified_plan), d')"
    using sample_execute by blast
  have "governance_command sample_ratify OpRatification = Inr ratify"
    by (simp add: governance_command_def sample_ratify_def sample_request_def ClaimsFrom_def mget_def decode_body_def skip_ws_def
        zero_governanceRequest_def ratify_def)
  then obtain p where run: "execGovernance (\<lambda>_. 0) (Some (Execute sample_engine 1000)) OpRatification sample_ratify sample_db = (Replied p, d')"
    "hs_Status p = 200"
    using ex by (simp add: execGovernance_def writeJSON_def)
  have "URLParam sample_ratify ''id'' = ''c1''" "ClaimsFrom sample_ratify = Some \<lparr> cl_Subject = ''alice'', cl_Roles = [''oneops-editor''], cl_Tenant = [] \<rparr>"
    by (simp_all add: sample_ratify_def mget_def ClaimsFrom_def)
  then show ?thesis
    using governance_request_recorded [OF sample_reachable run(1)] run by (auto simp: sample_chain)
qed

end
