(* ===== verification/Wire.thy ===== *)
theory Wire
  imports Webhooks
begin

text \<open>
  Two parts of the standard library that the request handlers use beside the struct decoder of \<open>Json\<close>: the
  parsing of RFC 3339 times, and JSON values kept as their text (\<^verbatim>\<open>json.RawMessage\<close> and types that
  unmarshal themselves).
\<close>

section \<open>Reading times\<close>

text \<open>\<open>day_number\<close> is the day of a date counted from the Unix epoch.\<close>

definition day_number :: "int \<Rightarrow> int \<Rightarrow> int \<Rightarrow> int" where
  "day_number y m d =
     (let y' = (if m \<le> 2 then y - 1 else y); yoe = y' mod 400;
          doy = (153 * (if 2 < m then m - 3 else m + 9) + 2) div 5 + d - 1
      in (y' div 400) * 146097 + yoe * 365 + yoe div 4 - yoe div 100 + doy - 719468)"

definition isLeap :: "int \<Rightarrow> bool" where
  "isLeap y \<longleftrightarrow> y mod 4 = 0 \<and> (y mod 100 \<noteq> 0 \<or> y mod 400 = 0)"

definition daysIn :: "int \<Rightarrow> int \<Rightarrow> int" where
  "daysIn m y = (if m = 2 then (if isLeap y then 29 else 28) else if m \<in> {4, 6, 9, 11} then 30 else 31)"

definition digits_value :: "string \<Rightarrow> int" where
  "digits_value ds = foldl (\<lambda>a c. 10 * a + int (byte c - 48)) 0 ds"

text \<open>A number of exactly \<open>n\<close> digits, one of one or two, and a literal byte.\<close>

definition fixed_digits :: "nat \<Rightarrow> string \<Rightarrow> (int \<times> string) option" where
  "fixed_digits n s = (if n \<le> length s \<and> list_all is_digit (take n s) then Some (digits_value (take n s), drop n s) else None)"

definition short_digits :: "string \<Rightarrow> (int \<times> string) option" where
  "short_digits s = (case fixed_digits 2 s of Some x \<Rightarrow> Some x | None \<Rightarrow> fixed_digits 1 s)"

definition skip_byte :: "char \<Rightarrow> string \<Rightarrow> string option" where
  "skip_byte c s = (case s of [] \<Rightarrow> None | x # t \<Rightarrow> if x = c then Some t else None)"

text \<open>A fraction may follow the seconds after a period or a comma; its tenth and later digits are dropped.\<close>

definition parse_fraction :: "string \<Rightarrow> int \<times> string" where
  "parse_fraction s = (case s of
       c # d # t \<Rightarrow>
         if (c = CHR ''.'' \<or> c = CHR '','') \<and> is_digit d then
           (let ds = takeWhile is_digit (d # t); kept = take 9 ds
            in (digits_value kept * 10 ^ (9 - length kept), dropWhile is_digit (d # t)))
         else (0, s)
     | _ \<Rightarrow> (0, s))"

definition parse_zone :: "string \<Rightarrow> (int \<times> string) option" where
  "parse_zone s = (case s of
       [] \<Rightarrow> None
     | c # t \<Rightarrow>
         if c = CHR ''Z'' then Some (0, t)
         else if c = CHR ''+'' \<or> c = CHR ''-'' then
           Option.bind (fixed_digits 2 t) (\<lambda>(hr, t1).
           Option.bind (skip_byte (CHR '':'') t1) (\<lambda>t2.
           Option.bind (fixed_digits 2 t2) (\<lambda>(mm, t3).
             if 24 < hr \<or> 60 < mm then None
             else Some ((if c = CHR ''-'' then -1 else 1) * (hr * 60 + mm) * 60, t3))))
         else None)"

text \<open>\<^verbatim>\<open>time.Parse(time.RFC3339, s)\<close>, and \<^verbatim>\<open>Time.UnmarshalJSON\<close> on the text between the quotes: the instant and
  the offset of its zone.\<close>

definition Parse_RFC3339 :: "string \<Rightarrow> (instant \<times> int) option" where
  "Parse_RFC3339 s =
     Option.bind (fixed_digits 4 s) (\<lambda>(y, s).
     Option.bind (skip_byte (CHR ''-'') s) (\<lambda>s.
     Option.bind (fixed_digits 2 s) (\<lambda>(m, s).
     Option.bind (skip_byte (CHR ''-'') s) (\<lambda>s.
     Option.bind (fixed_digits 2 s) (\<lambda>(d, s).
     Option.bind (skip_byte (CHR ''T'') s) (\<lambda>s.
     Option.bind (short_digits s) (\<lambda>(h, s).
     Option.bind (skip_byte (CHR '':'') s) (\<lambda>s.
     Option.bind (fixed_digits 2 s) (\<lambda>(mi, s).
     Option.bind (skip_byte (CHR '':'') s) (\<lambda>s.
     Option.bind (fixed_digits 2 s) (\<lambda>(sec, s).
     case parse_fraction s of (nanos, s) \<Rightarrow>
     Option.bind (parse_zone s) (\<lambda>(off, s).
       if s \<noteq> [] \<or> m < 1 \<or> 12 < m \<or> d < 1 \<or> daysIn m y < d \<or> 24 \<le> h \<or> 60 \<le> mi \<or> 60 \<le> sec then None
       else Some ((day_number y m d * 86400 + h * 3600 + mi * 60 + sec - off) * Second + nanos, off)))))))))))))"

section \<open>Values kept as text\<close>

text \<open>
  \<open>raw_members\<close> are the members of an object, each with the text of its value; the parser of \<open>Json\<close> finds where
  a value ends, and the comparison of lengths, which always holds, shows that the recursion ends.  A field of a raw
  table is assigned from that text.
\<close>

function raw_members :: "bytes \<Rightarrow> (string \<times> bytes) list" where
  "raw_members s =
     (case skip_ws s of
        [] \<Rightarrow> []
      | c # t \<Rightarrow>
          if c \<noteq> quote_ch then []
          else (case scan_string t of
              None \<Rightarrow> []
            | Some (raw, r) \<Rightarrow>
                (let v = skip_ws (drop 1 (skip_ws r)) in
                 case parse_value (parse_fuel v) 0 v of
                   None \<Rightarrow> []
                 | Some (_, rest) \<Rightarrow>
                     (unquote raw, take (length v - length rest) v) #
                     (if length rest < length s then raw_members (drop 1 (skip_ws rest)) else []))))"
  by pat_completeness auto
termination
proof (relation "measure length")
  fix s t rest :: bytes
  have "length (drop 1 (skip_ws rest)) \<le> length rest"
    using length_dropWhile_le [of is_ws rest] by (simp add: skip_ws_def)
  then show "length rest < length s \<Longrightarrow> (drop 1 (skip_ws rest), s) \<in> measure length"
    by simp
qed simp

type_synonym 's raw_fields = "(string \<times> (bytes \<Rightarrow> 's \<Rightarrow> 's option)) list"

definition find_raw :: "'s raw_fields \<Rightarrow> string \<Rightarrow> (bytes \<Rightarrow> 's \<Rightarrow> 's option) option" where
  "find_raw fs k = (case map_of fs k of
       Some f \<Rightarrow> Some f
     | None \<Rightarrow> map_option snd (find (\<lambda>(n, f). fold_name n = fold_name k) fs))"

definition assign_raw :: "'s raw_fields \<Rightarrow> 's \<times> bool \<Rightarrow> string \<times> bytes \<Rightarrow> 's \<times> bool" where
  "assign_raw fs st m = (case find_raw fs (fst m) of
       None \<Rightarrow> st
     | Some f \<Rightarrow> (case f (snd m) (fst st) of None \<Rightarrow> (fst st, False) | Some s' \<Rightarrow> (s', snd st)))"

text \<open>A valid value, decoded into a struct from its text.\<close>

definition decode_raw :: "'s raw_fields \<Rightarrow> bytes \<Rightarrow> 's \<Rightarrow> 's \<times> bool" where
  "decode_raw fs raw s = (case parse_value (parse_fuel raw) 0 raw of
       Some (JNull, _) \<Rightarrow> (s, True)
     | Some (JObj _, _) \<Rightarrow> foldl (assign_raw fs) (s, True) (raw_members (drop 1 (skip_ws raw)))
     | _ \<Rightarrow> (s, False))"

definition decode_raw_body :: "'s raw_fields \<Rightarrow> 's \<Rightarrow> bytes \<Rightarrow> 's \<times> decode_error option" where
  "decode_raw_body fs s0 body =
     (if skip_ws body = [] then (s0, Some EOF)
      else case parse_value (parse_fuel body) 0 body of
          None \<Rightarrow> (s0, Some BadJSON)
        | Some (v, rest) \<Rightarrow> (case decode_raw fs body s0 of (s, ok) \<Rightarrow> (s, if ok then None else Some BadJSON)))"

text \<open>The fields: a decoded value, a nested struct or a pointer to one, the text itself, a pointer to a time.\<close>

definition value_field :: "(json \<Rightarrow> 's \<Rightarrow> 's option) \<Rightarrow> bytes \<Rightarrow> 's \<Rightarrow> 's option" where
  "value_field f raw s = (case parse_value (parse_fuel raw) 0 raw of None \<Rightarrow> None | Some (v, _) \<Rightarrow> f v s)"

definition raw_struct_field :: "'t raw_fields \<Rightarrow> ('s \<Rightarrow> 't) \<Rightarrow> ('t \<Rightarrow> 's \<Rightarrow> 's) \<Rightarrow> bytes \<Rightarrow> 's \<Rightarrow> 's option" where
  "raw_struct_field fs get put raw s = (case decode_raw fs raw (get s) of (t, ok) \<Rightarrow> if ok then Some (put t s) else None)"

definition raw_message_field :: "(bytes \<Rightarrow> 's \<Rightarrow> 's) \<Rightarrow> bytes \<Rightarrow> 's \<Rightarrow> 's option" where
  "raw_message_field put raw s = Some (put raw s)"

definition raw_pointer_field ::
    "('v \<Rightarrow> bytes \<Rightarrow> 'v option) \<Rightarrow> 'v \<Rightarrow> ('s \<Rightarrow> 'v option) \<Rightarrow> ('v option \<Rightarrow> 's \<Rightarrow> 's) \<Rightarrow> bytes \<Rightarrow> 's \<Rightarrow> 's option" where
  "raw_pointer_field decode zero get put raw s =
     (if raw = ''null'' then Some (put None s)
      else map_option (\<lambda>v. put (Some v) s) (decode (case get s of None \<Rightarrow> zero | Some v \<Rightarrow> v) raw))"

definition time_text :: "bytes \<Rightarrow> (instant \<times> int) option" where
  "time_text raw =
     (if 2 \<le> length raw \<and> hd raw = quote_ch \<and> last raw = quote_ch then Parse_RFC3339 (butlast (tl raw)) else None)"

text \<open>What \<^verbatim>\<open>Marshal\<close> makes of a raw message: white space goes, and inside strings the three HTML bytes and the two
  line separators are escaped.\<close>

fun compact :: "bool \<Rightarrow> bytes \<Rightarrow> bytes" where
  "compact quoted [] = []"
| "compact quoted (c # s) =
     (if \<not> quoted then (if is_ws c then compact False s else c # compact (c = quote_ch) s)
      else if c = backslash then (case s of [] \<Rightarrow> [c] | e # t \<Rightarrow> c # e # compact True t)
      else if c = CHR ''<'' \<or> c = CHR ''>'' \<or> c = CHR ''&'' then u_escape (byte c) @ compact True s
      else (case s of
          a # b # t \<Rightarrow>
            if c = CHR 0xE2 \<and> a = CHR 0x80 \<and> (b = CHR 0xA8 \<or> b = CHR 0xA9) then u_escape (0x2000 + byte b - 0x80) @ compact True t
            else c # compact (c \<noteq> quote_ch) s
        | _ \<Rightarrow> c # compact (c \<noteq> quote_ch) s))"

definition raw_json :: "bytes \<Rightarrow> err + bytes" where
  "raw_json m = (if json_Valid m then Inr (compact False m) else Inl (ErrOther ''json: error calling MarshalJSON''))"

end
