(* ===== verification/Sdk.thy ===== *)
theory Sdk
  imports GovernanceApi Wire
begin

text \<open>
  The Go client (\<^verbatim>\<open>sdk\<close>: client.go, errors.go, governance.go): requests with bounded retries, decoded answers and
  the write operations.  What a call takes from outside is an argument: \<open>send k\<close> is the \<open>k\<close>-th round trip through the
  HTTP client, network and server included, on a state; \<open>ctxErr k\<close> is the error of the context before it,
  \<open>sleep k d\<close> the error of a wait of length \<open>d\<close> after it, and \<open>reqID k\<close> the id drawn for it.  The hooks and the
  timeout of an attempt change neither request nor result.
\<close>

section \<open>Errors\<close>

datatype sdk_error = ConfigError string | ContextError err | TransportError err | DecodeError
  | APIError (ap_Status: int) (ap_Title: string) (ap_Detail: string) (ap_RequestID: string)

definition asAPIError :: "sdk_error \<Rightarrow> sdk_error option" where
  "asAPIError er = (case er of APIError s t d i \<Rightarrow> Some er | _ \<Rightarrow> None)"

definition statusIs :: "sdk_error \<Rightarrow> int list \<Rightarrow> bool" where
  "statusIs er codes = (case asAPIError er of None \<Rightarrow> False | Some e \<Rightarrow> ap_Status e \<in> set codes)"

definition IsValidation :: "sdk_error \<Rightarrow> bool" where "IsValidation er = statusIs er [400, 422]"
definition IsUnauthorized :: "sdk_error \<Rightarrow> bool" where "IsUnauthorized er = statusIs er [401]"
definition IsForbidden :: "sdk_error \<Rightarrow> bool" where "IsForbidden er = statusIs er [403]"
definition IsNotFound :: "sdk_error \<Rightarrow> bool" where "IsNotFound er = statusIs er [404]"
definition IsConflict :: "sdk_error \<Rightarrow> bool" where "IsConflict er = statusIs er [409, 412]"

definition IsServerError :: "sdk_error \<Rightarrow> bool" where
  "IsServerError er = (case asAPIError er of None \<Rightarrow> False | Some e \<Rightarrow> 500 \<le> ap_Status e)"

definition IsRetryable :: "sdk_error option \<Rightarrow> bool" where
  "IsRetryable x = (case x of
       None \<Rightarrow> False
     | Some er \<Rightarrow> (case asAPIError er of Some e \<Rightarrow> ap_Status e = 429 \<or> 500 \<le> ap_Status e | None \<Rightarrow> True))"

definition APIError_Error :: "sdk_error \<Rightarrow> string" where
  "APIError_Error e =
     (if ap_Detail e \<noteq> [] then ''oneops: '' @ FormatInt (ap_Status e) @ '' '' @ ap_Title e @ '': '' @ ap_Detail e
      else ''oneops: '' @ FormatInt (ap_Status e) @ '' '' @ ap_Title e)"

section \<open>Client\<close>

record sdk_Config =
  sc_BaseURL :: string
  sc_Token :: string
  sc_Timeout :: duration
  sc_MaxRetries :: int
  sc_RetryBackoff :: duration
  sc_UserAgent :: string

definition TrimRight_byte :: "char \<Rightarrow> string \<Rightarrow> string" where
  "TrimRight_byte c s = rev (dropWhile (\<lambda>x. x = c) (rev s))"

definition NewClient :: "sdk_Config \<Rightarrow> sdk_error + sdk_Config" where
  "NewClient cfg =
     (if TrimSpace (sc_BaseURL cfg) = [] then Inl (ConfigError ''oneops: BaseURL is required'')
      else let retries = (if sc_MaxRetries cfg < 0 then 0 else sc_MaxRetries cfg) in
        Inr \<lparr> sc_BaseURL = TrimRight_byte (CHR ''/'') (sc_BaseURL cfg), sc_Token = sc_Token cfg,
              sc_Timeout = (if sc_Timeout cfg = 0 then 30 * Second else sc_Timeout cfg),
              sc_MaxRetries = (if retries = 0 then 2 else retries),
              sc_RetryBackoff = (if sc_RetryBackoff cfg \<le> 0 then 200 * 1000000 else sc_RetryBackoff cfg),
              sc_UserAgent = (if sc_UserAgent cfg = [] then ''oneops-go-sdk'' else sc_UserAgent cfg) \<rparr>)"

record sdk_request =
  sr_Method :: string
  sr_URL :: string
  sr_Headers :: smap
  sr_Body :: "bytes option"

definition sdk_backoff :: "sdk_Config \<Rightarrow> nat \<Rightarrow> duration" where
  "sdk_backoff cfg attempt = int64 (sc_RetryBackoff cfg * int64 (2 ^ attempt))"

text \<open>The headers of an attempt; a later \<^verbatim>\<open>Header.Set\<close> replaces the value of an earlier one.\<close>

definition attempt_headers :: "sdk_Config \<Rightarrow> string \<Rightarrow> smap \<Rightarrow> bytes option \<Rightarrow> smap" where
  "attempt_headers cfg reqID headers body =
     (let h = [(''Accept'', ''application/json'')];
          h = (if body = None then h else map_put ''Content-Type'' ''application/json'' h);
          h = (if sc_Token cfg = [] then h else map_put ''Authorization'' (''Bearer '' @ sc_Token cfg) h);
          h = map_put ''User-Agent'' (sc_UserAgent cfg) h;
          given = mget headers ''X-Request-ID'';
          h = map_put ''X-Request-ID'' (if given = [] then reqID else given) h
      in foldl (\<lambda>m (k, v). if v = [] then m else map_put k v m) h headers)"

definition sdk_attempt :: "sdk_Config \<Rightarrow> string \<Rightarrow> string \<Rightarrow> smap \<Rightarrow> bytes option \<Rightarrow> string \<Rightarrow> sdk_request" where
  "sdk_attempt cfg meth path headers body reqID =
     \<lparr> sr_Method = meth, sr_URL = sc_BaseURL cfg @ path, sr_Headers = attempt_headers cfg reqID headers body, sr_Body = body \<rparr>"

definition isRetryableStatus :: "int \<Rightarrow> bool" where
  "isRetryableStatus code \<longleftrightarrow> code = 429 \<or> 500 \<le> code"

text \<open>\<^verbatim>\<open>http.StatusText\<close> on the error statuses.\<close>

definition StatusText :: "int \<Rightarrow> string" where
  "StatusText code = (case map_of
     [(400, ''Bad Request''), (401, ''Unauthorized''), (402, ''Payment Required''), (403, ''Forbidden''), (404, ''Not Found''),
      (405, ''Method Not Allowed''), (406, ''Not Acceptable''), (407, ''Proxy Authentication Required''), (408, ''Request Timeout''),
      (409, ''Conflict''), (410, ''Gone''), (411, ''Length Required''), (412, ''Precondition Failed''),
      (413, ''Request Entity Too Large''), (414, ''Request URI Too Long''), (415, ''Unsupported Media Type''),
      (416, ''Requested Range Not Satisfiable''), (417, ''Expectation Failed''), (418, ''I'' @ [CHR 0x27] @ ''m a teapot''),
      (421, ''Misdirected Request''), (422, ''Unprocessable Entity''), (423, ''Locked''), (424, ''Failed Dependency''), (425, ''Too Early''),
      (426, ''Upgrade Required''), (428, ''Precondition Required''), (429, ''Too Many Requests''),
      (431, ''Request Header Fields Too Large''), (451, ''Unavailable For Legal Reasons''), (500, ''Internal Server Error''),
      (501, ''Not Implemented''), (502, ''Bad Gateway''), (503, ''Service Unavailable''), (504, ''Gateway Timeout''),
      (505, ''HTTP Version Not Supported''), (506, ''Variant Also Negotiates''), (507, ''Insufficient Storage''), (508, ''Loop Detected''),
      (510, ''Not Extended''), (511, ''Network Authentication Required'')] code of None \<Rightarrow> [] | Some t \<Rightarrow> t)"

record problem =
  pb_Title :: string
  pb_Detail :: string
  pb_Instance :: string

definition parseProblem :: "Response \<Rightarrow> sdk_error" where
  "parseProblem resp =
     (let p = fst (decode_body [(''title'', string_field (\<lambda>x q. q\<lparr> pb_Title := x \<rparr>)),
                (''detail'', string_field (\<lambda>x q. q\<lparr> pb_Detail := x \<rparr>)), (''instance'', string_field (\<lambda>x q. q\<lparr> pb_Instance := x \<rparr>))]
                \<lparr> pb_Title = [], pb_Detail = [], pb_Instance = [] \<rparr> (hs_Body resp))
      in APIError (hs_Status resp) (if pb_Title p = [] then StatusText (hs_Status resp) else pb_Title p) (pb_Detail p) (pb_Instance p))"

text \<open>\<open>read\<close> decodes the body into the result; it is \<open>None\<close> when the caller wants no result, whose value is \<open>zero\<close>.\<close>

definition decode_response :: "(bytes \<Rightarrow> 'o option) option \<Rightarrow> 'o \<Rightarrow> Response \<Rightarrow> sdk_error + 'o" where
  "decode_response read zero resp =
     (if 400 \<le> hs_Status resp then Inl (parseProblem resp)
      else (case read of
          None \<Rightarrow> Inr zero
        | Some f \<Rightarrow> (case f (hs_Body resp) of None \<Rightarrow> Inl DecodeError | Some x \<Rightarrow> Inr x)))"

definition statusOnlyError :: "int \<Rightarrow> sdk_error" where
  "statusOnlyError code = APIError code (StatusText code) [] []"

text \<open>The loop of \<^verbatim>\<open>do\<close>: \<open>n\<close> attempts are left, the next is attempt \<open>k\<close>, \<open>last_er\<close> is the error of the one before.\<close>

fun do_attempts ::
    "(nat \<Rightarrow> err option) \<Rightarrow> (nat \<Rightarrow> err option) \<Rightarrow> (nat \<Rightarrow> 's \<Rightarrow> (err + Response) \<times> 's) \<Rightarrow> bool \<Rightarrow> (Response \<Rightarrow> sdk_error + 'o) \<Rightarrow> 'o \<Rightarrow>
     nat \<Rightarrow> nat \<Rightarrow> sdk_error option \<Rightarrow> 's \<Rightarrow> (sdk_error + 'o) \<times> 's" where
  "do_attempts ctxErr wait send idempotent decode zero 0 k last_er s = (case last_er of None \<Rightarrow> Inr zero | Some er \<Rightarrow> Inl er, s)"
| "do_attempts ctxErr wait send idempotent decode zero (Suc n) k last_er s =
     (case ctxErr k of
        Some er \<Rightarrow> (Inl (ContextError er), s)
      | None \<Rightarrow>
     (case send k s of
        (Inl er, s1) \<Rightarrow>
          if \<not> idempotent \<or> n = 0 then (Inl (TransportError er), s1)
          else (case wait k of
              Some serr \<Rightarrow> (Inl (ContextError serr), s1)
            | None \<Rightarrow> do_attempts ctxErr wait send idempotent decode zero n (Suc k) (Some (TransportError er)) s1)
      | (Inr resp, s1) \<Rightarrow>
          if isRetryableStatus (hs_Status resp) \<and> idempotent \<and> 0 < n then
            (case wait k of
               Some serr \<Rightarrow> (Inl (ContextError serr), s1)
             | None \<Rightarrow> do_attempts ctxErr wait send idempotent decode zero n (Suc k) (Some (statusOnlyError (hs_Status resp))) s1)
          else (decode resp, s1)))"

record 's sdk_world =
  sx_ctxErr :: "nat \<Rightarrow> err option"
  sx_sleep :: "nat \<Rightarrow> duration \<Rightarrow> err option"
  sx_reqID :: "nat \<Rightarrow> string"
  sx_send :: "nat \<Rightarrow> sdk_request \<Rightarrow> 's \<Rightarrow> (err + Response) \<times> 's"

definition do_request ::
    "sdk_Config \<Rightarrow> 's sdk_world \<Rightarrow> string \<Rightarrow> string \<Rightarrow> smap \<Rightarrow> bytes option \<Rightarrow> (bytes \<Rightarrow> 'o option) option \<Rightarrow> 'o \<Rightarrow> 's \<Rightarrow> (sdk_error + 'o) \<times> 's" where
  "do_request cfg w meth path headers body read zero s =
     do_attempts (sx_ctxErr w) (\<lambda>k. sx_sleep w k (sdk_backoff cfg k))
       (\<lambda>k. sx_send w k (sdk_attempt cfg meth path headers body (sx_reqID w k)))
       (meth = ''GET'' \<or> mget headers ''Idempotency-Key'' \<noteq> []) (decode_response read zero) zero
       (nat (sc_MaxRetries cfg + 1)) 0 None s"

section \<open>Write operations\<close>

record WriteOptions =
  wo_OperationID :: string
  wo_ExpectedRowVersion :: int

definition WriteOptions_headers :: "WriteOptions \<Rightarrow> sdk_error + smap" where
  "WriteOptions_headers opts =
     (if wo_OperationID opts = [] then Inl (ConfigError ''oneops: WriteOptions.OperationID is required'')
      else Inr ((''Idempotency-Key'', wo_OperationID opts) #
        (if 0 < wo_ExpectedRowVersion opts then [(''If-Match'', etag (wo_ExpectedRowVersion opts))] else [])))"

text \<open>\<^verbatim>\<open>url.PathEscape\<close>: letters, digits and the bytes that may stand in a path segment are kept.\<close>

definition path_byte :: "char \<Rightarrow> bool" where
  "path_byte c \<longleftrightarrow> is_digit c \<or> 65 \<le> byte c \<and> byte c \<le> 90 \<or> 97 \<le> byte c \<and> byte c \<le> 122 \<or> c \<in> set ''-_.~$&+:=@''"

definition PathEscape :: "string \<Rightarrow> string" where
  "PathEscape s = concat (map (\<lambda>c. if path_byte c then [c]
     else [CHR ''%'', ''0123456789ABCDEF'' ! (byte c div 16), ''0123456789ABCDEF'' ! (byte c mod 16)]) s)"

definition time_field :: "(instant \<Rightarrow> 's \<Rightarrow> 's) \<Rightarrow> bytes \<Rightarrow> 's \<Rightarrow> 's option" where
  "time_field put raw s = (if raw = ''null'' then Some s else map_option (\<lambda>(t, off). put t s) (time_text raw))"

definition zero_state :: governanceState where
  "zero_state = \<lparr> gv_Lifecycle = [], gv_RetentionClass = [], gv_Authority = [] \<rparr>"

definition GovernanceState_fields :: "governanceState fields" where
  "GovernanceState_fields = [
     (''lifecycle'', string_field (\<lambda>x q. q\<lparr> gv_Lifecycle := x \<rparr>)),
     (''retention_class'', string_field (\<lambda>x q. q\<lparr> gv_RetentionClass := x \<rparr>)),
     (''authority'', string_field (\<lambda>x q. q\<lparr> gv_Authority := x \<rparr>))]"

definition AuditMeta_fields :: "governanceAudit fields" where
  "AuditMeta_fields = [
     (''operation_id'', string_field (\<lambda>x q. q\<lparr> ga_OperationID := x \<rparr>)),
     (''chain_id'', string_field (\<lambda>x q. q\<lparr> ga_ChainID := x \<rparr>)),
     (''recorded'', flag_field (\<lambda>x q. q\<lparr> ga_Recorded := x \<rparr>))]"

definition GovernanceResult_fields :: "governanceResponse raw_fields" where
  "GovernanceResult_fields = [
     (''operation'', value_field (string_field (\<lambda>x q. q\<lparr> gp_Operation := x \<rparr>))),
     (''cfg_id'', value_field (string_field (\<lambda>x q. q\<lparr> gp_CfgID := x \<rparr>))),
     (''actor'', value_field (string_field (\<lambda>x q. q\<lparr> gp_Actor := x \<rparr>))),
     (''occurred_at'', time_field (\<lambda>x q. q\<lparr> gp_OccurredAt := x \<rparr>)),
     (''removed'', value_field (flag_field (\<lambda>x q. q\<lparr> gp_Removed := x \<rparr>))),
     (''row_version'', value_field (int_field (\<lambda>x q. q\<lparr> gp_RowVersion := x \<rparr>))),
     (''state'', raw_pointer_field (\<lambda>g raw. value_field (struct_field GovernanceState_fields (\<lambda>x. x) (\<lambda>x _. x)) raw g)
        zero_state gp_State (\<lambda>x q. q\<lparr> gp_State := x \<rparr>)),
     (''audit'', value_field (struct_field AuditMeta_fields gp_Audit (\<lambda>x q. q\<lparr> gp_Audit := x \<rparr>))),
     (''successor_id'', value_field (string_field (\<lambda>x q. q\<lparr> gp_SuccessorID := x \<rparr>)))]"

definition zero_GovernanceResult :: governanceResponse where
  "zero_GovernanceResult = \<lparr> gp_Operation = [], gp_CfgID = [], gp_Actor = [], gp_OccurredAt = zero_time, gp_Removed = False,
     gp_RowVersion = 0, gp_State = None, gp_Audit = \<lparr> ga_OperationID = [], ga_ChainID = [], ga_Recorded = False \<rparr>, gp_SuccessorID = [] \<rparr>"

definition read_GovernanceResult :: "bytes \<Rightarrow> governanceResponse option" where
  "read_GovernanceResult body = (case decode_raw_body GovernanceResult_fields zero_GovernanceResult body of
       (g, None) \<Rightarrow> Some g | (g, Some er) \<Rightarrow> None)"

definition governance_write ::
    "sdk_Config \<Rightarrow> 's sdk_world \<Rightarrow> string \<Rightarrow> string \<Rightarrow> bytes option \<Rightarrow> WriteOptions \<Rightarrow> 's \<Rightarrow> (sdk_error + governanceResponse) \<times> 's" where
  "governance_write cfg w meth path body opts s = (case WriteOptions_headers opts of
       Inl er \<Rightarrow> (Inl er, s)
     | Inr h \<Rightarrow> do_request cfg w meth path h body (Some read_GovernanceResult) zero_GovernanceResult s)"

definition governance_post ::
    "sdk_Config \<Rightarrow> 's sdk_world \<Rightarrow> string \<Rightarrow> string \<Rightarrow> bytes option \<Rightarrow> WriteOptions \<Rightarrow> 's \<Rightarrow> (sdk_error + governanceResponse) \<times> 's" where
  "governance_post cfg w i action body opts s =
     governance_write cfg w ''POST'' (''/v1/governance/'' @ PathEscape i @ ''/'' @ action) body opts s"

text \<open>The eight operations, and the body of those that have one.\<close>

datatype sdk_operation = Ratify | Approve | Suspend | Deprecate | Withdraw | Archive string | Extend string | DeleteObject

fun sdk_call ::
    "sdk_Config \<Rightarrow> 's sdk_world \<Rightarrow> sdk_operation \<Rightarrow> string \<Rightarrow> WriteOptions \<Rightarrow> 's \<Rightarrow> (sdk_error + governanceResponse) \<times> 's" where
  "sdk_call cfg w Ratify i opts s = governance_post cfg w i ''ratify'' None opts s"
| "sdk_call cfg w Approve i opts s = governance_post cfg w i ''approve'' None opts s"
| "sdk_call cfg w Suspend i opts s = governance_post cfg w i ''suspend'' None opts s"
| "sdk_call cfg w Deprecate i opts s = governance_post cfg w i ''deprecate'' None opts s"
| "sdk_call cfg w Withdraw i opts s = governance_post cfg w i ''withdraw'' None opts s"
| "sdk_call cfg w (Archive targetRetention) i opts s =
     (if targetRetention = [] then (Inl (ConfigError ''oneops: Archive requires a target retention class''), s)
      else governance_post cfg w i ''archive'' (Some (smap_json [(''target_retention'', targetRetention)])) opts s)"
| "sdk_call cfg w (Extend successorID) i opts s =
     (if successorID = [] then (Inl (ConfigError ''oneops: Extend requires a successor id''), s)
      else governance_post cfg w i ''extend'' (Some (smap_json [(''successor_id'', successorID)])) opts s)"
| "sdk_call cfg w DeleteObject i opts s = governance_write cfg w ''DELETE'' (''/v1/governance/'' @ PathEscape i) None opts s"

section \<open>Retries against an at-most-once server\<close>

text \<open>
  What the client relies on: an attempt is refused and changes nothing, or it takes effect, and then the operation is
  spent, so that no later attempt takes effect again.
\<close>

locale at_most_once =
  fixes send :: "nat \<Rightarrow> 's \<Rightarrow> (err + Response) \<times> 's"
    and inv :: "'s \<Rightarrow> bool" and effect :: "'s \<Rightarrow> 's \<Rightarrow> bool" and spent :: "'s \<Rightarrow> bool"
  assumes attempt: "inv s \<Longrightarrow> send k s = (a, s') \<Longrightarrow>
    s' = s \<and> (\<forall>p. a = Inr p \<longrightarrow> 400 \<le> hs_Status p) \<or> \<not> spent s \<and> effect s s' \<and> inv s' \<and> spent s'"
begin

lemma attempts_spent:
  assumes "inv s" "spent s" "0 < n \<or> last_er \<noteq> None"
    and "do_attempts ctxErr wait send idem (decode_response read zero) zero n k last_er s = (r, s')"
  shows "s' = s \<and> (\<exists>er. r = Inl er)"
  using assms(3,4)
proof (induction n arbitrary: k last_er)
  case (Suc n)
  obtain a s1 where send: "send k s = (a, s1)" by fastforce
  have a: "s1 = s" "\<And>p. a = Inr p \<Longrightarrow> 400 \<le> hs_Status p"
    using attempt [OF assms(1) send] assms(2) by auto
  show ?case
    using Suc.prems(2) Suc.IH a send
    by (auto simp: decode_response_def split: option.splits sum.splits if_splits)
qed auto

lemma attempts_once:
  assumes "inv s" "0 < n \<or> last_er \<noteq> None"
    and "do_attempts ctxErr wait send idem (decode_response read zero) zero n k last_er s = (r, s')"
  shows "s' = s \<and> (\<exists>er. r = Inl er) \<or> effect s s'"
  using assms(2,3)
proof (induction n arbitrary: k last_er)
  case (Suc n)
  obtain a s1 where send: "send k s = (a, s1)" by fastforce
  show ?case
  proof (cases "s1 = s \<and> (\<forall>p. a = Inr p \<longrightarrow> 400 \<le> hs_Status p)")
    case True
    then show ?thesis
      using Suc.prems(2) Suc.IH send
      by (auto simp: decode_response_def split: option.splits sum.splits if_splits)
  next
    case False
    then have s1: "effect s s1" "inv s1" "spent s1"
      using attempt [OF assms(1) send] by auto
    have "s' = s1" if "ctxErr k = None"
      using Suc.prems(2) send that attempts_spent [OF s1(2,3), of n _ ctxErr wait idem read zero "Suc k" r s']
      by (auto split: option.splits sum.splits if_splits)
    with s1 Suc.prems(2) show ?thesis
      by (cases "ctxErr k") auto
  qed
qed auto

end

section \<open>A lossy network\<close>

text \<open>
  What may become of a round trip: the request never reaches the server, its answer is lost after the server has
  worked on it, or both arrive.  The server runs the governance endpoint of the operation behind its router and
  authentication, which have bound the object id and the claims.
\<close>

datatype fate = NotSent err | AnswerLost err | Arrives

definition sdk_op :: "sdk_operation \<Rightarrow> string" where
  "sdk_op c = (case c of
       Ratify \<Rightarrow> OpRatification | Approve \<Rightarrow> OpApproval | Suspend \<Rightarrow> OpSuspension | Deprecate \<Rightarrow> OpDeprecation
     | Withdraw \<Rightarrow> OpWithdrawal | Archive x \<Rightarrow> OpArchiving | Extend x \<Rightarrow> OpExtension | DeleteObject \<Rightarrow> OpDeletion)"

definition served :: "Claims \<Rightarrow> string \<Rightarrow> sdk_request \<Rightarrow> Request" where
  "served claims i q = \<lparr> rq_Method = sr_Method q, rq_Path = sr_URL q, rq_Headers = sr_Headers q, rq_Query = [], rq_Params = [(''id'', i)],
     rq_Body = (case sr_Body q of None \<Rightarrow> [] | Some b \<Rightarrow> b), rq_Claims = Some claims, rq_RequestID = mget (sr_Headers q) ''X-Request-ID'' \<rparr>"

definition through :: "fate \<Rightarrow> reply \<times> 's \<Rightarrow> 's \<Rightarrow> (err + Response) \<times> 's" where
  "through f answered s = (case f of
       NotSent er \<Rightarrow> (Inl er, s)
     | AnswerLost er \<Rightarrow> (Inl er, snd answered)
     | Arrives \<Rightarrow> (case answered of
         (Replied p, s') \<Rightarrow> (Inr p, s')
       | (HandlerPanic h, s') \<Rightarrow> (Inl (ErrOther ''connection closed''), s')))"

text \<open>The \<open>k\<close>-th attempt meets the engine with its own clocks and drawn ids.\<close>

record attempt_env =
  at_fate :: fate
  at_dbnow :: instant
  at_now :: instant
  at_newID :: string
  at_authz :: authorizer

definition lossy_send ::
    "pg \<Rightarrow> (nat \<Rightarrow> attempt_env) \<Rightarrow> (instant \<Rightarrow> int) \<Rightarrow> Claims \<Rightarrow> string \<Rightarrow> string \<Rightarrow> nat \<Rightarrow> sdk_request \<Rightarrow> db \<Rightarrow> (err + Response) \<times> db" where
  "lossy_send pg E zone claims op i k q d =
     through (at_fate (E k))
       (execGovernance zone (Some (Execute (pg_engine pg (at_dbnow (E k)) (at_newID (E k)) (at_authz (E k))) (at_now (E k)))) op
          (served claims i q) d) d"

definition one_event :: "Claims \<Rightarrow> string \<Rightarrow> string \<Rightarrow> string \<Rightarrow> db \<Rightarrow> db \<Rightarrow> bool" where
  "one_event claims op i key d d' \<longleftrightarrow>
     (\<exists>row. chain_events d' = (chain_events d)(i := chain_events d i @ [row]) \<and> ae_Operation row = op \<and>
        ae_Actor row = cl_Subject claims \<and> ae_OperationID row = key)"

definition event_spent :: "string \<Rightarrow> string \<Rightarrow> db \<Rightarrow> bool" where
  "event_spent i key d \<longleftrightarrow> (\<exists>x. DeriveEventID key = Inr x \<and> x \<in> ae_EventID ` set (chain_events d i))"

lemma mget_put: "mget (map_put k v m) k' = (if k' = k then v else mget m k')"
  by (simp add: mget_def map_put_def update_conv)

definition sent_headers :: "WriteOptions \<Rightarrow> smap" where
  "sent_headers opts = (''Idempotency-Key'', wo_OperationID opts) #
     (if 0 < wo_ExpectedRowVersion opts then [(''If-Match'', etag (wo_ExpectedRowVersion opts))] else [])"

lemma sent_key: "mget (attempt_headers cfg reqID (sent_headers opts) body) ''Idempotency-Key'' = wo_OperationID opts"
proof -
  have "etag v \<noteq> []" for v
    by (simp add: etag_def)
  then show ?thesis
    by (simp add: attempt_headers_def sent_headers_def Let_def mget_put) (simp add: mget_def)
qed

lemma mapGovernanceError_status: "400 \<le> hs_Status (mapGovernanceError r er)"
  by (simp add: mapGovernanceError_def mapError_def writeProblem_def split: err.splits)

lemma governance_command_status: "governance_command r op = Inl p \<Longrightarrow> 400 \<le> hs_Status p"
  by (auto simp: governance_command_def Let_def writeProblem_def result_bind_Inl
      split: option.splits if_splits prod.splits decode_error.splits)

lemma governance_attempt:
  assumes "reachable pg d" "execGovernance zone (Some (Execute (pg_engine pg n newID authz) now)) op r d = (p, d')"
    and "ClaimsFrom r = Some claims" "URLParam r ''id'' = i" "Header_Get r ''Idempotency-Key'' = key"
  shows "(\<exists>q. p = Replied q \<and> 400 \<le> hs_Status q \<and> d' = d) \<or>
    (\<exists>q. p = Replied q) \<and> \<not> event_spent i key d \<and> one_event claims op i key d d' \<and> reachable pg d' \<and> event_spent i key d'"
proof (cases "governance_command r op")
  case (Inl q)
  with assms(2) governance_command_status [OF Inl] show ?thesis
    by (auto simp: execGovernance_def)
next
  case (Inr cmd)
  note c = governance_command_Inr [OF Inr]
  obtain out d1 where ex: "Execute (pg_engine pg n newID authz) now cmd d = (out, d1)"
    by fastforce
  show ?thesis
  proof (cases out)
    case (Inl er)
    then have "d1 = d"
      using Execute_error_unchanged [of "pg_engine pg n newID authz"] ex by blast
    with assms(2) Inr Inl ex mapGovernanceError_status show ?thesis
      by (auto simp: execGovernance_def)
  next
    case out: (Inr res)
    have d': "d1 = d'" "\<exists>q. p = Replied q"
      using assms(2) Inr ex out by (auto simp: execGovernance_def)
    have inv: "db_inv d"
      by (rule reachable_db_inv [OF assms(1)])
    have cmd: "cm_CfgID cmd = i" "cm_OperationID cmd = key" "cm_Operation cmd = op" "cm_Actor cmd = cl_Subject claims"
      using c assms(3-5) by auto
    obtain row where row: "chain_events d' = (chain_events d)(i := chain_events d i @ [row])" "ae_Operation row = op"
      "ae_Actor row = cl_Subject claims" "ae_OperationID row = key" "DeriveEventID key = Inr (ae_EventID row)"
      using pgx.execute_success [OF inv ex [unfolded out d'(1)]] unfolding AuditChainID_def cmd by blast
    have "\<not> event_spent i key d"
      using Execute_event_fresh [OF inv ex [unfolded out d'(1)], unfolded cmd] by (auto simp: event_spent_def)
    moreover have "reachable pg d'"
      using assms(1) ex d'(1) by (blast intro: reachable.more step.execute)
    moreover have "event_spent i key d'"
      by (simp add: event_spent_def row(1,5))
    ultimately show ?thesis
      using d'(2) row by (auto simp: one_event_def)
  qed
qed

interpretation lossy: at_most_once
  "\<lambda>k. lossy_send pg E zone claims op i k (sdk_attempt cfg meth path (sent_headers opts) body (reqID k))"
  "reachable pg" "one_event claims op i (wo_OperationID opts)" "event_spent i (wo_OperationID opts)"
  for pg E zone claims op i cfg meth path opts body reqID
proof
  fix s k a s'
  let ?q = "sdk_attempt cfg meth path (sent_headers opts) body (reqID k)"
  let ?X = "Execute (pg_engine pg (at_dbnow (E k)) (at_newID (E k)) (at_authz (E k))) (at_now (E k))"
  assume inv: "reachable pg s" and run: "lossy_send pg E zone claims op i k ?q s = (a, s')"
  obtain p d' where ex: "execGovernance zone (Some ?X) op (served claims i ?q) s = (p, d')"
    by fastforce
  have r: "ClaimsFrom (served claims i ?q) = Some claims" "URLParam (served claims i ?q) ''id'' = i"
      "Header_Get (served claims i ?q) ''Idempotency-Key'' = wo_OperationID opts"
    using sent_key by (simp_all add: served_def ClaimsFrom_def mget_def sdk_attempt_def)
  from governance_attempt [OF inv ex r] run
  show "s' = s \<and> (\<forall>p. a = Inr p \<longrightarrow> 400 \<le> hs_Status p) \<or>
      \<not> event_spent i (wo_OperationID opts) s \<and> one_event claims op i (wo_OperationID opts) s s' \<and>
      reachable pg s' \<and> event_spent i (wo_OperationID opts) s'"
    by (cases "at_fate (E k)") (auto simp: lossy_send_def through_def ex)
qed

lemma governance_write_once:
  assumes "NewClient cfg0 = Inr cfg" "reachable pg d"
    and "governance_write cfg \<lparr> sx_ctxErr = ctxErr, sx_sleep = sleep, sx_reqID = reqID, sx_send = lossy_send pg E zone claims op i \<rparr>
      meth path body opts d = (r, d')"
  shows "d' = d \<and> (\<exists>er. r = Inl er) \<or> one_event claims op i (wo_OperationID opts) d d'"
proof (cases "wo_OperationID opts = []")
  case True
  with assms(3) show ?thesis
    by (auto simp: governance_write_def WriteOptions_headers_def)
next
  case False
  then have h: "WriteOptions_headers opts = Inr (sent_headers opts)"
    by (simp add: WriteOptions_headers_def sent_headers_def)
  have n: "0 < nat (sc_MaxRetries cfg + 1)"
    using assms(1) by (auto simp: NewClient_def Let_def split: if_splits)
  show ?thesis
    by (rule lossy.attempts_once [OF assms(2) disjI1 [OF n] assms(3) [unfolded governance_write_def h sum.case do_request_def sdk_world.simps]])
qed


text \<open>C7: Retries never repeat a governance operation.  Whatever the network does to each attempt (not sent, answer
  lost after the server committed, delivered), whatever the clocks, drawn ids, waits and cancellations, a write call of
  the client on a reachable database appends at most one audit event, with the operation, the caller's subject and the
  operation id; a call that returns a result has appended it, and a call that appended none has changed nothing.\<close>

theorem sdk_call_at_most_once:
  assumes "NewClient cfg0 = Inr cfg" "reachable pg d"
    and "sdk_call cfg \<lparr> sx_ctxErr = ctxErr, sx_sleep = sleep, sx_reqID = reqID, sx_send = lossy_send pg E zone claims (sdk_op c) i \<rparr>
      c i opts d = (r, d')"
  shows "d' = d \<and> (\<exists>er. r = Inl er) \<or> one_event claims (sdk_op c) i (wo_OperationID opts) d d'"
  using assms(3) governance_write_once [OF assms(1,2)]
  by (cases c) (auto simp: governance_post_def split: if_splits)

lemma NewClient_retries: "NewClient cfg0 = Inr cfg \<Longrightarrow> 1 \<le> sc_MaxRetries cfg"
  by (auto simp: NewClient_def Let_def split: if_splits)


definition sample_client :: sdk_Config where
  "sample_client = \<lparr> sc_BaseURL = ''http://h'', sc_Token = [], sc_Timeout = 30 * Second, sc_MaxRetries = 2, sc_RetryBackoff = 200000000,
     sc_UserAgent = ''oneops-go-sdk'' \<rparr>"

lemma sample_NewClient: "NewClient (sample_client\<lparr> sc_BaseURL := ''http://h/'', sc_MaxRetries := - 1 \<rparr>) = Inr sample_client"
  by code_simp

text \<open>The first answer is lost after the server has committed; the later attempts arrive.\<close>

definition sample_env_once :: "nat \<Rightarrow> attempt_env" where
  "sample_env_once k = \<lparr> at_fate = (if k = 0 then AnswerLost (ErrOther ''reset'') else Arrives), at_dbnow = 0, at_now = 1000,
     at_newID = ''e1'', at_authz = AllowAllAuthorizer \<rparr>"

definition sample_world :: "db sdk_world" where
  "sample_world = \<lparr> sx_ctxErr = (\<lambda>_. None), sx_sleep = (\<lambda>_ _. None), sx_reqID = (\<lambda>_. ''r''),
     sx_send = lossy_send sample_pg sample_env_once (\<lambda>_. 0) \<lparr> cl_Subject = ''alice'', cl_Roles = [], cl_Tenant = [] \<rparr> (sdk_op Ratify) ''c1'' \<rparr>"

lemma sample_first_attempt:
  assumes "Execute sample_engine 1000 ratify sample_db = (Inr res, d1)"
  shows "sx_send sample_world 0 (sdk_attempt sample_client ''POST'' path (sent_headers \<lparr> wo_OperationID = ''op-1'', wo_ExpectedRowVersion = 0 \<rparr>) None ''r'')
    sample_db = (Inl (ErrOther ''reset''), d1)"
proof -
  let ?c = "\<lparr> cl_Subject = ''alice'', cl_Roles = [], cl_Tenant = [] \<rparr>"
  let ?q = "sdk_attempt sample_client ''POST'' path (sent_headers \<lparr> wo_OperationID = ''op-1'', wo_ExpectedRowVersion = 0 \<rparr>) None ''r''"
  have "governance_command (served ?c ''c1'' ?q) OpRatification = Inr ratify"
    by (simp add: governance_command_def served_def sdk_attempt_def attempt_headers_def sent_headers_def sample_client_def ClaimsFrom_def
        Let_def mget_put) (simp add: mget_def decode_body_def skip_ws_def zero_governanceRequest_def ratify_def)
  then show ?thesis
    using assms by (simp add: sample_world_def lossy_send_def sample_env_once_def through_def execGovernance_def sdk_op_def)
qed

theorem sdk_call_at_most_once_witness:
  "\<exists>er d'. sdk_call sample_client sample_world Ratify ''c1'' \<lparr> wo_OperationID = ''op-1'', wo_ExpectedRowVersion = 0 \<rparr> sample_db = (Inl er, d') \<and>
     one_event \<lparr> cl_Subject = ''alice'', cl_Roles = [], cl_Tenant = [] \<rparr> OpRatification ''c1'' ''op-1'' sample_db d'"
proof -
  let ?o = "\<lparr> wo_OperationID = ''op-1'', wo_ExpectedRowVersion = 0 \<rparr>"
  obtain d1 where ex: "Execute sample_engine 1000 ratify sample_db = (Inr (dims_result ratify 1000 sample_object ratified_plan), d1)"
    using sample_execute by blast
  let ?w = "sample_world" and ?path = "''/v1/governance/c1/ratify''"
  let ?send = "\<lambda>k. sx_send ?w k (sdk_attempt sample_client ''POST'' ?path (sent_headers ?o) None ''r'')"
  let ?rest = "do_attempts (\<lambda>_. None) (\<lambda>_. None) ?send True (decode_response (Some read_GovernanceResult) zero_GovernanceResult)
      zero_GovernanceResult 2 1 (Some (TransportError (ErrOther ''reset''))) d1"
  have path: "''/v1/governance/'' @ PathEscape ''c1'' @ ''/'' @ ''ratify'' = ?path"
    by code_simp
  have "sdk_call sample_client ?w Ratify ''c1'' ?o sample_db = do_attempts (\<lambda>_. None) (\<lambda>_. None) ?send True
      (decode_response (Some read_GovernanceResult) zero_GovernanceResult) zero_GovernanceResult (Suc 2) 0 None sample_db"
    unfolding sdk_call.simps governance_post_def path
    by (simp add: governance_write_def WriteOptions_headers_def do_request_def sample_world_def sample_client_def sent_headers_def mget_def)
  also have "\<dots> = ?rest"
    by (simp only: do_attempts.simps sample_first_attempt [OF ex] prod.case sum.case option.case) simp
  finally have run: "sdk_call sample_client ?w Ratify ''c1'' ?o sample_db = ?rest" .
  obtain r d' where rest: "?rest = (r, d')" by fastforce
  have inv: "reachable sample_pg d1"
    using sample_reachable ex by (blast intro: reachable.more step.execute)
  obtain row where row: "chain_events d1 ''c1'' = chain_events sample_db ''c1'' @ [row]" "DeriveEventID ''op-1'' = Inr (ae_EventID row)"
    using pgx.execute_success [OF reachable_db_inv [OF sample_reachable] ex] by (auto simp: AuditChainID_def ratify_def)
  then have "event_spent ''c1'' (wo_OperationID ?o) d1"
    by (simp add: event_spent_def)
  from lossy.attempts_spent [OF inv this _ rest [unfolded sample_world_def sdk_world.simps]] obtain er where "d' = d1" "r = Inl er"
    by auto
  moreover have "d1 \<noteq> sample_db"
    using row by auto
  ultimately show ?thesis
    using sdk_call_at_most_once [OF sample_NewClient sample_reachable run [unfolded rest, unfolded sample_world_def]] run rest
    by (auto simp: sdk_op_def)
qed

end
