(* ===== verification/EventDelivery.thy ===== *)
theory EventDelivery
  imports Webhooks
begin

text \<open>
  The workers of \<^verbatim>\<open>internal/events\<close>: the relay that tails the committed audit log, the dispatcher, the
  replay worker and the retention worker.

  The stores the workers use are a record of operations on a state, each of which may fail; a failed write
  may still have changed the state.  What a pass takes from outside is an argument: the clock, whether the
  context is cancelled when an item's turn comes, the ids \<open>newID\<close> draws (the \<open>k\<close>-th draw is
  \<open>newID k\<close>), and the HTTP client, whose error stands for a request that cannot be built or sent.
  The metrics are in the theory \<open>Metrics\<close>, the loops around the passes in \<open>Workers\<close>; logging is left out.
\<close>

section \<open>Ports\<close>

record 'st ports =
  ep_ListChainIDs :: "'st \<Rightarrow> err + string list"
  ep_ListEvents :: "string \<Rightarrow> int \<Rightarrow> bool \<Rightarrow> int \<Rightarrow> string \<Rightarrow> 'st \<Rightarrow> err + AuditEvent list"
  ep_GetCursor :: "string \<Rightarrow> 'st \<Rightarrow> err + int"
  ep_SetCursor :: "string \<Rightarrow> int \<Rightarrow> 'st \<Rightarrow> (err + unit) \<times> 'st"
  ep_Get :: "string \<Rightarrow> 'st \<Rightarrow> err + Webhook"
  ep_ListEnabled :: "'st \<Rightarrow> err + Webhook list"
  ep_Enqueue :: "Delivery list \<Rightarrow> 'st \<Rightarrow> (err + unit) \<times> 'st"
  ep_ClaimDue :: "instant \<Rightarrow> int \<Rightarrow> 'st \<Rightarrow> err + Delivery list"
  ep_MarkResult :: "string \<Rightarrow> string \<Rightarrow> int \<Rightarrow> int \<Rightarrow> instant \<Rightarrow> instant \<Rightarrow> 'st \<Rightarrow> (err + unit) \<times> 'st"
  ep_Requeue :: "string list \<Rightarrow> 'st \<Rightarrow> (err + int) \<times> 'st"
  ep_DeleteOlderThan :: "instant \<Rightarrow> string list \<Rightarrow> 'st \<Rightarrow> (err + int) \<times> 'st"
  ep_ClaimPendingJobs :: "int \<Rightarrow> 'st \<Rightarrow> err + ReplayJob list"
  ep_UpdateJob :: "ReplayJob \<Rightarrow> 'st \<Rightarrow> (err + unit) \<times> 'st"

definition committed :: "'st \<Rightarrow> err + 'st \<Rightarrow> (err + unit) \<times> 'st" where
  "committed st r = (case r of Inl er \<Rightarrow> (Inl er, st) | Inr st' \<Rightarrow> (Inr (), st'))"

text \<open>The PostgreSQL adapters; \<open>now\<close> is the server's clock.\<close>

definition pg_events :: "pg \<Rightarrow> instant \<Rightarrow> (db \<times> hooks) ports" where
  "pg_events pg now = \<lparr>
     ep_ListChainIDs = (\<lambda>(d, h). Inr (ListChainIDs d)),
     ep_ListEvents = (\<lambda>c cursor desc limit op (d, h). ListEvents d c cursor desc limit op),
     ep_GetCursor = (\<lambda>c (d, h). Inr (GetCursor c h)),
     ep_SetCursor = (\<lambda>c seq (d, h). (Inr (), (d, SetCursor c seq h))),
     ep_Get = (\<lambda>i (d, h). Webhook_Get i h),
     ep_ListEnabled = (\<lambda>(d, h). Inr (ListEnabled h)),
     ep_Enqueue = (\<lambda>ds (d, h). (Inr (), (d, Enqueue pg now ds h))),
     ep_ClaimDue = (\<lambda>t limit (d, h). ClaimDue t limit h),
     ep_MarkResult = (\<lambda>i s r c la na (d, h). committed (d, h) (map_sum id (Pair d) (MarkResult pg i s r c la na h))),
     ep_Requeue = (\<lambda>ids (d, h). case Requeue now ids h of (n, h') \<Rightarrow> (Inr (int n), (d, h'))),
     ep_DeleteOlderThan = (\<lambda>cutoff ss (d, h). case DeleteOlderThan cutoff ss h of (n, h') \<Rightarrow> (Inr (int n), (d, h'))),
     ep_ClaimPendingJobs = (\<lambda>limit (d, h). ClaimPendingJobs limit h),
     ep_UpdateJob = (\<lambda>j (d, h). committed (d, h) (map_sum id (Pair d) (UpdateJob now j h))) \<rparr>"

section \<open>The relay\<close>

definition relay_limit :: "int \<Rightarrow> int" where
  "relay_limit limit = (if limit \<le> 0 then 200 else limit)"

fun event_deliveries :: "(nat \<Rightarrow> string) \<Rightarrow> instant \<Rightarrow> Event \<Rightarrow> Webhook list \<Rightarrow> nat \<Rightarrow> Delivery list" where
  "event_deliveries newID now ev [] k = []"
| "event_deliveries newID now ev (w # ws) k =
     (if Webhook_Matches w ev then new_delivery (newID k) (wh_ID w) ev now # event_deliveries newID now ev ws (Suc k)
      else event_deliveries newID now ev ws k)"

fun batch_deliveries :: "(nat \<Rightarrow> string) \<Rightarrow> instant \<Rightarrow> Webhook list \<Rightarrow> AuditEvent list \<Rightarrow> nat \<Rightarrow> Delivery list" where
  "batch_deliveries newID now subs [] k = []"
| "batch_deliveries newID now subs (a # evs) k =
     (let ds = event_deliveries newID now (eventFrom a) subs k in ds @ batch_deliveries newID now subs evs (k + length ds))"

definition max_seq :: "int \<Rightarrow> AuditEvent list \<Rightarrow> int" where
  "max_seq cursor evs = foldl (\<lambda>m a. if m < ae_Seq a then ae_Seq a else m) cursor evs"

definition tailChain :: "'st ports \<Rightarrow> int \<Rightarrow> (nat \<Rightarrow> string) \<Rightarrow> instant \<Rightarrow> Webhook list \<Rightarrow> string \<Rightarrow> nat \<times> 'st \<Rightarrow> nat \<times> 'st" where
  "tailChain p limit newID now subs chainID = (\<lambda>(k, st).
     (case ep_GetCursor p chainID st of
        Inl er \<Rightarrow> (k, st)
      | Inr cursor \<Rightarrow>
     (case ep_ListEvents p chainID cursor False limit [] st of
        Inl er \<Rightarrow> (k, st)
      | Inr evs \<Rightarrow>
        if length evs = 0 then (k, st)
        else let ds = batch_deliveries newID now subs evs k; maxSeq = max_seq cursor evs
             in case (if 0 < length ds then ep_Enqueue p ds st else (Inr (), st)) of
                  (Inl er, st') \<Rightarrow> (k + length ds, st')
                | (Inr _, st') \<Rightarrow>
                    (k + length ds, if cursor < maxSeq then snd (ep_SetCursor p chainID maxSeq st') else st'))))"

fun relay_chains :: "'st ports \<Rightarrow> int \<Rightarrow> (string \<Rightarrow> bool) \<Rightarrow> (nat \<Rightarrow> string) \<Rightarrow> (string \<Rightarrow> instant) \<Rightarrow> Webhook list \<Rightarrow> string list \<Rightarrow> nat \<times> 'st \<Rightarrow> nat \<times> 'st" where
  "relay_chains p limit cancelled newID now subs [] s = s"
| "relay_chains p limit cancelled newID now subs (c # cs) s =
     (if cancelled c then s
      else relay_chains p limit cancelled newID now subs cs (tailChain p limit newID (now c) subs c s))"

definition Relay_RunOnce :: "'st ports \<Rightarrow> int \<Rightarrow> (string \<Rightarrow> bool) \<Rightarrow> (nat \<Rightarrow> string) \<Rightarrow> (string \<Rightarrow> instant) \<Rightarrow> nat \<times> 'st \<Rightarrow> nat \<times> 'st" where
  "Relay_RunOnce p limit cancelled newID now s =
     (case ep_ListChainIDs p (snd s) of
        Inl er \<Rightarrow> s
      | Inr chainIDs \<Rightarrow>
     (case ep_ListEnabled p (snd s) of
        Inl er \<Rightarrow> s
      | Inr subs \<Rightarrow>
        if length subs = 0 then s
        else relay_chains p (relay_limit limit) cancelled newID now subs chainIDs s))"

section \<open>The dispatcher\<close>

record DispatcherConfig =
  dc_BatchLimit :: int
  dc_BaseBackoff :: duration
  dc_MaxBackoff :: duration

definition withDefaults :: "DispatcherConfig \<Rightarrow> DispatcherConfig" where
  "withDefaults c = \<lparr> dc_BatchLimit = (if dc_BatchLimit c \<le> 0 then 100 else dc_BatchLimit c),
     dc_BaseBackoff = (if dc_BaseBackoff c \<le> 0 then 5 * Second else dc_BaseBackoff c),
     dc_MaxBackoff = (if dc_MaxBackoff c \<le> 0 then Hour else dc_MaxBackoff c) \<rparr>"

record http_request =
  hr_URL :: string
  hr_Headers :: smap
  hr_Body :: bytes

type_synonym http_client = "http_request \<Rightarrow> err + int"

text \<open>The shift of an \<^verbatim>\<open>int64\<close> by the retry number less one; Go shifts by a non-negative count.\<close>

definition backoff :: "duration \<Rightarrow> duration \<Rightarrow> int \<Rightarrow> duration" where
  "backoff base cap retry =
     (let b = int64 (base * 2 ^ nat (retry - 1)) in if b \<le> 0 \<or> cap < b then cap else b)"

definition post :: "http_client \<Rightarrow> string \<Rightarrow> Delivery \<Rightarrow> int \<Rightarrow> string \<Rightarrow> bytes \<Rightarrow> int \<times> err option" where
  "post client url del ts sig payload =
     (case client \<lparr> hr_URL = url, hr_Headers = [(''Content-Type'', ''application/json''), (HeaderSignature, sig),
          (HeaderTimestamp, FormatInt ts), (HeaderDelivery, dl_ID del), (HeaderEvent, EventType (ge_Operation (dl_Event del)))],
          hr_Body = payload \<rparr> of
        Inl er \<Rightarrow> (0, Some er)
      | Inr code \<Rightarrow> (code, None))"

definition attempt :: "'st ports \<Rightarrow> DispatcherConfig \<Rightarrow> (instant \<Rightarrow> int) \<Rightarrow> http_client \<Rightarrow> instant \<Rightarrow> Delivery \<Rightarrow> 'st \<Rightarrow> (string \<times> err option) \<times> 'st" where
  "attempt p cfg zone client now del st =
     (case ep_Get p (dl_WebhookID del) st of
        Inl er \<Rightarrow> ((StatusDeadLetter, Some er),
          snd (ep_MarkResult p (dl_ID del) StatusDeadLetter (dl_RetryCount del) 0 now zero_time st))
      | Inr wh \<Rightarrow>
     (case BuildPayload zone del now of
        Inl er \<Rightarrow> ((dl_Status del, Some er), st)
      | Inr (payload, ts) \<Rightarrow>
     (case post client (wh_URL wh) del ts (Sign (wh_Secret wh) ts (dl_ID del) payload) payload of
        (code, derr) \<Rightarrow>
        if derr = None \<and> 200 \<le> code \<and> code < 300 then
          ((StatusDelivered, None),
           snd (ep_MarkResult p (dl_ID del) StatusDelivered (dl_RetryCount del) code now zero_time st))
        else
          let retry = int64 (dl_RetryCount del + 1) in
          if wh_MaxRetries wh \<le> retry then
            ((StatusDeadLetter, derr), snd (ep_MarkResult p (dl_ID del) StatusDeadLetter retry code now zero_time st))
          else
            ((StatusFailed, derr),
             snd (ep_MarkResult p (dl_ID del) StatusFailed retry code now
                (now + backoff (dc_BaseBackoff cfg) (dc_MaxBackoff cfg) retry) st)))))"

definition Deliver :: "'st ports \<Rightarrow> DispatcherConfig \<Rightarrow> (instant \<Rightarrow> int) \<Rightarrow> http_client \<Rightarrow> instant \<Rightarrow> Delivery \<Rightarrow> 'st \<Rightarrow> (string \<times> err option) \<times> 'st" where
  "Deliver p cfg zone client now del st = attempt p cfg zone client now del st"

text \<open>The attempts of a pass; \<open>clock\<close> and \<open>client\<close> are those of the \<open>i\<close>-th due delivery.\<close>

fun attempt_all :: "'st ports \<Rightarrow> DispatcherConfig \<Rightarrow> (instant \<Rightarrow> int) \<Rightarrow> (nat \<Rightarrow> bool) \<Rightarrow> (nat \<Rightarrow> http_client) \<Rightarrow> (nat \<Rightarrow> instant) \<Rightarrow> nat \<Rightarrow> Delivery list \<Rightarrow> 'st \<Rightarrow> 'st" where
  "attempt_all p cfg zone cancelled client clock i [] st = st"
| "attempt_all p cfg zone cancelled client clock i (d # ds) st =
     (if cancelled i then st
      else attempt_all p cfg zone cancelled client clock (Suc i) ds (snd (attempt p cfg zone (client i) (clock i) d st)))"

definition Dispatcher_RunOnce :: "'st ports \<Rightarrow> DispatcherConfig \<Rightarrow> (instant \<Rightarrow> int) \<Rightarrow> (nat \<Rightarrow> bool) \<Rightarrow> (nat \<Rightarrow> http_client) \<Rightarrow> (nat \<Rightarrow> instant) \<Rightarrow> instant \<Rightarrow> 'st \<Rightarrow> 'st" where
  "Dispatcher_RunOnce p cfg zone cancelled client clock now st =
     (case ep_ClaimDue p now (dc_BatchLimit cfg) st of
        Inl er \<Rightarrow> st
      | Inr due \<Rightarrow> attempt_all p cfg zone cancelled client clock 0 due st)"

section \<open>The replay worker\<close>

definition inWindow :: "instant \<Rightarrow> instant \<Rightarrow> instant \<Rightarrow> bool" where
  "inWindow t from to =
     (if \<not> IsZero from \<and> t < from then False
      else if \<not> IsZero to \<and> to < t then False
      else True)"

fun window_batch :: "(nat \<Rightarrow> string) \<Rightarrow> instant \<Rightarrow> ReplayJob \<Rightarrow> Webhook \<Rightarrow> AuditEvent list \<Rightarrow> nat \<Rightarrow> Delivery list" where
  "window_batch newID now job wh [] k = []"
| "window_batch newID now job wh (a # evs) k =
     (if \<not> inWindow (ae_OccurredAt a) (rj_From job) (rj_To job) then window_batch newID now job wh evs k
      else if \<not> Webhook_Matches wh (eventFrom a) then window_batch newID now job wh evs k
      else new_delivery (newID k) (wh_ID wh) (eventFrom a) now # window_batch newID now job wh evs (Suc k))"

text \<open>The pages of one chain; \<open>None\<close> is a loop that never ends.\<close>

partial_function (option) replay_pages ::
  "'st ports \<Rightarrow> int \<Rightarrow> (nat \<Rightarrow> string) \<Rightarrow> instant \<Rightarrow> ReplayJob \<Rightarrow> Webhook \<Rightarrow> string \<Rightarrow> int \<Rightarrow> nat \<Rightarrow> nat \<Rightarrow> 'st \<Rightarrow> ((nat \<times> err option) \<times> nat \<times> 'st) option" where
  [code]: "replay_pages p limit newID now job wh chainID cursor sent k st =
     (case ep_ListEvents p chainID cursor False limit [] st of
        Inl er \<Rightarrow> Some ((sent, Some er), k, st)
      | Inr evs \<Rightarrow>
        if length evs = 0 then Some ((sent, None), k, st)
        else (let batch = window_batch newID now job wh evs k in
          (case (if 0 < length batch then ep_Enqueue p batch st else (Inr (), st)) of
             (Inl er, st') \<Rightarrow> Some ((sent, Some er), k + length batch, st')
           | (Inr _, st') \<Rightarrow>
               if int (length evs) < limit then Some ((sent + length batch, None), k + length batch, st')
               else replay_pages p limit newID now job wh chainID (ae_Seq (last evs)) (sent + length batch) (k + length batch) st')))"

fun replay_chains ::
  "'st ports \<Rightarrow> int \<Rightarrow> (string \<Rightarrow> err option) \<Rightarrow> (nat \<Rightarrow> string) \<Rightarrow> instant \<Rightarrow> ReplayJob \<Rightarrow> Webhook \<Rightarrow> string list \<Rightarrow> nat \<Rightarrow> nat \<Rightarrow> 'st \<Rightarrow> ((nat \<times> err option) \<times> nat \<times> 'st) option" where
  "replay_chains p limit ctxErr newID now job wh [] sent k st = Some ((sent, None), k, st)"
| "replay_chains p limit ctxErr newID now job wh (c # cs) sent k st =
     (case ctxErr c of
        Some er \<Rightarrow> Some ((sent, Some er), k, st)
      | None \<Rightarrow>
     (case replay_pages p limit newID now job wh c 0 sent k st of
        None \<Rightarrow> None
      | Some ((sent', Some er), k', st') \<Rightarrow> Some ((sent', Some er), k', st')
      | Some ((sent', None), k', st') \<Rightarrow> replay_chains p limit ctxErr newID now job wh cs sent' k' st'))"

definition replay_limit :: "int \<Rightarrow> int" where
  "replay_limit limit = (if limit \<le> 0 then 500 else limit)"

definition replayWindow ::
  "'st ports \<Rightarrow> int \<Rightarrow> (string \<Rightarrow> err option) \<Rightarrow> (nat \<Rightarrow> string) \<Rightarrow> instant \<Rightarrow> ReplayJob \<Rightarrow> nat \<Rightarrow> 'st \<Rightarrow> ((nat \<times> err option) \<times> nat \<times> 'st) option" where
  "replayWindow p limit ctxErr newID now job k st =
     (case ep_Get p (rj_WebhookID job) st of
        Inl er \<Rightarrow> Some ((0, Some er), k, st)
      | Inr wh \<Rightarrow>
     (case ep_ListChainIDs p st of
        Inl er \<Rightarrow> Some ((0, Some er), k, st)
      | Inr chainIDs \<Rightarrow> replay_chains p (replay_limit limit) ctxErr newID now job wh chainIDs 0 k st))"

definition replay_run ::
  "'st ports \<Rightarrow> int \<Rightarrow> (string \<Rightarrow> err option) \<Rightarrow> (nat \<Rightarrow> string) \<Rightarrow> instant \<Rightarrow> ReplayJob \<Rightarrow> nat \<Rightarrow> 'st \<Rightarrow> ((int \<times> err option) \<times> nat \<times> 'st) option" where
  "replay_run p limit ctxErr newID now job k st =
     (if 0 < length (rj_DeliveryIDs job) then
        (case ep_Requeue p (rj_DeliveryIDs job) st of
           (Inl er, st') \<Rightarrow> Some ((0, Some er), k, st')
         | (Inr n, st') \<Rightarrow> Some ((n, None), k, st'))
      else map_option (\<lambda>((n, er), k', st'). ((int n, er), k', st')) (replayWindow p limit ctxErr newID now job k st))"

text \<open>\<open>start\<close> and \<open>finish\<close> are the clock before and after the run, \<open>errText\<close> the text of an error.\<close>

definition replay_execute ::
  "'st ports \<Rightarrow> int \<Rightarrow> (string \<Rightarrow> err option) \<Rightarrow> (nat \<Rightarrow> string) \<Rightarrow> (err \<Rightarrow> string) \<Rightarrow> instant \<Rightarrow> instant \<Rightarrow> instant \<Rightarrow> ReplayJob \<Rightarrow> nat \<times> 'st \<Rightarrow> (nat \<times> 'st) option" where
  "replay_execute p limit ctxErr newID errText start now finish job = (\<lambda>(k, st).
     (let running = job\<lparr> rj_Status := JobRunning, rj_UpdatedAt := start \<rparr> in
      case ep_UpdateJob p running st of
        (Inl er, st') \<Rightarrow> Some (k, st')
      | (Inr _, st') \<Rightarrow>
          map_option (\<lambda>((n, er), k', st'').
            (k', snd (ep_UpdateJob p
              (case er of
                 Some e \<Rightarrow> running\<lparr> rj_EventsReplayed := n, rj_UpdatedAt := finish, rj_Status := JobFailed, rj_Error := errText e \<rparr>
               | None \<Rightarrow> running\<lparr> rj_EventsReplayed := n, rj_UpdatedAt := finish, rj_Status := JobCompleted \<rparr>) st'')))
            (replay_run p limit ctxErr newID now running k st')))"

fun replay_jobs ::
  "'st ports \<Rightarrow> int \<Rightarrow> (string \<Rightarrow> err option) \<Rightarrow> (nat \<Rightarrow> string) \<Rightarrow> (err \<Rightarrow> string) \<Rightarrow> (string \<Rightarrow> instant \<times> instant \<times> instant) \<Rightarrow> (string \<Rightarrow> bool) \<Rightarrow> ReplayJob list \<Rightarrow> nat \<times> 'st \<Rightarrow> (nat \<times> 'st) option" where
  "replay_jobs p limit ctxErr newID errText clock cancelled [] s = Some s"
| "replay_jobs p limit ctxErr newID errText clock cancelled (j # js) s =
     (if cancelled (rj_ID j) then Some s
      else case clock (rj_ID j) of (start, now, finish) \<Rightarrow>
        (case replay_execute p limit ctxErr newID errText start now finish j s of
           None \<Rightarrow> None
         | Some s' \<Rightarrow> replay_jobs p limit ctxErr newID errText clock cancelled js s'))"

definition Replay_RunOnce ::
  "'st ports \<Rightarrow> int \<Rightarrow> (string \<Rightarrow> err option) \<Rightarrow> (nat \<Rightarrow> string) \<Rightarrow> (err \<Rightarrow> string) \<Rightarrow> (string \<Rightarrow> instant \<times> instant \<times> instant) \<Rightarrow> (string \<Rightarrow> bool) \<Rightarrow> nat \<times> 'st \<Rightarrow> (nat \<times> 'st) option" where
  "Replay_RunOnce p limit ctxErr newID errText clock cancelled s =
     (case ep_ClaimPendingJobs p 16 (snd s) of
        Inl er \<Rightarrow> Some s
      | Inr pending \<Rightarrow> replay_jobs p limit ctxErr newID errText clock cancelled pending s)"

section \<open>The retention worker\<close>

definition Retention_RunOnce :: "'st ports \<Rightarrow> duration \<Rightarrow> instant \<Rightarrow> 'st \<Rightarrow> 'st" where
  "Retention_RunOnce p maxAge now st =
     (if 0 < maxAge then snd (ep_DeleteOlderThan p (now - maxAge) [StatusDelivered, StatusDeadLetter] st) else st)"

end
