(* ===== verification/EventsApi.thy ===== *)
theory EventsApi
  imports GovernanceApi EventDelivery Wire
begin

text \<open>
  The administration of webhooks over HTTP (\<^verbatim>\<open>internal/httpapi\<close>: handlers_webhooks.go,
  handlers_webhooks_consume.go), with the synthetic delivery that \<^verbatim>\<open>cmd/controlplane/main.go\<close> wires as the tester.
  A port that is not wired is \<open>None\<close>.  The bytes a request draws from the random source are arguments, \<open>None\<close> when
  the source fails; \<open>zone\<close> is the offset in which the process prints a time it has read or taken from the clock.
\<close>

section \<open>Ports\<close>

record 's webhookRegistry =
  wk_Create :: "Webhook \<Rightarrow> 's \<Rightarrow> err option \<times> 's"
  wk_Get :: "string \<Rightarrow> 's \<Rightarrow> err + Webhook"
  wk_List :: "'s \<Rightarrow> err + Webhook list"
  wk_Update :: "Webhook \<Rightarrow> 's \<Rightarrow> err option \<times> 's"
  wk_Delete :: "string \<Rightarrow> 's \<Rightarrow> err option \<times> 's"
  wk_ListByWebhook :: "string \<Rightarrow> int \<Rightarrow> 's \<Rightarrow> err + Delivery list"

record 's DeliveryOps =
  do_GetDelivery :: "string \<Rightarrow> 's \<Rightarrow> err + Delivery option"
  do_Requeue :: "string list \<Rightarrow> 's \<Rightarrow> (err + int) \<times> 's"
  do_RequeueDeadLetters :: "string \<Rightarrow> 's \<Rightarrow> (err + int) \<times> 's"
  do_ListDeadLetters :: "string \<Rightarrow> int \<Rightarrow> 's \<Rightarrow> err + Delivery list"

record 's ReplayJobStore =
  js_CreateJob :: "ReplayJob \<Rightarrow> 's \<Rightarrow> err option \<times> 's"
  js_GetJob :: "string \<Rightarrow> 's \<Rightarrow> err + ReplayJob option"
  js_ListJobs :: "int \<Rightarrow> 's \<Rightarrow> err + ReplayJob list"

type_synonym 's webhook_tester = "Webhook \<Rightarrow> 's \<Rightarrow> (string \<times> err option) \<times> 's"

definition written :: "'st \<Rightarrow> err + 'st \<Rightarrow> err option \<times> 'st" where
  "written st r = (case r of Inl er \<Rightarrow> (Some er, st) | Inr st' \<Rightarrow> (None, st'))"

text \<open>The PostgreSQL store in the three roles; \<open>now\<close> is the server's clock.\<close>

definition pg_registry :: "instant \<Rightarrow> hooks webhookRegistry" where
  "pg_registry now = \<lparr>
     wk_Create = (\<lambda>w h. written h (Webhook_Create now w h)), wk_Get = Webhook_Get, wk_List = (\<lambda>h. Inr (Webhook_List h)),
     wk_Update = (\<lambda>w h. written h (Webhook_Update now w h)), wk_Delete = (\<lambda>i h. written h (Webhook_Delete i h)),
     wk_ListByWebhook = ListByWebhook \<rparr>"

definition pg_deliveries :: "instant \<Rightarrow> hooks DeliveryOps" where
  "pg_deliveries now = \<lparr>
     do_GetDelivery = (\<lambda>i h. Inr (GetDelivery i h)),
     do_Requeue = (\<lambda>ids h. case Requeue now ids h of (n, h') \<Rightarrow> (Inr (int n), h')),
     do_RequeueDeadLetters = (\<lambda>w h. case RequeueDeadLetters now w h of (n, h') \<Rightarrow> (Inr (int n), h')),
     do_ListDeadLetters = ListDeadLetters \<rparr>"

definition pg_jobs :: "pg \<Rightarrow> instant \<Rightarrow> hooks ReplayJobStore" where
  "pg_jobs pg now = \<lparr>
     js_CreateJob = (\<lambda>j h. written h (CreateJob pg now j h)), js_GetJob = (\<lambda>i h. Inr (GetJob i h)), js_ListJobs = ListJobs \<rparr>"

section \<open>Bodies\<close>

record webhookDTO =
  wd_ID :: string
  wd_URL :: string
  wd_Enabled :: bool
  wd_Operations :: "string list"
  wd_Resources :: "string list"
  wd_MaxRetries :: int
  wd_Secret :: string
  wd_CreatedAt :: instant
  wd_UpdatedAt :: instant

definition toWebhookDTO :: "Webhook \<Rightarrow> bool \<Rightarrow> webhookDTO" where
  "toWebhookDTO w revealSecret =
     \<lparr> wd_ID = wh_ID w, wd_URL = wh_URL w, wd_Enabled = wh_Enabled w, wd_Operations = wh_Operations w,
       wd_Resources = wh_Resources w, wd_MaxRetries = wh_MaxRetries w, wd_Secret = (if revealSecret then wh_Secret w else []),
       wd_CreatedAt = wh_CreatedAt w, wd_UpdatedAt = wh_UpdatedAt w \<rparr>"

definition webhookDTO_json :: "(instant \<Rightarrow> int) \<Rightarrow> webhookDTO \<Rightarrow> err + bytes" where
  "webhookDTO_json zone d =
     result_bind (MarshalTime zone (wd_CreatedAt d)) (\<lambda>created.
     result_bind (MarshalTime zone (wd_UpdatedAt d)) (\<lambda>updated.
       Inr (print_struct True
         ([(''id'', json_quote True (wd_ID d)), (''url'', json_quote True (wd_URL d)), (''enabled'', bool_field (wd_Enabled d)),
           (''operations'', array_json (map (json_quote True) (wd_Operations d))),
           (''resources'', array_json (map (json_quote True) (wd_Resources d))), (''max_retries'', FormatInt (wd_MaxRetries d))] @
          omitempty ''secret'' (wd_Secret d) @ [(''created_at'', created), (''updated_at'', updated)]))))"

record createWebhookRequest =
  cw_URL :: string
  cw_Enabled :: "bool option"
  cw_Operations :: "string list option"
  cw_Resources :: "string list option"
  cw_MaxRetries :: int

definition createWebhookRequest_fields :: "createWebhookRequest fields" where
  "createWebhookRequest_fields = [
     (''url'', string_field (\<lambda>x q. q\<lparr> cw_URL := x \<rparr>)),
     (''enabled'', pointer_field flag_field (\<lambda>x q. q\<lparr> cw_Enabled := x \<rparr>)),
     (''operations'', strings_field (\<lambda>x q. q\<lparr> cw_Operations := x \<rparr>)),
     (''resources'', strings_field (\<lambda>x q. q\<lparr> cw_Resources := x \<rparr>)),
     (''max_retries'', int_field (\<lambda>x q. q\<lparr> cw_MaxRetries := x \<rparr>))]"

definition zero_createWebhookRequest :: createWebhookRequest where
  "zero_createWebhookRequest = \<lparr> cw_URL = [], cw_Enabled = None, cw_Operations = None, cw_Resources = None, cw_MaxRetries = 0 \<rparr>"

record patchWebhookRequest =
  pw_URL :: "string option"
  pw_Enabled :: "bool option"
  pw_Operations :: "string list option"
  pw_Resources :: "string list option"
  pw_MaxRetries :: "int option"
  pw_RotateSecret :: bool

definition patchWebhookRequest_fields :: "patchWebhookRequest fields" where
  "patchWebhookRequest_fields = [
     (''url'', pointer_field string_field (\<lambda>x q. q\<lparr> pw_URL := x \<rparr>)),
     (''enabled'', pointer_field flag_field (\<lambda>x q. q\<lparr> pw_Enabled := x \<rparr>)),
     (''operations'', strings_field (\<lambda>x q. q\<lparr> pw_Operations := x \<rparr>)),
     (''resources'', strings_field (\<lambda>x q. q\<lparr> pw_Resources := x \<rparr>)),
     (''max_retries'', pointer_field int_field (\<lambda>x q. q\<lparr> pw_MaxRetries := x \<rparr>)),
     (''rotate_secret'', flag_field (\<lambda>x q. q\<lparr> pw_RotateSecret := x \<rparr>))]"

definition zero_patchWebhookRequest :: patchWebhookRequest where
  "zero_patchWebhookRequest =
     \<lparr> pw_URL = None, pw_Enabled = None, pw_Operations = None, pw_Resources = None, pw_MaxRetries = None, pw_RotateSecret = False \<rparr>"

definition deliveryDTO_json :: "(instant \<Rightarrow> int) \<Rightarrow> Delivery \<Rightarrow> err + bytes" where
  "deliveryDTO_json zone d =
     result_bind (MarshalTime zone (dl_LastAttempt d)) (\<lambda>lastAttempt.
     result_bind (MarshalTime zone (dl_NextAttemptAt d)) (\<lambda>nextAttempt.
       Inr (print_struct True
         [(''id'', json_quote True (dl_ID d)), (''webhook_id'', json_quote True (dl_WebhookID d)),
          (''operation'', json_quote True (ge_Operation (dl_Event d))), (''cfg_id'', json_quote True (ge_CfgID (dl_Event d))),
          (''seq'', FormatInt (ge_Seq (dl_Event d))), (''status'', json_quote True (dl_Status d)),
          (''retry_count'', FormatInt (dl_RetryCount d)), (''last_status_code'', FormatInt (dl_LastStatusCode d)),
          (''last_attempt'', lastAttempt), (''next_attempt_at'', nextAttempt)])))"

text \<open>The body \<^verbatim>\<open>{"items": ...}\<close>.\<close>

definition items_json :: "('a \<Rightarrow> err + bytes) \<Rightarrow> 'a list \<Rightarrow> err + bytes" where
  "items_json f xs = result_bind (result_map f xs) (\<lambda>items. Inr (print_struct True [(''items'', array_json items)]))"

definition status_json :: "string \<Rightarrow> err option \<Rightarrow> bytes" where
  "status_json status terr = print_struct True
     ((case terr of None \<Rightarrow> [] | Some er \<Rightarrow> [(''error'', json_quote True (err_Error er))]) @ [(''status'', json_quote True status)])"

section \<open>Webhook handlers\<close>

definition randHex :: "bytes option \<Rightarrow> string option" where
  "randHex draw = map_option EncodeToString draw"

definition registryUnavailable :: "Request \<Rightarrow> Response" where
  "registryUnavailable r = writeProblem r 500 ''internal error'' ''webhook registry unavailable''"

definition listWebhooks :: "(instant \<Rightarrow> int) \<Rightarrow> 's webhookRegistry option \<Rightarrow> 's handler" where
  "listWebhooks zone webhooks r s = (case webhooks of
       None \<Rightarrow> (Replied (registryUnavailable r), s)
     | Some reg \<Rightarrow>
    (case wk_List reg s of
       Inl er \<Rightarrow> (Replied (mapError r er), s)
     | Inr items \<Rightarrow> (Replied (writeJSON [] 200 (items_json (\<lambda>wh. webhookDTO_json zone (toWebhookDTO wh False)) items)), s)))"

definition new_webhook :: "createWebhookRequest \<Rightarrow> string \<Rightarrow> string \<Rightarrow> Webhook" where
  "new_webhook req i secret =
     \<lparr> wh_ID = ''wh_'' @ i, wh_URL = cw_URL req, wh_Secret = secret,
       wh_Enabled = (case cw_Enabled req of None \<Rightarrow> True | Some b \<Rightarrow> b),
       wh_Operations = (case cw_Operations req of None \<Rightarrow> [] | Some xs \<Rightarrow> xs),
       wh_Resources = (case cw_Resources req of None \<Rightarrow> [] | Some xs \<Rightarrow> xs),
       wh_MaxRetries = (if cw_MaxRetries req \<le> 0 then 5 else cw_MaxRetries req),
       wh_CreatedAt = zero_time, wh_UpdatedAt = zero_time \<rparr>"

definition createWebhook :: "(instant \<Rightarrow> int) \<Rightarrow> bytes option \<Rightarrow> bytes option \<Rightarrow> 's webhookRegistry option \<Rightarrow> 's handler" where
  "createWebhook zone idDraw secretDraw webhooks r s = (case webhooks of
       None \<Rightarrow> (Replied (registryUnavailable r), s)
     | Some reg \<Rightarrow>
    (case decode_body createWebhookRequest_fields zero_createWebhookRequest (rq_Body r) of
       (req, Some er) \<Rightarrow> (Replied (badJSON r), s)
     | (req, None) \<Rightarrow>
         if cw_URL req = [] then (Replied (writeProblem r 400 ''bad request'' ''url is required''), s)
         else (case (randHex idDraw, randHex secretDraw) of
             (Some i, Some secret) \<Rightarrow>
              (case wk_Create reg (new_webhook req i secret) s of
                 (Some er, s1) \<Rightarrow> (Replied (mapError r er), s1)
               | (None, s1) \<Rightarrow>
              (case wk_Get reg (''wh_'' @ i) s1 of
                 Inl er \<Rightarrow> (Replied (mapError r er), s1)
               | Inr created \<Rightarrow> (Replied (writeJSON [] 201 (webhookDTO_json zone (toWebhookDTO created True))), s1)))
           | _ \<Rightarrow> (HandlerPanic [], s))))"

definition patched :: "'a option \<Rightarrow> 'a \<Rightarrow> 'a" where
  "patched new old = (case new of None \<Rightarrow> old | Some x \<Rightarrow> x)"

definition patched_webhook :: "patchWebhookRequest \<Rightarrow> Webhook \<Rightarrow> Webhook" where
  "patched_webhook req cur = cur\<lparr>
     wh_URL := patched (pw_URL req) (wh_URL cur), wh_Enabled := patched (pw_Enabled req) (wh_Enabled cur),
     wh_Operations := patched (pw_Operations req) (wh_Operations cur), wh_Resources := patched (pw_Resources req) (wh_Resources cur),
     wh_MaxRetries := (case pw_MaxRetries req of None \<Rightarrow> wh_MaxRetries cur | Some n \<Rightarrow> if 0 < n then n else wh_MaxRetries cur) \<rparr>"

definition patchWebhook :: "(instant \<Rightarrow> int) \<Rightarrow> bytes option \<Rightarrow> 's webhookRegistry option \<Rightarrow> 's handler" where
  "patchWebhook zone secretDraw webhooks r s = (case webhooks of
       None \<Rightarrow> (Replied (registryUnavailable r), s)
     | Some reg \<Rightarrow>
    (case wk_Get reg (URLParam r ''id'') s of
       Inl er \<Rightarrow> (Replied (mapError r er), s)
     | Inr cur \<Rightarrow>
    (case decode_body patchWebhookRequest_fields zero_patchWebhookRequest (rq_Body r) of
       (req, Some er) \<Rightarrow> (Replied (badJSON r), s)
     | (req, None) \<Rightarrow>
         let cur1 = patched_webhook req cur; rotated = pw_RotateSecret req in
         case (if rotated then map_option (\<lambda>secret. cur1\<lparr> wh_Secret := secret \<rparr>) (randHex secretDraw) else Some cur1) of
           None \<Rightarrow> (HandlerPanic [], s)
         | Some cur2 \<Rightarrow>
        (case wk_Update reg cur2 s of
           (Some er, s1) \<Rightarrow> (Replied (mapError r er), s1)
         | (None, s1) \<Rightarrow> (Replied (writeJSON [] 200 (webhookDTO_json zone (toWebhookDTO cur2 rotated))), s1)))))"

definition deleteWebhook :: "'s webhookRegistry option \<Rightarrow> 's handler" where
  "deleteWebhook webhooks r s = (case webhooks of
       None \<Rightarrow> (Replied (registryUnavailable r), s)
     | Some reg \<Rightarrow>
    (case wk_Delete reg (URLParam r ''id'') s of
       (Some er, s1) \<Rightarrow> (Replied (mapError r er), s1)
     | (None, s1) \<Rightarrow> (Replied noContent, s1)))"

definition testWebhook :: "'s webhookRegistry option \<Rightarrow> 's webhook_tester option \<Rightarrow> 's handler" where
  "testWebhook webhooks webhookTester r s = (case webhooks of
       None \<Rightarrow> (Replied (registryUnavailable r), s)
     | Some reg \<Rightarrow>
    (case webhookTester of
       None \<Rightarrow> (Replied (writeProblem r 500 ''internal error'' ''delivery unavailable''), s)
     | Some tester \<Rightarrow>
    (case wk_Get reg (URLParam r ''id'') s of
       Inl er \<Rightarrow> (Replied (mapError r er), s)
     | Inr wh \<Rightarrow>
    (case tester wh s of
       ((status, terr), s1) \<Rightarrow> (Replied (writeJSON [] 200 (Inr (status_json status terr))), s1)))))"

definition listWebhookDeliveries :: "Config \<Rightarrow> (instant \<Rightarrow> int) \<Rightarrow> 's webhookRegistry option \<Rightarrow> 's handler" where
  "listWebhookDeliveries cfg zone webhooks r s = (case webhooks of
       None \<Rightarrow> (Replied (registryUnavailable r), s)
     | Some reg \<Rightarrow>
    (case wk_Get reg (URLParam r ''id'') s of
       Inl er \<Rightarrow> (Replied (mapError r er), s)
     | Inr wh \<Rightarrow>
    (case wk_ListByWebhook reg (URLParam r ''id'') (pageLimit cfg r) s of
       Inl er \<Rightarrow> (Replied (mapError r er), s)
     | Inr ds \<Rightarrow> (Replied (writeJSON [] 200 (items_json (deliveryDTO_json zone) ds)), s))))"

text \<open>The tester the process wires: one attempt of the dispatcher on a synthetic delivery; \<open>sentAt\<close> and \<open>now\<close> are
  the clock when the event is made and when the attempt starts.\<close>

definition test_delivery :: "instant \<Rightarrow> Webhook \<Rightarrow> Delivery" where
  "test_delivery sentAt wh =
     \<lparr> dl_ID = ''test_'' @ wh_ID wh, dl_WebhookID = wh_ID wh,
       dl_Event = \<lparr> ge_ChainID = wh_ID wh, ge_Seq = 0, ge_EventID = [], ge_OperationID = [], ge_Operation = ''test'', ge_Actor = [],
                    ge_CfgID = wh_ID wh, ge_OccurredAt = sentAt \<rparr>,
       dl_Status = StatusPending, dl_RetryCount = 0, dl_LastStatusCode = 0, dl_LastAttempt = zero_time,
       dl_NextAttemptAt = zero_time, dl_CreatedAt = zero_time \<rparr>"

definition dispatcher_tester ::
    "'st ports \<Rightarrow> (instant \<Rightarrow> int) \<Rightarrow> http_client \<Rightarrow> instant \<Rightarrow> instant \<Rightarrow> 'st webhook_tester" where
  "dispatcher_tester p zone client sentAt now wh st =
     Deliver p (withDefaults \<lparr> dc_BatchLimit = 0, dc_BaseBackoff = 0, dc_MaxBackoff = 0 \<rparr>) zone client now (test_delivery sentAt wh) st"

section \<open>Consumption and replay handlers\<close>

text \<open>The times of a replay request keep the offset they were written with.\<close>

record replayRequest =
  rp_From :: "(instant \<times> int) option"
  rp_To :: "(instant \<times> int) option"
  rp_DeliveryIDs :: "string list option"

definition replayRequest_fields :: "replayRequest raw_fields" where
  "replayRequest_fields = [
     (''from'', raw_pointer_field (\<lambda>_. time_text) (zero_time, 0) rp_From (\<lambda>x q. q\<lparr> rp_From := x \<rparr>)),
     (''to'', raw_pointer_field (\<lambda>_. time_text) (zero_time, 0) rp_To (\<lambda>x q. q\<lparr> rp_To := x \<rparr>)),
     (''delivery_ids'', value_field (strings_field (\<lambda>x q. q\<lparr> rp_DeliveryIDs := x \<rparr>)))]"

definition zero_replayRequest :: replayRequest where
  "zero_replayRequest = \<lparr> rp_From = None, rp_To = None, rp_DeliveryIDs = None \<rparr>"

text \<open>\<open>fromZone\<close> and \<open>toZone\<close> are the offsets in which the two bounds of the job are printed.\<close>

definition replayJobDTO_json :: "(instant \<Rightarrow> int) \<Rightarrow> (instant \<Rightarrow> int) \<Rightarrow> (instant \<Rightarrow> int) \<Rightarrow> ReplayJob \<Rightarrow> err + bytes" where
  "replayJobDTO_json fromZone toZone zone j =
     result_bind (MarshalTime fromZone (rj_From j)) (\<lambda>from.
     result_bind (MarshalTime toZone (rj_To j)) (\<lambda>to.
     result_bind (MarshalTime zone (rj_CreatedAt j)) (\<lambda>created.
     result_bind (MarshalTime zone (rj_UpdatedAt j)) (\<lambda>updated.
       Inr (print_struct True
         ([(''id'', json_quote True (rj_ID j)), (''webhook_id'', json_quote True (rj_WebhookID j)), (''from'', from), (''to'', to)] @
          (if rj_DeliveryIDs j = [] then [] else [(''delivery_ids'', array_json (map (json_quote True) (rj_DeliveryIDs j)))]) @
          [(''status'', json_quote True (rj_Status j)), (''events_replayed'', FormatInt (rj_EventsReplayed j))] @
          omitempty ''error'' (rj_Error j) @ [(''created_at'', created), (''updated_at'', updated)]))))))"

definition deliveryDetailDTO_json :: "(instant \<Rightarrow> int) \<Rightarrow> Delivery \<Rightarrow> smap \<Rightarrow> bytes \<Rightarrow> err + bytes" where
  "deliveryDetailDTO_json zone d headers payload =
     result_bind (MarshalTime zone (dl_LastAttempt d)) (\<lambda>lastAttempt.
     result_bind (MarshalTime zone (dl_NextAttemptAt d)) (\<lambda>nextAttempt.
     result_bind (raw_json payload) (\<lambda>body.
       Inr (print_struct True
         [(''id'', json_quote True (dl_ID d)), (''webhook_id'', json_quote True (dl_WebhookID d)),
          (''operation'', json_quote True (ge_Operation (dl_Event d))), (''cfg_id'', json_quote True (ge_CfgID (dl_Event d))),
          (''seq'', FormatInt (ge_Seq (dl_Event d))), (''status'', json_quote True (dl_Status d)),
          (''attempts'', FormatInt (dl_RetryCount d)), (''last_status_code'', FormatInt (dl_LastStatusCode d)),
          (''last_attempt'', lastAttempt), (''next_attempt_at'', nextAttempt), (''headers'', smap_json headers), (''payload'', body)]))))"

text \<open>The three stores the consumption endpoints need, wired or not.\<close>

type_synonym 's consume_wiring = "'s webhookRegistry option \<times> 's DeliveryOps option \<times> 's ReplayJobStore option"

definition consumeUnavailable :: "Request \<Rightarrow> Response" where
  "consumeUnavailable r = writeProblem r 500 ''internal error'' ''event consumption unavailable''"

definition noSuchDelivery :: "Request \<Rightarrow> Response" where
  "noSuchDelivery r = writeProblem r 404 ''not found'' ''no such delivery for this webhook''"

definition replay_job :: "string \<Rightarrow> string \<Rightarrow> replayRequest \<Rightarrow> ReplayJob" where
  "replay_job jobID whID req =
     \<lparr> rj_ID = jobID, rj_WebhookID = whID,
       rj_From = (case rp_From req of None \<Rightarrow> zero_time | Some (t, off) \<Rightarrow> t), rj_To = (case rp_To req of None \<Rightarrow> zero_time | Some (t, off) \<Rightarrow> t),
       rj_DeliveryIDs = (case rp_DeliveryIDs req of None \<Rightarrow> [] | Some ids \<Rightarrow> ids), rj_Status = JobPending,
       rj_EventsReplayed = 0, rj_Error = [], rj_CreatedAt = zero_time, rj_UpdatedAt = zero_time \<rparr>"

definition written_offset :: "(instant \<times> int) option \<Rightarrow> instant \<Rightarrow> int" where
  "written_offset x t = (case x of None \<Rightarrow> 0 | Some (_, off) \<Rightarrow> off)"

text \<open>\<open>jobID\<close> is what \<^verbatim>\<open>events.NewReplayJobID\<close> draws; the zero times of a new job are printed in UTC.\<close>

definition replayWebhook :: "string \<Rightarrow> 's consume_wiring \<Rightarrow> 's handler" where
  "replayWebhook jobID wiring r s = (case wiring of
       (Some reg, Some ops, Some jobs) \<Rightarrow>
        (case wk_Get reg (URLParam r ''id'') s of
           Inl er \<Rightarrow> (Replied (mapError r er), s)
         | Inr wh \<Rightarrow>
        (case decode_raw_body replayRequest_fields zero_replayRequest (rq_Body r) of
           (req, Some BadJSON) \<Rightarrow> (Replied (badJSON r), s)
         | (req, _) \<Rightarrow>
             let job = replay_job jobID (URLParam r ''id'') req in
             case js_CreateJob jobs job s of
               (Some er, s1) \<Rightarrow> (Replied (mapError r er), s1)
             | (None, s1) \<Rightarrow> (Replied (writeJSON [] 202
                 (replayJobDTO_json (written_offset (rp_From req)) (written_offset (rp_To req)) (\<lambda>_. 0) job)), s1)))
     | _ \<Rightarrow> (Replied (consumeUnavailable r), s))"

text \<open>\<open>now\<close> is the clock of the request; \<open>getDelivery\<close> shows the delivery as an attempt at this moment would send it.\<close>

definition getDelivery :: "(instant \<Rightarrow> int) \<Rightarrow> instant \<Rightarrow> 's consume_wiring \<Rightarrow> 's handler" where
  "getDelivery zone now wiring r s = (case wiring of
       (Some reg, Some ops, Some jobs) \<Rightarrow>
        (case wk_Get reg (URLParam r ''id'') s of
           Inl er \<Rightarrow> (Replied (mapError r er), s)
         | Inr wh \<Rightarrow>
        (case do_GetDelivery ops (URLParam r ''deliveryID'') s of
           Inl er \<Rightarrow> (Replied (mapError r er), s)
         | Inr None \<Rightarrow> (Replied (noSuchDelivery r), s)
         | Inr (Some d) \<Rightarrow>
             if dl_WebhookID d \<noteq> URLParam r ''id'' then (Replied (noSuchDelivery r), s)
             else (case DeliveryView zone d (wh_Secret wh) now of
                 Inl er \<Rightarrow> (Replied (writeProblem r 500 ''internal error'' ''could not render delivery''), s)
               | Inr (payload, headers) \<Rightarrow> (Replied (writeJSON [] 200 (deliveryDetailDTO_json zone d headers payload)), s))))
     | _ \<Rightarrow> (Replied (consumeUnavailable r), s))"

definition requeued_json :: "int \<Rightarrow> bytes" where
  "requeued_json n = print_struct True [(''requeued'', FormatInt n)]"

definition retryDelivery :: "'s consume_wiring \<Rightarrow> 's handler" where
  "retryDelivery wiring r s = (case wiring of
       (Some reg, Some ops, Some jobs) \<Rightarrow>
        (case do_GetDelivery ops (URLParam r ''deliveryID'') s of
           Inl er \<Rightarrow> (Replied (mapError r er), s)
         | Inr None \<Rightarrow> (Replied (noSuchDelivery r), s)
         | Inr (Some d) \<Rightarrow>
             if dl_WebhookID d \<noteq> URLParam r ''id'' then (Replied (noSuchDelivery r), s)
             else (case do_Requeue ops [URLParam r ''deliveryID''] s of
                 (Inl er, s1) \<Rightarrow> (Replied (mapError r er), s1)
               | (Inr n, s1) \<Rightarrow> (Replied (writeJSON [] 200 (Inr (requeued_json n))), s1)))
     | _ \<Rightarrow> (Replied (consumeUnavailable r), s))"

definition listDeadLetters :: "Config \<Rightarrow> (instant \<Rightarrow> int) \<Rightarrow> 's consume_wiring \<Rightarrow> 's handler" where
  "listDeadLetters cfg zone wiring r s = (case wiring of
       (Some reg, Some ops, Some jobs) \<Rightarrow>
        (case do_ListDeadLetters ops (Query_Get r ''webhook_id'') (pageLimit cfg r) s of
           Inl er \<Rightarrow> (Replied (mapError r er), s)
         | Inr ds \<Rightarrow> (Replied (writeJSON [] 200 (items_json (deliveryDTO_json zone) ds)), s))
     | _ \<Rightarrow> (Replied (consumeUnavailable r), s))"

text \<open>The error of the decoder is dropped, so a body it refuses leaves the webhook id empty.\<close>

definition retryDeadLetters :: "'s consume_wiring \<Rightarrow> 's handler" where
  "retryDeadLetters wiring r s = (case wiring of
       (Some reg, Some ops, Some jobs) \<Rightarrow>
        (case do_RequeueDeadLetters ops (fst (decode_body [(''webhook_id'', string_field (\<lambda>x q. x))] [] (rq_Body r))) s of
           (Inl er, s1) \<Rightarrow> (Replied (mapError r er), s1)
         | (Inr n, s1) \<Rightarrow> (Replied (writeJSON [] 200 (Inr (requeued_json n))), s1))
     | _ \<Rightarrow> (Replied (consumeUnavailable r), s))"

definition listReplayJobs :: "Config \<Rightarrow> (instant \<Rightarrow> int) \<Rightarrow> 's consume_wiring \<Rightarrow> 's handler" where
  "listReplayJobs cfg zone wiring r s = (case wiring of
       (Some reg, Some ops, Some jobs) \<Rightarrow>
        (case js_ListJobs jobs (pageLimit cfg r) s of
           Inl er \<Rightarrow> (Replied (mapError r er), s)
         | Inr js \<Rightarrow> (Replied (writeJSON [] 200 (items_json (replayJobDTO_json zone zone zone) js)), s))
     | _ \<Rightarrow> (Replied (consumeUnavailable r), s))"

definition getReplayJob :: "(instant \<Rightarrow> int) \<Rightarrow> 's consume_wiring \<Rightarrow> 's handler" where
  "getReplayJob zone wiring r s = (case wiring of
       (Some reg, Some ops, Some jobs) \<Rightarrow>
        (case js_GetJob jobs (URLParam r ''jobID'') s of
           Inl er \<Rightarrow> (Replied (mapError r er), s)
         | Inr None \<Rightarrow> (Replied (writeProblem r 404 ''not found'' ''no such replay job''), s)
         | Inr (Some j) \<Rightarrow> (Replied (writeJSON [] 200 (replayJobDTO_json zone zone zone j)), s))
     | _ \<Rightarrow> (Replied (consumeUnavailable r), s))"

section \<open>The administration endpoints together\<close>

text \<open>
  The calls of the administration surface, each with what it draws from outside.  The two that use a secret on
  purpose, the view of a signed delivery and the test delivery, are not among them.
\<close>

datatype webhook_call =
    ListCall | CreateCall "bytes option" "bytes option" | PatchCall "bytes option" | DeleteCall | DeliveriesCall
  | DeadLettersCall | RetryDeadLettersCall | ReplayJobsCall | ReplayJobCall | ReplayCall string | RetryDeliveryCall

definition pg_consume :: "pg \<Rightarrow> instant \<Rightarrow> hooks consume_wiring" where
  "pg_consume pg now = (Some (pg_registry now), Some (pg_deliveries now), Some (pg_jobs pg now))"

fun serve_call :: "Config \<Rightarrow> (instant \<Rightarrow> int) \<Rightarrow> pg \<Rightarrow> instant \<Rightarrow> webhook_call \<Rightarrow> hooks handler" where
  "serve_call cfg zone pg now ListCall = listWebhooks zone (Some (pg_registry now))"
| "serve_call cfg zone pg now (CreateCall idDraw secretDraw) = createWebhook zone idDraw secretDraw (Some (pg_registry now))"
| "serve_call cfg zone pg now (PatchCall secretDraw) = patchWebhook zone secretDraw (Some (pg_registry now))"
| "serve_call cfg zone pg now DeleteCall = deleteWebhook (Some (pg_registry now))"
| "serve_call cfg zone pg now DeliveriesCall = listWebhookDeliveries cfg zone (Some (pg_registry now))"
| "serve_call cfg zone pg now DeadLettersCall = listDeadLetters cfg zone (pg_consume pg now)"
| "serve_call cfg zone pg now RetryDeadLettersCall = retryDeadLetters (pg_consume pg now)"
| "serve_call cfg zone pg now ReplayJobsCall = listReplayJobs cfg zone (pg_consume pg now)"
| "serve_call cfg zone pg now ReplayJobCall = getReplayJob zone (pg_consume pg now)"
| "serve_call cfg zone pg now (ReplayCall jobID) = replayWebhook jobID (pg_consume pg now)"
| "serve_call cfg zone pg now RetryDeliveryCall = retryDelivery (pg_consume pg now)"

fun serve_calls :: "Config \<Rightarrow> (instant \<Rightarrow> int) \<Rightarrow> pg \<Rightarrow> (instant \<times> webhook_call \<times> Request) list \<Rightarrow> hooks \<Rightarrow> reply list" where
  "serve_calls cfg zone pg [] h = []"
| "serve_calls cfg zone pg ((now, c, r) # cs) h =
     (case serve_call cfg zone pg now c r h of (p, h') \<Rightarrow> p # serve_calls cfg zone pg cs h')"

section \<open>Secrets\<close>

definition hide :: "Webhook \<Rightarrow> Webhook" where
  "hide w = w\<lparr> wh_Secret := [] \<rparr>"

definition redacted :: "hooks \<Rightarrow> hooks" where
  "redacted h = h\<lparr> t_webhook := map hide (t_webhook h) \<rparr>"

named_theorems hidden \<open>what the operations see of a state without its secrets\<close>

lemma hide_simps [hidden]:
  "wh_ID (hide w) = wh_ID w" "wh_URL (hide w) = wh_URL w" "wh_Enabled (hide w) = wh_Enabled w"
  "wh_Operations (hide w) = wh_Operations w" "wh_Resources (hide w) = wh_Resources w"
  "wh_MaxRetries (hide w) = wh_MaxRetries w" "wh_CreatedAt (hide w) = wh_CreatedAt w"
  "toWebhookDTO (hide w) False = toWebhookDTO w False"
  by (simp_all add: hide_def toWebhookDTO_def)

lemma ids_hidden [hidden]: "wh_ID ` set (map hide ws) = wh_ID ` set ws"
  by (simp add: image_image hide_simps)

lemma Webhook_Get_hidden: "Webhook_Get i (redacted h) = map_sum id hide (Webhook_Get i h)"
proof -
  have "find (\<lambda>w. wh_ID w = i) (map hide ws) = map_option hide (find (\<lambda>w. wh_ID w = i) ws)" for ws
    by (induction ws) (simp_all add: hide_simps)
  then show ?thesis
    by (simp add: Webhook_Get_def redacted_def split: option.split)
qed

lemma Webhook_List_hidden: "Webhook_List (redacted h) = map hide (Webhook_List h)"
proof -
  have "sort_key wh_CreatedAt (map hide ws) = map hide (sort_key wh_CreatedAt ws)" for ws
  proof (induction ws)
    case (Cons w ws)
    have "insort_key wh_CreatedAt (hide w) (map hide vs) = map hide (insort_key wh_CreatedAt w vs)" for vs
      by (induction vs) (simp_all add: hide_simps)
    with Cons show ?case by simp
  qed simp
  then show ?thesis
    by (simp add: Webhook_List_def redacted_def)
qed

lemma Webhook_Create_hidden: "map_sum id redacted (Webhook_Create now w h) = Webhook_Create now (hide w) (redacted h)"
  by (simp add: Webhook_Create_def redacted_def hide_def image_image)

lemma Webhook_Update_hidden: "map_sum id redacted (Webhook_Update now w h) = Webhook_Update now (hide w) (redacted h)"
  by (simp add: Webhook_Update_def redacted_def hide_def image_image)

lemma Webhook_Delete_hidden: "map_sum id redacted (Webhook_Delete i h) = Webhook_Delete i (redacted h)"
  by (simp add: Webhook_Delete_def redacted_def hide_def image_image filter_map o_def)

definition alike :: "reply \<times> hooks \<Rightarrow> reply \<times> hooks \<Rightarrow> bool" where
  "alike x y \<longleftrightarrow> fst x = fst y \<and> redacted (snd x) = redacted (snd y)"

lemma alikeI [intro]: "redacted h = redacted h' \<Longrightarrow> alike (p, h) (p, h')"
  by (simp add: alike_def)

lemma redacted_tables:
  assumes "redacted h = redacted h'"
  shows "t_webhook_delivery h = t_webhook_delivery h'" "t_webhook_replay_job h = t_webhook_replay_job h'"
  using arg_cong [OF assms, of t_webhook_delivery] arg_cong [OF assms, of t_webhook_replay_job]
  by (simp_all add: redacted_def)

lemma redacted_delivery_update:
  "redacted (h\<lparr> t_webhook_delivery := ds \<rparr>) = (redacted h)\<lparr> t_webhook_delivery := ds \<rparr>"
  by (simp add: redacted_def)

lemma Get_cases:
  assumes "redacted h = redacted h'"
  obtains er where "Webhook_Get i h = Inl er" "Webhook_Get i h' = Inl er"
  | w w' where "Webhook_Get i h = Inr w" "Webhook_Get i h' = Inr w'" "hide w = hide w'"
proof -
  have "map_sum id hide (Webhook_Get i h) = map_sum id hide (Webhook_Get i h')"
    using Webhook_Get_hidden [of i h] Webhook_Get_hidden [of i h'] assms by simp
  then show thesis
    using that by (cases "Webhook_Get i h"; cases "Webhook_Get i h'") auto
qed

lemma write_cases:
  assumes "redacted h = redacted h'" "map_sum id redacted x = map_sum id redacted x'"
  obtains er where "written h x = (Some er, h)" "written h' x' = (Some er, h')"
  | k k' where "written h x = (None, k)" "written h' x' = (None, k')" "x = Inr k" "x' = Inr k'" "redacted k = redacted k'"
  using assms by (cases x; cases x') (auto simp: written_def)

lemma items_json_hidden:
  "items_json (\<lambda>w. webhookDTO_json zone (toWebhookDTO w False)) (map hide ws) =
    items_json (\<lambda>w. webhookDTO_json zone (toWebhookDTO w False)) ws"
proof -
  have "result_map f (map g xs) = result_map (f \<circ> g) xs" for f :: "Webhook \<Rightarrow> err + bytes" and g :: "Webhook \<Rightarrow> Webhook" and xs
    by (induction xs) simp_all
  then show ?thesis
    by (simp add: items_json_def hide_simps comp_def)
qed

lemma alike_list:
  assumes "redacted h = redacted h'"
  shows "alike (listWebhooks zone (Some (pg_registry now)) r h) (listWebhooks zone (Some (pg_registry now)) r h')"
proof -
  have "map hide (Webhook_List h) = map hide (Webhook_List h')"
    using Webhook_List_hidden [of h] Webhook_List_hidden [of h'] assms by simp
  with items_json_hidden [of zone "Webhook_List h"] items_json_hidden [of zone "Webhook_List h'"] assms show ?thesis
    by (simp add: alike_def listWebhooks_def pg_registry_def)
qed

lemma created_webhook:
  assumes "Webhook_Create now w h = Inr k"
  shows "Webhook_Get (wh_ID w) k = Inr (w\<lparr> wh_CreatedAt := now, wh_UpdatedAt := now \<rparr>)"
proof -
  have fresh: "wh_ID w \<notin> wh_ID ` set (t_webhook h)"
    and k: "k = h\<lparr> t_webhook := t_webhook h @ [w\<lparr> wh_CreatedAt := now, wh_UpdatedAt := now \<rparr>] \<rparr>"
    using assms by (auto simp: Webhook_Create_def split: if_splits)
  have "find (\<lambda>v. wh_ID v = wh_ID w) (ws @ [v]) = Some v" if "wh_ID w \<notin> wh_ID ` set ws" "wh_ID v = wh_ID w" for ws v
    using that by (induction ws) auto
  from this [OF fresh, of "w\<lparr> wh_CreatedAt := now, wh_UpdatedAt := now \<rparr>"] show ?thesis
    by (simp add: k Webhook_Get_def)
qed

lemma alike_create:
  assumes "redacted h = redacted h'"
  shows "alike (createWebhook zone i s (Some (pg_registry now)) r h) (createWebhook zone i s (Some (pg_registry now)) r h')"
proof -
  obtain req er where d: "decode_body createWebhookRequest_fields zero_createWebhookRequest (rq_Body r) = (req, er)"
    by fastforce
  show ?thesis
  proof (cases "er = None \<and> cw_URL req \<noteq> [] \<and> i \<noteq> None \<and> s \<noteq> None")
    case False
    then show ?thesis
      using assms by (auto simp: alike_def createWebhook_def pg_registry_def d randHex_def split: option.splits)
  next
    case True
    then obtain a b where ab: "randHex i = Some a" "randHex s = Some b"
      by (auto simp: randHex_def)
    let ?w = "new_webhook req a b"
    have "map_sum id redacted (Webhook_Create now ?w h) = map_sum id redacted (Webhook_Create now ?w h')"
      using Webhook_Create_hidden [of now ?w h] Webhook_Create_hidden [of now ?w h'] assms by simp
    with assms show ?thesis
    proof (cases rule: write_cases)
      case (1 er)
      with True assms show ?thesis
        by (auto simp: createWebhook_def pg_registry_def d ab)
    next
      case (2 k k')
      have "wh_ID ?w = ''wh_'' @ a"
        by (simp add: new_webhook_def)
      with 2 True show ?thesis
        using created_webhook [of now ?w h k] created_webhook [of now ?w h' k']
        by (auto simp: createWebhook_def pg_registry_def d ab)
    qed
  qed
qed

lemma hide_eqD: "hide w = hide w' \<Longrightarrow> w' = w\<lparr> wh_Secret := wh_Secret w' \<rparr>"
  by (cases w; cases w') (simp add: hide_def)

lemma hide_patched: "hide w = hide w' \<Longrightarrow> hide (patched_webhook req w) = hide (patched_webhook req w')"
  by (cases w; cases w') (simp add: hide_def patched_webhook_def split: option.split)

lemma alike_update:
  assumes "redacted h = redacted h'" "hide w = hide w'" "toWebhookDTO w b = toWebhookDTO w' b"
  shows "alike (case written h (Webhook_Update now w h) of
        (Some er, s1) \<Rightarrow> (Replied (mapError r er), s1)
      | (None, s1) \<Rightarrow> (Replied (writeJSON [] 200 (webhookDTO_json zone (toWebhookDTO w b))), s1))
    (case written h' (Webhook_Update now w' h') of
        (Some er, s1) \<Rightarrow> (Replied (mapError r er), s1)
      | (None, s1) \<Rightarrow> (Replied (writeJSON [] 200 (webhookDTO_json zone (toWebhookDTO w' b))), s1))"
proof -
  have "map_sum id redacted (Webhook_Update now w h) = map_sum id redacted (Webhook_Update now w' h')"
    using Webhook_Update_hidden [of now w h] Webhook_Update_hidden [of now w' h'] assms by simp
  with assms(1) show ?thesis
    by (cases rule: write_cases) (use assms in auto)
qed

lemma alike_patch:
  assumes "redacted h = redacted h'"
  shows "alike (patchWebhook zone s (Some (pg_registry now)) r h) (patchWebhook zone s (Some (pg_registry now)) r h')"
proof -
  obtain req er where d: "decode_body patchWebhookRequest_fields zero_patchWebhookRequest (rq_Body r) = (req, er)"
    by fastforce
  from assms show ?thesis
  proof (cases rule: Get_cases [where i = "URLParam r ''id''"])
    case (1 er)
    with assms show ?thesis
      by (auto simp: patchWebhook_def pg_registry_def)
  next
    case (2 w w')
    let ?c = "patched_webhook req w" and ?c' = "patched_webhook req w'"
    have c: "hide ?c = hide ?c'" "toWebhookDTO ?c False = toWebhookDTO ?c' False"
      using hide_patched [OF 2(3), of req] hide_simps(8) [of ?c] hide_simps(8) [of ?c'] by auto
    have rot: "?c\<lparr> wh_Secret := x \<rparr> = ?c'\<lparr> wh_Secret := x \<rparr>" for x
      using hide_eqD [OF c(1)] by (metis Webhook.update_convs(3) Webhook.surjective)
    consider "er \<noteq> None" | "er = None" "pw_RotateSecret req" "randHex s = None"
      | x where "er = None" "pw_RotateSecret req" "randHex s = Some x" | "er = None" "\<not> pw_RotateSecret req"
      by fastforce
    then show ?thesis
    proof cases
      case 3
      show ?thesis
        using alike_update [OF assms refl refl, where w = "?c'\<lparr> wh_Secret := x \<rparr>" and b = "pw_RotateSecret req"] 2 3
        by (simp add: patchWebhook_def pg_registry_def d Let_def rot)
    next
      case 4
      show ?thesis
        using alike_update [OF assms c(1), where b = "pw_RotateSecret req"] c(2) 2 4 by (simp add: patchWebhook_def pg_registry_def d Let_def)
    qed (use assms 2 in \<open>auto simp: patchWebhook_def pg_registry_def d Let_def split: option.splits\<close>)
  qed
qed

lemma alike_delete:
  assumes "redacted h = redacted h'"
  shows "alike (deleteWebhook (Some (pg_registry now)) r h) (deleteWebhook (Some (pg_registry now)) r h')"
proof -
  have "map_sum id redacted (Webhook_Delete i h) = map_sum id redacted (Webhook_Delete i h')" for i
    using Webhook_Delete_hidden [of i h] Webhook_Delete_hidden [of i h'] assms by simp
  from assms this [of "URLParam r ''id''"] show ?thesis
    by (cases rule: write_cases)
      (use assms in \<open>auto simp: deleteWebhook_def pg_registry_def\<close>)
qed

lemma alike_deliveries:
  assumes "redacted h = redacted h'"
  shows "alike (listWebhookDeliveries cfg zone (Some (pg_registry now)) r h) (listWebhookDeliveries cfg zone (Some (pg_registry now)) r h')"
proof -
  have "ListByWebhook w l h = ListByWebhook w l h'" for w l
    by (simp add: ListByWebhook_def redacted_tables [OF assms])
  with assms show ?thesis
    by (cases rule: Get_cases [where i = "URLParam r ''id''"])
      (use assms in \<open>auto simp: listWebhookDeliveries_def pg_registry_def split: sum.split\<close>)
qed

lemma alike_consume:
  assumes "redacted h = redacted h'"
  shows "alike (listDeadLetters cfg zone (pg_consume pg now) r h) (listDeadLetters cfg zone (pg_consume pg now) r h')"
    "alike (listReplayJobs cfg zone (pg_consume pg now) r h) (listReplayJobs cfg zone (pg_consume pg now) r h')"
    "alike (getReplayJob zone (pg_consume pg now) r h) (getReplayJob zone (pg_consume pg now) r h')"
    "alike (retryDeadLetters (pg_consume pg now) r h) (retryDeadLetters (pg_consume pg now) r h')"
    "alike (retryDelivery (pg_consume pg now) r h) (retryDelivery (pg_consume pg now) r h')"
proof -
  note t = redacted_tables [OF assms]
  show "alike (listDeadLetters cfg zone (pg_consume pg now) r h) (listDeadLetters cfg zone (pg_consume pg now) r h')"
    using assms by (auto simp: listDeadLetters_def pg_consume_def pg_deliveries_def ListDeadLetters_def t)
  show "alike (listReplayJobs cfg zone (pg_consume pg now) r h) (listReplayJobs cfg zone (pg_consume pg now) r h')"
    using assms by (auto simp: listReplayJobs_def pg_consume_def pg_jobs_def ListJobs_def t)
  show "alike (getReplayJob zone (pg_consume pg now) r h) (getReplayJob zone (pg_consume pg now) r h')"
    using assms by (auto simp: getReplayJob_def pg_consume_def pg_jobs_def GetJob_def t split: option.split)
  show "alike (retryDeadLetters (pg_consume pg now) r h) (retryDeadLetters (pg_consume pg now) r h')"
    using assms by (auto simp: retryDeadLetters_def pg_consume_def pg_deliveries_def RequeueDeadLetters_def t redacted_delivery_update alike_def)
  show "alike (retryDelivery (pg_consume pg now) r h) (retryDelivery (pg_consume pg now) r h')"
    using assms by (auto simp: retryDelivery_def pg_consume_def pg_deliveries_def GetDelivery_def Requeue_def t redacted_delivery_update alike_def
      split: option.split)
qed

lemma CreateJob_hidden: "map_sum id redacted (CreateJob pg now j h) = CreateJob pg now j (redacted h)"
  by (simp add: CreateJob_def redacted_def)

lemma alike_replay:
  assumes "redacted h = redacted h'"
  shows "alike (replayWebhook j (pg_consume pg now) r h) (replayWebhook j (pg_consume pg now) r h')"
proof -
  obtain req er where d: "decode_raw_body replayRequest_fields zero_replayRequest (rq_Body r) = (req, er)"
    by fastforce
  let ?job = "replay_job j (URLParam r ''id'') req"
  have job: "map_sum id redacted (CreateJob pg now ?job h) = map_sum id redacted (CreateJob pg now ?job h')"
    using CreateJob_hidden [of pg now ?job h] CreateJob_hidden [of pg now ?job h'] assms by simp
  from assms show ?thesis
  proof (cases rule: Get_cases [where i = "URLParam r ''id''"])
    case (1 er)
    with assms show ?thesis
      by (auto simp: replayWebhook_def pg_consume_def pg_registry_def)
  next
    case (2 w w')
    show ?thesis
    proof (cases "er = Some BadJSON")
      case True
      with assms 2 show ?thesis
        by (auto simp: replayWebhook_def pg_consume_def pg_registry_def d)
    next
      case False
      then have er: "er = None \<or> er = Some EOF"
        using decode_error.exhaust by (cases er) auto
      from assms job show ?thesis
        by (cases rule: write_cases) (use er assms 2 in \<open>auto simp: replayWebhook_def pg_consume_def pg_registry_def pg_jobs_def d Let_def\<close>)
    qed
  qed
qed

lemmas alike_calls = alike_list alike_create alike_patch alike_delete alike_deliveries alike_consume alike_replay

lemma alike_serve_call:
  assumes "redacted h = redacted h'"
  shows "alike (serve_call cfg zone pg now c r h) (serve_call cfg zone pg now c r h')"
  by (cases c; simp only: serve_call.simps; rule alike_calls [OF assms])

text \<open>C39: The administration endpoints never disclose a stored secret: for any sequence of calls (listing, creating,
  patching with or without rotation, deleting, delivery and dead letter lists, replay jobs, retries) on two states
  that differ only in the secrets of their webhooks, every answer, status, headers and body, is the same.  A secret
  is shown only in the answer of the call that draws it.\<close>

theorem webhook_secrets_stay_hidden:
  assumes "redacted h = redacted h'"
  shows "serve_calls cfg zone pg calls h = serve_calls cfg zone pg calls h'"
  using assms
proof (induction calls arbitrary: h h')
  case (Cons x calls)
  obtain now c r where x: "x = (now, c, r)" by (cases x) auto
  obtain p k p' k' where k: "serve_call cfg zone pg now c r h = (p, k)" "serve_call cfg zone pg now c r h' = (p', k')"
    by fastforce
  have "p = p'" "redacted k = redacted k'"
    using alike_serve_call [OF Cons.prems, of cfg zone pg now c r] by (simp_all add: alike_def k)
  with Cons.IH [of k k'] show ?case
    by (simp add: x k)
qed simp


definition sample_hook :: "string \<Rightarrow> Webhook" where
  "sample_hook secret = \<lparr> wh_ID = ''wh_1'', wh_URL = ''http://h/'', wh_Secret = secret, wh_Enabled = True, wh_Operations = [],
     wh_Resources = [], wh_MaxRetries = 5, wh_CreatedAt = 0, wh_UpdatedAt = 0 \<rparr>"

theorem webhook_secrets_stay_hidden_witness:
  "redacted (empty_hooks\<lparr> t_webhook := [sample_hook ''s1''] \<rparr>) = redacted (empty_hooks\<lparr> t_webhook := [sample_hook ''s2''] \<rparr>) \<and>
   (\<forall>cfg zone pg r. serve_calls cfg zone pg [(0, ListCall, r), (1, PatchCall None, r)] (empty_hooks\<lparr> t_webhook := [sample_hook ''s1''] \<rparr>) =
     serve_calls cfg zone pg [(0, ListCall, r), (1, PatchCall None, r)] (empty_hooks\<lparr> t_webhook := [sample_hook ''s2''] \<rparr>))"
proof -
  have "redacted (empty_hooks\<lparr> t_webhook := [sample_hook ''s1''] \<rparr>) = redacted (empty_hooks\<lparr> t_webhook := [sample_hook ''s2''] \<rparr>)"
    by (simp add: redacted_def hide_def sample_hook_def)
  with webhook_secrets_stay_hidden [OF this] show ?thesis
    by blast
qed

lemma malformed_body: "fst (decode_body [(''webhook_id'', string_field (\<lambda>x q. x))] [] (''{\"webhook_id\":5}'')) = []"
  by code_simp

text \<open>A body the decoder refuses requeues the dead letters of every webhook.\<close>

lemma malformed_retry_requeues_all:
  "retryDeadLetters (pg_consume pg now) (r\<lparr> rq_Body := ''{\"webhook_id\":5}'' \<rparr>) h =
    (Replied (writeJSON [] 200 (Inr (requeued_json (int (fst (RequeueDeadLetters now [] h)))))), snd (RequeueDeadLetters now [] h))"
  by (simp add: retryDeadLetters_def pg_consume_def pg_deliveries_def malformed_body case_prod_beta)

end
