(* ===== verification/Policy.thy ===== *)
theory Policy
  imports EventDelivery
begin

text \<open>
  Policy automation: the packages \<^verbatim>\<open>internal/policy\<close> and \<^verbatim>\<open>store/postgres/policy_store.go\<close>.

  \<open>float64\<close> takes a JSON number literal to the text \<^verbatim>\<open>json.Marshal\<close> writes for the nearest
  \<^verbatim>\<open>float64\<close>, \<open>None\<close> when the literal is out of range.  A value kept in a \<^verbatim>\<open>jsonb\<close> column is
  what the server makes of its encoding: the record \<open>jsonb\<close> gives, for each such column, the value that a
  stored one reads back as, or the server's refusal.  An action returns an optional error or panics;
  the backends of the email, command and notification actions are parameters.
\<close>

section \<open>Events and conditions\<close>

record PEvent =
  pe_EventID :: string
  pe_OperationID :: string
  pe_Operation :: string
  pe_Actor :: string
  pe_CfgID :: string
  pe_Seq :: int
  pe_OccurredAt :: instant
  pe_Metadata :: smap

text \<open>The decoder keeps numbers as \<^verbatim>\<open>float64\<close>; a number out of range fails the whole document.\<close>

fun float_values :: "(string \<Rightarrow> string option) \<Rightarrow> json \<Rightarrow> json option" where
  "float_values float64 (JNum l) = map_option JNum (float64 l)"
| "float_values float64 (JArr vs) = map_option JArr (those (map (float_values float64) vs))"
| "float_values float64 (JObj ms) =
     map_option JObj (those (map (\<lambda>(k, v). map_option (Pair k) v) (map (\<lambda>(k, v). (k, float_values float64 v)) ms)))"
| "float_values float64 v = Some v"

fun stringify :: "json \<Rightarrow> string" where
  "stringify (JStr s) = s"
| "stringify (JBool b) = (if b then ''true'' else ''false'')"
| "stringify (JNum l) = l"
| "stringify v = json_print True v"

text \<open>\<^verbatim>\<open>json.Unmarshal\<close> into a \<^verbatim>\<open>map[string]any\<close>.\<close>

definition unmarshal_map :: "(string \<Rightarrow> string option) \<Rightarrow> bytes \<Rightarrow> (string \<times> json) list option" where
  "unmarshal_map float64 s =
     (case parse_value (parse_fuel s) 0 s of
        None \<Rightarrow> None
      | Some (v, rest) \<Rightarrow>
          if skip_ws rest \<noteq> [] then None
          else (case map_option to_any (float_values float64 v) of
                  Some (JObj ms) \<Rightarrow> Some ms
                | Some JNull \<Rightarrow> Some []
                | _ \<Rightarrow> None))"

definition policy_eventFrom :: "(string \<Rightarrow> string option) \<Rightarrow> AuditEvent \<Rightarrow> PEvent" where
  "policy_eventFrom float64 a = \<lparr> pe_EventID = ae_EventID a, pe_OperationID = ae_OperationID a, pe_Operation = ae_Operation a,
     pe_Actor = ae_Actor a, pe_CfgID = ae_ChainID a, pe_Seq = ae_Seq a, pe_OccurredAt = ae_OccurredAt a,
     pe_Metadata = (if 0 < length (ae_PayloadCanonical a) then
        (case unmarshal_map float64 (ae_PayloadCanonical a) of
           Some pv \<Rightarrow> map (\<lambda>(k, v). (k, stringify v)) pv
         | None \<Rightarrow> []) else []) \<rparr>"

record Condition =
  cn_Operations :: "string list"
  cn_Resources :: "string list"
  cn_Actors :: "string list"
  cn_Metadata :: smap

definition Condition_Matches :: "Condition \<Rightarrow> PEvent \<Rightarrow> bool" where
  "Condition_Matches c ev =
     (if 0 < length (cn_Operations c) \<and> \<not> contains (cn_Operations c) (pe_Operation ev) then False
      else if 0 < length (cn_Resources c) \<and> \<not> contains (cn_Resources c) (pe_CfgID ev) then False
      else if 0 < length (cn_Actors c) \<and> \<not> contains (cn_Actors c) (pe_Actor ev) then False
      else list_all (\<lambda>(k, v). mget (pe_Metadata ev) k = v) (cn_Metadata c))"

record ActionSpec =
  as_Type :: string
  as_Config :: bytes

record Policy =
  po_ID :: string
  po_Name :: string
  po_Enabled :: bool
  po_Condition :: Condition
  po_Action :: ActionSpec
  po_MaxRetries :: int
  po_CreatedAt :: instant
  po_UpdatedAt :: instant

abbreviation ExecPending :: string where "ExecPending \<equiv> ''pending''"
abbreviation ExecSucceeded :: string where "ExecSucceeded \<equiv> ''succeeded''"
abbreviation ExecFailed :: string where "ExecFailed \<equiv> ''failed''"
abbreviation ExecDeadLetter :: string where "ExecDeadLetter \<equiv> ''dead_letter''"

record Execution =
  ex_ID :: string
  ex_PolicyID :: string
  ex_Event :: PEvent
  ex_Status :: string
  ex_RetryCount :: int
  ex_Error :: string
  ex_StartedAt :: instant
  ex_EndedAt :: instant
  ex_NextAttemptAt :: instant
  ex_CreatedAt :: instant

section \<open>Actions\<close>

datatype outcome = Returned "err option" | Panicked string

type_synonym action = "PEvent \<Rightarrow> bytes \<Rightarrow> outcome"
type_synonym registry = "(string \<times> action) list"

definition NewRegistry :: registry where
  "NewRegistry = []"

definition Register :: "string \<Rightarrow> action \<Rightarrow> registry \<Rightarrow> registry" where
  "Register actionType a r = map_put actionType a r"

definition Registry_Has :: "registry \<Rightarrow> string \<Rightarrow> bool" where
  "Registry_Has r actionType = (map_of r actionType \<noteq> None)"

definition ErrUnknownAction :: err where
  "ErrUnknownAction = ErrOther ''policy: unknown action type''"

definition Registry_Run :: "registry \<Rightarrow> string \<Rightarrow> PEvent \<Rightarrow> bytes \<Rightarrow> outcome" where
  "Registry_Run r actionType ev config =
     (case map_of r actionType of
        None \<Rightarrow> Returned (Some ErrUnknownAction)
      | Some a \<Rightarrow> a ev config)"

definition decode_url :: "bytes \<Rightarrow> string option" where
  "decode_url config = unmarshal_struct [(''url'', string_field (\<lambda>x u. x))] [] config"

definition marshal_event :: "(instant \<Rightarrow> int) \<Rightarrow> PEvent \<Rightarrow> err + bytes" where
  "marshal_event zone ev =
     result_bind (MarshalTime zone (pe_OccurredAt ev)) (\<lambda>occurred.
       Inr (print_struct True
         [(''EventID'', json_quote True (pe_EventID ev)), (''OperationID'', json_quote True (pe_OperationID ev)),
          (''Operation'', json_quote True (pe_Operation ev)), (''Actor'', json_quote True (pe_Actor ev)),
          (''CfgID'', json_quote True (pe_CfgID ev)), (''Seq'', FormatInt (pe_Seq ev)), (''OccurredAt'', occurred),
          (''Metadata'', json_print True (JObj (map (\<lambda>(k, v). (k, JStr v)) (pe_Metadata ev))))]))"

definition HTTPAction :: "(instant \<Rightarrow> int) \<Rightarrow> http_client \<Rightarrow> action" where
  "HTTPAction zone doer ev config =
     (case decode_url config of
        None \<Rightarrow> Returned (Some (ErrOther ''policy http action: bad config''))
      | Some url \<Rightarrow>
        if url = [] then Returned (Some (ErrOther ''policy http action: url is required''))
        else (case marshal_event zone ev of
            Inl er \<Rightarrow> Returned (Some er)
          | Inr body \<Rightarrow>
            (case doer \<lparr> hr_URL = url, hr_Headers = [(''Content-Type'', ''application/json'')], hr_Body = body \<rparr> of
               Inl er \<Rightarrow> Returned (Some er)
             | Inr code \<Rightarrow>
                 if code < 200 \<or> 300 \<le> code then Returned (Some (ErrOther (''policy http action: status '' @ FormatInt code)))
                 else Returned None)))"

definition ErrActionNotConfigured :: err where
  "ErrActionNotConfigured = ErrOther ''policy: action backend not configured''"

definition EmailAction :: "action option \<Rightarrow> action" where
  "EmailAction sender ev config =
     (case sender of None \<Rightarrow> Returned (Some ErrActionNotConfigured) | Some s \<Rightarrow> s ev config)"

definition CommandAction :: "action option \<Rightarrow> action" where
  "CommandAction runner ev config =
     (case runner of None \<Rightarrow> Returned (Some ErrActionNotConfigured) | Some r \<Rightarrow> r ev config)"

definition NotificationAction :: "action option \<Rightarrow> action" where
  "NotificationAction notifier ev config =
     (case notifier of Some n \<Rightarrow> n ev config | None \<Rightarrow> Returned None)"

definition DefaultRegistry :: "(instant \<Rightarrow> int) \<Rightarrow> http_client \<Rightarrow> action option \<Rightarrow> action option \<Rightarrow> action option \<Rightarrow> registry" where
  "DefaultRegistry zone doer email cmd notifier =
     (let r = NewRegistry;
          r = Register ''http'' (HTTPAction zone doer) r;
          r = Register ''email'' (EmailAction email) r;
          r = Register ''command'' (CommandAction cmd) r;
          r = Register ''notification'' (NotificationAction notifier) r
      in r)"

section \<open>The tables\<close>

record jsonb =
  jb_condition :: "Condition \<Rightarrow> err + Condition"
  jb_config :: "bytes \<Rightarrow> err + bytes"
  jb_event :: "PEvent \<Rightarrow> err + PEvent"

record policies =
  t_policy :: "Policy list"
  t_policy_execution :: "Execution list"
  t_policy_cursor :: "(string \<times> int) list"

definition empty_policies :: policies where
  "empty_policies = \<lparr> t_policy = [], t_policy_execution = [], t_policy_cursor = [] \<rparr>"

definition actionConfig :: "bytes \<Rightarrow> bytes" where
  "actionConfig c = (if length c = 0 then ''{}'' else c)"

text \<open>A policy with its two \<^verbatim>\<open>jsonb\<close> columns as they read back.\<close>

definition column_policy :: "jsonb \<Rightarrow> Policy \<Rightarrow> err + Policy" where
  "column_policy jb p =
     result_bind (jb_condition jb (po_Condition p)) (\<lambda>cond.
     result_bind (jb_config jb (actionConfig (as_Config (po_Action p)))) (\<lambda>cfg.
       Inr (p\<lparr> po_Condition := cond, po_Action := (po_Action p)\<lparr> as_Config := cfg \<rparr> \<rparr>)))"

definition Policy_Create :: "jsonb \<Rightarrow> instant \<Rightarrow> Policy \<Rightarrow> policies \<Rightarrow> err + policies" where
  "Policy_Create jb now p t =
     result_bind (column_policy jb p) (\<lambda>row.
       if \<not> int4 (po_MaxRetries p) then Inl (ErrOther ''create policy'')
       else if po_ID p \<in> po_ID ` set (t_policy t) then Inl ErrConflict
       else Inr (t\<lparr> t_policy := t_policy t @ [row\<lparr> po_CreatedAt := now, po_UpdatedAt := now \<rparr>] \<rparr>))"

definition Policy_Get :: "string \<Rightarrow> policies \<Rightarrow> err + Policy" where
  "Policy_Get i t = (case find (\<lambda>p. po_ID p = i) (t_policy t) of None \<Rightarrow> Inl ErrNotFound | Some p \<Rightarrow> Inr p)"

definition Policy_List :: "policies \<Rightarrow> Policy list" where
  "Policy_List t = sort_key po_CreatedAt (t_policy t)"

definition Policy_ListEnabled :: "policies \<Rightarrow> Policy list" where
  "Policy_ListEnabled t = sort_key po_CreatedAt (filter po_Enabled (t_policy t))"

definition Policy_Update :: "jsonb \<Rightarrow> instant \<Rightarrow> Policy \<Rightarrow> policies \<Rightarrow> err + policies" where
  "Policy_Update jb now p t =
     result_bind (column_policy jb p) (\<lambda>row.
       if \<not> int4 (po_MaxRetries p) then Inl (ErrOther ''update policy'')
       else if po_ID p \<notin> po_ID ` set (t_policy t) then Inl ErrNotFound
       else Inr (t\<lparr> t_policy := map (\<lambda>r. if po_ID r = po_ID p then r\<lparr> po_Name := po_Name p, po_Enabled := po_Enabled p,
          po_Condition := po_Condition row, po_Action := po_Action row, po_MaxRetries := po_MaxRetries p,
          po_UpdatedAt := now \<rparr> else r) (t_policy t) \<rparr>))"

definition Policy_Delete :: "string \<Rightarrow> policies \<Rightarrow> err + policies" where
  "Policy_Delete i t =
     (if i \<notin> po_ID ` set (t_policy t) then Inl ErrNotFound
      else Inr (t\<lparr> t_policy := filter (\<lambda>p. po_ID p \<noteq> i) (t_policy t) \<rparr>))"

text \<open>One insert of the batch; the batch is one implicit transaction, so an error undoes it.\<close>

definition stored_execution :: "pg \<Rightarrow> instant \<Rightarrow> PEvent \<Rightarrow> Execution \<Rightarrow> Execution" where
  "stored_execution pg now ev x = x\<lparr> ex_Event := ev, ex_RetryCount := 0, ex_Error := [], ex_StartedAt := zero_time,
     ex_EndedAt := zero_time, ex_NextAttemptAt := pg_timestamptz pg (ex_NextAttemptAt x), ex_CreatedAt := now \<rparr>"

fun enqueue_executions :: "jsonb \<Rightarrow> pg \<Rightarrow> instant \<Rightarrow> Execution list \<Rightarrow> Execution list \<Rightarrow> err + Execution list" where
  "enqueue_executions jb pg now rows [] = Inr rows"
| "enqueue_executions jb pg now rows (x # xs) =
     result_bind (jb_event jb (ex_Event x)) (\<lambda>ev.
       enqueue_executions jb pg now
         (if ex_ID x \<in> ex_ID ` set rows then rows else rows @ [stored_execution pg now ev x]) xs)"

text \<open>The event of every execution is encoded before the batch is sent.\<close>

definition Policy_Enqueue :: "(instant \<Rightarrow> int) \<Rightarrow> jsonb \<Rightarrow> pg \<Rightarrow> instant \<Rightarrow> Execution list \<Rightarrow> policies \<Rightarrow> err + policies" where
  "Policy_Enqueue zone jb pg now xs t =
     (case those (map (\<lambda>x. case marshal_event zone (ex_Event x) of Inl er \<Rightarrow> None | Inr b \<Rightarrow> Some b) xs) of
        None \<Rightarrow> Inl (ErrOther ''marshal event'')
      | Some _ \<Rightarrow>
          result_bind (enqueue_executions jb pg now (t_policy_execution t) xs) (\<lambda>rows. Inr (t\<lparr> t_policy_execution := rows \<rparr>)))"

definition Policy_ClaimDue :: "instant \<Rightarrow> int \<Rightarrow> policies \<Rightarrow> err + Execution list" where
  "Policy_ClaimDue now limit t =
     (if limit < 0 then Inl (ErrOther ''claim executions'')
      else Inr (take (nat limit) (sort_key ex_NextAttemptAt
        (filter (\<lambda>x. ex_Status x \<in> {ExecPending, ExecFailed} \<and> ex_NextAttemptAt x \<le> now) (t_policy_execution t)))))"

definition column_time :: "pg \<Rightarrow> instant \<Rightarrow> instant" where
  "column_time pg x = (if IsZero x then zero_time else pg_timestamptz pg x)"

definition Policy_MarkResult :: "pg \<Rightarrow> string \<Rightarrow> string \<Rightarrow> int \<Rightarrow> string \<Rightarrow> instant \<Rightarrow> instant \<Rightarrow> instant \<Rightarrow> policies \<Rightarrow> err + policies" where
  "Policy_MarkResult pg i status retry errMsg started ended next_at t =
     (if \<not> int4 retry then Inl (ErrOther ''mark execution'')
      else Inr (t\<lparr> t_policy_execution := map (\<lambda>x. if ex_ID x = i then x\<lparr> ex_Status := status, ex_RetryCount := retry,
          ex_Error := errMsg, ex_StartedAt := column_time pg started, ex_EndedAt := column_time pg ended,
          ex_NextAttemptAt := (if IsZero next_at then ex_NextAttemptAt x else pg_timestamptz pg next_at) \<rparr> else x)
        (t_policy_execution t) \<rparr>))"

definition ListByPolicy :: "string \<Rightarrow> int \<Rightarrow> policies \<Rightarrow> err + Execution list" where
  "ListByPolicy i limit t =
     (if limit < 0 then Inl (ErrOther ''list executions'')
      else Inr (take (nat limit) (rev (sort_key ex_CreatedAt (filter (\<lambda>x. ex_PolicyID x = i) (t_policy_execution t))))))"

definition GetPolicyCursor :: "string \<Rightarrow> policies \<Rightarrow> int" where
  "GetPolicyCursor chainID t = (case map_of (t_policy_cursor t) chainID of None \<Rightarrow> 0 | Some seq \<Rightarrow> seq)"

definition SetPolicyCursor :: "string \<Rightarrow> int \<Rightarrow> policies \<Rightarrow> policies" where
  "SetPolicyCursor chainID seq t = t\<lparr> t_policy_cursor := AList.update chainID seq (t_policy_cursor t) \<rparr>"

section \<open>Ports\<close>

record 'st policy_ports =
  pp_ListChainIDs :: "'st \<Rightarrow> err + string list"
  pp_ListEvents :: "string \<Rightarrow> int \<Rightarrow> bool \<Rightarrow> int \<Rightarrow> string \<Rightarrow> 'st \<Rightarrow> err + AuditEvent list"
  pp_GetPolicyCursor :: "string \<Rightarrow> 'st \<Rightarrow> err + int"
  pp_SetPolicyCursor :: "string \<Rightarrow> int \<Rightarrow> 'st \<Rightarrow> (err + unit) \<times> 'st"
  pp_Get :: "string \<Rightarrow> 'st \<Rightarrow> err + Policy"
  pp_ListEnabled :: "'st \<Rightarrow> err + Policy list"
  pp_Enqueue :: "Execution list \<Rightarrow> 'st \<Rightarrow> (err + unit) \<times> 'st"
  pp_ClaimDue :: "instant \<Rightarrow> int \<Rightarrow> 'st \<Rightarrow> err + Execution list"
  pp_MarkResult :: "string \<Rightarrow> string \<Rightarrow> int \<Rightarrow> string \<Rightarrow> instant \<Rightarrow> instant \<Rightarrow> instant \<Rightarrow> 'st \<Rightarrow> (err + unit) \<times> 'st"

definition pg_policy :: "(instant \<Rightarrow> int) \<Rightarrow> jsonb \<Rightarrow> pg \<Rightarrow> instant \<Rightarrow> (db \<times> policies) policy_ports" where
  "pg_policy zone jb pg now = \<lparr>
     pp_ListChainIDs = (\<lambda>(d, t). Inr (ListChainIDs d)),
     pp_ListEvents = (\<lambda>c cursor desc limit op (d, t). ListEvents d c cursor desc limit op),
     pp_GetPolicyCursor = (\<lambda>c (d, t). Inr (GetPolicyCursor c t)),
     pp_SetPolicyCursor = (\<lambda>c seq (d, t). (Inr (), (d, SetPolicyCursor c seq t))),
     pp_Get = (\<lambda>i (d, t). Policy_Get i t),
     pp_ListEnabled = (\<lambda>(d, t). Inr (Policy_ListEnabled t)),
     pp_Enqueue = (\<lambda>xs (d, t). committed (d, t) (map_sum id (Pair d) (Policy_Enqueue zone jb pg now xs t))),
     pp_ClaimDue = (\<lambda>at limit (d, t). Policy_ClaimDue at limit t),
     pp_MarkResult = (\<lambda>i s r e st en na (d, t). committed (d, t) (map_sum id (Pair d) (Policy_MarkResult pg i s r e st en na t))) \<rparr>"

section \<open>The consumer\<close>

definition consumer_limit :: "int \<Rightarrow> int" where
  "consumer_limit limit = (if limit \<le> 0 then 200 else limit)"

fun Evaluate :: "(nat \<Rightarrow> string) \<Rightarrow> PEvent \<Rightarrow> Policy list \<Rightarrow> instant \<Rightarrow> nat \<Rightarrow> Execution list" where
  "Evaluate newID ev [] now k = []"
| "Evaluate newID ev (p # ps) now k =
     (if \<not> po_Enabled p \<or> \<not> Condition_Matches (po_Condition p) ev then Evaluate newID ev ps now k
      else \<lparr> ex_ID = newID k, ex_PolicyID = po_ID p, ex_Event = ev, ex_Status = ExecPending, ex_RetryCount = 0, ex_Error = [],
             ex_StartedAt = zero_time, ex_EndedAt = zero_time, ex_NextAttemptAt = now, ex_CreatedAt = now \<rparr>
           # Evaluate newID ev ps now (Suc k))"

fun evaluate_batch :: "(string \<Rightarrow> string option) \<Rightarrow> (nat \<Rightarrow> string) \<Rightarrow> instant \<Rightarrow> Policy list \<Rightarrow> AuditEvent list \<Rightarrow> nat \<Rightarrow> Execution list" where
  "evaluate_batch float64 newID now pols [] k = []"
| "evaluate_batch float64 newID now pols (a # evs) k =
     (let xs = Evaluate newID (policy_eventFrom float64 a) pols now k
      in xs @ evaluate_batch float64 newID now pols evs (k + length xs))"

definition consumer_tailChain ::
  "(string \<Rightarrow> string option) \<Rightarrow> 'st policy_ports \<Rightarrow> int \<Rightarrow> (nat \<Rightarrow> string) \<Rightarrow> instant \<Rightarrow> Policy list \<Rightarrow> string \<Rightarrow> nat \<times> 'st \<Rightarrow> nat \<times> 'st" where
  "consumer_tailChain float64 p limit newID now pols chainID = (\<lambda>(k, st).
     (case pp_GetPolicyCursor p chainID st of
        Inl er \<Rightarrow> (k, st)
      | Inr cursor \<Rightarrow>
     (case pp_ListEvents p chainID cursor False limit [] st of
        Inl er \<Rightarrow> (k, st)
      | Inr evs \<Rightarrow>
        if length evs = 0 then (k, st)
        else let execs = evaluate_batch float64 newID now pols evs k; maxSeq = max_seq cursor evs
             in case (if 0 < length execs then pp_Enqueue p execs st else (Inr (), st)) of
                  (Inl er, st') \<Rightarrow> (k + length execs, st')
                | (Inr _, st') \<Rightarrow>
                    (k + length execs, if cursor < maxSeq then snd (pp_SetPolicyCursor p chainID maxSeq st') else st'))))"

fun consume_chains ::
  "(string \<Rightarrow> string option) \<Rightarrow> 'st policy_ports \<Rightarrow> int \<Rightarrow> (string \<Rightarrow> bool) \<Rightarrow> (nat \<Rightarrow> string) \<Rightarrow> (string \<Rightarrow> instant) \<Rightarrow> Policy list \<Rightarrow> string list \<Rightarrow> nat \<times> 'st \<Rightarrow> nat \<times> 'st" where
  "consume_chains float64 p limit cancelled newID now pols [] s = s"
| "consume_chains float64 p limit cancelled newID now pols (c # cs) s =
     (if cancelled c then s
      else consume_chains float64 p limit cancelled newID now pols cs
        (consumer_tailChain float64 p limit newID (now c) pols c s))"

definition Consumer_RunOnce ::
  "(string \<Rightarrow> string option) \<Rightarrow> 'st policy_ports \<Rightarrow> int \<Rightarrow> (string \<Rightarrow> bool) \<Rightarrow> (nat \<Rightarrow> string) \<Rightarrow> (string \<Rightarrow> instant) \<Rightarrow> nat \<times> 'st \<Rightarrow> nat \<times> 'st" where
  "Consumer_RunOnce float64 p limit cancelled newID now s =
     (case pp_ListChainIDs p (snd s) of
        Inl er \<Rightarrow> s
      | Inr chainIDs \<Rightarrow>
     (case pp_ListEnabled p (snd s) of
        Inl er \<Rightarrow> s
      | Inr pols \<Rightarrow>
        if length pols = 0 then s
        else consume_chains float64 p (consumer_limit limit) cancelled newID now pols chainIDs s))"

section \<open>The executor\<close>

definition executor_withDefaults :: "DispatcherConfig \<Rightarrow> DispatcherConfig" where
  "executor_withDefaults c = \<lparr> dc_BatchLimit = (if dc_BatchLimit c \<le> 0 then 100 else dc_BatchLimit c),
     dc_BaseBackoff = (if dc_BaseBackoff c \<le> 0 then 5 * Second else dc_BaseBackoff c),
     dc_MaxBackoff = (if dc_MaxBackoff c \<le> 0 then Hour else dc_MaxBackoff c) \<rparr>"

definition executor_backoff :: "DispatcherConfig \<Rightarrow> int \<Rightarrow> duration" where
  "executor_backoff cfg retry = backoff (dc_BaseBackoff cfg) (dc_MaxBackoff cfg) retry"

definition runIsolated :: "registry \<Rightarrow> Policy \<Rightarrow> PEvent \<Rightarrow> err option" where
  "runIsolated r p ev =
     (case Registry_Run r (as_Type (po_Action p)) ev (as_Config (po_Action p)) of
        Returned e \<Rightarrow> e
      | Panicked msg \<Rightarrow> Some (ErrOther (''policy action panicked: '' @ msg)))"

text \<open>\<open>start\<close>, \<open>ended\<close> and \<open>base\<close> are the readings of the clock at the start of the attempt, for the
  recorded end and for the next attempt; \<open>errText\<close> is the text of an error.\<close>

definition execution_attempt ::
  "'st policy_ports \<Rightarrow> DispatcherConfig \<Rightarrow> (err \<Rightarrow> string) \<Rightarrow> registry \<Rightarrow> instant \<Rightarrow> instant \<Rightarrow> instant \<Rightarrow> Execution \<Rightarrow> 'st \<Rightarrow> string \<times> 'st" where
  "execution_attempt p cfg errText r start ended base ex st =
     (case pp_Get p (ex_PolicyID ex) st of
        Inl er \<Rightarrow> (ExecDeadLetter,
          snd (pp_MarkResult p (ex_ID ex) ExecDeadLetter (ex_RetryCount ex) (''policy not found: '' @ errText er) start ended zero_time st))
      | Inr pol \<Rightarrow>
     (case runIsolated r pol (ex_Event ex) of
        None \<Rightarrow> (ExecSucceeded,
          snd (pp_MarkResult p (ex_ID ex) ExecSucceeded (ex_RetryCount ex) [] start ended zero_time st))
      | Some runErr \<Rightarrow>
        let retry = int64 (ex_RetryCount ex + 1) in
        if po_MaxRetries pol \<le> retry then (ExecDeadLetter,
          snd (pp_MarkResult p (ex_ID ex) ExecDeadLetter retry (errText runErr) start ended zero_time st))
        else (ExecFailed,
          snd (pp_MarkResult p (ex_ID ex) ExecFailed retry (errText runErr) start ended (base + executor_backoff cfg retry) st))))"

definition Executor_Attempt ::
  "'st policy_ports \<Rightarrow> DispatcherConfig \<Rightarrow> (err \<Rightarrow> string) \<Rightarrow> registry \<Rightarrow> instant \<Rightarrow> instant \<Rightarrow> instant \<Rightarrow> Execution \<Rightarrow> 'st \<Rightarrow> string \<times> 'st" where
  "Executor_Attempt p cfg errText r start ended base ex st = execution_attempt p cfg errText r start ended base ex st"

fun execute_all ::
  "'st policy_ports \<Rightarrow> DispatcherConfig \<Rightarrow> (err \<Rightarrow> string) \<Rightarrow> (nat \<Rightarrow> registry) \<Rightarrow> (nat \<Rightarrow> bool) \<Rightarrow> (nat \<Rightarrow> instant \<times> instant \<times> instant) \<Rightarrow> nat \<Rightarrow> Execution list \<Rightarrow> 'st \<Rightarrow> 'st" where
  "execute_all p cfg errText r cancelled clock i [] st = st"
| "execute_all p cfg errText r cancelled clock i (x # xs) st =
     (if cancelled i then st
      else case clock i of (start, ended, base) \<Rightarrow>
        execute_all p cfg errText r cancelled clock (Suc i) xs
          (snd (execution_attempt p cfg errText (r i) start ended base x st)))"

definition Executor_RunOnce ::
  "'st policy_ports \<Rightarrow> DispatcherConfig \<Rightarrow> (err \<Rightarrow> string) \<Rightarrow> (nat \<Rightarrow> registry) \<Rightarrow> (nat \<Rightarrow> bool) \<Rightarrow> (nat \<Rightarrow> instant \<times> instant \<times> instant) \<Rightarrow> instant \<Rightarrow> 'st \<Rightarrow> 'st" where
  "Executor_RunOnce p cfg errText r cancelled clock now st =
     (case pp_ClaimDue p now (dc_BatchLimit cfg) st of
        Inl er \<Rightarrow> st
      | Inr due \<Rightarrow> execute_all p cfg errText r cancelled clock 0 due st)"

end
