(* ===== verification/PolicyApi.thy ===== *)
theory PolicyApi
  imports EventsApi Policy
begin

text \<open>
  The administration of policies over HTTP (\<^verbatim>\<open>internal/httpapi/handlers_policies.go\<close>), with the synthetic execution
  that \<^verbatim>\<open>cmd/controlplane/main.go\<close> wires as the tester.  The configuration of an action is a raw message: it keeps
  the text of the request, and is compacted when it is written.
\<close>

section \<open>Ports\<close>

record 's policyRegistry =
  pk_Create :: "Policy \<Rightarrow> 's \<Rightarrow> err option \<times> 's"
  pk_Get :: "string \<Rightarrow> 's \<Rightarrow> err + Policy"
  pk_List :: "'s \<Rightarrow> err + Policy list"
  pk_Update :: "Policy \<Rightarrow> 's \<Rightarrow> err option \<times> 's"
  pk_Delete :: "string \<Rightarrow> 's \<Rightarrow> err option \<times> 's"
  pk_ListByPolicy :: "string \<Rightarrow> int \<Rightarrow> 's \<Rightarrow> err + Execution list"

type_synonym 's policy_tester = "Policy \<Rightarrow> 's \<Rightarrow> (string \<times> err option) \<times> 's"

definition pg_policies :: "jsonb \<Rightarrow> instant \<Rightarrow> policies policyRegistry" where
  "pg_policies jb now = \<lparr>
     pk_Create = (\<lambda>p t. written t (Policy_Create jb now p t)), pk_Get = Policy_Get, pk_List = (\<lambda>t. Inr (Policy_List t)),
     pk_Update = (\<lambda>p t. written t (Policy_Update jb now p t)), pk_Delete = (\<lambda>i t. written t (Policy_Delete i t)),
     pk_ListByPolicy = ListByPolicy \<rparr>"

section \<open>Bodies\<close>

definition Condition_fields :: "Condition fields" where
  "Condition_fields = [
     (''operations'', strings_field (\<lambda>x c. c\<lparr> cn_Operations := patched x [] \<rparr>)),
     (''resources'', strings_field (\<lambda>x c. c\<lparr> cn_Resources := patched x [] \<rparr>)),
     (''actors'', strings_field (\<lambda>x c. c\<lparr> cn_Actors := patched x [] \<rparr>)),
     (''metadata'', smap_field (\<lambda>c. Some (cn_Metadata c)) (\<lambda>x c. c\<lparr> cn_Metadata := patched x [] \<rparr>))]"

definition zero_Condition :: Condition where
  "zero_Condition = \<lparr> cn_Operations = [], cn_Resources = [], cn_Actors = [], cn_Metadata = [] \<rparr>"

definition omit_strings :: "string \<Rightarrow> string list \<Rightarrow> (string \<times> bytes) list" where
  "omit_strings k xs = (if xs = [] then [] else [(k, array_json (map (json_quote True) xs))])"

definition Condition_json :: "Condition \<Rightarrow> bytes" where
  "Condition_json c = print_struct True
     (omit_strings ''operations'' (cn_Operations c) @ omit_strings ''resources'' (cn_Resources c) @
      omit_strings ''actors'' (cn_Actors c) @
      (if cn_Metadata c = [] then [] else [(''metadata'', smap_json (cn_Metadata c))]))"

definition policyActionDTO_fields :: "ActionSpec raw_fields" where
  "policyActionDTO_fields = [
     (''type'', value_field (string_field (\<lambda>x a. a\<lparr> as_Type := x \<rparr>))),
     (''config'', raw_message_field (\<lambda>x a. a\<lparr> as_Config := x \<rparr>))]"

definition zero_action :: ActionSpec where
  "zero_action = \<lparr> as_Type = [], as_Config = [] \<rparr>"

definition policyActionDTO_json :: "ActionSpec \<Rightarrow> err + bytes" where
  "policyActionDTO_json a =
     result_bind (if as_Config a = [] then Inr [] else map_sum id (\<lambda>b. [(''config'', b)]) (raw_json (as_Config a))) (\<lambda>cfg.
       Inr (print_struct True ((''type'', json_quote True (as_Type a)) # cfg)))"

definition policyDTO_json :: "(instant \<Rightarrow> int) \<Rightarrow> Policy \<Rightarrow> err + bytes" where
  "policyDTO_json zone p =
     result_bind (policyActionDTO_json (po_Action p)) (\<lambda>action.
     result_bind (MarshalTime zone (po_CreatedAt p)) (\<lambda>created.
     result_bind (MarshalTime zone (po_UpdatedAt p)) (\<lambda>updated.
       Inr (print_struct True
         [(''id'', json_quote True (po_ID p)), (''name'', json_quote True (po_Name p)), (''enabled'', bool_field (po_Enabled p)),
          (''condition'', Condition_json (po_Condition p)), (''action'', action), (''max_retries'', FormatInt (po_MaxRetries p)),
          (''created_at'', created), (''updated_at'', updated)]))))"

record createPolicyRequest =
  cq_Name :: string
  cq_Enabled :: "bool option"
  cq_Condition :: Condition
  cq_Action :: ActionSpec
  cq_MaxRetries :: int

definition createPolicyRequest_fields :: "createPolicyRequest raw_fields" where
  "createPolicyRequest_fields = [
     (''name'', value_field (string_field (\<lambda>x q. q\<lparr> cq_Name := x \<rparr>))),
     (''enabled'', value_field (pointer_field flag_field (\<lambda>x q. q\<lparr> cq_Enabled := x \<rparr>))),
     (''condition'', value_field (struct_field Condition_fields cq_Condition (\<lambda>x q. q\<lparr> cq_Condition := x \<rparr>))),
     (''action'', raw_struct_field policyActionDTO_fields cq_Action (\<lambda>x q. q\<lparr> cq_Action := x \<rparr>)),
     (''max_retries'', value_field (int_field (\<lambda>x q. q\<lparr> cq_MaxRetries := x \<rparr>)))]"

definition zero_createPolicyRequest :: createPolicyRequest where
  "zero_createPolicyRequest =
     \<lparr> cq_Name = [], cq_Enabled = None, cq_Condition = zero_Condition, cq_Action = zero_action, cq_MaxRetries = 0 \<rparr>"

record patchPolicyRequest =
  pq_Name :: "string option"
  pq_Enabled :: "bool option"
  pq_Condition :: "Condition option"
  pq_Action :: "ActionSpec option"
  pq_MaxRetries :: "int option"

text \<open>A struct decoded whole from its text, as the target of a pointer.\<close>

definition decoded :: "'t \<times> bool \<Rightarrow> 't option" where
  "decoded r = (if snd r then Some (fst r) else None)"

definition patchPolicyRequest_fields :: "patchPolicyRequest raw_fields" where
  "patchPolicyRequest_fields = [
     (''name'', value_field (pointer_field string_field (\<lambda>x q. q\<lparr> pq_Name := x \<rparr>))),
     (''enabled'', value_field (pointer_field flag_field (\<lambda>x q. q\<lparr> pq_Enabled := x \<rparr>))),
     (''condition'', raw_pointer_field (\<lambda>c raw. value_field (\<lambda>v c. decoded (decode_struct Condition_fields v c)) raw c)
        zero_Condition pq_Condition (\<lambda>x q. q\<lparr> pq_Condition := x \<rparr>)),
     (''action'', raw_pointer_field (\<lambda>a raw. decoded (decode_raw policyActionDTO_fields raw a))
        zero_action pq_Action (\<lambda>x q. q\<lparr> pq_Action := x \<rparr>)),
     (''max_retries'', value_field (pointer_field int_field (\<lambda>x q. q\<lparr> pq_MaxRetries := x \<rparr>)))]"

definition zero_patchPolicyRequest :: patchPolicyRequest where
  "zero_patchPolicyRequest = \<lparr> pq_Name = None, pq_Enabled = None, pq_Condition = None, pq_Action = None, pq_MaxRetries = None \<rparr>"

definition policyExecutionDTO_json :: "(instant \<Rightarrow> int) \<Rightarrow> Execution \<Rightarrow> err + bytes" where
  "policyExecutionDTO_json zone x =
     result_bind (MarshalTime zone (ex_StartedAt x)) (\<lambda>started.
     result_bind (MarshalTime zone (ex_EndedAt x)) (\<lambda>ended.
     result_bind (MarshalTime zone (ex_CreatedAt x)) (\<lambda>created.
       Inr (print_struct True
         ([(''id'', json_quote True (ex_ID x)), (''policy_id'', json_quote True (ex_PolicyID x)),
           (''event_id'', json_quote True (pe_EventID (ex_Event x))), (''operation'', json_quote True (pe_Operation (ex_Event x))),
           (''cfg_id'', json_quote True (pe_CfgID (ex_Event x))), (''status'', json_quote True (ex_Status x)),
           (''retry_count'', FormatInt (ex_RetryCount x))] @
          omitempty ''error'' (ex_Error x) @
          [(''started_at'', started), (''ended_at'', ended), (''created_at'', created)])))))"

section \<open>Handlers\<close>

definition policiesUnavailable :: "Request \<Rightarrow> Response" where
  "policiesUnavailable r = writeProblem r 500 ''internal error'' ''policy registry unavailable''"

definition listPolicies :: "(instant \<Rightarrow> int) \<Rightarrow> 's policyRegistry option \<Rightarrow> 's handler" where
  "listPolicies zone reg r s = (case reg of
       None \<Rightarrow> (Replied (policiesUnavailable r), s)
     | Some p \<Rightarrow>
    (case pk_List p s of
       Inl er \<Rightarrow> (Replied (mapError r er), s)
     | Inr items \<Rightarrow> (Replied (writeJSON [] 200 (items_json (policyDTO_json zone) items)), s)))"

definition new_policy :: "createPolicyRequest \<Rightarrow> string \<Rightarrow> Policy" where
  "new_policy req i =
     \<lparr> po_ID = ''pol_'' @ i, po_Name = cq_Name req, po_Enabled = patched (cq_Enabled req) True, po_Condition = cq_Condition req,
       po_Action = cq_Action req, po_MaxRetries = (if cq_MaxRetries req \<le> 0 then 5 else cq_MaxRetries req),
       po_CreatedAt = zero_time, po_UpdatedAt = zero_time \<rparr>"

definition createPolicy :: "(instant \<Rightarrow> int) \<Rightarrow> bytes option \<Rightarrow> 's policyRegistry option \<Rightarrow> 's handler" where
  "createPolicy zone idDraw reg r s = (case reg of
       None \<Rightarrow> (Replied (policiesUnavailable r), s)
     | Some p \<Rightarrow>
    (case decode_raw_body createPolicyRequest_fields zero_createPolicyRequest (rq_Body r) of
       (req, Some er) \<Rightarrow> (Replied (badJSON r), s)
     | (req, None) \<Rightarrow>
         if cq_Name req = [] \<or> as_Type (cq_Action req) = [] then
           (Replied (writeProblem r 400 ''bad request'' ''name and action.type are required''), s)
         else (case randHex idDraw of
             None \<Rightarrow> (HandlerPanic [], s)
           | Some i \<Rightarrow>
          (case pk_Create p (new_policy req i) s of
             (Some er, s1) \<Rightarrow> (Replied (mapError r er), s1)
           | (None, s1) \<Rightarrow>
          (case pk_Get p (''pol_'' @ i) s1 of
             Inl er \<Rightarrow> (Replied (mapError r er), s1)
           | Inr created \<Rightarrow> (Replied (writeJSON [] 201 (policyDTO_json zone created)), s1))))))"

definition patched_policy :: "patchPolicyRequest \<Rightarrow> Policy \<Rightarrow> Policy" where
  "patched_policy req cur = cur\<lparr>
     po_Name := patched (pq_Name req) (po_Name cur), po_Enabled := patched (pq_Enabled req) (po_Enabled cur),
     po_Condition := patched (pq_Condition req) (po_Condition cur), po_Action := patched (pq_Action req) (po_Action cur),
     po_MaxRetries := (case pq_MaxRetries req of None \<Rightarrow> po_MaxRetries cur | Some n \<Rightarrow> if 0 < n then n else po_MaxRetries cur) \<rparr>"

definition patchPolicy :: "(instant \<Rightarrow> int) \<Rightarrow> 's policyRegistry option \<Rightarrow> 's handler" where
  "patchPolicy zone reg r s = (case reg of
       None \<Rightarrow> (Replied (policiesUnavailable r), s)
     | Some p \<Rightarrow>
    (case pk_Get p (URLParam r ''id'') s of
       Inl er \<Rightarrow> (Replied (mapError r er), s)
     | Inr cur \<Rightarrow>
    (case decode_raw_body patchPolicyRequest_fields zero_patchPolicyRequest (rq_Body r) of
       (req, Some er) \<Rightarrow> (Replied (badJSON r), s)
     | (req, None) \<Rightarrow>
    (case pk_Update p (patched_policy req cur) s of
       (Some er, s1) \<Rightarrow> (Replied (mapError r er), s1)
     | (None, s1) \<Rightarrow> (Replied (writeJSON [] 200 (policyDTO_json zone (patched_policy req cur))), s1)))))"

definition deletePolicy :: "'s policyRegistry option \<Rightarrow> 's handler" where
  "deletePolicy reg r s = (case reg of
       None \<Rightarrow> (Replied (policiesUnavailable r), s)
     | Some p \<Rightarrow>
    (case pk_Delete p (URLParam r ''id'') s of
       (Some er, s1) \<Rightarrow> (Replied (mapError r er), s1)
     | (None, s1) \<Rightarrow> (Replied noContent, s1)))"

definition listPolicyExecutions :: "Config \<Rightarrow> (instant \<Rightarrow> int) \<Rightarrow> 's policyRegistry option \<Rightarrow> 's handler" where
  "listPolicyExecutions cfg zone reg r s = (case reg of
       None \<Rightarrow> (Replied (policiesUnavailable r), s)
     | Some p \<Rightarrow>
    (case pk_Get p (URLParam r ''id'') s of
       Inl er \<Rightarrow> (Replied (mapError r er), s)
     | Inr cur \<Rightarrow>
    (case pk_ListByPolicy p (URLParam r ''id'') (pageLimit cfg r) s of
       Inl er \<Rightarrow> (Replied (mapError r er), s)
     | Inr xs \<Rightarrow> (Replied (writeJSON [] 200 (items_json (policyExecutionDTO_json zone) xs)), s))))"

definition testPolicy :: "'s policyRegistry option \<Rightarrow> 's policy_tester option \<Rightarrow> 's handler" where
  "testPolicy reg policyTester r s = (case reg of
       None \<Rightarrow> (Replied (policiesUnavailable r), s)
     | Some p \<Rightarrow>
    (case policyTester of
       None \<Rightarrow> (Replied (writeProblem r 500 ''internal error'' ''policy execution unavailable''), s)
     | Some tester \<Rightarrow>
    (case pk_Get p (URLParam r ''id'') s of
       Inl er \<Rightarrow> (Replied (mapError r er), s)
     | Inr pol \<Rightarrow>
    (case tester pol s of
       ((status, terr), s1) \<Rightarrow> (Replied (writeJSON [] 200 (Inr (status_json status terr))), s1)))))"

text \<open>The tester the process wires: one attempt of the executor, with its registry of actions, on an event without
  metadata.\<close>

definition test_execution :: "Policy \<Rightarrow> Execution" where
  "test_execution p =
     \<lparr> ex_ID = ''poltest_'' @ po_ID p, ex_PolicyID = po_ID p,
       ex_Event = \<lparr> pe_EventID = ''test'', pe_OperationID = [], pe_Operation = ''test'', pe_Actor = [], pe_CfgID = po_ID p, pe_Seq = 0,
                    pe_OccurredAt = zero_time, pe_Metadata = [] \<rparr>,
       ex_Status = ExecPending, ex_RetryCount = 0, ex_Error = [], ex_StartedAt = zero_time, ex_EndedAt = zero_time,
       ex_NextAttemptAt = zero_time, ex_CreatedAt = zero_time \<rparr>"

definition executor_tester :: "'st policy_ports \<Rightarrow> registry \<Rightarrow> instant \<times> instant \<times> instant \<Rightarrow> 'st policy_tester" where
  "executor_tester p actions clock pol st = (case clock of (start, ended, base) \<Rightarrow>
     (case Executor_Attempt p (executor_withDefaults \<lparr> dc_BatchLimit = 0, dc_BaseBackoff = 0, dc_MaxBackoff = 0 \<rparr>) err_Error
        actions start ended base (test_execution pol) st of
        (status, st') \<Rightarrow> ((status, None), st')))"

end
