(* ===== verification/DeliveryGuarantees.thy ===== *)
theory DeliveryGuarantees
  imports EventDelivery
begin

text \<open>
  What the workers of \<^verbatim>\<open>internal/events\<close> guarantee over the PostgreSQL tables: the relay tails the
  committed audit log exactly once per webhook, the dispatcher backs off and gives up after the webhook's
  attempts, a replay sends exactly the events of its window, and the retention worker removes only old
  terminal deliveries.  The contract of tailing a numbered log is the locale \<open>log_tailer\<close>; it is
  interpreted here on the relay.
\<close>

section \<open>Numbered logs\<close>

definition numbered :: "AuditEvent list \<Rightarrow> bool" where
  "numbered es \<longleftrightarrow> (\<forall>i < length es. ae_Seq (es ! i) = int i + 1)"

lemma numbered_after:
  assumes "numbered es"
  shows "filter (\<lambda>e. int m < ae_Seq e) es = drop m es"
proof -
  have "filter (\<lambda>e. int m < ae_Seq e) es = map (nth es) (filter (\<lambda>i. int m < ae_Seq (es ! i)) [0 ..< length es])"
    by (metis (no_types, lifting) filter_map comp_apply filter_cong map_nth)
  also have "filter (\<lambda>i. int m < ae_Seq (es ! i)) [0 ..< length es] = filter (\<lambda>i. m \<le> i) [0 ..< length es]"
    using assms by (intro filter_cong) (auto simp: numbered_def)
  also have "\<dots> = drop m [0 ..< length es]"
  proof (cases "m \<le> length es")
    case True
    then have "[0 ..< length es] = [0 ..< m] @ [m ..< length es]"
      by (metis bot_nat_0.extremum le_Suc_ex upt_add_eq_append)
    then show ?thesis
      by (simp add: filter_empty_conv)
  qed (auto simp: filter_empty_conv)
  finally show ?thesis
    by (metis drop_map map_nth)
qed

lemma max_seq_page:
  assumes "numbered es" "m < length es" "0 < n"
  shows "max_seq (int m) (take n (drop m es)) = int (min (m + n) (length es))"
proof -
  have "max_seq (int m) (take j (drop m es)) = int (m + j)" if "m + j \<le> length es" for j
    using that
  proof (induction j)
    case (Suc j)
    then have "take (Suc j) (drop m es) = take j (drop m es) @ [es ! (m + j)]" "ae_Seq (es ! (m + j)) = int (m + j) + 1"
      using assms(1) by (simp_all add: take_Suc_conv_app_nth numbered_def)
    then show ?case
      using Suc by (simp add: max_seq_def)
  qed (simp add: max_seq_def)
  from this [of n] this [of "length es - m"] show ?thesis
    using assms(2) by (cases "m + n \<le> length es") (auto simp: min_def)
qed

lemma ListEvents_page:
  assumes "numbered (chain_events d c)" "0 \<le> limit"
  shows "ListEvents d c (int m) False limit [] = Inr (take (nat limit) (drop m (chain_events d c)))"
  using assms numbered_after [OF assms(1), of m] by (simp add: ListEvents_def)

lemma chains_ok_numbered: "chains_ok d \<Longrightarrow> numbered (chain_events d c)"
  by (simp add: chains_ok_def chain_valid_def numbered_def)

section \<open>Tailing a log\<close>

text \<open>
  What the relay and the policy consumer share: one call for a chain takes the next page of its log, emits
  what the page gives rise to and advances the chain's cursor past it.
\<close>

locale log_tailer =
  fixes tail :: "string \<Rightarrow> 's \<Rightarrow> 's" and good :: "'s \<Rightarrow> bool" and log :: "'s \<Rightarrow> string \<Rightarrow> 'e list"
    and cursor :: "'s \<Rightarrow> string \<Rightarrow> nat" and out :: "'s \<Rightarrow> string \<Rightarrow> 'o list" and emit :: "'s \<Rightarrow> 'e list \<Rightarrow> 'o list"
    and limit :: nat
  assumes emit_append: "emit s (xs @ ys) = emit s xs @ emit s ys"
    and tail_good: "good s \<Longrightarrow> cursor s c \<le> length (log s c) \<Longrightarrow> good (tail c s)"
    and tail_log: "good s \<Longrightarrow> cursor s c \<le> length (log s c) \<Longrightarrow> log (tail c s) = log s"
    and tail_emit: "good s \<Longrightarrow> cursor s c \<le> length (log s c) \<Longrightarrow> emit (tail c s) = emit s"
    and tail_cursor: "good s \<Longrightarrow> cursor s c \<le> length (log s c) \<Longrightarrow>
      cursor (tail c s) c' = (if c' = c then min (cursor s c + limit) (length (log s c)) else cursor s c')"
    and tail_out: "good s \<Longrightarrow> cursor s c \<le> length (log s c) \<Longrightarrow>
      out (tail c s) c' = (if c' = c then out s c @ emit s (take limit (drop (cursor s c) (log s c))) else out s c')"
begin

lemma tail_exact:
  assumes "good s" "\<And>c. cursor s c \<le> length (log s c)" "\<And>c. out s c = emit s (take (cursor s c) (log s c))"
  shows "good (tail x s)" "cursor (tail x s) c \<le> length (log (tail x s) c)"
    "out (tail x s) c = emit (tail x s) (take (cursor (tail x s) c) (log (tail x s) c))"
proof -
  note facts = tail_good [OF assms(1,2)] tail_log [OF assms(1,2)] tail_emit [OF assms(1,2)]
    tail_cursor [OF assms(1,2)] tail_out [OF assms(1,2)]
  show "good (tail x s)" "cursor (tail x s) c \<le> length (log (tail x s) c)"
    using assms(2) by (simp_all add: facts)
  have "take (min (cursor s x + limit) (length (log s x))) (log s x) =
      take (cursor s x) (log s x) @ take limit (drop (cursor s x) (log s x))"
    by (simp add: take_add flip: take_take)
  then show "out (tail x s) c = emit (tail x s) (take (cursor (tail x s) c) (log (tail x s) c))"
    using assms(3) by (simp add: facts emit_append)
qed

lemma tails_exact:
  assumes "good s" "\<And>c. cursor s c \<le> length (log s c)" "\<And>c. out s c = emit s (take (cursor s c) (log s c))"
  shows "good (fold tail cs s)" "cursor (fold tail cs s) c \<le> length (log (fold tail cs s) c)"
    "out (fold tail cs s) c = emit (fold tail cs s) (take (cursor (fold tail cs s) c) (log (fold tail cs s) c))"
    "log (fold tail cs s) = log s" "emit (fold tail cs s) = emit s"
proof (atomize (full), use assms in \<open>induction cs arbitrary: s\<close>)
  case (Cons x cs)
  note next_state = tail_exact [OF Cons.prems]
  show ?case
    using Cons.IH [OF next_state, of x] tail_log [OF Cons.prems(1,2), of x] tail_emit [OF Cons.prems(1,2), of x]
    unfolding fold_simps comp_apply by metis
qed simp

text \<open>A pass that visits a chain brings its cursor a page nearer the end of its log.\<close>

lemma tails_mono:
  assumes "good s" "\<And>c. cursor s c \<le> length (log s c)"
  shows "cursor s c \<le> cursor (fold tail cs s) c \<and> good (fold tail cs s) \<and> log (fold tail cs s) = log s \<and>
    (\<forall>c. cursor (fold tail cs s) c \<le> length (log s c))"
  using assms
proof (induction cs arbitrary: s)
  case (Cons x cs)
  note facts = tail_good [OF Cons.prems] tail_log [OF Cons.prems] tail_cursor [OF Cons.prems]
  have "cursor s c \<le> cursor (tail x s) c" "\<And>c. cursor (tail x s) c \<le> length (log (tail x s) c)"
    using Cons.prems(2) by (simp_all add: facts)
  then show ?case
    using Cons.IH [of "tail x s"] facts(1,2) by (fastforce intro: order.trans)
qed simp

lemma tails_progress:
  assumes "good s" "\<And>c. cursor s c \<le> length (log s c)" "c \<in> set cs"
  shows "min (cursor s c + limit) (length (log s c)) \<le> cursor (fold tail cs s) c"
proof -
  obtain as bs where cs: "cs = as @ c # bs"
    using split_list [OF assms(3)] by blast
  define s1 where "s1 = fold tail as s"
  have s1: "cursor s c \<le> cursor s1 c" "good s1" "log s1 = log s" "\<And>c. cursor s1 c \<le> length (log s1 c)"
    using tails_mono [OF assms(1,2), of c as] by (simp_all add: s1_def)
  have "good (tail c s1)" "\<And>x. cursor (tail c s1) x \<le> length (log (tail c s1) x)"
    using s1 tail_good [OF s1(2,4)] tail_log [OF s1(2,4)] tail_cursor [OF s1(2,4)] by simp_all
  from tails_mono [OF this, of c bs] have "cursor (tail c s1) c \<le> cursor (fold tail cs s) c"
    by (simp add: cs s1_def)
  then show ?thesis
    using s1(1,3) tail_cursor [OF s1(2,4), of c c] by (simp add: min_def split: if_splits)
qed

end

section \<open>The relay tails the audit log\<close>

lemma event_deliveries_ids:
  "map dl_ID (event_deliveries newID now ev ws k) = map newID [k ..< k + length (event_deliveries newID now ev ws k)]"
proof (induction newID now ev ws k rule: event_deliveries.induct)
  case (2 newID now ev w ws k)
  have "[k ..< k + Suc n] = k # [Suc k ..< Suc k + n]" for n
    by (simp add: upt_conv_Cons del: upt_Suc)
  then show ?case
    using 2 by (simp add: new_delivery_def del: upt_Suc)
qed simp

lemma batch_deliveries_ids:
  "map dl_ID (batch_deliveries newID now subs evs k) = map newID [k ..< k + length (batch_deliveries newID now subs evs k)]"
proof (induction newID now subs evs k rule: batch_deliveries.induct)
  case (2 newID now subs a evs k)
  let ?ds = "event_deliveries newID now (eventFrom a) subs k"
  have "[k ..< k + (length ?ds + n)] = [k ..< k + length ?ds] @ [k + length ?ds ..< k + length ?ds + n]" for n
    by (metis add.assoc le_add1 upt_add_eq_append)
  then show ?case
    using 2 [OF refl] event_deliveries_ids [of newID now "eventFrom a" subs k] by (simp add: Let_def)
qed simp

lemma event_deliveries_view:
  "map (\<lambda>d. (dl_WebhookID d, dl_Event d)) (event_deliveries newID now ev ws k) =
     map (\<lambda>w. (wh_ID w, ev)) (filter (\<lambda>w. Webhook_Matches w ev) ws)"
  by (induction newID now ev ws k rule: event_deliveries.induct) (auto simp: new_delivery_def)

definition matched :: "Webhook list \<Rightarrow> AuditEvent list \<Rightarrow> (string \<times> Event) list" where
  "matched subs evs = concat (map (\<lambda>a. map (\<lambda>w. (wh_ID w, eventFrom a)) (filter (\<lambda>w. Webhook_Matches w (eventFrom a)) subs)) evs)"

lemma batch_deliveries_view:
  "map (\<lambda>d. (dl_WebhookID d, dl_Event d)) (batch_deliveries newID now subs evs k) = matched subs evs"
  by (induction newID now subs evs k rule: batch_deliveries.induct) (auto simp: Let_def event_deliveries_view matched_def)

text \<open>Rows with new ids are all inserted.\<close>

lemma enqueue_fresh:
  "distinct (map dl_ID ds) \<Longrightarrow> dl_ID ` set ds \<inter> dl_ID ` set rows = {} \<Longrightarrow>
     foldl (enqueue_row pg now) rows ds = rows @ map (stored pg now) ds"
proof (induction ds arbitrary: rows)
  case (Cons d ds)
  have "enqueue_row pg now rows d = rows @ [stored pg now d]"
    using Cons.prems(2) by (simp add: enqueue_row_def)
  moreover have "dl_ID (stored pg now d) = dl_ID d"
    by (simp add: stored_def)
  ultimately show ?case
    using Cons.prems by (simp, subst Cons.IH) auto
qed simp

definition stored_event :: "pg \<Rightarrow> Event \<Rightarrow> Event" where
  "stored_event pg ev = ev\<lparr> ge_OccurredAt := pg_timestamptz pg (ge_OccurredAt ev) \<rparr>"

definition relayed :: "pg \<Rightarrow> Webhook list \<Rightarrow> AuditEvent list \<Rightarrow> (string \<times> Event) list" where
  "relayed pg subs evs = map (\<lambda>(w, ev). (w, stored_event pg ev)) (matched subs evs)"

definition delivered_pairs :: "hooks \<Rightarrow> string \<Rightarrow> (string \<times> Event) list" where
  "delivered_pairs h c = map (\<lambda>d. (dl_WebhookID d, dl_Event d)) (filter (\<lambda>d. ge_ChainID (dl_Event d) = c) (t_webhook_delivery h))"

text \<open>The ids in the table were drawn earlier, and the subscribers are the enabled webhooks.\<close>

definition relay_good :: "(nat \<Rightarrow> string) \<Rightarrow> Webhook list \<Rightarrow> nat \<times> db \<times> hooks \<Rightarrow> bool" where
  "relay_good newID subs = (\<lambda>(k, d, h). inj newID \<and> (\<forall>c. numbered (chain_events d c)) \<and> ListEnabled h = subs \<and>
     dl_ID ` set (t_webhook_delivery h) \<subseteq> newID ` {..< k} \<and> (\<forall>c. 0 \<le> GetCursor c h))"

lemma GetCursor_SetCursor: "GetCursor c' (SetCursor c n h) = (if c' = c then n else GetCursor c' h)"
  by (simp add: GetCursor_def SetCursor_def update_conv')

lemma tailChain_idle:
  assumes "relay_good newID subs (k, d, h)" "nat (GetCursor c h) = length (chain_events d c)"
  shows "tailChain (pg_events pg now) (int (Suc L)) newID t subs c (k, d, h) = (k, d, h)"
proof -
  have num: "numbered (chain_events d c)" and "0 \<le> GetCursor c h"
    using assms(1) by (simp_all add: relay_good_def)
  then have cur: "GetCursor c h = int (length (chain_events d c))"
    using assms(2) by simp
  show ?thesis
    using ListEvents_page [OF num, of "int (Suc L)" "length (chain_events d c)"]
    by (simp add: tailChain_def pg_events_def cur del: of_nat_Suc)
qed

lemma tailChain_page:
  assumes good: "relay_good newID subs (k, d, h)" and m: "nat (GetCursor c h) = m" "m < length (chain_events d c)"
    and page: "page = take (Suc L) (drop m (chain_events d c))" and ds: "ds = batch_deliveries newID t subs page k"
  shows "tailChain (pg_events pg now) (int (Suc L)) newID t subs c (k, d, h) =
     (k + length ds, d, SetCursor c (int (min (m + Suc L) (length (chain_events d c))))
        (h\<lparr> t_webhook_delivery := t_webhook_delivery h @ map (stored pg now) ds \<rparr>))"
proof -
  have num: "numbered (chain_events d c)" and "0 \<le> GetCursor c h" and inj: "inj newID"
      and old: "dl_ID ` set (t_webhook_delivery h) \<subseteq> newID ` {..< k}"
    using good by (simp_all add: relay_good_def)
  then have cur: "GetCursor c h = int m"
    using m(1) by simp
  have list: "ListEvents d c (int m) False (int (Suc L)) [] = Inr page"
    using ListEvents_page [OF num, of "int (Suc L)" m] page by (simp del: of_nat_Suc)
  have max: "max_seq (int m) page = int (min (m + Suc L) (length (chain_events d c)))"
    unfolding page by (rule max_seq_page [OF num m(2)]) simp
  have ids: "map dl_ID ds = map newID [k ..< k + length ds]"
    unfolding ds by (rule batch_deliveries_ids)
  have "distinct (map dl_ID ds)"
    unfolding ids using inj by (simp add: distinct_map inj_def inj_on_def)
  moreover have "dl_ID ` set ds = newID ` {k ..< k + length ds}"
    by (metis ids image_set set_upt)
  moreover from this have "dl_ID ` set ds \<inter> dl_ID ` set (t_webhook_delivery h) = {}"
    using old inj by (auto simp: inj_eq)
  ultimately have "Enqueue pg now ds h = h\<lparr> t_webhook_delivery := t_webhook_delivery h @ map (stored pg now) ds \<rparr>"
    by (simp add: Enqueue_def enqueue_fresh)
  moreover have "page \<noteq> []" "m < min (m + Suc L) (length (chain_events d c))"
    using m(2) page by simp_all
  ultimately show ?thesis
    using list max ds by (simp add: tailChain_def pg_events_def cur Let_def del: of_nat_Suc)
qed


lemma chain_events_chain: "a \<in> set (chain_events d c) \<Longrightarrow> ae_ChainID a = c"
  by (simp add: chain_events_def)

lemma matched_chain: "(w, ev) \<in> set (matched subs evs) \<Longrightarrow> \<exists>a \<in> set evs. ev = eventFrom a"
  by (auto simp: matched_def)

lemma delivered_pairs_append:
  assumes "\<And>d. d \<in> set ds \<Longrightarrow> ge_ChainID (dl_Event d) = c"
  shows "delivered_pairs (h\<lparr> t_webhook_delivery := t_webhook_delivery h @ map (stored pg now) ds \<rparr>) c' =
    (if c' = c then delivered_pairs h c @ map (\<lambda>(w, ev). (w, stored_event pg ev)) (map (\<lambda>d. (dl_WebhookID d, dl_Event d)) ds)
     else delivered_pairs h c')"
proof -
  have same: "ge_ChainID (dl_Event (stored pg now d)) = ge_ChainID (dl_Event d)" for d
    by (simp add: stored_def)
  then have "filter (\<lambda>d. ge_ChainID (dl_Event d) = c') (map (stored pg now) ds) = (if c' = c then map (stored pg now) ds else [])"
    using assms by (auto simp: filter_map filter_empty_conv filter_id_conv)
  then show ?thesis
    by (auto simp: delivered_pairs_def stored_def stored_event_def)
qed

abbreviation relay_cursor :: "nat \<times> db \<times> hooks \<Rightarrow> string \<Rightarrow> nat" where
  "relay_cursor s c \<equiv> nat (GetCursor c (snd (snd s)))"

lemma rows_frame [simp]: "ListEnabled (h\<lparr> t_webhook_delivery := rows \<rparr>) = ListEnabled h"
  "GetCursor c (h\<lparr> t_webhook_delivery := rows \<rparr>) = GetCursor c h"
  by (simp_all add: ListEnabled_def GetCursor_def)

lemma SetCursor_frame [simp]: "t_webhook_delivery (SetCursor c n h) = t_webhook_delivery h" "ListEnabled (SetCursor c n h) = ListEnabled h"
  "delivered_pairs (SetCursor c n h) = delivered_pairs h"
  by (auto simp: SetCursor_def ListEnabled_def delivered_pairs_def)

interpretation relay: log_tailer "\<lambda>c. tailChain (pg_events pg now) (int (Suc L)) newID (clock c) subs c" "relay_good newID subs"
    "\<lambda>s c. chain_events (fst (snd s)) c" relay_cursor "\<lambda>s c. delivered_pairs (snd (snd s)) c" "\<lambda>s. relayed pg subs" "Suc L"
  for pg now L newID clock subs
proof
  fix s c c'
  assume good: "relay_good newID subs s" and le: "relay_cursor s c \<le> length (chain_events (fst (snd s)) c)"
  obtain k d h where s: "s = (k, d, h)"
    by (metis surj_pair)
  define m where "m = nat (GetCursor c h)"
  define page where "page = take (Suc L) (drop m (chain_events d c))"
  define ds where "ds = batch_deliveries newID (clock c) subs page k"
  let ?s' = "tailChain (pg_events pg now) (int (Suc L)) newID (clock c) subs c s"
  let ?h = "h\<lparr> t_webhook_delivery := t_webhook_delivery h @ map (stored pg now) ds \<rparr>"
  have view: "map (\<lambda>d. (dl_WebhookID d, dl_Event d)) ds = matched subs page"
    unfolding ds_def by (rule batch_deliveries_view)
  have chain: "ge_ChainID (dl_Event x) = c" if "x \<in> set ds" for x
  proof -
    have "(dl_WebhookID x, dl_Event x) \<in> set (matched subs page)"
      using that view by (metis (no_types, lifting) image_eqI image_set)
    then obtain a where "a \<in> set page" "dl_Event x = eventFrom a"
      using matched_chain by blast
    then show ?thesis
      using chain_events_chain [of a d c] by (auto simp: page_def eventFrom_def dest!: in_set_takeD in_set_dropD)
  qed
  consider (idle) "m = length (chain_events d c)" "?s' = (k, d, h)"
    | (page) "m < length (chain_events d c)" "?s' = (k + length ds, d, SetCursor c (int (min (m + Suc L) (length (chain_events d c)))) ?h)"
    using tailChain_idle [of newID subs k d h c] tailChain_page [of newID subs k d h c m page L ds "clock c"] good le
    unfolding s m_def page_def ds_def by (fastforce simp del: of_nat_Suc)
  note cases = this
  show "relay_good newID subs ?s'"
    using cases
  proof cases
    case page
    have ids: "dl_ID ` set ds = newID ` {k ..< k + length ds}"
      unfolding ds_def by (metis batch_deliveries_ids image_set set_upt)
    have "dl_ID ` set (t_webhook_delivery h @ map (stored pg now) ds) \<subseteq> newID ` {..< k} \<union> dl_ID ` set ds"
      using good by (auto simp: s relay_good_def stored_def)
    also have "\<dots> \<subseteq> newID ` {..< k + length ds}"
      unfolding ids by auto
    finally show ?thesis
      using good unfolding page(2) by (simp add: s relay_good_def GetCursor_SetCursor)
  qed (use good in \<open>simp add: s\<close>)
  show "(\<lambda>c. chain_events (fst (snd ?s')) c) = (\<lambda>c. chain_events (fst (snd s)) c)"
    using cases by cases (simp_all add: s)
  show "relay_cursor ?s' c' = (if c' = c then min (relay_cursor s c + Suc L) (length (chain_events (fst (snd s)) c)) else relay_cursor s c')"
    using cases
  proof cases
    case page
    show ?thesis
      unfolding page(2) by (simp add: s m_def GetCursor_SetCursor del: of_nat_Suc)
  qed (simp add: s m_def)
  have pairs: "delivered_pairs ?h x = (if x = c then delivered_pairs h c @ relayed pg subs page else delivered_pairs h x)" for x
    using delivered_pairs_append [OF chain] by (simp add: relayed_def view)
  show "delivered_pairs (snd (snd ?s')) c' = (if c' = c then delivered_pairs (snd (snd s)) c @
      relayed pg subs (take (Suc L) (drop (relay_cursor s c) (chain_events (fst (snd s)) c))) else delivered_pairs (snd (snd s)) c')"
    using cases
  proof cases
    case idle
    then show ?thesis
      by (simp add: s m_def relayed_def matched_def)
  next
    case page
    show ?thesis
      unfolding page(2) by (simp add: pairs) (simp add: s page_def m_def)
  qed
qed (simp_all add: relayed_def matched_def)


section \<open>Commits, relay passes and delivery passes interleaved\<close>

text \<open>
  The control plane commits, the relay passes and the dispatcher passes, in any order and with any clock,
  cancellation and endpoint behaviour; the registry \<open>ws\<close> of webhooks stays as it is.
\<close>

inductive flow :: "pg \<Rightarrow> (nat \<Rightarrow> string) \<Rightarrow> Webhook list \<Rightarrow> nat \<times> db \<times> hooks \<Rightarrow> bool" for pg newID ws where
  start: "reachable pg d \<Longrightarrow> flow pg newID ws (0, d, empty_hooks\<lparr> t_webhook := ws \<rparr>)"
| commit: "flow pg newID ws (k, d, h) \<Longrightarrow> step pg d d' \<Longrightarrow> flow pg newID ws (k, d', h)"
| relay_pass: "flow pg newID ws s \<Longrightarrow> flow pg newID ws (Relay_RunOnce (pg_events pg now) limit cancelled newID clock s)"
| dispatch_pass: "flow pg newID ws (k, dh) \<Longrightarrow>
    flow pg newID ws (k, Dispatcher_RunOnce (pg_events pg now) cfg zone cancelled_at client clock_at t dh)"

definition enabled :: "Webhook list \<Rightarrow> Webhook list" where
  "enabled ws = sort_key wh_CreatedAt (filter wh_Enabled ws)"

definition flow_inv :: "pg \<Rightarrow> (nat \<Rightarrow> string) \<Rightarrow> Webhook list \<Rightarrow> nat \<times> db \<times> hooks \<Rightarrow> bool" where
  "flow_inv pg newID ws s \<longleftrightarrow> reachable pg (fst (snd s)) \<and> t_webhook (snd (snd s)) = ws \<and> relay_good newID (enabled ws) s \<and>
     (\<forall>c. relay_cursor s c \<le> length (chain_events (fst (snd s)) c)) \<and>
     (\<forall>c. delivered_pairs (snd (snd s)) c = relayed pg (enabled ws) (take (relay_cursor s c) (chain_events (fst (snd s)) c)))"

lemma relay_chains_fold:
  "relay_chains p limit cancelled newID now subs cs s =
     fold (\<lambda>c. tailChain p limit newID (now c) subs c) (takeWhile (\<lambda>c. \<not> cancelled c) cs) s"
  by (induction p limit cancelled newID now subs cs s rule: relay_chains.induct) auto

lemma relay_limit_Suc: "relay_limit limit = int (Suc (nat (relay_limit limit) - 1))"
  by (simp add: relay_limit_def)

lemma tailChain_webhooks:
  "t_webhook (snd (snd (tailChain (pg_events pg now) limit newID t subs c s))) = t_webhook (snd (snd s)) \<and>
   fst (snd (tailChain (pg_events pg now) limit newID t subs c s)) = fst (snd s)"
  by (cases s) (auto simp: tailChain_def pg_events_def Let_def Enqueue_def SetCursor_def split: sum.splits)

lemma fold_tailChain_webhooks:
  "t_webhook (snd (snd (fold (\<lambda>c. tailChain (pg_events pg now) limit newID (clock c) subs c) cs s))) = t_webhook (snd (snd s)) \<and>
   fst (snd (fold (\<lambda>c. tailChain (pg_events pg now) limit newID (clock c) subs c) cs s)) = fst (snd s)"
  by (induction cs arbitrary: s) (simp_all add: tailChain_webhooks)

lemma Relay_RunOnce_fold:
  assumes "flow_inv pg newID ws s"
  shows "Relay_RunOnce (pg_events pg now) limit cancelled newID clock s =
    (if enabled ws = [] then s
     else fold (\<lambda>c. tailChain (pg_events pg now) (int (Suc (nat (relay_limit limit) - 1))) newID (clock c) (enabled ws) c)
       (takeWhile (\<lambda>c. \<not> cancelled c) (ListChainIDs (fst (snd s)))) s)"
proof -
  obtain k d h where s: "s = (k, d, h)"
    by (metis surj_pair)
  have "ListEnabled h = enabled ws"
    using assms by (simp add: flow_inv_def s ListEnabled_def enabled_def)
  then show ?thesis
    unfolding relay_limit_Suc [of limit, symmetric] by (simp add: Relay_RunOnce_def s pg_events_def relay_chains_fold)
qed

lemma relay_pass_inv:
  assumes "flow_inv pg newID ws s"
  shows "flow_inv pg newID ws (Relay_RunOnce (pg_events pg now) limit cancelled newID clock s)"
proof (cases "enabled ws = []")
  case True
  then show ?thesis
    using assms by (simp add: Relay_RunOnce_fold [OF assms])
next
  case False
  have inv: "relay_good newID (enabled ws) s" "\<And>c. relay_cursor s c \<le> length (chain_events (fst (snd s)) c)"
      "\<And>c. delivered_pairs (snd (snd s)) c = relayed pg (enabled ws) (take (relay_cursor s c) (chain_events (fst (snd s)) c))"
    using assms by (simp_all add: flow_inv_def)
  note after = relay.tails_exact(1-4) [where cs = "takeWhile (\<lambda>c. \<not> cancelled c) (ListChainIDs (fst (snd s)))" and now = now
      and L = "nat (relay_limit limit) - 1" and clock = clock, OF inv]
  show ?thesis
    unfolding Relay_RunOnce_fold [OF assms] flow_inv_def using after assms fold_tailChain_webhooks False
    by (simp add: flow_inv_def del: of_nat_Suc)
qed

text \<open>A dispatcher pass changes no delivery's id, webhook or event.\<close>

definition row_key :: "Delivery \<Rightarrow> string \<times> string \<times> Event" where
  "row_key d = (dl_ID d, dl_WebhookID d, dl_Event d)"

definition same_rows :: "hooks \<Rightarrow> hooks \<Rightarrow> bool" where
  "same_rows h h' \<longleftrightarrow> t_webhook h' = t_webhook h \<and> t_webhook_cursor h' = t_webhook_cursor h \<and>
     map row_key (t_webhook_delivery h') = map row_key (t_webhook_delivery h)"

lemma MarkResult_same_rows:
  "snd (ep_MarkResult (pg_events pg now) i s r c la na (d, h)) = (d', h') \<Longrightarrow> d' = d \<and> same_rows h h'"
  by (auto simp: pg_events_def committed_def MarkResult_def same_rows_def row_key_def split: if_splits)

lemma attempt_same_rows:
  "snd (attempt (pg_events pg now) cfg zone client t del (d, h)) = (d', h') \<Longrightarrow> d' = d \<and> same_rows h h'"
  unfolding attempt_def
  by (auto simp: Let_def MarkResult_same_rows split: sum.splits prod.splits if_splits) (simp_all add: same_rows_def)

lemma same_rows_trans: "same_rows h h' \<Longrightarrow> same_rows h' h'' \<Longrightarrow> same_rows h h''"
  by (simp add: same_rows_def)

lemma attempt_all_same_rows:
  "attempt_all (pg_events pg now) cfg zone cancelled client clock i ds (d, h) = (d', h') \<Longrightarrow> d' = d \<and> same_rows h h'"
proof (induction ds arbitrary: i h)
  case (Cons x ds)
  obtain d1 h1 where "snd (attempt (pg_events pg now) cfg zone (client i) (clock i) x (d, h)) = (d1, h1)"
    by fastforce
  then show ?case
    using Cons attempt_same_rows same_rows_trans by (fastforce simp: same_rows_def split: if_splits)
qed (simp add: same_rows_def)

lemma Dispatcher_same_rows:
  "Dispatcher_RunOnce (pg_events pg now) cfg zone cancelled client clock t (d, h) = (d', h') \<Longrightarrow> d' = d \<and> same_rows h h'"
  by (auto simp: Dispatcher_RunOnce_def same_rows_def split: sum.splits dest: attempt_all_same_rows)

lemma same_rows_views:
  assumes "same_rows h h'"
  shows "delivered_pairs h' = delivered_pairs h" "GetCursor c h' = GetCursor c h" "ListEnabled h' = ListEnabled h"
    "dl_ID ` set (t_webhook_delivery h') = dl_ID ` set (t_webhook_delivery h)"
proof -
  have rows: "map row_key (t_webhook_delivery h') = map row_key (t_webhook_delivery h)"
    using assms by (simp add: same_rows_def)
  have "delivered_pairs x c = map (\<lambda>(i, w, ev). (w, ev)) (filter (\<lambda>(i, w, ev). ge_ChainID ev = c) (map row_key (t_webhook_delivery x)))" for x c
    by (simp add: delivered_pairs_def row_key_def filter_map comp_def)
  then show "delivered_pairs h' = delivered_pairs h"
    using rows by auto
  have "dl_ID ` set (t_webhook_delivery x) = fst ` set (map row_key (t_webhook_delivery x))" for x
    by (simp add: row_key_def image_image)
  then show "dl_ID ` set (t_webhook_delivery h') = dl_ID ` set (t_webhook_delivery h)"
    using rows by metis
qed (use assms in \<open>simp_all add: same_rows_def GetCursor_def ListEnabled_def\<close>)


lemma flow_invariant:
  assumes "flow pg newID ws s" "pg_exact pg" "inj newID"
  shows "flow_inv pg newID ws s"
  using assms(1)
proof (induction rule: flow.induct)
  case (start d)
  then have "numbered (chain_events d c)" for c
    using reachable_chains_ok assms(2) chains_ok_numbered by blast
  then show ?case
    using start assms(3) by (simp add: flow_inv_def relay_good_def empty_hooks_def ListEnabled_def enabled_def GetCursor_def
        delivered_pairs_def relayed_def matched_def)
next
  case (commit k d h d')
  have reach: "reachable pg d" "reachable pg d'"
    using commit by (auto simp: flow_inv_def intro: reachable.more)
  then have "numbered (chain_events d' c)" for c
    using reachable_chains_ok assms(2) chains_ok_numbered by blast
  moreover have log: "prefix (chain_events d c) (chain_events d' c)" for c
    using steps_prefix [OF steps.one [OF steps.none commit(2)] reach(1)] .
  moreover have "nat (GetCursor c h) \<le> length (chain_events d c)" for c
    using commit by (simp add: flow_inv_def)
  ultimately have "nat (GetCursor c h) \<le> length (chain_events d' c) \<and>
      take (nat (GetCursor c h)) (chain_events d' c) = take (nat (GetCursor c h)) (chain_events d c)" for c
    by (metis prefixE prefix_length_le le_trans take_append diff_is_0_eq take0 append_Nil2)
  then show ?case
    using commit.IH reach \<open>\<And>c. numbered (chain_events d' c)\<close> by (simp add: flow_inv_def relay_good_def)
next
  case (relay_pass s now limit cancelled clock)
  then show ?case
    by (simp add: relay_pass_inv)
next
  case (dispatch_pass k dh now cfg zone cancelled_at client clock_at t)
  obtain d h where dh: "dh = (d, h)"
    by fastforce
  obtain d' h' where run: "Dispatcher_RunOnce (pg_events pg now) cfg zone cancelled_at client clock_at t (d, h) = (d', h')"
    by fastforce
  have same: "d' = d" "same_rows h h'"
    using Dispatcher_same_rows [OF run] by auto
  then have "t_webhook h' = t_webhook h"
    by (simp add: same_rows_def)
  then show ?case
    using dispatch_pass.IH by (simp add: dh run same(1) flow_inv_def relay_good_def same_rows_views [OF same(2)])
qed


definition sample_webhook :: Webhook where
  "sample_webhook = \<lparr> wh_ID = ''w1'', wh_URL = ''http://h'', wh_Secret = ''s'', wh_Enabled = True, wh_Operations = [],
     wh_Resources = [], wh_MaxRetries = 3, wh_CreatedAt = 0, wh_UpdatedAt = 0 \<rparr>"

lemma sample_flow:
  "\<exists>d. flow sample_pg nat_decimal [sample_webhook] (0, d, empty_hooks\<lparr> t_webhook := [sample_webhook] \<rparr>) \<and>
     reachable sample_pg d \<and> chain_events d ''c1'' \<noteq> []"
proof -
  obtain d' where run: "Execute sample_engine 1000 ratify sample_db = (Inr (dims_result ratify 1000 sample_object ratified_plan), d')"
    using sample_execute by blast
  have st: "step sample_pg sample_db d'"
    using step.execute [OF run] .
  have "chain_events d' ''c1'' \<noteq> []"
    using pgx.execute_success [OF reachable_db_inv [OF sample_reachable] run] by (auto simp: ratify_def AuditChainID_def)
  then show ?thesis
    using flow.commit [OF flow.start [OF sample_reachable] st] reachable.more [OF sample_reachable st] by blast
qed



lemma takeWhile_True: "takeWhile (\<lambda>_. True) xs = xs"
  by (induction xs) auto

lemma chains_ok_listed:
  assumes "chains_ok d" "chain_events d c \<noteq> []"
  shows "c \<in> set (ListChainIDs d)"
proof -
  have "ReadChainHead c d \<noteq> None"
    using assms unfolding chains_ok_def by blast
  then show ?thesis
    unfolding ListChainIDs_def ReadChainHead_def by (auto simp: find_Some_iff)
qed

lemma relay_pass_progress:
  assumes "flow_inv pg newID ws s" "enabled ws \<noteq> []" "c \<in> set (ListChainIDs (fst (snd s)))"
    and "s' = Relay_RunOnce (pg_events pg now) limit (\<lambda>_. False) newID clock s"
  shows "flow_inv pg newID ws s' \<and> fst (snd s') = fst (snd s) \<and>
    min (relay_cursor s c + nat (relay_limit limit)) (length (chain_events (fst (snd s)) c)) \<le> relay_cursor s' c"
proof -
  let ?L = "nat (relay_limit limit) - 1"
  have inv: "relay_good newID (enabled ws) s" "\<And>c. relay_cursor s c \<le> length (chain_events (fst (snd s)) c)"
    using assms(1) by (simp_all add: flow_inv_def)
  have s': "s' = fold (\<lambda>c. tailChain (pg_events pg now) (int (Suc ?L)) newID (clock c) (enabled ws) c) (ListChainIDs (fst (snd s))) s"
    using assms(2,4) by (simp add: Relay_RunOnce_fold [OF assms(1)] takeWhile_True del: of_nat_Suc)
  have L: "Suc ?L = nat (relay_limit limit)"
    by (simp add: relay_limit_def)
  have "flow_inv pg newID ws s'"
    unfolding assms(4) by (rule relay_pass_inv [OF assms(1)])
  moreover have "fst (snd s') = fst (snd s)"
    unfolding s' by (rule conjunct2 [OF fold_tailChain_webhooks])
  moreover have "min (relay_cursor s c + nat (relay_limit limit)) (length (chain_events (fst (snd s)) c)) \<le> relay_cursor s' c"
    using relay.tails_progress [where pg = pg and L = ?L and now = now and clock = clock, OF inv assms(3)]
    unfolding L s' .
  ultimately show ?thesis
    by blast
qed



section \<open>Retries\<close>

lemma backoff_bounds:
  assumes "0 < cap"
  shows "0 < backoff base cap retry \<and> backoff base cap retry \<le> cap"
  using assms by (auto simp: backoff_def Let_def)

lemma backoff_exact:
  assumes "0 < base" "base * 2 ^ nat (retry - 1) < 2 ^ 63"
  shows "backoff base cap retry = min cap (base * 2 ^ nat (retry - 1))"
proof -
  have "0 < base * 2 ^ nat (retry - 1)"
    using assms(1) by simp
  then have "int64 (base * 2 ^ nat (retry - 1)) = base * 2 ^ nat (retry - 1)"
    using assms(2) by (intro int64_id) simp_all
  then show ?thesis
    using \<open>0 < base * 2 ^ nat (retry - 1)\<close> by (simp add: backoff_def Let_def min_def)
qed

text \<open>What is left of a product after the wrap-around is still a multiple of a power of two.\<close>

lemma dvd_int64:
  assumes "m \<le> 63"
  shows "2 ^ m dvd int64 x \<longleftrightarrow> 2 ^ m dvd x"
proof -
  have "(2 :: int) ^ m dvd 2 ^ 63" "(2 :: int) ^ m dvd 2 ^ 64"
    using assms by (intro le_imp_power_dvd; linarith)+
  then show ?thesis
    unfolding int64_def by (metis dvd_add_left_iff dvd_diff_right_iff dvd_mod_iff dvd_diff_left_iff)
qed

lemma dvd_int64_bound:
  assumes "m \<le> 63" "2 ^ m dvd x" "0 < int64 x"
  shows "2 ^ m \<le> int64 x"
  using assms by (simp add: zdvd_imp_le dvd_int64)

text \<open>C24: with the default configuration the delay before a retry is the base delay of five seconds doubled at
  each retry and capped at an hour, for every number of retries: the wrapped shifts never yield a shorter delay.\<close>

theorem default_backoff_exact:
  "backoff (dc_BaseBackoff (withDefaults \<lparr> dc_BatchLimit = 0, dc_BaseBackoff = 0, dc_MaxBackoff = 0 \<rparr>))
     (dc_MaxBackoff (withDefaults \<lparr> dc_BatchLimit = 0, dc_BaseBackoff = 0, dc_MaxBackoff = 0 \<rparr>)) (int n + 1) =
   min Hour (5 * Second * 2 ^ n)"
proof -
  have big: "int64 (5 * Second * 2 ^ n) \<le> 0 \<or> Hour < int64 (5 * Second * 2 ^ n)" if "31 \<le> n"
  proof (cases "n = 31 \<or> n = 32")
    case True
    then show ?thesis
      by (auto simp: int64_def)
  next
    case False
    have "(2 :: int) ^ 42 dvd 2 ^ (9 + n)"
      using False that by (intro le_imp_power_dvd) simp
    also have "(2 :: int) ^ (9 + n) dvd 5 * Second * 2 ^ n"
    proof -
      have "5 * Second * 2 ^ n = 9765625 * (2 :: int) ^ (9 + n)"
        by (simp add: power_add)
      then show ?thesis
        by (metis dvd_triv_right)
    qed
    finally have "0 < int64 (5 * Second * 2 ^ n) \<Longrightarrow> 2 ^ 42 \<le> int64 (5 * Second * 2 ^ n)"
      by (intro dvd_int64_bound) simp_all
    then show ?thesis
      by force
  qed
  have cap: "Hour \<le> 5 * Second * 2 ^ n" if "31 \<le> n"
  proof -
    have "(2 :: int) ^ 31 \<le> 2 ^ n"
      using that by (intro power_increasing) simp_all
    then show ?thesis
      by simp
  qed
  have small: "5 * Second * 2 ^ n < (2 :: int) ^ 63" if "n < 31"
  proof -
    have "(2 :: int) ^ n \<le> 2 ^ 30"
      using that by (intro power_increasing) simp_all
    then show ?thesis
      by simp
  qed
  show ?thesis
  proof (cases "n < 31")
    case True
    then show ?thesis
      using backoff_exact [of "5 * Second" "int n + 1" Hour] small by (simp add: withDefaults_def)
  next
    case False
    then have "31 \<le> n"
      by simp
    then show ?thesis
      using big cap by (simp add: withDefaults_def backoff_def Let_def min_def)
  qed
qed

text \<open>An endpoint that never accepts: the request fails or its status is not one of success.\<close>

definition refuses :: "http_client \<Rightarrow> bool" where
  "refuses client \<longleftrightarrow> (\<forall>r. case client r of Inl er \<Rightarrow> True | Inr code \<Rightarrow> int4 code \<and> \<not> (200 \<le> code \<and> code < 300))"

text \<open>An attempt on a delivery as it is stored.\<close>

definition attempt_stored :: "pg \<Rightarrow> instant \<Rightarrow> DispatcherConfig \<Rightarrow> (instant \<Rightarrow> int) \<Rightarrow> http_client \<Rightarrow> instant \<Rightarrow> string \<Rightarrow> db \<times> hooks \<Rightarrow> db \<times> hooks" where
  "attempt_stored pg now cfg zone client t i s =
     (case GetDelivery i (snd s) of None \<Rightarrow> s | Some del \<Rightarrow> snd (attempt (pg_events pg now) cfg zone client t del s))"

lemma find_map_same:
  assumes "\<And>x. P (f x) \<longleftrightarrow> P x"
  shows "find P (map f xs) = map_option f (find P xs)"
  by (induction xs) (simp_all add: assms)

lemma attempt_refused:
  assumes "GetDelivery i h = Some del" "Webhook_Get (dl_WebhookID del) h = Inr wh" "refuses client"
    and "MarshalTime zone (ge_OccurredAt (dl_Event del)) = Inr bs" "0 \<le> dl_RetryCount del" "dl_RetryCount del < 2 ^ 31 - 1"
    and "attempt_stored pg now cfg zone client t i (d, h) = (d', h')"
  shows "d' = d \<and> t_webhook h' = t_webhook h \<and>
    (\<exists>del'. GetDelivery i h' = Some del' \<and> dl_WebhookID del' = dl_WebhookID del \<and> dl_Event del' = dl_Event del \<and>
      dl_RetryCount del' = dl_RetryCount del + 1 \<and>
      dl_Status del' = (if dl_RetryCount del + 1 < wh_MaxRetries wh then StatusFailed else StatusDeadLetter))"
proof -
  have i: "dl_ID del = i"
    using assms(1) by (auto simp: GetDelivery_def find_Some_iff)
  obtain payload ts where build: "BuildPayload zone del t = Inr (payload, ts)"
    using assms(4) by (auto simp: BuildPayload_def Let_def)
  obtain code derr where post: "post client (wh_URL wh) del ts (Sign (wh_Secret wh) ts i payload) payload = (code, derr)"
    by fastforce
  then have refused: "\<not> (derr = None \<and> 200 \<le> code \<and> code < 300)" "int4 code"
    using assms(3) by (auto simp: post_def refuses_def int4_def split: sum.splits)
  have retry: "int64 (dl_RetryCount del + 1) = dl_RetryCount del + 1" "int4 (dl_RetryCount del + 1)"
    using assms(5,6) by (auto intro!: int64_id simp: int4_def)
  have "GetDelivery i (h\<lparr> t_webhook_delivery := map (\<lambda>x. if dl_ID x = i then f x else x) (t_webhook_delivery h) \<rparr>) = Some (f del)"
      if "\<And>x. dl_ID (f x) = dl_ID x" for f
    using assms(1) i that by (simp add: GetDelivery_def find_map_same if_distrib)
  then show ?thesis
    using assms(7) refused retry
    by (auto simp: attempt_stored_def assms(1,2) attempt_def build post i pg_events_def committed_def MarkResult_def
        Let_def split: if_splits)
qed

lemma attempts_refused:
  assumes "GetDelivery i h = Some del" "Webhook_Get (dl_WebhookID del) h = Inr wh" "dl_RetryCount del = 0"
    and "MarshalTime zone (ge_OccurredAt (dl_Event del)) = Inr bs" "\<And>j. refuses (client j)"
    and "wh_MaxRetries wh < 2 ^ 31" "int n \<le> max 1 (wh_MaxRetries wh)"
    and "fold (\<lambda>j. attempt_stored pg now cfg zone (client j) (clock j) i) [0 ..< n] (d, h) = (d', h')"
  shows "d' = d \<and> t_webhook h' = t_webhook h \<and>
    (\<exists>del'. GetDelivery i h' = Some del' \<and> dl_WebhookID del' = dl_WebhookID del \<and> dl_Event del' = dl_Event del \<and>
      dl_RetryCount del' = int n \<and>
      (0 < n \<longrightarrow> dl_Status del' = (if int n < max 1 (wh_MaxRetries wh) then StatusFailed else StatusDeadLetter)))"
  using assms(7,8)
proof (induction n arbitrary: d' h')
  case 0
  then show ?case
    using assms(1,3) by simp
next
  case (Suc n)
  obtain d1 h1 where run: "fold (\<lambda>j. attempt_stored pg now cfg zone (client j) (clock j) i) [0 ..< n] (d, h) = (d1, h1)"
    by fastforce
  obtain del1 where del1: "d1 = d" "t_webhook h1 = t_webhook h" "GetDelivery i h1 = Some del1"
      "dl_WebhookID del1 = dl_WebhookID del" "dl_Event del1 = dl_Event del" "dl_RetryCount del1 = int n"
    using Suc.IH [OF _ run] Suc.prems(1) by auto
  have hook: "Webhook_Get (dl_WebhookID del1) h1 = Inr wh"
    using assms(2) del1(2,4) by (simp add: Webhook_Get_def)
  have marshal: "MarshalTime zone (ge_OccurredAt (dl_Event del1)) = Inr bs"
    using assms(4) del1(5) by simp
  have "attempt_stored pg now cfg zone (client n) (clock n) i (d, h1) = (d', h')"
    using Suc.prems(2) run del1(1) by simp
  moreover have "int n < 2 ^ 31 - 1" "int n + 1 < wh_MaxRetries wh \<longleftrightarrow> int (Suc n) < max 1 (wh_MaxRetries wh)"
    using Suc.prems(1) assms(6) by auto
  ultimately show ?case
    using attempt_refused [OF del1(3) hook assms(5) [of n] marshal, of pg now cfg "clock n" d d' h'] del1 by (auto simp del: of_nat_Suc)
qed

text \<open>C21: a delivery whose endpoint keeps refusing is retried and then given up: the attempt that brings its retry
  count to the webhook's maximum (and at least one attempt) moves it to the dead letters, every earlier one leaves it
  failed with a further retry scheduled, and each attempt counts as exactly one retry.\<close>

theorem delivery_gives_up:
  assumes "GetDelivery i h = Some del" "Webhook_Get (dl_WebhookID del) h = Inr wh" "dl_RetryCount del = 0"
    and "MarshalTime zone (ge_OccurredAt (dl_Event del)) = Inr bs" "\<And>j. refuses (client j)"
    and "wh_MaxRetries wh < 2 ^ 31" "0 < n" "int n \<le> max 1 (wh_MaxRetries wh)"
    and "fold (\<lambda>j. attempt_stored pg now cfg zone (client j) (clock j) i) [0 ..< n] (d, h) = (d', h')"
  shows "d' = d \<and> (\<exists>del'. GetDelivery i h' = Some del' \<and> dl_RetryCount del' = int n \<and>
    dl_Status del' = (if int n < max 1 (wh_MaxRetries wh) then StatusFailed else StatusDeadLetter))"
  using attempts_refused [OF assms(1-6,8,9)] assms(7) by auto

definition sample_notice :: Event where
  "sample_notice = \<lparr> ge_ChainID = ''c1'', ge_Seq = 1, ge_EventID = ''evt_1'', ge_OperationID = ''op-1'', ge_Operation = ''activation'',
     ge_Actor = ''alice'', ge_CfgID = ''c1'', ge_OccurredAt = 1000 \<rparr>"

text \<open>The webhook of the witness allows three attempts.\<close>

definition sample_queue :: hooks where
  "sample_queue = empty_hooks\<lparr> t_webhook := [sample_webhook], t_webhook_delivery :=
     [new_delivery ''dlv_1'' ''w1'' sample_notice 0] \<rparr>"

theorem delivery_gives_up_witness:
  "\<exists>d' h'. fold (\<lambda>j. attempt_stored sample_pg 0 \<lparr> dc_BatchLimit = 1, dc_BaseBackoff = 5, dc_MaxBackoff = 60 \<rparr> (\<lambda>_. 0)
       (\<lambda>_. Inr 500) (int j) ''dlv_1'') [0 ..< 3] (empty_db, sample_queue) = (d', h') \<and>
     (\<exists>del'. GetDelivery ''dlv_1'' h' = Some del' \<and> dl_RetryCount del' = int 3 \<and> dl_Status del' = StatusDeadLetter)"
proof -
  have hyps: "GetDelivery ''dlv_1'' sample_queue = Some (new_delivery ''dlv_1'' ''w1'' sample_notice 0)"
      "Webhook_Get (dl_WebhookID (new_delivery ''dlv_1'' ''w1'' sample_notice 0)) sample_queue = Inr sample_webhook"
      "dl_RetryCount (new_delivery ''dlv_1'' ''w1'' sample_notice 0) = 0"
    by (simp_all add: sample_queue_def empty_hooks_def new_delivery_def GetDelivery_def Webhook_Get_def sample_webhook_def)
  have "civil 0 = (1970, 1, 1)"
    by code_simp
  then have marshal: "MarshalTime (\<lambda>_. 0) (ge_OccurredAt (dl_Event (new_delivery ''dlv_1'' ''w1'' sample_notice 0))) =
      Inr (''\"'' @ RFC3339Nano 0 1000 @ ''\"'')"
    by (simp add: MarshalTime_def new_delivery_def sample_notice_def Let_def)
  obtain d' h' where run: "fold (\<lambda>j. attempt_stored sample_pg 0 \<lparr> dc_BatchLimit = 1, dc_BaseBackoff = 5, dc_MaxBackoff = 60 \<rparr> (\<lambda>_. 0)
       (\<lambda>_. Inr 500) (int j) ''dlv_1'') [0 ..< 3] (empty_db, sample_queue) = (d', h')"
    by (rule prod.exhaust)
  have side: "refuses (\<lambda>_. Inr 500)" "wh_MaxRetries sample_webhook < 2 ^ 31" "0 < (3 :: nat)"
      "int 3 \<le> max 1 (wh_MaxRetries sample_webhook)" "\<not> int 3 < max 1 (wh_MaxRetries sample_webhook)"
    by (simp_all add: refuses_def int4_def sample_webhook_def)
  show ?thesis
    using delivery_gives_up [OF hyps marshal side(1-4) run] run side(5) by metis
qed

section \<open>Replay\<close>

definition in_replay :: "ReplayJob \<Rightarrow> Webhook \<Rightarrow> AuditEvent \<Rightarrow> bool" where
  "in_replay job wh a \<longleftrightarrow> inWindow (ae_OccurredAt a) (rj_From job) (rj_To job) \<and> Webhook_Matches wh (eventFrom a)"

lemma window_batch_ids:
  "map dl_ID (window_batch newID now job wh evs k) = map newID [k ..< k + length (window_batch newID now job wh evs k)]"
proof (induction newID now job wh evs k rule: window_batch.induct)
  case (2 newID now job wh a evs k)
  have "[k ..< k + Suc n] = k # [Suc k ..< Suc k + n]" for n
    by (simp add: upt_conv_Cons del: upt_Suc)
  then show ?case
    using 2 by (simp add: new_delivery_def del: upt_Suc)
qed simp

definition row_view :: "Delivery \<Rightarrow> string \<times> Event \<times> string" where
  "row_view d = (dl_WebhookID d, dl_Event d, dl_Status d)"

lemma window_batch_view:
  "map row_view (window_batch newID now job wh evs k) =
     map (\<lambda>a. (wh_ID wh, eventFrom a, StatusPending)) (filter (in_replay job wh) evs)"
  by (induction newID now job wh evs k rule: window_batch.induct) (auto simp: new_delivery_def in_replay_def row_view_def)

text \<open>The rows a draw of ids after the \<open>k\<close>-th has added.\<close>

definition fresh_rows :: "(nat \<Rightarrow> string) \<Rightarrow> nat \<Rightarrow> hooks \<Rightarrow> bool" where
  "fresh_rows newID k h \<longleftrightarrow> dl_ID ` set (t_webhook_delivery h) \<subseteq> newID ` {..< k}"

lemma Enqueue_fresh:
  assumes "inj newID" "fresh_rows newID k h" "map dl_ID ds = map newID [k ..< k + length ds]"
  shows "Enqueue pg now ds h = h\<lparr> t_webhook_delivery := t_webhook_delivery h @ map (stored pg now) ds \<rparr>"
    and "fresh_rows newID (k + length ds) (Enqueue pg now ds h)"
proof -
  have ids: "dl_ID ` set ds = newID ` {k ..< k + length ds}"
    by (metis assms(3) image_set set_upt)
  have "distinct (map dl_ID ds)"
    unfolding assms(3) using assms(1) by (simp add: distinct_map inj_def inj_on_def)
  moreover have "dl_ID ` set ds \<inter> dl_ID ` set (t_webhook_delivery h) = {}"
    using ids assms(1,2) by (auto simp: fresh_rows_def inj_eq)
  ultimately show eq: "Enqueue pg now ds h = h\<lparr> t_webhook_delivery := t_webhook_delivery h @ map (stored pg now) ds \<rparr>"
    by (simp add: Enqueue_def enqueue_fresh)
  have "dl_ID ` stored pg now ` set ds = newID ` {k ..< k + length ds}"
    using ids by (simp add: image_image stored_def)
  moreover have "newID ` {..< k} \<subseteq> newID ` {..< k + length ds}" "newID ` {k ..< k + length ds} \<subseteq> newID ` {..< k + length ds}"
    by (rule image_mono, force)+
  ultimately show "fresh_rows newID (k + length ds) (Enqueue pg now ds h)"
    using assms(2) unfolding eq fresh_rows_def by (simp add: image_Un)
qed

definition replayed :: "pg \<Rightarrow> ReplayJob \<Rightarrow> Webhook \<Rightarrow> AuditEvent list \<Rightarrow> (string \<times> Event \<times> string) list" where
  "replayed pg job wh evs = map (\<lambda>a. (wh_ID wh, stored_event pg (eventFrom a), StatusPending)) (filter (in_replay job wh) evs)"

lemma window_batch_stored:
  "map row_view (map (stored pg now) (window_batch newID t job wh evs k)) = replayed pg job wh evs"
proof -
  have eq: "map row_view (map (stored pg now) ds) = map (\<lambda>(w, ev, s). (w, stored_event pg ev, s)) (map row_view ds)" for ds
    by (simp add: row_view_def stored_def stored_event_def)
  show ?thesis
    unfolding eq window_batch_view by (simp add: replayed_def)
qed

text \<open>\<open>adds n k vs h k' h'\<close>: the rows \<open>vs\<close> were added under the ids drawn from \<open>k\<close> to \<open>k'\<close>.\<close>

definition adds :: "(nat \<Rightarrow> string) \<Rightarrow> (string \<times> Event \<times> string) list \<Rightarrow> nat \<Rightarrow> hooks \<Rightarrow> nat \<Rightarrow> hooks \<Rightarrow> bool" where
  "adds newID vs k h k' h' \<longleftrightarrow> fresh_rows newID k' h' \<and>
     (\<exists>ds. h' = h\<lparr> t_webhook_delivery := t_webhook_delivery h @ ds \<rparr> \<and> map row_view ds = vs)"

lemma adds_refl: "fresh_rows newID k h \<Longrightarrow> adds newID [] k h k h"
  by (simp add: adds_def)

lemma adds_trans: "adds newID vs k h k' h' \<Longrightarrow> adds newID ws k' h' k'' h'' \<Longrightarrow> adds newID (vs @ ws) k h k'' h''"
  unfolding adds_def by force

lemma adds_batch:
  assumes "inj newID" "fresh_rows newID k h" "batch = window_batch newID t job wh evs k"
  shows "(if 0 < length batch then ep_Enqueue (pg_events pg now) batch (d, h) else (Inr (), (d, h))) = (Inr (), (d, Enqueue pg now batch h))"
    and "adds newID (replayed pg job wh evs) k h (k + length batch) (Enqueue pg now batch h)"
    and "length batch = length (replayed pg job wh evs)"
proof -
  have ids: "map dl_ID batch = map newID [k ..< k + length batch]"
    unfolding assms(3) by (rule window_batch_ids)
  note fresh = Enqueue_fresh [OF assms(1,2) ids]
  show "(if 0 < length batch then ep_Enqueue (pg_events pg now) batch (d, h) else (Inr (), (d, h))) = (Inr (), (d, Enqueue pg now batch h))"
    by (simp add: pg_events_def Enqueue_def)
  show "adds newID (replayed pg job wh evs) k h (k + length batch) (Enqueue pg now batch h)"
    using fresh window_batch_stored [of pg now newID t job wh evs k, folded assms(3)] unfolding adds_def by blast
  show "length batch = length (replayed pg job wh evs)"
    using window_batch_stored [of pg now newID t job wh evs k, folded assms(3)] by (metis length_map)
qed

lemma replayed_append: "replayed pg job wh (xs @ ys) = replayed pg job wh xs @ replayed pg job wh ys"
  by (simp add: replayed_def)

lemma replay_pages_step:
  assumes "ep_ListEvents (pg_events pg now) c cursor False limit [] (d, h) = Inr page" "page \<noteq> []" "inj newID" "fresh_rows newID k h"
    and "batch = window_batch newID t job wh page k"
  shows "replay_pages (pg_events pg now) limit newID t job wh c cursor sent k (d, h) =
    (if int (length page) < limit then Some ((sent + length batch, None), k + length batch, (d, Enqueue pg now batch h))
     else replay_pages (pg_events pg now) limit newID t job wh c (ae_Seq (last page)) (sent + length batch) (k + length batch)
       (d, Enqueue pg now batch h))"
  unfolding replay_pages.simps [of "pg_events pg now" limit newID t job wh c cursor sent k "(d, h)"] assms(1)
  unfolding Let_def sum.case assms(5) [symmetric] adds_batch(1) [OF assms(3-5)] using assms(2) by simp

text \<open>The pages of a chain end, and add one row for each event left that the job asks for.\<close>

lemma replay_pages_exact:
  assumes "numbered (chain_events d c)" "inj newID" "fresh_rows newID k h" "m \<le> length (chain_events d c)"
  shows "\<exists>k' h'. replay_pages (pg_events pg now) (int (Suc L)) newID t job wh c (int m) sent k (d, h) =
      Some ((sent + length (replayed pg job wh (drop m (chain_events d c))), None), k', (d, h')) \<and>
    adds newID (replayed pg job wh (drop m (chain_events d c))) k h k' h'"
  using assms(3,4)
proof (induction "length (chain_events d c) - m" arbitrary: m sent k h rule: less_induct)
  case less
  let ?log = "chain_events d c" and ?page = "take (Suc L) (drop m (chain_events d c))"
  let ?batch = "window_batch newID t job wh ?page k"
  have list: "ep_ListEvents (pg_events pg now) c (int m) False (int (Suc L)) [] (d, h) = Inr ?page"
    using ListEvents_page [OF assms(1), of "int (Suc L)" m] by (simp add: pg_events_def del: of_nat_Suc)
  note step = replay_pages.simps [of "pg_events pg now" "int (Suc L)" newID t job wh c "int m" sent k "(d, h)"]
  show ?case
  proof (cases "m = length ?log")
    case True
    then show ?thesis
      using adds_refl [OF less.prems(1)] unfolding step list by (simp add: replayed_def del: of_nat_Suc)
  next
    case False
    then have page: "?page \<noteq> []"
      using less.prems(2) by simp
    note batch = adds_batch [OF assms(2) less.prems(1) refl, where t = t and job = job and wh = wh and evs = ?page and pg = pg]
    show ?thesis
    proof (cases "length ?page < Suc L")
      case True
      then have "?page = drop m ?log"
        by simp
      then show ?thesis
        using replay_pages_step [OF list page assms(2) less.prems(1) refl, of t job wh sent] batch(2,3) True
        by (metis of_nat_less_iff)
    next
      case long: False
      let ?m = "m + Suc L"
      have len: "?m \<le> length ?log"
        using long by simp
      have "last ?page = ?log ! (m + L)"
        using len by (simp add: last_conv_nth)
      then have seq: "ae_Seq (last ?page) = int ?m"
        using assms(1) len by (simp add: numbered_def)
      have rest: "drop m ?log = ?page @ drop ?m ?log"
        by (metis add.commute append_take_drop_id drop_drop)
      have smaller: "length ?log - ?m < length ?log - m"
        using len by simp
      have fresh: "fresh_rows newID (k + length ?batch) (Enqueue pg now ?batch h)"
        using batch(2) by (simp add: adds_def)
      obtain k' h' where tail: "replay_pages (pg_events pg now) (int (Suc L)) newID t job wh c (int ?m) (sent + length ?batch)
            (k + length ?batch) (d, Enqueue pg now ?batch h) =
          Some ((sent + length ?batch + length (replayed pg job wh (drop ?m ?log)), None), k', (d, h'))"
        "adds newID (replayed pg job wh (drop ?m ?log)) (k + length ?batch) (Enqueue pg now ?batch h) k' h'"
        using less.hyps [OF smaller fresh len, of "sent + length ?batch"] by blast
      have all: "replayed pg job wh (drop m ?log) = replayed pg job wh ?page @ replayed pg job wh (drop ?m ?log)"
        by (metis rest replayed_append)
      have "\<not> int (length ?page) < int (Suc L)"
        using long by linarith
      then have "replay_pages (pg_events pg now) (int (Suc L)) newID t job wh c (int m) sent k (d, h) =
          Some ((sent + length (replayed pg job wh (drop m ?log)), None), k', (d, h'))"
        unfolding replay_pages_step [OF list page assms(2) less.prems(1) refl] seq all length_append batch(3) [symmetric]
        using tail(1) by (simp only: if_False add.assoc)
      then show ?thesis
        using adds_trans [OF batch(2) tail(2)] all by auto
    qed
  qed
qed


lemma replay_chains_exact:
  assumes "\<And>c. numbered (chain_events d c)" "inj newID" "fresh_rows newID k h"
  shows "\<exists>k' h'. replay_chains (pg_events pg now) (int (Suc L)) (\<lambda>_. None) newID t job wh cs sent k (d, h) =
      Some ((sent + length (concat (map (\<lambda>c. replayed pg job wh (chain_events d c)) cs)), None), k', (d, h')) \<and>
    adds newID (concat (map (\<lambda>c. replayed pg job wh (chain_events d c)) cs)) k h k' h'"
  using assms(3)
proof (induction cs arbitrary: sent k h)
  case Nil
  then show ?case
    by (simp add: adds_refl)
next
  case (Cons c cs)
  obtain k1 h1 where page: "replay_pages (pg_events pg now) (int (Suc L)) newID t job wh c 0 sent k (d, h) =
      Some ((sent + length (replayed pg job wh (chain_events d c)), None), k1, (d, h1))"
    "adds newID (replayed pg job wh (chain_events d c)) k h k1 h1"
    using replay_pages_exact [OF assms(1,2) Cons.prems, of 0 c pg now L t job wh sent] by auto
  then have "fresh_rows newID k1 h1"
    by (simp add: adds_def)
  then obtain k2 h2 where
    "replay_chains (pg_events pg now) (int (Suc L)) (\<lambda>_. None) newID t job wh cs (sent + length (replayed pg job wh (chain_events d c))) k1 (d, h1) =
      Some ((sent + length (replayed pg job wh (chain_events d c)) +
        length (concat (map (\<lambda>c. replayed pg job wh (chain_events d c)) cs)), None), k2, (d, h2))"
    "adds newID (concat (map (\<lambda>c. replayed pg job wh (chain_events d c)) cs)) k1 h1 k2 h2"
    using Cons.IH by blast
  then show ?case
    using page adds_trans [OF page(2)] by (auto simp: add.assoc simp del: of_nat_Suc)
qed

text \<open>C22: a window replay ends, whatever the page size: it adds one pending delivery to the job's webhook for every
  committed event in the window that the webhook subscribes to, in log order chain by chain, reports their number, and
  changes nothing else.\<close>

theorem replayWindow_exact:
  assumes "reachable pg d" "pg_exact pg" "inj newID" "fresh_rows newID k h" "Webhook_Get (rj_WebhookID job) h = Inr wh"
  shows "\<exists>k' ds. replayWindow (pg_events pg now) limit (\<lambda>_. None) newID t job k (d, h) =
      Some ((length ds, None), k', (d, h\<lparr> t_webhook_delivery := t_webhook_delivery h @ ds \<rparr>)) \<and>
    map (\<lambda>x. (dl_WebhookID x, dl_Event x, dl_Status x)) ds =
    concat (map (\<lambda>c. map (\<lambda>a. (wh_ID wh, stored_event pg (eventFrom a), StatusPending))
      (filter (\<lambda>a. inWindow (ae_OccurredAt a) (rj_From job) (rj_To job) \<and> Webhook_Matches wh (eventFrom a)) (chain_events d c)))
      (ListChainIDs d))"
proof -
  have num: "numbered (chain_events d c)" for c
    using reachable_chains_ok [OF assms(1,2)] chains_ok_numbered by blast
  have limit: "replay_limit limit = int (Suc (nat (replay_limit limit) - 1))"
    by (simp add: replay_limit_def)
  obtain k' h' where
    "replay_chains (pg_events pg now) (replay_limit limit) (\<lambda>_. None) newID t job wh (ListChainIDs d) 0 k (d, h) =
      Some ((length (concat (map (\<lambda>c. replayed pg job wh (chain_events d c)) (ListChainIDs d))), None), k', (d, h'))"
    "adds newID (concat (map (\<lambda>c. replayed pg job wh (chain_events d c)) (ListChainIDs d))) k h k' h'"
    using replay_chains_exact [OF num assms(3,4), of pg now "nat (replay_limit limit) - 1" t job wh "ListChainIDs d" 0]
    unfolding limit [symmetric] by auto
  moreover obtain ds where ds: "h' = h\<lparr> t_webhook_delivery := t_webhook_delivery h @ ds \<rparr>"
      "map row_view ds = concat (map (\<lambda>c. replayed pg job wh (chain_events d c)) (ListChainIDs d))"
    using calculation(2) unfolding adds_def by blast
  moreover have "length ds = length (concat (map (\<lambda>c. replayed pg job wh (chain_events d c)) (ListChainIDs d)))"
    by (metis ds(2) length_map)
  ultimately have "replayWindow (pg_events pg now) limit (\<lambda>_. None) newID t job k (d, h) =
      Some ((length ds, None), k', (d, h\<lparr> t_webhook_delivery := t_webhook_delivery h @ ds \<rparr>))"
    using assms(5) by (simp add: replayWindow_def pg_events_def [abs_def])
  then show ?thesis
    using ds(2) unfolding row_view_def [abs_def] replayed_def [abs_def] in_replay_def [abs_def] by blast
qed

theorem replayWindow_exact_witness:
  "\<exists>d k' ds. chain_events d ''c1'' \<noteq> [] \<and>
    replayWindow (pg_events sample_pg 0) 1 (\<lambda>_. None) nat_decimal 5
      \<lparr> rj_ID = ''r1'', rj_WebhookID = ''w1'', rj_From = zero_time, rj_To = zero_time, rj_DeliveryIDs = [], rj_Status = JobPending,
        rj_EventsReplayed = 0, rj_Error = [], rj_CreatedAt = 0, rj_UpdatedAt = 0 \<rparr> 0 (d, empty_hooks\<lparr> t_webhook := [sample_webhook] \<rparr>) =
      Some ((length ds, None), k', (d, empty_hooks\<lparr> t_webhook := [sample_webhook], t_webhook_delivery := ds \<rparr>))"
proof -
  obtain d where d: "reachable sample_pg d" "chain_events d ''c1'' \<noteq> []"
    using sample_flow by blast
  let ?h = "empty_hooks\<lparr> t_webhook := [sample_webhook] \<rparr>"
  have fresh: "fresh_rows nat_decimal 0 ?h"
    by (simp add: fresh_rows_def empty_hooks_def)
  have hook: "Webhook_Get ''w1'' ?h = Inr sample_webhook"
    by (simp add: Webhook_Get_def sample_webhook_def)
  show ?thesis
    using replayWindow_exact [OF d(1) sample_pg_exact nat_decimal_inj fresh, where limit = 1 and now = 0 and t = 5
        and job = "\<lparr> rj_ID = ''r1'', rj_WebhookID = ''w1'', rj_From = zero_time, rj_To = zero_time, rj_DeliveryIDs = [], rj_Status = JobPending,
          rj_EventsReplayed = 0, rj_Error = [], rj_CreatedAt = 0, rj_UpdatedAt = 0 \<rparr>" and wh = sample_webhook] d(2) hook
    by (fastforce simp: empty_hooks_def)
qed

section \<open>Signatures\<close>

text \<open>C23: a signature made for one delivery is accepted for a timestamp, delivery id and payload exactly when they are the
  signed ones, unless the two distinct messages collide under HMAC with the webhook's secret (delivery ids are
  \<^verbatim>\<open>dlv_\<close> and hexadecimal digits, so they hold no dot).\<close>

theorem signature_binds_delivery:
  assumes "CHR ''.'' \<notin> set i" "CHR ''.'' \<notin> set i'"
  shows "Verify secret t' i' p' (Sign secret t i p) \<longleftrightarrow> (t', i', p') = (t, i, p) \<or>
    (signed_message t' i' p' \<noteq> signed_message t i p \<and>
     HMAC secret (signed_message t' i' p') = HMAC secret (signed_message t i p))"
proof -
  have "signed_message t' i' p' = signed_message t i p \<longleftrightarrow> (t', i', p') = (t, i, p)"
  proof
    assume "signed_message t' i' p' = signed_message t i p"
    then have "FormatInt t' = FormatInt t \<and> i' @ CHR ''.'' # p' = i @ CHR ''.'' # p"
      using append_dot_inj [OF _ FormatInt_no_dot FormatInt_no_dot] by (simp add: signed_message_def)
    then show "(t', i', p') = (t, i, p)"
      using FormatInt_inj append_dot_inj [OF _ assms(2,1)] by blast
  qed simp
  then show ?thesis
    by (auto simp: Verify_def Sign_def)
qed

theorem signature_binds_delivery_witness:
  "Verify ''s'' 7 ''dlv_0a'' ''{}'' (Sign ''s'' 7 ''dlv_0a'' ''{}'')"
  using signature_binds_delivery [of "''dlv_0a''" "''dlv_0a''" "''s''" 7 "''{}''" 7 "''{}''"] by simp

end
