(* ===== verification/PolicyGuarantees.thy ===== *)
theory PolicyGuarantees
  imports DeliveryGuarantees Policy
begin

text \<open>
  What policy automation guarantees over the PostgreSQL tables: the consumer records exactly one execution for
  every committed event and matching enabled policy, and a failing or panicking action is contained in its own
  execution.  The consumer is a second instance of the locale \<open>log_tailer\<close>.
\<close>

section \<open>The consumer tails the audit log\<close>

text \<open>What the event column of an execution is relied on for: it takes every event and keeps its resource.\<close>

definition event_column :: "jsonb \<Rightarrow> (PEvent \<Rightarrow> PEvent) \<Rightarrow> bool" where
  "event_column jb norm \<longleftrightarrow> (\<forall>ev. jb_event jb ev = Inr (norm ev) \<and> pe_CfgID (norm ev) = pe_CfgID ev)"

definition printable :: "(instant \<Rightarrow> int) \<Rightarrow> db \<Rightarrow> bool" where
  "printable zone d \<longleftrightarrow> (\<forall>c. \<forall>a \<in> set (chain_events d c). \<exists>b. MarshalTime zone (ae_OccurredAt a) = Inr b)"

definition triggered :: "(string \<Rightarrow> string option) \<Rightarrow> Policy list \<Rightarrow> AuditEvent list \<Rightarrow> (string \<times> PEvent) list" where
  "triggered float64 pols evs = concat (map (\<lambda>a. map (\<lambda>p. (po_ID p, policy_eventFrom float64 a))
     (filter (\<lambda>p. po_Enabled p \<and> Condition_Matches (po_Condition p) (policy_eventFrom float64 a)) pols)) evs)"

lemma Evaluate_ids: "map ex_ID (Evaluate newID ev ps now k) = map newID [k ..< k + length (Evaluate newID ev ps now k)]"
proof (induction newID ev ps now k rule: Evaluate.induct)
  case (2 newID ev p ps now k)
  have "[k ..< k + Suc n] = k # [Suc k ..< Suc k + n]" for n
    by (simp add: upt_conv_Cons del: upt_Suc)
  then show ?case
    using 2 by (simp del: upt_Suc)
qed simp

lemma Evaluate_view:
  "map (\<lambda>x. (ex_PolicyID x, ex_Event x)) (Evaluate newID ev ps now k) =
     map (\<lambda>p. (po_ID p, ev)) (filter (\<lambda>p. po_Enabled p \<and> Condition_Matches (po_Condition p) ev) ps)"
  by (induction newID ev ps now k rule: Evaluate.induct) auto

lemma evaluate_batch_ids:
  "map ex_ID (evaluate_batch float64 newID now pols evs k) =
     map newID [k ..< k + length (evaluate_batch float64 newID now pols evs k)]"
proof (induction float64 newID now pols evs k rule: evaluate_batch.induct)
  case (2 float64 newID now pols a evs k)
  let ?xs = "Evaluate newID (policy_eventFrom float64 a) pols now k"
  have "[k ..< k + (length ?xs + n)] = [k ..< k + length ?xs] @ [k + length ?xs ..< k + length ?xs + n]" for n
    by (metis add.assoc le_add1 upt_add_eq_append)
  then show ?case
    using 2 [OF refl] Evaluate_ids [of newID "policy_eventFrom float64 a" pols now k] by (simp add: Let_def)
qed simp

lemma evaluate_batch_view:
  "map (\<lambda>x. (ex_PolicyID x, ex_Event x)) (evaluate_batch float64 newID now pols evs k) = triggered float64 pols evs"
  by (induction float64 newID now pols evs k rule: evaluate_batch.induct) (auto simp: Let_def Evaluate_view triggered_def)

lemma evaluate_batch_event:
  assumes "x \<in> set (evaluate_batch float64 newID now pols evs k)"
  shows "\<exists>a \<in> set evs. ex_Event x = policy_eventFrom float64 a"
proof -
  have "(ex_PolicyID x, ex_Event x) \<in> set (triggered float64 pols evs)"
    using assms evaluate_batch_view [of float64 newID now pols evs k] by (metis (no_types, lifting) image_eqI image_set)
  then show ?thesis
    by (auto simp: triggered_def)
qed

abbreviation exec_row :: "pg \<Rightarrow> instant \<Rightarrow> (PEvent \<Rightarrow> PEvent) \<Rightarrow> Execution \<Rightarrow> Execution" where
  "exec_row pg now norm x \<equiv> stored_execution pg now (norm (ex_Event x)) x"

lemma enqueue_executions_fresh:
  "event_column jb norm \<Longrightarrow> distinct (map ex_ID xs) \<Longrightarrow> ex_ID ` set xs \<inter> ex_ID ` set rows = {} \<Longrightarrow>
     enqueue_executions jb pg now rows xs = Inr (rows @ map (exec_row pg now norm) xs)"
proof (induction xs arbitrary: rows)
  case (Cons x xs)
  have "ex_ID (exec_row pg now norm x) = ex_ID x"
    by (simp add: stored_execution_def)
  then show ?case
    using Cons.prems by (simp add: event_column_def Cons.IH [OF Cons.prems(1)])
qed simp

lemma those_all: "(\<And>x. x \<in> set xs \<Longrightarrow> f x \<noteq> None) \<Longrightarrow> those (map f xs) \<noteq> None"
  by (induction xs) (auto split: option.splits)

definition executed_pairs :: "policies \<Rightarrow> string \<Rightarrow> (string \<times> PEvent) list" where
  "executed_pairs t c = map (\<lambda>x. (ex_PolicyID x, ex_Event x)) (filter (\<lambda>x. pe_CfgID (ex_Event x) = c) (t_policy_execution t))"

definition consumed :: "(PEvent \<Rightarrow> PEvent) \<Rightarrow> (string \<Rightarrow> string option) \<Rightarrow> Policy list \<Rightarrow> AuditEvent list \<Rightarrow> (string \<times> PEvent) list" where
  "consumed norm float64 pols evs = map (\<lambda>(i, ev). (i, norm ev)) (triggered float64 pols evs)"

definition consumer_good ::
  "(instant \<Rightarrow> int) \<Rightarrow> jsonb \<Rightarrow> (PEvent \<Rightarrow> PEvent) \<Rightarrow> (nat \<Rightarrow> string) \<Rightarrow> Policy list \<Rightarrow> nat \<times> db \<times> policies \<Rightarrow> bool" where
  "consumer_good zone jb norm newID pols = (\<lambda>(k, d, t). inj newID \<and> event_column jb norm \<and> printable zone d \<and>
     (\<forall>c. numbered (chain_events d c)) \<and> Policy_ListEnabled t = pols \<and>
     ex_ID ` set (t_policy_execution t) \<subseteq> newID ` {..< k} \<and> (\<forall>c. 0 \<le> GetPolicyCursor c t))"

lemma GetPolicyCursor_Set: "GetPolicyCursor c' (SetPolicyCursor c n t) = (if c' = c then n else GetPolicyCursor c' t)"
  by (simp add: GetPolicyCursor_def SetPolicyCursor_def update_conv')

lemma policy_rows_frame [simp]: "Policy_ListEnabled (t\<lparr> t_policy_execution := rows \<rparr>) = Policy_ListEnabled t"
  "GetPolicyCursor c (t\<lparr> t_policy_execution := rows \<rparr>) = GetPolicyCursor c t"
  by (simp_all add: Policy_ListEnabled_def GetPolicyCursor_def)

lemma SetPolicyCursor_frame [simp]: "t_policy_execution (SetPolicyCursor c n t) = t_policy_execution t"
  "Policy_ListEnabled (SetPolicyCursor c n t) = Policy_ListEnabled t" "executed_pairs (SetPolicyCursor c n t) = executed_pairs t"
  by (auto simp: SetPolicyCursor_def Policy_ListEnabled_def executed_pairs_def)

lemma consumer_idle:
  assumes "consumer_good zone jb norm newID pols (k, d, t)" "nat (GetPolicyCursor c t) = length (chain_events d c)"
  shows "consumer_tailChain float64 (pg_policy zone jb pg now) (int (Suc L)) newID at pols c (k, d, t) = (k, d, t)"
proof -
  have num: "numbered (chain_events d c)" and "0 \<le> GetPolicyCursor c t"
    using assms(1) by (simp_all add: consumer_good_def)
  then have cur: "GetPolicyCursor c t = int (length (chain_events d c))"
    using assms(2) by simp
  show ?thesis
    using ListEvents_page [OF num, of "int (Suc L)" "length (chain_events d c)"]
    by (simp add: consumer_tailChain_def pg_policy_def cur del: of_nat_Suc)
qed

lemma consumer_page:
  assumes good: "consumer_good zone jb norm newID pols (k, d, t)" and m: "nat (GetPolicyCursor c t) = m" "m < length (chain_events d c)"
    and page: "page = take (Suc L) (drop m (chain_events d c))" and xs: "xs = evaluate_batch float64 newID at pols page k"
  shows "consumer_tailChain float64 (pg_policy zone jb pg now) (int (Suc L)) newID at pols c (k, d, t) =
     (k + length xs, d, SetPolicyCursor c (int (min (m + Suc L) (length (chain_events d c))))
        (t\<lparr> t_policy_execution := t_policy_execution t @ map (exec_row pg now norm) xs \<rparr>))"
proof -
  have num: "numbered (chain_events d c)" and "0 \<le> GetPolicyCursor c t" and inj: "inj newID" and col: "event_column jb norm"
      and print: "printable zone d" and old: "ex_ID ` set (t_policy_execution t) \<subseteq> newID ` {..< k}"
    using good by (simp_all add: consumer_good_def)
  then have cur: "GetPolicyCursor c t = int m"
    using m(1) by simp
  have list: "ListEvents d c (int m) False (int (Suc L)) [] = Inr page"
    using ListEvents_page [OF num, of "int (Suc L)" m] page by (simp del: of_nat_Suc)
  have max: "max_seq (int m) page = int (min (m + Suc L) (length (chain_events d c)))"
    unfolding page by (rule max_seq_page [OF num m(2)]) simp
  have ids: "map ex_ID xs = map newID [k ..< k + length xs]"
    unfolding xs by (rule evaluate_batch_ids)
  have "distinct (map ex_ID xs)"
    unfolding ids using inj by (simp add: distinct_map inj_def inj_on_def)
  moreover have "ex_ID ` set xs = newID ` {k ..< k + length xs}"
    by (metis ids image_set set_upt)
  moreover from this have "ex_ID ` set xs \<inter> ex_ID ` set (t_policy_execution t) = {}"
    using old inj by (auto simp: inj_eq)
  moreover have "those (map (\<lambda>x. case marshal_event zone (ex_Event x) of Inl er \<Rightarrow> None | Inr b \<Rightarrow> Some b) xs) \<noteq> None"
  proof (rule those_all)
    fix x
    assume "x \<in> set xs"
    then obtain a where "a \<in> set page" "ex_Event x = policy_eventFrom float64 a"
      using evaluate_batch_event unfolding xs by blast
    moreover from this have "a \<in> set (chain_events d c)"
      unfolding page by (blast dest: in_set_takeD in_set_dropD)
    ultimately obtain b where "MarshalTime zone (pe_OccurredAt (ex_Event x)) = Inr b"
      using print by (auto simp: printable_def policy_eventFrom_def)
    then show "(case marshal_event zone (ex_Event x) of Inl er \<Rightarrow> None | Inr b \<Rightarrow> Some b) \<noteq> None"
      by (simp add: marshal_event_def)
  qed
  ultimately have "Policy_Enqueue zone jb pg now xs t =
      Inr (t\<lparr> t_policy_execution := t_policy_execution t @ map (exec_row pg now norm) xs \<rparr>)"
    using enqueue_executions_fresh [OF col] by (auto simp: Policy_Enqueue_def)
  moreover have "page \<noteq> []" "m < min (m + Suc L) (length (chain_events d c))"
    using m(2) page by simp_all
  ultimately show ?thesis
    using list max xs by (cases "xs = []")
      (simp_all add: consumer_tailChain_def pg_policy_def committed_def cur Let_def del: of_nat_Suc)
qed

abbreviation consumer_cursor :: "nat \<times> db \<times> policies \<Rightarrow> string \<Rightarrow> nat" where
  "consumer_cursor s c \<equiv> nat (GetPolicyCursor c (snd (snd s)))"

lemma executed_pairs_append:
  assumes "\<And>x. x \<in> set xs \<Longrightarrow> pe_CfgID (ex_Event x) = c" "event_column jb norm"
  shows "executed_pairs (t\<lparr> t_policy_execution := t_policy_execution t @ map (exec_row pg now norm) xs \<rparr>) c' =
    (if c' = c then executed_pairs t c @ map (\<lambda>(i, ev). (i, norm ev)) (map (\<lambda>x. (ex_PolicyID x, ex_Event x)) xs)
     else executed_pairs t c')"
proof -
  have same: "pe_CfgID (ex_Event (exec_row pg now norm x)) = pe_CfgID (ex_Event x)" for x
    using assms(2) by (simp add: stored_execution_def event_column_def)
  then have "filter (\<lambda>x. pe_CfgID (ex_Event x) = c') (map (exec_row pg now norm) xs) = (if c' = c then map (exec_row pg now norm) xs else [])"
    using assms(1) by (auto simp: filter_map filter_empty_conv filter_id_conv)
  then show ?thesis
    by (auto simp: executed_pairs_def stored_execution_def)
qed

interpretation consumer: log_tailer "\<lambda>c. consumer_tailChain float64 (pg_policy zone jb pg now) (int (Suc L)) newID (clock c) pols c"
    "consumer_good zone jb norm newID pols" "\<lambda>s c. chain_events (fst (snd s)) c" consumer_cursor
    "\<lambda>s c. executed_pairs (snd (snd s)) c" "\<lambda>s. consumed norm float64 pols" "Suc L"
  for float64 zone jb pg now L newID clock pols norm
proof
  fix s c c'
  assume good: "consumer_good zone jb norm newID pols s" and le: "consumer_cursor s c \<le> length (chain_events (fst (snd s)) c)"
  obtain k d t where s: "s = (k, d, t)"
    by (metis surj_pair)
  define m where "m = nat (GetPolicyCursor c t)"
  define page where "page = take (Suc L) (drop m (chain_events d c))"
  define xs where "xs = evaluate_batch float64 newID (clock c) pols page k"
  let ?s' = "consumer_tailChain float64 (pg_policy zone jb pg now) (int (Suc L)) newID (clock c) pols c s"
  let ?t = "t\<lparr> t_policy_execution := t_policy_execution t @ map (exec_row pg now norm) xs \<rparr>"
  have col: "event_column jb norm"
    using good by (simp add: s consumer_good_def)
  have chain: "pe_CfgID (ex_Event x) = c" if "x \<in> set xs" for x
    using evaluate_batch_event [OF that [unfolded xs_def]] chain_events_chain [of _ d c]
    by (auto simp: page_def policy_eventFrom_def dest!: in_set_takeD in_set_dropD)
  consider (idle) "m = length (chain_events d c)" "?s' = (k, d, t)"
    | (page) "m < length (chain_events d c)" "?s' = (k + length xs, d, SetPolicyCursor c (int (min (m + Suc L) (length (chain_events d c)))) ?t)"
    using consumer_idle [of zone jb norm newID pols k d t c] consumer_page [of zone jb norm newID pols k d t c m page L xs float64 "clock c"] good le
    unfolding s m_def page_def xs_def by (fastforce simp del: of_nat_Suc)
  note cases = this
  show "consumer_good zone jb norm newID pols ?s'"
    using cases
  proof cases
    case page
    have ids: "ex_ID ` set xs = newID ` {k ..< k + length xs}"
      unfolding xs_def by (metis evaluate_batch_ids image_set set_upt)
    have "ex_ID ` set (t_policy_execution t @ map (exec_row pg now norm) xs) \<subseteq> newID ` {..< k} \<union> ex_ID ` set xs"
      using good by (auto simp: s consumer_good_def stored_execution_def)
    also have "\<dots> \<subseteq> newID ` {..< k + length xs}"
      unfolding ids by auto
    finally show ?thesis
      using good unfolding page(2) by (simp add: s consumer_good_def GetPolicyCursor_Set)
  qed (use good in \<open>simp add: s\<close>)
  show "(\<lambda>c. chain_events (fst (snd ?s')) c) = (\<lambda>c. chain_events (fst (snd s)) c)"
    using cases by cases (simp_all add: s)
  show "consumer_cursor ?s' c' = (if c' = c then min (consumer_cursor s c + Suc L) (length (chain_events (fst (snd s)) c)) else consumer_cursor s c')"
    using cases
  proof cases
    case page
    show ?thesis
      unfolding page(2) by (simp add: s m_def GetPolicyCursor_Set del: of_nat_Suc)
  qed (simp add: s m_def)
  have pairs: "executed_pairs ?t x = (if x = c then executed_pairs t c @ consumed norm float64 pols page else executed_pairs t x)" for x
    using executed_pairs_append [OF chain col] by (simp add: consumed_def xs_def evaluate_batch_view)
  show "executed_pairs (snd (snd ?s')) c' = (if c' = c then executed_pairs (snd (snd s)) c @
      consumed norm float64 pols (take (Suc L) (drop (consumer_cursor s c) (chain_events (fst (snd s)) c))) else executed_pairs (snd (snd s)) c')"
    using cases
  proof cases
    case idle
    then show ?thesis
      by (simp add: s m_def consumed_def triggered_def)
  next
    case page
    show ?thesis
      unfolding page(2) by (simp add: pairs) (simp add: s page_def m_def)
  qed
qed (simp_all add: consumed_def triggered_def)

section \<open>Commits, consumer passes and executor passes interleaved\<close>

text \<open>
  The registry \<open>ps\<close> of policies stays as it is; the actions, the clocks and the cancellation of each pass are arbitrary.
  Every committed event carries a time that JSON can write.
\<close>

inductive policy_flow ::
  "(string \<Rightarrow> string option) \<Rightarrow> (instant \<Rightarrow> int) \<Rightarrow> jsonb \<Rightarrow> pg \<Rightarrow> (nat \<Rightarrow> string) \<Rightarrow> Policy list \<Rightarrow> nat \<times> db \<times> policies \<Rightarrow> bool"
  for float64 zone jb pg newID ps where
  start: "reachable pg d \<Longrightarrow> printable zone d \<Longrightarrow> policy_flow float64 zone jb pg newID ps (0, d, empty_policies\<lparr> t_policy := ps \<rparr>)"
| commit: "policy_flow float64 zone jb pg newID ps (k, d, t) \<Longrightarrow> step pg d d' \<Longrightarrow> printable zone d' \<Longrightarrow>
    policy_flow float64 zone jb pg newID ps (k, d', t)"
| consumer_pass: "policy_flow float64 zone jb pg newID ps s \<Longrightarrow>
    policy_flow float64 zone jb pg newID ps (Consumer_RunOnce float64 (pg_policy zone jb pg now) limit cancelled newID clock s)"
| executor_pass: "policy_flow float64 zone jb pg newID ps (k, dt) \<Longrightarrow>
    policy_flow float64 zone jb pg newID ps (k, Executor_RunOnce (pg_policy zone jb pg now) cfg errText r cancelled_at clock_at at dt)"

definition enabled_policies :: "Policy list \<Rightarrow> Policy list" where
  "enabled_policies ps = sort_key po_CreatedAt (filter po_Enabled ps)"

definition policy_inv ::
  "(string \<Rightarrow> string option) \<Rightarrow> (instant \<Rightarrow> int) \<Rightarrow> jsonb \<Rightarrow> (PEvent \<Rightarrow> PEvent) \<Rightarrow> pg \<Rightarrow> (nat \<Rightarrow> string) \<Rightarrow> Policy list \<Rightarrow> nat \<times> db \<times> policies \<Rightarrow> bool" where
  "policy_inv float64 zone jb norm pg newID ps s \<longleftrightarrow> reachable pg (fst (snd s)) \<and> t_policy (snd (snd s)) = ps \<and>
     consumer_good zone jb norm newID (enabled_policies ps) s \<and>
     (\<forall>c. consumer_cursor s c \<le> length (chain_events (fst (snd s)) c)) \<and>
     (\<forall>c. executed_pairs (snd (snd s)) c = consumed norm float64 (enabled_policies ps) (take (consumer_cursor s c) (chain_events (fst (snd s)) c)))"

lemma consume_chains_fold:
  "consume_chains float64 p limit cancelled newID now pols cs s =
     fold (\<lambda>c. consumer_tailChain float64 p limit newID (now c) pols c) (takeWhile (\<lambda>c. \<not> cancelled c) cs) s"
  by (induction float64 p limit cancelled newID now pols cs s rule: consume_chains.induct) auto

lemma Policy_Enqueue_frame: "Policy_Enqueue zone jb pg now xs t = Inr t' \<Longrightarrow> t_policy t' = t_policy t"
  by (auto simp: Policy_Enqueue_def result_bind_Inr split: option.splits)

lemma consumer_tailChain_frame:
  "t_policy (snd (snd (consumer_tailChain float64 (pg_policy zone jb pg now) limit newID at pols c s))) = t_policy (snd (snd s)) \<and>
   fst (snd (consumer_tailChain float64 (pg_policy zone jb pg now) limit newID at pols c s)) = fst (snd s)"
proof -
  obtain k d t where s: "s = (k, d, t)"
    by (metis surj_pair)
  let ?p = "pg_policy zone jb pg now"
  have ports: "pp_GetPolicyCursor ?p c (d, t) = Inr (GetPolicyCursor c t)"
      "pp_SetPolicyCursor ?p c n (d, t') = (Inr (), (d, SetPolicyCursor c n t'))" "t_policy (SetPolicyCursor c n t') = t_policy t'" for n t'
    by (simp_all add: pg_policy_def SetPolicyCursor_def)
  show ?thesis
  proof (cases "pp_ListEvents ?p c (GetPolicyCursor c t) False limit [] (d, t)")
    case (Inr evs)
    define xs where "xs = evaluate_batch float64 newID at pols evs k"
    obtain r t' where "pp_Enqueue ?p xs (d, t) = (r, (d, t'))" "t_policy t' = t_policy t"
      by (cases "Policy_Enqueue zone jb pg now xs t") (auto simp: pg_policy_def committed_def dest: Policy_Enqueue_frame)
    then show ?thesis
      by (cases r) (simp_all add: s consumer_tailChain_def ports Inr Let_def flip: xs_def)
  qed (simp add: s consumer_tailChain_def ports)
qed

lemma fold_consumer_frame:
  "t_policy (snd (snd (fold (\<lambda>c. consumer_tailChain float64 (pg_policy zone jb pg now) limit newID (clock c) pols c) cs s))) = t_policy (snd (snd s)) \<and>
   fst (snd (fold (\<lambda>c. consumer_tailChain float64 (pg_policy zone jb pg now) limit newID (clock c) pols c) cs s)) = fst (snd s)"
  by (induction cs arbitrary: s) (simp_all add: consumer_tailChain_frame)

lemma Consumer_RunOnce_fold:
  assumes "policy_inv float64 zone jb norm pg newID ps s"
  shows "Consumer_RunOnce float64 (pg_policy zone jb pg now) limit cancelled newID clock s =
    (if enabled_policies ps = [] then s
     else fold (\<lambda>c. consumer_tailChain float64 (pg_policy zone jb pg now) (int (Suc (nat (consumer_limit limit) - 1))) newID (clock c) (enabled_policies ps) c)
       (takeWhile (\<lambda>c. \<not> cancelled c) (ListChainIDs (fst (snd s)))) s)"
proof -
  have limit: "consumer_limit limit = int (Suc (nat (consumer_limit limit) - 1))"
    by (simp add: consumer_limit_def)
  obtain k d t where s: "s = (k, d, t)"
    by (metis surj_pair)
  have "Policy_ListEnabled t = enabled_policies ps"
    using assms by (simp add: policy_inv_def s Policy_ListEnabled_def enabled_policies_def)
  then show ?thesis
    unfolding limit [symmetric] by (simp add: Consumer_RunOnce_def s pg_policy_def consume_chains_fold)
qed

lemma consumer_pass_inv:
  assumes "policy_inv float64 zone jb norm pg newID ps s"
  shows "policy_inv float64 zone jb norm pg newID ps (Consumer_RunOnce float64 (pg_policy zone jb pg now) limit cancelled newID clock s)"
proof (cases "enabled_policies ps = []")
  case True
  then show ?thesis
    using assms by (simp add: Consumer_RunOnce_fold [OF assms])
next
  case False
  have inv: "consumer_good zone jb norm newID (enabled_policies ps) s" "\<And>c. consumer_cursor s c \<le> length (chain_events (fst (snd s)) c)"
      "\<And>c. executed_pairs (snd (snd s)) c = consumed norm float64 (enabled_policies ps) (take (consumer_cursor s c) (chain_events (fst (snd s)) c))"
    using assms by (simp_all add: policy_inv_def)
  note after = consumer.tails_exact(1-4) [where cs = "takeWhile (\<lambda>c. \<not> cancelled c) (ListChainIDs (fst (snd s)))" and now = now
      and L = "nat (consumer_limit limit) - 1" and clock = clock and pg = pg, OF inv]
  show ?thesis
    unfolding Consumer_RunOnce_fold [OF assms] policy_inv_def using after assms fold_consumer_frame False
    by (simp add: policy_inv_def del: of_nat_Suc)
qed

text \<open>An executor pass changes no execution's id, policy or event.\<close>

definition exec_key :: "Execution \<Rightarrow> string \<times> string \<times> PEvent" where
  "exec_key x = (ex_ID x, ex_PolicyID x, ex_Event x)"

definition same_executions :: "policies \<Rightarrow> policies \<Rightarrow> bool" where
  "same_executions t t' \<longleftrightarrow> t_policy t' = t_policy t \<and> t_policy_cursor t' = t_policy_cursor t \<and>
     map exec_key (t_policy_execution t') = map exec_key (t_policy_execution t)"

lemma same_executions_refl [simp]: "same_executions t t"
  by (simp add: same_executions_def)

lemma Policy_MarkResult_same:
  "snd (pp_MarkResult (pg_policy zone jb pg now) i s r e st en na (d, t)) = (d', t') \<Longrightarrow> d' = d \<and> same_executions t t'"
  by (auto simp: pg_policy_def committed_def Policy_MarkResult_def same_executions_def exec_key_def split: if_splits)

lemma execution_attempt_same:
  "snd (execution_attempt (pg_policy zone jb pg now) cfg errText r start ended base x (d, t)) = (d', t') \<Longrightarrow> d' = d \<and> same_executions t t'"
  unfolding execution_attempt_def
  by (auto simp: Let_def Policy_MarkResult_same split: sum.splits option.splits if_splits)

lemma execute_all_same:
  "execute_all (pg_policy zone jb pg now) cfg errText r cancelled clock i xs (d, t) = (d', t') \<Longrightarrow> d' = d \<and> same_executions t t'"
proof (induction xs arbitrary: i t)
  case (Cons x xs)
  obtain start ended base where clock: "clock i = (start, ended, base)"
    using prod_cases3 by blast
  obtain d1 t1 where "snd (execution_attempt (pg_policy zone jb pg now) cfg errText (r i) start ended base x (d, t)) = (d1, t1)"
    by fastforce
  then show ?case
    using Cons execution_attempt_same [of zone jb pg now cfg errText "r i" start ended base x d t d1 t1]
    by (fastforce simp: clock same_executions_def split: if_splits)
qed simp

lemma Executor_same:
  "Executor_RunOnce (pg_policy zone jb pg now) cfg errText r cancelled clock at (d, t) = (d', t') \<Longrightarrow> d' = d \<and> same_executions t t'"
  by (auto simp: Executor_RunOnce_def split: sum.splits dest: execute_all_same)

lemma same_executions_views:
  assumes "same_executions t t'"
  shows "executed_pairs t' = executed_pairs t" "GetPolicyCursor c t' = GetPolicyCursor c t" "Policy_ListEnabled t' = Policy_ListEnabled t"
    "ex_ID ` set (t_policy_execution t') = ex_ID ` set (t_policy_execution t)"
proof -
  have rows: "map exec_key (t_policy_execution t') = map exec_key (t_policy_execution t)"
    using assms by (simp add: same_executions_def)
  have "executed_pairs x c = map (\<lambda>(i, p, ev). (p, ev)) (filter (\<lambda>(i, p, ev). pe_CfgID ev = c) (map exec_key (t_policy_execution x)))" for x c
    by (simp add: executed_pairs_def exec_key_def filter_map comp_def)
  then show "executed_pairs t' = executed_pairs t"
    using rows by auto
  have "ex_ID ` set (t_policy_execution x) = fst ` set (map exec_key (t_policy_execution x))" for x
    by (simp add: exec_key_def image_image)
  then show "ex_ID ` set (t_policy_execution t') = ex_ID ` set (t_policy_execution t)"
    using rows by metis
qed (use assms in \<open>simp_all add: same_executions_def GetPolicyCursor_def Policy_ListEnabled_def\<close>)

lemma policy_invariant:
  assumes "policy_flow float64 zone jb pg newID ps s" "pg_exact pg" "inj newID" "event_column jb norm"
  shows "policy_inv float64 zone jb norm pg newID ps s"
  using assms(1)
proof (induction rule: policy_flow.induct)
  case (start d)
  then have "numbered (chain_events d c)" for c
    using reachable_chains_ok assms(2) chains_ok_numbered by blast
  then show ?case
    using start assms(3,4) by (simp add: policy_inv_def consumer_good_def empty_policies_def Policy_ListEnabled_def enabled_policies_def
        GetPolicyCursor_def executed_pairs_def consumed_def triggered_def)
next
  case (commit k d t d')
  have reach: "reachable pg d" "reachable pg d'"
    using commit by (auto simp: policy_inv_def intro: reachable.more)
  then have num: "numbered (chain_events d' c)" for c
    using reachable_chains_ok assms(2) chains_ok_numbered by blast
  have "prefix (chain_events d c) (chain_events d' c)" for c
    using steps_prefix [OF steps.one [OF steps.none commit(2)] reach(1)] .
  moreover have "nat (GetPolicyCursor c t) \<le> length (chain_events d c)" for c
    using commit by (simp add: policy_inv_def)
  ultimately have "nat (GetPolicyCursor c t) \<le> length (chain_events d' c) \<and>
      take (nat (GetPolicyCursor c t)) (chain_events d' c) = take (nat (GetPolicyCursor c t)) (chain_events d c)" for c
    by (metis prefixE prefix_length_le le_trans take_append diff_is_0_eq take0 append_Nil2)
  then show ?case
    using commit reach num by (simp add: policy_inv_def consumer_good_def)
next
  case (consumer_pass s now limit cancelled clock)
  then show ?case
    by (simp add: consumer_pass_inv)
next
  case (executor_pass k dt now cfg errText r cancelled_at clock_at at)
  obtain d t where dt: "dt = (d, t)"
    by fastforce
  obtain d' t' where run: "Executor_RunOnce (pg_policy zone jb pg now) cfg errText r cancelled_at clock_at at (d, t) = (d', t')"
    by fastforce
  have same: "d' = d" "same_executions t t'"
    using Executor_same [OF run] by auto
  then have "t_policy t' = t_policy t"
    by (simp add: same_executions_def)
  then show ?case
    using executor_pass.IH by (simp add: dt run same(1) policy_inv_def consumer_good_def same_executions_views [OF same(2)])
qed


definition sample_policy :: Policy where
  "sample_policy = \<lparr> po_ID = ''p1'', po_Name = ''notify'', po_Enabled = True,
     po_Condition = \<lparr> cn_Operations = [], cn_Resources = [], cn_Actors = [], cn_Metadata = [] \<rparr>,
     po_Action = \<lparr> as_Type = ''notification'', as_Config = ''{}'' \<rparr>, po_MaxRetries = 2, po_CreatedAt = 0, po_UpdatedAt = 0 \<rparr>"

definition exact_jsonb :: jsonb where
  "exact_jsonb = \<lparr> jb_condition = Inr, jb_config = Inr, jb_event = Inr \<rparr>"


section \<open>Failing actions\<close>

definition execution_stored_attempt ::
  "(instant \<Rightarrow> int) \<Rightarrow> jsonb \<Rightarrow> pg \<Rightarrow> instant \<Rightarrow> DispatcherConfig \<Rightarrow> (err \<Rightarrow> string) \<Rightarrow> registry \<Rightarrow> instant \<times> instant \<times> instant \<Rightarrow> string \<Rightarrow> db \<times> policies \<Rightarrow> db \<times> policies" where
  "execution_stored_attempt zone jb pg now cfg errText r at i s =
     (case find (\<lambda>x. ex_ID x = i) (t_policy_execution (snd s)) of
        None \<Rightarrow> s
      | Some x \<Rightarrow> (case at of (start, ended, base) \<Rightarrow> snd (execution_attempt (pg_policy zone jb pg now) cfg errText r start ended base x s)))"

lemma execution_attempt_fails:
  assumes "find (\<lambda>x. ex_ID x = i) (t_policy_execution t) = Some x" "Policy_Get (ex_PolicyID x) t = Inr p"
    and "Registry_Run r (as_Type (po_Action p)) (ex_Event x) (as_Config (po_Action p)) \<noteq> Returned None"
    and "0 \<le> ex_RetryCount x" "ex_RetryCount x < 2 ^ 31 - 1"
    and "execution_stored_attempt zone jb pg now cfg errText r at i (d, t) = (d', t')"
  shows "d' = d \<and> t_policy t' = t_policy t \<and>
    (\<exists>x'. find (\<lambda>x. ex_ID x = i) (t_policy_execution t') = Some x' \<and> ex_PolicyID x' = ex_PolicyID x \<and> ex_Event x' = ex_Event x \<and>
      ex_RetryCount x' = ex_RetryCount x + 1 \<and>
      ex_Status x' = (if ex_RetryCount x + 1 < po_MaxRetries p then ExecFailed else ExecDeadLetter))"
proof -
  have i: "ex_ID x = i"
    using assms(1) by (auto simp: find_Some_iff)
  obtain e where fails: "runIsolated r p (ex_Event x) = Some e"
    using assms(3) by (cases "Registry_Run r (as_Type (po_Action p)) (ex_Event x) (as_Config (po_Action p))")
      (auto simp: runIsolated_def)
  have retry: "int64 (ex_RetryCount x + 1) = ex_RetryCount x + 1" "int4 (ex_RetryCount x + 1)"
    using assms(4,5) by (auto intro!: int64_id simp: int4_def)
  have found: "find (\<lambda>x. ex_ID x = i) (map (\<lambda>y. if ex_ID y = i then f y else y) (t_policy_execution t)) = Some (f x)"
      if "\<And>y. ex_ID (f y) = ex_ID y" for f
    using assms(1) i that by (simp add: find_map_same if_distrib)
  obtain start ended base where "at = (start, ended, base)"
    using prod_cases3 by blast
  then show ?thesis
    using assms(6) retry
    by (auto simp: execution_stored_attempt_def assms(1,2) execution_attempt_def fails i pg_policy_def committed_def
        Policy_MarkResult_def Let_def found split: if_splits)
qed

lemma executions_fail:
  assumes "find (\<lambda>x. ex_ID x = i) (t_policy_execution t) = Some x" "Policy_Get (ex_PolicyID x) t = Inr p" "ex_RetryCount x = 0"
    and "\<And>j. Registry_Run (r j) (as_Type (po_Action p)) (ex_Event x) (as_Config (po_Action p)) \<noteq> Returned None"
    and "po_MaxRetries p < 2 ^ 31" "int n \<le> max 1 (po_MaxRetries p)"
    and "fold (\<lambda>j. execution_stored_attempt zone jb pg now cfg errText (r j) (clock j) i) [0 ..< n] (d, t) = (d', t')"
  shows "d' = d \<and> t_policy t' = t_policy t \<and>
    (\<exists>x'. find (\<lambda>x. ex_ID x = i) (t_policy_execution t') = Some x' \<and> ex_PolicyID x' = ex_PolicyID x \<and> ex_Event x' = ex_Event x \<and>
      ex_RetryCount x' = int n \<and> (0 < n \<longrightarrow> ex_Status x' = (if int n < max 1 (po_MaxRetries p) then ExecFailed else ExecDeadLetter)))"
  using assms(6,7)
proof (induction n arbitrary: d' t')
  case 0
  then show ?case
    using assms(1,3) by simp
next
  case (Suc n)
  obtain d1 t1 where run: "fold (\<lambda>j. execution_stored_attempt zone jb pg now cfg errText (r j) (clock j) i) [0 ..< n] (d, t) = (d1, t1)"
    by fastforce
  obtain x1 where x1: "d1 = d" "t_policy t1 = t_policy t" "find (\<lambda>x. ex_ID x = i) (t_policy_execution t1) = Some x1"
      "ex_PolicyID x1 = ex_PolicyID x" "ex_Event x1 = ex_Event x" "ex_RetryCount x1 = int n"
    using Suc.IH [OF _ run] Suc.prems(1) by auto
  have pol: "Policy_Get (ex_PolicyID x1) t1 = Inr p"
    using assms(2) x1(2,4) by (simp add: Policy_Get_def)
  have "execution_stored_attempt zone jb pg now cfg errText (r n) (clock n) i (d, t1) = (d', t')"
    using Suc.prems(2) run x1(1) by simp
  moreover have "int n < 2 ^ 31 - 1" "int n + 1 < po_MaxRetries p \<longleftrightarrow> int (Suc n) < max 1 (po_MaxRetries p)"
    using Suc.prems(1) assms(5) by auto
  ultimately show ?case
    using execution_attempt_fails [OF x1(3) pol, of "r n" zone jb pg now cfg errText "clock n" d d' t'] assms(4) [of n] x1
    by (auto simp del: of_nat_Suc)
qed

text \<open>C26: an action that keeps failing or panicking is contained: each attempt is counted as one retry on its own execution,
  the attempt that reaches the policy's maximum (and at least one) moves it to the dead letters, and the governance and audit
  tables are untouched.\<close>

theorem failing_policy_contained:
  assumes "find (\<lambda>x. ex_ID x = i) (t_policy_execution t) = Some x" "Policy_Get (ex_PolicyID x) t = Inr p" "ex_RetryCount x = 0"
    and "\<And>j. Registry_Run (r j) (as_Type (po_Action p)) (ex_Event x) (as_Config (po_Action p)) \<noteq> Returned None"
    and "po_MaxRetries p < 2 ^ 31" "0 < n" "int n \<le> max 1 (po_MaxRetries p)"
    and "fold (\<lambda>j. execution_stored_attempt zone jb pg now cfg errText (r j) (clock j) i) [0 ..< n] (d, t) = (d', t')"
  shows "d' = d \<and> (\<exists>x'. find (\<lambda>x. ex_ID x = i) (t_policy_execution t') = Some x' \<and> ex_RetryCount x' = int n \<and>
    ex_Status x' = (if int n < max 1 (po_MaxRetries p) then ExecFailed else ExecDeadLetter))"
  using executions_fail [OF assms(1-5,7,8)] assms(6) by auto

definition sample_execution :: Execution where
  "sample_execution = \<lparr> ex_ID = ''pex_1'', ex_PolicyID = ''p1'', ex_Event = \<lparr> pe_EventID = ''evt_1'', pe_OperationID = ''op-1'',
     pe_Operation = ''activation'', pe_Actor = ''alice'', pe_CfgID = ''c1'', pe_Seq = 1, pe_OccurredAt = 1000, pe_Metadata = [] \<rparr>,
     ex_Status = ExecPending, ex_RetryCount = 0, ex_Error = [], ex_StartedAt = zero_time, ex_EndedAt = zero_time,
     ex_NextAttemptAt = 0, ex_CreatedAt = 0 \<rparr>"

theorem failing_policy_contained_witness:
  "\<exists>t'. fold (\<lambda>j. execution_stored_attempt (\<lambda>_. 0) exact_jsonb sample_pg 0 \<lparr> dc_BatchLimit = 1, dc_BaseBackoff = 5, dc_MaxBackoff = 60 \<rparr>
       (\<lambda>_. ''failed'') [(''notification'', \<lambda>_ _. Panicked ''boom'')] (int j, int j, int j) ''pex_1'') [0 ..< 2]
       (empty_db, empty_policies\<lparr> t_policy := [sample_policy], t_policy_execution := [sample_execution] \<rparr>) = (empty_db, t') \<and>
     (\<exists>x'. find (\<lambda>x. ex_ID x = ''pex_1'') (t_policy_execution t') = Some x' \<and> ex_RetryCount x' = int 2 \<and> ex_Status x' = ExecDeadLetter)"
proof -
  let ?t = "empty_policies\<lparr> t_policy := [sample_policy], t_policy_execution := [sample_execution] \<rparr>"
  let ?r = "\<lambda>j :: nat. [(''notification'', \<lambda>_ _. Panicked ''boom'')] :: registry"
  have hyps: "find (\<lambda>x. ex_ID x = ''pex_1'') (t_policy_execution ?t) = Some sample_execution"
      "Policy_Get (ex_PolicyID sample_execution) ?t = Inr sample_policy" "ex_RetryCount sample_execution = 0"
      "\<And>j. Registry_Run (?r j) (as_Type (po_Action sample_policy)) (ex_Event sample_execution) (as_Config (po_Action sample_policy)) \<noteq> Returned None"
      "po_MaxRetries sample_policy < 2 ^ 31" "0 < (2 :: nat)" "int 2 \<le> max 1 (po_MaxRetries sample_policy)"
      "\<not> int 2 < max 1 (po_MaxRetries sample_policy)"
    by (simp_all add: empty_policies_def sample_policy_def sample_execution_def Policy_Get_def Registry_Run_def)
  obtain d' t' where run: "fold (\<lambda>j. execution_stored_attempt (\<lambda>_. 0) exact_jsonb sample_pg 0 \<lparr> dc_BatchLimit = 1, dc_BaseBackoff = 5, dc_MaxBackoff = 60 \<rparr>
       (\<lambda>_. ''failed'') (?r j) (int j, int j, int j) ''pex_1'') [0 ..< 2] (empty_db, ?t) = (d', t')"
    by (rule prod.exhaust)
  show ?thesis
    using failing_policy_contained [OF hyps(1-7) run, unfolded if_not_P [OF hyps(8)]] run by blast
qed

end
