(* ===== verification/Timeline.thy ===== *)
theory Timeline
  imports PolicyGuarantees "HOL-Library.Product_Lexorder" "HOL-Library.Multiset"
begin

text \<open>
  The execution timeline: \<^verbatim>\<open>internal/timeline\<close> over \<^verbatim>\<open>store/postgres/timeline_store.go\<close>.  A page is
  \<open>None\<close> where the slice expression of \<^verbatim>\<open>paginate\<close> would panic.  The stable sort by timestamp, component
  and correlation key is a \<open>sort_key\<close> on the lexicographic product.
\<close>

section \<open>Rows and entries\<close>

record AuditRow =
  ar_ChainID :: string
  ar_Seq :: int
  ar_EventID :: string
  ar_OperationID :: string
  ar_Operation :: string
  ar_Actor :: string
  ar_OccurredAt :: instant

record DeliveryRow =
  dr_ID :: string
  dr_WebhookID :: string
  dr_EventID :: string
  dr_Status :: string
  dr_StatusCode :: int
  dr_LastAttempt :: instant
  dr_CreatedAt :: instant

record ReplayRow =
  rr_ID :: string
  rr_WebhookID :: string
  rr_Status :: string
  rr_EventsReplayed :: int
  rr_CreatedAt :: instant
  rr_UpdatedAt :: instant

record PolicyRow =
  pr_ID :: string
  pr_PolicyID :: string
  pr_EventID :: string
  pr_Status :: string
  pr_RetryCount :: int
  pr_StartedAt :: instant
  pr_EndedAt :: instant
  pr_CreatedAt :: instant

record 'st timeline_source =
  ts_AuditByEventID :: "string \<Rightarrow> 'st \<Rightarrow> err + AuditRow list"
  ts_AuditByChain :: "string \<Rightarrow> int \<Rightarrow> 'st \<Rightarrow> err + AuditRow list"
  ts_DeliveriesByEventIDs :: "string list \<Rightarrow> 'st \<Rightarrow> err + DeliveryRow list"
  ts_PolicyExecutionsByEventIDs :: "string list \<Rightarrow> 'st \<Rightarrow> err + PolicyRow list"
  ts_ReplayJob :: "string \<Rightarrow> 'st \<Rightarrow> err + ReplayRow option"
  ts_PolicyExecution :: "string \<Rightarrow> 'st \<Rightarrow> err + PolicyRow option"

abbreviation CompGovernance :: string where "CompGovernance \<equiv> ''governance''"
abbreviation CompAudit :: string where "CompAudit \<equiv> ''audit''"
abbreviation CompWebhook :: string where "CompWebhook \<equiv> ''webhook''"
abbreviation CompReplay :: string where "CompReplay \<equiv> ''replay''"
abbreviation CompPolicy :: string where "CompPolicy \<equiv> ''policy''"

definition componentOrder :: "string \<Rightarrow> int" where
  "componentOrder c = (case map_of [(CompGovernance, 0), (CompAudit, 1), (CompWebhook, 2), (CompReplay, 3), (CompPolicy, 4)] c of
     None \<Rightarrow> 0 | Some n \<Rightarrow> n)"

record Entry =
  tl_Timestamp :: instant
  tl_Component :: string
  tl_Action :: string
  tl_Status :: string
  tl_DurationMS :: int
  tl_Correlation :: smap
  tl_Metadata :: smap

record TFilter =
  tf_From :: instant
  tf_To :: instant
  tf_Component :: string
  tf_Status :: string
  tf_Offset :: int
  tf_Limit :: int

definition filter_limit :: "TFilter \<Rightarrow> int" where
  "filter_limit f = (if tf_Limit f \<le> 0 then 100 else tf_Limit f)"

record TPage =
  tp_Entries :: "Entry list"
  tp_NextOffset :: string

section \<open>Projections\<close>

definition auditEntries :: "AuditRow \<Rightarrow> Entry list" where
  "auditEntries a =
     (let corr = [(''event_id'', ar_EventID a), (''governance_id'', ar_ChainID a), (''operation_id'', ar_OperationID a),
            (''cfg_id'', ar_ChainID a)];
          meta = [(''operation'', ar_Operation a), (''actor'', ar_Actor a), (''seq'', FormatInt (ar_Seq a))]
      in [\<lparr> tl_Timestamp = ar_OccurredAt a, tl_Component = CompGovernance, tl_Action = ''operation_committed'',
            tl_Status = ''committed'', tl_DurationMS = 0, tl_Correlation = corr, tl_Metadata = meta \<rparr>,
          \<lparr> tl_Timestamp = ar_OccurredAt a, tl_Component = CompAudit, tl_Action = ''event_appended'',
            tl_Status = ''sealed'', tl_DurationMS = 0, tl_Correlation = corr, tl_Metadata = meta \<rparr>])"

text \<open>\<^verbatim>\<open>Time.Sub\<close> saturates at the largest duration.\<close>

definition durationMS :: "instant \<Rightarrow> instant \<Rightarrow> int" where
  "durationMS start end_at =
     (if IsZero start \<or> IsZero end_at \<or> end_at < start then 0
      else min (2 ^ 63 - 1) (end_at - start) div 1000000)"

definition deliveryEntry :: "DeliveryRow \<Rightarrow> Entry" where
  "deliveryEntry d = \<lparr> tl_Timestamp = (if IsZero (dr_LastAttempt d) then dr_CreatedAt d else dr_LastAttempt d),
     tl_Component = CompWebhook, tl_Action = ''delivery_'' @ dr_Status d, tl_Status = dr_Status d,
     tl_DurationMS = durationMS (dr_CreatedAt d) (dr_LastAttempt d),
     tl_Correlation = [(''delivery_id'', dr_ID d), (''event_id'', dr_EventID d), (''webhook_id'', dr_WebhookID d)],
     tl_Metadata = (if dr_StatusCode d \<noteq> 0 then [(''status_code'', FormatInt (dr_StatusCode d))] else []) \<rparr>"

definition replayEntries :: "ReplayRow \<Rightarrow> Entry list" where
  "replayEntries r =
     (let corr = [(''replay_job_id'', rr_ID r), (''webhook_id'', rr_WebhookID r)] in
      \<lparr> tl_Timestamp = rr_CreatedAt r, tl_Component = CompReplay, tl_Action = ''job_created'', tl_Status = ''pending'',
        tl_DurationMS = 0, tl_Correlation = corr, tl_Metadata = [] \<rparr> #
      (if rr_Status r = ''completed'' \<or> rr_Status r = ''failed'' then
         [\<lparr> tl_Timestamp = rr_UpdatedAt r, tl_Component = CompReplay, tl_Action = ''job_'' @ rr_Status r, tl_Status = rr_Status r,
            tl_DurationMS = durationMS (rr_CreatedAt r) (rr_UpdatedAt r), tl_Correlation = corr,
            tl_Metadata = [(''events_replayed'', FormatInt (rr_EventsReplayed r))] \<rparr>]
       else []))"

definition policyEntry :: "PolicyRow \<Rightarrow> Entry" where
  "policyEntry p = \<lparr> tl_Timestamp = (if IsZero (pr_EndedAt p) then pr_CreatedAt p else pr_EndedAt p),
     tl_Component = CompPolicy, tl_Action = ''policy_'' @ pr_Status p, tl_Status = pr_Status p,
     tl_DurationMS = durationMS (pr_StartedAt p) (pr_EndedAt p),
     tl_Correlation = [(''policy_execution_id'', pr_ID p), (''policy_id'', pr_PolicyID p), (''event_id'', pr_EventID p)],
     tl_Metadata = [(''retry_count'', FormatInt (pr_RetryCount p))] \<rparr>"

section \<open>Filtering, ordering and paging\<close>

definition entry_selected :: "TFilter \<Rightarrow> Entry \<Rightarrow> bool" where
  "entry_selected f e =
     (if \<not> IsZero (tf_From f) \<and> tl_Timestamp e < tf_From f then False
      else if \<not> IsZero (tf_To f) \<and> tf_To f < tl_Timestamp e then False
      else if tf_Component f \<noteq> [] \<and> tl_Component e \<noteq> tf_Component f then False
      else if tf_Status f \<noteq> [] \<and> tl_Status e \<noteq> tf_Status f then False
      else True)"

definition filter_entries :: "Entry list \<Rightarrow> TFilter \<Rightarrow> Entry list" where
  "filter_entries es f = filter (entry_selected f) es"

definition corrKey :: "Entry \<Rightarrow> string" where
  "corrKey e = tl_Action e @ ''|'' @ mget (tl_Correlation e) ''event_id'' @ ''|'' @ mget (tl_Correlation e) ''delivery_id'' @
     ''|'' @ mget (tl_Correlation e) ''policy_execution_id'' @ ''|'' @ mget (tl_Correlation e) ''replay_job_id''"

definition entry_key :: "Entry \<Rightarrow> instant \<times> int \<times> string" where
  "entry_key e = (tl_Timestamp e, componentOrder (tl_Component e), corrKey e)"

definition sortEntries :: "Entry list \<Rightarrow> Entry list" where
  "sortEntries es = sort_key entry_key es"

definition paginate :: "Entry list \<Rightarrow> TFilter \<Rightarrow> TPage option" where
  "paginate es f =
     (let off = (if tf_Offset f < 0 then 0 else tf_Offset f) in
      if int (length es) \<le> off then Some \<lparr> tp_Entries = [], tp_NextOffset = [] \<rparr>
      else let end_at = int64 (off + filter_limit f) in
        if int (length es) \<le> end_at then Some \<lparr> tp_Entries = drop (nat off) es, tp_NextOffset = [] \<rparr>
        else if end_at < off then None
        else Some \<lparr> tp_Entries = take (nat (end_at - off)) (drop (nat off) es), tp_NextOffset = FormatInt end_at \<rparr>)"

section \<open>The service\<close>

definition timeline_query :: "TFilter \<Rightarrow> err + Entry list \<Rightarrow> (err + TPage) option" where
  "timeline_query f gathered =
     (case gathered of
        Inl er \<Rightarrow> Some (Inl er)
      | Inr entries \<Rightarrow> map_option Inr (paginate (sortEntries (filter_entries entries f)) f))"

definition composeForEvents :: "'st timeline_source \<Rightarrow> AuditRow list \<Rightarrow> string list \<Rightarrow> 'st \<Rightarrow> err + Entry list" where
  "composeForEvents src audits eventIDs st =
     result_bind (ts_DeliveriesByEventIDs src eventIDs st) (\<lambda>dels.
     result_bind (ts_PolicyExecutionsByEventIDs src eventIDs st) (\<lambda>pes.
       Inr (concat (map auditEntries audits) @ map deliveryEntry dels @ map policyEntry pes)))"

definition gather_event :: "'st timeline_source \<Rightarrow> string \<Rightarrow> 'st \<Rightarrow> err + Entry list" where
  "gather_event src eventID st =
     result_bind (ts_AuditByEventID src eventID st) (\<lambda>audits. composeForEvents src audits [eventID] st)"

definition ByEvent :: "'st timeline_source \<Rightarrow> string \<Rightarrow> TFilter \<Rightarrow> 'st \<Rightarrow> (err + TPage) option" where
  "ByEvent src eventID f st = timeline_query f (gather_event src eventID st)"

definition gather_governance :: "'st timeline_source \<Rightarrow> string \<Rightarrow> 'st \<Rightarrow> err + Entry list" where
  "gather_governance src cfgID st =
     result_bind (ts_AuditByChain src cfgID 1000 st) (\<lambda>audits. composeForEvents src audits (map ar_EventID audits) st)"

definition ByGovernance :: "'st timeline_source \<Rightarrow> string \<Rightarrow> TFilter \<Rightarrow> 'st \<Rightarrow> (err + TPage) option" where
  "ByGovernance src cfgID f st = timeline_query f (gather_governance src cfgID st)"

definition ErrTimelineNotFound :: err where
  "ErrTimelineNotFound = ErrOther ''timeline: not found''"

definition ByReplay :: "'st timeline_source \<Rightarrow> string \<Rightarrow> TFilter \<Rightarrow> 'st \<Rightarrow> (err + TPage) option" where
  "ByReplay src jobID f st = timeline_query f
     (result_bind (ts_ReplayJob src jobID st) (\<lambda>job. case job of
        None \<Rightarrow> Inl ErrTimelineNotFound
      | Some r \<Rightarrow> Inr (replayEntries r)))"

definition gather_execution :: "'st timeline_source \<Rightarrow> string \<Rightarrow> 'st \<Rightarrow> err + Entry list" where
  "gather_execution src execID st =
     result_bind (ts_PolicyExecution src execID st) (\<lambda>exec. case exec of
        None \<Rightarrow> Inl ErrTimelineNotFound
      | Some pe \<Rightarrow>
          if pr_EventID pe \<noteq> [] then
            result_bind (ts_AuditByEventID src (pr_EventID pe) st) (\<lambda>audits.
              Inr (concat (map auditEntries audits) @ [policyEntry pe]))
          else Inr [policyEntry pe])"

definition ByPolicyExecution :: "'st timeline_source \<Rightarrow> string \<Rightarrow> TFilter \<Rightarrow> 'st \<Rightarrow> (err + TPage) option" where
  "ByPolicyExecution src execID f st = timeline_query f (gather_execution src execID st)"

section \<open>The PostgreSQL source\<close>

definition audit_row :: "AuditEvent \<Rightarrow> AuditRow" where
  "audit_row e = \<lparr> ar_ChainID = ae_ChainID e, ar_Seq = ae_Seq e, ar_EventID = ae_EventID e, ar_OperationID = ae_OperationID e,
     ar_Operation = ae_Operation e, ar_Actor = ae_Actor e, ar_OccurredAt = ae_OccurredAt e \<rparr>"

definition AuditByEventID :: "string \<Rightarrow> db \<Rightarrow> AuditRow list" where
  "AuditByEventID eventID d =
     map audit_row (sort_key (\<lambda>e. (ae_ChainID e, ae_Seq e)) (filter (\<lambda>e. ae_EventID e = eventID) (t_audit_event d)))"

definition AuditByChain :: "string \<Rightarrow> int \<Rightarrow> db \<Rightarrow> err + AuditRow list" where
  "AuditByChain chainID limit d =
     (if limit < 0 then Inl (ErrOther ''timeline audit query'')
      else Inr (map audit_row (take (nat limit) (sort_key ae_Seq (filter (\<lambda>e. ae_ChainID e = chainID) (t_audit_event d))))))"

definition delivery_row :: "Delivery \<Rightarrow> DeliveryRow" where
  "delivery_row d = \<lparr> dr_ID = dl_ID d, dr_WebhookID = dl_WebhookID d, dr_EventID = ge_EventID (dl_Event d), dr_Status = dl_Status d,
     dr_StatusCode = dl_LastStatusCode d, dr_LastAttempt = dl_LastAttempt d, dr_CreatedAt = dl_CreatedAt d \<rparr>"

definition DeliveriesByEventIDs :: "string list \<Rightarrow> hooks \<Rightarrow> DeliveryRow list" where
  "DeliveriesByEventIDs eventIDs h =
     (if length eventIDs = 0 then []
      else map delivery_row (sort_key dl_CreatedAt (filter (\<lambda>d. ge_EventID (dl_Event d) \<in> set eventIDs) (t_webhook_delivery h))))"

definition policy_row :: "Execution \<Rightarrow> PolicyRow" where
  "policy_row x = \<lparr> pr_ID = ex_ID x, pr_PolicyID = ex_PolicyID x, pr_EventID = pe_EventID (ex_Event x), pr_Status = ex_Status x,
     pr_RetryCount = ex_RetryCount x, pr_StartedAt = ex_StartedAt x, pr_EndedAt = ex_EndedAt x, pr_CreatedAt = ex_CreatedAt x \<rparr>"

definition PolicyExecutionsByEventIDs :: "string list \<Rightarrow> policies \<Rightarrow> PolicyRow list" where
  "PolicyExecutionsByEventIDs eventIDs t =
     (if length eventIDs = 0 then []
      else map policy_row (sort_key ex_CreatedAt (filter (\<lambda>x. pe_EventID (ex_Event x) \<in> set eventIDs) (t_policy_execution t))))"

definition timeline_ReplayJob :: "string \<Rightarrow> hooks \<Rightarrow> ReplayRow option" where
  "timeline_ReplayJob jobID h = map_option (\<lambda>j. \<lparr> rr_ID = rj_ID j, rr_WebhookID = rj_WebhookID j, rr_Status = rj_Status j,
     rr_EventsReplayed = rj_EventsReplayed j, rr_CreatedAt = rj_CreatedAt j, rr_UpdatedAt = rj_UpdatedAt j \<rparr>)
     (find (\<lambda>j. rj_ID j = jobID) (t_webhook_replay_job h))"

definition timeline_PolicyExecution :: "string \<Rightarrow> policies \<Rightarrow> PolicyRow option" where
  "timeline_PolicyExecution execID t = map_option policy_row (find (\<lambda>x. ex_ID x = execID) (t_policy_execution t))"

definition TimelineStore :: "(db \<times> hooks \<times> policies) timeline_source" where
  "TimelineStore = \<lparr>
     ts_AuditByEventID = (\<lambda>i (d, h, t). Inr (AuditByEventID i d)),
     ts_AuditByChain = (\<lambda>c limit (d, h, t). AuditByChain c limit d),
     ts_DeliveriesByEventIDs = (\<lambda>ids (d, h, t). Inr (DeliveriesByEventIDs ids h)),
     ts_PolicyExecutionsByEventIDs = (\<lambda>ids (d, h, t). Inr (PolicyExecutionsByEventIDs ids t)),
     ts_ReplayJob = (\<lambda>i (d, h, t). Inr (timeline_ReplayJob i h)),
     ts_PolicyExecution = (\<lambda>i (d, h, t). Inr (timeline_PolicyExecution i t)) \<rparr>"

section \<open>Pages\<close>

text \<open>A client that follows the returned offsets until there is none.\<close>

fun follow_pages :: "nat \<Rightarrow> Entry list \<Rightarrow> TFilter \<Rightarrow> Entry list option" where
  "follow_pages 0 es f = None"
| "follow_pages (Suc n) es f =
     (case paginate es f of
        None \<Rightarrow> None
      | Some p \<Rightarrow>
          if tp_NextOffset p = [] then Some (tp_Entries p)
          else (case ParseInt (tp_NextOffset p) of
                  None \<Rightarrow> None
                | Some off \<Rightarrow> map_option ((@) (tp_Entries p)) (follow_pages n es (f\<lparr> tf_Offset := off \<rparr>))))"

lemma FormatInt_nonempty [simp]: "FormatInt i \<noteq> []"
  by (simp add: FormatInt_def)

lemma follow_pages_from:
  assumes "int (length es) + filter_limit f < 2 ^ 63" "tf_Offset f = int m" "m \<le> length es" "length es - m < n"
  shows "follow_pages n es f = Some (drop m es)"
  using assms
proof (induction n arbitrary: f m)
  case (Suc n)
  define L where "L = nat (filter_limit f)"
  have L: "filter_limit f = int L" "0 < L"
    by (auto simp: L_def filter_limit_def)
  have end_at: "int64 (int m + int L) = int m + int L"
    using Suc.prems(1,3) L by (intro int64_id) auto
  show ?case
  proof (cases "m + L < length es")
    case True
    have page: "paginate es f = Some \<lparr> tp_Entries = take L (drop m es), tp_NextOffset = FormatInt (int (m + L)) \<rparr>"
      using True Suc.prems(2) by (simp add: paginate_def Let_def L(1) end_at)
    have "ParseInt (FormatInt (int (m + L))) = Some (int (m + L))"
      using Suc.prems(1) True L by (intro ParseInt_FormatInt) auto
    moreover have "follow_pages n es (f\<lparr> tf_Offset := int (m + L) \<rparr>) = Some (drop (m + L) es)"
      using Suc.prems True L by (intro Suc.IH) (auto simp: filter_limit_def)
    ultimately show ?thesis
      using page by simp (metis add.commute append_take_drop_id drop_drop)
  next
    case False
    have "paginate es f = Some \<lparr> tp_Entries = drop m es, tp_NextOffset = [] \<rparr>"
      using False Suc.prems(2,3) by (cases "m = length es") (auto simp: paginate_def Let_def L(1) end_at)
    then show ?thesis
      by simp
  qed
qed simp

text \<open>C30: following the offsets of a timeline from the first page ends and yields every selected entry exactly once, in the
  order of time, component and correlation key, whatever the page size.\<close>

theorem timeline_pages_complete:
  assumes "tf_Offset f = 0" "int (length entries) + filter_limit f < 2 ^ 63"
  shows "\<exists>es. follow_pages (Suc (length entries)) (sortEntries (filter_entries entries f)) f = Some es \<and>
    mset es = mset (filter (entry_selected f) entries) \<and> sorted (map entry_key es)"
proof -
  let ?es = "sortEntries (filter_entries entries f)"
  have len: "length ?es \<le> length entries"
    by (simp add: sortEntries_def filter_entries_def)
  then have "follow_pages (Suc (length entries)) ?es f = Some (drop 0 ?es)"
    using assms by (intro follow_pages_from) auto
  then show ?thesis
    by (simp add: sortEntries_def filter_entries_def)
qed

theorem timeline_pages_complete_witness:
  "\<exists>es. follow_pages 3 (sortEntries (filter_entries (auditEntries (audit_row sample_event))
      \<lparr> tf_From = zero_time, tf_To = zero_time, tf_Component = [], tf_Status = [], tf_Offset = 0, tf_Limit = 1 \<rparr>))
      \<lparr> tf_From = zero_time, tf_To = zero_time, tf_Component = [], tf_Status = [], tf_Offset = 0, tf_Limit = 1 \<rparr> = Some es \<and>
    mset es = mset (auditEntries (audit_row sample_event))"
proof -
  let ?f = "\<lparr> tf_From = zero_time, tf_To = zero_time, tf_Component = [], tf_Status = [], tf_Offset = 0, tf_Limit = 1 \<rparr>"
  let ?es = "auditEntries (audit_row sample_event)"
  have len: "length ?es = 2"
    by (simp add: auditEntries_def Let_def)
  have "filter (entry_selected ?f) ?es = ?es"
    by (rule filter_True) (simp add: entry_selected_def IsZero_def)
  moreover have "tf_Offset ?f = 0" "int (length ?es) + filter_limit ?f < 2 ^ 63"
    by (simp_all add: len filter_limit_def)
  ultimately show ?thesis
    using timeline_pages_complete [of ?f ?es] unfolding len numeral_3_eq_3 numeral_2_eq_2 by auto
qed

section \<open>What the governance timeline shows\<close>

lemma gather_governance_entries:
  "gather_governance TimelineStore c (d, h, t) =
     (let audits = take 1000 (chain_events d c); ids = map ae_EventID audits in
      Inr (concat (map (\<lambda>a. auditEntries (audit_row a)) audits) @
        map (\<lambda>x. deliveryEntry (delivery_row x)) (sort_key dl_CreatedAt (filter (\<lambda>x. ge_EventID (dl_Event x) \<in> set ids) (t_webhook_delivery h))) @
        map (\<lambda>x. policyEntry (policy_row x)) (sort_key ex_CreatedAt (filter (\<lambda>x. pe_EventID (ex_Event x) \<in> set ids) (t_policy_execution t)))))"
proof -
  have "map ar_EventID (map audit_row xs) = map ae_EventID xs" for xs
    by (simp add: audit_row_def)
  then show ?thesis
    by (simp add: gather_governance_def TimelineStore_def AuditByChain_def composeForEvents_def DeliveriesByEventIDs_def
        PolicyExecutionsByEventIDs_def Let_def comp_def flip: chain_events_def)
qed

text \<open>The timeline of an object shows what happened to it: for every one of its first thousand events that the relay has
  passed, and every enabled webhook that matches the event, a webhook entry carries the event's id and the webhook's id.\<close>

lemma timeline_shows_deliveries:
  assumes "flow pg newID ws (k, d, h)" "pg_exact pg" "inj newID"
    and "a \<in> set (take (min 1000 (nat (GetCursor c h))) (chain_events d c))"
    and "w \<in> set (enabled ws)" "Webhook_Matches w (eventFrom a)"
  shows "\<exists>entries e. gather_governance TimelineStore c (d, h, t) = Inr entries \<and> e \<in> set entries \<and>
    tl_Component e = CompWebhook \<and> mget (tl_Correlation e) ''event_id'' = ae_EventID a \<and>
    mget (tl_Correlation e) ''webhook_id'' = wh_ID w"
proof -
  have a: "a \<in> set (take (nat (GetCursor c h)) (chain_events d c))" "a \<in> set (take 1000 (chain_events d c))"
    using assms(4) by (auto simp: min_def split: if_splits dest: in_set_takeD)
      (metis in_set_takeD linorder_linear set_take_subset_set_take subsetD)+
  have "(wh_ID w, stored_event pg (eventFrom a)) \<in> set (relayed pg (enabled ws) (take (nat (GetCursor c h)) (chain_events d c)))"
    using a(1) assms(5,6) by (force simp: relayed_def matched_def)
  moreover have "delivered_pairs h c = relayed pg (enabled ws) (take (nat (GetCursor c h)) (chain_events d c))"
    using flow_invariant [OF assms(1-3)] by (simp add: flow_inv_def)
  ultimately have "(wh_ID w, stored_event pg (eventFrom a)) \<in> set (delivered_pairs h c)"
    by simp
  then obtain x where x: "x \<in> set (t_webhook_delivery h)" "dl_WebhookID x = wh_ID w" "dl_Event x = stored_event pg (eventFrom a)"
    by (auto simp: delivered_pairs_def)
  have id: "ge_EventID (dl_Event x) = ae_EventID a"
    by (simp add: x(3) stored_event_def eventFrom_def)
  let ?e = "deliveryEntry (delivery_row x)"
  have "tl_Component ?e = CompWebhook" "mget (tl_Correlation ?e) ''event_id'' = ae_EventID a" "mget (tl_Correlation ?e) ''webhook_id'' = wh_ID w"
    using id x(2) by (simp_all add: deliveryEntry_def delivery_row_def mget_def)
  then show ?thesis
    using x(1) a(2) id unfolding gather_governance_entries Let_def by force
qed

end
