(* ===== verification/Compliance.thy ===== *)
theory Compliance
  imports Timeline Listing
begin

text \<open>
  The compliance and evidence engine (\<^verbatim>\<open>internal/compliance\<close>): an evidence bundle is composed from the object, the
  verification of its chain and its timeline.  \<open>None\<close> is a panic of the timeline's paging.  \<open>now\<close> is the clock.
  The renderings of a bundle (\<^verbatim>\<open>export.go\<close>) are in \<open>QueryApi\<close>.
\<close>

section \<open>Facets\<close>

record GovernanceSummary =
  gv_CfgID :: string
  gv_Lifecycle :: string
  gv_RetentionClass :: string
  gv_Authority :: string
  gv_RowVersion :: int
  gv_RatifiedBy :: string
  gv_CreatedAt :: instant
  gv_UpdatedAt :: instant

record IntegritySummary =
  ig_ChainID :: string
  ig_Verified :: bool
  ig_Checked :: int
  ig_HeadSeq :: int
  ig_FirstBreakSeq :: "int option"
  ig_BreakReason :: string

record Check =
  ck_ID :: string
  ck_Description :: string
  ck_Passed :: bool
  ck_Detail :: string

record Evidence =
  ev_GovernanceID :: string
  ev_GeneratedAt :: instant
  ev_Governance :: GovernanceSummary
  ev_Integrity :: IntegritySummary
  ev_Timeline :: "Entry list"
  ev_Webhooks :: "Entry list"
  ev_Replays :: "Entry list"
  ev_Policies :: "Entry list"
  ev_CorrelationIDs :: "string list"
  ev_Checks :: "Check list"
  ev_Compliant :: bool

record Summary =
  sm_GovernanceID :: string
  sm_Lifecycle :: string
  sm_Verified :: bool
  sm_Compliant :: bool
  sm_ChecksPassed :: int
  sm_ChecksTotal :: int
  sm_GeneratedAt :: instant

record ReportPage =
  rp_Items :: "Summary list"
  rp_NextCursor :: string

section \<open>Checks\<close>

definition check_reason :: "bool \<Rightarrow> string \<Rightarrow> string \<Rightarrow> string" where
  "check_reason ok okMsg breakMsg = (if ok then okMsg else if breakMsg \<noteq> [] then breakMsg else ''not verified'')"

definition audit_present :: "Entry list \<Rightarrow> bool" where
  "audit_present es \<longleftrightarrow> list_ex (\<lambda>e. tl_Component e = CompAudit) es"

definition failed_policy :: "Entry list \<Rightarrow> bool" where
  "failed_policy es \<longleftrightarrow> list_ex (\<lambda>e. tl_Component e = CompPolicy \<and> (tl_Status e = ''failed'' \<or> tl_Status e = ''dead_letter'')) es"

definition has_approval :: "Entry list \<Rightarrow> bool" where
  "has_approval es \<longleftrightarrow> list_ex (\<lambda>e. tl_Component e = CompGovernance \<and>
     (let op = mget (tl_Metadata e) ''operation'' in op = ''ratification'' \<or> op = ''approval'')) es"

definition evaluateChecks :: "GovernanceSummary \<Rightarrow> IntegritySummary \<Rightarrow> Entry list \<Rightarrow> Check list" where
  "evaluateChecks gov integ entries =
     (let lifecycleComplete = (gv_Lifecycle gov \<noteq> [] \<and> gv_Lifecycle gov \<noteq> ''draft'' \<and> gv_Lifecycle gov \<noteq> ''in_review'');
          approvalsPresent = (gv_RatifiedBy gov \<noteq> [] \<or> has_approval entries)
      in [\<lparr> ck_ID = ''audit-chain-verified'', ck_Description = ''The audit chain verifies with no break.'',
            ck_Passed = ig_Verified integ, ck_Detail = check_reason (ig_Verified integ) ''verified'' (ig_BreakReason integ) \<rparr>,
          \<lparr> ck_ID = ''no-failed-integrity-verification'', ck_Description = ''No integrity break was detected.'',
            ck_Passed = (ig_FirstBreakSeq integ = None), ck_Detail = [] \<rparr>,
          \<lparr> ck_ID = ''audit-events-present'', ck_Description = ''The governance object has committed audit events.'',
            ck_Passed = audit_present entries, ck_Detail = [] \<rparr>,
          \<lparr> ck_ID = ''governance-lifecycle-complete'', ck_Description = ''Lifecycle progressed past draft/in_review.'',
            ck_Passed = lifecycleComplete, ck_Detail = gv_Lifecycle gov \<rparr>,
          \<lparr> ck_ID = ''required-approvals-present'', ck_Description = ''An approver or ratification is recorded.'',
            ck_Passed = approvalsPresent, ck_Detail = [] \<rparr>,
          \<lparr> ck_ID = ''policy-executions-completed'', ck_Description = ''No failed or dead-letter policy executions.'',
            ck_Passed = (\<not> failed_policy entries), ck_Detail = [] \<rparr>])"

fun allPassed :: "Check list \<Rightarrow> bool" where
  "allPassed [] = True"
| "allPassed (c # cs) = (if \<not> ck_Passed c then False else allPassed cs)"

section \<open>Composition\<close>

definition byComponent :: "Entry list \<Rightarrow> string \<Rightarrow> Entry list" where
  "byComponent entries component = filter (\<lambda>e. tl_Component e = component) entries"

definition correlationIDs :: "Entry list \<Rightarrow> string list" where
  "correlationIDs entries = sort (remdups (filter (\<lambda>v. v \<noteq> []) (concat (map (\<lambda>e. map snd (tl_Correlation e)) entries))))"

record 'st compliance_ports =
  cp_Get :: "string \<Rightarrow> 'st \<Rightarrow> err + ConfigObject"
  cp_List :: "ListParams \<Rightarrow> 'st \<Rightarrow> err + Page"
  cp_VerifyChain :: "string \<Rightarrow> 'st \<Rightarrow> err + VerifyResult"
  cp_ByGovernance :: "string \<Rightarrow> TFilter \<Rightarrow> 'st \<Rightarrow> (err + TPage) option"

definition governance_summary :: "ConfigObject \<Rightarrow> GovernanceSummary" where
  "governance_summary obj = \<lparr> gv_CfgID = co_CfgID obj, gv_Lifecycle = co_Lifecycle obj, gv_RetentionClass = co_RetentionClass obj,
     gv_Authority = co_Authority obj, gv_RowVersion = co_RowVersion obj, gv_RatifiedBy = co_RatifiedBy obj,
     gv_CreatedAt = co_CreatedAt obj, gv_UpdatedAt = co_UpdatedAt obj \<rparr>"

definition integrity_summary :: "string \<Rightarrow> VerifyResult \<Rightarrow> IntegritySummary" where
  "integrity_summary chainID vr = \<lparr> ig_ChainID = chainID, ig_Verified = vr_OK vr, ig_Checked = vr_Checked vr, ig_HeadSeq = vr_HeadSeq vr,
     ig_FirstBreakSeq = vr_FirstBreakSeq vr, ig_BreakReason = vr_BreakReason vr \<rparr>"

definition evidence_filter :: TFilter where
  "evidence_filter = \<lparr> tf_From = zero_time, tf_To = zero_time, tf_Component = [], tf_Status = [], tf_Offset = 0, tf_Limit = 10000 \<rparr>"

definition build :: "'st compliance_ports \<Rightarrow> instant \<Rightarrow> string \<Rightarrow> 'st \<Rightarrow> (err + Evidence) option" where
  "build p now govID st =
     (case cp_Get p govID st of
        Inl er \<Rightarrow> Some (Inl er)
      | Inr obj \<Rightarrow>
     (case cp_VerifyChain p (AuditChainID govID) st of
        Inl er \<Rightarrow> Some (Inl er)
      | Inr vr \<Rightarrow>
     (case cp_ByGovernance p govID evidence_filter st of
        None \<Rightarrow> None
      | Some (Inl er) \<Rightarrow> Some (Inl er)
      | Some (Inr page) \<Rightarrow>
        let gov = governance_summary obj; integ = integrity_summary (AuditChainID govID) vr; entries = tp_Entries page;
            checks = evaluateChecks gov integ entries
        in Some (Inr \<lparr> ev_GovernanceID = govID, ev_GeneratedAt = now, ev_Governance = gov, ev_Integrity = integ, ev_Timeline = entries,
             ev_Webhooks = byComponent entries CompWebhook, ev_Replays = byComponent entries CompReplay,
             ev_Policies = byComponent entries CompPolicy, ev_CorrelationIDs = correlationIDs entries,
             ev_Checks = checks, ev_Compliant = allPassed checks \<rparr>))))"

definition summaryOf :: "Evidence \<Rightarrow> Summary" where
  "summaryOf ev = \<lparr> sm_GovernanceID = ev_GovernanceID ev, sm_Lifecycle = gv_Lifecycle (ev_Governance ev),
     sm_Verified = ig_Verified (ev_Integrity ev), sm_Compliant = ev_Compliant ev,
     sm_ChecksPassed = int (length (filter ck_Passed (ev_Checks ev))), sm_ChecksTotal = int (length (ev_Checks ev)),
     sm_GeneratedAt = ev_GeneratedAt ev \<rparr>"

definition Compliance_Evidence :: "'st compliance_ports \<Rightarrow> instant \<Rightarrow> string \<Rightarrow> 'st \<Rightarrow> (err + Evidence) option" where
  "Compliance_Evidence p now govID st = build p now govID st"

definition Compliance_Summary :: "'st compliance_ports \<Rightarrow> instant \<Rightarrow> string \<Rightarrow> 'st \<Rightarrow> (err + Summary) option" where
  "Compliance_Summary p now govID st = map_option (map_sum id summaryOf) (build p now govID st)"

definition Compliance_Checks :: "'st compliance_ports \<Rightarrow> instant \<Rightarrow> string \<Rightarrow> 'st \<Rightarrow> (err + Check list) option" where
  "Compliance_Checks p now govID st = map_option (map_sum id ev_Checks) (build p now govID st)"

fun report_items :: "'st compliance_ports \<Rightarrow> instant \<Rightarrow> ConfigObject list \<Rightarrow> 'st \<Rightarrow> (err + Summary list) option" where
  "report_items p now [] st = Some (Inr [])"
| "report_items p now (obj # objs) st =
     (case build p now (co_CfgID obj) st of
        None \<Rightarrow> None
      | Some (Inl er) \<Rightarrow> Some (Inl er)
      | Some (Inr ev) \<Rightarrow> map_option (map_sum id ((#) (summaryOf ev))) (report_items p now objs st))"

definition Reports :: "'st compliance_ports \<Rightarrow> instant \<Rightarrow> string \<Rightarrow> int \<Rightarrow> 'st \<Rightarrow> (err + ReportPage) option" where
  "Reports p now cursor limit st =
     (case cp_List p \<lparr> lp_Filter = \<lparr> fl_Role = [], fl_Lifecycle = [], fl_Authority = [], fl_Query = [] \<rparr>,
          lp_Limit = (if limit \<le> 0 then 50 else limit), lp_Cursor = cursor \<rparr> st of
        Inl er \<Rightarrow> Some (Inl er)
      | Inr page \<Rightarrow> map_option (map_sum id (\<lambda>items. \<lparr> rp_Items = items, rp_NextCursor = pg_NextCursor page \<rparr>))
          (report_items p now (pg_Items page) st))"

text \<open>The service as the control plane wires it.\<close>

definition pg_compliance :: "text_search \<Rightarrow> (db \<times> hooks \<times> policies) compliance_ports" where
  "pg_compliance sx = \<lparr>
     cp_Get = (\<lambda>i (d, h, t). Get i d),
     cp_List = (\<lambda>p (d, h, t). ConfigObject_List sx p d),
     cp_VerifyChain = (\<lambda>c (d, h, t). VerifyChain (VerifyRangeReader d) c),
     cp_ByGovernance = ByGovernance TimelineStore \<rparr>"

section \<open>Evidence on reachable databases\<close>

lemma reader_all:
  assumes "chains_ok d" "int (length (chain_events d c)) < MaxInt64"
  shows "VerifyRangeReader d c 1 MaxInt64 = (chain_events d c, None)"
proof -
  have "chain_valid GenesisPrevHash 1 (chain_events d c)"
    using assms(1) by (simp add: chains_ok_def)
  then have "1 \<le> ae_Seq e \<and> ae_Seq e \<le> MaxInt64" if "e \<in> set (chain_events d c)" for e
    using that assms(2) by (fastforce simp: chain_valid_def in_set_conv_nth)
  then show ?thesis
    by (simp add: VerifyRangeReader_def)
qed

lemma VerifyChain_chains_ok:
  assumes "chains_ok d" "int (length (chain_events d c)) < MaxInt64"
  shows "\<exists>r. VerifyChain (VerifyRangeReader d) c = Inr r \<and> vr_OK r \<and> vr_FirstBreakSeq r = None"
proof -
  have "chain_valid GenesisPrevHash 1 (chain_events d c)"
    using assms(1) by (simp add: chains_ok_def)
  then show ?thesis
    using VerifyChain_accepts [of "VerifyRangeReader d" c, OF reader_all [OF assms] assms(2)] by simp
qed

lemma paginate_evidence: "length es \<le> 10000 \<Longrightarrow> paginate es evidence_filter = Some \<lparr> tp_Entries = es, tp_NextOffset = [] \<rparr>"
  by (simp add: paginate_def evidence_filter_def filter_limit_def Let_def int64_def)

lemma evidence_selects_all: "filter_entries es evidence_filter = es"
  by (simp add: filter_entries_def filter_id_conv entry_selected_def evidence_filter_def IsZero_def)

lemma sortEntries_set [simp]: "set (sortEntries es) = set es" "length (sortEntries es) = length es"
  by (simp_all add: sortEntries_def)

lemma ByGovernance_evidence:
  assumes "gather_governance TimelineStore c st = Inr entries" "length entries \<le> 10000"
  shows "ByGovernance TimelineStore c evidence_filter st = Some (Inr \<lparr> tp_Entries = sortEntries entries, tp_NextOffset = [] \<rparr>)"
  using assms by (simp add: ByGovernance_def timeline_query_def evidence_selects_all paginate_evidence)

text \<open>What the entries say of the object's first thousand events.\<close>

lemma governance_entries_facts:
  assumes "gather_governance TimelineStore c (d, h, t) = Inr entries"
  shows "audit_present entries \<longleftrightarrow> chain_events d c \<noteq> []"
    and "has_approval entries \<longleftrightarrow> (\<exists>a \<in> set (take 1000 (chain_events d c)). ae_Operation a \<in> {''ratification'', ''approval''})"
    and "failed_policy entries \<longleftrightarrow> (\<exists>x \<in> set (t_policy_execution t). pe_EventID (ex_Event x) \<in> ae_EventID ` set (take 1000 (chain_events d c)) \<and>
      ex_Status x \<in> {''failed'', ''dead_letter''})"
    and "byComponent entries CompReplay = []"
proof -
  let ?as = "take 1000 (chain_events d c)" and ?ids = "ae_EventID ` set (take 1000 (chain_events d c))"
  have entries: "set entries = (\<Union>a \<in> set ?as. set (auditEntries (audit_row a))) \<union>
      (\<lambda>x. deliveryEntry (delivery_row x)) ` {x \<in> set (t_webhook_delivery h). ge_EventID (dl_Event x) \<in> ?ids} \<union>
      (\<lambda>x. policyEntry (policy_row x)) ` {x \<in> set (t_policy_execution t). pe_EventID (ex_Event x) \<in> ?ids}"
    using assms unfolding gather_governance_entries by (auto simp: Let_def)
  have split: "(\<exists>e \<in> set entries. P e) \<longleftrightarrow> (\<exists>a \<in> set ?as. \<exists>e \<in> set (auditEntries (audit_row a)). P e) \<or>
      (\<exists>x \<in> set (t_webhook_delivery h). ge_EventID (dl_Event x) \<in> ?ids \<and> P (deliveryEntry (delivery_row x))) \<or>
      (\<exists>x \<in> set (t_policy_execution t). pe_EventID (ex_Event x) \<in> ?ids \<and> P (policyEntry (policy_row x)))" for P
    unfolding entries by blast
  have delivery [simp]: "tl_Component (deliveryEntry y) = CompWebhook" for y
    by (simp add: deliveryEntry_def)
  have policy [simp]: "tl_Component (policyEntry (policy_row x)) = CompPolicy" "tl_Status (policyEntry (policy_row x)) = ex_Status x" for x
    by (simp_all add: policyEntry_def policy_row_def)
  have audit [simp]: "\<exists>e \<in> set (auditEntries (audit_row a)). tl_Component e = CompAudit"
      "(\<exists>e \<in> set (auditEntries (audit_row a)). tl_Component e = CompGovernance \<and>
        (mget (tl_Metadata e) ''operation'' = ''ratification'' \<or> mget (tl_Metadata e) ''operation'' = ''approval'')) \<longleftrightarrow>
       ae_Operation a = ''ratification'' \<or> ae_Operation a = ''approval''"
      "\<not> (\<exists>e \<in> set (auditEntries (audit_row a)). tl_Component e = CompPolicy \<and> P e)"
      "\<not> (\<exists>e \<in> set (auditEntries (audit_row a)). tl_Component e = CompReplay)" for a P
    by (simp_all add: auditEntries_def audit_row_def mget_def Let_def)
  show "audit_present entries \<longleftrightarrow> chain_events d c \<noteq> []"
    unfolding audit_present_def list_ex_iff split by simp (metis take_eq_Nil set_empty ex_in_conv zero_neq_numeral)
  show "has_approval entries \<longleftrightarrow> (\<exists>a \<in> set ?as. ae_Operation a \<in> {''ratification'', ''approval''})"
    unfolding has_approval_def list_ex_iff split Let_def by simp
  show "failed_policy entries \<longleftrightarrow> (\<exists>x \<in> set (t_policy_execution t). pe_EventID (ex_Event x) \<in> ?ids \<and> ex_Status x \<in> {''failed'', ''dead_letter''})"
    unfolding failed_policy_def list_ex_iff split by simp
  have "\<not> (\<exists>e \<in> set entries. tl_Component e = CompReplay)"
    unfolding split by simp
  then show "byComponent entries CompReplay = []"
    unfolding byComponent_def filter_empty_conv by blast
qed

lemma facts_of_set:
  assumes "set es = set es'"
  shows "audit_present es = audit_present es'" "has_approval es = has_approval es'" "failed_policy es = failed_policy es'"
    "byComponent es k = [] \<longleftrightarrow> byComponent es' k = []"
  using assms by (simp_all add: audit_present_def has_approval_def failed_policy_def list_ex_iff byComponent_def filter_empty_conv)



end
