(* ===== verification/QueryApi.thy ===== *)
theory QueryApi
  imports EventsApi Compliance
begin

text \<open>
  The read-only queries over HTTP (\<^verbatim>\<open>internal/httpapi\<close>: handlers_timeline.go, handlers_compliance.go) and the
  renderings of an evidence bundle (\<^verbatim>\<open>internal/compliance/export.go\<close>).  The writer of \<^verbatim>\<open>archive/zip\<close> is a
  parameter, a function of the name, the time and the content of the one entry; the counter of exports is left out.
\<close>

section \<open>Indented documents\<close>

text \<open>\<^verbatim>\<open>json.Indent\<close> with an empty prefix and two spaces, on a compact document.  \<open>need\<close> is set after an opening
  bracket, so that an empty object or array stays on its line.\<close>

definition new_line :: "nat \<Rightarrow> bytes" where
  "new_line depth = CHR 0x0A # concat (replicate depth ''  '')"

datatype scan_state = Outside | Quoted | Escaped

definition next_quoted :: "char \<Rightarrow> scan_state" where
  "next_quoted c = (if c = quote_ch then Outside else if c = backslash then Escaped else Quoted)"

primrec indent_json :: "bytes \<Rightarrow> scan_state \<Rightarrow> bool \<Rightarrow> nat \<Rightarrow> bytes" where
  "indent_json [] q need depth = []"
| "indent_json (c # s) q need depth = (case q of
       Escaped \<Rightarrow> c # indent_json s Quoted False depth
     | Quoted \<Rightarrow> c # indent_json s (next_quoted c) False depth
     | Outside \<Rightarrow>
         if c = CHR ''}'' \<or> c = CHR '']'' then
           (if need then c # indent_json s Outside False depth
            else new_line (depth - 1) @ c # indent_json s Outside False (depth - 1))
         else
           (let depth = (if need then Suc depth else depth) in
            (if need then new_line depth else []) @ c #
            (if c = quote_ch then indent_json s Quoted False depth
             else if c = CHR ''{'' \<or> c = CHR ''['' then indent_json s Outside True depth
             else if c = CHR '','' then new_line depth @ indent_json s Outside False depth
             else if c = CHR '':'' then CHR '' '' # indent_json s Outside False depth
             else indent_json s Outside False depth)))"

definition MarshalIndent :: "err + bytes \<Rightarrow> err + bytes" where
  "MarshalIndent m = map_sum id (\<lambda>b. indent_json b Outside False 0) m"

section \<open>Timelines\<close>

definition Entry_json :: "(instant \<Rightarrow> int) \<Rightarrow> Entry \<Rightarrow> err + bytes" where
  "Entry_json zone e =
     result_bind (MarshalTime zone (tl_Timestamp e)) (\<lambda>timestamp.
       Inr (print_struct True
         ([(''timestamp'', timestamp), (''component'', json_quote True (tl_Component e)), (''action'', json_quote True (tl_Action e)),
           (''status'', json_quote True (tl_Status e)), (''duration_ms'', FormatInt (tl_DurationMS e)),
           (''correlation'', smap_json (tl_Correlation e))] @
          (if tl_Metadata e = [] then [] else [(''metadata'', smap_json (tl_Metadata e))]))))"

definition entries_json :: "(instant \<Rightarrow> int) \<Rightarrow> Entry list \<Rightarrow> err + bytes" where
  "entries_json zone es = map_sum id array_json (result_map (Entry_json zone) es)"

definition TPage_json :: "(instant \<Rightarrow> int) \<Rightarrow> TPage \<Rightarrow> err + bytes" where
  "TPage_json zone page =
     result_bind (entries_json zone (tp_Entries page)) (\<lambda>entries.
       Inr (print_struct True ((''entries'', entries) # omitempty ''next_offset'' (tp_NextOffset page))))"

definition parse_bound :: "string \<Rightarrow> instant" where
  "parse_bound v = (if v = [] then zero_time else case Parse_RFC3339 v of None \<Rightarrow> zero_time | Some (t, off) \<Rightarrow> t)"

definition parseTimelineFilter :: "Config \<Rightarrow> Request \<Rightarrow> TFilter" where
  "parseTimelineFilter cfg r =
     \<lparr> tf_From = parse_bound (Query_Get r ''from''), tf_To = parse_bound (Query_Get r ''to''),
       tf_Component = Query_Get r ''component'', tf_Status = Query_Get r ''status'',
       tf_Offset = (let v = Query_Get r ''offset'' in
          if v = [] then 0 else case ParseInt v of None \<Rightarrow> 0 | Some n \<Rightarrow> if 0 \<le> n then n else 0),
       tf_Limit = pageLimit cfg r \<rparr>"

definition writeTimeline :: "(instant \<Rightarrow> int) \<Rightarrow> Request \<Rightarrow> (err + TPage) option \<Rightarrow> reply" where
  "writeTimeline zone r result = (case result of
       None \<Rightarrow> HandlerPanic []
     | Some (Inl er) \<Rightarrow>
         Replied (if er = ErrTimelineNotFound then writeProblem r 404 ''not found'' ''no such timeline root'' else mapError r er)
     | Some (Inr page) \<Rightarrow> Replied (writeJSON [] 200 (TPage_json zone page)))"

definition timelineUnavailable :: "Request \<Rightarrow> Response" where
  "timelineUnavailable r = writeProblem r 500 ''internal error'' ''timeline unavailable''"

text \<open>The four endpoints: each runs its query on the parameter of its path.\<close>

definition serveTimeline ::
    "Config \<Rightarrow> (instant \<Rightarrow> int) \<Rightarrow> string \<Rightarrow> (string \<Rightarrow> TFilter \<Rightarrow> 's \<Rightarrow> (err + TPage) option) option \<Rightarrow> 's handler" where
  "serveTimeline cfg zone param query r s = (case query of
       None \<Rightarrow> (Replied (timelineUnavailable r), s)
     | Some q \<Rightarrow> (writeTimeline zone r (q (URLParam r param) (parseTimelineFilter cfg r) s), s))"

definition getEventTimeline :: "Config \<Rightarrow> (instant \<Rightarrow> int) \<Rightarrow> 's timeline_source option \<Rightarrow> 's handler" where
  "getEventTimeline cfg zone src = serveTimeline cfg zone ''eventID'' (map_option ByEvent src)"

definition getGovernanceTimeline :: "Config \<Rightarrow> (instant \<Rightarrow> int) \<Rightarrow> 's timeline_source option \<Rightarrow> 's handler" where
  "getGovernanceTimeline cfg zone src = serveTimeline cfg zone ''id'' (map_option ByGovernance src)"

definition getReplayTimeline :: "Config \<Rightarrow> (instant \<Rightarrow> int) \<Rightarrow> 's timeline_source option \<Rightarrow> 's handler" where
  "getReplayTimeline cfg zone src = serveTimeline cfg zone ''jobID'' (map_option ByReplay src)"

definition getPolicyTimeline :: "Config \<Rightarrow> (instant \<Rightarrow> int) \<Rightarrow> 's timeline_source option \<Rightarrow> 's handler" where
  "getPolicyTimeline cfg zone src = serveTimeline cfg zone ''id'' (map_option ByPolicyExecution src)"

section \<open>Compliance\<close>

definition GovernanceSummary_json :: "(instant \<Rightarrow> int) \<Rightarrow> GovernanceSummary \<Rightarrow> err + bytes" where
  "GovernanceSummary_json zone g =
     result_bind (MarshalTime zone (gv_CreatedAt g)) (\<lambda>created.
     result_bind (MarshalTime zone (gv_UpdatedAt g)) (\<lambda>updated.
       Inr (print_struct True
         ([(''cfg_id'', json_quote True (gv_CfgID g)), (''lifecycle'', json_quote True (GovernanceSummary.gv_Lifecycle g)),
           (''retention_class'', json_quote True (GovernanceSummary.gv_RetentionClass g)),
           (''authority'', json_quote True (GovernanceSummary.gv_Authority g)), (''row_version'', FormatInt (gv_RowVersion g))] @
          omitempty ''ratified_by'' (gv_RatifiedBy g) @ [(''created_at'', created), (''updated_at'', updated)]))))"

definition IntegritySummary_json :: "IntegritySummary \<Rightarrow> bytes" where
  "IntegritySummary_json i = print_struct True
     ([(''chain_id'', json_quote True (ig_ChainID i)), (''verified'', bool_field (ig_Verified i)),
       (''checked'', FormatInt (ig_Checked i)), (''head_seq'', FormatInt (ig_HeadSeq i))] @
      (case ig_FirstBreakSeq i of None \<Rightarrow> [] | Some n \<Rightarrow> [(''first_break_seq'', FormatInt n)]) @
      omitempty ''break_reason'' (ig_BreakReason i))"

definition Check_json :: "Check \<Rightarrow> bytes" where
  "Check_json c = print_struct True
     ([(''id'', json_quote True (ck_ID c)), (''description'', json_quote True (ck_Description c)), (''passed'', bool_field (ck_Passed c))] @
      omitempty ''detail'' (ck_Detail c))"

definition Evidence_json :: "(instant \<Rightarrow> int) \<Rightarrow> Evidence \<Rightarrow> err + bytes" where
  "Evidence_json zone ev =
     result_bind (MarshalTime zone (ev_GeneratedAt ev)) (\<lambda>generated.
     result_bind (GovernanceSummary_json zone (ev_Governance ev)) (\<lambda>gov.
     result_bind (entries_json zone (ev_Timeline ev)) (\<lambda>timeline.
     result_bind (entries_json zone (ev_Webhooks ev)) (\<lambda>webhooks.
     result_bind (entries_json zone (ev_Replays ev)) (\<lambda>replays.
     result_bind (entries_json zone (ev_Policies ev)) (\<lambda>policies.
       Inr (print_struct True
         [(''governance_id'', json_quote True (ev_GovernanceID ev)), (''generated_at'', generated), (''governance'', gov),
          (''integrity'', IntegritySummary_json (ev_Integrity ev)), (''timeline'', timeline), (''webhooks'', webhooks),
          (''replays'', replays), (''policies'', policies),
          (''correlation_ids'', array_json (map (json_quote True) (ev_CorrelationIDs ev))),
          (''checks'', array_json (map Check_json (ev_Checks ev))), (''compliant'', bool_field (ev_Compliant ev))])))))))"

definition Summary_json :: "(instant \<Rightarrow> int) \<Rightarrow> Summary \<Rightarrow> err + bytes" where
  "Summary_json zone sm =
     result_bind (MarshalTime zone (sm_GeneratedAt sm)) (\<lambda>generated.
       Inr (print_struct True
         [(''governance_id'', json_quote True (sm_GovernanceID sm)), (''lifecycle'', json_quote True (sm_Lifecycle sm)),
          (''verified'', bool_field (sm_Verified sm)), (''compliant'', bool_field (sm_Compliant sm)),
          (''checks_passed'', FormatInt (sm_ChecksPassed sm)), (''checks_total'', FormatInt (sm_ChecksTotal sm)),
          (''generated_at'', generated)]))"

definition ReportPage_json :: "(instant \<Rightarrow> int) \<Rightarrow> ReportPage \<Rightarrow> err + bytes" where
  "ReportPage_json zone page =
     result_bind (result_map (Summary_json zone) (rp_Items page)) (\<lambda>items.
       Inr (print_struct True ((''items'', array_json items) # omitempty ''next_cursor'' (rp_NextCursor page))))"

type_synonym zip_writer = "string \<Rightarrow> instant \<Rightarrow> bytes \<Rightarrow> err + bytes"

definition BuildJSON :: "(instant \<Rightarrow> int) \<Rightarrow> Evidence \<Rightarrow> err + bytes" where
  "BuildJSON zone ev = MarshalIndent (Evidence_json zone ev)"

definition BuildZIP :: "(instant \<Rightarrow> int) \<Rightarrow> zip_writer \<Rightarrow> Evidence \<Rightarrow> err + bytes" where
  "BuildZIP zone archive ev =
     result_bind (BuildJSON zone ev) (\<lambda>payload.
       archive (''evidence-'' @ ev_GovernanceID ev @ ''.json'') (ev_GeneratedAt ev) payload)"

definition complianceUnavailable :: "Request \<Rightarrow> Response" where
  "complianceUnavailable r = writeProblem r 500 ''internal error'' ''compliance unavailable''"

text \<open>What a query of the service becomes: the answer of \<open>ok\<close>, a mapped error, or a panic.\<close>

definition answer :: "Request \<Rightarrow> ('a \<Rightarrow> Response) \<Rightarrow> (err + 'a) option \<Rightarrow> reply" where
  "answer r ok result = (case result of
       None \<Rightarrow> HandlerPanic []
     | Some (Inl er) \<Rightarrow> Replied (mapError r er)
     | Some (Inr x) \<Rightarrow> Replied (ok x))"

definition getComplianceSummary :: "(instant \<Rightarrow> int) \<Rightarrow> instant \<Rightarrow> 's compliance_ports option \<Rightarrow> 's handler" where
  "getComplianceSummary zone now svc r s = (case svc of
       None \<Rightarrow> (Replied (complianceUnavailable r), s)
     | Some p \<Rightarrow> (answer r (\<lambda>sum. writeJSON [] 200 (Summary_json zone sum)) (Compliance_Summary p now (URLParam r ''governanceID'') s), s))"

definition getComplianceChecks :: "instant \<Rightarrow> 's compliance_ports option \<Rightarrow> 's handler" where
  "getComplianceChecks now svc r s = (case svc of
       None \<Rightarrow> (Replied (complianceUnavailable r), s)
     | Some p \<Rightarrow> (answer r (\<lambda>checks. writeJSON [] 200 (items_json (\<lambda>c. Inr (Check_json c)) checks))
         (Compliance_Checks p now (URLParam r ''governanceID'') s), s))"

definition zip_reply :: "string \<Rightarrow> bytes \<Rightarrow> Response" where
  "zip_reply i payload =
     \<lparr> hs_Status = 200, hs_Headers = [(''Content-Type'', ''application/zip''),
         (''Content-Disposition'', ''attachment; filename=\"evidence-'' @ i @ ''.zip\"'')], hs_Body = payload \<rparr>"

definition getComplianceEvidence :: "(instant \<Rightarrow> int) \<Rightarrow> zip_writer \<Rightarrow> instant \<Rightarrow> 's compliance_ports option \<Rightarrow> 's handler" where
  "getComplianceEvidence zone archive now svc r s = (case svc of
       None \<Rightarrow> (Replied (complianceUnavailable r), s)
     | Some p \<Rightarrow>
         let i = URLParam r ''governanceID'' in
         (answer r (\<lambda>ev.
            if Query_Get r ''format'' = ''zip'' then
              (case BuildZIP zone archive ev of
                 Inl er \<Rightarrow> writeProblem r 500 ''internal error'' ''could not build evidence archive''
               | Inr payload \<Rightarrow> zip_reply i payload)
            else writeJSON [] 200 (Evidence_json zone ev)) (Compliance_Evidence p now i s), s))"

definition getComplianceReports :: "Config \<Rightarrow> (instant \<Rightarrow> int) \<Rightarrow> instant \<Rightarrow> 's compliance_ports option \<Rightarrow> 's handler" where
  "getComplianceReports cfg zone now svc r s = (case svc of
       None \<Rightarrow> (Replied (complianceUnavailable r), s)
     | Some p \<Rightarrow> (answer r (\<lambda>page. writeJSON [] 200 (ReportPage_json zone page))
         (Reports p now (Query_Get r ''cursor'') (pageLimit cfg r) s), s))"

end
