(* ===== verification/OpsApi.thy ===== *)
theory OpsApi
  imports QueryApi Integrity
begin

text \<open>
  Operations: the diagnostics snapshot (\<^verbatim>\<open>internal/diag/diag.go\<close>), the administration and health endpoints
  (\<^verbatim>\<open>internal/httpapi\<close>: handlers_admin.go, health.go, the root page of server.go), the schema migrations
  (\<^verbatim>\<open>internal/store/migrate/migrate.go\<close>), the wait for the database (\<^verbatim>\<open>store/postgres/pool.go\<close>) and the wiring of
  the diagnostics in \<^verbatim>\<open>cmd/controlplane/main.go\<close>.

  Durations are kept in nanoseconds, as in \<open>Integrity\<close>; \<open>seconds\<close> is the JSON text of a duration as a
  floating-point number of seconds.  The summary of the metrics is a parameter, the names with the JSON texts of their
  values, and so are the strings that the build puts into \<^verbatim>\<open>pkg/version\<close>.
\<close>

section \<open>Migrations\<close>

text \<open>
  The embedded directory is a list of file names with their bodies.  Applying a body to the rest of the database,
  whose state has the type \<open>'s\<close>, may fail; the transaction of a migration is undone when it fails.
\<close>

type_synonym migrations = "(string \<times> string) list"

definition HasSuffix :: "string \<Rightarrow> string \<Rightarrow> bool" where
  "HasSuffix s e \<longleftrightarrow> suffix e s"

definition TrimSuffix :: "string \<Rightarrow> string \<Rightarrow> string" where
  "TrimSuffix s e = (if suffix e s then take (length s - length e) s else s)"

definition forwardFiles :: "migrations \<Rightarrow> string list" where
  "forwardFiles fs = sort (filter (\<lambda>n. HasSuffix n ''.sql'') (map fst fs))"

definition migration_version :: "string \<Rightarrow> string" where
  "migration_version name = TrimSuffix name ''.sql''"

definition Latest :: "migrations \<Rightarrow> string" where
  "Latest fs = (let files = forwardFiles fs in if length files = 0 then [] else migration_version (last files))"

definition applyOne :: "(string \<Rightarrow> 's \<Rightarrow> err + 's) \<Rightarrow> string \<Rightarrow> string \<Rightarrow> string list \<times> 's \<Rightarrow> err + (string list \<times> 's)" where
  "applyOne exec version body = (\<lambda>(applied, s).
     case exec body s of
       Inl er \<Rightarrow> Inl er
     | Inr s' \<Rightarrow> if version \<in> set applied then Inl (ErrOther ''record migration'') else Inr (applied @ [version], s'))"

fun apply_files :: "(string \<Rightarrow> 's \<Rightarrow> err + 's) \<Rightarrow> migrations \<Rightarrow> string list \<Rightarrow> string list \<times> 's \<Rightarrow> err option \<times> string list \<times> 's" where
  "apply_files exec fs [] st = (None, st)"
| "apply_files exec fs (name # names) st =
     (if migration_version name \<in> set (fst st) then apply_files exec fs names st
      else (case map_of fs name of
          None \<Rightarrow> (Some (ErrOther ''read migration''), st)
        | Some body \<Rightarrow>
         (case applyOne exec (migration_version name) body st of
            Inl er \<Rightarrow> (Some er, st)
          | Inr st' \<Rightarrow> apply_files exec fs names st')))"

definition Up :: "(string \<Rightarrow> 's \<Rightarrow> err + 's) \<Rightarrow> migrations \<Rightarrow> string list \<times> 's \<Rightarrow> err option \<times> string list \<times> 's" where
  "Up exec fs st = apply_files exec fs (forwardFiles fs) st"

text \<open>The pings of \<^verbatim>\<open>WaitForDB\<close>: \<open>ping k\<close> and \<open>clock k\<close> are the outcome of the \<open>k\<close>-th one and the clock after it.  A loop
  that never ends is \<open>None\<close>.\<close>

partial_function (option) wait_pings :: "(nat \<Rightarrow> err option) \<Rightarrow> (nat \<Rightarrow> instant) \<Rightarrow> instant \<Rightarrow> nat \<Rightarrow> err option option" where
  [code]: "wait_pings ping clock deadline k =
     (case ping k of
        None \<Rightarrow> Some None
      | Some er \<Rightarrow> if deadline < clock k then Some (Some er) else wait_pings ping clock deadline (Suc k))"

definition WaitForDB :: "(nat \<Rightarrow> err option) \<Rightarrow> (nat \<Rightarrow> instant) \<Rightarrow> instant \<Rightarrow> duration \<Rightarrow> err option option" where
  "WaitForDB ping clock start budget = wait_pings ping clock (start + budget) 0"

section \<open>Diagnostics\<close>

record ConfigSummary =
  cs_Env :: string
  cs_HTTPAddr :: string
  cs_ServiceName :: string
  cs_AuthEnabled :: bool
  cs_AutoMigrate :: bool
  cs_DBMaxConns :: int
  cs_TracingEnabled :: bool
  cs_PProfEnabled :: bool
  cs_VerifyIntervalSeconds :: int

record DiagScheduler =
  ds_Enabled :: bool
  ds_Running :: bool
  ds_HasRun :: bool
  ds_Interval :: duration
  ds_LastRunAt :: instant
  ds_SinceLastRun :: duration
  ds_Stalled :: bool
  ds_LastHealthy :: bool
  ds_ChainsTotal :: int
  ds_ChainsOK :: int
  ds_Failures :: int
  ds_Errors :: int

record DependencyStatus =
  dp_Name :: string
  dp_Up :: bool
  dp_Error :: string

record Snapshot =
  sn_Service :: string
  sn_Version :: string
  sn_Commit :: string
  sn_Env :: string
  sn_MigrationVersion :: string
  sn_StartedAt :: instant
  sn_GeneratedAt :: instant
  sn_Uptime :: duration
  sn_Healthy :: bool
  sn_Modules :: "(string \<times> bool) list"
  sn_Config :: ConfigSummary
  sn_Scheduler :: DiagScheduler
  sn_Dependencies :: "DependencyStatus list"

text \<open>The builder and its options; the two providers read the state of the process.\<close>

record 's Builder =
  bd_service :: string
  bd_version :: string
  bd_commit :: string
  bd_migrationVersion :: string
  bd_started :: instant
  bd_cfg :: ConfigSummary
  bd_modules :: "(string \<times> bool) list"
  bd_schedulerStatus :: "(instant \<Rightarrow> 's \<Rightarrow> DiagScheduler) option"
  bd_dbName :: string
  bd_dbCheck :: "('s \<Rightarrow> err option) option"

definition NewBuilder :: "'s Builder \<Rightarrow> 's Builder" where
  "NewBuilder opts = opts\<lparr> bd_dbName := (if bd_dbName opts = [] then ''postgres'' else bd_dbName opts) \<rparr>"

definition no_scheduler :: DiagScheduler where
  "no_scheduler = \<lparr> ds_Enabled = False, ds_Running = False, ds_HasRun = False, ds_Interval = 0, ds_LastRunAt = zero_time,
     ds_SinceLastRun = 0, ds_Stalled = False, ds_LastHealthy = False, ds_ChainsTotal = 0, ds_ChainsOK = 0, ds_Failures = 0, ds_Errors = 0 \<rparr>"

definition db_dependency :: "'s Builder \<Rightarrow> 's \<Rightarrow> DependencyStatus" where
  "db_dependency b s = (case Option.bind (bd_dbCheck b) (\<lambda>check. check s) of
       None \<Rightarrow> \<lparr> dp_Name = bd_dbName b, dp_Up = True, dp_Error = [] \<rparr>
     | Some er \<Rightarrow> \<lparr> dp_Name = bd_dbName b, dp_Up = False, dp_Error = err_Error er \<rparr>)"

definition schedulerDegraded :: "DiagScheduler \<Rightarrow> bool" where
  "schedulerDegraded v \<longleftrightarrow> ds_Enabled v \<and> ds_HasRun v \<and> (ds_Stalled v \<or> \<not> ds_LastHealthy v)"

text \<open>\<open>now\<close> is the clock of the snapshot, also when the scheduler is asked for its status.\<close>

definition take_snapshot :: "instant \<Rightarrow> 's Builder \<Rightarrow> 's \<Rightarrow> Snapshot" where
  "take_snapshot now b s =
     (let db = db_dependency b s;
          sched = (case bd_schedulerStatus b of None \<Rightarrow> no_scheduler | Some f \<Rightarrow> f now s)
      in \<lparr> sn_Service = bd_service b, sn_Version = bd_version b, sn_Commit = bd_commit b, sn_Env = cs_Env (bd_cfg b),
           sn_MigrationVersion = bd_migrationVersion b, sn_StartedAt = bd_started b, sn_GeneratedAt = now,
           sn_Uptime = (if IsZero (bd_started b) then 0 else now - bd_started b),
           sn_Healthy = (dp_Up db \<and> \<not> schedulerDegraded sched), sn_Modules = bd_modules b, sn_Config = bd_cfg b,
           sn_Scheduler = sched, sn_Dependencies = [db] \<rparr>)"

definition flags_json :: "(string \<times> bool) list \<Rightarrow> bytes" where
  "flags_json m = json_print True (JObj (map (\<lambda>(k, b). (k, JBool b)) m))"

definition ConfigSummary_json :: "ConfigSummary \<Rightarrow> bytes" where
  "ConfigSummary_json c = print_struct True
     [(''env'', json_quote True (cs_Env c)), (''http_addr'', json_quote True (cs_HTTPAddr c)),
      (''service_name'', json_quote True (cs_ServiceName c)), (''auth_enabled'', bool_field (cs_AuthEnabled c)),
      (''auto_migrate'', bool_field (cs_AutoMigrate c)), (''db_max_conns'', FormatInt (cs_DBMaxConns c)),
      (''tracing_enabled'', bool_field (cs_TracingEnabled c)), (''pprof_enabled'', bool_field (cs_PProfEnabled c)),
      (''verify_interval_seconds'', FormatInt (cs_VerifyIntervalSeconds c))]"

definition DiagScheduler_json :: "(instant \<Rightarrow> int) \<Rightarrow> (duration \<Rightarrow> bytes) \<Rightarrow> DiagScheduler \<Rightarrow> err + bytes" where
  "DiagScheduler_json zone seconds v =
     result_bind (MarshalTime zone (ds_LastRunAt v)) (\<lambda>last_run.
       Inr (print_struct True
         [(''enabled'', bool_field (ds_Enabled v)), (''running'', bool_field (ds_Running v)), (''has_run'', bool_field (ds_HasRun v)),
          (''interval_seconds'', seconds (ds_Interval v)), (''last_run_at'', last_run),
          (''since_last_run_seconds'', seconds (ds_SinceLastRun v)), (''stalled'', bool_field (ds_Stalled v)),
          (''last_healthy'', bool_field (ds_LastHealthy v)), (''chains_total'', FormatInt (ds_ChainsTotal v)),
          (''chains_ok'', FormatInt (ds_ChainsOK v)), (''failures'', FormatInt (ds_Failures v)), (''errors'', FormatInt (ds_Errors v))]))"

definition DependencyStatus_json :: "DependencyStatus \<Rightarrow> bytes" where
  "DependencyStatus_json d = print_struct True
     ([(''name'', json_quote True (dp_Name d)), (''up'', bool_field (dp_Up d))] @ omitempty ''error'' (dp_Error d))"

definition Snapshot_json :: "(instant \<Rightarrow> int) \<Rightarrow> (duration \<Rightarrow> bytes) \<Rightarrow> Snapshot \<Rightarrow> err + bytes" where
  "Snapshot_json zone seconds n =
     result_bind (MarshalTime zone (sn_StartedAt n)) (\<lambda>started.
     result_bind (MarshalTime zone (sn_GeneratedAt n)) (\<lambda>generated.
     result_bind (DiagScheduler_json zone seconds (sn_Scheduler n)) (\<lambda>sched.
       Inr (print_struct True
         [(''service'', json_quote True (sn_Service n)), (''version'', json_quote True (sn_Version n)),
          (''commit'', json_quote True (sn_Commit n)), (''env'', json_quote True (sn_Env n)),
          (''migration_version'', json_quote True (sn_MigrationVersion n)), (''started_at'', started), (''generated_at'', generated),
          (''uptime_seconds'', seconds (sn_Uptime n)), (''healthy'', bool_field (sn_Healthy n)), (''modules'', flags_json (sn_Modules n)),
          (''config'', ConfigSummary_json (sn_Config n)), (''scheduler'', sched),
          (''dependencies'', array_json (map DependencyStatus_json (sn_Dependencies n)))]))))"

definition diag_Handler :: "(instant \<Rightarrow> int) \<Rightarrow> (duration \<Rightarrow> bytes) \<Rightarrow> instant \<Rightarrow> 's Builder \<Rightarrow> 's handler" where
  "diag_Handler zone seconds now b r s =
     (if rq_Method r \<noteq> ''GET'' then
        (Replied \<lparr> hs_Status = 405, hs_Headers = [(''Allow'', ''GET''), (''Content-Type'', ''text/plain; charset=utf-8''),
            (''X-Content-Type-Options'', ''nosniff'')], hs_Body = ''method not allowed'' @ [CHR 0x0A] \<rparr>, s)
      else let snap = take_snapshot now b s in
        (Replied \<lparr> hs_Status = (if sn_Healthy snap then 200 else 503), hs_Headers = [(''Content-Type'', ''application/json'')],
            hs_Body = encode_line (MarshalIndent (Snapshot_json zone seconds snap)) \<rparr>, s))"

section \<open>Administration\<close>

record AdminIntegrityRun =
  ai_run_StartedAt :: instant
  ai_run_DurationMS :: int
  ai_run_ChainsTotal :: int
  ai_run_ChainsOK :: int
  ai_run_Failures :: int
  ai_run_Errors :: int
  ai_run_Healthy :: bool

definition adminUnavailable :: "Request \<Rightarrow> Response" where
  "adminUnavailable r = writeProblem r 500 ''internal error'' ''admin diagnostics unavailable''"

definition adminStatusResponse_json :: "(instant \<Rightarrow> int) \<Rightarrow> (duration \<Rightarrow> bytes) \<Rightarrow> string \<Rightarrow> Snapshot \<Rightarrow> err + bytes" where
  "adminStatusResponse_json zone seconds buildTime n =
     result_bind (DiagScheduler_json zone seconds (sn_Scheduler n)) (\<lambda>sched.
       Inr (print_struct True
         [(''service'', json_quote True (sn_Service n)), (''version'', json_quote True (sn_Version n)),
          (''commit'', json_quote True (sn_Commit n)), (''build_time'', json_quote True buildTime),
          (''env'', json_quote True (sn_Env n)), (''uptime_seconds'', seconds (sn_Uptime n)),
          (''migration_version'', json_quote True (sn_MigrationVersion n)), (''scheduler'', sched),
          (''verifier_healthy'', bool_field (ds_LastHealthy (sn_Scheduler n))),
          (''dependencies'', array_json (map DependencyStatus_json (sn_Dependencies n))), (''healthy'', bool_field (sn_Healthy n))]))"

definition adminStatus ::
    "(instant \<Rightarrow> int) \<Rightarrow> (duration \<Rightarrow> bytes) \<Rightarrow> string \<Rightarrow> ('s \<Rightarrow> Snapshot) option \<Rightarrow> 's handler" where
  "adminStatus zone seconds buildTime adminSnapshot r s = (case adminSnapshot of
       None \<Rightarrow> (Replied (adminUnavailable r), s)
     | Some f \<Rightarrow> (Replied (writeJSON [] 200 (adminStatusResponse_json zone seconds buildTime (f s))), s))"

definition adminIntegrityResponse_json :: "(instant \<Rightarrow> int) \<Rightarrow> SchedulerView \<Rightarrow> err + bytes" where
  "adminIntegrityResponse_json zone v =
     result_bind (MarshalTime zone (sw_LastRunAt v)) (\<lambda>last_run.
       Inr (print_struct True
         [(''enabled'', bool_field (sw_Enabled v)), (''running'', bool_field (sw_Running v)), (''has_run'', bool_field (sw_HasRun v)),
          (''last_run_at'', last_run), (''last_healthy'', bool_field (sw_LastHealthy v)), (''stalled'', bool_field (sw_Stalled v)),
          (''chains_total'', FormatInt (sw_ChainsTotal v)), (''chains_ok'', FormatInt (sw_ChainsOK v)),
          (''failures'', FormatInt (sw_Failures v)), (''errors'', FormatInt (sw_Errors v))]))"

definition adminIntegrity :: "(instant \<Rightarrow> int) \<Rightarrow> ('s \<Rightarrow> SchedulerView) option \<Rightarrow> 's handler" where
  "adminIntegrity zone schedStatus r s = (case schedStatus of
       None \<Rightarrow> (Replied (writeProblem r 500 ''internal error'' ''scheduler status unavailable''), s)
     | Some f \<Rightarrow> (Replied (writeJSON [] 200 (adminIntegrityResponse_json zone (f s))), s))"

definition AdminIntegrityRun_json :: "(instant \<Rightarrow> int) \<Rightarrow> AdminIntegrityRun \<Rightarrow> err + bytes" where
  "AdminIntegrityRun_json zone run =
     result_bind (MarshalTime zone (ai_run_StartedAt run)) (\<lambda>started.
       Inr (print_struct True
         [(''started_at'', started), (''duration_ms'', FormatInt (ai_run_DurationMS run)),
          (''chains_total'', FormatInt (ai_run_ChainsTotal run)), (''chains_ok'', FormatInt (ai_run_ChainsOK run)),
          (''failures'', FormatInt (ai_run_Failures run)), (''errors'', FormatInt (ai_run_Errors run)),
          (''healthy'', bool_field (ai_run_Healthy run))]))"

definition adminIntegrityRun :: "(instant \<Rightarrow> int) \<Rightarrow> ('s \<Rightarrow> AdminIntegrityRun \<times> 's) option \<Rightarrow> 's handler" where
  "adminIntegrityRun zone adminRunIntegrity r s = (case adminRunIntegrity of
       None \<Rightarrow> (Replied (writeProblem r 500 ''internal error'' ''verification scheduler unavailable''), s)
     | Some f \<Rightarrow> (case f s of (run, s1) \<Rightarrow> (Replied (writeJSON [] 200 (AdminIntegrityRun_json zone run)), s1)))"

type_synonym metrics_summary = "err + (string \<times> bytes) list"

definition summary_json :: "(string \<times> bytes) list \<Rightarrow> bytes" where
  "summary_json m = print_struct True (sort_key fst m)"

definition metricsUnreadable :: "Request \<Rightarrow> Response" where
  "metricsUnreadable r = writeProblem r 500 ''internal error'' ''could not read metrics''"

definition adminMetrics :: "metrics_summary \<Rightarrow> 's handler" where
  "adminMetrics summary r s = (case summary of
       Inl er \<Rightarrow> (Replied (metricsUnreadable r), s)
     | Inr m \<Rightarrow> (Replied (writeJSON [] 200 (Inr (print_struct True [(''counters'', summary_json m)]))), s))"

definition adminConfig :: "('s \<Rightarrow> Snapshot) option \<Rightarrow> 's handler" where
  "adminConfig adminSnapshot r s = (case adminSnapshot of
       None \<Rightarrow> (Replied (adminUnavailable r), s)
     | Some f \<Rightarrow> (Replied (writeJSON [] 200 (Inr (print_struct True
         [(''modules'', flags_json (sn_Modules (f s))), (''config'', ConfigSummary_json (sn_Config (f s)))]))), s))"

definition adminReport ::
    "(instant \<Rightarrow> int) \<Rightarrow> (duration \<Rightarrow> bytes) \<Rightarrow> metrics_summary \<Rightarrow> ('s \<Rightarrow> Snapshot) option \<Rightarrow> 's handler" where
  "adminReport zone seconds summary adminSnapshot r s = (case adminSnapshot of
       None \<Rightarrow> (Replied (adminUnavailable r), s)
     | Some f \<Rightarrow>
    (case summary of
       Inl er \<Rightarrow> (Replied (metricsUnreadable r), s)
     | Inr m \<Rightarrow> (Replied (writeJSON [] 200
         (result_bind (Snapshot_json zone seconds (f s)) (\<lambda>snap.
            Inr (print_struct True [(''diagnostics'', snap), (''metrics'', summary_json m)])))), s)))"

section \<open>Health and the root page\<close>

definition Health_Live :: "string \<Rightarrow> string \<Rightarrow> string \<Rightarrow> 's handler" where
  "Health_Live version commit uptime r s =
     (Replied (writeJSON [] 200 (Inr (print_struct True
        [(''commit'', json_quote True commit), (''status'', json_quote True ''ok''), (''uptime'', json_quote True uptime),
         (''version'', json_quote True version)]))), s)"

definition Health_Ready :: "('s \<Rightarrow> err option) \<Rightarrow> 's handler" where
  "Health_Ready ready r s = (case ready s of
       Some er \<Rightarrow> (Replied (writeJSON [] 503 (Inr (print_struct True
          [(''error'', json_quote True (err_Error er)), (''status'', json_quote True ''unready'')]))), s)
     | None \<Rightarrow> (Replied (writeJSON [] 200 (Inr (print_struct True [(''status'', json_quote True ''ready'')]))), s))"

definition serveRoot :: "string \<Rightarrow> 's handler" where
  "serveRoot version r s =
     (if rq_Path r \<noteq> ''/'' then (Replied (writeProblem r 404 ''not found'' ''no such resource''), s)
      else (Replied (writeJSON [] 200 (Inr (print_struct True
        [(''docs'', json_quote True ''/docs''), (''openapi'', json_quote True ''/openapi.yaml''),
         (''service'', json_quote True ''oneops-controlplane''), (''version'', json_quote True version)]))), s))"

section \<open>The wiring of the process\<close>

text \<open>The state the operations endpoints read: the database and the scheduler, when verification is enabled.\<close>

type_synonym process = "db \<times> Scheduler option"

record build_info =
  bi_Version :: string
  bi_Commit :: string
  bi_Date :: string

definition process_scheduler :: "instant \<Rightarrow> process \<Rightarrow> DiagScheduler" where
  "process_scheduler now = (\<lambda>(d, scheduler). case scheduler of
       None \<Rightarrow> no_scheduler
     | Some sd \<Rightarrow> (let st = Scheduler_Status now sd in
         \<lparr> ds_Enabled = True, ds_Running = st_Running st, ds_HasRun = st_HasRun st, ds_Interval = st_Interval st,
           ds_LastRunAt = st_LastRunAt st, ds_SinceLastRun = st_SinceLastRun st, ds_Stalled = st_Stalled st,
           ds_LastHealthy = st_LastHealthy st, ds_ChainsTotal = st_ChainsTotal st, ds_ChainsOK = st_ChainsOK st,
           ds_Failures = st_Failures st, ds_Errors = st_Errors st \<rparr>))"

text \<open>\<open>ping\<close> is the check of the connection pool.\<close>

definition buildDiagnostics :: "build_info \<Rightarrow> migrations \<Rightarrow> (process \<Rightarrow> err option) \<Rightarrow> Config \<Rightarrow> instant \<Rightarrow> process Builder" where
  "buildDiagnostics bi fs ping cfg startedAt = NewBuilder
     \<lparr> bd_service = cf_ServiceName cfg, bd_version = bi_Version bi, bd_commit = bi_Commit bi, bd_migrationVersion = Latest fs,
       bd_started = startedAt,
       bd_cfg = \<lparr> cs_Env = cf_Env cfg, cs_HTTPAddr = cf_HTTPAddr cfg, cs_ServiceName = cf_ServiceName cfg,
                  cs_AuthEnabled = cf_AuthEnabled cfg, cs_AutoMigrate = cf_AutoMigrate cfg, cs_DBMaxConns = cf_DBMaxConns cfg,
                  cs_TracingEnabled = (cf_OTLPEndpoint cfg \<noteq> []), cs_PProfEnabled = cf_PProfEnabled cfg,
                  cs_VerifyIntervalSeconds = cf_VerifyIntervalSeconds cfg \<rparr>,
       bd_modules = [(''governance'', True), (''audit'', True), (''dependency_graph'', True), (''auth'', cf_AuthEnabled cfg),
                     (''tracing'', cf_OTLPEndpoint cfg \<noteq> []), (''verification_scheduler'', 0 < cf_VerifyIntervalSeconds cfg),
                     (''pprof'', cf_PProfEnabled cfg)],
       bd_schedulerStatus = Some process_scheduler, bd_dbName = ''postgres'', bd_dbCheck = Some ping \<rparr>"

definition Milliseconds :: "duration \<Rightarrow> int" where
  "Milliseconds d = (if 0 \<le> d then d div 1000000 else - ((- d) div 1000000))"

text \<open>\<open>E\<close>, \<open>listed\<close> and the two times are what the sweep takes from outside.\<close>

definition process_sweep ::
    "(db \<Rightarrow> sweep_env) \<Rightarrow> (db \<Rightarrow> err + string list) \<Rightarrow> instant \<Rightarrow> instant \<Rightarrow> process \<Rightarrow> AdminIntegrityRun \<times> process" where
  "process_sweep E listed start finish = (\<lambda>(d, scheduler). case scheduler of
       None \<Rightarrow> (\<lparr> ai_run_StartedAt = zero_time, ai_run_DurationMS = 0, ai_run_ChainsTotal = 0, ai_run_ChainsOK = 0,
                  ai_run_Failures = 0, ai_run_Errors = 0, ai_run_Healthy = True \<rparr>, (d, scheduler))
     | Some sd \<Rightarrow>
         (case Scheduler_RunOnce (E d) (listed d) start finish sd of (rep, sd') \<Rightarrow>
           (\<lparr> ai_run_StartedAt = ir_StartedAt rep, ai_run_DurationMS = Milliseconds (ir_Duration rep),
              ai_run_ChainsTotal = ir_ChainsTotal rep, ai_run_ChainsOK = ir_ChainsOK rep,
              ai_run_Failures = int (length (ir_Failures rep)), ai_run_Errors = int (length (ir_Errors rep)),
              ai_run_Healthy = Healthy rep \<rparr>, (d, Some sd'))))"

section \<open>Migrations run once and in order\<close>

definition pending :: "migrations \<Rightarrow> string list \<Rightarrow> string list" where
  "pending fs applied = filter (\<lambda>n. migration_version n \<notin> set applied) (forwardFiles fs)"

fun run_bodies :: "(string \<Rightarrow> 's \<Rightarrow> err + 's) \<Rightarrow> migrations \<Rightarrow> string list \<Rightarrow> 's \<Rightarrow> err + 's" where
  "run_bodies exec fs [] s = Inr s"
| "run_bodies exec fs (n # ns) s = result_bind (exec (the (map_of fs n)) s) (run_bodies exec fs ns)"

lemma migration_version_inj:
  assumes "HasSuffix a ''.sql''" "HasSuffix b ''.sql''" "migration_version a = migration_version b"
  shows "a = b"
proof -
  obtain x y where "a = x @ ''.sql''" "b = y @ ''.sql''"
    using assms(1,2) by (auto simp: HasSuffix_def suffix_def)
  with assms(3) show ?thesis
    by (simp add: migration_version_def TrimSuffix_def suffix_def)
qed

lemma apply_files_prefix:
  assumes "apply_files exec fs names (applied, s) = (out, applied', s')"
    and "distinct names" "\<And>n. n \<in> set names \<Longrightarrow> HasSuffix n ''.sql'' \<and> map_of fs n \<noteq> None"
  shows "\<exists>ran left. filter (\<lambda>n. migration_version n \<notin> set applied) names = ran @ left \<and>
    applied' = applied @ map migration_version ran \<and> run_bodies exec fs ran s = Inr s' \<and> (out = None \<longleftrightarrow> left = [])"
  using assms
proof (induction names arbitrary: applied s)
  case (Cons n names)
  show ?case
  proof (cases "migration_version n \<in> set applied")
    case True
    with Cons show ?thesis by simp
  next
    case False
    obtain body where body: "map_of fs n = Some body"
      using Cons.prems(3) by fastforce
    show ?thesis
    proof (cases "exec body s")
      case (Inl er)
      with False body Cons.prems(1) show ?thesis
        by (auto simp: applyOne_def)
    next
      case (Inr s1)
      have others: "migration_version m \<noteq> migration_version n" if "m \<in> set names" for m
        using that Cons.prems(2,3) migration_version_inj [of m n] by auto
      have "apply_files exec fs names (applied @ [migration_version n], s1) = (out, applied', s')"
        using Cons.prems(1) False body Inr by (simp add: applyOne_def)
      from Cons.IH [OF this] Cons.prems(2,3) obtain ran left where
        rl: "filter (\<lambda>m. migration_version m \<notin> set (applied @ [migration_version n])) names = ran @ left"
        "applied' = (applied @ [migration_version n]) @ map migration_version ran" "run_bodies exec fs ran s1 = Inr s'"
        "out = None \<longleftrightarrow> left = []"
        by (metis distinct.simps(2) list.set_intros(2))
      have "filter (\<lambda>m. migration_version m \<notin> set (applied @ [migration_version n])) names =
          filter (\<lambda>m. migration_version m \<notin> set applied) names"
        using others by (intro filter_cong) auto
      with rl False body Inr show ?thesis
        by (intro exI [of _ "n # ran"] exI [of _ left]) simp
    qed
  qed
qed auto

lemma Up_runs_pending:
  assumes "distinct (map fst fs)" "Up exec fs (applied, s) = (out, applied', s')"
  shows "\<exists>ran left. pending fs applied = ran @ left \<and> applied' = applied @ map migration_version ran \<and>
    run_bodies exec fs ran s = Inr s' \<and> (out = None \<longleftrightarrow> left = [])"
  unfolding pending_def
proof (rule apply_files_prefix)
  show "apply_files exec fs (forwardFiles fs) (applied, s) = (out, applied', s')"
    using assms(2) by (simp add: Up_def)
  show "distinct (forwardFiles fs)"
    using assms(1) by (simp add: forwardFiles_def)
  show "HasSuffix n ''.sql'' \<and> map_of fs n \<noteq> None" if "n \<in> set (forwardFiles fs)" for n
    using that by (auto simp: forwardFiles_def map_of_eq_None_iff)
qed

lemma Up_again:
  assumes "distinct (map fst fs)" "Up exec fs (applied, s) = (None, applied', s')"
  shows "Up exec2 fs (applied', s') = (None, applied', s')"
proof -
  obtain ran left where rl: "pending fs applied = ran @ left" "applied' = applied @ map migration_version ran" "left = []"
    using Up_runs_pending [OF assms] by auto
  have "migration_version n \<in> set applied'" if "n \<in> set (forwardFiles fs)" for n
  proof (cases "migration_version n \<in> set applied")
    case False
    then have "n \<in> set (pending fs applied)"
      using that by (simp add: pending_def)
    then show ?thesis
      using rl by simp
  qed (use rl(2) in simp)
  then have "pending fs applied' = []"
    by (simp add: pending_def)
  then show ?thesis
    using Up_runs_pending [OF assms(1), of exec2 applied' s'] by (cases "Up exec2 fs (applied', s')") auto
qed

section \<open>Diagnostics show what a sweep found\<close>

lemma sweep_status:
  assumes "Scheduler_RunOnce E listed start finish sd = (rep, sd')"
  shows "st_HasRun (Scheduler_Status now sd')"
    "st_Stalled (Scheduler_Status now sd') \<longleftrightarrow> int64 (2 * ic_Interval (sd_cfg sd)) < now - finish"
  using assms by (auto simp: Scheduler_RunOnce_def Scheduler_Status_def storeReport_def Let_def split: sum.splits)



end
