(* ===== verification/SdkApi.thy ===== *)
theory SdkApi
  imports Sdk EventsApi PolicyApi QueryApi OpsApi
begin

text \<open>
  The query, administration and event clients of the Go client (\<^verbatim>\<open>sdk\<close>: models.go, query.go, admin.go, webhooks.go,
  webhooks_consume.go, policies.go, timeline.go, compliance.go): each method builds a path and a query, calls
  \<open>do_request\<close> and reads the answer.  A struct of the client with the fields of a struct of the server shares its
  record; its table of fields is what the client reads.  A number of type \<^verbatim>\<open>float64\<close> is kept as its literal.
\<close>

section \<open>Reading answers\<close>

text \<open>The texts of the elements of an array, as \<open>raw_members\<close> are those of the members of an object.\<close>

function raw_elements :: "bytes \<Rightarrow> bytes list" where
  "raw_elements s =
     (let v = skip_ws s in
      case parse_value (parse_fuel v) 0 v of
        None \<Rightarrow> []
      | Some (_, rest) \<Rightarrow>
          take (length v - length rest) v #
          (if length rest < length s \<and> skip_ws rest \<noteq> [] then raw_elements (drop 1 (skip_ws rest)) else []))"
  by pat_completeness auto
termination
proof (relation "measure length")
  fix s v rest :: bytes
  have "length (drop 1 (skip_ws rest)) \<le> length rest"
    using length_dropWhile_le [of is_ws rest] by (simp add: skip_ws_def)
  then show "length rest < length s \<and> skip_ws rest \<noteq> [] \<Longrightarrow> (drop 1 (skip_ws rest), s) \<in> measure length"
    by simp
qed simp

declare raw_elements.simps [simp del]

text \<open>A slice of structs that have raw fields; an element starts from the zero struct.\<close>

definition raw_structs_field :: "'t raw_fields \<Rightarrow> 't \<Rightarrow> ('t list \<Rightarrow> 's \<Rightarrow> 's) \<Rightarrow> bytes \<Rightarrow> 's \<Rightarrow> 's option" where
  "raw_structs_field fs zero put raw s = (case parse_value (parse_fuel raw) 0 raw of
       Some (JNull, _) \<Rightarrow> Some (put [] s)
     | Some (JArr [], _) \<Rightarrow> Some (put [] s)
     | Some (JArr _, _) \<Rightarrow>
         map_option (\<lambda>xs. put xs s) (those (map (\<lambda>e. decoded (decode_raw fs e zero)) (raw_elements (drop 1 (skip_ws raw)))))
     | _ \<Rightarrow> None)"

definition read_raw :: "'t raw_fields \<Rightarrow> 't \<Rightarrow> bytes \<Rightarrow> 't option" where
  "read_raw fs zero body = (case decode_raw_body fs zero body of (t, None) \<Rightarrow> Some t | (t, Some er) \<Rightarrow> None)"

definition read_plain :: "'t fields \<Rightarrow> 't \<Rightarrow> bytes \<Rightarrow> 't option" where
  "read_plain fs zero body = (case decode_body fs zero body of (t, None) \<Rightarrow> Some t | (t, Some er) \<Rightarrow> None)"

text \<open>The anonymous structs with the one field \<^verbatim>\<open>items\<close>.\<close>

definition read_items :: "'t raw_fields \<Rightarrow> 't \<Rightarrow> bytes \<Rightarrow> 't list option" where
  "read_items fs zero = read_raw [(''items'', raw_structs_field fs zero (\<lambda>xs _. xs))] []"

abbreviation text_field :: "(string \<Rightarrow> 's \<Rightarrow> 's) \<Rightarrow> bytes \<Rightarrow> 's \<Rightarrow> 's option" where
  "text_field put \<equiv> value_field (string_field put)"

abbreviation number_field :: "(int \<Rightarrow> 's \<Rightarrow> 's) \<Rightarrow> bytes \<Rightarrow> 's \<Rightarrow> 's option" where
  "number_field put \<equiv> value_field (int_field put)"

abbreviation switch_field :: "(bool \<Rightarrow> 's \<Rightarrow> 's) \<Rightarrow> bytes \<Rightarrow> 's \<Rightarrow> 's option" where
  "switch_field put \<equiv> value_field (flag_field put)"

abbreviation list_field :: "(string list \<Rightarrow> 's \<Rightarrow> 's) \<Rightarrow> bytes \<Rightarrow> 's \<Rightarrow> 's option" where
  "list_field put \<equiv> value_field (strings_field (\<lambda>x. put (patched x [])))"

abbreviation map_field :: "('s \<Rightarrow> smap) \<Rightarrow> (smap \<Rightarrow> 's \<Rightarrow> 's) \<Rightarrow> bytes \<Rightarrow> 's \<Rightarrow> 's option" where
  "map_field get put \<equiv> value_field (smap_field (\<lambda>s. Some (get s)) (\<lambda>x. put (patched x [])))"

text \<open>A literal fits a \<^verbatim>\<open>float64\<close> when it does not round to infinity.\<close>

definition literal_value :: "string \<Rightarrow> int \<times> int" where
  "literal_value l =
     (let m = takeWhile (\<lambda>c. c \<noteq> CHR ''e'' \<and> c \<noteq> CHR ''E'') l; x = drop (Suc (length m)) l;
          m = (if prefix ''-'' m then tl m else m); i = takeWhile (\<lambda>c. c \<noteq> CHR ''.'') m; f = drop (Suc (length i)) m;
          e = (if prefix ''-'' x then - digits_value (tl x) else if prefix ''+'' x then digits_value (tl x) else digits_value x)
      in (digits_value (i @ f), e - int (length f)))"

definition fits_float64 :: "string \<Rightarrow> bool" where
  "fits_float64 l = (case literal_value l of (n, k) \<Rightarrow>
     if 0 \<le> k then n * 10 ^ nat k < 2 ^ 1024 - 2 ^ 970 else n < (2 ^ 1024 - 2 ^ 970) * 10 ^ nat (- k))"

definition float_elem :: "json \<Rightarrow> string option" where
  "float_elem v = (case v of JNull \<Rightarrow> Some ''0'' | JNum l \<Rightarrow> if fits_float64 l then Some l else None | _ \<Rightarrow> None)"

definition float_field :: "(string \<Rightarrow> 's \<Rightarrow> 's) \<Rightarrow> json \<Rightarrow> 's \<Rightarrow> 's option" where
  "float_field put v s = (if v = JNull then Some s else map_option (\<lambda>x. put x s) (float_elem v))"

definition flag_elem :: "json \<Rightarrow> bool option" where
  "flag_elem v = (case v of JNull \<Rightarrow> Some False | JBool b \<Rightarrow> Some b | _ \<Rightarrow> None)"

text \<open>A Go map with string keys.\<close>

definition table_field ::
    "(json \<Rightarrow> 'v option) \<Rightarrow> ('s \<Rightarrow> (string \<times> 'v) list) \<Rightarrow> ((string \<times> 'v) list \<Rightarrow> 's \<Rightarrow> 's) \<Rightarrow> json \<Rightarrow> 's \<Rightarrow> 's option" where
  "table_field elem get put v s = (case v of
       JNull \<Rightarrow> Some (put [] s)
     | JObj ms \<Rightarrow> map_option (\<lambda>kvs. put (foldl (\<lambda>m (k, x). map_put k x m) (get s) kvs) s)
         (those (map (\<lambda>(k, v). map_option (Pair k) (elem v)) ms))
     | _ \<Rightarrow> None)"

section \<open>Paths and queries\<close>

text \<open>\<^verbatim>\<open>url.QueryEscape\<close>, and \<^verbatim>\<open>Values.Encode\<close> of values that have one entry for each key.\<close>

definition query_byte :: "char \<Rightarrow> bool" where
  "query_byte c \<longleftrightarrow> is_digit c \<or> 65 \<le> byte c \<and> byte c \<le> 90 \<or> 97 \<le> byte c \<and> byte c \<le> 122 \<or> c \<in> set ''-_.~''"

definition QueryEscape :: "string \<Rightarrow> string" where
  "QueryEscape s = concat (map (\<lambda>c. if query_byte c then [c] else if c = CHR '' '' then ''+''
     else [CHR ''%'', ''0123456789ABCDEF'' ! (byte c div 16), ''0123456789ABCDEF'' ! (byte c mod 16)]) s)"

definition Values_Encode :: "smap \<Rightarrow> string" where
  "Values_Encode q = Join ''&'' (map (\<lambda>(k, v). QueryEscape k @ ''='' @ QueryEscape v) (sort_key fst q))"

definition encode_query :: "smap \<Rightarrow> string" where
  "encode_query q = (if q = [] then [] else ''?'' @ Values_Encode q)"

text \<open>\<^verbatim>\<open>Set\<close> under the two guards the clients use.\<close>

definition set_text :: "string \<Rightarrow> string \<Rightarrow> smap \<Rightarrow> smap" where
  "set_text k v q = (if v = [] then q else map_put k v q)"

definition set_number :: "string \<Rightarrow> int \<Rightarrow> smap \<Rightarrow> smap" where
  "set_number k n q = (if 0 < n then map_put k (FormatInt n) q else q)"

definition limit_suffix :: "int \<Rightarrow> string" where
  "limit_suffix limit = (if 0 < limit then ''?limit='' @ FormatInt limit else [])"

abbreviation sdk_get :: "sdk_Config \<Rightarrow> 's sdk_world \<Rightarrow> string \<Rightarrow> (bytes \<Rightarrow> 'o option) \<Rightarrow> 'o \<Rightarrow> 's \<Rightarrow> (sdk_error + 'o) \<times> 's" where
  "sdk_get cfg w path read zero \<equiv> do_request cfg w ''GET'' path [] None (Some read) zero"

text \<open>A request with a body: \<^verbatim>\<open>do\<close> encodes it first and sends nothing when this fails.\<close>

definition sdk_send ::
    "sdk_Config \<Rightarrow> 's sdk_world \<Rightarrow> string \<Rightarrow> string \<Rightarrow> err + bytes \<Rightarrow> (bytes \<Rightarrow> 'o option) \<Rightarrow> 'o \<Rightarrow> 's \<Rightarrow> (sdk_error + 'o) \<times> 's" where
  "sdk_send cfg w meth path body read zero s = (case body of
       Inl er \<Rightarrow> (Inl (ConfigError ''oneops: encode request''), s)
     | Inr b \<Rightarrow> do_request cfg w meth path [] (Some b) (Some read) zero s)"

section \<open>Queries\<close>

record ObjectState =
  os_CfgID :: string
  os_Lifecycle :: string
  os_RetentionClass :: string
  os_RetentionPolicy :: string
  os_Authority :: string
  os_RowVersion :: int
  os_RatifiedBy :: string
  os_ReviewCycle :: string
  os_CreatedAt :: instant
  os_UpdatedAt :: instant

definition ObjectState_fields :: "ObjectState raw_fields" where
  "ObjectState_fields = [
     (''cfg_id'', text_field (\<lambda>x q. q\<lparr> os_CfgID := x \<rparr>)),
     (''lifecycle'', text_field (\<lambda>x q. q\<lparr> os_Lifecycle := x \<rparr>)),
     (''retention_class'', text_field (\<lambda>x q. q\<lparr> os_RetentionClass := x \<rparr>)),
     (''retention_policy'', text_field (\<lambda>x q. q\<lparr> os_RetentionPolicy := x \<rparr>)),
     (''authority'', text_field (\<lambda>x q. q\<lparr> os_Authority := x \<rparr>)),
     (''row_version'', number_field (\<lambda>x q. q\<lparr> os_RowVersion := x \<rparr>)),
     (''ratified_by'', text_field (\<lambda>x q. q\<lparr> os_RatifiedBy := x \<rparr>)),
     (''review_cycle'', text_field (\<lambda>x q. q\<lparr> os_ReviewCycle := x \<rparr>)),
     (''created_at'', time_field (\<lambda>x q. q\<lparr> os_CreatedAt := x \<rparr>)),
     (''updated_at'', time_field (\<lambda>x q. q\<lparr> os_UpdatedAt := x \<rparr>))]"

definition zero_ObjectState :: ObjectState where
  "zero_ObjectState = \<lparr> os_CfgID = [], os_Lifecycle = [], os_RetentionClass = [], os_RetentionPolicy = [], os_Authority = [],
     os_RowVersion = 0, os_RatifiedBy = [], os_ReviewCycle = [], os_CreatedAt = zero_time, os_UpdatedAt = zero_time \<rparr>"

definition HistoryItem_fields :: "historyItem raw_fields" where
  "HistoryItem_fields = [
     (''seq'', number_field (\<lambda>x q. q\<lparr> hy_Seq := x \<rparr>)),
     (''operation'', text_field (\<lambda>x q. q\<lparr> hy_Operation := x \<rparr>)),
     (''actor'', text_field (\<lambda>x q. q\<lparr> hy_Actor := x \<rparr>)),
     (''occurred_at'', time_field (\<lambda>x q. q\<lparr> hy_OccurredAt := x \<rparr>)),
     (''operation_id'', text_field (\<lambda>x q. q\<lparr> hy_OperationID := x \<rparr>)),
     (''removed'', switch_field (\<lambda>x q. q\<lparr> hy_Removed := x \<rparr>)),
     (''resulting_state'', raw_pointer_field (\<lambda>g raw. value_field (struct_field GovernanceState_fields (\<lambda>x. x) (\<lambda>x _. x)) raw g)
        zero_state hy_ResultingState (\<lambda>x q. q\<lparr> hy_ResultingState := x \<rparr>))]"

definition zero_HistoryItem :: historyItem where
  "zero_HistoryItem = \<lparr> hy_Seq = 0, hy_Operation = [], hy_Actor = [], hy_OccurredAt = zero_time, hy_OperationID = [],
     hy_Removed = False, hy_ResultingState = None \<rparr>"

record HistoryPage =
  hp_Items :: "historyItem list"
  hp_NextCursor :: string

definition HistoryPage_fields :: "HistoryPage raw_fields" where
  "HistoryPage_fields = [
     (''items'', raw_structs_field HistoryItem_fields zero_HistoryItem (\<lambda>x q. q\<lparr> hp_Items := x \<rparr>)),
     (''next_cursor'', text_field (\<lambda>x q. q\<lparr> hp_NextCursor := x \<rparr>))]"

record ChainSummary =
  hc_ChainID :: string
  hc_Verified :: bool
  hc_Checked :: int
  hc_HeadSeq :: int
  hc_HeadHash :: string
  hc_FirstBreakSeq :: "int option"
  hc_BreakReason :: string

definition AuditChain_fields :: "ChainSummary fields" where
  "AuditChain_fields = [
     (''chain_id'', string_field (\<lambda>x q. q\<lparr> hc_ChainID := x \<rparr>)),
     (''verified'', flag_field (\<lambda>x q. q\<lparr> hc_Verified := x \<rparr>)),
     (''checked'', int_field (\<lambda>x q. q\<lparr> hc_Checked := x \<rparr>)),
     (''head_seq'', int_field (\<lambda>x q. q\<lparr> hc_HeadSeq := x \<rparr>)),
     (''head_hash'', string_field (\<lambda>x q. q\<lparr> hc_HeadHash := x \<rparr>)),
     (''first_break_seq'', pointer_field int_field (\<lambda>x q. q\<lparr> hc_FirstBreakSeq := x \<rparr>)),
     (''break_reason'', string_field (\<lambda>x q. q\<lparr> hc_BreakReason := x \<rparr>))]"

definition zero_AuditChain :: ChainSummary where
  "zero_AuditChain = \<lparr> hc_ChainID = [], hc_Verified = False, hc_Checked = 0, hc_HeadSeq = 0, hc_HeadHash = [],
     hc_FirstBreakSeq = None, hc_BreakReason = [] \<rparr>"

record EventMeta =
  em_Seq :: int
  em_EventID :: string
  em_OperationID :: string
  em_Operation :: string
  em_Actor :: string
  em_OccurredAt :: instant
  em_PrevHash :: string
  em_ThisHash :: string

definition AuditEvent_fields :: "EventMeta raw_fields" where
  "AuditEvent_fields = [
     (''seq'', number_field (\<lambda>x q. q\<lparr> em_Seq := x \<rparr>)),
     (''event_id'', text_field (\<lambda>x q. q\<lparr> em_EventID := x \<rparr>)),
     (''operation_id'', text_field (\<lambda>x q. q\<lparr> em_OperationID := x \<rparr>)),
     (''operation'', text_field (\<lambda>x q. q\<lparr> em_Operation := x \<rparr>)),
     (''actor'', text_field (\<lambda>x q. q\<lparr> em_Actor := x \<rparr>)),
     (''occurred_at'', time_field (\<lambda>x q. q\<lparr> em_OccurredAt := x \<rparr>)),
     (''prev_hash'', text_field (\<lambda>x q. q\<lparr> em_PrevHash := x \<rparr>)),
     (''this_hash'', text_field (\<lambda>x q. q\<lparr> em_ThisHash := x \<rparr>))]"

definition zero_EventMeta :: EventMeta where
  "zero_EventMeta = \<lparr> em_Seq = 0, em_EventID = [], em_OperationID = [], em_Operation = [], em_Actor = [],
     em_OccurredAt = zero_time, em_PrevHash = [], em_ThisHash = [] \<rparr>"

record EventsPage =
  ep_Items :: "EventMeta list"
  ep_Order :: string
  ep_NextCursor :: string

definition EventsPage_fields :: "EventsPage raw_fields" where
  "EventsPage_fields = [
     (''items'', raw_structs_field AuditEvent_fields zero_EventMeta (\<lambda>x q. q\<lparr> ep_Items := x \<rparr>)),
     (''order'', text_field (\<lambda>x q. q\<lparr> ep_Order := x \<rparr>)),
     (''next_cursor'', text_field (\<lambda>x q. q\<lparr> ep_NextCursor := x \<rparr>))]"

record SchedulerReport =
  sp_Enabled :: bool
  sp_HasRun :: bool
  sp_Running :: bool
  sp_LastRunAt :: instant
  sp_LastHealthy :: bool
  sp_Stalled :: bool
  sp_Failures :: int
  sp_Errors :: int

definition SchedulerStatus_fields :: "SchedulerReport raw_fields" where
  "SchedulerStatus_fields = [
     (''enabled'', switch_field (\<lambda>x q. q\<lparr> sp_Enabled := x \<rparr>)),
     (''has_run'', switch_field (\<lambda>x q. q\<lparr> sp_HasRun := x \<rparr>)),
     (''running'', switch_field (\<lambda>x q. q\<lparr> sp_Running := x \<rparr>)),
     (''last_run_at'', time_field (\<lambda>x q. q\<lparr> sp_LastRunAt := x \<rparr>)),
     (''last_healthy'', switch_field (\<lambda>x q. q\<lparr> sp_LastHealthy := x \<rparr>)),
     (''stalled'', switch_field (\<lambda>x q. q\<lparr> sp_Stalled := x \<rparr>)),
     (''failures'', number_field (\<lambda>x q. q\<lparr> sp_Failures := x \<rparr>)),
     (''errors'', number_field (\<lambda>x q. q\<lparr> sp_Errors := x \<rparr>))]"

definition zero_SchedulerReport :: SchedulerReport where
  "zero_SchedulerReport = \<lparr> sp_Enabled = False, sp_HasRun = False, sp_Running = False, sp_LastRunAt = zero_time,
     sp_LastHealthy = False, sp_Stalled = False, sp_Failures = 0, sp_Errors = 0 \<rparr>"

record Verification =
  vf_ChainID :: string
  vf_IntegrityOK :: bool
  vf_Checked :: int
  vf_FirstBreakSeq :: "int option"
  vf_BreakReason :: string
  vf_Scheduler :: "SchedulerReport option"

definition Verification_fields :: "Verification raw_fields" where
  "Verification_fields = [
     (''chain_id'', text_field (\<lambda>x q. q\<lparr> vf_ChainID := x \<rparr>)),
     (''integrity_ok'', switch_field (\<lambda>x q. q\<lparr> vf_IntegrityOK := x \<rparr>)),
     (''checked'', number_field (\<lambda>x q. q\<lparr> vf_Checked := x \<rparr>)),
     (''first_break_seq'', value_field (pointer_field int_field (\<lambda>x q. q\<lparr> vf_FirstBreakSeq := x \<rparr>))),
     (''break_reason'', text_field (\<lambda>x q. q\<lparr> vf_BreakReason := x \<rparr>)),
     (''scheduler'', raw_pointer_field (\<lambda>v raw. decoded (decode_raw SchedulerStatus_fields raw v))
        zero_SchedulerReport vf_Scheduler (\<lambda>x q. q\<lparr> vf_Scheduler := x \<rparr>))]"

definition zero_Verification :: Verification where
  "zero_Verification = \<lparr> vf_ChainID = [], vf_IntegrityOK = False, vf_Checked = 0, vf_FirstBreakSeq = None, vf_BreakReason = [],
     vf_Scheduler = None \<rparr>"

record PageOptions =
  pa_Limit :: int
  pa_Cursor :: string
  pa_Operation :: string

record EventsOptions = PageOptions +
  pa_Order :: string

definition Query_object :: "sdk_Config \<Rightarrow> 's sdk_world \<Rightarrow> string \<Rightarrow> 's \<Rightarrow> (sdk_error + ObjectState) \<times> 's" where
  "Query_object cfg w i = sdk_get cfg w (''/v1/governance/'' @ PathEscape i) (read_raw ObjectState_fields zero_ObjectState) zero_ObjectState"

definition Query_History :: "sdk_Config \<Rightarrow> 's sdk_world \<Rightarrow> string \<Rightarrow> PageOptions \<Rightarrow> 's \<Rightarrow> (sdk_error + HistoryPage) \<times> 's" where
  "Query_History cfg w i opts =
     (let zero = \<lparr> hp_Items = [], hp_NextCursor = [] \<rparr>;
          qs = set_text ''operation'' (pa_Operation opts) (set_text ''cursor'' (pa_Cursor opts) (set_number ''limit'' (pa_Limit opts) []))
      in sdk_get cfg w (''/v1/governance/'' @ PathEscape i @ ''/history'' @ encode_query qs) (read_raw HistoryPage_fields zero) zero)"

definition Query_Audit :: "sdk_Config \<Rightarrow> 's sdk_world \<Rightarrow> string \<Rightarrow> 's \<Rightarrow> (sdk_error + ChainSummary) \<times> 's" where
  "Query_Audit cfg w i =
     sdk_get cfg w (''/v1/governance/'' @ PathEscape i @ ''/audit'') (read_plain AuditChain_fields zero_AuditChain) zero_AuditChain"

definition Query_Events :: "sdk_Config \<Rightarrow> 's sdk_world \<Rightarrow> string \<Rightarrow> EventsOptions \<Rightarrow> 's \<Rightarrow> (sdk_error + EventsPage) \<times> 's" where
  "Query_Events cfg w i opts =
     (let zero = \<lparr> ep_Items = [], ep_Order = [], ep_NextCursor = [] \<rparr>;
          qs = set_text ''order'' (pa_Order opts) (set_text ''operation'' (pa_Operation opts)
                 (set_text ''cursor'' (pa_Cursor opts) (set_number ''limit'' (pa_Limit opts) [])))
      in sdk_get cfg w (''/v1/governance/'' @ PathEscape i @ ''/audit/events'' @ encode_query qs) (read_raw EventsPage_fields zero) zero)"

definition Query_Verification :: "sdk_Config \<Rightarrow> 's sdk_world \<Rightarrow> string \<Rightarrow> 's \<Rightarrow> (sdk_error + Verification) \<times> 's" where
  "Query_Verification cfg w i =
     sdk_get cfg w (''/v1/governance/'' @ PathEscape i @ ''/verification'') (read_raw Verification_fields zero_Verification) zero_Verification"

section \<open>Administration\<close>

definition Dependency_fields :: "DependencyStatus fields" where
  "Dependency_fields = [
     (''name'', string_field (\<lambda>x q. q\<lparr> dp_Name := x \<rparr>)),
     (''up'', flag_field (\<lambda>x q. q\<lparr> dp_Up := x \<rparr>)),
     (''error'', string_field (\<lambda>x q. q\<lparr> dp_Error := x \<rparr>))]"

record AdminStatus =
  ad_Service :: string
  ad_Version :: string
  ad_Commit :: string
  ad_BuildTime :: string
  ad_Env :: string
  ad_UptimeSeconds :: string
  ad_MigrationVersion :: string
  ad_Scheduler :: bytes
  ad_VerifierHealthy :: bool
  ad_Dependencies :: "DependencyStatus list"
  ad_Healthy :: bool

definition AdminStatus_fields :: "AdminStatus raw_fields" where
  "AdminStatus_fields = [
     (''service'', text_field (\<lambda>x q. q\<lparr> ad_Service := x \<rparr>)),
     (''version'', text_field (\<lambda>x q. q\<lparr> ad_Version := x \<rparr>)),
     (''commit'', text_field (\<lambda>x q. q\<lparr> ad_Commit := x \<rparr>)),
     (''build_time'', text_field (\<lambda>x q. q\<lparr> ad_BuildTime := x \<rparr>)),
     (''env'', text_field (\<lambda>x q. q\<lparr> ad_Env := x \<rparr>)),
     (''uptime_seconds'', value_field (float_field (\<lambda>x q. q\<lparr> ad_UptimeSeconds := x \<rparr>))),
     (''migration_version'', text_field (\<lambda>x q. q\<lparr> ad_MigrationVersion := x \<rparr>)),
     (''scheduler'', raw_message_field (\<lambda>x q. q\<lparr> ad_Scheduler := x \<rparr>)),
     (''verifier_healthy'', switch_field (\<lambda>x q. q\<lparr> ad_VerifierHealthy := x \<rparr>)),
     (''dependencies'', value_field (structs_field Dependency_fields \<lparr> dp_Name = [], dp_Up = False, dp_Error = [] \<rparr>
        (\<lambda>x q. q\<lparr> ad_Dependencies := x \<rparr>))),
     (''healthy'', switch_field (\<lambda>x q. q\<lparr> ad_Healthy := x \<rparr>))]"

definition zero_AdminStatus :: AdminStatus where
  "zero_AdminStatus = \<lparr> ad_Service = [], ad_Version = [], ad_Commit = [], ad_BuildTime = [], ad_Env = [], ad_UptimeSeconds = ''0'',
     ad_MigrationVersion = [], ad_Scheduler = [], ad_VerifierHealthy = False, ad_Dependencies = [], ad_Healthy = False \<rparr>"

definition AdminIntegrity_fields :: "SchedulerView raw_fields" where
  "AdminIntegrity_fields = [
     (''enabled'', switch_field (\<lambda>x q. q\<lparr> sw_Enabled := x \<rparr>)),
     (''running'', switch_field (\<lambda>x q. q\<lparr> sw_Running := x \<rparr>)),
     (''has_run'', switch_field (\<lambda>x q. q\<lparr> sw_HasRun := x \<rparr>)),
     (''last_run_at'', time_field (\<lambda>x q. q\<lparr> sw_LastRunAt := x \<rparr>)),
     (''last_healthy'', switch_field (\<lambda>x q. q\<lparr> sw_LastHealthy := x \<rparr>)),
     (''stalled'', switch_field (\<lambda>x q. q\<lparr> sw_Stalled := x \<rparr>)),
     (''chains_total'', number_field (\<lambda>x q. q\<lparr> sw_ChainsTotal := x \<rparr>)),
     (''chains_ok'', number_field (\<lambda>x q. q\<lparr> sw_ChainsOK := x \<rparr>)),
     (''failures'', number_field (\<lambda>x q. q\<lparr> sw_Failures := x \<rparr>)),
     (''errors'', number_field (\<lambda>x q. q\<lparr> sw_Errors := x \<rparr>))]"

definition IntegrityRun_fields :: "AdminIntegrityRun raw_fields" where
  "IntegrityRun_fields = [
     (''started_at'', time_field (\<lambda>x q. q\<lparr> ai_run_StartedAt := x \<rparr>)),
     (''duration_ms'', number_field (\<lambda>x q. q\<lparr> ai_run_DurationMS := x \<rparr>)),
     (''chains_total'', number_field (\<lambda>x q. q\<lparr> ai_run_ChainsTotal := x \<rparr>)),
     (''chains_ok'', number_field (\<lambda>x q. q\<lparr> ai_run_ChainsOK := x \<rparr>)),
     (''failures'', number_field (\<lambda>x q. q\<lparr> ai_run_Failures := x \<rparr>)),
     (''errors'', number_field (\<lambda>x q. q\<lparr> ai_run_Errors := x \<rparr>)),
     (''healthy'', switch_field (\<lambda>x q. q\<lparr> ai_run_Healthy := x \<rparr>))]"

definition zero_IntegrityRun :: AdminIntegrityRun where
  "zero_IntegrityRun = \<lparr> ai_run_StartedAt = zero_time, ai_run_DurationMS = 0, ai_run_ChainsTotal = 0, ai_run_ChainsOK = 0,
     ai_run_Failures = 0, ai_run_Errors = 0, ai_run_Healthy = False \<rparr>"

text \<open>The counters of the two summaries, by their names.\<close>

definition MetricsSummary_fields :: "(string \<times> string) list fields" where
  "MetricsSummary_fields = [(''counters'', table_field float_elem (\<lambda>m. m) (\<lambda>x _. x))]"

record SdkAdminConfig =
  af_Modules :: "(string \<times> bool) list"
  af_Config :: bytes

definition AdminConfig_fields :: "SdkAdminConfig raw_fields" where
  "AdminConfig_fields = [
     (''modules'', value_field (table_field flag_elem af_Modules (\<lambda>x q. q\<lparr> af_Modules := x \<rparr>))),
     (''config'', raw_message_field (\<lambda>x q. q\<lparr> af_Config := x \<rparr>))]"

record SdkReport =
  rt_Diagnostics :: bytes
  rt_Metrics :: "(string \<times> string) list"

definition Report_fields :: "SdkReport raw_fields" where
  "Report_fields = [
     (''diagnostics'', raw_message_field (\<lambda>x q. q\<lparr> rt_Diagnostics := x \<rparr>)),
     (''metrics'', value_field (table_field float_elem rt_Metrics (\<lambda>x q. q\<lparr> rt_Metrics := x \<rparr>)))]"

definition Admin_Status :: "sdk_Config \<Rightarrow> 's sdk_world \<Rightarrow> 's \<Rightarrow> (sdk_error + AdminStatus) \<times> 's" where
  "Admin_Status cfg w = sdk_get cfg w ''/v1/admin/status'' (read_raw AdminStatus_fields zero_AdminStatus) zero_AdminStatus"

definition Admin_Integrity :: "sdk_Config \<Rightarrow> 's sdk_world \<Rightarrow> 's \<Rightarrow> (sdk_error + SchedulerView) \<times> 's" where
  "Admin_Integrity cfg w =
     (let zero = scheduler_view 0 None in sdk_get cfg w ''/v1/admin/integrity'' (read_raw AdminIntegrity_fields zero) zero)"

definition Admin_RunIntegrity :: "sdk_Config \<Rightarrow> 's sdk_world \<Rightarrow> 's \<Rightarrow> (sdk_error + AdminIntegrityRun) \<times> 's" where
  "Admin_RunIntegrity cfg w =
     do_request cfg w ''POST'' ''/v1/admin/integrity/run'' [] None (Some (read_raw IntegrityRun_fields zero_IntegrityRun)) zero_IntegrityRun"

definition Admin_Metrics :: "sdk_Config \<Rightarrow> 's sdk_world \<Rightarrow> 's \<Rightarrow> (sdk_error + (string \<times> string) list) \<times> 's" where
  "Admin_Metrics cfg w = sdk_get cfg w ''/v1/admin/metrics'' (read_plain MetricsSummary_fields []) []"

definition Admin_Configuration :: "sdk_Config \<Rightarrow> 's sdk_world \<Rightarrow> 's \<Rightarrow> (sdk_error + SdkAdminConfig) \<times> 's" where
  "Admin_Configuration cfg w =
     (let zero = \<lparr> af_Modules = [], af_Config = [] \<rparr> in sdk_get cfg w ''/v1/admin/config'' (read_raw AdminConfig_fields zero) zero)"

definition Admin_Report :: "sdk_Config \<Rightarrow> 's sdk_world \<Rightarrow> 's \<Rightarrow> (sdk_error + SdkReport) \<times> 's" where
  "Admin_Report cfg w =
     (let zero = \<lparr> rt_Diagnostics = [], rt_Metrics = [] \<rparr> in sdk_get cfg w ''/v1/admin/report'' (read_raw Report_fields zero) zero)"

section \<open>Webhooks\<close>

definition sdk_Webhook_fields :: "webhookDTO raw_fields" where
  "sdk_Webhook_fields = [
     (''id'', text_field (\<lambda>x q. q\<lparr> wd_ID := x \<rparr>)),
     (''url'', text_field (\<lambda>x q. q\<lparr> wd_URL := x \<rparr>)),
     (''enabled'', switch_field (\<lambda>x q. q\<lparr> wd_Enabled := x \<rparr>)),
     (''operations'', list_field (\<lambda>x q. q\<lparr> wd_Operations := x \<rparr>)),
     (''resources'', list_field (\<lambda>x q. q\<lparr> wd_Resources := x \<rparr>)),
     (''max_retries'', number_field (\<lambda>x q. q\<lparr> wd_MaxRetries := x \<rparr>)),
     (''secret'', text_field (\<lambda>x q. q\<lparr> wd_Secret := x \<rparr>)),
     (''created_at'', time_field (\<lambda>x q. q\<lparr> wd_CreatedAt := x \<rparr>)),
     (''updated_at'', time_field (\<lambda>x q. q\<lparr> wd_UpdatedAt := x \<rparr>))]"

definition zero_webhookDTO :: webhookDTO where
  "zero_webhookDTO = \<lparr> wd_ID = [], wd_URL = [], wd_Enabled = False, wd_Operations = [], wd_Resources = [], wd_MaxRetries = 0,
     wd_Secret = [], wd_CreatedAt = zero_time, wd_UpdatedAt = zero_time \<rparr>"

record WebhookDelivery =
  wv_ID :: string
  wv_WebhookID :: string
  wv_Operation :: string
  wv_CfgID :: string
  wv_Seq :: int
  wv_Status :: string
  wv_Attempts :: int
  wv_LastStatusCode :: int
  wv_LastAttempt :: instant
  wv_NextAttemptAt :: instant

definition delivery_fields :: "string \<Rightarrow> ('a WebhookDelivery_scheme) raw_fields" where
  "delivery_fields attempts = [
     (''id'', text_field (\<lambda>x q. q\<lparr> wv_ID := x \<rparr>)),
     (''webhook_id'', text_field (\<lambda>x q. q\<lparr> wv_WebhookID := x \<rparr>)),
     (''operation'', text_field (\<lambda>x q. q\<lparr> wv_Operation := x \<rparr>)),
     (''cfg_id'', text_field (\<lambda>x q. q\<lparr> wv_CfgID := x \<rparr>)),
     (''seq'', number_field (\<lambda>x q. q\<lparr> wv_Seq := x \<rparr>)),
     (''status'', text_field (\<lambda>x q. q\<lparr> wv_Status := x \<rparr>)),
     (attempts, number_field (\<lambda>x q. q\<lparr> wv_Attempts := x \<rparr>)),
     (''last_status_code'', number_field (\<lambda>x q. q\<lparr> wv_LastStatusCode := x \<rparr>)),
     (''last_attempt'', time_field (\<lambda>x q. q\<lparr> wv_LastAttempt := x \<rparr>)),
     (''next_attempt_at'', time_field (\<lambda>x q. q\<lparr> wv_NextAttemptAt := x \<rparr>))]"

definition WebhookDelivery_fields :: "WebhookDelivery raw_fields" where
  "WebhookDelivery_fields = delivery_fields ''retry_count''"

definition zero_WebhookDelivery :: WebhookDelivery where
  "zero_WebhookDelivery = \<lparr> wv_ID = [], wv_WebhookID = [], wv_Operation = [], wv_CfgID = [], wv_Seq = 0, wv_Status = [], wv_Attempts = 0,
     wv_LastStatusCode = 0, wv_LastAttempt = zero_time, wv_NextAttemptAt = zero_time \<rparr>"

text \<open>The inputs, without the fields their tags drop.\<close>

definition omit_flag :: "string \<Rightarrow> bool option \<Rightarrow> (string \<times> bytes) list" where
  "omit_flag k x = (case x of None \<Rightarrow> [] | Some b \<Rightarrow> [(k, bool_field b)])"

definition omit_list :: "string \<Rightarrow> string list option \<Rightarrow> (string \<times> bytes) list" where
  "omit_list k x = omit_strings k (patched x [])"

definition CreateWebhookInput_json :: "createWebhookRequest \<Rightarrow> bytes" where
  "CreateWebhookInput_json i = print_struct True
     ((''url'', json_quote True (cw_URL i)) # omit_flag ''enabled'' (cw_Enabled i) @ omit_list ''operations'' (cw_Operations i) @
      omit_list ''resources'' (cw_Resources i) @ (if cw_MaxRetries i = 0 then [] else [(''max_retries'', FormatInt (cw_MaxRetries i))]))"

definition UpdateWebhookInput_json :: "patchWebhookRequest \<Rightarrow> bytes" where
  "UpdateWebhookInput_json i = print_struct True
     ((case pw_URL i of None \<Rightarrow> [] | Some u \<Rightarrow> [(''url'', json_quote True u)]) @ omit_flag ''enabled'' (pw_Enabled i) @
      omit_list ''operations'' (pw_Operations i) @ omit_list ''resources'' (pw_Resources i) @
      (case pw_MaxRetries i of None \<Rightarrow> [] | Some n \<Rightarrow> [(''max_retries'', FormatInt n)]) @
      (if pw_RotateSecret i then [(''rotate_secret'', bool_field True)] else []))"

definition webhooks_path :: string where
  "webhooks_path = ''/v1/admin/webhooks''"

definition Webhooks_List :: "sdk_Config \<Rightarrow> 's sdk_world \<Rightarrow> 's \<Rightarrow> (sdk_error + webhookDTO list) \<times> 's" where
  "Webhooks_List cfg w = sdk_get cfg w webhooks_path (read_items sdk_Webhook_fields zero_webhookDTO) []"

definition CreateWebhook :: "sdk_Config \<Rightarrow> 's sdk_world \<Rightarrow> createWebhookRequest \<Rightarrow> 's \<Rightarrow> (sdk_error + webhookDTO) \<times> 's" where
  "CreateWebhook cfg w i = sdk_send cfg w ''POST'' webhooks_path (Inr (CreateWebhookInput_json i)) (read_raw sdk_Webhook_fields zero_webhookDTO) zero_webhookDTO"

definition UpdateWebhook :: "sdk_Config \<Rightarrow> 's sdk_world \<Rightarrow> string \<Rightarrow> patchWebhookRequest \<Rightarrow> 's \<Rightarrow> (sdk_error + webhookDTO) \<times> 's" where
  "UpdateWebhook cfg w whID i = sdk_send cfg w ''PATCH'' (webhooks_path @ ''/'' @ PathEscape whID) (Inr (UpdateWebhookInput_json i))
     (read_raw sdk_Webhook_fields zero_webhookDTO) zero_webhookDTO"

definition DeleteWebhook :: "sdk_Config \<Rightarrow> 's sdk_world \<Rightarrow> string \<Rightarrow> 's \<Rightarrow> (sdk_error + unit) \<times> 's" where
  "DeleteWebhook cfg w whID = do_request cfg w ''DELETE'' (webhooks_path @ ''/'' @ PathEscape whID) [] None None ()"

text \<open>The answer of a test: its status; the error text is decoded and dropped.\<close>

definition test_fields :: "(string \<times> string) fields" where
  "test_fields = [(''status'', string_field (\<lambda>x (s, e). (x, e))), (''error'', string_field (\<lambda>x (s, e). (s, x)))]"

definition test_call :: "sdk_Config \<Rightarrow> 's sdk_world \<Rightarrow> string \<Rightarrow> 's \<Rightarrow> (sdk_error + string) \<times> 's" where
  "test_call cfg w path s = map_prod (map_sum id fst) id
     (do_request cfg w ''POST'' path [] None (Some (read_plain test_fields ([], []))) ([], []) s)"

definition TestWebhook :: "sdk_Config \<Rightarrow> 's sdk_world \<Rightarrow> string \<Rightarrow> 's \<Rightarrow> (sdk_error + string) \<times> 's" where
  "TestWebhook cfg w whID = test_call cfg w (webhooks_path @ ''/'' @ PathEscape whID @ ''/test'')"

definition Webhooks_Deliveries :: "sdk_Config \<Rightarrow> 's sdk_world \<Rightarrow> string \<Rightarrow> int \<Rightarrow> 's \<Rightarrow> (sdk_error + WebhookDelivery list) \<times> 's" where
  "Webhooks_Deliveries cfg w whID limit =
     sdk_get cfg w (webhooks_path @ ''/'' @ PathEscape whID @ ''/deliveries'' @ limit_suffix limit)
       (read_items WebhookDelivery_fields zero_WebhookDelivery) []"

section \<open>Replay and recovery\<close>

definition ReplayInput_json :: "replayRequest \<Rightarrow> err + bytes" where
  "ReplayInput_json i =
     (let bound = (\<lambda>k x. case x of None \<Rightarrow> Inr [] | Some (t, off) \<Rightarrow> map_sum id (\<lambda>b. [(k, b)]) (MarshalTime (\<lambda>_. off) t)) in
      result_bind (bound ''from'' (rp_From i)) (\<lambda>from.
      result_bind (bound ''to'' (rp_To i)) (\<lambda>to.
        Inr (print_struct True (from @ to @ omit_list ''delivery_ids'' (rp_DeliveryIDs i))))))"

definition ReplayJob_fields :: "ReplayJob raw_fields" where
  "ReplayJob_fields = [
     (''id'', text_field (\<lambda>x q. q\<lparr> rj_ID := x \<rparr>)),
     (''webhook_id'', text_field (\<lambda>x q. q\<lparr> rj_WebhookID := x \<rparr>)),
     (''from'', time_field (\<lambda>x q. q\<lparr> rj_From := x \<rparr>)),
     (''to'', time_field (\<lambda>x q. q\<lparr> rj_To := x \<rparr>)),
     (''delivery_ids'', list_field (\<lambda>x q. q\<lparr> rj_DeliveryIDs := x \<rparr>)),
     (''status'', text_field (\<lambda>x q. q\<lparr> rj_Status := x \<rparr>)),
     (''events_replayed'', number_field (\<lambda>x q. q\<lparr> rj_EventsReplayed := x \<rparr>)),
     (''error'', text_field (\<lambda>x q. q\<lparr> rj_Error := x \<rparr>)),
     (''created_at'', time_field (\<lambda>x q. q\<lparr> rj_CreatedAt := x \<rparr>)),
     (''updated_at'', time_field (\<lambda>x q. q\<lparr> rj_UpdatedAt := x \<rparr>))]"

definition zero_ReplayJob :: ReplayJob where
  "zero_ReplayJob = \<lparr> rj_ID = [], rj_WebhookID = [], rj_From = zero_time, rj_To = zero_time, rj_DeliveryIDs = [], rj_Status = [],
     rj_EventsReplayed = 0, rj_Error = [], rj_CreatedAt = zero_time, rj_UpdatedAt = zero_time \<rparr>"

record DeliveryDetail = WebhookDelivery +
  wv_Headers :: smap
  wv_Payload :: bytes

definition DeliveryDetail_fields :: "DeliveryDetail raw_fields" where
  "DeliveryDetail_fields = delivery_fields ''attempts'' @ [
     (''headers'', map_field wv_Headers (\<lambda>x q. q\<lparr> wv_Headers := x \<rparr>)),
     (''payload'', raw_message_field (\<lambda>x q. q\<lparr> wv_Payload := x \<rparr>))]"

definition zero_DeliveryDetail :: DeliveryDetail where
  "zero_DeliveryDetail = WebhookDelivery.extend zero_WebhookDelivery (DeliveryDetail.fields [] [])"

definition requeued_call :: "sdk_Config \<Rightarrow> 's sdk_world \<Rightarrow> string \<Rightarrow> bytes option \<Rightarrow> 's \<Rightarrow> (sdk_error + int) \<times> 's" where
  "requeued_call cfg w path body =
     do_request cfg w ''POST'' path [] body (Some (read_plain [(''requeued'', int_field (\<lambda>x _. x))] 0)) 0"

definition Webhooks_Replay :: "sdk_Config \<Rightarrow> 's sdk_world \<Rightarrow> string \<Rightarrow> replayRequest \<Rightarrow> 's \<Rightarrow> (sdk_error + ReplayJob) \<times> 's" where
  "Webhooks_Replay cfg w whID i = sdk_send cfg w ''POST'' (webhooks_path @ ''/'' @ PathEscape whID @ ''/replay'') (ReplayInput_json i)
     (read_raw ReplayJob_fields zero_ReplayJob) zero_ReplayJob"

definition delivery_path :: "string \<Rightarrow> string \<Rightarrow> string" where
  "delivery_path whID deliveryID = webhooks_path @ ''/'' @ PathEscape whID @ ''/deliveries/'' @ PathEscape deliveryID"

definition Webhooks_Delivery :: "sdk_Config \<Rightarrow> 's sdk_world \<Rightarrow> string \<Rightarrow> string \<Rightarrow> 's \<Rightarrow> (sdk_error + DeliveryDetail) \<times> 's" where
  "Webhooks_Delivery cfg w whID deliveryID =
     sdk_get cfg w (delivery_path whID deliveryID) (read_raw DeliveryDetail_fields zero_DeliveryDetail) zero_DeliveryDetail"

definition RetryDelivery :: "sdk_Config \<Rightarrow> 's sdk_world \<Rightarrow> string \<Rightarrow> string \<Rightarrow> 's \<Rightarrow> (sdk_error + int) \<times> 's" where
  "RetryDelivery cfg w whID deliveryID = requeued_call cfg w (delivery_path whID deliveryID @ ''/retry'') None"

definition DeadLetters :: "sdk_Config \<Rightarrow> 's sdk_world \<Rightarrow> string \<Rightarrow> int \<Rightarrow> 's \<Rightarrow> (sdk_error + WebhookDelivery list) \<times> 's" where
  "DeadLetters cfg w webhookID limit =
     sdk_get cfg w (webhooks_path @ ''/deadletters'' @ encode_query (set_number ''limit'' limit (set_text ''webhook_id'' webhookID [])))
       (read_items WebhookDelivery_fields zero_WebhookDelivery) []"

definition RetryDeadLetters :: "sdk_Config \<Rightarrow> 's sdk_world \<Rightarrow> string \<Rightarrow> 's \<Rightarrow> (sdk_error + int) \<times> 's" where
  "RetryDeadLetters cfg w webhookID =
     requeued_call cfg w (webhooks_path @ ''/deadletters/retry'') (Some (smap_json (set_text ''webhook_id'' webhookID [])))"

definition Webhooks_ReplayJobs :: "sdk_Config \<Rightarrow> 's sdk_world \<Rightarrow> int \<Rightarrow> 's \<Rightarrow> (sdk_error + ReplayJob list) \<times> 's" where
  "Webhooks_ReplayJobs cfg w limit =
     sdk_get cfg w (webhooks_path @ ''/replay/jobs'' @ limit_suffix limit) (read_items ReplayJob_fields zero_ReplayJob) []"

definition Webhooks_ReplayJob :: "sdk_Config \<Rightarrow> 's sdk_world \<Rightarrow> string \<Rightarrow> 's \<Rightarrow> (sdk_error + ReplayJob) \<times> 's" where
  "Webhooks_ReplayJob cfg w jobID =
     sdk_get cfg w (webhooks_path @ ''/replay/jobs/'' @ PathEscape jobID) (read_raw ReplayJob_fields zero_ReplayJob) zero_ReplayJob"

section \<open>Policies\<close>

definition sdk_Policy_fields :: "Policy raw_fields" where
  "sdk_Policy_fields = [
     (''id'', text_field (\<lambda>x q. q\<lparr> po_ID := x \<rparr>)),
     (''name'', text_field (\<lambda>x q. q\<lparr> po_Name := x \<rparr>)),
     (''enabled'', switch_field (\<lambda>x q. q\<lparr> po_Enabled := x \<rparr>)),
     (''condition'', value_field (struct_field Condition_fields po_Condition (\<lambda>x q. q\<lparr> po_Condition := x \<rparr>))),
     (''action'', raw_struct_field policyActionDTO_fields po_Action (\<lambda>x q. q\<lparr> po_Action := x \<rparr>)),
     (''max_retries'', number_field (\<lambda>x q. q\<lparr> po_MaxRetries := x \<rparr>)),
     (''created_at'', time_field (\<lambda>x q. q\<lparr> po_CreatedAt := x \<rparr>)),
     (''updated_at'', time_field (\<lambda>x q. q\<lparr> po_UpdatedAt := x \<rparr>))]"

definition zero_Policy :: Policy where
  "zero_Policy = \<lparr> po_ID = [], po_Name = [], po_Enabled = False, po_Condition = zero_Condition, po_Action = zero_action,
     po_MaxRetries = 0, po_CreatedAt = zero_time, po_UpdatedAt = zero_time \<rparr>"

record PolicyExecution =
  px_ID :: string
  px_PolicyID :: string
  px_EventID :: string
  px_Operation :: string
  px_CfgID :: string
  px_Status :: string
  px_RetryCount :: int
  px_Error :: string
  px_StartedAt :: instant
  px_EndedAt :: instant
  px_CreatedAt :: instant

definition PolicyExecution_fields :: "PolicyExecution raw_fields" where
  "PolicyExecution_fields = [
     (''id'', text_field (\<lambda>x q. q\<lparr> px_ID := x \<rparr>)),
     (''policy_id'', text_field (\<lambda>x q. q\<lparr> px_PolicyID := x \<rparr>)),
     (''event_id'', text_field (\<lambda>x q. q\<lparr> px_EventID := x \<rparr>)),
     (''operation'', text_field (\<lambda>x q. q\<lparr> px_Operation := x \<rparr>)),
     (''cfg_id'', text_field (\<lambda>x q. q\<lparr> px_CfgID := x \<rparr>)),
     (''status'', text_field (\<lambda>x q. q\<lparr> px_Status := x \<rparr>)),
     (''retry_count'', number_field (\<lambda>x q. q\<lparr> px_RetryCount := x \<rparr>)),
     (''error'', text_field (\<lambda>x q. q\<lparr> px_Error := x \<rparr>)),
     (''started_at'', time_field (\<lambda>x q. q\<lparr> px_StartedAt := x \<rparr>)),
     (''ended_at'', time_field (\<lambda>x q. q\<lparr> px_EndedAt := x \<rparr>)),
     (''created_at'', time_field (\<lambda>x q. q\<lparr> px_CreatedAt := x \<rparr>))]"

definition zero_PolicyExecution :: PolicyExecution where
  "zero_PolicyExecution = \<lparr> px_ID = [], px_PolicyID = [], px_EventID = [], px_Operation = [], px_CfgID = [], px_Status = [],
     px_RetryCount = 0, px_Error = [], px_StartedAt = zero_time, px_EndedAt = zero_time, px_CreatedAt = zero_time \<rparr>"

definition CreatePolicyInput_json :: "createPolicyRequest \<Rightarrow> err + bytes" where
  "CreatePolicyInput_json i = result_bind (policyActionDTO_json (cq_Action i)) (\<lambda>action.
     Inr (print_struct True
       ((''name'', json_quote True (cq_Name i)) # omit_flag ''enabled'' (cq_Enabled i) @
        [(''condition'', Condition_json (cq_Condition i)), (''action'', action)] @
        (if cq_MaxRetries i = 0 then [] else [(''max_retries'', FormatInt (cq_MaxRetries i))]))))"

definition UpdatePolicyInput_json :: "patchPolicyRequest \<Rightarrow> err + bytes" where
  "UpdatePolicyInput_json i =
     result_bind (case pq_Action i of None \<Rightarrow> Inr [] | Some a \<Rightarrow> map_sum id (\<lambda>b. [(''action'', b)]) (policyActionDTO_json a)) (\<lambda>action.
     Inr (print_struct True
       ((case pq_Name i of None \<Rightarrow> [] | Some n \<Rightarrow> [(''name'', json_quote True n)]) @ omit_flag ''enabled'' (pq_Enabled i) @
        (case pq_Condition i of None \<Rightarrow> [] | Some c \<Rightarrow> [(''condition'', Condition_json c)]) @ action @
        (case pq_MaxRetries i of None \<Rightarrow> [] | Some n \<Rightarrow> [(''max_retries'', FormatInt n)]))))"

definition policies_path :: string where
  "policies_path = ''/v1/admin/policies''"

definition Policies_List :: "sdk_Config \<Rightarrow> 's sdk_world \<Rightarrow> 's \<Rightarrow> (sdk_error + Policy list) \<times> 's" where
  "Policies_List cfg w = sdk_get cfg w policies_path (read_items sdk_Policy_fields zero_Policy) []"

definition CreatePolicy :: "sdk_Config \<Rightarrow> 's sdk_world \<Rightarrow> createPolicyRequest \<Rightarrow> 's \<Rightarrow> (sdk_error + Policy) \<times> 's" where
  "CreatePolicy cfg w i = sdk_send cfg w ''POST'' policies_path (CreatePolicyInput_json i) (read_raw sdk_Policy_fields zero_Policy) zero_Policy"

definition UpdatePolicy :: "sdk_Config \<Rightarrow> 's sdk_world \<Rightarrow> string \<Rightarrow> patchPolicyRequest \<Rightarrow> 's \<Rightarrow> (sdk_error + Policy) \<times> 's" where
  "UpdatePolicy cfg w polID i = sdk_send cfg w ''PATCH'' (policies_path @ ''/'' @ PathEscape polID) (UpdatePolicyInput_json i)
     (read_raw sdk_Policy_fields zero_Policy) zero_Policy"

definition DeletePolicy :: "sdk_Config \<Rightarrow> 's sdk_world \<Rightarrow> string \<Rightarrow> 's \<Rightarrow> (sdk_error + unit) \<times> 's" where
  "DeletePolicy cfg w polID = do_request cfg w ''DELETE'' (policies_path @ ''/'' @ PathEscape polID) [] None None ()"

definition Policies_Executions :: "sdk_Config \<Rightarrow> 's sdk_world \<Rightarrow> string \<Rightarrow> int \<Rightarrow> 's \<Rightarrow> (sdk_error + PolicyExecution list) \<times> 's" where
  "Policies_Executions cfg w polID limit =
     sdk_get cfg w (policies_path @ ''/'' @ PathEscape polID @ ''/executions'' @ limit_suffix limit)
       (read_items PolicyExecution_fields zero_PolicyExecution) []"

definition TestPolicy :: "sdk_Config \<Rightarrow> 's sdk_world \<Rightarrow> string \<Rightarrow> 's \<Rightarrow> (sdk_error + string) \<times> 's" where
  "TestPolicy cfg w polID = test_call cfg w (policies_path @ ''/'' @ PathEscape polID @ ''/test'')"

section \<open>Timelines\<close>

definition TimelineEntry_fields :: "Entry raw_fields" where
  "TimelineEntry_fields = [
     (''timestamp'', time_field (\<lambda>x q. q\<lparr> tl_Timestamp := x \<rparr>)),
     (''component'', text_field (\<lambda>x q. q\<lparr> tl_Component := x \<rparr>)),
     (''action'', text_field (\<lambda>x q. q\<lparr> tl_Action := x \<rparr>)),
     (''status'', text_field (\<lambda>x q. q\<lparr> tl_Status := x \<rparr>)),
     (''duration_ms'', number_field (\<lambda>x q. q\<lparr> tl_DurationMS := x \<rparr>)),
     (''correlation'', map_field tl_Correlation (\<lambda>x q. q\<lparr> tl_Correlation := x \<rparr>)),
     (''metadata'', map_field tl_Metadata (\<lambda>x q. q\<lparr> tl_Metadata := x \<rparr>))]"

definition zero_Entry :: Entry where
  "zero_Entry = \<lparr> tl_Timestamp = zero_time, tl_Component = [], tl_Action = [], tl_Status = [], tl_DurationMS = 0,
     tl_Correlation = [], tl_Metadata = [] \<rparr>"

definition TimelinePage_fields :: "TPage raw_fields" where
  "TimelinePage_fields = [
     (''entries'', raw_structs_field TimelineEntry_fields zero_Entry (\<lambda>x q. q\<lparr> tp_Entries := x \<rparr>)),
     (''next_offset'', text_field (\<lambda>x q. q\<lparr> tp_NextOffset := x \<rparr>))]"

text \<open>\<^verbatim>\<open>Format(time.RFC3339)\<close> in UTC writes no fraction.\<close>

definition RFC3339_UTC :: "instant \<Rightarrow> string" where
  "RFC3339_UTC t = RFC3339Nano 0 (t div Second * Second)"

definition TimelineFilter_query :: "TFilter \<Rightarrow> smap" where
  "TimelineFilter_query f =
     (let q = (if IsZero (tf_From f) then [] else [(''from'', RFC3339_UTC (tf_From f))]);
          q = (if IsZero (tf_To f) then q else map_put ''to'' (RFC3339_UTC (tf_To f)) q);
          q = set_text ''status'' (tf_Status f) (set_text ''component'' (tf_Component f) q)
      in set_number ''limit'' (tf_Limit f) (set_number ''offset'' (tf_Offset f) q))"

definition Timeline_get :: "sdk_Config \<Rightarrow> 's sdk_world \<Rightarrow> string \<Rightarrow> TFilter \<Rightarrow> 's \<Rightarrow> (sdk_error + TPage) \<times> 's" where
  "Timeline_get cfg w path f =
     (let zero = \<lparr> tp_Entries = [], tp_NextOffset = [] \<rparr>
      in sdk_get cfg w (path @ encode_query (TimelineFilter_query f)) (read_raw TimelinePage_fields zero) zero)"

definition EventTimeline :: "sdk_Config \<Rightarrow> 's sdk_world \<Rightarrow> string \<Rightarrow> TFilter \<Rightarrow> 's \<Rightarrow> (sdk_error + TPage) \<times> 's" where
  "EventTimeline cfg w eventID = Timeline_get cfg w (''/v1/admin/timeline/'' @ PathEscape eventID)"

definition GovernanceTimeline :: "sdk_Config \<Rightarrow> 's sdk_world \<Rightarrow> string \<Rightarrow> TFilter \<Rightarrow> 's \<Rightarrow> (sdk_error + TPage) \<times> 's" where
  "GovernanceTimeline cfg w i = Timeline_get cfg w (''/v1/admin/governance/'' @ PathEscape i @ ''/timeline'')"

definition ReplayTimeline :: "sdk_Config \<Rightarrow> 's sdk_world \<Rightarrow> string \<Rightarrow> TFilter \<Rightarrow> 's \<Rightarrow> (sdk_error + TPage) \<times> 's" where
  "ReplayTimeline cfg w jobID = Timeline_get cfg w (''/v1/admin/replay/'' @ PathEscape jobID @ ''/timeline'')"

definition PolicyTimeline :: "sdk_Config \<Rightarrow> 's sdk_world \<Rightarrow> string \<Rightarrow> TFilter \<Rightarrow> 's \<Rightarrow> (sdk_error + TPage) \<times> 's" where
  "PolicyTimeline cfg w executionID = Timeline_get cfg w (''/v1/admin/policies/'' @ PathEscape executionID @ ''/timeline'')"

section \<open>Compliance\<close>

definition ComplianceCheck_fields :: "Check fields" where
  "ComplianceCheck_fields = [
     (''id'', string_field (\<lambda>x q. q\<lparr> ck_ID := x \<rparr>)),
     (''description'', string_field (\<lambda>x q. q\<lparr> ck_Description := x \<rparr>)),
     (''passed'', flag_field (\<lambda>x q. q\<lparr> ck_Passed := x \<rparr>)),
     (''detail'', string_field (\<lambda>x q. q\<lparr> ck_Detail := x \<rparr>))]"

definition zero_Check :: Check where
  "zero_Check = \<lparr> ck_ID = [], ck_Description = [], ck_Passed = False, ck_Detail = [] \<rparr>"

definition ComplianceSummary_fields :: "Summary raw_fields" where
  "ComplianceSummary_fields = [
     (''governance_id'', text_field (\<lambda>x q. q\<lparr> sm_GovernanceID := x \<rparr>)),
     (''lifecycle'', text_field (\<lambda>x q. q\<lparr> sm_Lifecycle := x \<rparr>)),
     (''verified'', switch_field (\<lambda>x q. q\<lparr> sm_Verified := x \<rparr>)),
     (''compliant'', switch_field (\<lambda>x q. q\<lparr> sm_Compliant := x \<rparr>)),
     (''checks_passed'', number_field (\<lambda>x q. q\<lparr> sm_ChecksPassed := x \<rparr>)),
     (''checks_total'', number_field (\<lambda>x q. q\<lparr> sm_ChecksTotal := x \<rparr>)),
     (''generated_at'', time_field (\<lambda>x q. q\<lparr> sm_GeneratedAt := x \<rparr>))]"

definition zero_Summary :: Summary where
  "zero_Summary = \<lparr> sm_GovernanceID = [], sm_Lifecycle = [], sm_Verified = False, sm_Compliant = False, sm_ChecksPassed = 0,
     sm_ChecksTotal = 0, sm_GeneratedAt = zero_time \<rparr>"

definition ComplianceReportPage_fields :: "ReportPage raw_fields" where
  "ComplianceReportPage_fields = [
     (''items'', raw_structs_field ComplianceSummary_fields zero_Summary (\<lambda>x q. q\<lparr> rp_Items := x \<rparr>)),
     (''next_cursor'', text_field (\<lambda>x q. q\<lparr> rp_NextCursor := x \<rparr>))]"

record EvidenceBundle =
  eb_GovernanceID :: string
  eb_GeneratedAt :: instant
  eb_Governance :: bytes
  eb_Integrity :: bytes
  eb_Timeline :: bytes
  eb_Webhooks :: bytes
  eb_Replays :: bytes
  eb_Policies :: bytes
  eb_CorrelationIDs :: "string list"
  eb_Checks :: "Check list"
  eb_Compliant :: bool

definition Evidence_fields :: "EvidenceBundle raw_fields" where
  "Evidence_fields = [
     (''governance_id'', text_field (\<lambda>x q. q\<lparr> eb_GovernanceID := x \<rparr>)),
     (''generated_at'', time_field (\<lambda>x q. q\<lparr> eb_GeneratedAt := x \<rparr>)),
     (''governance'', raw_message_field (\<lambda>x q. q\<lparr> eb_Governance := x \<rparr>)),
     (''integrity'', raw_message_field (\<lambda>x q. q\<lparr> eb_Integrity := x \<rparr>)),
     (''timeline'', raw_message_field (\<lambda>x q. q\<lparr> eb_Timeline := x \<rparr>)),
     (''webhooks'', raw_message_field (\<lambda>x q. q\<lparr> eb_Webhooks := x \<rparr>)),
     (''replays'', raw_message_field (\<lambda>x q. q\<lparr> eb_Replays := x \<rparr>)),
     (''policies'', raw_message_field (\<lambda>x q. q\<lparr> eb_Policies := x \<rparr>)),
     (''correlation_ids'', list_field (\<lambda>x q. q\<lparr> eb_CorrelationIDs := x \<rparr>)),
     (''checks'', value_field (structs_field ComplianceCheck_fields zero_Check (\<lambda>x q. q\<lparr> eb_Checks := x \<rparr>))),
     (''compliant'', switch_field (\<lambda>x q. q\<lparr> eb_Compliant := x \<rparr>))]"

definition zero_EvidenceBundle :: EvidenceBundle where
  "zero_EvidenceBundle = \<lparr> eb_GovernanceID = [], eb_GeneratedAt = zero_time, eb_Governance = [], eb_Integrity = [], eb_Timeline = [],
     eb_Webhooks = [], eb_Replays = [], eb_Policies = [], eb_CorrelationIDs = [], eb_Checks = [], eb_Compliant = False \<rparr>"

definition compliance_path :: string where
  "compliance_path = ''/v1/admin/compliance/''"

definition Compliance_Summary_call :: "sdk_Config \<Rightarrow> 's sdk_world \<Rightarrow> string \<Rightarrow> 's \<Rightarrow> (sdk_error + Summary) \<times> 's" where
  "Compliance_Summary_call cfg w govID =
     sdk_get cfg w (compliance_path @ PathEscape govID) (read_raw ComplianceSummary_fields zero_Summary) zero_Summary"

definition Compliance_Evidence_call :: "sdk_Config \<Rightarrow> 's sdk_world \<Rightarrow> string \<Rightarrow> 's \<Rightarrow> (sdk_error + EvidenceBundle) \<times> 's" where
  "Compliance_Evidence_call cfg w govID =
     sdk_get cfg w (compliance_path @ PathEscape govID @ ''/evidence'') (read_raw Evidence_fields zero_EvidenceBundle) zero_EvidenceBundle"

definition Compliance_Checks_call :: "sdk_Config \<Rightarrow> 's sdk_world \<Rightarrow> string \<Rightarrow> 's \<Rightarrow> (sdk_error + Check list) \<times> 's" where
  "Compliance_Checks_call cfg w govID =
     sdk_get cfg w (compliance_path @ PathEscape govID @ ''/checks'')
       (read_plain [(''items'', structs_field ComplianceCheck_fields zero_Check (\<lambda>xs _. xs))] []) []"

definition Compliance_Reports_call :: "sdk_Config \<Rightarrow> 's sdk_world \<Rightarrow> string \<Rightarrow> int \<Rightarrow> 's \<Rightarrow> (sdk_error + ReportPage) \<times> 's" where
  "Compliance_Reports_call cfg w cursor limit =
     (let zero = \<lparr> rp_Items = [], rp_NextCursor = [] \<rparr>
      in sdk_get cfg w (compliance_path @ ''reports'' @ encode_query (set_number ''limit'' limit (set_text ''cursor'' cursor [])))
           (read_raw ComplianceReportPage_fields zero) zero)"

end
