(* ===== verification/Encoding.thy ===== *)
theory Encoding
  imports Wire
begin

text \<open>
  What the encoders of the standard library write, its decoders read back: strings of valid UTF-8, times in RFC 3339,
  numbers, and structs of such values, nested or not.  The lemmas are what a round trip between the server's encoders
  and the client's tables of fields rests on.
\<close>

section \<open>Quoting is invertible on valid UTF-8\<close>

function (sequential) utf8_valid :: "bytes \<Rightarrow> bool" where
  "utf8_valid [] = True"
| "utf8_valid (c # s) = (case DecodeRune (c # s) of (r, n) \<Rightarrow> \<not> (r = RuneError \<and> n = 1) \<and> utf8_valid (drop (n - 1) s))"
  by pat_completeness auto
termination
  by (relation "measure length") auto

declare utf8_valid.simps [simp del]

lemma byte_offsets2:
  fixes x y :: nat
  assumes "0xC2 \<le> x \<and> x \<le> 0xDF" "0x80 \<le> y" "y \<le> 0xBF"
  obtains b c where "x = 0xC0 + b" "y = 0x80 + c" "2 \<le> b" "b \<le> 31" "c < 64"
  by (rule that [of "x - 0xC0" "y - 0x80"]) (use assms in auto)

lemma byte_offsets3:
  fixes x y z :: nat
  assumes "0xE0 \<le> x \<and> x \<le> 0xEF" "0x80 \<le> y" "y \<le> 0xBF" "0x80 \<le> z" "z \<le> 0xBF"
    and "x = 0xE0 \<longrightarrow> 0xA0 \<le> y" "x = 0xED \<longrightarrow> y \<le> 0x9F"
  obtains a b c where "x = 0xE0 + a" "y = 0x80 + b" "z = 0x80 + c" "a < 16" "b < 64" "c < 64"
    "a = 0 \<longrightarrow> 32 \<le> b" "a = 13 \<longrightarrow> b \<le> 31"
  by (rule that [of "x - 0xE0" "y - 0x80" "z - 0x80"]) (use assms in auto)

lemma byte_offsets4:
  fixes x y z w :: nat
  assumes "0xF0 \<le> x \<and> x \<le> 0xF4" "0x80 \<le> y" "y \<le> 0xBF" "0x80 \<le> z" "z \<le> 0xBF" "0x80 \<le> w" "w \<le> 0xBF"
    and "x = 0xF0 \<longrightarrow> 0x90 \<le> y" "x = 0xF4 \<longrightarrow> y \<le> 0x8F"
  obtains a b c d where "x = 0xF0 + a" "y = 0x80 + b" "z = 0x80 + c" "w = 0x80 + d" "a \<le> 4" "b < 64" "c < 64" "d < 64"
    "a = 0 \<longrightarrow> 16 \<le> b" "a = 4 \<longrightarrow> b \<le> 15"
  by (rule that [of "x - 0xF0" "y - 0x80" "z - 0x80" "w - 0x80"]) (use assms in auto)

lemma DecodeRune_cases:
  assumes "DecodeRune s = (r, n)" "\<not> (r = RuneError \<and> n = 1)"
  obtains "byte (s ! 0) < 0x80" "r = byte (s ! 0)" "n = 1"
  | b c where "n = 2" "2 \<le> length s" "byte (s ! 0) = 0xC0 + b" "byte (s ! 1) = 0x80 + c" "2 \<le> b" "b \<le> 31" "c < 64" "r = b * 64 + c"
  | a b c where "n = 3" "3 \<le> length s" "byte (s ! 0) = 0xE0 + a" "byte (s ! 1) = 0x80 + b" "byte (s ! 2) = 0x80 + c" "a < 16" "b < 64" "c < 64"
      "r = a * 4096 + b * 64 + c" "a = 0 \<longrightarrow> 32 \<le> b" "a = 13 \<longrightarrow> b \<le> 31"
  | a b c d where "n = 4" "4 \<le> length s" "byte (s ! 0) = 0xF0 + a" "byte (s ! 1) = 0x80 + b" "byte (s ! 2) = 0x80 + c" "byte (s ! 3) = 0x80 + d"
      "a \<le> 4" "b < 64" "c < 64" "d < 64" "r = a * 262144 + b * 4096 + c * 64 + d" "a = 0 \<longrightarrow> 16 \<le> b" "a = 4 \<longrightarrow> b \<le> 15"
proof -
  let ?b0 = "byte (s ! 0)"
  consider "?b0 < 0x80" | "0xC2 \<le> ?b0 \<and> ?b0 \<le> 0xDF" | "0xE0 \<le> ?b0 \<and> ?b0 \<le> 0xEF" | "0xF0 \<le> ?b0 \<and> ?b0 \<le> 0xF4"
    | "\<not> ?b0 < 0x80" "\<not> (0xC2 \<le> ?b0 \<and> ?b0 \<le> 0xDF)" "\<not> (0xE0 \<le> ?b0 \<and> ?b0 \<le> 0xEF)" "\<not> (0xF0 \<le> ?b0 \<and> ?b0 \<le> 0xF4)"
    by blast
  then show thesis
  proof cases
    case 1
    then have "r = ?b0" "n = 1"
      using assms(1) by (simp_all add: DecodeRune_def)
    with 1 show thesis by (rule that(1))
  next
    case 2
    then have *: "2 \<le> length s" "second_ok ?b0 (s ! 1)" "r = (?b0 - 0xC0) * 64 + (byte (s ! 1) - 0x80)" "n = 2"
      using assms by (simp_all add: DecodeRune_def Let_def split: if_splits)
    have "0x80 \<le> byte (s ! 1)" "byte (s ! 1) \<le> 0xBF"
      using *(2) unfolding second_ok_def cont_def by blast+
    then obtain b c where bc: "?b0 = 0xC0 + b" "byte (s ! 1) = 0x80 + c" "2 \<le> b" "b \<le> 31" "c < 64"
      by (rule byte_offsets2 [OF 2])
    show thesis
      using *(3) unfolding bc(1,2) by (intro that(2) [OF *(4) *(1) bc]) simp
  next
    case 3
    then have *: "3 \<le> length s" "second_ok ?b0 (s ! 1)" "cont (s ! 2)" "n = 3"
        "r = (?b0 - 0xE0) * 4096 + (byte (s ! 1) - 0x80) * 64 + (byte (s ! 2) - 0x80)"
      using assms by (simp_all add: DecodeRune_def Let_def split: if_splits)
    have k: "0x80 \<le> byte (s ! 1)" "byte (s ! 1) \<le> 0xBF" "0x80 \<le> byte (s ! 2)" "byte (s ! 2) \<le> 0xBF"
        "?b0 = 0xE0 \<longrightarrow> 0xA0 \<le> byte (s ! 1)" "?b0 = 0xED \<longrightarrow> byte (s ! 1) \<le> 0x9F"
      using *(2,3) unfolding second_ok_def cont_def by blast+
    obtain a b c where abc: "?b0 = 0xE0 + a" "byte (s ! 1) = 0x80 + b" "byte (s ! 2) = 0x80 + c" "a < 16" "b < 64" "c < 64"
        "a = 0 \<longrightarrow> 32 \<le> b" "a = 13 \<longrightarrow> b \<le> 31"
      by (rule byte_offsets3 [OF 3 k])
    show thesis
      using *(5) unfolding abc(1-3) by (intro that(3) [OF *(4) *(1) abc(1-6) _ abc(7,8)]) simp
  next
    case 4
    then have *: "4 \<le> length s" "second_ok ?b0 (s ! 1)" "cont (s ! 2)" "cont (s ! 3)" "n = 4"
        "r = (?b0 - 0xF0) * 262144 + (byte (s ! 1) - 0x80) * 4096 + (byte (s ! 2) - 0x80) * 64 + (byte (s ! 3) - 0x80)"
      using assms by (simp_all add: DecodeRune_def Let_def split: if_splits)
    have k: "0x80 \<le> byte (s ! 1)" "byte (s ! 1) \<le> 0xBF" "0x80 \<le> byte (s ! 2)" "byte (s ! 2) \<le> 0xBF"
        "0x80 \<le> byte (s ! 3)" "byte (s ! 3) \<le> 0xBF"
        "?b0 = 0xF0 \<longrightarrow> 0x90 \<le> byte (s ! 1)" "?b0 = 0xF4 \<longrightarrow> byte (s ! 1) \<le> 0x8F"
      using *(2-4) unfolding second_ok_def cont_def by blast+
    obtain a b c d where abc: "?b0 = 0xF0 + a" "byte (s ! 1) = 0x80 + b" "byte (s ! 2) = 0x80 + c" "byte (s ! 3) = 0x80 + d"
        "a \<le> 4" "b < 64" "c < 64" "d < 64" "a = 0 \<longrightarrow> 16 \<le> b" "a = 4 \<longrightarrow> b \<le> 15"
      by (rule byte_offsets4 [OF 4 k])
    show thesis
      using *(6) unfolding abc(1-4) by (intro that(4) [OF *(5) *(1) abc(1-8) _ abc(9,10)]) simp
  next
    case 5
    then have "DecodeRune s = (RuneError, 1)"
      by (simp only: DecodeRune_def Let_def if_False)
    with assms show thesis by simp
  qed
qed

lemma char_of_eq: "byte c = n \<Longrightarrow> char_of n = c"
  by auto

lemma take_nths:
  "s \<noteq> [] \<Longrightarrow> take 1 s = [s ! 0]"
  "2 \<le> length s \<Longrightarrow> take 2 s = [s ! 0, s ! 1]"
  "3 \<le> length s \<Longrightarrow> take 3 s = [s ! 0, s ! 1, s ! 2]"
  "4 \<le> length s \<Longrightarrow> take 4 s = [s ! 0, s ! 1, s ! 2, s ! 3]"
proof -
  show "s \<noteq> [] \<Longrightarrow> take 1 s = [s ! 0]"
    by (cases s) simp_all
  show "2 \<le> length s \<Longrightarrow> take 2 s = [s ! 0, s ! 1]"
    by (rule nth_equalityI) (auto simp: less_2_cases_iff)
  show "3 \<le> length s \<Longrightarrow> take 3 s = [s ! 0, s ! 1, s ! 2]"
    by (rule nth_equalityI) (auto simp: numeral_eq_Suc less_Suc_eq)
  show "4 \<le> length s \<Longrightarrow> take 4 s = [s ! 0, s ! 1, s ! 2, s ! 3]"
    by (rule nth_equalityI) (auto simp: numeral_eq_Suc less_Suc_eq)
qed

lemma base64_digit:
  fixes x c :: nat
  assumes "c < 64"
  shows "(x * 64 + c) div 64 = x" "(x * 64 + c) mod 64 = c"
  using assms by simp_all

lemma EncodeRune_DecodeRune:
  assumes "DecodeRune s = (r, n)" "\<not> (r = RuneError \<and> n = 1)" "s \<noteq> []"
  shows "EncodeRune r = take n s"
  using assms(1,2)
proof (cases rule: DecodeRune_cases)
  case 1
  then show ?thesis
    using assms(3) take_nths(1) [of s] by (simp add: EncodeRune_def)
next
  case (2 b c)
  then have "r div 64 = b" "r mod 64 = c" "128 \<le> r" "r < 2048" by auto
  with 2 show ?thesis
    by (simp add: EncodeRune_def take_nths char_of_eq)
next
  case (3 a b c)
  have r: "r = (a * 64 + b) * 64 + c"
    using 3 by simp
  have d: "r div 64 = a * 64 + b" "r mod 64 = c"
    unfolding r using base64_digit [OF 3(8)] by blast+
  have e: "r div 4096 = a" "r div 64 mod 64 = b"
    using div_mult2_eq [of r 64 64] base64_digit [OF 3(7), of a] by (simp_all add: d(1))
  have "2048 \<le> r" "r < 65536"
    using 3 by linarith+
  moreover have "\<not> (0xD800 \<le> r \<and> r \<le> 0xDFFF)"
  proof
    assume "0xD800 \<le> r \<and> r \<le> 0xDFFF"
    moreover from this have "a = 13" using 3 by linarith
    ultimately show False using 3 by linarith
  qed
  ultimately show ?thesis
    using 3(1-5) by (auto simp: EncodeRune_def d(2) e take_nths char_of_eq)
next
  case (4 a b c d)
  have r: "r = ((a * 64 + b) * 64 + c) * 64 + d"
    using 4 by simp
  have d: "r div 64 = (a * 64 + b) * 64 + c" "r mod 64 = d"
    unfolding r using base64_digit [OF 4(10)] by blast+
  have e: "r div 4096 = a * 64 + b" "r div 64 mod 64 = c"
    using div_mult2_eq [of r 64 64] base64_digit [OF 4(9), of "a * 64 + b"] by (simp_all add: d(1))
  have f: "r div 262144 = a" "r div 4096 mod 64 = b"
    using div_mult2_eq [of r 4096 64] base64_digit [OF 4(8), of a] by (simp_all add: e(1))
  have "65536 \<le> r" "r \<le> 0x10FFFF"
    using 4 by linarith+
  with 4(1-6) show ?thesis
    by (simp add: EncodeRune_def d(2) e(2) f take_nths char_of_eq)
qed

lemma DecodeRune_prefix:
  assumes "DecodeRune s = (r, n)" "\<not> (r = RuneError \<and> n = 1)" "s \<noteq> []"
  shows "DecodeRune (take n s @ t) = (r, n)"
proof -
  have n: "1 \<le> n" "n \<le> length s"
    using DecodeRune_size [OF assms(3)] assms(1) by simp_all
  have nth: "(take n s @ t) ! i = s ! i" if "i < n" for i
    using that n by (simp add: nth_append)
  show ?thesis
    using assms(1,2)
  proof (cases rule: DecodeRune_cases)
    case 1
    then show ?thesis using nth [of 0] by (simp add: DecodeRune_def Let_def)
  next
    case (2 b c)
    then show ?thesis using nth [of 0] nth [of 1] assms(1) by (simp add: DecodeRune_def Let_def second_ok_def cont_def)
  next
    case (3 a b c)
    then show ?thesis using nth [of 0] nth [of 1] nth [of 2] assms(1) by (simp add: DecodeRune_def Let_def second_ok_def cont_def)
  next
    case (4 a b c d)
    then show ?thesis using nth [of 0] nth [of 1] nth [of 2] nth [of 3] assms(1) by (simp add: DecodeRune_def Let_def second_ok_def cont_def)
  qed
qed

lemma hexd_hex_lower: "n < 16 \<Longrightarrow> hexd (hex_lower n) = n"
proof -
  have "\<forall>i \<in> set [0..<16]. hexd (hex_lower i) = i"
    by code_simp
  moreover assume "n < 16"
  ultimately show ?thesis by simp
qed

lemma getu4_u_escape: "n < 65536 \<Longrightarrow> getu4 (u_escape n @ t) = Some n"
proof -
  assume n: "n < 65536"
  then have "n div 4096 mod 16 = n div 16 div 16 div 16" "n div 256 = n div 16 div 16"
    by (simp_all add: div_mult2_eq [symmetric])
  moreover have "q div 16 * 16 + q mod 16 = q" for q :: nat
    by (rule div_mult_mod_eq)
  then have "((n div 16 div 16 div 16 * 16 + n div 16 div 16 mod 16) * 16 + n div 16 mod 16) * 16 + n mod 16 = n"
    by simp
  ultimately have "n div 4096 mod 16 * 4096 + n div 256 mod 16 * 256 + n div 16 mod 16 * 16 + n mod 16 = n"
    by (simp only: algebra_simps)
  then show ?thesis
    using n by (simp add: getu4_def u_escape_def hex4_def is_hex_hex_lower hexd_hex_lower)
qed

lemma unquote_u_escape:
  assumes "n < 65536" "\<not> is_surrogate n"
  shows "unquote (u_escape n @ t) = EncodeRune n @ unquote t"
  using assms getu4_u_escape [of n t]
  by (simp add: u_escape_def unquote.simps(2) [of backslash])

lemma unquote_quote_ascii:
  assumes "byte c < 0x80"
  shows "unquote (quote_ascii html c @ t) = c # unquote t"
proof -
  have u: "unquote (u_escape (byte c) @ t) = c # unquote t"
    using assms by (subst unquote_u_escape) (auto simp: is_surrogate_def EncodeRune_def)
  have n: "getu4 (backslash # e # t) = None" if "e \<noteq> CHR ''u''" for e
    using that by (auto simp: getu4_def split: list.splits)
  have e: "unquote (backslash # e # t) = unescape e # unquote t" if "e \<noteq> CHR ''u''" for e
    using n [OF that] by (subst unquote.simps) simp
  show ?thesis
    unfolding quote_ascii_def using u assms
    by (simp add: e unescape_def unquote.simps(2) [of c t])
qed

lemma unquote_rune:
  assumes "DecodeRune s = (r, n)" "\<not> (r = RuneError \<and> n = 1)" "s \<noteq> []" "0x80 \<le> byte (hd s)"
  shows "unquote (take n s @ t) = take n s @ unquote t"
proof -
  have n: "1 \<le> n" "n \<le> length s"
    using DecodeRune_size [OF assms(3)] assms(1) by simp_all
  obtain c u where cu: "take n s = c # u" "s = c # drop 1 s" "length u = n - 1"
    using n assms(3) by (cases s; cases n) auto
  have high: "\<not> byte c < 0x80"
    using assms(4) cu(2) by (metis list.sel(1) not_less)
  then have "c \<noteq> backslash" by auto
  then have "unquote (c # u @ t) = EncodeRune r @ unquote (drop (n - 1) (u @ t))"
    using DecodeRune_prefix [OF assms(1-3), of t] high by (simp add: cu(1) unquote.simps(2))
  then show ?thesis
    using EncodeRune_DecodeRune [OF assms(1-3)] cu by simp
qed

lemma unquote_quote_body: "utf8_valid s \<Longrightarrow> unquote (quote_body html s) = s"
proof (induction html s rule: quote_body.induct)
  case (1 html)
  then show ?case by (simp add: quote_body.simps unquote.simps)
next
  case (2 html c s)
  obtain r n where rn: "DecodeRune (c # s) = (r, n)" by fastforce
  have v: "\<not> (r = RuneError \<and> n = 1)" "utf8_valid (drop (n - 1) s)"
    using 2(3) rn by (simp_all add: utf8_valid.simps)
  show ?case
  proof (cases "byte c < 0x80")
    case True
    then have "n = 1" using rn by (simp add: DecodeRune_def)
    with v 2(1) True show ?thesis
      by (simp add: quote_body.simps unquote_quote_ascii)
  next
    case False
    have s: "take n (c # s) @ drop (n - 1) s = c # s"
      using DecodeRune_size [of "c # s"] rn by (cases n) simp_all
    have ih: "unquote (quote_body html (drop (n - 1) s)) = drop (n - 1) s"
      using 2(2) [OF False rn [symmetric] refl v(2)] .
    have t: "EncodeRune r = take n (c # s)"
      using EncodeRune_DecodeRune [OF rn v(1)] by simp
    show ?thesis
    proof (cases "r = 0x2028 \<or> r = 0x2029")
      case True
      then have "unquote (u_escape r @ x) = EncodeRune r @ unquote x" for x
        by (intro unquote_u_escape) (auto simp: is_surrogate_def)
      with True False v s ih t show ?thesis
        by (auto simp: quote_body.simps rn)
    next
      case F: False
      with False v s ih unquote_rune [OF rn v(1)] show ?thesis
        by (auto simp: quote_body.simps rn)
    qed
  qed
qed

section \<open>Dates\<close>

definition year_start :: "int \<Rightarrow> int" where
  "year_start y = 365 * y + y div 4 - y div 100"

definition year_end :: "int \<Rightarrow> int" where
  "year_end y = (if y = 399 then 146097 else year_start (y + 1))"

definition year_of :: "int \<Rightarrow> int" where
  "year_of doe = (doe - doe div 1460 + doe div 36524 - doe div 146096) div 365"

lemma sub_div_mono:
  fixes a b k :: int
  assumes "a \<le> b" "0 < k"
  shows "a - a div k \<le> b - b div k"
proof -
  have "b - a \<le> (b - a) * k"
    using mult_left_mono [of 1 k "b - a"] assms by simp
  then have "b div k \<le> (a + (b - a) * k) div k"
    using assms by (intro zdiv_mono1) auto
  also have "\<dots> = a div k + (b - a)"
    using assms by simp
  finally show ?thesis by simp
qed

lemma year_of_mono:
  assumes "a \<le> b"
  shows "year_of a \<le> year_of b"
proof -
  have "x div 146096 = x div 36524 div 4" for x :: int
    using zdiv_zmult2_eq [of 4 x 36524] by simp
  moreover have "a div 36524 \<le> b div 36524"
    using assms by (intro zdiv_mono1) auto
  ultimately have "a - a div 1460 + a div 36524 - a div 146096 \<le> b - b div 1460 + b div 36524 - b div 146096"
    using sub_div_mono [OF assms, of 1460] sub_div_mono [of "a div 36524" "b div 36524" 4] by simp
  then show ?thesis
    unfolding year_of_def by (intro zdiv_mono1) auto
qed

lemma year_table:
  "\<forall>y \<in> set [0..399]. year_of (year_start y) = y \<and> year_of (year_end y - 1) = y \<and>
     year_end y - year_start y \<le> 366 \<and> (year_end y - year_start y = 366 \<longrightarrow> isLeap (y + 1))"
  by code_simp

lemma day_table:
  "\<forall>doy \<in> set [0..365]. let mp = (5 * doy + 2) div 153; d = doy - (153 * mp + 2) div 5 + 1; m = (if mp < 10 then mp + 3 else mp - 9) in
     0 \<le> mp \<and> mp \<le> 11 \<and> 1 \<le> d \<and> d \<le> daysIn m 4 \<and> (m = 2 \<and> d = 29 \<longrightarrow> doy = 365)"
  by code_simp

lemma year_interval:
  assumes "0 \<le> doe" "doe < 146097"
  obtains y where "0 \<le> y" "y \<le> 399" "year_start y \<le> doe" "doe < year_end y"
proof -
  have "\<exists>y. 0 \<le> y \<and> y \<le> int n \<and> year_start y \<le> doe \<and> doe < year_end y" if "n \<le> 399" "doe < year_end (int n)" for n
    using that
  proof (induction n)
    case 0
    then show ?case using assms by (auto simp: year_start_def)
  next
    case (Suc n)
    show ?case
    proof (cases "doe < year_start (int (Suc n))")
      case True
      then have "doe < year_end (int n)"
        using Suc.prems by (simp add: year_end_def add.commute)
      with Suc show ?thesis by fastforce
    next
      case False
      with Suc.prems show ?thesis by (intro exI [of _ "int (Suc n)"]) auto
    qed
  qed
  from this [of 399] assms that show thesis
    by (auto simp: year_end_def)
qed

lemma year_of_doe:
  assumes "0 \<le> doe" "doe < 146097"
  shows "0 \<le> year_of doe" "year_of doe \<le> 399"
    and "0 \<le> doe - year_start (year_of doe)" "doe - year_start (year_of doe) \<le> 365"
    and "doe - year_start (year_of doe) = 365 \<Longrightarrow> isLeap (year_of doe + 1)"
proof -
  obtain y where y: "0 \<le> y" "y \<le> 399" "year_start y \<le> doe" "doe < year_end y"
    using year_interval [OF assms] by blast
  have t: "year_of (year_start y) = y" "year_of (year_end y - 1) = y" "year_end y - year_start y \<le> 366"
      "year_end y - year_start y = 366 \<longrightarrow> isLeap (y + 1)"
    using bspec [OF year_table, of y] y by auto
  have "year_of doe = y"
    using year_of_mono [of "year_start y" doe] year_of_mono [of doe "year_end y - 1"] y t by simp
  then show "0 \<le> year_of doe" "year_of doe \<le> 399" "0 \<le> doe - year_start (year_of doe)"
      "doe - year_start (year_of doe) \<le> 365" "doe - year_start (year_of doe) = 365 \<Longrightarrow> isLeap (year_of doe + 1)"
    using y t by auto
qed

lemma isLeap_era: "isLeap (y + 400 * e) \<longleftrightarrow> isLeap y"
proof -
  have "(y + 400 * e) mod 4 = y mod 4" "(y + 400 * e) mod 100 = y mod 100" "(y + 400 * e) mod 400 = y mod 400"
    using mod_mult_self2 [of y 4 "100 * e"] mod_mult_self2 [of y 100 "4 * e"] mod_mult_self2 [of y 400 e] by simp_all
  then show ?thesis
    by (simp add: isLeap_def)
qed

lemma daysIn_4: "m \<noteq> 2 \<Longrightarrow> daysIn m 4 = daysIn m y"
  by (simp add: daysIn_def)

lemma civil_date:
  assumes "civil days = (y, m, d)"
  shows "day_number y m d = days" "1 \<le> m" "m \<le> 12" "1 \<le> d" "d \<le> daysIn m y"
proof -
  define era where "era = (days + 719468) div 146097"
  define doe where "doe = (days + 719468) mod 146097"
  define doy where "doy = doe - year_start (year_of doe)"
  define mp where "mp = (5 * doy + 2) div 153"
  have doe: "0 \<le> doe" "doe < 146097"
    by (simp_all add: doe_def)
  note yr = year_of_doe [OF doe, folded doy_def]
  have c: "civil days = (year_of doe + era * 400 + (if (if mp < 10 then mp + 3 else mp - 9) \<le> 2 then 1 else 0),
      (if mp < 10 then mp + 3 else mp - 9), doy - (153 * mp + 2) div 5 + 1)"
    unfolding civil_def Let_def mp_def doy_def doe_def era_def year_of_def year_start_def by (rule refl)
  have m: "m = (if mp < 10 then mp + 3 else mp - 9)" and d: "d = doy - (153 * mp + 2) div 5 + 1"
    and y: "y = year_of doe + era * 400 + (if m \<le> 2 then 1 else 0)"
    using assms c by (auto simp only: Pair_inject)
  have t: "0 \<le> mp" "mp \<le> 11" "1 \<le> d" "d \<le> daysIn m 4" "m = 2 \<and> d = 29 \<longrightarrow> doy = 365"
    using bspec [OF day_table, of doy] yr unfolding Let_def mp_def [symmetric] d [symmetric] m [symmetric] by auto
  show "1 \<le> m" "m \<le> 12" "1 \<le> d"
    using t m by (auto split: if_splits)
  have m2: "m \<le> 2 \<longleftrightarrow> 10 \<le> mp" and mp: "(if 2 < m then m - 3 else m + 9) = mp"
    using t(1,2) by (auto simp: m)
  have y': "(if m \<le> 2 then y - 1 else y) = year_of doe + era * 400"
    by (simp add: y)
  have "(year_of doe + era * 400) mod 400 = year_of doe" "(year_of doe + era * 400) div 400 = era"
    using yr(1,2) by simp_all
  then have "day_number y m d = era * 146097 + year_of doe * 365 + year_of doe div 4 - year_of doe div 100 +
      ((153 * mp + 2) div 5 + d - 1) - 719468"
    by (simp only: day_number_def Let_def y' mp)
  also have "\<dots> = era * 146097 + doe - 719468"
    by (simp add: d doy_def year_start_def)
  also have "\<dots> = days"
    using div_mult_mod_eq [of "days + 719468" 146097] by (simp add: era_def doe_def)
  finally show "day_number y m d = days" .
  show "d \<le> daysIn m y"
  proof (cases "m = 2")
    case True
    have "isLeap y" if "d = 29"
      using yr(5) t(5) True that isLeap_era [of "year_of doe + 1" era] by (simp add: y algebra_simps)
    moreover have "d \<le> 29"
      using t(4) True by (simp add: daysIn_def isLeap_def)
    ultimately show ?thesis
      using True by (cases "d = 29") (auto simp: daysIn_def)
  next
    case False
    with t(4) daysIn_4 [OF False, of y] show ?thesis by simp
  qed
qed

section \<open>Numbers of fixed width\<close>

lemma digits_value_snoc: "digits_value (xs @ [c]) = 10 * digits_value xs + int (byte c - 48)"
  by (simp add: digits_value_def)

lemma digits_value_zeros: "digits_value (replicate k (CHR ''0'') @ xs) = digits_value xs"
  by (induction k) (simp_all add: digits_value_def)

lemma digits_value_append_zeros: "digits_value (xs @ replicate k (CHR ''0'')) = digits_value xs * 10 ^ k"
proof (induction k)
  case (Suc k)
  then show ?case
    using digits_value_snoc [of "xs @ replicate k (CHR ''0'')" "CHR ''0''"] by (simp add: replicate_append_same [symmetric])
qed simp

lemma byte_digit: "n < 10 \<Longrightarrow> byte (char_of (48 + n) :: char) = 48 + n"
  by simp

lemma digits_value_decimal: "digits_value (nat_decimal n) = int n"
proof (induction n rule: nat_decimal.induct)
  case (1 n)
  show ?case
  proof (cases "n < 10")
    case True
    then show ?thesis
      by (simp add: nat_decimal.simps [of n] digits_value_def byte_digit del: of_char_of)
  next
    case False
    then have "digits_value (nat_decimal n) = 10 * int (n div 10) + int (n mod 10)"
      using 1 by (simp add: nat_decimal.simps [of n] digits_value_snoc)
    also have "\<dots> = int n" by presburger
    finally show ?thesis .
  qed
qed

lemma length_nat_decimal: "0 < w \<Longrightarrow> n < 10 ^ w \<Longrightarrow> length (nat_decimal n) \<le> w"
proof (induction n arbitrary: w rule: nat_decimal.induct)
  case (1 n)
  show ?case
  proof (cases "n < 10")
    case True
    then show ?thesis using 1 by (simp add: nat_decimal.simps [of n])
  next
    case False
    then obtain v where v: "w = Suc v" "0 < v"
      using 1 by (cases w; cases "w - 1") auto
    then have "n div 10 < 10 ^ v"
      using 1(3) by (simp add: less_mult_imp_div_less mult.commute)
    then show ?thesis
      using 1(1) [OF False, of v] v False by (simp add: nat_decimal.simps [of n])
  qed
qed

lemma is_digit_zero: "is_digit (CHR ''0'')"
  by (simp add: is_digit_def)

lemma zero_pad_digits:
  assumes "0 < w" "0 \<le> n" "n < 10 ^ w"
  shows "length (zero_pad w n) = w" "list_all is_digit (zero_pad w n)" "digits_value (zero_pad w n) = n"
proof -
  have "nat n < 10 ^ w"
    using assms by (simp add: nat_less_iff)
  then have "length (nat_decimal (nat n)) \<le> w"
    using assms length_nat_decimal by blast
  then show "length (zero_pad w n) = w" "list_all is_digit (zero_pad w n)" "digits_value (zero_pad w n) = n"
    using assms nat_decimal_digits [of "nat n"] is_digit_zero
    by (auto simp: zero_pad_def Let_def digits_value_zeros digits_value_decimal list_all_iff)
qed

lemma fixed_digits_pad:
  assumes "0 < w" "0 \<le> n" "n < 10 ^ w"
  shows "fixed_digits w (zero_pad w n @ rest) = Some (n, rest)"
  using zero_pad_digits [OF assms] by (simp add: fixed_digits_def)

lemma pad2:
  assumes "0 \<le> n" "n < 100"
  shows "fixed_digits 2 (zero_pad 2 n @ rest) = Some (n, rest)" "short_digits (zero_pad 2 n @ rest) = Some (n, rest)"
  using fixed_digits_pad [of 2 n rest] assms by (simp_all add: short_digits_def)

lemma zero_suffix: "\<exists>k. xs = rev (dropWhile (\<lambda>c. c = CHR ''0'') (rev xs)) @ replicate k (CHR ''0'')"
proof -
  have "takeWhile (\<lambda>c. c = CHR ''0'') (rev xs) = replicate (length (takeWhile (\<lambda>c. c = CHR ''0'') (rev xs))) (CHR ''0'')"
    by (rule replicate_eqI [symmetric, THEN sym]) (auto dest: set_takeWhileD)
  then obtain k where "takeWhile (\<lambda>c. c = CHR ''0'') (rev xs) = replicate k (CHR ''0'')"
    by blast
  then have "rev xs = replicate k (CHR ''0'') @ dropWhile (\<lambda>c. c = CHR ''0'') (rev xs)"
    by (metis takeWhile_dropWhile_id)
  then have "rev (rev xs) = rev (replicate k (CHR ''0'') @ dropWhile (\<lambda>c. c = CHR ''0'') (rev xs))"
    by (rule arg_cong)
  then show ?thesis by (simp only: rev_rev_ident rev_append rev_replicate) blast
qed

text \<open>The text after the seconds, and after the fraction, starts with the zone.\<close>

definition zone_start :: "string \<Rightarrow> bool" where
  "zone_start s \<longleftrightarrow> s \<noteq> [] \<and> hd s \<in> {CHR ''Z'', CHR ''+'', CHR ''-''}"

lemma parse_fraction_text:
  assumes "0 \<le> nanos" "nanos < 10 ^ 9" "zone_start rest"
  shows "parse_fraction (fraction nanos @ rest) = (nanos, rest)"
proof (cases "nanos = 0")
  case True
  then show ?thesis
    using assms(3) by (auto simp: fraction_def parse_fraction_def zone_start_def split: list.splits)
next
  case False
  define ds where "ds = rev (dropWhile (\<lambda>c. c = CHR ''0'') (rev (zero_pad 9 nanos)))"
  note pad = zero_pad_digits [of 9 nanos, OF _ assms(1,2), simplified]
  obtain k where k: "zero_pad 9 nanos = ds @ replicate k (CHR ''0'')"
    using zero_suffix [of "zero_pad 9 nanos"] unfolding ds_def [symmetric] by blast
  have len: "length ds + k = 9" and digs: "list_all is_digit ds"
    using pad(1,2) unfolding k by simp_all
  have val: "digits_value ds * 10 ^ k = nanos"
    using digits_value_append_zeros [of ds k] pad(3) unfolding k by simp
  have "ds \<noteq> []"
    using val False by (auto simp: digits_value_def)
  then obtain d t where dt: "ds = d # t" by (cases ds) auto
  have "\<not> is_digit (hd rest)"
    using assms(3) by (auto simp: zone_start_def is_digit_def)
  then have tw: "takeWhile is_digit (ds @ rest) = ds" "dropWhile is_digit (ds @ rest) = rest"
    using takeWhile_digits [OF digs] by blast+
  have "is_digit d"
    using digs dt by simp
  moreover have "fraction nanos @ rest = CHR ''.'' # d # t @ rest"
    using False dt by (simp add: fraction_def ds_def)
  moreover have "9 - length ds = k" "take 9 ds = ds"
    using len by simp_all
  ultimately show ?thesis
    using tw val dt by (simp add: parse_fraction_def Let_def)
qed

lemma zone_start_suffix: "zone_start (zone_suffix off)"
  by (simp add: zone_start_def zone_suffix_def Let_def)

lemma parse_zone_suffix:
  assumes "\<bar>off\<bar> < 86400" "60 dvd off"
  shows "parse_zone (zone_suffix off) = Some (off, [])"
proof (cases "off = 0")
  case True
  then show ?thesis by (simp add: zone_suffix_def parse_zone_def)
next
  case False
  define m where "m = \<bar>off\<bar> div 60"
  have m: "0 \<le> m div 60" "m div 60 < 24" "0 \<le> m mod 60" "m mod 60 < 60"
    using assms(1) by (auto simp: m_def)
  have "m * 60 = \<bar>off\<bar>"
    using assms(2) by (simp add: m_def)
  moreover have "(m div 60 * 60 + m mod 60) * 60 = m * 60"
    by simp
  ultimately have total: "(m div 60 * 60 + m mod 60) * 60 = \<bar>off\<bar>"
    by simp
  show ?thesis
    using False m total pad2 [of "m div 60"] pad2 [of "m mod 60" "[]"]
    by (auto simp: zone_suffix_def Let_def m_def [symmetric] parse_zone_def skip_byte_def)
qed

lemma skip_here: "skip_byte c (c # t) = Some t"
  by (simp add: skip_byte_def)

lemma sexagesimal: "(a * 60 + b) * 60 + c = a * 3600 + b * 60 + (c :: int)"
  by simp

lemma Parse_RFC3339Nano:
  assumes "\<bar>off\<bar> < 86400" "60 dvd off" "0 \<le> fst (civil ((t div Second + off) div 86400))" "fst (civil ((t div Second + off) div 86400)) \<le> 9999"
  shows "Parse_RFC3339 (RFC3339Nano off t) = Some (t, off)"
proof -
  define s where "s = t div Second + off"
  obtain y m d where c: "civil (s div 86400) = (y, m, d)" by (metis prod_cases3)
  note cv = civil_date [OF c]
  have y: "0 \<le> y" "y < 10 ^ 4"
    using assms(3,4) c by (simp_all add: s_def)
  have "daysIn m y \<le> 31" by (simp add: daysIn_def)
  with cv have md: "0 \<le> m" "m < 100" "0 \<le> d" "d < 100" by auto
  define sod where "sod = s mod 86400"
  have sod: "0 \<le> sod" "sod < 86400" by (simp_all add: sod_def)
  then have hms: "0 \<le> sod div 3600" "sod div 3600 < 24" "0 \<le> sod div 60 mod 60" "sod div 60 mod 60 < 60" "0 \<le> sod mod 60" "sod mod 60 < 60"
    by auto
  have "sod div 3600 = sod div 60 div 60"
    using zdiv_zmult2_eq [of 60 sod 60] by simp
  moreover have "(sod div 60 div 60 * 60 + sod div 60 mod 60) * 60 + sod mod 60 = sod"
    by (simp only: div_mult_mod_eq)
  ultimately have clock: "sod div 3600 * 3600 + sod div 60 mod 60 * 60 + sod mod 60 = sod"
    using sexagesimal [of "sod div 60 div 60" "sod div 60 mod 60" "sod mod 60"] by (simp only:)
  have nanos: "0 \<le> t mod Second" "t mod Second < 10 ^ 9"
    by (simp_all add: pos_mod_bound)
  have days: "s div 86400 * 86400 + sod = s" and off: "s - off = t div Second"
    by (simp_all only: sod_def div_mult_mod_eq s_def add_diff_cancel_right')
  have total: "(s div 86400 * 86400 + sod div 3600 * 3600 + sod div 60 mod 60 * 60 + sod mod 60 - off) * Second + t mod Second = t"
  proof -
    have "s div 86400 * 86400 + sod div 3600 * 3600 + sod div 60 mod 60 * 60 + sod mod 60 - off = t div Second"
      using clock days off by linarith
    then show ?thesis by (simp only: div_mult_mod_eq)
  qed
  let ?h = "sod div 3600" and ?mi = "sod div 60 mod 60" and ?s = "sod mod 60"
  have printed: "RFC3339Nano off t = zero_pad 4 y @ CHR ''-'' # zero_pad 2 m @ CHR ''-'' # zero_pad 2 d @ CHR ''T'' #
      zero_pad 2 ?h @ CHR '':'' # zero_pad 2 ?mi @ CHR '':'' # zero_pad 2 ?s @ fraction (t mod Second) @ zone_suffix off"
    unfolding RFC3339Nano_def Let_def s_def [symmetric] c sod_def [symmetric] prod.case by (simp only: append_Cons append_Nil)
  have pads: "fixed_digits 4 (zero_pad 4 y @ u) = Some (y, u)" "fixed_digits 2 (zero_pad 2 m @ u) = Some (m, u)"
      "fixed_digits 2 (zero_pad 2 d @ u) = Some (d, u)" "short_digits (zero_pad 2 ?h @ u) = Some (?h, u)"
      "fixed_digits 2 (zero_pad 2 ?mi @ u) = Some (?mi, u)" "fixed_digits 2 (zero_pad 2 ?s @ u) = Some (?s, u)" for u
    by (rule fixed_digits_pad [OF zero_less_numeral y] pad2(1) [OF md(1,2)] pad2(1) [OF md(3,4)] pad2(2) [OF hms(1)] pad2(1) [OF hms(3)] pad2(1) [OF hms(5)] |
        use hms in linarith)+
  have "Parse_RFC3339 (RFC3339Nano off t) =
      (if [] \<noteq> ([] :: string) \<or> m < 1 \<or> 12 < m \<or> d < 1 \<or> daysIn m y < d \<or> 24 \<le> ?h \<or> 60 \<le> ?mi \<or> 60 \<le> ?s then None
       else Some ((day_number y m d * 86400 + ?h * 3600 + ?mi * 60 + ?s - off) * Second + t mod Second, off))"
    unfolding Parse_RFC3339_def printed
    by (simp only: pads skip_here bind.simps prod.case parse_fraction_text [OF nanos zone_start_suffix] parse_zone_suffix [OF assms(1,2)])
  also have "\<dots> = Some ((day_number y m d * 86400 + ?h * 3600 + ?mi * 60 + ?s - off) * Second + t mod Second, off)"
    by (rule if_not_P) (use cv(2-5) hms in \<open>simp only: simp_thms not_less not_le de_Morgan_disj\<close>)
  finally show ?thesis
    by (simp only: cv(1) total)
qed

lemma time_text_MarshalTime:
  assumes "MarshalTime zone t = Inr b" "60 dvd zone t"
  shows "time_text b = Some (t, zone t)" "b \<noteq> ''null''"
proof -
  have y: "0 \<le> fst (civil ((t div Second + zone t) div 86400))" "fst (civil ((t div Second + zone t) div 86400)) \<le> 9999"
    and off: "\<not> 24 \<le> \<bar>zone t\<bar> div 3600" and b: "b = quote_ch # RFC3339Nano (zone t) t @ [quote_ch]"
    using assms(1) by (auto simp: MarshalTime_def Let_def split: if_splits)
  have "\<bar>zone t\<bar> < 86400"
    using off by simp
  then show "time_text b = Some (t, zone t)" "b \<noteq> ''null''"
    using Parse_RFC3339Nano [OF _ assms(2) y] b by (simp_all add: time_text_def)
qed

section \<open>Texts of values\<close>

text \<open>\<open>ends rest\<close>: what may follow a value.  \<open>writes D v j\<close>: the text \<open>v\<close> is read as \<open>j\<close>, with at most \<open>D\<close> levels of nesting,
  by every parser that has fuel for its length.\<close>

definition ends :: "bytes \<Rightarrow> bool" where
  "ends rest \<longleftrightarrow> rest = [] \<or> hd rest \<in> {CHR '','', CHR ''}'', CHR '']'', CHR 0x0A}"

definition writes :: "nat \<Rightarrow> bytes \<Rightarrow> json \<Rightarrow> bool" where
  "writes D v j \<longleftrightarrow> v \<noteq> [] \<and> \<not> is_ws (hd v) \<and>
     (\<forall>m d rest. length v \<le> m \<and> d + D \<le> maxNestingDepth \<and> ends rest \<longrightarrow> parse_value m d (v @ rest) = Some (j, rest))"

lemma writesD:
  assumes "writes D v j" "length v \<le> m" "d + D \<le> maxNestingDepth" "ends rest"
  shows "parse_value m d (v @ rest) = Some (j, rest)"
  using assms by (simp add: writes_def)

lemma writes_mono: "writes D v j \<Longrightarrow> D \<le> D' \<Longrightarrow> writes D' v j"
  by (auto simp: writes_def)

lemma writes_plain_text:
  assumes "list_all plain t"
  shows "writes 0 (quote_ch # t @ [quote_ch]) (JStr (unquote t))"
proof -
  have "scan_string (t @ quote_ch # rest) = Some (t, rest)" for rest
    using scan_string_piece [of t "quote_ch # rest"] assms by (simp add: string_piece_def)
  moreover have "\<exists>m'. m = Suc m'" if "length (quote_ch # t @ [quote_ch]) \<le> m" for m
    using that by (cases m) auto
  ultimately show ?thesis
    by (force simp: writes_def skip_ws_def is_ws_def)
qed

lemma writes_quote: "writes 0 (json_quote html s) (JStr (unquote (quote_body html s)))"
proof -
  have "\<exists>m'. m = Suc m'" if "length (json_quote html s) \<le> m" for m
    using that by (cases m) (auto simp: json_quote_def)
  then show ?thesis
    by (force simp: writes_def json_quote_def skip_ws_def is_ws_def scan_string_quote)
qed

lemma writes_bool: "writes 0 (bool_field b) (JBool b)"
proof -
  have "\<exists>m'. m = Suc m'" if "length (bool_field b) \<le> m" for m
    using that by (cases m) (auto simp: bool_field_def split: if_splits)
  then show ?thesis
    by (force simp: writes_def bool_field_def skip_ws_def is_ws_def strip_prefix_def)
qed

lemma scan_number_ends:
  assumes "ends rest"
  shows "scan_number (FormatInt i @ rest) = Some (FormatInt i, rest)"
proof (cases "rest = []")
  case False
  have rest: "rest \<noteq> []" "\<not> is_digit (hd rest)"
    using assms False by (auto simp: ends_def is_digit_def)
  have tail: "scan_frac rest = Some ([], rest)" "scan_exp rest = Some ([], rest)"
    using assms False by (cases rest; auto simp: ends_def scan_frac_def scan_exp_def)+
  have "hd (nat_decimal n) \<noteq> CHR ''-''" for n
    using is_digit_hd_nat_decimal [of n] by (auto simp: is_digit_def)
  then show ?thesis
    by (simp add: scan_number_def FormatInt_def Let_def scan_int_decimal [OF rest] tail)
next
  case True
  have int: "scan_int (nat_decimal n) = Some (nat_decimal n, [])" for n
  proof (cases "n = 0")
    case True
    moreover have "char_of (48 :: nat) = CHR ''0''" by code_simp
    ultimately show ?thesis by (simp add: scan_int_def nat_decimal.simps [of 0])
  next
    case False
    then have "hd (nat_decimal n) \<noteq> CHR ''0''"
      using hd_nat_decimal_zero by blast
    then show ?thesis
      using takeWhile_digits [OF nat_decimal_digits, of "[]" n] nat_decimal_nonempty [of n]
      by (cases "nat_decimal n") (simp_all add: scan_int_def scan_digits_def Let_def)
  qed
  have "hd (nat_decimal n) \<noteq> CHR ''-''" for n
    using is_digit_hd_nat_decimal [of n] by (auto simp: is_digit_def)
  then show ?thesis
    by (simp add: True scan_number_def FormatInt_def Let_def int scan_frac_def scan_exp_def)
qed

lemma writes_int: "writes 0 (FormatInt i) (JNum (FormatInt i))"
proof -
  obtain c t where ct: "FormatInt i = c # t" "c = CHR ''-'' \<or> is_digit c"
  proof (cases "i < 0")
    case False
    then show thesis
      using that is_digit_hd_nat_decimal [of "nat i"] nat_decimal_nonempty [of "nat i"]
      by (cases "nat_decimal (nat i)") (simp_all add: FormatInt_def)
  qed (use that in \<open>simp add: FormatInt_def\<close>)
  then have c: "\<not> is_ws c" "c \<noteq> CHR ''{''" "c \<noteq> CHR ''[''" "c \<noteq> quote_ch" "c \<noteq> CHR ''t''" "c \<noteq> CHR ''f''" "c \<noteq> CHR ''n''"
    by (auto simp: is_ws_def is_digit_def)
  have "parse_value m d (FormatInt i @ rest) = Some (JNum (FormatInt i), rest)" if le: "length (FormatInt i) \<le> m" and e: "ends rest" for m d rest
  proof -
    obtain m' where "m = Suc m'"
      using le ct by (cases m) auto
    moreover have "scan_number (c # t @ rest) = Some (FormatInt i, rest)"
      using scan_number_ends [OF e, of i] ct by simp
    ultimately show ?thesis
      using c ct by (simp add: skip_ws_def)
  qed
  with c ct show ?thesis
    by (simp add: writes_def)
qed

abbreviation member_text :: "bool \<Rightarrow> string \<times> bytes \<Rightarrow> bytes" where
  "member_text html \<equiv> (\<lambda>(k, v). json_quote html k @ '':'' @ v)"

abbreviation member_key :: "bool \<Rightarrow> string \<times> bytes \<Rightarrow> string" where
  "member_key html \<equiv> (\<lambda>(k, v). unquote (quote_body html k))"

lemma ends_simps [simp]: "ends (CHR '','' # t)" "ends (CHR ''}'' # t)" "ends []"
  by (simp_all add: ends_def)

lemma skip_ws_token: "\<not> is_ws c \<Longrightarrow> skip_ws (c # t) = c # t"
  by (simp add: skip_ws_def)

lemma token_not_ws [simp]: "\<not> is_ws quote_ch" "\<not> is_ws (CHR '','')" "\<not> is_ws (CHR ''}'')" "\<not> is_ws (CHR '':'')" "\<not> is_ws (CHR ''{'')"
  by (simp_all add: is_ws_def)

lemma parse_members_writes:
  assumes "list_all2 (\<lambda>(k, v). writes D v) fs js" "fs \<noteq> []" "length (Join '','' (map (member_text html) fs)) < m" "d + D \<le> maxNestingDepth"
  shows "parse_members m d (Join '','' (map (member_text html) fs) @ ''}'' @ rest) = Some (zip (map (member_key html) fs) js, rest)"
  using assms(1-3)
proof (induction fs arbitrary: js m)
  case Nil
  then show ?case by simp
next
  case (Cons f fs)
  obtain k v where f: "f = (k, v)" by (cases f)
  obtain j js' where js: "js = j # js'" "writes D v j" "list_all2 (\<lambda>(k, v). writes D v) fs js'"
    using Cons.prems(1) by (auto simp: f list_all2_Cons1)
  obtain n where m: "m = Suc n"
    using Cons.prems(3) by (cases m) auto
  have step: "parse_members m d (json_quote html k @ '':'' @ v @ u) =
      (case parse_value n d (v @ u) of None \<Rightarrow> None
       | Some (v, t) \<Rightarrow> (case skip_ws t of [] \<Rightarrow> None
           | c # u \<Rightarrow> if c = CHR ''}'' then Some ([(unquote (quote_body html k), v)], u)
                     else if c = CHR '','' then map_option (\<lambda>(ms, r). ((unquote (quote_body html k), v) # ms, r)) (parse_members n d u)
                     else None))" for u
    by (simp add: m json_quote_def skip_ws_token scan_string_quote)
  show ?case
  proof (cases fs)
    case Nil
    have "parse_value n d (v @ ''}'' @ rest) = Some (j, ''}'' @ rest)"
      using Cons.prems(3) by (intro writesD [OF js(2) _ assms(4)]) (auto simp: Nil f m json_quote_def)
    then show ?thesis
      using js(1,3) step [of "''}'' @ rest"] by (simp add: Nil f skip_ws_token)
  next
    case (Cons g gs)
    let ?tail = "Join '','' (map (member_text html) fs)"
    have whole: "Join '','' (map (member_text html) (f # fs)) = json_quote html k @ '':'' @ v @ '','' @ ?tail"
      by (simp add: f Cons)
    have len: "length v \<le> n" "length ?tail < n"
      using Cons.prems(3) unfolding whole m by (simp_all add: json_quote_def)
    have "parse_value n d (v @ '','' @ ?tail @ ''}'' @ rest) = Some (j, '','' @ ?tail @ ''}'' @ rest)"
      by (rule writesD [OF js(2) len(1) assms(4)]) simp
    moreover have "parse_members n d (?tail @ ''}'' @ rest) = Some (zip (map (member_key html) fs) js', rest)"
      by (rule Cons.IH [OF js(3) _ len(2)]) (simp add: Cons)
    ultimately show ?thesis
      using step [of "'','' @ ?tail @ ''}'' @ rest"] unfolding whole by (simp add: f js(1) skip_ws_token)
  qed
qed

lemma writes_struct:
  assumes "list_all2 (\<lambda>(k, v). writes D v) fs js" "fs \<noteq> []"
  shows "writes (Suc D) (print_struct html fs) (JObj (zip (map (member_key html) fs) js))"
proof -
  let ?body = "Join '','' (map (member_text html) fs)"
  have "parse_value m d (print_struct html fs @ rest) = Some (JObj (zip (map (member_key html) fs) js), rest)"
    if le: "length (print_struct html fs) \<le> m" and d: "d + Suc D \<le> maxNestingDepth" for m d rest
  proof -
    obtain n where m: "m = Suc n"
      using le by (cases m) (auto simp: print_struct_def)
    have "\<exists>t. ?body @ ''}'' @ rest = quote_ch # t"
      using assms(2) by (cases fs; cases "tl fs") (auto simp: json_quote_def)
    then have "strip_prefix ''}'' (skip_ws (?body @ ''}'' @ rest)) = None"
      by (auto simp: strip_prefix_def skip_ws_token)
    moreover have "length ?body < n"
      using le by (simp add: m print_struct_def)
    then have "parse_members n (Suc d) (?body @ ''}'' @ rest) = Some (zip (map (member_key html) fs) js, rest)"
      using d by (intro parse_members_writes [OF assms]) auto
    ultimately show ?thesis
      using d by (simp add: m print_struct_def skip_ws_token)
  qed
  then show ?thesis
    by (simp add: writes_def print_struct_def)
qed

section \<open>Reading texts\<close>

lemma value_field_writes:
  assumes "writes D v j" "D \<le> maxNestingDepth"
  shows "value_field f v s = f j s"
  using writesD [OF assms(1), of "parse_fuel v" 0 "[]"] assms(2) by (simp add: value_field_def parse_fuel_def)

lemma raw_members_writes:
  assumes "list_all2 (\<lambda>(k, v). writes D v) fs js" "fs \<noteq> []" "D \<le> maxNestingDepth" "skip_ws rest = []"
  shows "raw_members (Join '','' (map (member_text html) fs) @ ''}'' @ rest) = map (\<lambda>(k, v). (unquote (quote_body html k), v)) fs"
  using assms(1,2)
proof (induction fs arbitrary: js)
  case Nil
  then show ?case by simp
next
  case (Cons f fs)
  obtain k v where f: "f = (k, v)" by (cases f)
  obtain j js' where js: "js = j # js'" "writes D v j" "list_all2 (\<lambda>(k, v). writes D v) fs js'"
    using Cons.prems(1) by (auto simp: f list_all2_Cons1)
  have v: "skip_ws (v @ u) = v @ u" for u
    using js(2) by (cases v) (auto simp: writes_def skip_ws_token)
  have step: "raw_members (json_quote html k @ '':'' @ v @ u) = (unquote (quote_body html k), v) # raw_members (drop 1 (skip_ws u))"
    if "ends u" for u
  proof -
    have "parse_value (parse_fuel (v @ u)) 0 (v @ u) = Some (j, u)"
      using assms(3) by (intro writesD [OF js(2) _ _ that]) (auto simp: parse_fuel_def)
    then show ?thesis
      by (subst raw_members.simps) (simp add: json_quote_def skip_ws_token scan_string_quote v Let_def)
  qed
  show ?case
  proof (cases fs)
    case Nil
    have "raw_members rest = []"
      using assms(4) by (subst raw_members.simps) simp
    then show ?thesis
      using step [of "''}'' @ rest"] by (simp add: Nil f skip_ws_token)
  next
    case (Cons g gs)
    have "raw_members (Join '','' (map (member_text html) fs) @ ''}'' @ rest) = map (\<lambda>(k, v). (unquote (quote_body html k), v)) fs"
      by (rule Cons.IH [OF js(3)]) (simp add: Cons)
    then show ?thesis
      using step [of "'','' @ Join '','' (map (member_text html) fs) @ ''}'' @ rest"] by (simp add: f Cons skip_ws_token)
  qed
qed

lemma decode_raw_struct:
  assumes "list_all2 (\<lambda>(k, v). writes D v) fs js" "fs \<noteq> []" "D < maxNestingDepth" "rest = [] \<or> rest = [CHR 0x0A]"
  shows "decode_raw_body tbl s0 (print_struct html fs @ rest) =
    (case foldl (assign_raw tbl) (s0, True) (map (\<lambda>(k, v). (unquote (quote_body html k), v)) fs) of
       (s, ok) \<Rightarrow> (s, if ok then None else Some BadJSON))"
proof -
  have rest: "skip_ws rest = []" "ends rest"
    using assms(4) by (auto simp: skip_ws_def is_ws_def ends_def)
  have parse: "parse_value (parse_fuel (print_struct html fs @ rest)) 0 (print_struct html fs @ rest) =
      Some (JObj (zip (map (member_key html) fs) js), rest)"
    using assms(3) by (intro writesD [OF writes_struct [OF assms(1,2)] _ _ rest(2)]) (auto simp: parse_fuel_def)
  have body: "skip_ws (print_struct html fs @ rest) = CHR ''{'' # Join '','' (map (member_text html) fs) @ ''}'' @ rest"
    by (simp add: print_struct_def skip_ws_token)
  have "raw_members (Join '','' (map (member_text html) fs) @ ''}'' @ rest) = map (\<lambda>(k, v). (unquote (quote_body html k), v)) fs"
    using raw_members_writes [OF assms(1,2) _ rest(1)] assms(3) by simp
  with parse body show ?thesis
    by (simp add: decode_raw_body_def decode_raw_def)
qed

end
