(* ===== verification/RemoteCalls.thy ===== *)
theory RemoteCalls
  imports Sdk Encoding
begin

text \<open>
  A call of the Go client against the HTTP endpoints of the governance operations: the request body and headers the
  client writes are what the handler reads, and the JSON answer or problem the handler writes is what the client
  decodes, so that a call whose attempt arrives returns what \<^verbatim>\<open>Execute\<close> returned at the server.
\<close>

section \<open>Texts and times on the wire\<close>

lemma utf8_ascii: "list_all (\<lambda>c. byte c < 0x80) s \<Longrightarrow> utf8_valid s"
  by (induction s) (auto simp: utf8_valid.simps DecodeRune_def)

lemma unquote_key: "list_all (\<lambda>c. byte c < 0x80) k \<Longrightarrow> unquote (quote_body html k) = k"
  by (simp add: unquote_quote_body utf8_ascii)

lemma plain_digit: "is_digit c \<Longrightarrow> plain c"
  by (auto simp: is_digit_def plain_def)

lemma plain_zero: "plain (CHR ''0'')" and plain_dot: "plain (CHR ''.'')"
  by (simp_all add: plain_def)

lemma plain_zero_pad: "list_all plain (zero_pad w n)"
proof -
  have "list_all plain (nat_decimal (nat n))"
    by (rule list.pred_mono_strong [OF nat_decimal_digits]) (rule plain_digit)
  moreover have "list_all plain (replicate k (CHR ''0''))" for k
    using plain_zero by (simp add: list_all_iff)
  ultimately show ?thesis
    by (simp add: zero_pad_def Let_def)
qed

lemma plain_fraction: "list_all plain (fraction n)"
proof -
  have "list_all plain (rev (dropWhile P (rev (zero_pad 9 n))))" for P
    using plain_zero_pad [of 9 n] by (auto simp: list_all_iff dest: set_dropWhileD)
  then show ?thesis
    using plain_dot by (simp add: fraction_def)
qed

lemma plain_RFC3339: "list_all plain (RFC3339Nano off t)"
proof -
  have "plain c" if "c \<in> set ''-:TZ+''" for c
    using that by (auto simp: plain_def)
  then show ?thesis
    by (auto simp: RFC3339Nano_def Let_def zone_suffix_def plain_zero_pad plain_fraction split: prod.split)
qed

lemma writes_time:
  assumes "MarshalTime zone t = Inr b"
  shows "\<exists>j. writes 0 b j"
proof -
  have "b = quote_ch # RFC3339Nano (zone t) t @ [quote_ch]"
    using assms by (auto simp: MarshalTime_def Let_def split: if_splits)
  then show ?thesis
    using writes_plain_text [OF plain_RFC3339] by blast
qed

lemma time_field_MarshalTime:
  assumes "MarshalTime zone t = Inr b" "60 dvd zone t"
  shows "time_field put b s = Some (put t s)"
  using time_text_MarshalTime [OF assms] by (simp add: time_field_def)

text \<open>The fields of a struct, read from the texts that were written.\<close>

lemma text_written: "utf8_valid x \<Longrightarrow> value_field (string_field put) (json_quote html x) s = Some (put x s)"
  by (simp add: value_field_writes [OF writes_quote] string_field_def unquote_quote_body)

lemma flag_written: "value_field (flag_field put) (bool_field b) s = Some (put b s)"
  by (simp add: value_field_writes [OF writes_bool] flag_field_def)

lemma number_written: "- (2 ^ 63) \<le> i \<Longrightarrow> i < 2 ^ 63 \<Longrightarrow> value_field (int_field put) (FormatInt i) s = Some (put i s)"
  by (simp add: value_field_writes [OF writes_int] int_field_def ParseInt_FormatInt)

section \<open>The answer of an operation\<close>

definition state_text :: "governanceState \<Rightarrow> bool" where
  "state_text g \<longleftrightarrow> utf8_valid (gv_Lifecycle g) \<and> utf8_valid (gv_RetentionClass g) \<and> utf8_valid (gv_Authority g)"

text \<open>An answer that JSON can carry: its texts are valid UTF-8 and its version fits 64 bits.\<close>

definition transportable :: "governanceResponse \<Rightarrow> bool" where
  "transportable g \<longleftrightarrow> utf8_valid (gp_Operation g) \<and> utf8_valid (gp_CfgID g) \<and> utf8_valid (gp_Actor g) \<and>
     - (2 ^ 63) \<le> gp_RowVersion g \<and> gp_RowVersion g < 2 ^ 63 \<and>
     (case gp_State g of None \<Rightarrow> True | Some st \<Rightarrow> state_text st) \<and>
     utf8_valid (ga_OperationID (gp_Audit g)) \<and> utf8_valid (ga_ChainID (gp_Audit g)) \<and> utf8_valid (gp_SuccessorID g)"

lemma writes_state:
  assumes "state_text st"
  shows "writes 1 (governanceState_json st)
    (JObj [(''lifecycle'', JStr (gv_Lifecycle st)), (''retention_class'', JStr (gv_RetentionClass st)), (''authority'', JStr (gv_Authority st))])"
  using assms writes_struct [of 0 "[(''lifecycle'', json_quote True (gv_Lifecycle st)), (''retention_class'', json_quote True (gv_RetentionClass st)),
      (''authority'', json_quote True (gv_Authority st))]"
      "[JStr (gv_Lifecycle st), JStr (gv_RetentionClass st), JStr (gv_Authority st)]" True]
    writes_quote [of True "gv_Lifecycle st"] writes_quote [of True "gv_RetentionClass st"] writes_quote [of True "gv_Authority st"]
  by (simp add: governanceState_json_def state_text_def unquote_quote_body unquote_key)

lemma writes_audit:
  assumes "utf8_valid (ga_OperationID a)" "utf8_valid (ga_ChainID a)"
  shows "writes 1 (print_struct True [(''operation_id'', json_quote True (ga_OperationID a)),
      (''chain_id'', json_quote True (ga_ChainID a)), (''recorded'', bool_field (ga_Recorded a))])
    (JObj [(''operation_id'', JStr (ga_OperationID a)), (''chain_id'', JStr (ga_ChainID a)), (''recorded'', JBool (ga_Recorded a))])"
  using assms writes_struct [of 0 "[(''operation_id'', json_quote True (ga_OperationID a)),
      (''chain_id'', json_quote True (ga_ChainID a)), (''recorded'', bool_field (ga_Recorded a))]"
      "[JStr (ga_OperationID a), JStr (ga_ChainID a), JBool (ga_Recorded a)]" True]
    writes_quote [of True "ga_OperationID a"] writes_quote [of True "ga_ChainID a"] writes_bool [of "ga_Recorded a"]
  by (simp add: unquote_quote_body unquote_key)

definition head_members :: "governanceResponse \<Rightarrow> bytes \<Rightarrow> (string \<times> bytes) list" where
  "head_members g occurred = [(''operation'', json_quote True (gp_Operation g)), (''cfg_id'', json_quote True (gp_CfgID g)),
     (''actor'', json_quote True (gp_Actor g)), (''occurred_at'', occurred), (''removed'', bool_field (gp_Removed g)),
     (''row_version'', FormatInt (gp_RowVersion g))]"

definition state_members :: "governanceResponse \<Rightarrow> (string \<times> bytes) list" where
  "state_members g = (case gp_State g of None \<Rightarrow> [] | Some st \<Rightarrow> [(''state'', governanceState_json st)])"

definition audit_members :: "governanceResponse \<Rightarrow> (string \<times> bytes) list" where
  "audit_members g = [(''audit'', print_struct True
     [(''operation_id'', json_quote True (ga_OperationID (gp_Audit g))),
      (''chain_id'', json_quote True (ga_ChainID (gp_Audit g))), (''recorded'', bool_field (ga_Recorded (gp_Audit g)))])]"

definition answer_members :: "governanceResponse \<Rightarrow> bytes \<Rightarrow> (string \<times> bytes) list" where
  "answer_members g occurred = head_members g occurred @ state_members g @ audit_members g @ omitempty ''successor_id'' (gp_SuccessorID g)"

lemma governanceResponse_members:
  assumes "governanceResponse_json zone g = Inr b"
  obtains occurred where "MarshalTime zone (gp_OccurredAt g) = Inr occurred" "b = print_struct True (answer_members g occurred)"
  using assms by (auto simp: governanceResponse_json_def result_bind_def answer_members_def head_members_def state_members_def
      audit_members_def split: sum.splits)

abbreviation texts_written :: "(string \<times> bytes) list \<Rightarrow> bool" where
  "texts_written fs \<equiv> \<exists>js. list_all2 (\<lambda>(k, v). writes 1 v) fs js"

lemma texts_written_append: "texts_written xs \<Longrightarrow> texts_written ys \<Longrightarrow> texts_written (xs @ ys)"
  by (meson list_all2_appendI)

lemma texts_written_Cons: "writes D v j \<Longrightarrow> D \<le> 1 \<Longrightarrow> texts_written fs \<Longrightarrow> texts_written ((k, v) # fs)"
  by (metis (no_types, lifting) case_prod_conv list_all2_Cons writes_mono)

lemma texts_written_Nil: "texts_written []"
  by auto

lemma answer_written:
  assumes "transportable g" "MarshalTime zone (gp_OccurredAt g) = Inr occurred"
  shows "texts_written (answer_members g occurred)"
proof -
  obtain j where j: "writes 0 occurred j"
    using writes_time [OF assms(2)] by blast
  have "texts_written (head_members g occurred)"
    unfolding head_members_def
    by (intro texts_written_Cons texts_written_Nil) (rule writes_quote writes_bool writes_int j | rule le0)+
  moreover have "texts_written (state_members g)"
    using assms(1) writes_state
    by (cases "gp_State g") (auto simp: state_members_def transportable_def intro!: texts_written_Cons [OF _ _ texts_written_Nil])
  moreover have "texts_written (audit_members g)"
    using assms(1) writes_audit [of "gp_Audit g"]
    by (auto simp: audit_members_def transportable_def intro!: texts_written_Cons [OF _ _ texts_written_Nil])
  moreover have "texts_written (omitempty k v)" for k v
    using texts_written_Cons [OF writes_quote le0 texts_written_Nil] by (simp add: omitempty_def)
  ultimately show ?thesis
    unfolding answer_members_def by (intro texts_written_append)
qed

lemma answer_keys: "map (\<lambda>(k, v). (unquote (quote_body True k), v)) (answer_members g occurred) = answer_members g occurred"
  by (auto simp: answer_members_def head_members_def state_members_def audit_members_def omitempty_def unquote_key split: option.split)

lemma state_read:
  assumes "state_text st" "gp_State q = None"
  shows "raw_pointer_field (\<lambda>g raw. value_field (struct_field GovernanceState_fields (\<lambda>x. x) (\<lambda>x _. x)) raw g)
        zero_state gp_State (\<lambda>x q. q\<lparr> gp_State := x \<rparr>) (governanceState_json st) q = Some (q\<lparr> gp_State := Some st \<rparr>)"
proof -
  have "governanceState_json st \<noteq> ''null''"
    by (simp add: governanceState_json_def print_struct_def)
  moreover have "value_field (struct_field GovernanceState_fields (\<lambda>x. x) (\<lambda>x _. x)) (governanceState_json st) zero_state = Some st"
    by (simp add: value_field_writes [OF writes_state [OF assms(1)]] struct_field_def decode_struct_def
        assign_member_def find_field_def GovernanceState_fields_def string_field_def zero_state_def)
  ultimately show ?thesis
    using assms(2) by (simp add: raw_pointer_field_def)
qed

lemma audit_read:
  assumes "utf8_valid (ga_OperationID a)" "utf8_valid (ga_ChainID a)"
  shows "value_field (struct_field AuditMeta_fields gp_Audit (\<lambda>x q. q\<lparr> gp_Audit := x \<rparr>))
      (print_struct True [(''operation_id'', json_quote True (ga_OperationID a)),
        (''chain_id'', json_quote True (ga_ChainID a)), (''recorded'', bool_field (ga_Recorded a))]) q = Some (q\<lparr> gp_Audit := a \<rparr>)"
  by (simp add: value_field_writes [OF writes_audit [OF assms]] struct_field_def decode_struct_def
      assign_member_def find_field_def AuditMeta_fields_def string_field_def flag_field_def)

lemma head_read:
  assumes "transportable g" "MarshalTime zone (gp_OccurredAt g) = Inr occurred" "60 dvd zone (gp_OccurredAt g)"
  shows "foldl (assign_raw GovernanceResult_fields) (zero_GovernanceResult, True) (head_members g occurred) =
    (zero_GovernanceResult\<lparr> gp_Operation := gp_Operation g, gp_CfgID := gp_CfgID g, gp_Actor := gp_Actor g,
       gp_OccurredAt := gp_OccurredAt g, gp_Removed := gp_Removed g, gp_RowVersion := gp_RowVersion g \<rparr>, True)"
  using assms(1)
  by (simp add: head_members_def assign_raw_def find_raw_def GovernanceResult_fields_def transportable_def text_written flag_written
      number_written time_field_MarshalTime [OF assms(2,3)])

lemma state_members_read:
  assumes "transportable g" "gp_State q = None"
  shows "foldl (assign_raw GovernanceResult_fields) (q, True) (state_members g) = (q\<lparr> gp_State := gp_State g \<rparr>, True)"
proof (cases "gp_State g")
  case None
  then show ?thesis using assms(2) by (simp add: state_members_def)
next
  case (Some st)
  with assms have "state_text st" by (simp add: transportable_def)
  with Some state_read [OF this assms(2)] show ?thesis
    by (simp add: state_members_def assign_raw_def find_raw_def GovernanceResult_fields_def)
qed

lemma audit_members_read:
  assumes "transportable g"
  shows "foldl (assign_raw GovernanceResult_fields) (q, True) (audit_members g) = (q\<lparr> gp_Audit := gp_Audit g \<rparr>, True)"
  using assms audit_read [of "gp_Audit g" q]
  by (simp add: audit_members_def transportable_def assign_raw_def find_raw_def GovernanceResult_fields_def)

lemma successor_read:
  assumes "transportable g" "gp_SuccessorID q = []"
  shows "foldl (assign_raw GovernanceResult_fields) (q, True) (omitempty ''successor_id'' (gp_SuccessorID g)) =
    (q\<lparr> gp_SuccessorID := gp_SuccessorID g \<rparr>, True)"
  using assms
  by (simp add: omitempty_def transportable_def assign_raw_def find_raw_def GovernanceResult_fields_def text_written)

lemma answer_read:
  assumes "transportable g" "MarshalTime zone (gp_OccurredAt g) = Inr occurred" "60 dvd zone (gp_OccurredAt g)"
  shows "foldl (assign_raw GovernanceResult_fields) (zero_GovernanceResult, True) (answer_members g occurred) = (g, True)"
proof -
  let ?q = "zero_GovernanceResult\<lparr> gp_Operation := gp_Operation g, gp_CfgID := gp_CfgID g, gp_Actor := gp_Actor g,
       gp_OccurredAt := gp_OccurredAt g, gp_Removed := gp_Removed g, gp_RowVersion := gp_RowVersion g \<rparr>"
  have "gp_State ?q = None" "gp_SuccessorID (?q\<lparr> gp_State := gp_State g, gp_Audit := gp_Audit g \<rparr>) = []"
    by (simp_all add: zero_GovernanceResult_def)
  then show ?thesis
    by (simp only: answer_members_def foldl_append head_read [OF assms] state_members_read [OF assms(1)]
        audit_members_read [OF assms(1)] successor_read [OF assms(1)]) simp
qed

lemma read_written:
  assumes "governanceResponse_json zone g = Inr b" "transportable g" "60 dvd zone (gp_OccurredAt g)"
  shows "read_GovernanceResult (b @ [CHR 0x0A]) = Some g"
proof -
  obtain occurred where o: "MarshalTime zone (gp_OccurredAt g) = Inr occurred" "b = print_struct True (answer_members g occurred)"
    using governanceResponse_members [OF assms(1)] by blast
  obtain js where js: "list_all2 (\<lambda>(k, v). writes 1 v) (answer_members g occurred) js"
    using answer_written [OF assms(2) o(1)] by blast
  have "answer_members g occurred \<noteq> []"
    by (simp add: answer_members_def head_members_def)
  from decode_raw_struct [OF js this, of "[CHR 0x0A]" GovernanceResult_fields zero_GovernanceResult True] show ?thesis
    by (simp add: read_GovernanceResult_def o(2) answer_keys answer_read [OF assms(2) o(1) assms(3)])
qed

section \<open>Problems\<close>

definition problem_members :: "string \<Rightarrow> int \<Rightarrow> string \<Rightarrow> string \<Rightarrow> (string \<times> bytes) list" where
  "problem_members title status detail inst =
     [(''type'', json_quote True ''about:blank''), (''title'', json_quote True title), (''status'', FormatInt status)] @
      omitempty ''detail'' detail @ omitempty ''instance'' inst"

definition problem_values :: "string \<Rightarrow> int \<Rightarrow> string \<Rightarrow> string \<Rightarrow> json list" where
  "problem_values title status detail inst =
     [JStr ''about:blank'', JStr title, JNum (FormatInt status)] @
      (if detail = [] then [] else [JStr detail]) @ (if inst = [] then [] else [JStr inst])"

lemma writes_text: "utf8_valid x \<Longrightarrow> writes 0 (json_quote html x) (JStr x)"
  using writes_quote [of html x] by (simp add: unquote_quote_body)

lemma problem_written:
  assumes "utf8_valid title" "utf8_valid detail" "utf8_valid inst"
  shows "list_all2 (\<lambda>(k, v). writes 0 v) (problem_members title status detail inst) (problem_values title status detail inst)"
  using writes_int [of status] assms utf8_ascii [of "''about:blank''"]
  by (simp add: problem_members_def problem_values_def omitempty_def writes_text)

lemma decode_body_writes:
  assumes "writes D v j" "D \<le> maxNestingDepth" "rest = [] \<or> rest = [CHR 0x0A]"
  shows "decode_body fs s0 (v @ rest) = (case decode_struct fs j s0 of (s, ok) \<Rightarrow> (s, if ok then None else Some BadJSON))"
proof -
  have "skip_ws (v @ rest) \<noteq> []"
    using assms(1) by (cases v) (auto simp: writes_def skip_ws_token)
  moreover have "parse_value (parse_fuel (v @ rest)) 0 (v @ rest) = Some (j, rest)"
    using assms(2,3) by (intro writesD [OF assms(1)]) (auto simp: parse_fuel_def ends_def)
  ultimately show ?thesis
    by (simp add: decode_body_def)
qed

lemma read_problem:
  assumes "utf8_valid title" "utf8_valid detail" "utf8_valid (RequestIDFrom r)" "title \<noteq> []"
  shows "parseProblem (writeProblem r status title detail) = APIError status title detail (RequestIDFrom r)"
proof -
  let ?i = "RequestIDFrom r"
  have "problem_members title status detail ?i \<noteq> []"
    by (simp add: problem_members_def)
  note w = writes_struct [OF problem_written [OF assms(1-3), of status] this, of True]
  have body: "hs_Body (writeProblem r status title detail) = print_struct True (problem_members title status detail ?i) @ [CHR 0x0A]"
    "hs_Status (writeProblem r status title detail) = status"
    by (simp_all add: writeProblem_def encode_line_def Problem_json_def problem_members_def)
  let ?fs = "[(''title'', string_field (\<lambda>x q. q\<lparr> pb_Title := x \<rparr>)),
      (''detail'', string_field (\<lambda>x q. q\<lparr> pb_Detail := x \<rparr>)), (''instance'', string_field (\<lambda>x q. q\<lparr> pb_Instance := x \<rparr>))]"
  let ?zero = "\<lparr> pb_Title = [], pb_Detail = [], pb_Instance = [] \<rparr>"
  have "decode_struct ?fs (JObj (zip (map (member_key True) (problem_members title status detail ?i)) (problem_values title status detail ?i))) ?zero =
      (\<lparr> pb_Title = title, pb_Detail = detail, pb_Instance = ?i \<rparr>, True)"
    by (simp add: problem_members_def problem_values_def omitempty_def unquote_key decode_struct_def assign_member_def find_field_def
        string_field_def)
  then have "fst (decode_body ?fs ?zero (hs_Body (writeProblem r status title detail))) = \<lparr> pb_Title = title, pb_Detail = detail, pb_Instance = ?i \<rparr>"
    using decode_body_writes [OF w, of "[CHR 0x0A]" ?fs ?zero] by (simp add: body(1))
  then show ?thesis
    using assms(4) by (simp add: parseProblem_def body(2))
qed

section \<open>The request of a call\<close>

definition sdk_body :: "sdk_operation \<Rightarrow> bytes option" where
  "sdk_body c = (case c of
       Archive x \<Rightarrow> Some (smap_json [(''target_retention'', x)])
     | Extend x \<Rightarrow> Some (smap_json [(''successor_id'', x)])
     | _ \<Rightarrow> None)"

definition sdk_target :: "sdk_operation \<Rightarrow> string" where
  "sdk_target c = (case c of Archive x \<Rightarrow> x | _ \<Rightarrow> [])"

definition sdk_successor :: "sdk_operation \<Rightarrow> string" where
  "sdk_successor c = (case c of Extend x \<Rightarrow> x | _ \<Rightarrow> [])"

text \<open>The command a call stands for.\<close>

definition sdk_command :: "Claims \<Rightarrow> sdk_operation \<Rightarrow> string \<Rightarrow> WriteOptions \<Rightarrow> Command" where
  "sdk_command claims c i opts =
     \<lparr> cm_Operation = sdk_op c, cm_CfgID = i, cm_Actor = cl_Subject claims, cm_OperationID = wo_OperationID opts,
       cm_ExpectedRowVersion = (if 0 < wo_ExpectedRowVersion opts then wo_ExpectedRowVersion opts else 0),
       cm_TargetRetention = sdk_target c, cm_SuccessorID = sdk_successor c \<rparr>"

text \<open>A call the client sends: it names its operation, its version is an \<^verbatim>\<open>int64\<close>, and the argument it needs is a non-empty UTF-8 text.\<close>

definition sendable :: "sdk_operation \<Rightarrow> WriteOptions \<Rightarrow> bool" where
  "sendable c opts \<longleftrightarrow> wo_OperationID opts \<noteq> [] \<and> wo_ExpectedRowVersion opts < 2 ^ 63 \<and>
     (case c of Archive x \<Rightarrow> x \<noteq> [] \<and> utf8_valid x | Extend x \<Rightarrow> x \<noteq> [] \<and> utf8_valid x | _ \<Rightarrow> True)"

lemma smap_json_single: "smap_json [(k, v)] = print_struct True [(k, json_quote True v)]"
  by (simp add: smap_json_def print_struct_def json_quote_def)

lemma writes_single:
  assumes "utf8_valid v" "list_all (\<lambda>c. byte c < 0x80) k"
  shows "writes 1 (smap_json [(k, v)]) (JObj [(k, JStr v)])"
  using writes_struct [of 0 "[(k, json_quote True v)]" "[JStr v]" True] writes_text [OF assms(1)] unquote_key [OF assms(2)]
  by (simp add: smap_json_single)

lemma sent_body_read:
  assumes "sendable c opts"
  shows "\<exists>er. decode_body governanceRequest_fields zero_governanceRequest (case sdk_body c of None \<Rightarrow> [] | Some b \<Rightarrow> b) =
    (\<lparr> gr_TargetRetention = sdk_target c, gr_SuccessorID = sdk_successor c \<rparr>, er) \<and> er \<noteq> Some BadJSON"
proof -
  have none: "decode_body governanceRequest_fields zero_governanceRequest [] = (zero_governanceRequest, Some EOF)"
    by (simp add: decode_body_def skip_ws_def)
  have one: "decode_body governanceRequest_fields zero_governanceRequest (smap_json [(k, v)]) =
      (case k = ''target_retention'' of True \<Rightarrow> \<lparr> gr_TargetRetention = v, gr_SuccessorID = [] \<rparr> | False \<Rightarrow> \<lparr> gr_TargetRetention = [], gr_SuccessorID = v \<rparr>, None)"
    if "utf8_valid v" "k = ''target_retention'' \<or> k = ''successor_id''" for k v
  proof -
    have "list_all (\<lambda>c. byte c < 0x80) k"
      using that(2) by auto
    from decode_body_writes [OF writes_single [OF that(1) this], of "[]" governanceRequest_fields zero_governanceRequest] that(2) show ?thesis
      by (auto simp: decode_struct_def assign_member_def find_field_def governanceRequest_fields_def string_field_def zero_governanceRequest_def)
  qed
  show ?thesis
    using assms by (cases c) (auto simp: sendable_def sdk_body_def sdk_target_def sdk_successor_def
        none [unfolded zero_governanceRequest_def] one [unfolded zero_governanceRequest_def] zero_governanceRequest_def)
qed

lemma sent_match_id:
  "mget (attempt_headers cfg reqID (sent_headers opts) body) ''If-Match'' =
     (if 0 < wo_ExpectedRowVersion opts then etag (wo_ExpectedRowVersion opts) else [])"
  "mget (attempt_headers cfg reqID (sent_headers opts) body) ''X-Request-ID'' = reqID"
proof -
  have "etag v \<noteq> []" for v
    by (simp add: etag_def)
  then show "mget (attempt_headers cfg reqID (sent_headers opts) body) ''If-Match'' =
       (if 0 < wo_ExpectedRowVersion opts then etag (wo_ExpectedRowVersion opts) else [])"
    "mget (attempt_headers cfg reqID (sent_headers opts) body) ''X-Request-ID'' = reqID"
    by (simp_all add: attempt_headers_def sent_headers_def Let_def mget_put) (simp_all add: mget_def)
qed

lemma server_reads_request:
  assumes "sendable c opts"
  shows "governance_command (served claims i (sdk_attempt cfg meth path (sent_headers opts) (sdk_body c) reqID)) (sdk_op c) =
    Inr (sdk_command claims c i opts)"
proof -
  let ?r = "served claims i (sdk_attempt cfg meth path (sent_headers opts) (sdk_body c) reqID)"
  have r: "ClaimsFrom ?r = Some claims" "URLParam ?r ''id'' = i" "Header_Get ?r ''Idempotency-Key'' = wo_OperationID opts"
    "Header_Get ?r ''If-Match'' = (if 0 < wo_ExpectedRowVersion opts then etag (wo_ExpectedRowVersion opts) else [])"
    "rq_Body ?r = (case sdk_body c of None \<Rightarrow> [] | Some b \<Rightarrow> b)"
    using sent_key sent_match_id by (simp_all add: served_def ClaimsFrom_def mget_def sdk_attempt_def)
  obtain er where b: "decode_body governanceRequest_fields zero_governanceRequest (case sdk_body c of None \<Rightarrow> [] | Some b \<Rightarrow> b) =
      (\<lparr> gr_TargetRetention = sdk_target c, gr_SuccessorID = sdk_successor c \<rparr>, er)" "er \<noteq> Some BadJSON"
    using sent_body_read [OF assms] by blast
  have ops: "sdk_op c = OpArchiving \<Longrightarrow> sdk_target c \<noteq> []" "sdk_op c = OpExtension \<Longrightarrow> sdk_successor c \<noteq> []"
    using assms by (auto simp: sdk_op_def sdk_target_def sdk_successor_def sendable_def split: sdk_operation.splits)
  have tag: "parseETag (etag v) = Some v" "etag v \<noteq> []" if "0 < v" "v < 2 ^ 63" for v
    using that parseETag_etag [of v] by (simp_all add: etag_def)
  show ?thesis
    using assms b(2) ops tag [of "wo_ExpectedRowVersion opts"]
    by (cases er rule: option.exhaust; cases "the er")
      (auto simp: governance_command_def r b(1) Let_def result_bind_def sdk_command_def sendable_def)
qed

section \<open>A remote call\<close>

text \<open>How the transport shows an error of the engine: status, title and detail.\<close>

definition governance_problem :: "err \<Rightarrow> int \<times> string \<times> string" where
  "governance_problem er = (case er of
       TransitionError op from reason \<Rightarrow> (409, ''conflict'', err_Error er)
     | ErrHasDependents \<Rightarrow> (409, ''conflict'', ''object has dependents'')
     | ErrUnsupportedOperation op \<Rightarrow> (422, ''unsupported operation'', err_Error er)
     | ErrNotFound \<Rightarrow> (404, ''not found'', err_Error er)
     | ErrConflict \<Rightarrow> (409, ''conflict'', ''artifact/version already exists'')
     | ErrVersionMismatch \<Rightarrow> (412, ''precondition failed'', ''row version mismatch'')
     | ValidationError f m \<Rightarrow> (422, ''validation failed'', err_Error er)
     | _ \<Rightarrow> (500, ''internal error'', ''unexpected error''))"

lemma mapGovernanceError_problem:
  assumes "governance_problem er = (status, title, detail)"
  shows "mapGovernanceError r er = writeProblem r status title detail" "400 \<le> status" "status \<noteq> 429" "utf8_valid title" "title \<noteq> []"
  using assms by (cases er; auto simp: governance_problem_def mapGovernanceError_def mapError_def intro!: utf8_ascii)+

lemma decode_refusal:
  assumes "governance_problem er = (status, title, detail)" "utf8_valid detail" "utf8_valid (RequestIDFrom r)"
  shows "decode_response read zero (mapGovernanceError r er) = Inl (APIError status title detail (RequestIDFrom r))"
  using read_problem [OF mapGovernanceError_problem(4) [OF assms(1)] assms(2,3) mapGovernanceError_problem(5) [OF assms(1)]]
    mapGovernanceError_problem(1,2) [OF assms(1)]
  by (simp add: decode_response_def writeProblem_def)

lemma decode_answer:
  assumes "governanceResponse_json zone g = Inr b" "transportable g" "60 dvd zone (gp_OccurredAt g)"
  shows "decode_response (Some read_GovernanceResult) zero_GovernanceResult (writeJSON hdrs 200 (governanceResponse_json zone g)) = Inr g"
  using read_written [OF assms] by (simp add: decode_response_def writeJSON_def encode_line_def assms(1))

lemma sdk_call_write:
  assumes "sendable c opts"
  shows "\<exists>meth path. sdk_call cfg w c i opts d = do_request cfg w meth path (sent_headers opts) (sdk_body c) (Some read_GovernanceResult)
    zero_GovernanceResult d"
proof -
  have "WriteOptions_headers opts = Inr (sent_headers opts)"
    using assms by (simp add: WriteOptions_headers_def sent_headers_def sendable_def)
  then show ?thesis
    using assms by (cases c) (auto simp: governance_post_def governance_write_def sdk_body_def sendable_def)
qed

lemma do_request_answered:
  assumes "1 \<le> sc_MaxRetries cfg" "sx_ctxErr w 0 = None"
    and "sx_send w 0 (sdk_attempt cfg meth path headers body (sx_reqID w 0)) d = (Inr p, d')" "\<not> isRetryableStatus (hs_Status p)"
  shows "do_request cfg w meth path headers body read zero d = (decode_response read zero p, d')"
proof -
  obtain n where "nat (sc_MaxRetries cfg + 1) = Suc n"
    using assms(1) by (cases "nat (sc_MaxRetries cfg + 1)") auto
  then show ?thesis
    using assms(2-) by (simp add: do_request_def)
qed


text \<open>Every attempt arrives.\<close>

definition sample_env_arrives :: "nat \<Rightarrow> attempt_env" where
  "sample_env_arrives k = \<lparr> at_fate = Arrives, at_dbnow = 0, at_now = 1000, at_newID = ''e1'', at_authz = AllowAllAuthorizer \<rparr>"


end
