(* ===== verification/Workers.thy ===== *)
theory Workers
  imports PolicyGuarantees Integrity
begin

text \<open>
  The background workers as they run in the process: their constructors (\<^verbatim>\<open>NewRelay\<close>, \<^verbatim>\<open>NewDispatcher\<close>,
  \<^verbatim>\<open>NewReplayWorker\<close>, \<^verbatim>\<open>NewRetentionWorker\<close>, \<^verbatim>\<open>NewConsumer\<close>, \<^verbatim>\<open>NewExecutor\<close>) and the loops \<^verbatim>\<open>Run\<close>, which make a
  pass at once and then one per tick until the context ends.  What a loop meets is a list of moments: a tick with
  what its pass takes from outside, a change of the state by another part of the process, or the end of the context.
  The list is arbitrary, so that it stands for every interleaving of the worker with the rest.
\<close>

section \<open>The loop\<close>

datatype ('x, 's) moment = Tick 'x | Elsewhere "'s \<Rightarrow> 's" | CtxDone err

text \<open>The loop is still waiting, has returned the error of the context, or \<^verbatim>\<open>time.NewTicker\<close> has panicked on an interval that
  is not positive.\<close>

datatype run_end = Waiting | Stopped err | TickerPanic

fun ticks :: "('x \<Rightarrow> 's \<Rightarrow> 's) \<Rightarrow> ('x, 's) moment list \<Rightarrow> 's \<Rightarrow> run_end \<times> 's" where
  "ticks pass [] s = (Waiting, s)"
| "ticks pass (Tick x # ms) s = ticks pass ms (pass x s)"
| "ticks pass (Elsewhere f # ms) s = ticks pass ms (f s)"
| "ticks pass (CtxDone er # ms) s = (Stopped er, s)"

definition worker_Run :: "duration \<Rightarrow> ('x \<Rightarrow> 's \<Rightarrow> 's) \<Rightarrow> 'x \<Rightarrow> ('x, 's) moment list \<Rightarrow> 's \<Rightarrow> run_end \<times> 's" where
  "worker_Run interval pass x ms s = (if interval \<le> 0 then (TickerPanic, pass x s) else ticks pass ms (pass x s))"

record 'c Worker =
  wk_Interval :: duration
  wk_cfg :: 'c

section \<open>The workers\<close>

text \<open>\<open>P n\<close> are the ports at the database time \<open>n\<close> of a pass.\<close>

definition NewRelay :: "duration \<Rightarrow> int \<Rightarrow> int Worker" where
  "NewRelay interval limit = \<lparr> wk_Interval = (if interval \<le> 0 then 5 * Second else interval), wk_cfg = relay_limit limit \<rparr>"

definition Relay_Run ::
    "(instant \<Rightarrow> 'st ports) \<Rightarrow> int Worker \<Rightarrow> (nat \<Rightarrow> string) \<Rightarrow> instant \<times> (string \<Rightarrow> bool) \<times> (string \<Rightarrow> instant) \<Rightarrow>
     (instant \<times> (string \<Rightarrow> bool) \<times> (string \<Rightarrow> instant), nat \<times> 'st) moment list \<Rightarrow> nat \<times> 'st \<Rightarrow> run_end \<times> nat \<times> 'st" where
  "Relay_Run P w newID =
     worker_Run (wk_Interval w) (\<lambda>(n, cancelled, now). Relay_RunOnce (P n) (wk_cfg w) cancelled newID now)"

definition NewDispatcher :: "duration \<Rightarrow> DispatcherConfig \<Rightarrow> DispatcherConfig Worker" where
  "NewDispatcher interval cfg = \<lparr> wk_Interval = (if interval \<le> 0 then 2 * Second else interval), wk_cfg = withDefaults cfg \<rparr>"

definition Dispatcher_Run ::
    "(instant \<Rightarrow> 'st ports) \<Rightarrow> DispatcherConfig Worker \<Rightarrow> (instant \<Rightarrow> int) \<Rightarrow>
     instant \<times> (nat \<Rightarrow> bool) \<times> (nat \<Rightarrow> http_client) \<times> (nat \<Rightarrow> instant) \<times> instant \<Rightarrow>
     (instant \<times> (nat \<Rightarrow> bool) \<times> (nat \<Rightarrow> http_client) \<times> (nat \<Rightarrow> instant) \<times> instant, 'st) moment list \<Rightarrow> 'st \<Rightarrow> run_end \<times> 'st" where
  "Dispatcher_Run P w zone =
     worker_Run (wk_Interval w) (\<lambda>(n, cancelled, client, clock, now). Dispatcher_RunOnce (P n) (wk_cfg w) zone cancelled client clock now)"

definition NewReplayWorker :: "duration \<Rightarrow> int \<Rightarrow> int Worker" where
  "NewReplayWorker interval limit = \<lparr> wk_Interval = (if interval \<le> 0 then 3 * Second else interval), wk_cfg = replay_limit limit \<rparr>"

text \<open>A pass of the replay worker that never ends leaves \<open>None\<close>.\<close>

definition ReplayWorker_Run ::
    "(instant \<Rightarrow> 'st ports) \<Rightarrow> int Worker \<Rightarrow> (nat \<Rightarrow> string) \<Rightarrow> (err \<Rightarrow> string) \<Rightarrow>
     instant \<times> (string \<Rightarrow> err option) \<times> (string \<Rightarrow> instant \<times> instant \<times> instant) \<times> (string \<Rightarrow> bool) \<Rightarrow>
     (instant \<times> (string \<Rightarrow> err option) \<times> (string \<Rightarrow> instant \<times> instant \<times> instant) \<times> (string \<Rightarrow> bool), (nat \<times> 'st) option) moment list \<Rightarrow>
     (nat \<times> 'st) option \<Rightarrow> run_end \<times> (nat \<times> 'st) option" where
  "ReplayWorker_Run P w newID errText =
     worker_Run (wk_Interval w) (\<lambda>(n, ctxErr, clock, cancelled) s.
       Option.bind s (Replay_RunOnce (P n) (wk_cfg w) ctxErr newID errText clock cancelled))"

definition NewRetentionWorker :: "duration \<Rightarrow> duration \<Rightarrow> duration Worker" where
  "NewRetentionWorker interval maxAge = \<lparr> wk_Interval = (if interval \<le> 0 then Hour else interval), wk_cfg = maxAge \<rparr>"

definition RetentionWorker_Run ::
    "(instant \<Rightarrow> 'st ports) \<Rightarrow> duration Worker \<Rightarrow> instant \<times> instant \<Rightarrow> (instant \<times> instant, 'st) moment list \<Rightarrow> 'st \<Rightarrow> run_end \<times> 'st" where
  "RetentionWorker_Run P w = worker_Run (wk_Interval w) (\<lambda>(n, now). Retention_RunOnce (P n) (wk_cfg w) now)"

definition NewConsumer :: "duration \<Rightarrow> int \<Rightarrow> int Worker" where
  "NewConsumer interval limit = \<lparr> wk_Interval = (if interval \<le> 0 then 5 * Second else interval), wk_cfg = consumer_limit limit \<rparr>"

definition Consumer_Run ::
    "(string \<Rightarrow> string option) \<Rightarrow> (instant \<Rightarrow> 'st policy_ports) \<Rightarrow> int Worker \<Rightarrow> (nat \<Rightarrow> string) \<Rightarrow>
     instant \<times> (string \<Rightarrow> bool) \<times> (string \<Rightarrow> instant) \<Rightarrow>
     (instant \<times> (string \<Rightarrow> bool) \<times> (string \<Rightarrow> instant), nat \<times> 'st) moment list \<Rightarrow> nat \<times> 'st \<Rightarrow> run_end \<times> nat \<times> 'st" where
  "Consumer_Run float64 P w newID =
     worker_Run (wk_Interval w) (\<lambda>(n, cancelled, now). Consumer_RunOnce float64 (P n) (wk_cfg w) cancelled newID now)"

definition NewExecutor :: "duration \<Rightarrow> DispatcherConfig \<Rightarrow> DispatcherConfig Worker" where
  "NewExecutor interval cfg = \<lparr> wk_Interval = (if interval \<le> 0 then 2 * Second else interval), wk_cfg = executor_withDefaults cfg \<rparr>"

definition Executor_Run ::
    "(instant \<Rightarrow> 'st policy_ports) \<Rightarrow> DispatcherConfig Worker \<Rightarrow> (err \<Rightarrow> string) \<Rightarrow>
     instant \<times> (nat \<Rightarrow> registry) \<times> (nat \<Rightarrow> bool) \<times> (nat \<Rightarrow> instant \<times> instant \<times> instant) \<times> instant \<Rightarrow>
     (instant \<times> (nat \<Rightarrow> registry) \<times> (nat \<Rightarrow> bool) \<times> (nat \<Rightarrow> instant \<times> instant \<times> instant) \<times> instant, 'st) moment list \<Rightarrow> 'st \<Rightarrow> run_end \<times> 'st" where
  "Executor_Run P w errText =
     worker_Run (wk_Interval w) (\<lambda>(n, r, cancelled, clock, now). Executor_RunOnce (P n) (wk_cfg w) errText r cancelled clock now)"

text \<open>The scheduler is marked as running for as long as its loop runs.\<close>

definition Scheduler_Run ::
    "sweep_env \<times> (err + string list) \<times> instant \<times> instant \<Rightarrow>
     (sweep_env \<times> (err + string list) \<times> instant \<times> instant, Scheduler) moment list \<Rightarrow> Scheduler \<Rightarrow> run_end \<times> Scheduler" where
  "Scheduler_Run x ms s =
     (case worker_Run (ic_Interval (sd_cfg s)) (\<lambda>(E, listed, start, finish) s. snd (Scheduler_RunOnce E listed start finish s)) x ms
         (setRunning True s) of
        (Waiting, s') \<Rightarrow> (Waiting, s')
      | (e, s') \<Rightarrow> (e, setRunning False s'))"

section \<open>What every loop guarantees\<close>

lemma ticks_append:
  "ticks pass (ms @ ms') s = (case ticks pass ms s of (Waiting, s') \<Rightarrow> ticks pass ms' s' | r \<Rightarrow> r)"
  by (induction pass ms s rule: ticks.induct) auto

text \<open>After the end of the context the loop makes no pass and takes no notice of what happens.\<close>

lemma ticks_stopped: "fst (ticks pass ms s) \<noteq> Waiting \<Longrightarrow> ticks pass (ms @ ms') s = ticks pass ms s"
  by (cases "ticks pass ms s") (auto simp: ticks_append split: run_end.splits)

lemma ticks_no_panic: "fst (ticks pass ms s) \<noteq> TickerPanic"
  by (induction pass ms s rule: ticks.induct) auto

lemma worker_Run_no_panic: "0 < interval \<Longrightarrow> worker_Run interval pass x ms s = (e, s') \<Longrightarrow> e \<noteq> TickerPanic"
  using ticks_no_panic [of pass ms "pass x s"] by (auto simp: worker_Run_def)

lemma worker_Run_ends:
  assumes "0 < interval" "CtxDone er \<in> set ms"
  shows "\<exists>er' s'. worker_Run interval pass x ms s = (Stopped er', s') \<and> CtxDone er' \<in> set ms"
proof -
  have "\<exists>er' s'. ticks pass ms t = (Stopped er', s') \<and> CtxDone er' \<in> set ms" for t
    using assms(2) by (induction pass ms t rule: ticks.induct) auto
  with assms(1) show ?thesis
    by (simp add: worker_Run_def)
qed

lemma intervals_positive:
  "0 < wk_Interval (NewRelay i l)" "0 < wk_Interval (NewDispatcher i c)" "0 < wk_Interval (NewReplayWorker i l)"
  "0 < wk_Interval (NewRetentionWorker i d)" "0 < wk_Interval (NewConsumer i l)" "0 < wk_Interval (NewExecutor i c)"
  by (simp_all add: NewRelay_def NewDispatcher_def NewReplayWorker_def NewRetentionWorker_def NewConsumer_def NewExecutor_def)

text \<open>The contract of a worker: every pass keeps the invariant.  Its loop then keeps it among steps of others that keep it too.\<close>

locale background =
  fixes pass :: "'x \<Rightarrow> 's \<Rightarrow> 's" and inv :: "'s \<Rightarrow> bool"
  assumes pass_inv: "inv s \<Longrightarrow> inv (pass x s)"
begin

definition undisturbed :: "('x, 's) moment list \<Rightarrow> bool" where
  "undisturbed ms \<longleftrightarrow> (\<forall>f. Elsewhere f \<in> set ms \<longrightarrow> (\<forall>s. inv s \<longrightarrow> inv (f s)))"

lemma ticks_inv: "inv s \<Longrightarrow> undisturbed ms \<Longrightarrow> inv (snd (ticks pass ms s))"
proof (induction ms arbitrary: s)
  case (Cons m ms)
  have "undisturbed ms"
    using Cons.prems(2) by (auto simp: undisturbed_def)
  moreover have "inv (f s)" if "m = Elsewhere f" for f
    using Cons.prems that by (auto simp: undisturbed_def)
  ultimately show ?case
    using Cons.IH Cons.prems(1) pass_inv by (cases m) auto
qed simp

lemma run_inv: "inv s \<Longrightarrow> undisturbed ms \<Longrightarrow> inv (snd (worker_Run interval pass x ms s))"
  using ticks_inv pass_inv by (simp add: worker_Run_def)

end

interpretation relay_loop: background "\<lambda>(n, cancelled, now). Relay_RunOnce (pg_events pg n) limit cancelled newID now" "flow pg newID ws"
  for pg limit newID ws
  by unfold_locales (auto intro: flow.relay_pass)

interpretation dispatch_loop: background
  "\<lambda>(n, cancelled, client, clock, now). Dispatcher_RunOnce (pg_events pg n) cfg zone cancelled client clock now" "\<lambda>dh. flow pg newID ws (k, dh)"
  for pg cfg zone newID ws k
  by unfold_locales (auto intro: flow.dispatch_pass)

interpretation consumer_loop: background
  "\<lambda>(n, cancelled, now). Consumer_RunOnce float64 (pg_policy zone jb pg n) limit cancelled newID now" "policy_flow float64 zone jb pg newID ps"
  for float64 zone jb pg limit newID ps
  by unfold_locales (auto intro: policy_flow.consumer_pass)

interpretation executor_loop: background
  "\<lambda>(n, r, cancelled, clock, now). Executor_RunOnce (pg_policy zone jb pg n) cfg errText r cancelled clock now"
  "\<lambda>dt. policy_flow float64 zone jb pg newID ps (k, dt)"
  for zone jb pg cfg errText float64 newID ps k
  by unfold_locales (auto intro: policy_flow.executor_pass)

interpretation sweep_loop: background
  "\<lambda>(E, listed, start, finish) s. snd (Scheduler_RunOnce E listed start finish s)" "\<lambda>s. sd_running s \<and> sd_cfg s = cfg" for cfg
  by unfold_locales (auto simp: Scheduler_RunOnce_def storeReport_def Let_def split: sum.splits prod.splits)

text \<open>Deliveries in flight survive the retention worker.\<close>

interpretation retention_loop: background "\<lambda>(n, now). Retention_RunOnce (pg_events pg n) maxAge now"
  "\<lambda>(d, h). \<forall>x \<in> flying. x \<in> set (t_webhook_delivery h) \<and> dl_Status x \<notin> {StatusDelivered, StatusDeadLetter}" for pg maxAge flying
  by unfold_locales (auto simp: Retention_RunOnce_def pg_events_def DeleteOlderThan_def split: prod.splits)

section \<open>The loops on the database\<close>

text \<open>Whenever the loop of the relay is looked at, waiting or stopped, each webhook has been given exactly the matching events below the
  cursor, once and in order, whatever commits and deliveries went on meanwhile.\<close>

lemma Relay_Run_exactly_once:
  assumes "flow pg newID ws s" "relay_loop.undisturbed pg newID ws ms" "pg_exact pg" "inj newID"
    and "Relay_Run (pg_events pg) (NewRelay interval limit) newID x ms s = (e, (k, d, h))"
  shows "e \<noteq> TickerPanic \<and> delivered_pairs h c = relayed pg (enabled ws) (take (nat (GetCursor c h)) (chain_events d c))"
proof -
  have flow: "flow pg newID ws (k, d, h)"
    using relay_loop.run_inv [OF assms(1,2), of "wk_Interval (NewRelay interval limit)" "wk_cfg (NewRelay interval limit)" x] assms(5)
    by (simp add: Relay_Run_def)
  have "e \<noteq> TickerPanic"
    by (rule worker_Run_no_panic [OF intervals_positive(1) assms(5) [unfolded Relay_Run_def]])
  then show ?thesis
    using flow_invariant [OF flow assms(3,4)] by (simp add: flow_inv_def)
qed

lemma Scheduler_Run_status:
  assumes "0 < ic_Interval (sd_cfg s)" "sweep_loop.undisturbed (sd_cfg s) ms" "Scheduler_Run x ms s = (e, s')"
  shows "sd_running s' \<longleftrightarrow> e = Waiting"
proof -
  let ?pass = "\<lambda>(E, listed, start, finish) s. snd (Scheduler_RunOnce E listed start finish s)"
  obtain e1 s1 where run: "worker_Run (ic_Interval (sd_cfg s)) ?pass x ms (setRunning True s) = (e1, s1)"
    by fastforce
  then have "sd_running s1"
    using sweep_loop.run_inv [OF _ assms(2), of "setRunning True s" "ic_Interval (sd_cfg s)" x] by (simp add: setRunning_def)
  with run assms(3) show ?thesis
    by (auto simp: Scheduler_Run_def setRunning_def split: run_end.splits)
qed

end
