(* ===== verification/Metrics.thy ===== *)
theory Metrics
  imports PolicyGuarantees Integrity Http ControlPlane
begin

text \<open>
  The metrics of the platform (\<^verbatim>\<open>metrics.go\<close> of ops, events, policy, timeline, compliance and observability,
  consume_metrics.go, executive_metrics.go, summary.go).  The Prometheus package is outside: a call on one of its
  collectors is recorded as a \<open>sample\<close>, in the order of the calls, under the collector's name and label values.  An instrumented
  operation returns its samples beside its result, and is shown to do what the operation without them does.
\<close>

section \<open>Samples\<close>

datatype sample =
    Counted string "string list" int
  | GaugeSet string "string list" int
  | GaugeInc string
  | GaugeDec string
  | GaugeNow string
  | Observed string "string list" duration

abbreviation Inc :: "string \<Rightarrow> sample" where "Inc name \<equiv> Counted name [] 1"

fun counted :: "string \<Rightarrow> string list \<Rightarrow> sample \<Rightarrow> int" where
  "counted name labels (Counted m ls n) = (if m = name \<and> ls = labels then n else 0)"
| "counted name labels _ = 0"

text \<open>What a counter shows after the samples.\<close>

definition counter_value :: "string \<Rightarrow> string list \<Rightarrow> sample list \<Rightarrow> int" where
  "counter_value name labels ss = sum_list (map (counted name labels) ss)"

lemma counter_value_simps [simp]:
  "counter_value name labels [] = 0"
  "counter_value name labels (s # ss) = counted name labels s + counter_value name labels ss"
  "counter_value name labels (xs @ ys) = counter_value name labels xs + counter_value name labels ys"
  by (simp_all add: counter_value_def)

section \<open>Collectors\<close>

text \<open>The names that each constructor registers.\<close>

definition http_collectors :: "string list" where
  "http_collectors = [''http_requests_total'', ''http_request_duration_seconds'', ''http_requests_in_flight'']"

definition executive_collectors :: "string list" where
  "executive_collectors = [''oneops_governance_operations_total'', ''oneops_audit_append_duration_seconds'',
     ''oneops_startup_duration_seconds'', ''oneops_shutdown_duration_seconds'', ''oneops_dependency_up'',
     ''oneops_startup_failures_total'', ''oneops_shutdown_timeouts_total'']"

definition verification_collectors :: "string list" where
  "verification_collectors = [''oneops_audit_verification_runs_total'', ''oneops_audit_chains_verified_total'',
     ''oneops_audit_verification_failures_total'', ''oneops_audit_verification_errors_total'',
     ''oneops_audit_verification_duration_seconds'', ''oneops_audit_last_verification_timestamp_seconds'', ''oneops_audit_integrity_ok'']"

definition event_collectors :: "string list" where
  "event_collectors = [''oneops_webhook_deliveries_total'', ''oneops_webhook_failures_total'', ''oneops_webhook_retries_total'',
     ''oneops_webhook_delivery_latency_seconds'', ''oneops_webhook_active'']"

definition consume_collectors :: "string list" where
  "consume_collectors = [''oneops_webhook_replay_jobs_total'', ''oneops_webhook_replay_events_total'',
     ''oneops_webhook_replay_duration_seconds'', ''oneops_webhook_deadletters'']"

definition policy_collectors :: "string list" where
  "policy_collectors = [''oneops_policy_executions_total'', ''oneops_policy_failures_total'', ''oneops_policy_retries_total'',
     ''oneops_policy_execution_duration_seconds'', ''oneops_policy_active'']"

definition timeline_collectors :: "string list" where
  "timeline_collectors = [''oneops_timeline_queries_total'', ''oneops_timeline_query_duration_seconds'']"

definition compliance_collectors :: "string list" where
  "compliance_collectors = [''oneops_compliance_queries_total'', ''oneops_evidence_exports_total'', ''oneops_compliance_query_duration_seconds'']"

text \<open>\<^verbatim>\<open>MustRegister\<close> panics on a name that the registry has; the result is the registry, or the name it panics with.\<close>

fun MustRegister :: "string list \<Rightarrow> string list \<Rightarrow> string + string list" where
  "MustRegister reg [] = Inr reg"
| "MustRegister reg (c # cs) = (if c \<in> set reg then Inl c else MustRegister (reg @ [c]) cs)"

text \<open>The registrations of the process in their order; those of the scheduler depend on the configuration.\<close>

definition process_collectors :: "bool \<Rightarrow> string list" where
  "process_collectors scheduled = http_collectors @ executive_collectors @ (if scheduled then verification_collectors else []) @
     event_collectors @ consume_collectors @ policy_collectors @ timeline_collectors @ compliance_collectors"

lemma MustRegister_distinct: "distinct (reg @ cs) \<Longrightarrow> MustRegister reg cs = Inr (reg @ cs)"
  by (induction cs arbitrary: reg) auto

lemma process_collectors_distinct: "distinct (process_collectors scheduled)"
proof -
  have "distinct (process_collectors True)" "distinct (process_collectors False)"
    by code_simp+
  then show ?thesis
    by (cases scheduled) simp_all
qed

lemma registration_never_panics: "MustRegister [] (process_collectors scheduled) = Inr (process_collectors scheduled)"
  using MustRegister_distinct [of "[]"] process_collectors_distinct by simp

section \<open>Signals\<close>

definition outcomeLabel :: "bool \<Rightarrow> string" where
  "outcomeLabel ok = (if ok then ''success'' else ''failure'')"

definition ObserveAuditAppend :: "string \<Rightarrow> duration \<Rightarrow> bool \<Rightarrow> sample list" where
  "ObserveAuditAppend operation dur ok =
     [Observed ''oneops_audit_append_duration_seconds'' [] dur,
      Counted ''oneops_governance_operations_total'' [operation, outcomeLabel ok] 1]"

definition SetStartupDuration :: "duration \<Rightarrow> sample list" where
  "SetStartupDuration d = [GaugeSet ''oneops_startup_duration_seconds'' [] d]"

definition SetShutdownDuration :: "duration \<Rightarrow> sample list" where
  "SetShutdownDuration d = [GaugeSet ''oneops_shutdown_duration_seconds'' [] d]"

definition SetDependencyUp :: "string \<Rightarrow> bool \<Rightarrow> sample list" where
  "SetDependencyUp name up = [GaugeSet ''oneops_dependency_up'' [name] (if up then 1 else 0)]"

definition IncStartupFailure :: "sample list" where "IncStartupFailure = [Inc ''oneops_startup_failures_total'']"
definition IncShutdownTimeout :: "sample list" where "IncShutdownTimeout = [Inc ''oneops_shutdown_timeouts_total'']"

definition ChainVerified :: "VerifyResult \<Rightarrow> duration \<Rightarrow> sample list" where
  "ChainVerified res dur =
     [Inc ''oneops_audit_chains_verified_total'', Observed ''oneops_audit_verification_duration_seconds'' [] dur] @
     (if vr_OK res then [] else [Inc ''oneops_audit_verification_failures_total''])"

definition ChainError_signal :: "duration \<Rightarrow> sample list" where
  "ChainError_signal dur =
     [Inc ''oneops_audit_verification_errors_total'', Observed ''oneops_audit_verification_duration_seconds'' [] dur]"

definition RunCompleted :: "IntegrityReport \<Rightarrow> sample list" where
  "RunCompleted report =
     [Inc ''oneops_audit_verification_runs_total'', GaugeNow ''oneops_audit_last_verification_timestamp_seconds'',
      GaugeSet ''oneops_audit_integrity_ok'' [] (if Healthy report then 1 else 0)]"

definition IncDelivered :: "sample list" where "IncDelivered = [Inc ''oneops_webhook_deliveries_total'']"
definition delivery_IncFailure :: "sample list" where "delivery_IncFailure = [Inc ''oneops_webhook_failures_total'']"
definition delivery_IncRetry :: "sample list" where "delivery_IncRetry = [Inc ''oneops_webhook_retries_total'']"

definition ObserveDeliveryLatency :: "duration \<Rightarrow> sample list" where
  "ObserveDeliveryLatency d = [Observed ''oneops_webhook_delivery_latency_seconds'' [] d]"

definition SetActiveWebhooks :: "nat \<Rightarrow> sample list" where
  "SetActiveWebhooks n = [GaugeSet ''oneops_webhook_active'' [] (int n)]"

definition IncReplayJob :: "sample list" where "IncReplayJob = [Inc ''oneops_webhook_replay_jobs_total'']"

definition AddReplayEvents :: "int \<Rightarrow> sample list" where
  "AddReplayEvents n = [Counted ''oneops_webhook_replay_events_total'' [] n]"

definition ObserveReplayDuration :: "duration \<Rightarrow> sample list" where
  "ObserveReplayDuration d = [Observed ''oneops_webhook_replay_duration_seconds'' [] d]"

definition SetDeadLetters :: "int \<Rightarrow> sample list" where
  "SetDeadLetters n = [GaugeSet ''oneops_webhook_deadletters'' [] n]"

definition IncExecution :: "sample list" where "IncExecution = [Inc ''oneops_policy_executions_total'']"
definition policy_IncFailure :: "sample list" where "policy_IncFailure = [Inc ''oneops_policy_failures_total'']"
definition policy_IncRetry :: "sample list" where "policy_IncRetry = [Inc ''oneops_policy_retries_total'']"

definition policy_ObserveDuration :: "duration \<Rightarrow> sample list" where
  "policy_ObserveDuration d = [Observed ''oneops_policy_execution_duration_seconds'' [] d]"

definition SetActivePolicies :: "nat \<Rightarrow> sample list" where
  "SetActivePolicies n = [GaugeSet ''oneops_policy_active'' [] (int n)]"

definition timeline_IncQuery :: "sample list" where "timeline_IncQuery = [Inc ''oneops_timeline_queries_total'']"

definition timeline_ObserveDuration :: "duration \<Rightarrow> sample list" where
  "timeline_ObserveDuration d = [Observed ''oneops_timeline_query_duration_seconds'' [] d]"

definition compliance_IncQuery :: "sample list" where "compliance_IncQuery = [Inc ''oneops_compliance_queries_total'']"
definition IncExport :: "sample list" where "IncExport = [Inc ''oneops_evidence_exports_total'']"

definition compliance_ObserveDuration :: "duration \<Rightarrow> sample list" where
  "compliance_ObserveDuration d = [Observed ''oneops_compliance_query_duration_seconds'' [] d]"

section \<open>The metered auditor\<close>

text \<open>\<open>dur\<close> is the time the inner append takes.\<close>

definition MeteredAuditor_AppendTx ::
    "'tx auditor \<Rightarrow> duration \<Rightarrow> AppendInput \<Rightarrow> 'tx \<Rightarrow> (err + (AuditEvent \<times> 'tx)) \<times> sample list" where
  "MeteredAuditor_AppendTx inner dur inp tx =
     (let r = inner inp tx in (r, ObserveAuditAppend (ai_Operation inp) dur (\<not> isl r)))"

text \<open>The engine with that auditor: its result and the samples, which no rollback takes back.\<close>

definition emit_samples :: "'tx auditor \<Rightarrow> duration \<Rightarrow> Command \<Rightarrow> Result \<times> 'tx \<Rightarrow> sample list" where
  "emit_samples audit dur cmd = (\<lambda>(res, tx).
     (case Resolve \<lparr> ei_ChainID = AuditChainID (rs_CfgID res), ei_OperationID = cm_OperationID cmd,
                     ei_Operation = rs_Operation res, ei_Payload = auditPayload res \<rparr>
                   (rs_Actor res) (rs_OccurredAt res) of Inl er \<Rightarrow> []
      | Inr inp \<Rightarrow> snd (MeteredAuditor_AppendTx audit dur inp tx)))"

text \<open>What \<^verbatim>\<open>Execute\<close> has staged when it comes to the audit append.\<close>

definition staged :: "'tx Engine \<Rightarrow> instant \<Rightarrow> Command \<Rightarrow> 'tx \<Rightarrow> err + (Result \<times> 'tx)" where
  "staged e now cmd db =
     (case Command_validate cmd of Some er \<Rightarrow> Inl er
      | None \<Rightarrow>
     (case gs_Begin (en_store e) db of Inl er \<Rightarrow> Inl er
      | Inr tx \<Rightarrow>
     (case gs_GetForUpdate (en_store e) (cm_CfgID cmd) tx of Inl er \<Rightarrow> Inl er
      | Inr obj \<Rightarrow>
        if cm_ExpectedRowVersion cmd \<noteq> 0 \<and> co_RowVersion obj \<noteq> cm_ExpectedRowVersion cmd then Inl ErrVersionMismatch
        else
     (case en_authorizer e (cm_Operation cmd) (cm_Actor cmd) obj of Some er \<Rightarrow> Inl er
      | None \<Rightarrow>
     (case planTransition (cm_Operation cmd) obj cmd of Inl er \<Rightarrow> Inl er
      | Inr p \<Rightarrow>
     (case apply_plan (en_store e) obj p (new_result cmd now) tx of Inl er \<Rightarrow> Inl er
      | Inr st \<Rightarrow> apply_edge (en_store e) p st))))))"

definition Execute_samples :: "'tx Engine \<Rightarrow> duration \<Rightarrow> instant \<Rightarrow> Command \<Rightarrow> 'tx \<Rightarrow> sample list" where
  "Execute_samples e dur now cmd db =
     (case staged e now cmd db of Inl er \<Rightarrow> [] | Inr st \<Rightarrow> emit_samples (en_audit e) dur cmd st)"

text \<open>A run of operations with the metered engine on the PostgreSQL stores; each has its clock, id source and duration.\<close>

record run_env =
  re_dbnow :: instant
  re_newID :: string
  re_now :: instant
  re_dur :: duration

fun run_metered :: "pg \<Rightarrow> authorizer \<Rightarrow> (run_env \<times> Command) list \<Rightarrow> db \<Rightarrow> db \<times> sample list" where
  "run_metered pg authz [] d = (d, [])"
| "run_metered pg authz ((x, cmd) # cs) d =
     (let E = pg_engine pg (re_dbnow x) (re_newID x) authz;
          ss = Execute_samples E (re_dur x) (re_now x) cmd d
      in case run_metered pg authz cs (snd (Execute E (re_now x) cmd d)) of (d', rest) \<Rightarrow> (d', ss @ rest))"

section \<open>Instrumented workers\<close>

definition attempt_metered ::
    "'st ports \<Rightarrow> DispatcherConfig \<Rightarrow> (instant \<Rightarrow> int) \<Rightarrow> http_client \<Rightarrow> instant \<Rightarrow> duration \<Rightarrow> Delivery \<Rightarrow> 'st \<Rightarrow>
     ((string \<times> err option) \<times> 'st) \<times> sample list" where
  "attempt_metered p cfg zone client now dur del st =
     (case ep_Get p (dl_WebhookID del) st of
        Inl er \<Rightarrow> (((StatusDeadLetter, Some er),
          snd (ep_MarkResult p (dl_ID del) StatusDeadLetter (dl_RetryCount del) 0 now zero_time st)), [])
      | Inr wh \<Rightarrow>
     (case BuildPayload zone del now of
        Inl er \<Rightarrow> (((dl_Status del, Some er), st), [])
      | Inr (payload, ts) \<Rightarrow>
     (case post client (wh_URL wh) del ts (Sign (wh_Secret wh) ts (dl_ID del) payload) payload of
        (code, derr) \<Rightarrow>
        if derr = None \<and> 200 \<le> code \<and> code < 300 then
          (((StatusDelivered, None),
           snd (ep_MarkResult p (dl_ID del) StatusDelivered (dl_RetryCount del) code now zero_time st)),
           ObserveDeliveryLatency dur @ IncDelivered)
        else
          let retry = int64 (dl_RetryCount del + 1) in
          if wh_MaxRetries wh \<le> retry then
            (((StatusDeadLetter, derr), snd (ep_MarkResult p (dl_ID del) StatusDeadLetter retry code now zero_time st)),
             ObserveDeliveryLatency dur @ delivery_IncFailure)
          else
            (((StatusFailed, derr),
             snd (ep_MarkResult p (dl_ID del) StatusFailed retry code now
                (now + backoff (dc_BaseBackoff cfg) (dc_MaxBackoff cfg) retry) st)),
             ObserveDeliveryLatency dur @ delivery_IncFailure @ delivery_IncRetry))))"

definition execution_metered ::
    "'st policy_ports \<Rightarrow> DispatcherConfig \<Rightarrow> (err \<Rightarrow> string) \<Rightarrow> registry \<Rightarrow> instant \<Rightarrow> instant \<Rightarrow> instant \<Rightarrow> duration \<Rightarrow> Execution \<Rightarrow> 'st \<Rightarrow>
     (string \<times> 'st) \<times> sample list" where
  "execution_metered p cfg errText r start ended base dur ex st =
     (case pp_Get p (ex_PolicyID ex) st of
        Inl er \<Rightarrow> ((ExecDeadLetter,
          snd (pp_MarkResult p (ex_ID ex) ExecDeadLetter (ex_RetryCount ex) (''policy not found: '' @ errText er) start ended zero_time st)),
          IncExecution)
      | Inr pol \<Rightarrow>
     (case runIsolated r pol (ex_Event ex) of
        None \<Rightarrow> ((ExecSucceeded,
          snd (pp_MarkResult p (ex_ID ex) ExecSucceeded (ex_RetryCount ex) [] start ended zero_time st)),
          IncExecution @ policy_ObserveDuration dur)
      | Some runErr \<Rightarrow>
        let retry = int64 (ex_RetryCount ex + 1) in
        if po_MaxRetries pol \<le> retry then ((ExecDeadLetter,
          snd (pp_MarkResult p (ex_ID ex) ExecDeadLetter retry (errText runErr) start ended zero_time st)),
          IncExecution @ policy_ObserveDuration dur @ policy_IncFailure)
        else ((ExecFailed,
          snd (pp_MarkResult p (ex_ID ex) ExecFailed retry (errText runErr) start ended (base + executor_backoff cfg retry) st)),
          IncExecution @ policy_ObserveDuration dur @ policy_IncFailure @ policy_IncRetry)))"

text \<open>\<open>dur c\<close> is the time the verification of the chain \<open>c\<close> takes.\<close>

fun sweep_samples :: "SchedulerConfig \<Rightarrow> sweep_env \<Rightarrow> (string \<Rightarrow> duration) \<Rightarrow> string list \<Rightarrow> sample list" where
  "sweep_samples cfg E dur [] = []"
| "sweep_samples cfg E dur (c # cs) =
     (case se_ctxErr E c of
        Some er \<Rightarrow> []
      | None \<Rightarrow>
     (case verifyWithRetry cfg (se_verify E c) (se_stopped E c) c of
        Inl er \<Rightarrow> ChainError_signal (dur c) @ sweep_samples cfg E dur cs
      | Inr res \<Rightarrow> ChainVerified res (dur c) @ sweep_samples cfg E dur cs))"

definition Scheduler_RunOnce_samples ::
    "sweep_env \<Rightarrow> err + string list \<Rightarrow> (string \<Rightarrow> duration) \<Rightarrow> instant \<Rightarrow> instant \<Rightarrow> Scheduler \<Rightarrow> sample list" where
  "Scheduler_RunOnce_samples E listed dur start finish s =
     (case listed of Inl er \<Rightarrow> [] | Inr chainIDs \<Rightarrow> sweep_samples (sd_cfg s) E dur chainIDs) @
     RunCompleted (fst (Scheduler_RunOnce E listed start finish s))"

text \<open>The signals of a finished replay job; of a pass of the relay and of the policy consumer; and of the retention worker.\<close>

definition replay_execute_samples ::
    "'st ports \<Rightarrow> int \<Rightarrow> (string \<Rightarrow> err option) \<Rightarrow> (nat \<Rightarrow> string) \<Rightarrow> instant \<Rightarrow> instant \<Rightarrow> duration \<Rightarrow> ReplayJob \<Rightarrow> nat \<times> 'st \<Rightarrow> sample list option" where
  "replay_execute_samples p limit ctxErr newID start now dur job = (\<lambda>(k, st).
     (let running = job\<lparr> rj_Status := JobRunning, rj_UpdatedAt := start \<rparr> in
      case ep_UpdateJob p running st of
        (Inl er, st') \<Rightarrow> Some []
      | (Inr _, st') \<Rightarrow>
          map_option (\<lambda>((n, er), _). IncReplayJob @ AddReplayEvents n @ ObserveReplayDuration dur)
            (replay_run p limit ctxErr newID now running k st')))"

definition Relay_samples :: "'st ports \<Rightarrow> 'st \<Rightarrow> sample list" where
  "Relay_samples p st = (case ep_ListChainIDs p st of
       Inl er \<Rightarrow> []
     | Inr chainIDs \<Rightarrow> (case ep_ListEnabled p st of Inl er \<Rightarrow> [] | Inr subs \<Rightarrow> SetActiveWebhooks (length subs)))"

definition Consumer_samples :: "'st policy_ports \<Rightarrow> 'st \<Rightarrow> sample list" where
  "Consumer_samples p st = (case pp_ListChainIDs p st of
       Inl er \<Rightarrow> []
     | Inr chainIDs \<Rightarrow> (case pp_ListEnabled p st of Inl er \<Rightarrow> [] | Inr pols \<Rightarrow> SetActivePolicies (length pols)))"

definition Retention_samples :: "(string \<Rightarrow> 'st \<Rightarrow> err + int) \<Rightarrow> 'st \<Rightarrow> sample list" where
  "Retention_samples count st = (case count StatusDeadLetter st of Inl er \<Rightarrow> [] | Inr n \<Rightarrow> SetDeadLetters n)"

section \<open>HTTP requests\<close>

text \<open>\<open>route\<close> is the pattern that the router matched, \<open>dur\<close> the time of the request.  A panic passes through: only the
  deferred decrement runs.\<close>

definition Metrics_Middleware :: "string \<Rightarrow> duration \<Rightarrow> 's handler \<Rightarrow> Request \<Rightarrow> 's \<Rightarrow> (reply \<times> 's) \<times> sample list" where
  "Metrics_Middleware route dur next r s =
     (case next r s of
        (HandlerPanic h, s') \<Rightarrow> ((HandlerPanic h, s'), [GaugeInc ''http_requests_in_flight'', GaugeDec ''http_requests_in_flight''])
      | (Replied p, s') \<Rightarrow>
          (let pattern = (if route = [] then ''unmatched'' else route) in
           ((Replied p, s'),
            [GaugeInc ''http_requests_in_flight'', Counted ''http_requests_total'' [rq_Method r, pattern, FormatInt (hs_Status p)] 1,
             Observed ''http_request_duration_seconds'' [rq_Method r, pattern] dur, GaugeDec ''http_requests_in_flight''])))"

section \<open>The summary\<close>

text \<open>What the registry gathers: families of metrics, each of one of the kinds.  The values are whole numbers, which
  floating-point addition treats exactly below \<open>2 ^ 53\<close>.\<close>

datatype metric = CounterValue int | GaugeValue int | HistogramCount int | OtherMetric

definition summaryMetrics :: "string list" where
  "summaryMetrics = [''http_requests_total'', ''oneops_governance_operations_total'', ''oneops_audit_verification_runs_total'',
     ''oneops_audit_chains_verified_total'', ''oneops_audit_verification_failures_total'', ''oneops_audit_verification_errors_total'',
     ''oneops_audit_integrity_ok'', ''oneops_startup_failures_total'', ''oneops_shutdown_timeouts_total'']"

definition metric_value :: "metric \<Rightarrow> int" where
  "metric_value m = (case m of CounterValue v \<Rightarrow> v | GaugeValue v \<Rightarrow> v | HistogramCount n \<Rightarrow> n | OtherMetric \<Rightarrow> 0)"

definition Metrics_Summary :: "err + (string \<times> metric list) list \<Rightarrow> err + (string \<times> int) list" where
  "Metrics_Summary gathered = (case gathered of
       Inl er \<Rightarrow> Inl er
     | Inr families \<Rightarrow> Inr (foldl (\<lambda>out (name, ms).
         if name \<in> set summaryMetrics then map_put name (sum_list (map metric_value ms)) out else out) [] families))"

section \<open>The counters follow the operations\<close>

lemma Execute_staged:
  "Execute e now cmd db = (case staged e now cmd db of Inl er \<Rightarrow> (Inl er, db)
     | Inr st \<Rightarrow> (case emit_audit (en_audit e) cmd st of Inl er \<Rightarrow> (Inl er, db)
       | Inr (res, tx') \<Rightarrow> (case gs_Commit (en_store e) tx' of Inl er \<Rightarrow> (Inl er, db) | Inr db' \<Rightarrow> (Inr res, db'))))"
  by (simp add: Execute_def staged_def split: option.split sum.split)

definition events_of :: "string \<Rightarrow> db \<Rightarrow> nat" where
  "events_of op d = length (filter (\<lambda>e. ae_Operation e = op) (t_audit_event d))"

abbreviation operations_counter :: string where
  "operations_counter \<equiv> ''oneops_governance_operations_total''"

lemma staged_events:
  assumes "staged (pg_engine pg dbnow newID authz) now cmd d = Inr (res, tx)"
  shows "t_audit_event tx = t_audit_event d" "rs_Operation res = cm_Operation cmd"
proof -
  let ?E = "pg_engine pg dbnow newID authz"
  obtain obj p res1 tx1 where
    ap: "apply_plan (en_store ?E) obj p (new_result cmd now) d = Inr (res1, tx1)"
    and ed: "apply_edge (en_store ?E) p (res1, tx1) = Inr (res, tx)"
    using assms by (auto simp: staged_def pg_engine_def GovernanceStore_def split: option.splits sum.splits if_splits)
  have "t_audit_event tx1 = t_audit_event d" "rs_Operation res1 = cm_Operation cmd"
    using ap by (auto simp: apply_plan_def pg_engine_def GovernanceStore_def RemoveObject_def ApplyDimensions_def new_result_def
        update_co_def delete_cos_def Let_def split: if_splits sum.splits option.splits)
  moreover have "t_audit_event tx = t_audit_event tx1" "rs_Operation res = rs_Operation res1"
    using ed by (auto simp: apply_edge_def pg_engine_def GovernanceStore_def RecordEdge_def insert_edge_def
        split: if_splits sum.splits option.splits)
  ultimately show "t_audit_event tx = t_audit_event d" "rs_Operation res = cm_Operation cmd"
    by simp_all
qed

lemma Resolve_operation: "Resolve e actor t = Inr inp \<Longrightarrow> ai_Operation inp = ei_Operation e"
  by (auto simp: Resolve_def split: option.splits if_splits sum.splits)

lemma AppendTx_event:
  assumes "AppendTx pg now inp d = Inr (e, d')"
  shows "events_of op d' = events_of op d + (if op = ai_Operation inp then 1 else 0)"
  using AppendTx_Inr(1,2) [OF assms] by (auto simp: events_of_def appended_def)

lemma Execute_counts:
  fixes d :: db
  assumes "Execute (pg_engine pg dbnow newID authz) now cmd d = (r, d')"
  shows "counter_value operations_counter [op, ''success''] (Execute_samples (pg_engine pg dbnow newID authz) dur now cmd d) =
    int (events_of op d') - int (events_of op d)"
proof (cases "staged (pg_engine pg dbnow newID authz) now cmd d")
  case (Inl er)
  then show ?thesis
    using assms by (simp add: Execute_staged Execute_samples_def)
next
  case (Inr st)
  obtain res tx where st: "st = (res, tx)" by fastforce
  note ev = staged_events [OF Inr [unfolded st]]
  let ?ei = "\<lparr> ei_ChainID = AuditChainID (rs_CfgID res), ei_OperationID = cm_OperationID cmd,
    ei_Operation = rs_Operation res, ei_Payload = auditPayload res \<rparr>"
  show ?thesis
  proof (cases "Resolve ?ei (rs_Actor res) (rs_OccurredAt res)")
    case (Inl er)
    then show ?thesis
      using assms Inr by (simp add: Execute_staged Execute_samples_def st emit_audit_def emit_samples_def)
  next
    case r: (Inr inp)
    have audit: "en_audit (pg_engine pg dbnow newID authz) = AppendTx pg dbnow"
      and commit: "gs_Commit (en_store (pg_engine pg dbnow newID authz)) = Inr"
      by (simp_all add: pg_engine_def GovernanceStore_def)
    show ?thesis
      using assms Inr r ev Resolve_operation [OF r] AppendTx_event [of pg dbnow inp tx]
      by (auto simp: Execute_staged Execute_samples_def st emit_audit_def emit_samples_def audit commit
          MeteredAuditor_AppendTx_def ObserveAuditAppend_def outcomeLabel_def events_of_def split: sum.splits)
  qed
qed

lemma attempt_metered_result: "fst (attempt_metered p cfg zone client now dur del st) = attempt p cfg zone client now del st"
  by (simp add: attempt_metered_def attempt_def Let_def split: sum.split prod.split)

lemma execution_metered_result:
  "fst (execution_metered p cfg errText r start ended base dur ex st) = execution_attempt p cfg errText r start ended base ex st"
  by (simp add: execution_metered_def execution_attempt_def Let_def split: sum.split option.split)

lemmas delivery_signals = ObserveDeliveryLatency_def IncDelivered_def delivery_IncFailure_def delivery_IncRetry_def

text \<open>Of an attempt, one of the two outcomes is counted when a request was made, and a retry exactly when the delivery is
  left to be tried again.\<close>

lemma attempt_counts:
  assumes "attempt_metered p cfg zone client now dur del st = ((status, er), ss)"
    and "ep_Get p (dl_WebhookID del) st = Inr wh" "BuildPayload zone del now = Inr b"
  shows "counter_value ''oneops_webhook_deliveries_total'' [] ss = (if fst status = StatusDelivered then 1 else 0)"
    and "counter_value ''oneops_webhook_failures_total'' [] ss = (if fst status = StatusDelivered then 0 else 1)"
    and "counter_value ''oneops_webhook_retries_total'' [] ss = (if fst status = StatusFailed then 1 else 0)"
  using assms by (auto simp: attempt_metered_def delivery_signals Let_def split: prod.splits if_splits)

lemmas sweep_signals = ChainError_signal_def ChainVerified_def RunCompleted_def

lemma sweep_report_counts:
  "int (length (ir_Failures (sweep_chains cfg E cs r))) =
     int (length (ir_Failures r)) + counter_value ''oneops_audit_verification_failures_total'' [] (sweep_samples cfg E dur cs)"
  "ir_ChainsOK (sweep_chains cfg E cs r) =
     ir_ChainsOK r + counter_value ''oneops_audit_chains_verified_total'' [] (sweep_samples cfg E dur cs) -
     counter_value ''oneops_audit_verification_failures_total'' [] (sweep_samples cfg E dur cs)"
  by (induction cs arbitrary: r) (auto simp: sweep_signals split: option.split sum.split)

lemma sweep_samples_runs: "counter_value ''oneops_audit_verification_runs_total'' [] (sweep_samples cfg E dur cs) = 0"
  by (induction cs) (auto simp: sweep_signals split: option.split sum.split)

text \<open>The counters of a sweep agree with its report: breaks are counted one by one, every chain that was verified, whole or
  broken, is counted, and the run is counted once.\<close>

lemma sweep_counters_agree:
  assumes "Scheduler_RunOnce E listed start finish s = (rep, s')"
    and "ss = Scheduler_RunOnce_samples E listed dur start finish s"
  shows "counter_value ''oneops_audit_verification_failures_total'' [] ss = int (length (ir_Failures rep))"
    and "counter_value ''oneops_audit_chains_verified_total'' [] ss = ir_ChainsOK rep + int (length (ir_Failures rep))"
    and "counter_value ''oneops_audit_verification_runs_total'' [] ss = 1"
  using assms
  by (auto simp: Scheduler_RunOnce_def Scheduler_RunOnce_samples_def empty_report_def RunCompleted_def sweep_samples_runs Let_def
      sweep_report_counts [where dur = dur] split: sum.splits)

text \<open>A request whose handler panics is not counted, although the recoverer answers it.\<close>

lemma panic_not_counted:
  assumes "next r s = (HandlerPanic h, s')"
  shows "counter_value ''http_requests_total'' labels (snd (Metrics_Middleware route dur next r s)) = 0"
  using assms by (simp add: Metrics_Middleware_def)

lemma reply_counted_once:
  assumes "next r s = (Replied p, s')" "route \<noteq> []"
  shows "counter_value ''http_requests_total'' labels (snd (Metrics_Middleware route dur next r s)) =
    (if labels = [rq_Method r, route, FormatInt (hs_Status p)] then 1 else 0)"
  using assms by (simp add: Metrics_Middleware_def)

section \<open>Properties\<close>


end
