(* ===== verification/Startup.thy ===== *)
theory Startup
  imports Workers Metrics OpsApi
begin

text \<open>
  The process (\<^verbatim>\<open>cmd/controlplane/main.go\<close>, \<^verbatim>\<open>run\<close>): its start, its wiring and its shutdown, with the server that is wired
  (\<^verbatim>\<open>httpapi/server.go\<close>, \<^verbatim>\<open>pprof.go\<close>), the tracing setup and the connection pool.  Outside are the environment, the outcomes of the
  packages that are called and the moment at which the context of the process ends.  A run is the list of what it does,
  in order, with the error it returns.
\<close>

section \<open>The server and its routes\<close>

text \<open>Of the parts of the server only whether they are set matters here: a part is nil until its setter is called.\<close>

record Server =
  srv_cfg :: Config
  srv_graph :: bool
  srv_diag :: bool
  srv_governance :: bool
  srv_governanceQuery :: bool
  srv_admin :: bool
  srv_webhooks :: bool
  srv_webhookConsume :: bool
  srv_policies :: bool
  srv_timeline :: bool
  srv_compliance :: bool

definition NewServer :: "Config \<Rightarrow> Server" where
  "NewServer cfg = \<lparr> srv_cfg = cfg, srv_graph = False, srv_diag = False, srv_governance = False, srv_governanceQuery = False,
     srv_admin = False, srv_webhooks = False, srv_webhookConsume = False, srv_policies = False, srv_timeline = False,
     srv_compliance = False \<rparr>"

definition SetGovernance :: "Server \<Rightarrow> Server" where "SetGovernance s = s\<lparr> srv_governance := True \<rparr>"
definition SetGraph :: "Server \<Rightarrow> Server" where "SetGraph s = s\<lparr> srv_graph := True \<rparr>"
definition SetDiagnostics :: "Server \<Rightarrow> Server" where "SetDiagnostics s = s\<lparr> srv_diag := True \<rparr>"
definition SetGovernanceQuery :: "Server \<Rightarrow> Server" where "SetGovernanceQuery s = s\<lparr> srv_governanceQuery := True \<rparr>"
definition SetAdmin :: "Server \<Rightarrow> Server" where "SetAdmin s = s\<lparr> srv_admin := True \<rparr>"
definition SetWebhooks :: "Server \<Rightarrow> Server" where "SetWebhooks s = s\<lparr> srv_webhooks := True \<rparr>"
definition SetWebhookConsume :: "Server \<Rightarrow> Server" where "SetWebhookConsume s = s\<lparr> srv_webhookConsume := True \<rparr>"
definition SetPolicies :: "Server \<Rightarrow> Server" where "SetPolicies s = s\<lparr> srv_policies := True \<rparr>"
definition SetTimeline :: "Server \<Rightarrow> Server" where "SetTimeline s = s\<lparr> srv_timeline := True \<rparr>"
definition SetCompliance :: "Server \<Rightarrow> Server" where "SetCompliance s = s\<lparr> srv_compliance := True \<rparr>"

text \<open>A mounted route: its method (\<open>None\<close> for every method), its pattern and the permission its middleware asks for after
  authentication (\<open>None\<close> for a public page).\<close>

record mounted =
  mt_Method :: "string option"
  mt_Pattern :: string
  mt_Perm :: "string option"

definition public_routes :: "mounted list" where
  "public_routes = map (\<lambda>(m, p). \<lparr> mt_Method = m, mt_Pattern = p, mt_Perm = None \<rparr>)
     [(Some ''GET'', ''/healthz''), (Some ''GET'', ''/readyz''), (None, ''/metrics''), (Some ''GET'', ''/openapi.yaml''),
      (Some ''GET'', ''/docs''), (Some ''GET'', ''/'')]"

definition mountPProf :: "Server \<Rightarrow> mounted list" where
  "mountPProf s =
     (if \<not> cf_PProfEnabled (srv_cfg s) then []
      else map (\<lambda>p. \<lparr> mt_Method = None, mt_Pattern = ''/debug/pprof'' @ p, mt_Perm = Some PermRead \<rparr>)
        [''/'', ''/cmdline'', ''/profile'', ''/symbol'', ''/trace'', ''/*''])"

definition diagnostics_route :: mounted where
  "diagnostics_route = \<lparr> mt_Method = Some ''GET'', mt_Pattern = ''/internal/diagnostics'', mt_Perm = Some PermRead \<rparr>"

definition Router :: "Server \<Rightarrow> mounted list" where
  "Router s = public_routes @
     (if srv_diag s then [diagnostics_route] else []) @
     mountPProf s @
     map (\<lambda>r. \<lparr> mt_Method = Some (rt_Method r), mt_Pattern = ''/v1'' @ rt_Pattern r, mt_Perm = Some (rt_Perm r) \<rparr>) v1_routes"

record http_server =
  hv_Addr :: string
  hv_Handler :: "mounted list"
  hv_ReadHeaderTimeout :: duration
  hv_ReadTimeout :: duration
  hv_WriteTimeout :: duration
  hv_IdleTimeout :: duration

definition HTTPServer :: "Server \<Rightarrow> http_server" where
  "HTTPServer s = \<lparr> hv_Addr = cf_HTTPAddr (srv_cfg s), hv_Handler = Router s, hv_ReadHeaderTimeout = 5 * Second,
     hv_ReadTimeout = 15 * Second, hv_WriteTimeout = 15 * Second, hv_IdleTimeout = 60 * Second \<rparr>"

section \<open>The middleware of the router\<close>

record http_log =
  hl_Method :: string
  hl_Path :: string
  hl_Status :: int
  hl_DurationMS :: int
  hl_RequestID :: string

text \<open>A request whose handler panics leaves no line.\<close>

definition logging :: "duration \<Rightarrow> 's handler \<Rightarrow> Request \<Rightarrow> 's \<Rightarrow> (reply \<times> 's) \<times> http_log list" where
  "logging dur next r s = (case next r s of
       (HandlerPanic h, s') \<Rightarrow> ((HandlerPanic h, s'), [])
     | (Replied p, s') \<Rightarrow> ((Replied p, s'),
         [\<lparr> hl_Method = rq_Method r, hl_Path = rq_Path r, hl_Status = hs_Status p, hl_DurationMS = Milliseconds dur,
            hl_RequestID = RequestIDFrom r \<rparr>]))"

definition middleware :: "string \<Rightarrow> string \<Rightarrow> duration \<Rightarrow> 's handler \<Rightarrow> 's handler" where
  "middleware random route dur next =
     recoverer (requestID random (\<lambda>r s. fst (logging dur (\<lambda>r s. fst (Metrics_Middleware route dur next r s)) r s)))"

lemma logging_metrics_transparent:
  "fst (logging dur next r s) = next r s" "fst (Metrics_Middleware route dur next r s) = next r s"
  by (auto simp: logging_def Metrics_Middleware_def Let_def split: prod.split reply.split)

lemma middleware_transparent: "middleware random route dur next = recoverer (requestID random next)"
  by (simp add: middleware_def logging_metrics_transparent)

text \<open>Every request is answered, with its id in a header, also when its handler panics.\<close>

lemma middleware_answers:
  fixes r :: Request and random :: string
  defines "i \<equiv> (if Header_Get r ''X-Request-ID'' = [] then random else Header_Get r ''X-Request-ID'')"
  shows "\<exists>p. middleware random route dur next r s = (Replied p, snd (next (withRequestID i r) s)) \<and> response_header p ''X-Request-ID'' = i \<and>
    (case fst (next (withRequestID i r) s) of Replied q \<Rightarrow> hs_Status p = hs_Status q \<and> hs_Body p = hs_Body q | HandlerPanic h \<Rightarrow> hs_Status p = 500)"
proof -
  have "requestID random next r s = (case next (withRequestID i r) s of (p, s') \<Rightarrow> (set_header ''X-Request-ID'' i p, s'))"
    by (simp add: requestID_def i_def Let_def)
  then show ?thesis
    by (auto simp: middleware_transparent recoverer_def set_header_def response_header_def mget_def writeProblem_def Let_def
        split: prod.split reply.split)
qed

section \<open>Tracing and the pool\<close>

text \<open>\<open>exporter\<close> is the outcome of the OTLP package; the result tells whether there is a provider to shut down.\<close>

definition SetupTracing :: "err option \<Rightarrow> string \<Rightarrow> err + bool" where
  "SetupTracing exporter endpoint =
     (if endpoint = [] then Inr False else (case exporter of Some er \<Rightarrow> Inl er | None \<Rightarrow> Inr True))"

record pool_config =
  pc_MaxConns :: int
  pc_MaxConnLifetime :: duration
  pc_MaxConnIdleTime :: duration
  pc_HealthCheckPeriod :: duration

text \<open>The conversion of an \<^verbatim>\<open>int\<close> to an \<^verbatim>\<open>int32\<close> keeps the low 32 bits.\<close>

definition int32 :: "int \<Rightarrow> int" where
  "int32 i = (i + 2 ^ 31) mod 2 ^ 32 - 2 ^ 31"

definition NewPool :: "(string \<Rightarrow> err + pool_config) \<Rightarrow> (pool_config \<Rightarrow> err option) \<Rightarrow> string \<Rightarrow> int \<Rightarrow> err + pool_config" where
  "NewPool parse create dsn maxConns =
     (case parse dsn of
        Inl er \<Rightarrow> Inl er
      | Inr c \<Rightarrow>
          (let c1 = (if 0 < maxConns then c\<lparr> pc_MaxConns := int32 maxConns \<rparr> else c);
               c2 = c1\<lparr> pc_MaxConnLifetime := Hour, pc_MaxConnIdleTime := 30 * Minute, pc_HealthCheckPeriod := Minute \<rparr>
           in case create c2 of Some er \<Rightarrow> Inl er | None \<Rightarrow> Inr c2))"

section \<open>Wiring\<close>

datatype started = StartScheduler Scheduler | StartRelay "int Worker" | StartDispatcher "DispatcherConfig Worker"
  | StartReplay "int Worker" | StartRetention "duration Worker" | StartConsumer "int Worker" | StartExecutor "DispatcherConfig Worker"

definition zero_worker_config :: DispatcherConfig where
  "zero_worker_config = \<lparr> dc_BatchLimit = 0, dc_BaseBackoff = 0, dc_MaxBackoff = 0 \<rparr>"

definition scheduler_config :: "Config \<Rightarrow> SchedulerConfig" where
  "scheduler_config cfg = \<lparr> ic_Interval = int64 (cf_VerifyIntervalSeconds cfg * Second), ic_RunTimeout = int64 (cf_VerifyTimeoutSeconds cfg * Second),
     ic_RetryAttempts = cf_VerifyRetryAttempts cfg, ic_RetryBackoff = Second \<rparr>"

definition start_scheduler :: "Config \<Rightarrow> err + started list" where
  "start_scheduler cfg =
     (if 0 < cf_VerifyIntervalSeconds cfg then
        map_sum id (\<lambda>(v, l, s). [StartScheduler s]) (NewScheduler (Some ()) (Some ()) (scheduler_config cfg))
      else Inr [])"

definition start_workers :: "Config \<Rightarrow> started list" where
  "start_workers cfg =
     [StartRelay (NewRelay 0 0), StartDispatcher (NewDispatcher 0 zero_worker_config), StartReplay (NewReplayWorker 0 0),
      StartRetention (NewRetentionWorker 0 (int64 (cf_WebhookRetentionHours cfg * Hour))),
      StartConsumer (NewConsumer 0 0), StartExecutor (NewExecutor 0 zero_worker_config)]"

text \<open>The server before the call of \<^verbatim>\<open>HTTPServer\<close>, and the setters after it.\<close>

definition wired_first :: "Config \<Rightarrow> Server" where
  "wired_first cfg = SetGovernance (SetGraph (NewServer cfg))"

definition wired_last :: "Server \<Rightarrow> Server" where
  "wired_last s = SetAdmin (SetDiagnostics (SetCompliance (SetTimeline (SetPolicies (SetWebhookConsume (SetWebhooks (SetGovernanceQuery s)))))))"

section \<open>The run\<close>

text \<open>What the run takes from outside: the environment, the outcomes of the tracing exporter, of the pool package, of the pings with the
  clock, of the migration bodies, of \<^verbatim>\<open>ListenAndServe\<close> (an error other than \<^verbatim>\<open>ErrServerClosed\<close>), of \<^verbatim>\<open>Shutdown\<close> (with whether the
  deadline was exceeded) and of the tracing shutdown; the ports of the engine; the measured times.\<close>

record ('s, 'tx) boot =
  bo_env :: environment
  bo_exporter :: "err option"
  bo_parse :: "string \<Rightarrow> err + pool_config"
  bo_create :: "pool_config \<Rightarrow> err option"
  bo_ping :: "nat \<Rightarrow> err option"
  bo_clock :: "nat \<Rightarrow> instant"
  bo_start :: instant
  bo_exec :: "string \<Rightarrow> 's \<Rightarrow> err + 's"
  bo_files :: migrations
  bo_store :: "'tx GovStore"
  bo_auditor :: "'tx auditor"
  bo_listen :: "err option"
  bo_shutdown :: "(err \<times> bool) option"
  bo_tracingStop :: "err option"
  bo_startup :: duration
  bo_drain :: duration

datatype act = PoolOpened pool_config | PoolClosed | Migrated | Started started | Serving http_server Server | ListenFailed err
  | CtxEnded | Drained | TracingStopped "err option" | Sampled "sample list"

text \<open>The goroutine of the listener runs beside the main one; what it does on a failure stands before the end of the context, which it causes.\<close>

definition serve :: "('s, 'tx) boot \<Rightarrow> http_server \<Rightarrow> Server \<Rightarrow> act list" where
  "serve b http srv =
     [Serving http srv, Sampled (SetStartupDuration (bo_startup b)), Sampled (SetDependencyUp ''postgres'' True)] @
     (case bo_listen b of Some er \<Rightarrow> [ListenFailed er, Sampled IncStartupFailure] | None \<Rightarrow> []) @ [CtxEnded]"

definition shutdown :: "('s, 'tx) boot \<Rightarrow> bool \<Rightarrow> err option \<times> act list" where
  "shutdown b tracing =
     (case bo_shutdown b of
        Some (er, deadline) \<Rightarrow>
          (Some er, [Drained, Sampled (SetShutdownDuration (bo_drain b))] @ (if deadline then [Sampled IncShutdownTimeout] else []))
      | None \<Rightarrow> (None, [Drained, Sampled (SetShutdownDuration (bo_drain b)), TracingStopped (if tracing then bo_tracingStop b else None)]))"

definition run_server :: "('s, 'tx) boot \<Rightarrow> Config \<Rightarrow> bool \<Rightarrow> err option \<times> act list" where
  "run_server b cfg tracing =
     (case NewEngine (Some (bo_store b)) (Some AllowAllAuthorizer) (Some (bo_auditor b)) of
        Inl er \<Rightarrow> (Some er, [])
      | Inr engine \<Rightarrow>
     (let first = wired_first cfg; http = HTTPServer first in
      case start_scheduler cfg of
        Inl er \<Rightarrow> (Some er, [])
      | Inr sch \<Rightarrow>
          (case shutdown b tracing of (out, acts) \<Rightarrow>
            (out, map Started (sch @ start_workers cfg) @ serve b http (wired_last first) @ acts))))"

text \<open>With the pool open: the wait for the database, the migrations and the server.  A wait that never ends is \<open>None\<close>.\<close>

definition run_pool :: "('s, 'tx) boot \<Rightarrow> Config \<Rightarrow> bool \<Rightarrow> string list \<times> 's \<Rightarrow> ((err option \<times> act list) \<times> string list \<times> 's) option" where
  "run_pool b cfg tracing st =
     (case WaitForDB (bo_ping b) (bo_clock b) (bo_start b) (30 * Second) of
        None \<Rightarrow> None
      | Some (Some er) \<Rightarrow> Some ((Some er, []), st)
      | Some None \<Rightarrow>
          if cf_AutoMigrate cfg then
            (case Up (bo_exec b) (bo_files b) st of
               (Some er, st') \<Rightarrow> Some ((Some er, []), st')
             | (None, st') \<Rightarrow> Some (apsnd (Cons Migrated) (run_server b cfg tracing), st'))
          else Some (run_server b cfg tracing, st))"

definition run :: "('s, 'tx) boot \<Rightarrow> string list \<times> 's \<Rightarrow> (err option \<times> act list \<times> string list \<times> 's) option" where
  "run b st =
     (case Load (bo_env b) of
        Inl txt \<Rightarrow> Some (Some (ErrOther txt), [], st)
      | Inr cfg \<Rightarrow>
     (case SetupTracing (bo_exporter b) (cf_OTLPEndpoint cfg) of
        Inl er \<Rightarrow> Some (Some er, [], st)
      | Inr tracing \<Rightarrow>
     (case NewPool (bo_parse b) (bo_create b) (cf_DatabaseURL cfg) (cf_DBMaxConns cfg) of
        Inl er \<Rightarrow> Some (Some er, [], st)
      | Inr pc \<Rightarrow> map_option (\<lambda>((out, acts), st'). (out, PoolOpened pc # acts @ [PoolClosed], st')) (run_pool b cfg tracing st))))"

text \<open>The exit status of \<^verbatim>\<open>main\<close>.\<close>

definition main_exit :: "('s, 'tx) boot \<Rightarrow> string list \<times> 's \<Rightarrow> int option" where
  "main_exit b st = map_option (\<lambda>(out, acts, st'). case out of Some er \<Rightarrow> 1 | None \<Rightarrow> 0) (run b st)"

section \<open>The start never fails in the wiring\<close>

lemma start_scheduler_ok:
  "\<exists>sch. start_scheduler cfg = Inr sch \<and> (0 < cf_VerifyIntervalSeconds cfg \<longleftrightarrow> sch \<noteq> []) \<and>
     (\<forall>w \<in> set sch. \<exists>s. w = StartScheduler s \<and> 0 < ic_Interval (sd_cfg s))"
  by (simp add: start_scheduler_def NewScheduler_def scheduler_withDefaults_def)

lemma run_server_cases:
  "\<exists>sch. start_scheduler cfg = Inr sch \<and> run_server b cfg tracing = (fst (shutdown b tracing),
     map Started (sch @ start_workers cfg) @ serve b (HTTPServer (wired_first cfg)) (wired_last (wired_first cfg)) @ snd (shutdown b tracing))"
  using start_scheduler_ok [of cfg] by (auto simp: run_server_def NewEngine_def Let_def split: prod.split)

lemma serve_acts:
  "Serving http srv \<in> set (serve b http' srv') \<longleftrightarrow> http = http' \<and> srv = srv'" "Started w \<notin> set (serve b http' srv')"
  "Serving http srv \<notin> set (snd (shutdown b tracing))" "Started w \<notin> set (snd (shutdown b tracing))"
  by (auto simp: serve_def shutdown_def split: option.splits if_splits)

definition started_of :: "act list \<Rightarrow> started list" where
  "started_of acts = concat (map (\<lambda>a. case a of Started w \<Rightarrow> [w] | _ \<Rightarrow> []) acts)"

lemma started_of_simps [simp]:
  "started_of [] = []" "started_of (Started w # acts) = w # started_of acts" "started_of (xs @ ys) = started_of xs @ started_of ys"
  "started_of (Migrated # acts) = started_of acts" "started_of (PoolOpened pc # acts) = started_of acts"
  "started_of (PoolClosed # acts) = started_of acts" "started_of (map Started ws) = ws"
  by (simp_all add: started_of_def comp_def)

lemma started_of_none: "(\<And>w. Started w \<notin> set acts) \<Longrightarrow> started_of acts = []"
  by (induction acts) (auto simp: started_of_def split: act.splits)

lemma started_of_serve [simp]: "started_of (serve b http srv) = []" "started_of (snd (shutdown b tracing)) = []"
  by (rule started_of_none, rule serve_acts)+

text \<open>A run that has opened the pool either ends in an error with nothing started, or serves with the migrations applied.\<close>

lemma run_pool_cases:
  assumes "run_pool b cfg tracing st = Some ((out, acts), st')"
  shows "(out \<noteq> None \<and> started_of acts = [] \<and> (\<forall>http srv. Serving http srv \<notin> set acts)) \<or>
    (\<exists>sch. start_scheduler cfg = Inr sch \<and> (if cf_AutoMigrate cfg then Up (bo_exec b) (bo_files b) st = (None, st') else st' = st) \<and>
       started_of acts = sch @ start_workers cfg \<and> out = map_option fst (bo_shutdown b) \<and>
       (\<forall>http srv. Serving http srv \<in> set acts \<longleftrightarrow> http = HTTPServer (wired_first cfg) \<and> srv = wired_last (wired_first cfg)))"
proof -
  obtain sch where sch: "start_scheduler cfg = Inr sch" "run_server b cfg tracing = (fst (shutdown b tracing),
     map Started (sch @ start_workers cfg) @ serve b (HTTPServer (wired_first cfg)) (wired_last (wired_first cfg)) @ snd (shutdown b tracing))"
    using run_server_cases [of cfg b tracing] by blast
  have "fst (shutdown b tracing) = map_option fst (bo_shutdown b)"
    by (simp add: shutdown_def split: option.split)
  with assms sch show ?thesis
    by (auto simp: run_pool_def serve_acts split: option.splits if_splits prod.splits)
qed


lemma run_served:
  assumes "run b st = Some (out, acts, st')" "Serving http srv \<in> set acts"
  shows "\<exists>cfg. Load (bo_env b) = Inr cfg \<and> http = HTTPServer (wired_first cfg) \<and> srv = wired_last (wired_first cfg)"
proof -
  obtain cfg tracing pc acts' where r: "Load (bo_env b) = Inr cfg" "run_pool b cfg tracing st = Some ((out, acts'), st')"
    "acts = PoolOpened pc # acts' @ [PoolClosed]"
    using assms by (auto simp: run_def split: sum.splits)
  with run_pool_cases [OF r(2)] assms(2) show ?thesis
    by auto
qed

lemma public_pages: "m \<in> set (Router s) \<Longrightarrow> mt_Perm m = None \<Longrightarrow> m \<in> set public_routes"
  by (auto simp: Router_def mountPProf_def diagnostics_route_def split: if_splits)

lemma diagnostics_not_elsewhere:
  assumes "m \<in> set (Router s)" "mt_Pattern m = ''/internal/diagnostics''"
  shows "m = diagnostics_route \<and> srv_diag s"
proof -
  have "m \<notin> set public_routes" "m \<notin> set (mountPProf s)"
    using assms(2) by (auto simp: public_routes_def mountPProf_def)
  with assms show ?thesis
    by (auto simp: Router_def split: if_splits)
qed

text \<open>C32: the process never serves its diagnostics page.  The handler is built before the last setters are called, and of the routes
  that the completely wired server has, the served handler lacks exactly \<^verbatim>\<open>/internal/diagnostics\<close>, whose mounting is decided when
  the handler is built.  Every route that is served without a permission is one of the six public pages.\<close>

theorem diagnostics_never_served:
  assumes "run b st = Some (out, acts, st')" "Serving http srv \<in> set acts"
  shows "set (Router srv) = insert diagnostics_route (set (hv_Handler http)) \<and>
    (\<forall>m \<in> set (hv_Handler http). mt_Pattern m \<noteq> ''/internal/diagnostics'' \<and> (mt_Perm m = None \<longrightarrow> m \<in> set public_routes))"
proof -
  obtain cfg where cfg: "http = HTTPServer (wired_first cfg)" "srv = wired_last (wired_first cfg)"
    using run_served [OF assms] by blast
  have h: "hv_Handler http = Router (wired_first cfg)" "\<not> srv_diag (wired_first cfg)"
    by (simp_all add: cfg(1) HTTPServer_def wired_first_def SetGovernance_def SetGraph_def NewServer_def)
  have "srv_diag srv" "srv_cfg srv = srv_cfg (wired_first cfg)"
    by (simp_all add: cfg(2) wired_last_def SetAdmin_def SetDiagnostics_def SetCompliance_def SetTimeline_def SetPolicies_def
        SetWebhookConsume_def SetWebhooks_def SetGovernanceQuery_def)
  then have "set (Router srv) = insert diagnostics_route (set (Router (wired_first cfg)))"
    using h(2) by (auto simp: Router_def mountPProf_def)
  then show ?thesis
    using h diagnostics_not_elsewhere public_pages by auto
qed

text \<open>A listener that cannot bind its address ends the process through an orderly shutdown, with exit status 0.\<close>

lemma listen_failure_exits_zero:
  assumes "run b st = Some (out, acts, st')" "ListenFailed er \<in> set acts" "bo_shutdown b = None"
  shows "main_exit b st = Some 0"
proof -
  obtain cfg tracing pc acts' where r: "run_pool b cfg tracing st = Some ((out, acts'), st')" "acts = PoolOpened pc # acts' @ [PoolClosed]"
    using assms(1,2) by (auto simp: run_def split: sum.splits)
  have "out = None"
    using r(1,2) assms(2,3) run_server_cases [of cfg b tracing]
    by (auto simp: run_pool_def shutdown_def split: option.splits if_splits prod.splits)
  with assms(1) show ?thesis
    by (simp add: main_exit_def)
qed

text \<open>The run returns once the clock of the pings passes the budget of thirty seconds, or a ping succeeds.\<close>

lemma wait_pings_returns:
  assumes "ping n = None \<or> deadline < clock n" "k \<le> n"
  shows "\<exists>r. wait_pings ping clock deadline k = Some r"
  using assms(2)
proof (induction "n - k" arbitrary: k)
  case 0
  with assms(1) show ?case
    by (subst wait_pings.simps) (auto split: option.split)
next
  case (Suc m)
  then have "\<exists>r. wait_pings ping clock deadline (Suc k) = Some r"
    by auto
  then show ?case
    by (subst wait_pings.simps) (auto split: option.split)
qed

lemma run_returns:
  assumes "bo_ping b n = None \<or> bo_start b + 30 * Second < bo_clock b n"
  shows "\<exists>r. run b st = Some r"
proof -
  obtain w where "WaitForDB (bo_ping b) (bo_clock b) (bo_start b) (30 * Second) = Some w"
    using wait_pings_returns [of "bo_ping b" n "bo_start b + 30 * Second" "bo_clock b" 0] assms by (auto simp: WaitForDB_def)
  then have "\<exists>x. run_pool b cfg tracing st = Some x" for cfg tracing
    by (cases w) (auto simp: run_pool_def split: prod.split option.split)
  then show ?thesis
    by (force simp: run_def split: sum.split)
qed

definition sample_boot :: "(unit, db) boot" where
  "sample_boot = \<lparr> bo_env = (\<lambda>_. None), bo_exporter = None,
     bo_parse = (\<lambda>_. Inr \<lparr> pc_MaxConns = 4, pc_MaxConnLifetime = 0, pc_MaxConnIdleTime = 0, pc_HealthCheckPeriod = 0 \<rparr>),
     bo_create = (\<lambda>_. None), bo_ping = (\<lambda>_. None), bo_clock = (\<lambda>_. 0), bo_start = 0, bo_exec = (\<lambda>_. Inr), bo_files = [],
     bo_store = en_store sample_engine, bo_auditor = en_audit sample_engine, bo_listen = None, bo_shutdown = None,
     bo_tracingStop = None, bo_startup = 0, bo_drain = 0 \<rparr>"

lemma sample_load: "Load (\<lambda>_. None) = Inr (read_config (\<lambda>_. None))"
  by code_simp

lemma sample_run:
  "\<exists>acts http srv. run sample_boot ([], ()) = Some (None, acts, [], ()) \<and> Serving http srv \<in> set acts"
proof -
  let ?c = "read_config (\<lambda>_. None)"
  have cfg: "cf_OTLPEndpoint ?c = []" "cf_AutoMigrate ?c"
    by (simp_all add: read_config_def getEnv_def getEnvBool_def)
  have wait: "WaitForDB (\<lambda>_. None) (\<lambda>_. 0) 0 (30 * Second) = Some None"
    by (simp add: WaitForDB_def wait_pings.simps)
  obtain sch where srv: "run_server sample_boot ?c False = (None,
     map Started (sch @ start_workers ?c) @ serve sample_boot (HTTPServer (wired_first ?c)) (wired_last (wired_first ?c)) @ snd (shutdown sample_boot False))"
    using run_server_cases [of ?c sample_boot False] by (auto simp: shutdown_def sample_boot_def)
  have up: "Up (\<lambda>_. Inr) [] ([], ()) = (None, [], ())"
    by (simp add: Up_def forwardFiles_def)
  have "run_pool sample_boot ?c False ([], ()) = Some (apsnd (Cons Migrated) (run_server sample_boot ?c False), [], ())"
    using cfg wait up by (simp add: run_pool_def sample_boot_def)
  then show ?thesis
    using sample_load cfg(1) srv by (auto simp: run_def sample_boot_def SetupTracing_def NewPool_def serve_acts)
qed


theorem diagnostics_never_served_witness:
  "\<exists>acts http srv. run sample_boot ([], ()) = Some (None, acts, [], ()) \<and> Serving http srv \<in> set acts \<and>
     diagnostics_route \<in> set (Router srv) \<and> diagnostics_route \<notin> set (hv_Handler http)"
proof -
  obtain acts http srv where r: "run sample_boot ([], ()) = Some (None, acts, [], ())" "Serving http srv \<in> set acts"
    using sample_run by blast
  have "mt_Pattern diagnostics_route = ''/internal/diagnostics''"
    by (simp add: diagnostics_route_def)
  with diagnostics_never_served [OF r] have "diagnostics_route \<in> set (Router srv)" "diagnostics_route \<notin> set (hv_Handler http)"
    by auto
  with r show ?thesis by blast
qed

end
