(* ===== verification/Spec2Isabelle.thy ===== *)
theory Spec2Isabelle
  imports AuthorityState GraphApi SdkApi RemoteCalls Startup
begin

text \<open>
  A verification development of the OneOps control plane (Go module \<^verbatim>\<open>github.com/rpsg/oneops\<close>): a registry of
  configuration objects whose constitutional state changes only through a governance engine, each change leaving one
  event in a hash-chained audit log; webhook delivery and policy automation that tail this log; a read model, compliance
  evidence and integrity sweeps over it; an HTTP transport and a Go client.

  \<^bold>\<open>The parts and how they interact.\<close>
  A request passes the middleware and the access checks and reaches a handler.  A governance request becomes a command
  of the engine, which in one transaction reads the object, plans the transition, applies it and appends the audit event.
  The relay and the policy consumer read committed events behind their own cursors and enqueue deliveries and
  executions; dispatcher and executor attempt these with bounded retries.  The scheduler verifies the chains; timeline
  and compliance only read.  The client retries requests that carry an idempotency key.  The process loads its configuration,
  waits for and migrates the database, wires the server, starts the workers, serves, and drains on a signal.

  \<^bold>\<open>Theories and sources\<close> (paths under \<^verbatim>\<open>src/internal\<close> unless they start with \<^verbatim>\<open>cmd\<close> or \<^verbatim>\<open>sdk\<close>).

  \<^item> \<open>Prelude\<close>, \<open>Json\<close>, \<open>Sha256\<close>, \<open>Wire\<close>, \<open>Encoding\<close>: the parts of the Go standard library the program uses: byte strings, integers of 64
    bits, decimal numbers, \<^verbatim>\<open>encoding/json\<close> in both directions, SHA-256, HMAC and hex, RFC 3339 times.  Lemmas: the printer writes
    what the scanner accepts, decimal and UTF-8 bounds, \<open>result_bind\<close> and \<open>result_map\<close> for errors as values; \<open>Encoding\<close>: quoted texts of
    valid UTF-8, times (by the correctness of the civil calendar), numbers and structs are read back as they were written.
  \<^item> \<open>Domain\<close> (domain/): entities, enumerations, validation.
  \<^item> \<open>AuditChain\<close> (audit/): canonical payloads, event ids, chain hash, verifier, anchors and service.  The verifier accepts exactly
    the valid chains; a changed row breaks the chain or exhibits a SHA-256 collision; the locale \<open>anchor_publisher\<close> is the
    contract of the anchor store.
  \<^item> \<open>Governance\<close> (governance/): the transition table and the engine over its ports; the locale \<open>governed_engine\<close> states what a store and
    an appender promise, and what the engine then does.
  \<^item> \<open>Store\<close>, \<open>Listing\<close> (store/postgres: objects, edges, governance, audit, idempotency, authority tables): tables as lists of rows, one
    definition per operation; the interpretation of \<open>governed_engine\<close>; listing pages enumerate every object once.
  \<^item> \<open>ControlPlane\<close>: the writing operations as a step relation on databases; invariants of reachable databases by rule
    induction (chains verify, history only grows, an operation id is audited once, objects stay valid along engine steps).
  \<^item> \<open>Graph\<close> (graph/, graph_traversal_repo.go), \<open>Authority\<close>, \<open>AuthorityState\<close> (authority/): traversal equals the closure and finds exactly the
    elementary cycles; the resolver refines the declarative state model.  Locales \<open>graph_traversal\<close> and \<open>authority_source\<close>.
  \<^item> \<open>Webhooks\<close>, \<open>EventDelivery\<close>, \<open>DeliveryGuarantees\<close> (events/, webhook stores): data and signed payloads, the four workers, and their
    guarantees; \<open>log_tailer\<close> is the contract shared by the relay and the policy consumer.
  \<^item> \<open>Policy\<close>, \<open>PolicyGuarantees\<close> (policy/, policy_store.go): conditions, actions, consumer and executor; each matching policy fires once
    and a failing or panicking one is contained.
  \<^item> \<open>Timeline\<close> (timeline/, timeline_store.go), \<open>Compliance\<close> (compliance/), \<open>Integrity\<close> (ops/): the read models and the sweep.
  \<^item> \<open>Configuration\<close> (config/), \<open>Http\<close>, \<open>Access\<close> (auth/, httpapi middleware and the table of routes): environment, problems and error
    mapping, entity tags, tokens with the key-set cache, roles; every production request is authorized.
  \<^item> \<open>Artifacts\<close>, \<open>GovernanceApi\<close>, \<open>GraphApi\<close>, \<open>EventsApi\<close>, \<open>PolicyApi\<close>, \<open>QueryApi\<close>, \<open>OpsApi\<close> (httpapi handlers; also compliance/export.go, diag/,
    store/migrate, pool.go, and the adapters of cmd/controlplane/main.go): request decoding, handlers on every branch and
    response encoding, over ports that may fail, with the PostgreSQL ports as instances.  Idempotent creation replays, stale patches
    are refused, a governance answer is 200 exactly when the event is recorded, webhook secrets stay hidden, migrations
    run once and in order, diagnostics follow the stored chains.
  \<^item> \<open>Sdk\<close> (sdk/client.go, errors.go, governance.go), \<open>SdkApi\<close> (the rest of sdk/): the retry loop, the write operations, and every query,
    administration and event method with its path, body and decoder; the locale \<open>at_most_once\<close> is what the
    client relies on, interpreted on the governance endpoint behind a network that may lose requests and answers.
  \<^item> \<open>RemoteCalls\<close>: client and server together: the handler reads the command the call stands for, the client reads the answer or
    the problem the handler wrote, so that a call whose attempt arrives returns what the engine returned.
  \<^item> \<open>Metrics\<close> (metrics.go of ops, events, policy, timeline, compliance and observability, consume_metrics.go, executive_metrics.go,
    summary.go): collectors as names, calls on them as samples beside the results; instrumentation changes no result and the
    counters follow what was committed, attempted and answered.
  \<^item> \<open>Workers\<close> (the constructors and the loops \<^verbatim>\<open>Run\<close> of events/, policy/ and ops/integrity.go): a pass at once and one per tick until
    the context ends; the locale \<open>background\<close> gives every loop the invariant of its passes among the steps of the rest.
  \<^item> \<open>Startup\<close> (cmd/controlplane/main.go, httpapi/server.go and pprof.go, the logging middleware, tracing.go, pool.go): the wired server
    and the routes it mounts, the middleware around them, and the run of the process as the list of what it does.

  \<^bold>\<open>State and effects.\<close>  A struct is a record, an enumerated string type a string with its validity predicate.  A port is a record of
  functions on a state; an error is a value of \<open>err\<close>, a returned pair a sum or an option, a panic a value of its own (\<open>outcome\<close>,
  \<open>HandlerPanic\<close>).  The database is the record \<open>db\<close>, the webhook and policy tables are \<open>hooks\<close> and \<open>policies\<close>.

  \<^bold>\<open>Bounds and fuel.\<close>  The JSON parser has the fuel \<open>parse_fuel\<close>, twice the length of its input plus two, one unit for each value or member and so never
  exhausted; it refuses nesting over 10000 as the Go scanner does.  A level-by-level walk has one more step than there are edges, the
  supersession check as much fuel as the scope has objects; both are proved to be enough.  Loops that may not end are option-valued
  (the active set, replay pages, the wait for the database), and the active set, the replay and, with a clock that moves, the wait are proved to return.  Page sequences
  (\<open>follow_pages\<close>, \<open>follow_list\<close>) are proved to end within the number of rows.  Integers of 64 bits wrap where the code can
  overflow (backoff, retry counts, page ends); 32-bit columns refuse what does not fit.

  \<^bold>\<open>Parameters.\<close>  The clock, drawn identifiers and random bytes; the HTTP client; what a \<^verbatim>\<open>timestamptz\<close> or \<^verbatim>\<open>jsonb\<close> column makes of a value (\<open>pg\<close>,
  \<open>jsonb\<close>); full-text search; the offset in which a time is printed; the texts of floating-point numbers; the JWT package, by the
  contract \<open>jwt_contract\<close>; the backends of policy actions; the writer of zip archives; the values of the metrics; the packages for
  tracing and the connection pool and the outcomes of listening and shutting down.

  \<^bold>\<open>Not modelled, and why.\<close>  Failures of the PostgreSQL server inside an adapter (the services are defined over ports that may fail, the
  adapters over tables that answer), its collation (strings compare by bytes) and its locking beyond the serial order of committed
  transactions; path matching of the router package; the texts of log lines other than the request log, tracing spans and the
  no-op recorders, which no modelled code reads back; the embedded pages and the profiler, which are served as they are; the
  hooks and the per-attempt timeout of the client, which change no result; random identifiers, which are parameters; the text that
  wraps an error of the driver, which is shortened.
\<close>

end
